(* ===== verification/Prelude.thy ===== *)
theory Prelude
  imports
    Main
    "HOL-Library.Word"
    "HOL-Library.Multiset"
    "HOL-Library.Char_ord"
    "HOL-Library.List_Lexorder"
    "HOL-Library.Monad_Syntax"
begin

text \<open>
  What the Go language and its standard library contribute to every component:
  integers of fixed width, byte slices, maps whose iteration order is not
  determined, errors as values, instants and durations, and the contract of
  package \<open>sort\<close>. The component theories use these names instead of repeating
  the encodings.
\<close>

section \<open>Numbers, bytes and strings\<close>

text \<open>
  Unsigned Go integers are words. \<open>int\<close> and \<open>int64\<close> are HOL integers; where the
  source converts between the signed and the unsigned type the conversion is
  written out (\<open>uint64_of\<close>, \<open>int64_of\<close>), so that a wrap-around is visible.
  A Go string is a sequence of bytes, here a \<^typ>\<open>string\<close>.
\<close>

type_synonym uint64 = "64 word"
type_synonym uint32 = "32 word"
type_synonym uint16 = "16 word"
type_synonym byte = "8 word"
type_synonym bytes = "byte list"

definition uint64_of :: "int \<Rightarrow> uint64" where
  "uint64_of i = word_of_int i"

definition int64_of :: "uint64 \<Rightarrow> int" where
  "int64_of w = sint w"

lemma uint64_of_0 [simp]: "uint64_of 0 = 0"
  by (simp add: uint64_of_def)

lemma unat_uint64_of: "0 \<le> i \<Longrightarrow> i < 2 ^ 64 \<Longrightarrow> unat (uint64_of i) = nat i"
  by (simp add: uint64_of_def unat_eq_nat_uint uint_word_of_int)

section \<open>Instants and durations\<close>

text \<open>
  \<open>time.Time\<close> is the number of nanoseconds since the zero time; \<open>Time{}\<close> is 0.
  \<open>Sub\<close> saturates at the bounds of a 64-bit \<open>Duration\<close>.
\<close>

type_synonym gotime = int
type_synonym duration = int

definition zero_time :: gotime where
  "zero_time = 0"

definition minDuration :: duration where
  "minDuration = - (2 ^ 63)"

definition maxDuration :: duration where
  "maxDuration = 2 ^ 63 - 1"

definition time_Sub :: "gotime \<Rightarrow> gotime \<Rightarrow> duration" where
  "time_Sub t u = max minDuration (min maxDuration (t - u))"

definition Second :: duration where
  "Second = 1000000000"

definition Millisecond :: duration where
  "Millisecond = 1000000"

lemma time_Sub_gt: "maxDuration > d \<Longrightarrow> d < t - u \<Longrightarrow> d < time_Sub t u"
  by (auto simp: time_Sub_def)

lemma time_Sub_le: "0 \<le> d \<Longrightarrow> t - u \<le> d \<Longrightarrow> time_Sub t u \<le> d"
  by (auto simp: time_Sub_def minDuration_def)

section \<open>Errors\<close>

text \<open>
  Go errors are values. The sentinel variables of the program are constructors,
  \<open>errors.New\<close> is \<open>NewError\<close>, \<open>fmt.Errorf\<close> with \<open>%w\<close> is \<open>Wrap\<close>, \<open>errors.Join\<close> of
  two errors is \<open>Join\<close>, a gRPC status is \<open>Status\<close>, and an error of code outside
  the repository (an operating-system call, a connection, Raft) is \<open>Foreign\<close>,
  and a run-time panic, which unwinds the operation, is \<open>Panic\<close>.
  The text kept is the constant part of the message.
\<close>

datatype grpc_code =
    Canceled | Unknown | InvalidArgument | DeadlineExceeded | NotFound | AlreadyExists
  | PermissionDenied | ResourceExhausted | FailedPrecondition | Aborted | OutOfRange
  | Unimplemented | Internal | Unavailable | DataLoss | Unauthenticated

datatype goerror =
    ErrNodeNotFound | ErrFileNotFound | ErrChunkNotFound | ErrJobNotFound
  | ErrMetadataNodeNotFound
  | DfsErrInvalidChunkId | DfsErrChunkNotFound | DfsErrChecksumMismatch
  | DfsErrInsufficientSpace | DfsErrFailedToDelete | DfsErrVerifyFailed
  | ErrDatabaseNotOpened | ErrDatabaseAlreadyOpened | ErrKeyNotFound | ErrBucketNotFound
  | ErrEmptyKey
  | ErrOperationAborted | ErrWriterClosed
  | EOF
  | NewError string
  | Wrap string goerror
  | Join goerror goerror
  | Status grpc_code string
  | Foreign nat
  | Panic string

type_synonym 'a result = "goerror + 'a"

text \<open>\<open>errors.Is\<close>: the target occurs in the tree of wrapped errors.\<close>

fun errors_Is :: "goerror \<Rightarrow> goerror \<Rightarrow> bool" where
  "errors_Is (Wrap m e) t \<longleftrightarrow> Wrap m e = t \<or> errors_Is e t"
| "errors_Is (Join a b) t \<longleftrightarrow> Join a b = t \<or> errors_Is a t \<or> errors_Is b t"
| "errors_Is e t \<longleftrightarrow> e = t"

section \<open>Maps and their iteration order\<close>

text \<open>
  A Go map with string keys is a partial function. \<open>for k, v := range m\<close> visits
  the entries in an order the language leaves open and that may differ from one
  loop to the next, so an operation that ranges over a map takes the order as an
  argument: a list of the keys, each once (\<open>range_order\<close>). A theorem that holds
  for every admissible order holds for every run of the loop.
\<close>

type_synonym 'v gomap = "string \<rightharpoonup> 'v"

definition range_order :: "string list \<Rightarrow> 'v gomap \<Rightarrow> bool" where
  "range_order ord m \<longleftrightarrow> distinct ord \<and> set ord = dom m"

definition range_values :: "string list \<Rightarrow> 'v gomap \<Rightarrow> 'v list" where
  "range_values ord m = List.map_filter m ord"

lemma range_values_Nil [simp]: "range_values [] m = []"
  by (simp add: range_values_def map_filter_simps)

lemma range_values_Cons [simp]:
  "range_values (k # ord) m =
     (case m k of None \<Rightarrow> range_values ord m | Some v \<Rightarrow> v # range_values ord m)"
  by (simp add: range_values_def map_filter_simps split: option.split)

lemma set_range_values: "set (range_values ord m) = {v. \<exists>k \<in> set ord. m k = Some v}"
  by (induction ord) (auto split: option.splits)

lemma set_range_values_ran: "range_order ord m \<Longrightarrow> set (range_values ord m) = ran m"
  by (auto simp: set_range_values range_order_def ran_def)

lemma length_range_values: "range_order ord m \<Longrightarrow> length (range_values ord m) = card (dom m)"
proof -
  assume ro: "range_order ord m"
  have "set ord \<subseteq> dom m \<Longrightarrow> length (range_values ord m) = length ord"
    by (induction ord) (auto split: option.splits)
  with ro show ?thesis
    by (simp add: range_order_def distinct_card [symmetric])
qed

text \<open>Where a field of the entries repeats the key, ranging lists each entry once.\<close>

lemma map_key_range_values:
  assumes "\<And>k v. m k = Some v \<Longrightarrow> f v = k"
  shows "map f (range_values ord m) = filter (\<lambda>k. m k \<noteq> None) ord"
  by (induction ord) (auto simp: assms split: option.splits)

lemma distinct_range_values:
  assumes "range_order ord m" and "\<And>k v. m k = Some v \<Longrightarrow> f v = k"
  shows "distinct (map f (range_values ord m))"
  using assms(1) by (simp add: map_key_range_values [of m f, OF assms(2)] range_order_def)

text \<open>Two orders of the same map list the same entries.\<close>

lemma mset_range_values:
  assumes "range_order ord m" and "range_order ord' m"
  shows "mset (range_values ord m) = mset (range_values ord' m)"
proof -
  have "mset ord = mset ord'"
    using assms set_eq_iff_mset_eq_distinct [of ord ord'] by (simp add: range_order_def)
  moreover have "mset (range_values ks m) = image_mset (the \<circ> m) (filter_mset (\<lambda>k. m k \<noteq> None) (mset ks))"
    for ks :: "string list"
    by (induction ks) (auto split: option.splits)
  ultimately show ?thesis by simp
qed

section \<open>Sorting\<close>

text \<open>
  \<open>sort.Sort\<close> and \<open>sort.Slice\<close> order a slice by a \<open>less\<close> function; the order among
  elements that compare equal is not specified. \<open>sort_spec\<close> is that contract, and
  an operation that sorts takes the sorting function as an argument. The library
  runs an insertion sort on slices of up to twelve elements: \<open>insertionSort\<close>.
\<close>

definition weak_order :: "('a \<Rightarrow> 'a \<Rightarrow> bool) \<Rightarrow> bool" where
  "weak_order lt \<longleftrightarrow>
     (\<forall>x y. lt x y \<longrightarrow> \<not> lt y x) \<and> (\<forall>x y z. \<not> lt x y \<and> \<not> lt y z \<longrightarrow> \<not> lt x z)"

definition sorted_by :: "('a \<Rightarrow> 'a \<Rightarrow> bool) \<Rightarrow> 'a list \<Rightarrow> bool" where
  "sorted_by lt xs \<longleftrightarrow> sorted_wrt (\<lambda>a b. \<not> lt b a) xs"

type_synonym 'a sorter = "('a \<Rightarrow> 'a \<Rightarrow> bool) \<Rightarrow> 'a list \<Rightarrow> 'a list"

definition sort_spec :: "'a sorter \<Rightarrow> bool" where
  "sort_spec srt \<longleftrightarrow>
     (\<forall>lt xs. mset (srt lt xs) = mset xs \<and> (weak_order lt \<longrightarrow> sorted_by lt (srt lt xs)))"

fun shift_in :: "('a \<Rightarrow> 'a \<Rightarrow> bool) \<Rightarrow> 'a \<Rightarrow> 'a list \<Rightarrow> 'a list" where
  "shift_in lt x [] = [x]"
| "shift_in lt x (y # ys) = (if lt x y then y # shift_in lt x ys else x # y # ys)"

definition insertionSort :: "'a sorter" where
  "insertionSort lt xs = rev (fold (shift_in lt) xs [])"

lemma mset_shift_in: "mset (shift_in lt x ys) = add_mset x (mset ys)"
  by (induction ys) auto

lemma set_shift_in: "set (shift_in lt x ys) = insert x (set ys)"
  by (induction ys) auto

lemma mset_fold_shift_in: "mset (fold (shift_in lt) xs ys) = mset xs + mset ys"
  by (induction xs arbitrary: ys) (auto simp: mset_shift_in)

lemma sorted_shift_in:
  assumes "weak_order lt"
  shows "sorted_wrt (\<lambda>a b. \<not> lt a b) ys \<Longrightarrow> sorted_wrt (\<lambda>a b. \<not> lt a b) (shift_in lt x ys)"
proof (induction ys)
  case Nil
  then show ?case by simp
next
  case (Cons y ys)
  have asym: "\<not> lt y x" if "lt x y" using assms that unfolding weak_order_def by blast
  have negtrans: "\<not> lt x z" if "\<not> lt x y" "\<not> lt y z" for z
    using assms that unfolding weak_order_def by blast
  show ?case
  proof (cases "lt x y")
    case True
    with Cons asym show ?thesis by (simp add: set_shift_in)
  next
    case False
    with Cons.prems negtrans show ?thesis by simp
  qed
qed

lemma sorted_fold_shift_in:
  "weak_order lt \<Longrightarrow> sorted_wrt (\<lambda>a b. \<not> lt a b) ys
   \<Longrightarrow> sorted_wrt (\<lambda>a b. \<not> lt a b) (fold (shift_in lt) xs ys)"
  by (induction xs arbitrary: ys) (auto simp: sorted_shift_in)

lemma insertionSort_spec: "sort_spec insertionSort"
  by (simp add: sort_spec_def insertionSort_def mset_fold_shift_in sorted_by_def sorted_wrt_rev
      sorted_fold_shift_in)

lemma sort_spec_mset: "sort_spec srt \<Longrightarrow> mset (srt lt xs) = mset xs"
  by (simp add: sort_spec_def)

lemma sort_spec_set: "sort_spec srt \<Longrightarrow> set (srt lt xs) = set xs"
  by (rule mset_eq_setD) (rule sort_spec_mset)

lemma sort_spec_length: "sort_spec srt \<Longrightarrow> length (srt lt xs) = length xs"
  by (rule mset_eq_length) (rule sort_spec_mset)

lemma sort_spec_distinct_map: "sort_spec srt \<Longrightarrow> distinct (map f (srt lt xs)) = distinct (map f xs)"
  by (rule mset_eq_imp_distinct_iff) (simp add: sort_spec_mset)

lemma sort_spec_sorted: "sort_spec srt \<Longrightarrow> weak_order lt \<Longrightarrow> sorted_by lt (srt lt xs)"
  by (simp add: sort_spec_def)

text \<open>Taking a prefix of a sorted slice leaves nothing smaller behind.\<close>

lemma sorted_by_take:
  assumes "sorted_by lt xs" and "a \<in> set (take n xs)" and "b \<in> set (drop n xs)"
  shows "\<not> lt b a"
proof -
  have "sorted_wrt (\<lambda>a b. \<not> lt b a) (take n xs @ drop n xs)"
    using assms(1) by (simp add: sorted_by_def)
  then show ?thesis using assms(2,3) unfolding sorted_wrt_append by blast
qed

section \<open>Lists\<close>

text \<open>Removing the first occurrence of an element, as \<open>append(xs[:i], xs[i+1:]...)\<close>.\<close>

lemma remove1_conv_take_drop:
  "i < length xs \<Longrightarrow> xs ! i = x \<Longrightarrow> x \<notin> set (take i xs) \<Longrightarrow> take i xs @ drop (Suc i) xs = remove1 x xs"
proof (induction xs arbitrary: i)
  case Nil
  then show ?case by simp
next
  case (Cons y ys)
  then show ?case by (cases i) auto
qed

lemma option_case_bind: "(case x of None \<Rightarrow> None | Some a \<Rightarrow> f a) = Option.bind x f"
  by (cases x) auto

text \<open>A search with at most one match does not depend on the order of the list.\<close>

lemma find_unique:
  assumes same: "set xs = set ys"
    and unique: "\<And>x y. x \<in> set xs \<Longrightarrow> y \<in> set xs \<Longrightarrow> P x \<Longrightarrow> P y \<Longrightarrow> x = y"
  shows "find P xs = find P ys"
proof (cases "find P xs")
  case None
  with same have "find P ys = None" by (simp add: find_None_iff)
  with None show ?thesis by simp
next
  case (Some x)
  then have x: "x \<in> set xs" "P x" by (auto simp: find_Some_iff)
  with same obtain y where y: "find P ys = Some y"
    by (cases "find P ys") (auto simp: find_None_iff)
  then have "y \<in> set ys" "P y" by (auto simp: find_Some_iff)
  with x same unique have "x = y" by blast
  with Some y show ?thesis by simp
qed

section \<open>Sub-multisets of lists\<close>

lemma mset_take_subset: "mset (take n xs) \<subseteq># mset xs"
  by (metis append_take_drop_id mset_append mset_subset_eq_add_left)

lemma mset_subset_distinct:
  assumes "mset xs \<subseteq># mset ys" "distinct ys"
  shows "distinct xs"
  unfolding distinct_count_atmost_1
proof
  fix a
  have le: "count (mset xs) a \<le> count (mset ys) a" using assms(1) by (rule mset_subset_eq_count)
  have one: "count (mset ys) a \<le> 1" using assms(2) by (simp add: distinct_count_atmost_1)
  show "count (mset xs) a = (if a \<in> set xs then 1 else 0)"
  proof (cases "a \<in> set xs")
    case True
    then have "0 < count (mset xs) a" by simp
    with le one have "count (mset xs) a = 1" by linarith
    with True show ?thesis by simp
  next
    case False
    then show ?thesis by simp
  qed
qed

end
