(* ===== verification/Json.thy ===== *)
theory Json
  imports Prelude
begin

text \<open>
  The part of \<open>encoding/json\<close> the program uses: commands travel through the Raft
  log and snapshots through the snapshot store as JSON documents. A document is
  modelled as its tree. Instants and byte slices, which the library writes as
  strings (RFC 3339, base64), are leaves of their own, and a byte slice that itself
  holds a document (the payload of a command) is \<open>JDoc\<close>.

  Decoding a struct follows \<open>json.Unmarshal\<close>: a field that is absent or \<open>null\<close>
  keeps its zero value, an unknown field is skipped, the last of several equal
  keys counts, and a value of the wrong shape is an error (here \<open>None\<close>).
  Keys are matched exactly; the library's fallback to a case-insensitive match is
  never needed for documents that \<open>json.Marshal\<close> wrote for the same struct.
\<close>

datatype json =
    JNull
  | JBool bool
  | JNum int
  | JStr string
  | JTime gotime
  | JBytes bytes
  | JDoc json
  | JArr "json list"
  | JObj "(string \<times> json) list"

type_synonym fields = "(string \<times> json) list"

named_theorems json_codec \<open>encoders, decoders and field access\<close>

section \<open>Decoding the fields of a struct\<close>

fun json_object :: "json \<Rightarrow> fields option" where
  "json_object (JObj fs) = Some fs"
| "json_object JNull = Some []"
| "json_object _ = None"

fun json_lookup :: "string \<Rightarrow> fields \<Rightarrow> json option \<Rightarrow> json option" where
  "json_lookup k [] acc = acc"
| "json_lookup k ((k', v) # fs) acc = json_lookup k fs (if k' = k then Some v else acc)"

definition json_field :: "(json \<Rightarrow> 'a option) \<Rightarrow> 'a \<Rightarrow> string \<Rightarrow> fields \<Rightarrow> 'a option" where
  "json_field dec zero k fs =
     (case json_lookup k fs None of
        None \<Rightarrow> Some zero
      | Some JNull \<Rightarrow> Some zero
      | Some v \<Rightarrow> dec v)"

section \<open>Leaves\<close>

fun dec_string :: "json \<Rightarrow> string option" where
  "dec_string (JStr s) = Some s"
| "dec_string _ = None"

fun dec_bool :: "json \<Rightarrow> bool option" where
  "dec_bool (JBool b) = Some b"
| "dec_bool _ = None"

fun dec_uint64 :: "json \<Rightarrow> uint64 option" where
  "dec_uint64 (JNum n) = (if 0 \<le> n \<and> n < 2 ^ 64 then Some (word_of_int n) else None)"
| "dec_uint64 _ = None"

fun dec_int64 :: "json \<Rightarrow> int option" where
  "dec_int64 (JNum n) = (if - (2 ^ 63) \<le> n \<and> n < 2 ^ 63 then Some n else None)"
| "dec_int64 _ = None"

fun dec_time :: "json \<Rightarrow> gotime option" where
  "dec_time (JTime t) = Some t"
| "dec_time _ = None"

fun dec_bytes :: "json \<Rightarrow> bytes option" where
  "dec_bytes (JBytes b) = Some b"
| "dec_bytes _ = None"

fun dec_strings :: "json \<Rightarrow> string list option" where
  "dec_strings (JArr vs) = those (map dec_string vs)"
| "dec_strings _ = None"

fun dec_doc :: "json \<Rightarrow> json option" where
  "dec_doc (JDoc d) = Some d"
| "dec_doc _ = None"

definition enc_uint64 :: "uint64 \<Rightarrow> json" where
  "enc_uint64 w = JNum (uint w)"

definition enc_strings :: "string list \<Rightarrow> json" where
  "enc_strings xs = JArr (map JStr xs)"

section \<open>Round trips of the leaves\<close>

lemma those_map_Some [simp]: "those (map (\<lambda>x. Some (f x)) xs) = Some (map f xs)"
  by (induction xs) auto

lemma dec_enc_uint64 [json_codec]: "dec_uint64 (enc_uint64 w) = Some w"
  using uint_lt2p [of w] by (simp add: enc_uint64_def)

lemma dec_enc_strings [json_codec]: "dec_strings (enc_strings xs) = Some xs"
proof -
  have "map (dec_string \<circ> JStr) xs = map (\<lambda>x. Some (id x)) xs" by simp
  then show ?thesis unfolding enc_strings_def dec_strings.simps map_map
    by (simp only: those_map_Some list.map_id)
qed

lemma enc_leaf_not_null [json_codec]:
  "enc_uint64 w \<noteq> JNull" "enc_strings xs \<noteq> JNull"
  by (simp_all add: enc_uint64_def enc_strings_def)

text \<open>Field access on an explicit list of fields, split by whether the value is null.\<close>

lemma json_field_found [json_codec]:
  "json_lookup k fs None = Some v \<Longrightarrow> v \<noteq> JNull \<Longrightarrow> json_field dec zero k fs = dec v"
  by (cases v) (simp_all add: json_field_def)

lemma json_field_absent [json_codec]:
  "json_lookup k fs None = None \<Longrightarrow> json_field dec zero k fs = Some zero"
  by (simp add: json_field_def)

end
