(* ===== verification/Fsm_Types.thy ===== *)
theory Fsm_Types
  imports Json
begin

text \<open>
  The data of the metadata service: \<open>metadata/fsm/types.go\<close> (the records of the
  five registries) and \<open>metadata/fsm/commands.go\<close> (the commands of the Raft log),
  with the JSON form their struct tags give them. The status types are Go strings
  with named constants, not closed enumerations, and stay strings here: a zero
  record has the empty status.
\<close>

section \<open>Status values\<close>

type_synonym FileStatus = string

definition FileStatusCreating :: FileStatus where
  "FileStatusCreating = ''creating''"

definition FileStatusComplete :: FileStatus where
  "FileStatusComplete = ''complete''"

definition FileStatusDeleted :: FileStatus where
  "FileStatusDeleted = ''deleted''"

lemma FileStatus_distinct [simp]:
  "FileStatusCreating \<noteq> FileStatusComplete"
  "FileStatusCreating \<noteq> FileStatusDeleted"
  "FileStatusComplete \<noteq> FileStatusCreating"
  "FileStatusComplete \<noteq> FileStatusDeleted"
  "FileStatusDeleted \<noteq> FileStatusCreating"
  "FileStatusDeleted \<noteq> FileStatusComplete"
  by (simp_all add: FileStatusCreating_def FileStatusComplete_def FileStatusDeleted_def)

type_synonym ChunkStatus = string

definition ChunkStatusAllocated :: ChunkStatus where
  "ChunkStatusAllocated = ''allocated''"

definition ChunkStatusComplete :: ChunkStatus where
  "ChunkStatusComplete = ''complete''"

definition ChunkStatusLost :: ChunkStatus where
  "ChunkStatusLost = ''lost''"

lemma ChunkStatus_distinct [simp]:
  "ChunkStatusAllocated \<noteq> ChunkStatusComplete"
  "ChunkStatusAllocated \<noteq> ChunkStatusLost"
  "ChunkStatusComplete \<noteq> ChunkStatusAllocated"
  "ChunkStatusComplete \<noteq> ChunkStatusLost"
  "ChunkStatusLost \<noteq> ChunkStatusAllocated"
  "ChunkStatusLost \<noteq> ChunkStatusComplete"
  by (simp_all add: ChunkStatusAllocated_def ChunkStatusComplete_def ChunkStatusLost_def)

type_synonym NodeStatus = string

definition NodeStatusAlive :: NodeStatus where
  "NodeStatusAlive = ''alive''"

definition NodeStatusSuspect :: NodeStatus where
  "NodeStatusSuspect = ''suspect''"

definition NodeStatusDead :: NodeStatus where
  "NodeStatusDead = ''dead''"

definition NodeStatusDraining :: NodeStatus where
  "NodeStatusDraining = ''draining''"

lemma NodeStatus_distinct [simp]:
  "NodeStatusAlive \<noteq> NodeStatusSuspect"
  "NodeStatusAlive \<noteq> NodeStatusDead"
  "NodeStatusAlive \<noteq> NodeStatusDraining"
  "NodeStatusSuspect \<noteq> NodeStatusAlive"
  "NodeStatusSuspect \<noteq> NodeStatusDead"
  "NodeStatusSuspect \<noteq> NodeStatusDraining"
  "NodeStatusDead \<noteq> NodeStatusAlive"
  "NodeStatusDead \<noteq> NodeStatusSuspect"
  "NodeStatusDead \<noteq> NodeStatusDraining"
  "NodeStatusDraining \<noteq> NodeStatusAlive"
  "NodeStatusDraining \<noteq> NodeStatusSuspect"
  "NodeStatusDraining \<noteq> NodeStatusDead"
  by (simp_all add: NodeStatusAlive_def NodeStatusSuspect_def NodeStatusDead_def NodeStatusDraining_def)

type_synonym RepairStatus = string

definition RepairStatusPending :: RepairStatus where
  "RepairStatusPending = ''pending''"

definition RepairStatusInProgress :: RepairStatus where
  "RepairStatusInProgress = ''in-progress''"

definition RepairStatusDone :: RepairStatus where
  "RepairStatusDone = ''done''"

definition RepairStatusFailed :: RepairStatus where
  "RepairStatusFailed = ''failed''"

lemma RepairStatus_distinct [simp]:
  "RepairStatusPending \<noteq> RepairStatusInProgress"
  "RepairStatusPending \<noteq> RepairStatusDone"
  "RepairStatusPending \<noteq> RepairStatusFailed"
  "RepairStatusInProgress \<noteq> RepairStatusPending"
  "RepairStatusInProgress \<noteq> RepairStatusDone"
  "RepairStatusInProgress \<noteq> RepairStatusFailed"
  "RepairStatusDone \<noteq> RepairStatusPending"
  "RepairStatusDone \<noteq> RepairStatusInProgress"
  "RepairStatusDone \<noteq> RepairStatusFailed"
  "RepairStatusFailed \<noteq> RepairStatusPending"
  "RepairStatusFailed \<noteq> RepairStatusInProgress"
  "RepairStatusFailed \<noteq> RepairStatusDone"
  by (simp_all add: RepairStatusPending_def RepairStatusInProgress_def RepairStatusDone_def RepairStatusFailed_def)

section \<open>Registry records\<close>

record FileRecord =
  fr_FileID    :: string
  fr_Filename  :: string
  fr_FileSize  :: uint64
  fr_ChunkSize :: uint64
  fr_CheckSum  :: bytes
  fr_ChunkIDs  :: "string list"
  fr_Status    :: FileStatus
  fr_CreatedAt :: gotime
  fr_UpdatedAt :: gotime

record ChunkRecord =
  cr_ChunkID    :: string
  cr_FileID     :: string
  cr_ChunkIndex :: int
  cr_Size       :: int
  cr_Checksum   :: bytes
  cr_Replicas   :: "string list"
  cr_Status     :: ChunkStatus
  cr_Version    :: int

record NodeEntry =
  ne_NodeID       :: string
  ne_Address      :: string
  ne_Status       :: NodeStatus
  ne_FreeSpace    :: uint64
  ne_ChunkCount   :: uint64
  ne_LastSeen     :: gotime
  ne_RegisteredAt :: gotime
  ne_UpdatedAt    :: gotime

record RepairJob =
  rj_JobID        :: string
  rj_ChunkID      :: string
  rj_Error        :: string
  rj_DeleteSource :: bool
  rj_SourceNodeID :: string
  rj_TargetNodeID :: string
  rj_Status       :: RepairStatus
  rj_Attempts     :: uint64
  rj_CreatedAt    :: gotime
  rj_UpdatedAt    :: gotime

record MetadataNodeEntry =
  mn_NodeID   :: string
  mn_RaftAddr :: string
  mn_GrpcAddr :: string

text \<open>The zero value of a node entry, \<open>fsm.NodeEntry{}\<close>.\<close>

definition zero_NodeEntry :: NodeEntry where
  "zero_NodeEntry = \<lparr>ne_NodeID = '''', ne_Address = '''', ne_Status = '''', ne_FreeSpace = 0,
     ne_ChunkCount = 0, ne_LastSeen = zero_time, ne_RegisteredAt = zero_time,
     ne_UpdatedAt = zero_time\<rparr>"

section \<open>JSON form of the registry records\<close>

text \<open>
  \<open>LastSeen\<close> carries the tag \<open>json:"-"\<close>: it is not written, and reading leaves it
  at the zero time.
\<close>

definition enc_FileRecord :: "FileRecord \<Rightarrow> json" where
  "enc_FileRecord f = JObj
     [(''file_id'', JStr (fr_FileID f)),
      (''filename'', JStr (fr_Filename f)),
      (''file_size'', enc_uint64 (fr_FileSize f)),
      (''chunk_size'', enc_uint64 (fr_ChunkSize f)),
      (''checksum'', JBytes (fr_CheckSum f)),
      (''chunk_ids'', enc_strings (fr_ChunkIDs f)),
      (''status'', JStr (fr_Status f)),
      (''created_at'', JTime (fr_CreatedAt f)),
      (''updated_at'', JTime (fr_UpdatedAt f))]"

definition dec_FileRecord :: "json \<Rightarrow> FileRecord option" where
  "dec_FileRecord j = do {
     fs \<leftarrow> json_object j;
     x0 \<leftarrow> json_field dec_string '''' ''file_id'' fs;
     x1 \<leftarrow> json_field dec_string '''' ''filename'' fs;
     x2 \<leftarrow> json_field dec_uint64 0 ''file_size'' fs;
     x3 \<leftarrow> json_field dec_uint64 0 ''chunk_size'' fs;
     x4 \<leftarrow> json_field dec_bytes [] ''checksum'' fs;
     x5 \<leftarrow> json_field dec_strings [] ''chunk_ids'' fs;
     x6 \<leftarrow> json_field dec_string '''' ''status'' fs;
     x7 \<leftarrow> json_field dec_time zero_time ''created_at'' fs;
     x8 \<leftarrow> json_field dec_time zero_time ''updated_at'' fs;
     Some \<lparr>fr_FileID = x0,
       fr_Filename = x1,
       fr_FileSize = x2,
       fr_ChunkSize = x3,
       fr_CheckSum = x4,
       fr_ChunkIDs = x5,
       fr_Status = x6,
       fr_CreatedAt = x7,
       fr_UpdatedAt = x8\<rparr> }"

definition enc_ChunkRecord :: "ChunkRecord \<Rightarrow> json" where
  "enc_ChunkRecord c = JObj
     [(''chunk_id'', JStr (cr_ChunkID c)),
      (''file_id'', JStr (cr_FileID c)),
      (''chunk_index'', JNum (cr_ChunkIndex c)),
      (''size'', JNum (cr_Size c)),
      (''checksum'', JBytes (cr_Checksum c)),
      (''replicas'', enc_strings (cr_Replicas c)),
      (''status'', JStr (cr_Status c)),
      (''version'', JNum (cr_Version c))]"

definition dec_ChunkRecord :: "json \<Rightarrow> ChunkRecord option" where
  "dec_ChunkRecord j = do {
     fs \<leftarrow> json_object j;
     x0 \<leftarrow> json_field dec_string '''' ''chunk_id'' fs;
     x1 \<leftarrow> json_field dec_string '''' ''file_id'' fs;
     x2 \<leftarrow> json_field dec_int64 0 ''chunk_index'' fs;
     x3 \<leftarrow> json_field dec_int64 0 ''size'' fs;
     x4 \<leftarrow> json_field dec_bytes [] ''checksum'' fs;
     x5 \<leftarrow> json_field dec_strings [] ''replicas'' fs;
     x6 \<leftarrow> json_field dec_string '''' ''status'' fs;
     x7 \<leftarrow> json_field dec_int64 0 ''version'' fs;
     Some \<lparr>cr_ChunkID = x0,
       cr_FileID = x1,
       cr_ChunkIndex = x2,
       cr_Size = x3,
       cr_Checksum = x4,
       cr_Replicas = x5,
       cr_Status = x6,
       cr_Version = x7\<rparr> }"

definition enc_NodeEntry :: "NodeEntry \<Rightarrow> json" where
  "enc_NodeEntry n = JObj
     [(''node_id'', JStr (ne_NodeID n)),
      (''address'', JStr (ne_Address n)),
      (''status'', JStr (ne_Status n)),
      (''free_space'', enc_uint64 (ne_FreeSpace n)),
      (''chunk_count'', enc_uint64 (ne_ChunkCount n)),
      (''registered_at'', JTime (ne_RegisteredAt n)),
      (''updated_at'', JTime (ne_UpdatedAt n))]"

definition dec_NodeEntry :: "json \<Rightarrow> NodeEntry option" where
  "dec_NodeEntry j = do {
     fs \<leftarrow> json_object j;
     x0 \<leftarrow> json_field dec_string '''' ''node_id'' fs;
     x1 \<leftarrow> json_field dec_string '''' ''address'' fs;
     x2 \<leftarrow> json_field dec_string '''' ''status'' fs;
     x3 \<leftarrow> json_field dec_uint64 0 ''free_space'' fs;
     x4 \<leftarrow> json_field dec_uint64 0 ''chunk_count'' fs;
     x6 \<leftarrow> json_field dec_time zero_time ''registered_at'' fs;
     x7 \<leftarrow> json_field dec_time zero_time ''updated_at'' fs;
     Some \<lparr>ne_NodeID = x0,
       ne_Address = x1,
       ne_Status = x2,
       ne_FreeSpace = x3,
       ne_ChunkCount = x4,
       ne_LastSeen = zero_time,
       ne_RegisteredAt = x6,
       ne_UpdatedAt = x7\<rparr> }"

definition enc_RepairJob :: "RepairJob \<Rightarrow> json" where
  "enc_RepairJob r = JObj
     [(''job_id'', JStr (rj_JobID r)),
      (''chunk_id'', JStr (rj_ChunkID r)),
      (''error'', JStr (rj_Error r)),
      (''delete_source'', JBool (rj_DeleteSource r)),
      (''source_node_id'', JStr (rj_SourceNodeID r)),
      (''target_node_id'', JStr (rj_TargetNodeID r)),
      (''status'', JStr (rj_Status r)),
      (''attempts'', enc_uint64 (rj_Attempts r)),
      (''created_at'', JTime (rj_CreatedAt r)),
      (''updated_at'', JTime (rj_UpdatedAt r))]"

definition dec_RepairJob :: "json \<Rightarrow> RepairJob option" where
  "dec_RepairJob j = do {
     fs \<leftarrow> json_object j;
     x0 \<leftarrow> json_field dec_string '''' ''job_id'' fs;
     x1 \<leftarrow> json_field dec_string '''' ''chunk_id'' fs;
     x2 \<leftarrow> json_field dec_string '''' ''error'' fs;
     x3 \<leftarrow> json_field dec_bool False ''delete_source'' fs;
     x4 \<leftarrow> json_field dec_string '''' ''source_node_id'' fs;
     x5 \<leftarrow> json_field dec_string '''' ''target_node_id'' fs;
     x6 \<leftarrow> json_field dec_string '''' ''status'' fs;
     x7 \<leftarrow> json_field dec_uint64 0 ''attempts'' fs;
     x8 \<leftarrow> json_field dec_time zero_time ''created_at'' fs;
     x9 \<leftarrow> json_field dec_time zero_time ''updated_at'' fs;
     Some \<lparr>rj_JobID = x0,
       rj_ChunkID = x1,
       rj_Error = x2,
       rj_DeleteSource = x3,
       rj_SourceNodeID = x4,
       rj_TargetNodeID = x5,
       rj_Status = x6,
       rj_Attempts = x7,
       rj_CreatedAt = x8,
       rj_UpdatedAt = x9\<rparr> }"

definition enc_MetadataNodeEntry :: "MetadataNodeEntry \<Rightarrow> json" where
  "enc_MetadataNodeEntry e = JObj
     [(''node_id'', JStr (mn_NodeID e)),
      (''raft_addr'', JStr (mn_RaftAddr e)),
      (''grpc_addr'', JStr (mn_GrpcAddr e))]"

definition dec_MetadataNodeEntry :: "json \<Rightarrow> MetadataNodeEntry option" where
  "dec_MetadataNodeEntry j = do {
     fs \<leftarrow> json_object j;
     x0 \<leftarrow> json_field dec_string '''' ''node_id'' fs;
     x1 \<leftarrow> json_field dec_string '''' ''raft_addr'' fs;
     x2 \<leftarrow> json_field dec_string '''' ''grpc_addr'' fs;
     Some \<lparr>mn_NodeID = x0,
       mn_RaftAddr = x1,
       mn_GrpcAddr = x2\<rparr> }"

lemma dec_enc_FileRecord [json_codec]:
  "dec_FileRecord (enc_FileRecord f) = Some f"
  by (simp add: enc_FileRecord_def dec_FileRecord_def json_codec)

lemma dec_enc_ChunkRecord [json_codec]:
  "- (2 ^ 63) \<le> cr_ChunkIndex c \<Longrightarrow> cr_ChunkIndex c < 2 ^ 63 \<Longrightarrow> - (2 ^ 63) \<le> cr_Size c \<Longrightarrow> cr_Size c < 2 ^ 63 \<Longrightarrow> - (2 ^ 63) \<le> cr_Version c \<Longrightarrow> cr_Version c < 2 ^ 63 \<Longrightarrow> dec_ChunkRecord (enc_ChunkRecord c) = Some c"
  by (simp add: enc_ChunkRecord_def dec_ChunkRecord_def json_codec)

lemma dec_enc_NodeEntry [json_codec]:
  "dec_NodeEntry (enc_NodeEntry n) = Some (n\<lparr>ne_LastSeen := zero_time\<rparr>)"
  by (simp add: enc_NodeEntry_def dec_NodeEntry_def json_codec)

lemma dec_enc_RepairJob [json_codec]:
  "dec_RepairJob (enc_RepairJob r) = Some r"
  by (simp add: enc_RepairJob_def dec_RepairJob_def json_codec)

lemma dec_enc_MetadataNodeEntry [json_codec]:
  "dec_MetadataNodeEntry (enc_MetadataNodeEntry e) = Some e"
  by (simp add: enc_MetadataNodeEntry_def dec_MetadataNodeEntry_def json_codec)

end
