(* ===== verification/Commands.thy ===== *)
theory Commands
  imports Fsm_Types
begin

text \<open>
  The commands of the Raft log, \<open>metadata/fsm/commands.go\<close>: the numbering of the
  command types, one record per command struct, and the encoding of each as the
  payload of a \<open>MetadataCommand\<close>. The round-trip lemmas at the end say that \<open>Apply\<close>
  reads back exactly the command a proposer wrote.
\<close>

section \<open>Command types\<close>

text \<open>The constants are numbered from 0 by \<open>iota\<close>.\<close>

definition CmdRegisterNode :: int where
  "CmdRegisterNode = 0"

definition CmdDeregisterNode :: int where
  "CmdDeregisterNode = 1"

definition CmdMarkNodeDead :: int where
  "CmdMarkNodeDead = 2"

definition CmdMarkNodeAlive :: int where
  "CmdMarkNodeAlive = 3"

definition CmdUpdateNodeSpace :: int where
  "CmdUpdateNodeSpace = 4"

definition CmdCreateFile :: int where
  "CmdCreateFile = 5"

definition CmdCommitFile :: int where
  "CmdCommitFile = 6"

definition CmdDeleteFile :: int where
  "CmdDeleteFile = 7"

definition CmdCommitChunk :: int where
  "CmdCommitChunk = 8"

definition CmdEvictChunkFromNode :: int where
  "CmdEvictChunkFromNode = 9"

definition CmdMarkChunkLost :: int where
  "CmdMarkChunkLost = 10"

definition CmdCreateRepairJob :: int where
  "CmdCreateRepairJob = 11"

definition CmdUpdateRepairJob :: int where
  "CmdUpdateRepairJob = 12"

definition CmdAddChunkReplica :: int where
  "CmdAddChunkReplica = 13"

definition CmdRegisterMetadataNode :: int where
  "CmdRegisterMetadataNode = 14"

definition CmdDeregisterMetadataNode :: int where
  "CmdDeregisterMetadataNode = 15"

lemmas cmd_type_defs =
  CmdRegisterNode_def
  CmdDeregisterNode_def
  CmdMarkNodeDead_def
  CmdMarkNodeAlive_def
  CmdUpdateNodeSpace_def
  CmdCreateFile_def
  CmdCommitFile_def
  CmdDeleteFile_def
  CmdCommitChunk_def
  CmdEvictChunkFromNode_def
  CmdMarkChunkLost_def
  CmdCreateRepairJob_def
  CmdUpdateRepairJob_def
  CmdAddChunkReplica_def
  CmdRegisterMetadataNode_def
  CmdDeregisterMetadataNode_def

section \<open>Command structs\<close>

record CommandRegisterNode =
  crn_NodeID     :: string
  crn_Address    :: string
  crn_FreeSpace  :: uint64
  crn_ChunkCount :: uint64
  crn_CreatedAt  :: gotime

record CommandDeregisterNode =
  cdn_NodeID    :: string
  cdn_UpdatedAt :: gotime

record CommandMarkNodeDead =
  cmd_NodeID    :: string
  cmd_UpdatedAt :: gotime

record CommandMarkNodeAlive =
  cma_NodeID    :: string
  cma_UpdatedAt :: gotime

record CommandUpdateNodeSpace =
  cus_NodeID     :: string
  cus_FreeSpace  :: uint64
  cus_ChunkCount :: uint64
  cus_UpdatedAt  :: gotime

record CommandCreateFile =
  ccf_FileID    :: string
  ccf_FileName  :: string
  ccf_ChunkIDs  :: "string list"
  ccf_FileSize  :: uint64
  ccf_ChunkSize :: uint64
  ccf_Checksum  :: bytes
  ccf_CreatedAt :: gotime

record CommandCommitFile =
  cmf_FileID   :: string
  cmf_FileSize :: uint64
  cmf_Checksum :: bytes

record CommandDeleteFile =
  cdf_FileID :: string

record CommandCommitChunk =
  cmc_ChunkID  :: string
  cmc_NodeIDs  :: "string list"
  cmc_Checksum :: bytes

record CommandEvictChunkFromNode =
  cev_ChunkID   :: string
  cev_NodeID    :: string
  cev_EvictedAt :: gotime
  cev_Reason    :: string

record CommandMarkChunkLost =
  cml_ChunkID :: string

record CommandCreateRepairJob =
  ccr_JobID        :: string
  ccr_CreatedAt    :: gotime
  ccr_ChunkID      :: string
  ccr_DeleteSource :: bool
  ccr_SourceNode   :: string
  ccr_TargetNode   :: string

record CommandUpdateRepairJob =
  cur_JobID      :: string
  cur_Status     :: RepairStatus
  cur_SourceNode :: string
  cur_UpdatedAt  :: gotime
  cur_Attempts   :: uint64
  cur_Error      :: string

record CommandAddChunkReplica =
  car_ChunkID :: string
  car_NodeID  :: string

record CommandRegisterMetadataNode =
  crm_NodeID   :: string
  crm_RaftAddr :: string
  crm_GrpcAddr :: string

record CommandDeregisterMetadataNode =
  cdm_NodeID   :: string
  cdm_RaftAddr :: string

text \<open>
  The envelope of every log entry: the type selects the handler, the payload is the
  JSON encoding of the command struct.
\<close>

record MetadataCommand =
  mc_Type    :: int
  mc_Payload :: json

section \<open>JSON form of the commands\<close>

definition enc_CommandRegisterNode :: "CommandRegisterNode \<Rightarrow> json" where
  "enc_CommandRegisterNode c = JObj
     [(''node_id'', JStr (crn_NodeID c)),
      (''address'', JStr (crn_Address c)),
      (''freespace'', enc_uint64 (crn_FreeSpace c)),
      (''chunkcount'', enc_uint64 (crn_ChunkCount c)),
      (''created_at'', JTime (crn_CreatedAt c))]"

definition dec_CommandRegisterNode :: "json \<Rightarrow> CommandRegisterNode option" where
  "dec_CommandRegisterNode j = do {
     fs \<leftarrow> json_object j;
     x0 \<leftarrow> json_field dec_string '''' ''node_id'' fs;
     x1 \<leftarrow> json_field dec_string '''' ''address'' fs;
     x2 \<leftarrow> json_field dec_uint64 0 ''freespace'' fs;
     x3 \<leftarrow> json_field dec_uint64 0 ''chunkcount'' fs;
     x4 \<leftarrow> json_field dec_time zero_time ''created_at'' fs;
     Some \<lparr>crn_NodeID = x0,
       crn_Address = x1,
       crn_FreeSpace = x2,
       crn_ChunkCount = x3,
       crn_CreatedAt = x4\<rparr> }"

definition enc_CommandDeregisterNode :: "CommandDeregisterNode \<Rightarrow> json" where
  "enc_CommandDeregisterNode c = JObj
     [(''node_id'', JStr (cdn_NodeID c)),
      (''updated_at'', JTime (cdn_UpdatedAt c))]"

definition dec_CommandDeregisterNode :: "json \<Rightarrow> CommandDeregisterNode option" where
  "dec_CommandDeregisterNode j = do {
     fs \<leftarrow> json_object j;
     x0 \<leftarrow> json_field dec_string '''' ''node_id'' fs;
     x1 \<leftarrow> json_field dec_time zero_time ''updated_at'' fs;
     Some \<lparr>cdn_NodeID = x0,
       cdn_UpdatedAt = x1\<rparr> }"

definition enc_CommandMarkNodeDead :: "CommandMarkNodeDead \<Rightarrow> json" where
  "enc_CommandMarkNodeDead c = JObj
     [(''node_id'', JStr (cmd_NodeID c)),
      (''updated_at'', JTime (cmd_UpdatedAt c))]"

definition dec_CommandMarkNodeDead :: "json \<Rightarrow> CommandMarkNodeDead option" where
  "dec_CommandMarkNodeDead j = do {
     fs \<leftarrow> json_object j;
     x0 \<leftarrow> json_field dec_string '''' ''node_id'' fs;
     x1 \<leftarrow> json_field dec_time zero_time ''updated_at'' fs;
     Some \<lparr>cmd_NodeID = x0,
       cmd_UpdatedAt = x1\<rparr> }"

definition enc_CommandMarkNodeAlive :: "CommandMarkNodeAlive \<Rightarrow> json" where
  "enc_CommandMarkNodeAlive c = JObj
     [(''node_id'', JStr (cma_NodeID c)),
      (''updated_at'', JTime (cma_UpdatedAt c))]"

definition dec_CommandMarkNodeAlive :: "json \<Rightarrow> CommandMarkNodeAlive option" where
  "dec_CommandMarkNodeAlive j = do {
     fs \<leftarrow> json_object j;
     x0 \<leftarrow> json_field dec_string '''' ''node_id'' fs;
     x1 \<leftarrow> json_field dec_time zero_time ''updated_at'' fs;
     Some \<lparr>cma_NodeID = x0,
       cma_UpdatedAt = x1\<rparr> }"

definition enc_CommandUpdateNodeSpace :: "CommandUpdateNodeSpace \<Rightarrow> json" where
  "enc_CommandUpdateNodeSpace c = JObj
     [(''node_id'', JStr (cus_NodeID c)),
      (''freespace'', enc_uint64 (cus_FreeSpace c)),
      (''chunkcount'', enc_uint64 (cus_ChunkCount c)),
      (''updated_at'', JTime (cus_UpdatedAt c))]"

definition dec_CommandUpdateNodeSpace :: "json \<Rightarrow> CommandUpdateNodeSpace option" where
  "dec_CommandUpdateNodeSpace j = do {
     fs \<leftarrow> json_object j;
     x0 \<leftarrow> json_field dec_string '''' ''node_id'' fs;
     x1 \<leftarrow> json_field dec_uint64 0 ''freespace'' fs;
     x2 \<leftarrow> json_field dec_uint64 0 ''chunkcount'' fs;
     x3 \<leftarrow> json_field dec_time zero_time ''updated_at'' fs;
     Some \<lparr>cus_NodeID = x0,
       cus_FreeSpace = x1,
       cus_ChunkCount = x2,
       cus_UpdatedAt = x3\<rparr> }"

definition enc_CommandCreateFile :: "CommandCreateFile \<Rightarrow> json" where
  "enc_CommandCreateFile c = JObj
     [(''file_id'', JStr (ccf_FileID c)),
      (''filename'', JStr (ccf_FileName c)),
      (''chunk_ids'', enc_strings (ccf_ChunkIDs c)),
      (''filesize'', enc_uint64 (ccf_FileSize c)),
      (''chunk_size'', enc_uint64 (ccf_ChunkSize c)),
      (''checksum'', JBytes (ccf_Checksum c)),
      (''created_at'', JTime (ccf_CreatedAt c))]"

definition dec_CommandCreateFile :: "json \<Rightarrow> CommandCreateFile option" where
  "dec_CommandCreateFile j = do {
     fs \<leftarrow> json_object j;
     x0 \<leftarrow> json_field dec_string '''' ''file_id'' fs;
     x1 \<leftarrow> json_field dec_string '''' ''filename'' fs;
     x2 \<leftarrow> json_field dec_strings [] ''chunk_ids'' fs;
     x3 \<leftarrow> json_field dec_uint64 0 ''filesize'' fs;
     x4 \<leftarrow> json_field dec_uint64 0 ''chunk_size'' fs;
     x5 \<leftarrow> json_field dec_bytes [] ''checksum'' fs;
     x6 \<leftarrow> json_field dec_time zero_time ''created_at'' fs;
     Some \<lparr>ccf_FileID = x0,
       ccf_FileName = x1,
       ccf_ChunkIDs = x2,
       ccf_FileSize = x3,
       ccf_ChunkSize = x4,
       ccf_Checksum = x5,
       ccf_CreatedAt = x6\<rparr> }"

definition enc_CommandCommitFile :: "CommandCommitFile \<Rightarrow> json" where
  "enc_CommandCommitFile c = JObj
     [(''file_id'', JStr (cmf_FileID c)),
      (''filesize'', enc_uint64 (cmf_FileSize c)),
      (''checksum'', JBytes (cmf_Checksum c))]"

definition dec_CommandCommitFile :: "json \<Rightarrow> CommandCommitFile option" where
  "dec_CommandCommitFile j = do {
     fs \<leftarrow> json_object j;
     x0 \<leftarrow> json_field dec_string '''' ''file_id'' fs;
     x1 \<leftarrow> json_field dec_uint64 0 ''filesize'' fs;
     x2 \<leftarrow> json_field dec_bytes [] ''checksum'' fs;
     Some \<lparr>cmf_FileID = x0,
       cmf_FileSize = x1,
       cmf_Checksum = x2\<rparr> }"

definition enc_CommandDeleteFile :: "CommandDeleteFile \<Rightarrow> json" where
  "enc_CommandDeleteFile c = JObj
     [(''file_id'', JStr (cdf_FileID c))]"

definition dec_CommandDeleteFile :: "json \<Rightarrow> CommandDeleteFile option" where
  "dec_CommandDeleteFile j = do {
     fs \<leftarrow> json_object j;
     x0 \<leftarrow> json_field dec_string '''' ''file_id'' fs;
     Some \<lparr>cdf_FileID = x0\<rparr> }"

definition enc_CommandCommitChunk :: "CommandCommitChunk \<Rightarrow> json" where
  "enc_CommandCommitChunk c = JObj
     [(''chunk_id'', JStr (cmc_ChunkID c)),
      (''node_ids'', enc_strings (cmc_NodeIDs c)),
      (''checksum'', JBytes (cmc_Checksum c))]"

definition dec_CommandCommitChunk :: "json \<Rightarrow> CommandCommitChunk option" where
  "dec_CommandCommitChunk j = do {
     fs \<leftarrow> json_object j;
     x0 \<leftarrow> json_field dec_string '''' ''chunk_id'' fs;
     x1 \<leftarrow> json_field dec_strings [] ''node_ids'' fs;
     x2 \<leftarrow> json_field dec_bytes [] ''checksum'' fs;
     Some \<lparr>cmc_ChunkID = x0,
       cmc_NodeIDs = x1,
       cmc_Checksum = x2\<rparr> }"

definition enc_CommandEvictChunkFromNode :: "CommandEvictChunkFromNode \<Rightarrow> json" where
  "enc_CommandEvictChunkFromNode c = JObj
     [(''chunk_id'', JStr (cev_ChunkID c)),
      (''node_id'', JStr (cev_NodeID c)),
      (''evicted_at'', JTime (cev_EvictedAt c)),
      (''reason'', JStr (cev_Reason c))]"

definition dec_CommandEvictChunkFromNode :: "json \<Rightarrow> CommandEvictChunkFromNode option" where
  "dec_CommandEvictChunkFromNode j = do {
     fs \<leftarrow> json_object j;
     x0 \<leftarrow> json_field dec_string '''' ''chunk_id'' fs;
     x1 \<leftarrow> json_field dec_string '''' ''node_id'' fs;
     x2 \<leftarrow> json_field dec_time zero_time ''evicted_at'' fs;
     x3 \<leftarrow> json_field dec_string '''' ''reason'' fs;
     Some \<lparr>cev_ChunkID = x0,
       cev_NodeID = x1,
       cev_EvictedAt = x2,
       cev_Reason = x3\<rparr> }"

definition enc_CommandMarkChunkLost :: "CommandMarkChunkLost \<Rightarrow> json" where
  "enc_CommandMarkChunkLost c = JObj
     [(''chunk_id'', JStr (cml_ChunkID c))]"

definition dec_CommandMarkChunkLost :: "json \<Rightarrow> CommandMarkChunkLost option" where
  "dec_CommandMarkChunkLost j = do {
     fs \<leftarrow> json_object j;
     x0 \<leftarrow> json_field dec_string '''' ''chunk_id'' fs;
     Some \<lparr>cml_ChunkID = x0\<rparr> }"

definition enc_CommandCreateRepairJob :: "CommandCreateRepairJob \<Rightarrow> json" where
  "enc_CommandCreateRepairJob c = JObj
     [(''job_id'', JStr (ccr_JobID c)),
      (''created_at'', JTime (ccr_CreatedAt c)),
      (''chunk_id'', JStr (ccr_ChunkID c)),
      (''delete_source'', JBool (ccr_DeleteSource c)),
      (''source_node'', JStr (ccr_SourceNode c)),
      (''target_node'', JStr (ccr_TargetNode c))]"

definition dec_CommandCreateRepairJob :: "json \<Rightarrow> CommandCreateRepairJob option" where
  "dec_CommandCreateRepairJob j = do {
     fs \<leftarrow> json_object j;
     x0 \<leftarrow> json_field dec_string '''' ''job_id'' fs;
     x1 \<leftarrow> json_field dec_time zero_time ''created_at'' fs;
     x2 \<leftarrow> json_field dec_string '''' ''chunk_id'' fs;
     x3 \<leftarrow> json_field dec_bool False ''delete_source'' fs;
     x4 \<leftarrow> json_field dec_string '''' ''source_node'' fs;
     x5 \<leftarrow> json_field dec_string '''' ''target_node'' fs;
     Some \<lparr>ccr_JobID = x0,
       ccr_CreatedAt = x1,
       ccr_ChunkID = x2,
       ccr_DeleteSource = x3,
       ccr_SourceNode = x4,
       ccr_TargetNode = x5\<rparr> }"

definition enc_CommandUpdateRepairJob :: "CommandUpdateRepairJob \<Rightarrow> json" where
  "enc_CommandUpdateRepairJob c = JObj
     [(''job_id'', JStr (cur_JobID c)),
      (''status'', JStr (cur_Status c)),
      (''source_node'', JStr (cur_SourceNode c)),
      (''updated_at'', JTime (cur_UpdatedAt c)),
      (''attempts'', enc_uint64 (cur_Attempts c)),
      (''error'', JStr (cur_Error c))]"

definition dec_CommandUpdateRepairJob :: "json \<Rightarrow> CommandUpdateRepairJob option" where
  "dec_CommandUpdateRepairJob j = do {
     fs \<leftarrow> json_object j;
     x0 \<leftarrow> json_field dec_string '''' ''job_id'' fs;
     x1 \<leftarrow> json_field dec_string '''' ''status'' fs;
     x2 \<leftarrow> json_field dec_string '''' ''source_node'' fs;
     x3 \<leftarrow> json_field dec_time zero_time ''updated_at'' fs;
     x4 \<leftarrow> json_field dec_uint64 0 ''attempts'' fs;
     x5 \<leftarrow> json_field dec_string '''' ''error'' fs;
     Some \<lparr>cur_JobID = x0,
       cur_Status = x1,
       cur_SourceNode = x2,
       cur_UpdatedAt = x3,
       cur_Attempts = x4,
       cur_Error = x5\<rparr> }"

definition enc_CommandAddChunkReplica :: "CommandAddChunkReplica \<Rightarrow> json" where
  "enc_CommandAddChunkReplica c = JObj
     [(''chunk_id'', JStr (car_ChunkID c)),
      (''node_id'', JStr (car_NodeID c))]"

definition dec_CommandAddChunkReplica :: "json \<Rightarrow> CommandAddChunkReplica option" where
  "dec_CommandAddChunkReplica j = do {
     fs \<leftarrow> json_object j;
     x0 \<leftarrow> json_field dec_string '''' ''chunk_id'' fs;
     x1 \<leftarrow> json_field dec_string '''' ''node_id'' fs;
     Some \<lparr>car_ChunkID = x0,
       car_NodeID = x1\<rparr> }"

definition enc_CommandRegisterMetadataNode :: "CommandRegisterMetadataNode \<Rightarrow> json" where
  "enc_CommandRegisterMetadataNode c = JObj
     [(''node_id'', JStr (crm_NodeID c)),
      (''raft_addr'', JStr (crm_RaftAddr c)),
      (''grpc_addr'', JStr (crm_GrpcAddr c))]"

definition dec_CommandRegisterMetadataNode :: "json \<Rightarrow> CommandRegisterMetadataNode option" where
  "dec_CommandRegisterMetadataNode j = do {
     fs \<leftarrow> json_object j;
     x0 \<leftarrow> json_field dec_string '''' ''node_id'' fs;
     x1 \<leftarrow> json_field dec_string '''' ''raft_addr'' fs;
     x2 \<leftarrow> json_field dec_string '''' ''grpc_addr'' fs;
     Some \<lparr>crm_NodeID = x0,
       crm_RaftAddr = x1,
       crm_GrpcAddr = x2\<rparr> }"

definition enc_CommandDeregisterMetadataNode :: "CommandDeregisterMetadataNode \<Rightarrow> json" where
  "enc_CommandDeregisterMetadataNode c = JObj
     [(''node_id'', JStr (cdm_NodeID c)),
      (''raft_addr'', JStr (cdm_RaftAddr c))]"

definition dec_CommandDeregisterMetadataNode :: "json \<Rightarrow> CommandDeregisterMetadataNode option" where
  "dec_CommandDeregisterMetadataNode j = do {
     fs \<leftarrow> json_object j;
     x0 \<leftarrow> json_field dec_string '''' ''node_id'' fs;
     x1 \<leftarrow> json_field dec_string '''' ''raft_addr'' fs;
     Some \<lparr>cdm_NodeID = x0,
       cdm_RaftAddr = x1\<rparr> }"

definition enc_MetadataCommand :: "MetadataCommand \<Rightarrow> json" where
  "enc_MetadataCommand c = JObj
     [(''type'', JNum (mc_Type c)),
      (''payload'', JDoc (mc_Payload c))]"

definition dec_MetadataCommand :: "json \<Rightarrow> MetadataCommand option" where
  "dec_MetadataCommand j = do {
     fs \<leftarrow> json_object j;
     x0 \<leftarrow> json_field dec_int64 0 ''type'' fs;
     x1 \<leftarrow> json_field dec_doc JNull ''payload'' fs;
     Some \<lparr>mc_Type = x0,
       mc_Payload = x1\<rparr> }"

section \<open>Round trips\<close>

lemma dec_enc_CommandRegisterNode [json_codec]:
  "dec_CommandRegisterNode (enc_CommandRegisterNode c) = Some c"
  by (simp add: enc_CommandRegisterNode_def dec_CommandRegisterNode_def json_codec)

lemma dec_enc_CommandDeregisterNode [json_codec]:
  "dec_CommandDeregisterNode (enc_CommandDeregisterNode c) = Some c"
  by (simp add: enc_CommandDeregisterNode_def dec_CommandDeregisterNode_def json_codec)

lemma dec_enc_CommandMarkNodeDead [json_codec]:
  "dec_CommandMarkNodeDead (enc_CommandMarkNodeDead c) = Some c"
  by (simp add: enc_CommandMarkNodeDead_def dec_CommandMarkNodeDead_def json_codec)

lemma dec_enc_CommandMarkNodeAlive [json_codec]:
  "dec_CommandMarkNodeAlive (enc_CommandMarkNodeAlive c) = Some c"
  by (simp add: enc_CommandMarkNodeAlive_def dec_CommandMarkNodeAlive_def json_codec)

lemma dec_enc_CommandUpdateNodeSpace [json_codec]:
  "dec_CommandUpdateNodeSpace (enc_CommandUpdateNodeSpace c) = Some c"
  by (simp add: enc_CommandUpdateNodeSpace_def dec_CommandUpdateNodeSpace_def json_codec)

lemma dec_enc_CommandCreateFile [json_codec]:
  "dec_CommandCreateFile (enc_CommandCreateFile c) = Some c"
  by (simp add: enc_CommandCreateFile_def dec_CommandCreateFile_def json_codec)

lemma dec_enc_CommandCommitFile [json_codec]:
  "dec_CommandCommitFile (enc_CommandCommitFile c) = Some c"
  by (simp add: enc_CommandCommitFile_def dec_CommandCommitFile_def json_codec)

lemma dec_enc_CommandDeleteFile [json_codec]:
  "dec_CommandDeleteFile (enc_CommandDeleteFile c) = Some c"
  by (simp add: enc_CommandDeleteFile_def dec_CommandDeleteFile_def json_codec)

lemma dec_enc_CommandCommitChunk [json_codec]:
  "dec_CommandCommitChunk (enc_CommandCommitChunk c) = Some c"
  by (simp add: enc_CommandCommitChunk_def dec_CommandCommitChunk_def json_codec)

lemma dec_enc_CommandEvictChunkFromNode [json_codec]:
  "dec_CommandEvictChunkFromNode (enc_CommandEvictChunkFromNode c) = Some c"
  by (simp add: enc_CommandEvictChunkFromNode_def dec_CommandEvictChunkFromNode_def json_codec)

lemma dec_enc_CommandMarkChunkLost [json_codec]:
  "dec_CommandMarkChunkLost (enc_CommandMarkChunkLost c) = Some c"
  by (simp add: enc_CommandMarkChunkLost_def dec_CommandMarkChunkLost_def json_codec)

lemma dec_enc_CommandCreateRepairJob [json_codec]:
  "dec_CommandCreateRepairJob (enc_CommandCreateRepairJob c) = Some c"
  by (simp add: enc_CommandCreateRepairJob_def dec_CommandCreateRepairJob_def json_codec)

lemma dec_enc_CommandUpdateRepairJob [json_codec]:
  "dec_CommandUpdateRepairJob (enc_CommandUpdateRepairJob c) = Some c"
  by (simp add: enc_CommandUpdateRepairJob_def dec_CommandUpdateRepairJob_def json_codec)

lemma dec_enc_CommandAddChunkReplica [json_codec]:
  "dec_CommandAddChunkReplica (enc_CommandAddChunkReplica c) = Some c"
  by (simp add: enc_CommandAddChunkReplica_def dec_CommandAddChunkReplica_def json_codec)

lemma dec_enc_CommandRegisterMetadataNode [json_codec]:
  "dec_CommandRegisterMetadataNode (enc_CommandRegisterMetadataNode c) = Some c"
  by (simp add: enc_CommandRegisterMetadataNode_def dec_CommandRegisterMetadataNode_def json_codec)

lemma dec_enc_CommandDeregisterMetadataNode [json_codec]:
  "dec_CommandDeregisterMetadataNode (enc_CommandDeregisterMetadataNode c) = Some c"
  by (simp add: enc_CommandDeregisterMetadataNode_def dec_CommandDeregisterMetadataNode_def json_codec)

lemma dec_enc_MetadataCommand [json_codec]:
  "- (2 ^ 63) \<le> mc_Type c \<Longrightarrow> mc_Type c < 2 ^ 63 \<Longrightarrow> dec_MetadataCommand (enc_MetadataCommand c) = Some c"
  by (simp add: enc_MetadataCommand_def dec_MetadataCommand_def json_codec)

end
