(* ===== verification/Metadata_Fsm.thy ===== *)
theory Metadata_Fsm
  imports Commands
begin

text \<open>
  The replicated state machine of the metadata service, \<open>metadata/fsm/fsm.go\<close>: its
  five registries, one function per command handler, the dispatcher \<open>Apply\<close>, the
  read methods, and snapshots. A handler returns the new state and the error it
  reports, \<open>None\<close> for \<open>nil\<close>. The read methods return pointers into the registries;
  a handler that writes through such a pointer updates the entry in the map. The
  registry mutexes serialise the operations and have no other effect on the state.
\<close>

section \<open>State\<close>

record MetadataFSM =
  fileIndex         :: "FileRecord gomap"
  chunkRegistry     :: "ChunkRecord gomap"
  nodeRegistry      :: "NodeEntry gomap"
  repairJobRegistry :: "RepairJob gomap"
  mdNodeRegistry    :: "MetadataNodeEntry gomap"

type_synonym fsm_step = "MetadataFSM \<times> goerror option"

definition NewEmptyMetadataFsm :: MetadataFSM where
  "NewEmptyMetadataFsm =
     \<lparr>fileIndex = Map.empty, chunkRegistry = Map.empty, nodeRegistry = Map.empty,
      repairJobRegistry = Map.empty, mdNodeRegistry = Map.empty\<rparr>"

text \<open>\<open>upsert\<close> writes one entry; a nil registry (\<open>None\<close>) is an error.\<close>

definition upsert :: "'v gomap option \<Rightarrow> string \<Rightarrow> 'v \<Rightarrow> 'v gomap result" where
  "upsert registry key entry =
     (case registry of
        None \<Rightarrow> Inl (NewError ''upsert: registry is nil'')
      | Some m \<Rightarrow> Inr (m(key \<mapsto> entry)))"

section \<open>Single-entry reads\<close>

definition GetFile :: "MetadataFSM \<Rightarrow> string \<Rightarrow> FileRecord result" where
  "GetFile s fileID =
     (case fileIndex s fileID of None \<Rightarrow> Inl ErrFileNotFound | Some f \<Rightarrow> Inr f)"

definition GetChunk :: "MetadataFSM \<Rightarrow> string \<Rightarrow> ChunkRecord result" where
  "GetChunk s chunkID =
     (case chunkRegistry s chunkID of None \<Rightarrow> Inl ErrChunkNotFound | Some c \<Rightarrow> Inr c)"

definition GetNode :: "MetadataFSM \<Rightarrow> string \<Rightarrow> NodeEntry result" where
  "GetNode s nodeID =
     (case nodeRegistry s nodeID of None \<Rightarrow> Inl ErrNodeNotFound | Some n \<Rightarrow> Inr n)"

definition GetMetadataNodeByRaftAddr :: "MetadataFSM \<Rightarrow> string \<Rightarrow> MetadataNodeEntry result" where
  "GetMetadataNodeByRaftAddr s raftAddr =
     (case mdNodeRegistry s raftAddr of
        None \<Rightarrow> Inl ErrMetadataNodeNotFound
      | Some e \<Rightarrow> Inr e)"

definition GetRepairJob :: "MetadataFSM \<Rightarrow> string \<Rightarrow> RepairJob result" where
  "GetRepairJob s jobID =
     (case repairJobRegistry s jobID of None \<Rightarrow> Inl ErrJobNotFound | Some j \<Rightarrow> Inr j)"

lemmas get_defs =
  GetFile_def GetChunk_def GetNode_def GetMetadataNodeByRaftAddr_def GetRepairJob_def

section \<open>Node command handlers\<close>

text \<open>\<open>set_node\<close> writes an entry of the node registry through its pointer.\<close>

definition set_node :: "MetadataFSM \<Rightarrow> string \<Rightarrow> NodeEntry \<Rightarrow> MetadataFSM" where
  "set_node s k n = s\<lparr>nodeRegistry := (nodeRegistry s)(k \<mapsto> n)\<rparr>"

definition handleCmdRegisterNode :: "MetadataFSM \<Rightarrow> CommandRegisterNode \<Rightarrow> fsm_step" where
  "handleCmdRegisterNode s req =
     (let (s1, node) =
        (case GetNode s (crn_NodeID req) of
           Inr node \<Rightarrow>
             (let node = node\<lparr>ne_Address := crn_Address req, ne_Status := NodeStatusAlive,
                              ne_FreeSpace := crn_FreeSpace req,
                              ne_ChunkCount := crn_ChunkCount req,
                              ne_UpdatedAt := crn_CreatedAt req\<rparr>
              in (set_node s (crn_NodeID req) node, node))
         | Inl _ \<Rightarrow>
             (s, \<lparr>ne_NodeID = crn_NodeID req, ne_Address = crn_Address req,
                  ne_Status = NodeStatusAlive, ne_FreeSpace = crn_FreeSpace req,
                  ne_ChunkCount = crn_ChunkCount req, ne_LastSeen = crn_CreatedAt req,
                  ne_RegisteredAt = crn_CreatedAt req, ne_UpdatedAt = crn_CreatedAt req\<rparr>))
      in case upsert (Some (nodeRegistry s1)) (ne_NodeID node) node of
           Inl e \<Rightarrow> (s1, Some e)
         | Inr m \<Rightarrow> (s1\<lparr>nodeRegistry := m\<rparr>, None))"

text \<open>\<open>if node.UpdatedAt.Before(t) { node.UpdatedAt = t }\<close>\<close>

definition touch_node :: "NodeEntry \<Rightarrow> gotime \<Rightarrow> NodeEntry" where
  "touch_node n t = (if ne_UpdatedAt n < t then n\<lparr>ne_UpdatedAt := t\<rparr> else n)"

definition handleCmdDeregisterNode :: "MetadataFSM \<Rightarrow> CommandDeregisterNode \<Rightarrow> fsm_step" where
  "handleCmdDeregisterNode s req =
     (case GetNode s (cdn_NodeID req) of
        Inl e \<Rightarrow> (s, Some (Join (NewError ''cmdDeregisterNode failed: '') e))
      | Inr node \<Rightarrow>
          (set_node s (cdn_NodeID req)
             (touch_node (node\<lparr>ne_Status := NodeStatusDraining\<rparr>) (cdn_UpdatedAt req)), None))"

definition handleCmdMarkNodeDead :: "MetadataFSM \<Rightarrow> CommandMarkNodeDead \<Rightarrow> fsm_step" where
  "handleCmdMarkNodeDead s req =
     (case GetNode s (cmd_NodeID req) of
        Inl e \<Rightarrow> (s, Some (Join (NewError ''cmdMarkNodeDead failed: '') e))
      | Inr node \<Rightarrow>
          (set_node s (cmd_NodeID req)
             (touch_node (node\<lparr>ne_Status := NodeStatusDead\<rparr>) (cmd_UpdatedAt req)), None))"

definition handleCmdMarkNodeAlive :: "MetadataFSM \<Rightarrow> CommandMarkNodeAlive \<Rightarrow> fsm_step" where
  "handleCmdMarkNodeAlive s req =
     (case GetNode s (cma_NodeID req) of
        Inl e \<Rightarrow> (s, Some (Join (NewError ''cmdMarkNodeAlive failed: '') e))
      | Inr node \<Rightarrow>
          (set_node s (cma_NodeID req)
             (touch_node (node\<lparr>ne_Status := NodeStatusAlive\<rparr>) (cma_UpdatedAt req)), None))"

definition handleCmdUpdateNodeSpace :: "MetadataFSM \<Rightarrow> CommandUpdateNodeSpace \<Rightarrow> fsm_step" where
  "handleCmdUpdateNodeSpace s req =
     (case GetNode s (cus_NodeID req) of
        Inl e \<Rightarrow> (s, Some (Join (NewError ''cmdUpdateNodeSpace failed: '') e))
      | Inr node \<Rightarrow>
          (set_node s (cus_NodeID req)
             (touch_node (node\<lparr>ne_FreeSpace := cus_FreeSpace req,
                               ne_ChunkCount := cus_ChunkCount req\<rparr>) (cus_UpdatedAt req)), None))"

section \<open>File command handlers\<close>

text \<open>The stub record of the chunk at position \<open>i\<close>; unset fields have their zero value.\<close>

definition chunk_stub :: "string \<Rightarrow> nat \<Rightarrow> string \<Rightarrow> ChunkRecord" where
  "chunk_stub fileID i cid =
     \<lparr>cr_ChunkID = cid, cr_FileID = fileID, cr_ChunkIndex = int i, cr_Size = 0,
      cr_Checksum = [], cr_Replicas = [], cr_Status = ChunkStatusAllocated, cr_Version = 0\<rparr>"

fun chunk_stubs :: "string \<Rightarrow> nat \<Rightarrow> string list \<Rightarrow> ChunkRecord list" where
  "chunk_stubs fileID i [] = []"
| "chunk_stubs fileID i (cid # cids) = chunk_stub fileID i cid # chunk_stubs fileID (Suc i) cids"

fun any_chunk_known :: "ChunkRecord gomap \<Rightarrow> ChunkRecord list \<Rightarrow> bool" where
  "any_chunk_known reg [] = False"
| "any_chunk_known reg (c # cs) = (reg (cr_ChunkID c) \<noteq> None \<or> any_chunk_known reg cs)"

fun insert_chunks :: "ChunkRecord gomap \<Rightarrow> ChunkRecord list \<Rightarrow> ChunkRecord gomap" where
  "insert_chunks reg [] = reg"
| "insert_chunks reg (c # cs) = insert_chunks (reg(cr_ChunkID c \<mapsto> c)) cs"

definition handleCmdCreateFile :: "MetadataFSM \<Rightarrow> CommandCreateFile \<Rightarrow> fsm_step" where
  "handleCmdCreateFile s req =
     (case GetFile s (ccf_FileID req) of
        Inr _ \<Rightarrow> (s, Some (NewError
          ''CmdCreateFile: fileID already exists in our systems, cannot override''))
      | Inl _ \<Rightarrow>
          (let file = \<lparr>fr_FileID = ccf_FileID req, fr_Filename = ccf_FileName req,
                       fr_FileSize = ccf_FileSize req, fr_ChunkSize = ccf_ChunkSize req,
                       fr_CheckSum = [], fr_ChunkIDs = ccf_ChunkIDs req,
                       fr_Status = FileStatusCreating, fr_CreatedAt = ccf_CreatedAt req,
                       fr_UpdatedAt = zero_time\<rparr>;
               stubs = chunk_stubs (ccf_FileID req) 0 (ccf_ChunkIDs req)
           in if any_chunk_known (chunkRegistry s) stubs
              then (s, Some (NewError
                ''CmdCreateFile: chunkID already exists in our systems, unsupported''))
              else (s\<lparr>chunkRegistry := insert_chunks (chunkRegistry s) stubs,
                      fileIndex := (fileIndex s)(ccf_FileID req \<mapsto> file)\<rparr>, None)))"

text \<open>The validation loop of \<open>handleCmdCommitFile\<close> stops at the first bad chunk.\<close>

fun validate_chunks :: "ChunkRecord gomap \<Rightarrow> string list \<Rightarrow> goerror option" where
  "validate_chunks reg [] = None"
| "validate_chunks reg (cid # cids) =
     (case reg cid of
        None \<Rightarrow> Some (NewError ''cmdCommitFile: chunk validation failed : chunk not found'')
      | Some ck \<Rightarrow>
          if cr_Status ck \<noteq> ChunkStatusComplete
          then Some (NewError ''cmdCommitFile: chunk validation failed : chunk not commited'')
          else validate_chunks reg cids)"

definition handleCmdCommitFile :: "MetadataFSM \<Rightarrow> CommandCommitFile \<Rightarrow> fsm_step" where
  "handleCmdCommitFile s req =
     (case GetFile s (cmf_FileID req) of
        Inl e \<Rightarrow> (s, Some (Join (NewError ''cmdCommitFile: '') e))
      | Inr file \<Rightarrow>
          if fr_FileSize file \<noteq> cmf_FileSize req
          then (s, Some (NewError ''cmdCommitFile: filesize mismatch''))
          else case validate_chunks (chunkRegistry s) (fr_ChunkIDs file) of
                 Some e \<Rightarrow> (s, Some e)
               | None \<Rightarrow>
                   (s\<lparr>fileIndex := (fileIndex s)(cmf_FileID req \<mapsto>
                        file\<lparr>fr_CheckSum := cmf_Checksum req, fr_Status := FileStatusComplete\<rparr>)\<rparr>,
                    None))"

definition handleCmdDeleteFile :: "MetadataFSM \<Rightarrow> CommandDeleteFile \<Rightarrow> fsm_step" where
  "handleCmdDeleteFile s req =
     (case GetFile s (cdf_FileID req) of
        Inl e \<Rightarrow> (s, Some (Join (NewError ''cmdDeleteFile: '') e))
      | Inr file \<Rightarrow>
          (s\<lparr>fileIndex := (fileIndex s)(cdf_FileID req \<mapsto> file\<lparr>fr_Status := FileStatusDeleted\<rparr>)\<rparr>,
           None))"

section \<open>Chunk command handlers\<close>

definition set_chunk :: "MetadataFSM \<Rightarrow> string \<Rightarrow> ChunkRecord \<Rightarrow> MetadataFSM" where
  "set_chunk s k c = s\<lparr>chunkRegistry := (chunkRegistry s)(k \<mapsto> c)\<rparr>"

text \<open>
  The scan of the node registry for an address returns the first match in the
  iteration order, the empty string when there is none.
\<close>

definition resolve_address :: "string list \<Rightarrow> NodeEntry gomap \<Rightarrow> string \<Rightarrow> string" where
  "resolve_address ord reg entry =
     (case find (\<lambda>n. ne_Address n = entry) (range_values ord reg) of
        None \<Rightarrow> ''''
      | Some n \<Rightarrow> ne_NodeID n)"

text \<open>
  The loop of \<open>normalizeReplicaNodeIDs\<close>. \<open>ords i\<close> is the order in which the scan
  for the entry at position \<open>i\<close> visits the registry.
\<close>

fun normalize_loop :: "(nat \<Rightarrow> string list) \<Rightarrow> MetadataFSM \<Rightarrow> nat \<Rightarrow> string list \<Rightarrow>
    string list \<Rightarrow> string set \<Rightarrow> string list" where
  "normalize_loop ords s i [] normalized seen = normalized"
| "normalize_loop ords s i (entry # rest) normalized seen =
     (if entry \<in> seen then normalize_loop ords s (Suc i) rest normalized seen
      else case GetNode s entry of
        Inr _ \<Rightarrow> normalize_loop ords s (Suc i) rest (normalized @ [entry]) (insert entry seen)
      | Inl _ \<Rightarrow>
          (let resolved = resolve_address (ords i) (nodeRegistry s) entry
           in if resolved \<noteq> ''''
              then if resolved \<in> seen then normalize_loop ords s (Suc i) rest normalized seen
                   else normalize_loop ords s (Suc i) rest (normalized @ [resolved])
                          (insert resolved seen)
              else normalize_loop ords s (Suc i) rest (normalized @ [entry]) (insert entry seen)))"

definition normalizeReplicaNodeIDs ::
    "(nat \<Rightarrow> string list) \<Rightarrow> MetadataFSM \<Rightarrow> string list \<Rightarrow> string list" where
  "normalizeReplicaNodeIDs ords s rawIDs = normalize_loop ords s 0 rawIDs [] {}"

definition handleCmdCommitChunk ::
    "(nat \<Rightarrow> string list) \<Rightarrow> MetadataFSM \<Rightarrow> CommandCommitChunk \<Rightarrow> fsm_step" where
  "handleCmdCommitChunk ords s req =
     (case GetChunk s (cmc_ChunkID req) of
        Inl e \<Rightarrow> (s, Some (Join (NewError ''cmdCommitChunk: '') e))
      | Inr chunk \<Rightarrow>
          if length (cr_Checksum chunk) = 0 \<and> cr_Status chunk \<noteq> ChunkStatusComplete
          then (set_chunk s (cmc_ChunkID req)
                  (chunk\<lparr>cr_Status := ChunkStatusComplete, cr_Checksum := cmc_Checksum req,
                         cr_Replicas := normalizeReplicaNodeIDs ords s (cmc_NodeIDs req)\<rparr>), None)
          else (s, Some (NewError ''cmdCommitChunk: chunk validation failed'')))"

fun getIndex :: "string list \<Rightarrow> string \<Rightarrow> nat \<Rightarrow> int" where
  "getIndex [] nodeID i = -1"
| "getIndex (val # vals) nodeID i = (if val = nodeID then int i else getIndex vals nodeID (Suc i))"

definition handleCmdEvictChunkFromNode ::
    "MetadataFSM \<Rightarrow> CommandEvictChunkFromNode \<Rightarrow> fsm_step" where
  "handleCmdEvictChunkFromNode s req =
     (case GetChunk s (cev_ChunkID req) of
        Inl e \<Rightarrow> (s, Some (Join (NewError ''cmdEvictChunk: '') e))
      | Inr chunk \<Rightarrow>
          (let idx = getIndex (cr_Replicas chunk) (cev_NodeID req) 0
           in if idx = -1 then (s, Some (NewError ''cmdEvictChunk: chunk not present on node''))
              else (set_chunk s (cev_ChunkID req)
                      (chunk\<lparr>cr_Replicas := take (nat idx) (cr_Replicas chunk)
                                           @ drop (nat idx + 1) (cr_Replicas chunk)\<rparr>), None)))"

definition handleCmdMarkChunkLost :: "MetadataFSM \<Rightarrow> CommandMarkChunkLost \<Rightarrow> fsm_step" where
  "handleCmdMarkChunkLost s req =
     (case GetChunk s (cml_ChunkID req) of
        Inl e \<Rightarrow> (s, Some (Join (NewError ''cmdMarkChunkLost: '') e))
      | Inr chunk \<Rightarrow>
          (set_chunk s (cml_ChunkID req) (chunk\<lparr>cr_Status := ChunkStatusLost\<rparr>), None))"

definition handleCmdAddChunkReplica :: "MetadataFSM \<Rightarrow> CommandAddChunkReplica \<Rightarrow> fsm_step" where
  "handleCmdAddChunkReplica s req =
     (case GetChunk s (car_ChunkID req) of
        Inl e \<Rightarrow> (s, Some (Join (NewError ''cmdAddChunkReplica: '') e))
      | Inr chunk \<Rightarrow>
          if car_NodeID req \<in> set (cr_Replicas chunk) then (s, None)
          else (set_chunk s (car_ChunkID req)
                  (chunk\<lparr>cr_Replicas := cr_Replicas chunk @ [car_NodeID req]\<rparr>), None))"

section \<open>Repair-job and metadata-node handlers\<close>

definition handleCmdCreateRepairJob :: "MetadataFSM \<Rightarrow> CommandCreateRepairJob \<Rightarrow> fsm_step" where
  "handleCmdCreateRepairJob s req =
     (if repairJobRegistry s (ccr_JobID req) \<noteq> None
      then (s, Some (NewError ''cmdCreateRepairJob: job already exists''))
      else
        (let newJob = \<lparr>rj_JobID = ccr_JobID req, rj_ChunkID = ccr_ChunkID req, rj_Error = '''',
                       rj_DeleteSource = ccr_DeleteSource req,
                       rj_SourceNodeID = ccr_SourceNode req,
                       rj_TargetNodeID = ccr_TargetNode req,
                       rj_Status = RepairStatusPending, rj_Attempts = 0,
                       rj_CreatedAt = ccr_CreatedAt req, rj_UpdatedAt = ccr_CreatedAt req\<rparr>
         in case upsert (Some (repairJobRegistry s)) (ccr_JobID req) newJob of
              Inl e \<Rightarrow> (s, Some e)
            | Inr m \<Rightarrow> (s\<lparr>repairJobRegistry := m\<rparr>, None)))"

definition handleCmdUpdateRepairJob :: "MetadataFSM \<Rightarrow> CommandUpdateRepairJob \<Rightarrow> fsm_step" where
  "handleCmdUpdateRepairJob s req =
     (case repairJobRegistry s (cur_JobID req) of
        None \<Rightarrow> (s, Some (Join (NewError ''cmdUpdateRepairJob: '') ErrJobNotFound))
      | Some job \<Rightarrow>
          (let job1 = job\<lparr>rj_Status := cur_Status req, rj_UpdatedAt := cur_UpdatedAt req,
                          rj_Error := cur_Error req, rj_Attempts := cur_Attempts req\<rparr>;
               job2 = (if cur_SourceNode req \<noteq> ''''
                       then job1\<lparr>rj_SourceNodeID := cur_SourceNode req\<rparr> else job1)
           in (s\<lparr>repairJobRegistry := (repairJobRegistry s)(cur_JobID req \<mapsto> job2)\<rparr>, None)))"

definition handleCmdRegisterMetadataNode ::
    "MetadataFSM \<Rightarrow> CommandRegisterMetadataNode \<Rightarrow> fsm_step" where
  "handleCmdRegisterMetadataNode s req =
     (let entry = \<lparr>mn_NodeID = crm_NodeID req, mn_RaftAddr = crm_RaftAddr req,
                   mn_GrpcAddr = crm_GrpcAddr req\<rparr>
      in case upsert (Some (mdNodeRegistry s)) (crm_RaftAddr req) entry of
           Inl e \<Rightarrow> (s, Some e)
         | Inr m \<Rightarrow> (s\<lparr>mdNodeRegistry := m\<rparr>, None))"

definition handleCmdDeregisterMetadataNode ::
    "MetadataFSM \<Rightarrow> CommandDeregisterMetadataNode \<Rightarrow> fsm_step" where
  "handleCmdDeregisterMetadataNode s req =
     (s\<lparr>mdNodeRegistry := (mdNodeRegistry s)(cdm_RaftAddr req := None)\<rparr>, None)"

section \<open>Apply\<close>

text \<open>
  A log entry is the document in its bytes, \<open>None\<close> when the bytes are not JSON.
  \<open>decode_then\<close> is the pattern repeated in every case of the switch: decode the
  payload, return the error if that fails, otherwise run the handler.
\<close>

definition ErrUnmarshal :: goerror where
  "ErrUnmarshal = NewError ''json: cannot unmarshal''"

definition decode_then ::
    "(json \<Rightarrow> 'req option) \<Rightarrow> (MetadataFSM \<Rightarrow> 'req \<Rightarrow> fsm_step) \<Rightarrow> MetadataFSM \<Rightarrow> json \<Rightarrow> fsm_step" where
  "decode_then dec h s payload =
     (case dec payload of None \<Rightarrow> (s, Some ErrUnmarshal) | Some req \<Rightarrow> h s req)"

definition Apply :: "(nat \<Rightarrow> string list) \<Rightarrow> MetadataFSM \<Rightarrow> json option \<Rightarrow> fsm_step" where
  "Apply ords s rlog =
     (case Option.bind rlog dec_MetadataCommand of
        None \<Rightarrow> (s, Some ErrUnmarshal)
      | Some cmd \<Rightarrow>
          (let t = mc_Type cmd; p = mc_Payload cmd in
           if t = CmdRegisterNode then decode_then dec_CommandRegisterNode handleCmdRegisterNode s p
           else if t = CmdDeregisterNode then
             decode_then dec_CommandDeregisterNode handleCmdDeregisterNode s p
           else if t = CmdMarkNodeDead then
             decode_then dec_CommandMarkNodeDead handleCmdMarkNodeDead s p
           else if t = CmdMarkNodeAlive then
             decode_then dec_CommandMarkNodeAlive handleCmdMarkNodeAlive s p
           else if t = CmdUpdateNodeSpace then
             decode_then dec_CommandUpdateNodeSpace handleCmdUpdateNodeSpace s p
           else if t = CmdCreateFile then decode_then dec_CommandCreateFile handleCmdCreateFile s p
           else if t = CmdCommitFile then decode_then dec_CommandCommitFile handleCmdCommitFile s p
           else if t = CmdDeleteFile then decode_then dec_CommandDeleteFile handleCmdDeleteFile s p
           else if t = CmdCommitChunk then
             decode_then dec_CommandCommitChunk (handleCmdCommitChunk ords) s p
           else if t = CmdEvictChunkFromNode then
             decode_then dec_CommandEvictChunkFromNode handleCmdEvictChunkFromNode s p
           else if t = CmdMarkChunkLost then
             decode_then dec_CommandMarkChunkLost handleCmdMarkChunkLost s p
           else if t = CmdCreateRepairJob then
             decode_then dec_CommandCreateRepairJob handleCmdCreateRepairJob s p
           else if t = CmdUpdateRepairJob then
             decode_then dec_CommandUpdateRepairJob handleCmdUpdateRepairJob s p
           else if t = CmdAddChunkReplica then
             decode_then dec_CommandAddChunkReplica handleCmdAddChunkReplica s p
           else if t = CmdRegisterMetadataNode then
             decode_then dec_CommandRegisterMetadataNode handleCmdRegisterMetadataNode s p
           else if t = CmdDeregisterMetadataNode then
             decode_then dec_CommandDeregisterMetadataNode handleCmdDeregisterMetadataNode s p
           else (s, Some (NewError ''unknown command type''))))"

section \<open>Reads that range over a registry\<close>

definition GetFileByName :: "string list \<Rightarrow> MetadataFSM \<Rightarrow> string \<Rightarrow> FileRecord result" where
  "GetFileByName ord s filename =
     (case find (\<lambda>f. fr_Filename f = filename) (range_values ord (fileIndex s)) of
        None \<Rightarrow> Inl ErrFileNotFound
      | Some f \<Rightarrow> Inr f)"

definition HasPrefix :: "string \<Rightarrow> string \<Rightarrow> bool" where
  "HasPrefix str pre = (take (length pre) str = pre)"

definition ListFiles ::
    "FileRecord sorter \<Rightarrow> string list \<Rightarrow> MetadataFSM \<Rightarrow> string \<Rightarrow> FileRecord list" where
  "ListFiles srt ord s pre =
     srt (\<lambda>a b. fr_Filename a < fr_Filename b)
       (filter (\<lambda>f. HasPrefix (fr_Filename f) pre) (range_values ord (fileIndex s)))"

fun collect_chunks :: "ChunkRecord gomap \<Rightarrow> string list \<Rightarrow> ChunkRecord list result" where
  "collect_chunks reg [] = Inr []"
| "collect_chunks reg (cid # cids) =
     (case reg cid of
        None \<Rightarrow> Inl ErrChunkNotFound
      | Some ck \<Rightarrow>
          (case collect_chunks reg cids of Inl e \<Rightarrow> Inl e | Inr cks \<Rightarrow> Inr (ck # cks)))"

definition GetFileChunks :: "MetadataFSM \<Rightarrow> string \<Rightarrow> ChunkRecord list result" where
  "GetFileChunks s fileID =
     (case GetFile s fileID of
        Inl e \<Rightarrow> Inl e
      | Inr file \<Rightarrow> collect_chunks (chunkRegistry s) (fr_ChunkIDs file))"

definition live_entries :: "NodeEntry gomap \<Rightarrow> string list \<Rightarrow> NodeEntry list" where
  "live_entries reg replicas =
     filter (\<lambda>n. ne_Status n \<noteq> NodeStatusDead) (range_values replicas reg)"

definition GetChunkLocations :: "MetadataFSM \<Rightarrow> string \<Rightarrow> NodeEntry list result" where
  "GetChunkLocations s chunkID =
     (case GetChunk s chunkID of
        Inl e \<Rightarrow> Inl e
      | Inr chunk \<Rightarrow> Inr (live_entries (nodeRegistry s) (cr_Replicas chunk)))"

definition GetChunksByNode :: "string list \<Rightarrow> MetadataFSM \<Rightarrow> string \<Rightarrow> string list" where
  "GetChunksByNode ord s nodeID =
     map cr_ChunkID
       (filter (\<lambda>c. nodeID \<in> set (cr_Replicas c)) (range_values ord (chunkRegistry s)))"

definition GetLiveNodes :: "string list \<Rightarrow> MetadataFSM \<Rightarrow> NodeEntry list" where
  "GetLiveNodes ord s =
     filter (\<lambda>n. ne_Status n = NodeStatusAlive) (range_values ord (nodeRegistry s))"

definition GetAllNodes :: "string list \<Rightarrow> MetadataFSM \<Rightarrow> NodeEntry list" where
  "GetAllNodes ord s = range_values ord (nodeRegistry s)"

definition GetNodeCount :: "MetadataFSM \<Rightarrow> nat" where
  "GetNodeCount s = card (dom (nodeRegistry s))"

definition GetJobsByStatus :: "string list \<Rightarrow> MetadataFSM \<Rightarrow> RepairStatus \<Rightarrow> RepairJob list" where
  "GetJobsByStatus ord s status =
     filter (\<lambda>j. rj_Status j = status) (range_values ord (repairJobRegistry s))"

definition GetPendingJobsForNode :: "string list \<Rightarrow> MetadataFSM \<Rightarrow> string \<Rightarrow> RepairJob list" where
  "GetPendingJobsForNode ord s nodeID =
     filter (\<lambda>j. rj_Status j = RepairStatusPending \<and> rj_SourceNodeID j = nodeID)
       (range_values ord (repairJobRegistry s))"

definition HasActiveRepairForChunkTarget ::
    "string list \<Rightarrow> MetadataFSM \<Rightarrow> string \<Rightarrow> string \<Rightarrow> bool" where
  "HasActiveRepairForChunkTarget ord s chunkID targetNodeID =
     list_ex (\<lambda>j. rj_ChunkID j = chunkID \<and> rj_TargetNodeID j = targetNodeID \<and>
                  (rj_Status j = RepairStatusPending \<or> rj_Status j = RepairStatusInProgress))
       (range_values ord (repairJobRegistry s))"

section \<open>Heartbeat timestamps\<close>

text \<open>\<open>UpdateLastSeen\<close> is the one mutation that does not go through the Raft log.\<close>

definition UpdateLastSeen :: "MetadataFSM \<Rightarrow> string \<Rightarrow> gotime \<Rightarrow> fsm_step" where
  "UpdateLastSeen s nodeID ts =
     (case nodeRegistry s nodeID of
        None \<Rightarrow> (s, Some ErrNodeNotFound)
      | Some node \<Rightarrow> (set_node s nodeID (node\<lparr>ne_LastSeen := ts\<rparr>), None))"

end
