(* ===== verification/Fsm_Invariant.thy ===== *)
theory Fsm_Invariant
  imports Metadata_Fsm
begin

text \<open>
  What every command keeps true of the metadata state. The invariant has four
  parts: the registries are indexed by the identifier their entries carry, chunk
  records are well formed, every chunk belongs to the position of the file that
  lists it, and every chunk a file lists is known. \<open>fsm_extends\<close> says what no
  command can undo. The locale \<open>fsm_handler\<close> is the contract of a command handler;
  each of the sixteen handlers is an interpretation of it, and \<open>Apply\<close> inherits the
  contract from whichever handler it selects.
\<close>

section \<open>The invariant\<close>

text \<open>No command gives a node the status \<^verbatim>\<open>suspect\<close>.\<close>

definition node_wf :: "NodeEntry \<Rightarrow> bool" where
  "node_wf n \<longleftrightarrow> ne_Status n \<in> {NodeStatusAlive, NodeStatusDead, NodeStatusDraining}"

definition keys_match :: "MetadataFSM \<Rightarrow> bool" where
  "keys_match s \<longleftrightarrow>
     (\<forall>k f. fileIndex s k = Some f \<longrightarrow> fr_FileID f = k) \<and>
     (\<forall>k c. chunkRegistry s k = Some c \<longrightarrow> cr_ChunkID c = k) \<and>
     (\<forall>k n. nodeRegistry s k = Some n \<longrightarrow> ne_NodeID n = k \<and> node_wf n) \<and>
     (\<forall>k j. repairJobRegistry s k = Some j \<longrightarrow> rj_JobID j = k) \<and>
     (\<forall>k e. mdNodeRegistry s k = Some e \<longrightarrow> mn_RaftAddr e = k)"

text \<open>No command writes the size or the version of a chunk: both keep their zero value.\<close>

definition chunk_wf :: "ChunkRecord \<Rightarrow> bool" where
  "chunk_wf c \<longleftrightarrow>
     distinct (cr_Replicas c) \<and> 0 \<le> cr_ChunkIndex c \<and> cr_Size c = 0 \<and> cr_Version c = 0 \<and>
     cr_Status c \<in> {ChunkStatusAllocated, ChunkStatusComplete, ChunkStatusLost} \<and>
     (cr_Status c = ChunkStatusAllocated \<longrightarrow> cr_Checksum c = [])"

definition chunks_wf :: "MetadataFSM \<Rightarrow> bool" where
  "chunks_wf s \<longleftrightarrow> (\<forall>k c. chunkRegistry s k = Some c \<longrightarrow> chunk_wf c)"

text \<open>The record of a chunk names a file that lists the chunk at the recorded index.\<close>

definition chunks_owned :: "MetadataFSM \<Rightarrow> bool" where
  "chunks_owned s \<longleftrightarrow>
     (\<forall>k c. chunkRegistry s k = Some c \<longrightarrow>
        (\<exists>f. fileIndex s (cr_FileID c) = Some f \<and>
             nat (cr_ChunkIndex c) < length (fr_ChunkIDs f) \<and>
             fr_ChunkIDs f ! nat (cr_ChunkIndex c) = k))"

text \<open>A file's chunks are known, belong to it, and have been committed once it is complete.\<close>

definition file_wf :: "FileRecord \<Rightarrow> bool" where
  "file_wf f \<longleftrightarrow>
     fr_Status f \<in> {FileStatusCreating, FileStatusComplete, FileStatusDeleted} \<and>
     (fr_Status f = FileStatusCreating \<longrightarrow> fr_CheckSum f = []) \<and> fr_UpdatedAt f = zero_time"

definition files_wf :: "MetadataFSM \<Rightarrow> bool" where
  "files_wf s \<longleftrightarrow>
     (\<forall>k f. fileIndex s k = Some f \<longrightarrow> file_wf f \<and>
        (\<forall>cid \<in> set (fr_ChunkIDs f). \<exists>c. chunkRegistry s cid = Some c \<and> cr_FileID c = k \<and>
           (fr_Status f = FileStatusComplete \<longrightarrow> cr_Status c \<noteq> ChunkStatusAllocated)))"

definition fsm_inv :: "MetadataFSM \<Rightarrow> bool" where
  "fsm_inv s \<longleftrightarrow> keys_match s \<and> chunks_wf s \<and> chunks_owned s \<and> files_wf s"

lemmas fsm_inv_defs = fsm_inv_def keys_match_def chunks_wf_def chunks_owned_def files_wf_def

lemma fsm_inv_empty: "fsm_inv NewEmptyMetadataFsm"
  by (simp add: fsm_inv_defs NewEmptyMetadataFsm_def)

section \<open>What no command undoes\<close>

definition file_extends :: "FileRecord \<Rightarrow> FileRecord \<Rightarrow> bool" where
  "file_extends f f' \<longleftrightarrow>
     f' = f\<lparr>fr_CheckSum := fr_CheckSum f', fr_Status := fr_Status f'\<rparr> \<and>
     (fr_Status f \<noteq> FileStatusCreating \<longrightarrow> fr_Status f' \<noteq> FileStatusCreating)"

definition chunk_extends :: "ChunkRecord \<Rightarrow> ChunkRecord \<Rightarrow> bool" where
  "chunk_extends c c' \<longleftrightarrow>
     c' = c\<lparr>cr_Checksum := cr_Checksum c', cr_Replicas := cr_Replicas c',
            cr_Status := cr_Status c'\<rparr> \<and>
     (cr_Checksum c \<noteq> [] \<longrightarrow> cr_Checksum c' = cr_Checksum c) \<and>
     (cr_Status c \<noteq> ChunkStatusAllocated \<longrightarrow> cr_Status c' \<noteq> ChunkStatusAllocated) \<and>
     (cr_Status c \<noteq> ChunkStatusComplete \<and> cr_Status c' = ChunkStatusComplete \<longrightarrow> cr_Checksum c = [])"

definition node_extends :: "NodeEntry \<Rightarrow> NodeEntry \<Rightarrow> bool" where
  "node_extends n n' \<longleftrightarrow> ne_NodeID n' = ne_NodeID n \<and> ne_RegisteredAt n' = ne_RegisteredAt n"

definition job_extends :: "RepairJob \<Rightarrow> RepairJob \<Rightarrow> bool" where
  "job_extends j j' \<longleftrightarrow>
     rj_JobID j' = rj_JobID j \<and> rj_ChunkID j' = rj_ChunkID j \<and>
     rj_TargetNodeID j' = rj_TargetNodeID j \<and> rj_DeleteSource j' = rj_DeleteSource j \<and>
     rj_CreatedAt j' = rj_CreatedAt j"

definition fsm_extends :: "MetadataFSM \<Rightarrow> MetadataFSM \<Rightarrow> bool" where
  "fsm_extends s s' \<longleftrightarrow>
     (\<forall>k f. fileIndex s k = Some f \<longrightarrow> (\<exists>f'. fileIndex s' k = Some f' \<and> file_extends f f')) \<and>
     (\<forall>k c. chunkRegistry s k = Some c \<longrightarrow> (\<exists>c'. chunkRegistry s' k = Some c' \<and> chunk_extends c c')) \<and>
     (\<forall>k n. nodeRegistry s k = Some n \<longrightarrow> (\<exists>n'. nodeRegistry s' k = Some n' \<and> node_extends n n')) \<and>
     (\<forall>k j. repairJobRegistry s k = Some j \<longrightarrow> (\<exists>j'. repairJobRegistry s' k = Some j' \<and> job_extends j j'))"

lemma file_extends_refl [simp]: "file_extends f f"
  by (simp add: file_extends_def)

lemma chunk_extends_refl [simp]: "chunk_extends c c"
  by (simp add: chunk_extends_def)

lemma node_extends_refl [simp]: "node_extends n n"
  by (simp add: node_extends_def)

lemma job_extends_refl [simp]: "job_extends j j"
  by (simp add: job_extends_def)

lemma file_extends_trans: "file_extends a b \<Longrightarrow> file_extends b c \<Longrightarrow> file_extends a c"
  by (cases a; cases b; cases c) (auto simp: file_extends_def)

lemma node_extends_trans: "node_extends a b \<Longrightarrow> node_extends b c \<Longrightarrow> node_extends a c"
  by (simp add: node_extends_def)

lemma job_extends_trans: "job_extends a b \<Longrightarrow> job_extends b c \<Longrightarrow> job_extends a c"
  by (simp add: job_extends_def)

lemma chunk_extends_trans: "chunk_extends a b \<Longrightarrow> chunk_extends b c \<Longrightarrow> chunk_extends a c"
  by (cases a; cases b; cases c) (auto simp: chunk_extends_def)

lemma fsm_extends_refl [simp]: "fsm_extends s s"
  by (simp add: fsm_extends_def)

lemma fsm_extends_trans:
  assumes "fsm_extends a b" and "fsm_extends b c"
  shows "fsm_extends a c"
  using assms unfolding fsm_extends_def
  by (meson chunk_extends_trans file_extends_trans node_extends_trans job_extends_trans)

section \<open>Writes through one pointer\<close>

lemma fsm_inv_set_node: "fsm_inv s \<Longrightarrow> ne_NodeID n = k \<Longrightarrow> node_wf n \<Longrightarrow> fsm_inv (set_node s k n)"
  by (simp add: fsm_inv_defs set_node_def)

lemma fsm_extends_set_node:
  "nodeRegistry s k = Some n \<Longrightarrow> node_extends n n' \<Longrightarrow> fsm_extends s (set_node s k n')"
  by (auto simp: fsm_extends_def set_node_def)

lemma fsm_inv_set_chunk:
  assumes inv: "fsm_inv s" and c: "chunkRegistry s k = Some c"
    and ext: "chunk_extends c c'" and wf: "chunk_wf c'"
  shows "fsm_inv (set_chunk s k c')"
proof -
  have same: "cr_ChunkID c' = cr_ChunkID c" "cr_FileID c' = cr_FileID c"
      "cr_ChunkIndex c' = cr_ChunkIndex c"
    using ext by (cases c; cases c'; simp add: chunk_extends_def)+
  have st: "cr_Status c \<noteq> ChunkStatusAllocated \<longrightarrow> cr_Status c' \<noteq> ChunkStatusAllocated"
    using ext by (simp add: chunk_extends_def)
  have "keys_match (set_chunk s k c')" and "chunks_wf (set_chunk s k c')"
    using inv c same wf by (simp_all add: fsm_inv_defs set_chunk_def)
  moreover have "chunks_owned (set_chunk s k c')"
    using inv c same unfolding fsm_inv_defs set_chunk_def
    by (auto split: if_splits)
  moreover have "files_wf (set_chunk s k c')"
    using inv c same st unfolding fsm_inv_def files_wf_def set_chunk_def
    by (auto split: if_splits) (metis option.inject)+
  ultimately show ?thesis by (simp add: fsm_inv_def)
qed

lemma fsm_extends_set_chunk:
  "chunkRegistry s k = Some c \<Longrightarrow> chunk_extends c c' \<Longrightarrow> fsm_extends s (set_chunk s k c')"
  by (auto simp: fsm_extends_def set_chunk_def)

lemma fsm_inv_set_file:
  assumes inv: "fsm_inv s" and f: "fileIndex s k = Some f" and ext: "file_extends f f'"
    and wf: "file_wf f'"
    and committed: "fr_Status f' = FileStatusComplete \<Longrightarrow>
      \<forall>cid \<in> set (fr_ChunkIDs f). \<exists>c. chunkRegistry s cid = Some c \<and> cr_Status c \<noteq> ChunkStatusAllocated"
  shows "fsm_inv (s\<lparr>fileIndex := (fileIndex s)(k \<mapsto> f')\<rparr>)"
proof -
  have same: "fr_FileID f' = fr_FileID f" "fr_ChunkIDs f' = fr_ChunkIDs f"
    using ext by (cases f; cases f'; simp add: file_extends_def)+
  let ?s = "s\<lparr>fileIndex := (fileIndex s)(k \<mapsto> f')\<rparr>"
  have "keys_match ?s" and "chunks_wf ?s"
    using inv f same by (simp_all add: fsm_inv_defs)
  moreover have "chunks_owned ?s"
    unfolding chunks_owned_def
  proof (intro allI impI)
    fix ka c
    assume "chunkRegistry ?s ka = Some c"
    then obtain g where "fileIndex s (cr_FileID c) = Some g"
        "nat (cr_ChunkIndex c) < length (fr_ChunkIDs g)" "fr_ChunkIDs g ! nat (cr_ChunkIndex c) = ka"
      using inv unfolding fsm_inv_def chunks_owned_def by auto
    then show "\<exists>f. fileIndex ?s (cr_FileID c) = Some f \<and>
        nat (cr_ChunkIndex c) < length (fr_ChunkIDs f) \<and> fr_ChunkIDs f ! nat (cr_ChunkIndex c) = ka"
      using f same by (cases "cr_FileID c = k") auto
  qed
  moreover have "files_wf ?s"
    using inv f same committed wf unfolding fsm_inv_def files_wf_def by auto fastforce
  ultimately show ?thesis by (simp add: fsm_inv_def)
qed

lemma fsm_extends_set_file:
  "fileIndex s k = Some f \<Longrightarrow> file_extends f f' \<Longrightarrow>
     fsm_extends s (s\<lparr>fileIndex := (fileIndex s)(k \<mapsto> f')\<rparr>)"
  by (auto simp: fsm_extends_def)

section \<open>Facts about the loops of the handlers\<close>

lemma insert_chunks_stubs:
  "insert_chunks reg (chunk_stubs fid i cids) k = Some c \<Longrightarrow>
     (k \<notin> set cids \<and> reg k = Some c) \<or>
     (\<exists>j < length cids. cids ! j = k \<and> c = chunk_stub fid (i + j) k)"
proof (induction cids arbitrary: reg i)
  case Nil
  then show ?case by simp
next
  case (Cons cid cids)
  let ?reg = "reg(cid \<mapsto> chunk_stub fid i cid)"
  from Cons.prems have "insert_chunks ?reg (chunk_stubs fid (Suc i) cids) k = Some c"
    by (simp add: chunk_stub_def)
  from Cons.IH [OF this] show ?case
  proof
    assume "k \<notin> set cids \<and> ?reg k = Some c"
    then show ?thesis by (cases "k = cid") auto
  next
    assume "\<exists>j < length cids. cids ! j = k \<and> c = chunk_stub fid (Suc i + j) k"
    then show ?thesis by (metis Suc_less_eq add_Suc_shift length_Cons nth_Cons_Suc)
  qed
qed

lemma insert_chunks_other: "k \<notin> set cids \<Longrightarrow> insert_chunks reg (chunk_stubs fid i cids) k = reg k"
  by (induction cids arbitrary: reg i) (auto simp: chunk_stub_def)

lemma insert_chunks_mono: "reg k \<noteq> None \<Longrightarrow> insert_chunks reg cs k \<noteq> None"
  by (induction cs arbitrary: reg) auto

lemma insert_chunks_known:
  "k \<in> set cids \<Longrightarrow> insert_chunks reg (chunk_stubs fid i cids) k \<noteq> None"
proof (induction cids arbitrary: reg i)
  case Nil
  then show ?case by simp
next
  case (Cons cid cids)
  then show ?case
    by (cases "k \<in> set cids") (auto simp: chunk_stub_def insert_chunks_mono simp del: not_None_eq)
qed

lemma any_chunk_known_stubs:
  "any_chunk_known reg (chunk_stubs fid i cids) \<longleftrightarrow> (\<exists>cid \<in> set cids. reg cid \<noteq> None)"
  by (induction cids arbitrary: i) (auto simp: chunk_stub_def)

lemma validate_chunks_None:
  "validate_chunks reg cids = None \<longleftrightarrow>
     (\<forall>cid \<in> set cids. \<exists>c. reg cid = Some c \<and> cr_Status c = ChunkStatusComplete)"
  by (induction cids) (auto split: option.splits)

lemma getIndex_shift: "getIndex xs v (Suc i) = (if getIndex xs v i = -1 then -1 else getIndex xs v i + 1)"
  by (induction xs arbitrary: i) auto

lemma getIndex_absent: "getIndex xs v i = -1 \<longleftrightarrow> v \<notin> set xs"
  by (induction xs arbitrary: i) auto

lemma getIndex_nonneg: "getIndex xs v i \<noteq> -1 \<Longrightarrow> 0 \<le> getIndex xs v i"
  by (induction xs arbitrary: i) auto

lemma getIndex_evict:
  "v \<in> set xs \<Longrightarrow>
     take (nat (getIndex xs v 0)) xs @ drop (nat (getIndex xs v 0) + 1) xs = remove1 v xs"
proof (induction xs)
  case Nil
  then show ?case by simp
next
  case (Cons x xs)
  show ?case
  proof (cases "x = v")
    case True
    then show ?thesis by simp
  next
    case False
    with Cons.prems have v: "v \<in> set xs" by simp
    then have "getIndex xs v 0 \<noteq> -1" by (simp add: getIndex_absent)
    with getIndex_nonneg [of xs v 0] have "nat (getIndex xs v 0 + 1) = Suc (nat (getIndex xs v 0))" by simp
    with False Cons.IH [OF v] \<open>getIndex xs v 0 \<noteq> -1\<close> show ?thesis
      by (simp add: getIndex_shift)
  qed
qed

text \<open>The \<open>seen\<close> map of the normalisation always holds exactly the entries already output.\<close>

lemma normalize_loop_distinct:
  "distinct normalized \<Longrightarrow> seen = set normalized \<Longrightarrow>
     distinct (normalize_loop ords s i raw normalized seen)"
proof (induction ords s i raw normalized seen rule: normalize_loop.induct)
  case (1 ords s i normalized seen)
  then show ?case by simp
next
  case (2 ords s i entry rest normalized seen)
  then show ?case by (auto simp: Let_def split: sum.splits)
qed

lemma normalizeReplicaNodeIDs_distinct: "distinct (normalizeReplicaNodeIDs ords s raw)"
  by (simp add: normalizeReplicaNodeIDs_def normalize_loop_distinct)

section \<open>The contract of a command handler\<close>

text \<open>
  A handler keeps the invariant, leaves the state untouched when it reports an
  error, and never undoes what \<open>fsm_extends\<close> protects.
\<close>

definition step_ok :: "MetadataFSM \<Rightarrow> fsm_step \<Rightarrow> bool" where
  "step_ok s r \<longleftrightarrow>
     (fsm_inv s \<longrightarrow> fsm_inv (fst r) \<and> fsm_extends s (fst r)) \<and> (snd r \<noteq> None \<longrightarrow> fst r = s)"

lemma step_ok_error [simp]: "step_ok s (s, e)"
  by (simp add: step_ok_def)

locale fsm_handler =
  fixes h :: "MetadataFSM \<Rightarrow> 'req \<Rightarrow> fsm_step"
  assumes keeps_inv: "fsm_inv s \<Longrightarrow> fsm_inv (fst (h s req))"
    and error_frame: "snd (h s req) = Some e \<Longrightarrow> fst (h s req) = s"
    and only_extends: "fsm_inv s \<Longrightarrow> fsm_extends s (fst (h s req))"
begin

lemma handler_ok: "step_ok s (h s req)"
  using keeps_inv error_frame only_extends by (auto simp: step_ok_def)

text \<open>Decoding in front of a handler keeps the contract.\<close>

lemma dispatched: "step_ok s (decode_then dec h s p)"
  by (simp add: decode_then_def handler_ok split: option.split)

end

section \<open>Every handler meets the contract\<close>

lemma touch_node_NodeID [simp]: "ne_NodeID (touch_node n t) = ne_NodeID n"
  by (simp add: touch_node_def)

lemma touch_node_Status [simp]: "ne_Status (touch_node n t) = ne_Status n"
  by (simp add: touch_node_def)

lemma node_wf_writes [simp]:
  "node_wf (touch_node n t) = node_wf n"
  "node_wf (n\<lparr>ne_FreeSpace := fs, ne_ChunkCount := cc\<rparr>) = node_wf n"
  "node_wf (n\<lparr>ne_LastSeen := t\<rparr>) = node_wf n"
  "node_wf (n\<lparr>ne_Status := NodeStatusAlive\<rparr>)"
  "node_wf (n\<lparr>ne_Status := NodeStatusDead\<rparr>)"
  "node_wf (n\<lparr>ne_Status := NodeStatusDraining\<rparr>)"
  by (simp_all add: node_wf_def)

lemma fsm_inv_node: "fsm_inv s \<Longrightarrow> nodeRegistry s k = Some n \<Longrightarrow> ne_NodeID n = k \<and> node_wf n"
  by (simp add: fsm_inv_defs)

lemma fsm_inv_chunk: "fsm_inv s \<Longrightarrow> chunkRegistry s k = Some c \<Longrightarrow> chunk_wf c \<and> cr_ChunkID c = k"
  by (simp add: fsm_inv_defs)

lemma fsm_inv_file:
  "fsm_inv s \<Longrightarrow> fileIndex s k = Some f \<Longrightarrow> cid \<in> set (fr_ChunkIDs f) \<Longrightarrow>
     \<exists>c. chunkRegistry s cid = Some c \<and> cr_FileID c = k \<and>
         (fr_Status f = FileStatusComplete \<longrightarrow> cr_Status c \<noteq> ChunkStatusAllocated)"
  unfolding fsm_inv_def files_wf_def by blast

lemma fsm_inv_file_wf: "fsm_inv s \<Longrightarrow> fileIndex s k = Some f \<Longrightarrow> file_wf f"
  unfolding fsm_inv_def files_wf_def by blast

lemma node_extends_touch [simp]: "node_extends n (touch_node n' t) = node_extends n n'"
  by (simp add: touch_node_def node_extends_def)

lemma node_extends_writes [simp]:
  "node_extends n (n\<lparr>ne_Status := st\<rparr>)"
  "node_extends n (n\<lparr>ne_FreeSpace := fs, ne_ChunkCount := cc\<rparr>)"
  "node_extends n (n\<lparr>ne_LastSeen := ts\<rparr>)"
  "node_extends n (n\<lparr>ne_Address := ad, ne_Status := st, ne_FreeSpace := fs, ne_ChunkCount := cc,
     ne_UpdatedAt := ts\<rparr>)"
  by (simp_all add: node_extends_def)

lemmas handler_simps = get_defs upsert_def Let_def
lemmas handler_frame = fsm_inv_set_node fsm_extends_set_node fsm_inv_node

interpretation register_node: fsm_handler handleCmdRegisterNode
proof
  fix s req e
  show "fsm_inv s \<Longrightarrow> fsm_inv (fst (handleCmdRegisterNode s req))"
    by (auto simp: handleCmdRegisterNode_def handler_simps set_node_def fsm_inv_defs node_wf_def
        split: option.splits)
  show "snd (handleCmdRegisterNode s req) = Some e \<Longrightarrow> fst (handleCmdRegisterNode s req) = s"
    by (simp add: handleCmdRegisterNode_def handler_simps split: option.splits)
  show "fsm_inv s \<Longrightarrow> fsm_extends s (fst (handleCmdRegisterNode s req))"
    using fsm_inv_node [of s]
    by (auto simp: handleCmdRegisterNode_def handler_simps fsm_extends_def set_node_def
        split: option.split)
qed

interpretation deregister_node: fsm_handler handleCmdDeregisterNode
  by unfold_locales
    (auto simp: handleCmdDeregisterNode_def handler_simps handler_frame split: option.splits)

interpretation mark_node_dead: fsm_handler handleCmdMarkNodeDead
  by unfold_locales
    (auto simp: handleCmdMarkNodeDead_def handler_simps handler_frame split: option.splits)

interpretation mark_node_alive: fsm_handler handleCmdMarkNodeAlive
  by unfold_locales
    (auto simp: handleCmdMarkNodeAlive_def handler_simps handler_frame split: option.splits)

interpretation update_node_space: fsm_handler handleCmdUpdateNodeSpace
  by unfold_locales
    (auto simp: handleCmdUpdateNodeSpace_def handler_simps handler_frame split: option.splits)

lemma chunk_stub_wf: "chunk_wf (chunk_stub fid j k)" "cr_ChunkID (chunk_stub fid j k) = k"
  by (simp_all add: chunk_stub_def chunk_wf_def)

text \<open>Creating a file adds fresh chunks and a fresh file, and touches nothing else.\<close>

lemma create_file_inv:
  assumes inv: "fsm_inv s" and f: "fileIndex s fid = None"
    and fresh: "\<not> any_chunk_known (chunkRegistry s) (chunk_stubs fid 0 (fr_ChunkIDs fl))"
    and new: "fr_FileID fl = fid" "fr_Status fl = FileStatusCreating" "file_wf fl"
  shows "fsm_inv (s\<lparr>chunkRegistry := insert_chunks (chunkRegistry s) (chunk_stubs fid 0 (fr_ChunkIDs fl)),
                    fileIndex := (fileIndex s)(fid \<mapsto> fl)\<rparr>)"
    (is "fsm_inv ?s")
proof -
  let ?cids = "fr_ChunkIDs fl"
  note cases = insert_chunks_stubs [of "chunkRegistry s" fid 0 ?cids, simplified]
  have old: "k \<notin> set ?cids" if "chunkRegistry s k = Some c" for k c
    using fresh that by (auto simp: any_chunk_known_stubs)
  have entry: "chunk_wf c \<and> cr_ChunkID c = k"
    if "insert_chunks (chunkRegistry s) (chunk_stubs fid 0 ?cids) k = Some c" for k c
    using cases [OF that] fsm_inv_chunk [OF inv] by (auto simp: chunk_stub_wf)
  have "keys_match ?s" "chunks_wf ?s"
    using inv new entry by (simp_all add: fsm_inv_defs)
  moreover have "chunks_owned ?s"
    unfolding chunks_owned_def
  proof (intro allI impI)
    fix k c
    assume "chunkRegistry ?s k = Some c"
    then have "insert_chunks (chunkRegistry s) (chunk_stubs fid 0 ?cids) k = Some c" by simp
    from cases [OF this] show "\<exists>f. fileIndex ?s (cr_FileID c) = Some f \<and>
        nat (cr_ChunkIndex c) < length (fr_ChunkIDs f) \<and> fr_ChunkIDs f ! nat (cr_ChunkIndex c) = k"
    proof
      assume "k \<notin> set ?cids \<and> chunkRegistry s k = Some c"
      with inv f show ?thesis
        by (cases "cr_FileID c = fid") (auto simp: fsm_inv_def chunks_owned_def, fastforce+)
    next
      assume "\<exists>j < length ?cids. ?cids ! j = k \<and> c = chunk_stub fid j k"
      then show ?thesis by (auto simp: chunk_stub_def)
    qed
  qed
  moreover have "files_wf ?s"
    unfolding files_wf_def
  proof (intro allI impI conjI ballI)
    fix k g
    assume "fileIndex ?s k = Some g"
    then show "file_wf g" using new fsm_inv_file_wf [OF inv] by (cases "k = fid") auto
  next
    fix k g cid
    assume g: "fileIndex ?s k = Some g" and cid: "cid \<in> set (fr_ChunkIDs g)"
    show "\<exists>c. chunkRegistry ?s cid = Some c \<and> cr_FileID c = k \<and>
        (fr_Status g = FileStatusComplete \<longrightarrow> cr_Status c \<noteq> ChunkStatusAllocated)"
    proof (cases "k = fid")
      case True
      with g cid have "cid \<in> set ?cids" "g = fl" by auto
      then obtain c where "insert_chunks (chunkRegistry s) (chunk_stubs fid 0 ?cids) cid = Some c"
        using insert_chunks_known by fastforce
      with \<open>cid \<in> set ?cids\<close> \<open>g = fl\<close> True new show ?thesis
        using cases by (fastforce simp: chunk_stub_def)
    next
      case False
      with g have "fileIndex s k = Some g" by simp
      from fsm_inv_file [OF inv this cid] obtain c where "chunkRegistry s cid = Some c"
        "cr_FileID c = k" "fr_Status g = FileStatusComplete \<longrightarrow> cr_Status c \<noteq> ChunkStatusAllocated"
        by blast
      then show ?thesis using old by (simp add: insert_chunks_other)
    qed
  qed
  ultimately show ?thesis by (simp add: fsm_inv_def)
qed

interpretation create_file: fsm_handler handleCmdCreateFile
proof
  fix s req e
  show "fsm_inv s \<Longrightarrow> fsm_inv (fst (handleCmdCreateFile s req))"
    using create_file_inv [where fl = "\<lparr>fr_FileID = ccf_FileID req, fr_Filename = ccf_FileName req,
        fr_FileSize = ccf_FileSize req, fr_ChunkSize = ccf_ChunkSize req, fr_CheckSum = [],
        fr_ChunkIDs = ccf_ChunkIDs req, fr_Status = FileStatusCreating,
        fr_CreatedAt = ccf_CreatedAt req, fr_UpdatedAt = zero_time\<rparr>"]
    by (simp add: handleCmdCreateFile_def handler_simps file_wf_def split: option.split)
  show "snd (handleCmdCreateFile s req) = Some e \<Longrightarrow> fst (handleCmdCreateFile s req) = s"
    by (auto simp: handleCmdCreateFile_def handler_simps split: option.splits if_splits)
  show "fsm_inv s \<Longrightarrow> fsm_extends s (fst (handleCmdCreateFile s req))"
    by (auto simp: handleCmdCreateFile_def handler_simps fsm_extends_def any_chunk_known_stubs
        insert_chunks_other split: option.split) (metis chunk_extends_refl insert_chunks_other not_None_eq)
qed

interpretation commit_file: fsm_handler handleCmdCommitFile
proof
  fix s req e
  have ext: "file_extends f (f\<lparr>fr_CheckSum := c, fr_Status := FileStatusComplete\<rparr>)" for f c
    by (simp add: file_extends_def)
  show "fsm_inv s \<Longrightarrow> fsm_inv (fst (handleCmdCommitFile s req))"
    using fsm_inv_file_wf [of s]
    by (auto simp: handleCmdCommitFile_def handler_simps validate_chunks_None ext file_wf_def
        intro!: fsm_inv_set_file split: option.splits)
  show "snd (handleCmdCommitFile s req) = Some e \<Longrightarrow> fst (handleCmdCommitFile s req) = s"
    by (auto simp: handleCmdCommitFile_def handler_simps split: option.splits if_splits)
  show "fsm_inv s \<Longrightarrow> fsm_extends s (fst (handleCmdCommitFile s req))"
    by (auto simp: handleCmdCommitFile_def handler_simps ext
        intro!: fsm_extends_set_file split: option.splits)
qed

interpretation delete_file: fsm_handler handleCmdDeleteFile
proof
  fix s req e
  have ext: "file_extends f (f\<lparr>fr_Status := FileStatusDeleted\<rparr>)" for f
    by (simp add: file_extends_def)
  show "fsm_inv s \<Longrightarrow> fsm_inv (fst (handleCmdDeleteFile s req))"
    using fsm_inv_file_wf [of s]
    by (auto simp: handleCmdDeleteFile_def handler_simps ext file_wf_def
        intro!: fsm_inv_set_file split: option.split)
  show "snd (handleCmdDeleteFile s req) = Some e \<Longrightarrow> fst (handleCmdDeleteFile s req) = s"
    by (auto simp: handleCmdDeleteFile_def handler_simps split: option.splits)
  show "fsm_inv s \<Longrightarrow> fsm_extends s (fst (handleCmdDeleteFile s req))"
    by (auto simp: handleCmdDeleteFile_def handler_simps ext
        intro!: fsm_extends_set_file split: option.split)
qed

text \<open>
  The chunk handlers write one chunk record: the new record extends the old one and
  is well formed.
\<close>

lemma chunk_extends_commit:
  "cr_Checksum c = [] \<Longrightarrow>
     chunk_extends c (c\<lparr>cr_Status := ChunkStatusComplete, cr_Checksum := cs, cr_Replicas := rs\<rparr>)"
  by (simp add: chunk_extends_def)

lemma chunk_extends_replicas: "chunk_extends c (c\<lparr>cr_Replicas := rs\<rparr>)"
  by (simp add: chunk_extends_def)

lemma chunk_extends_lost: "chunk_extends c (c\<lparr>cr_Status := ChunkStatusLost\<rparr>)"
  by (simp add: chunk_extends_def)

lemma chunk_wf_commit:
  "chunk_wf c \<Longrightarrow> distinct rs \<Longrightarrow>
     chunk_wf (c\<lparr>cr_Status := ChunkStatusComplete, cr_Checksum := cs, cr_Replicas := rs\<rparr>)"
  by (simp add: chunk_wf_def)

lemma chunk_wf_replicas: "chunk_wf c \<Longrightarrow> distinct rs \<Longrightarrow> chunk_wf (c\<lparr>cr_Replicas := rs\<rparr>)"
  by (simp add: chunk_wf_def)

lemma chunk_wf_lost: "chunk_wf c \<Longrightarrow> chunk_wf (c\<lparr>cr_Status := ChunkStatusLost\<rparr>)"
  by (simp add: chunk_wf_def)

lemma chunk_wf_distinct: "chunk_wf c \<Longrightarrow> distinct (cr_Replicas c)"
  by (simp add: chunk_wf_def)

lemmas chunk_write_rules =
  chunk_extends_commit chunk_extends_replicas chunk_extends_lost
  chunk_wf_commit chunk_wf_replicas chunk_wf_lost chunk_wf_distinct

lemmas chunk_handler_simps = handler_simps chunk_write_rules fsm_extends_set_chunk

interpretation commit_chunk: fsm_handler "handleCmdCommitChunk ords" for ords
proof
  fix s req e
  show "fsm_inv s \<Longrightarrow> fsm_inv (fst (handleCmdCommitChunk ords s req))"
    using fsm_inv_chunk [of s]
    by (auto simp: handleCmdCommitChunk_def chunk_handler_simps normalizeReplicaNodeIDs_distinct
        intro!: fsm_inv_set_chunk split: option.split)
  show "snd (handleCmdCommitChunk ords s req) = Some e \<Longrightarrow> fst (handleCmdCommitChunk ords s req) = s"
    by (auto simp: handleCmdCommitChunk_def handler_simps split: option.splits if_splits)
  show "fsm_inv s \<Longrightarrow> fsm_extends s (fst (handleCmdCommitChunk ords s req))"
    by (auto simp: handleCmdCommitChunk_def chunk_handler_simps split: option.split)
qed

text \<open>Eviction removes the node from the replica list.\<close>

lemma evict_eq:
  "handleCmdEvictChunkFromNode s req =
     (case chunkRegistry s (cev_ChunkID req) of
        None \<Rightarrow> (s, Some (Join (NewError ''cmdEvictChunk: '') ErrChunkNotFound))
      | Some c \<Rightarrow>
          if cev_NodeID req \<in> set (cr_Replicas c)
          then (set_chunk s (cev_ChunkID req)
                  (c\<lparr>cr_Replicas := remove1 (cev_NodeID req) (cr_Replicas c)\<rparr>), None)
          else (s, Some (NewError ''cmdEvictChunk: chunk not present on node'')))"
proof -
  have idx: "take (nat (getIndex xs v 0)) xs @ drop (Suc (nat (getIndex xs v 0))) xs = remove1 v xs"
    if "v \<in> set xs" for xs and v :: string
    using getIndex_evict [OF that] by simp
  show ?thesis
    by (auto simp: handleCmdEvictChunkFromNode_def handler_simps getIndex_absent idx split: option.split)
qed

interpretation evict_chunk: fsm_handler handleCmdEvictChunkFromNode
proof
  fix s req e
  show "fsm_inv s \<Longrightarrow> fsm_inv (fst (handleCmdEvictChunkFromNode s req))"
    using fsm_inv_chunk [of s]
    by (auto simp: evict_eq chunk_handler_simps intro!: fsm_inv_set_chunk split: option.split)
  show "snd (handleCmdEvictChunkFromNode s req) = Some e \<Longrightarrow>
      fst (handleCmdEvictChunkFromNode s req) = s"
    by (auto simp: evict_eq split: option.splits if_splits)
  show "fsm_inv s \<Longrightarrow> fsm_extends s (fst (handleCmdEvictChunkFromNode s req))"
    by (auto simp: evict_eq chunk_handler_simps split: option.split)
qed

interpretation mark_chunk_lost: fsm_handler handleCmdMarkChunkLost
proof
  fix s req e
  show "fsm_inv s \<Longrightarrow> fsm_inv (fst (handleCmdMarkChunkLost s req))"
    using fsm_inv_chunk [of s]
    by (auto simp: handleCmdMarkChunkLost_def chunk_handler_simps intro!: fsm_inv_set_chunk
        split: option.split)
  show "snd (handleCmdMarkChunkLost s req) = Some e \<Longrightarrow> fst (handleCmdMarkChunkLost s req) = s"
    by (auto simp: handleCmdMarkChunkLost_def handler_simps split: option.splits)
  show "fsm_inv s \<Longrightarrow> fsm_extends s (fst (handleCmdMarkChunkLost s req))"
    by (auto simp: handleCmdMarkChunkLost_def chunk_handler_simps split: option.split)
qed

interpretation add_replica: fsm_handler handleCmdAddChunkReplica
proof
  fix s req e
  show "fsm_inv s \<Longrightarrow> fsm_inv (fst (handleCmdAddChunkReplica s req))"
    using fsm_inv_chunk [of s]
    by (auto simp: handleCmdAddChunkReplica_def chunk_handler_simps intro!: fsm_inv_set_chunk
        split: option.split)
  show "snd (handleCmdAddChunkReplica s req) = Some e \<Longrightarrow> fst (handleCmdAddChunkReplica s req) = s"
    by (auto simp: handleCmdAddChunkReplica_def handler_simps split: option.splits if_splits)
  show "fsm_inv s \<Longrightarrow> fsm_extends s (fst (handleCmdAddChunkReplica s req))"
    by (auto simp: handleCmdAddChunkReplica_def chunk_handler_simps split: option.split)
qed

interpretation create_repair_job: fsm_handler handleCmdCreateRepairJob
  by unfold_locales
    (auto simp: handleCmdCreateRepairJob_def handler_simps fsm_inv_defs fsm_extends_def
      split: if_splits)

interpretation update_repair_job: fsm_handler handleCmdUpdateRepairJob
proof
  fix s req e
  show "fsm_inv s \<Longrightarrow> fsm_inv (fst (handleCmdUpdateRepairJob s req))"
    by (simp add: handleCmdUpdateRepairJob_def Let_def fsm_inv_defs split: option.split)
  show "snd (handleCmdUpdateRepairJob s req) = Some e \<Longrightarrow> fst (handleCmdUpdateRepairJob s req) = s"
    by (simp add: handleCmdUpdateRepairJob_def Let_def split: option.splits)
  show "fsm_inv s \<Longrightarrow> fsm_extends s (fst (handleCmdUpdateRepairJob s req))"
    by (auto simp: handleCmdUpdateRepairJob_def Let_def fsm_extends_def job_extends_def split: option.split)
qed

interpretation register_metadata_node: fsm_handler handleCmdRegisterMetadataNode
  by unfold_locales
    (simp_all add: handleCmdRegisterMetadataNode_def handler_simps fsm_inv_defs fsm_extends_def)

interpretation deregister_metadata_node: fsm_handler handleCmdDeregisterMetadataNode
  by unfold_locales
    (simp_all add: handleCmdDeregisterMetadataNode_def fsm_inv_defs fsm_extends_def)

section \<open>Apply\<close>

lemmas apply_dispatched =
  register_node.dispatched deregister_node.dispatched mark_node_dead.dispatched
  mark_node_alive.dispatched update_node_space.dispatched create_file.dispatched
  commit_file.dispatched delete_file.dispatched commit_chunk.dispatched evict_chunk.dispatched
  mark_chunk_lost.dispatched create_repair_job.dispatched update_repair_job.dispatched
  add_replica.dispatched register_metadata_node.dispatched deregister_metadata_node.dispatched

lemma Apply_ok: "step_ok s (Apply ords s rlog)"
  by (simp add: Apply_def Let_def apply_dispatched split: option.split)

lemma Apply_inv: "fsm_inv s \<Longrightarrow> fsm_inv (fst (Apply ords s rlog))"
  using Apply_ok [of s ords rlog] by (simp add: step_ok_def)

lemma Apply_extends: "fsm_inv s \<Longrightarrow> fsm_extends s (fst (Apply ords s rlog))"
  using Apply_ok [of s ords rlog] by (simp add: step_ok_def)

lemma Apply_frame: "snd (Apply ords s rlog) = Some e \<Longrightarrow> fst (Apply ords s rlog) = s"
  using Apply_ok [of s ords rlog] by (simp add: step_ok_def)

end
