(* ===== verification/Fsm_Snapshot.thy ===== *)
theory Fsm_Snapshot
  imports Fsm_Invariant
begin

text \<open>
  Snapshots of the metadata state: \<open>Snapshot\<close>, \<open>Persist\<close>, \<open>RestoreFSM\<close> and
  \<open>Restore\<close> of \<open>metadata/fsm/fsm.go\<close>, and \<open>DeepCopy\<close> of
  \<open>internal/utils/deep_copy.go\<close>. A persisted snapshot is the JSON document of the
  five registries; restoring it gives the state back except for the heartbeat
  timestamps, which are not part of a document.
\<close>

section \<open>The snapshot and its document\<close>

record MetadataFSMSnapshot =
  sn_FileIndex         :: "FileRecord gomap"
  sn_ChunkRegistry     :: "ChunkRecord gomap"
  sn_NodeRegistry      :: "NodeEntry gomap"
  sn_RepairJobRegistry :: "RepairJob gomap"
  sn_MDNodeRegistry    :: "MetadataNodeEntry gomap"

text \<open>
  A map is written as an object. \<open>json.Marshal\<close> ranges over the map and sorts the
  keys, so the range order \<open>ord\<close> does not show in the document.
\<close>

definition enc_map :: "('v \<Rightarrow> json) \<Rightarrow> string list \<Rightarrow> 'v gomap \<Rightarrow> json" where
  "enc_map enc ord m =
     JObj (List.map_filter (\<lambda>k. map_option (\<lambda>v. (k, enc v)) (m k)) (sort ord))"

fun dec_entries :: "(json \<Rightarrow> 'v option) \<Rightarrow> fields \<Rightarrow> 'v gomap \<Rightarrow> 'v gomap option" where
  "dec_entries dec [] m = Some m"
| "dec_entries dec ((k, j) # fs) m =
     (case dec j of None \<Rightarrow> None | Some v \<Rightarrow> dec_entries dec fs (m(k \<mapsto> v)))"

definition dec_map :: "(json \<Rightarrow> 'v option) \<Rightarrow> json \<Rightarrow> 'v gomap option" where
  "dec_map dec j = Option.bind (json_object j) (\<lambda>fs. dec_entries dec fs Map.empty)"

record range_orders =
  ro_files  :: "string list"
  ro_chunks :: "string list"
  ro_nodes  :: "string list"
  ro_jobs   :: "string list"
  ro_mds    :: "string list"

definition enc_MetadataFSMSnapshot :: "range_orders \<Rightarrow> MetadataFSMSnapshot \<Rightarrow> json" where
  "enc_MetadataFSMSnapshot ro sn = JObj
     [(''file_index'', enc_map enc_FileRecord (ro_files ro) (sn_FileIndex sn)),
      (''chunk_registry'', enc_map enc_ChunkRecord (ro_chunks ro) (sn_ChunkRegistry sn)),
      (''node_registry'', enc_map enc_NodeEntry (ro_nodes ro) (sn_NodeRegistry sn)),
      (''repairjob_registry'', enc_map enc_RepairJob (ro_jobs ro) (sn_RepairJobRegistry sn)),
      (''md_node_registry'', enc_map enc_MetadataNodeEntry (ro_mds ro) (sn_MDNodeRegistry sn))]"

definition dec_MetadataFSMSnapshot :: "json \<Rightarrow> MetadataFSMSnapshot option" where
  "dec_MetadataFSMSnapshot j = do {
     fs \<leftarrow> json_object j;
     x0 \<leftarrow> json_field (dec_map dec_FileRecord) Map.empty ''file_index'' fs;
     x1 \<leftarrow> json_field (dec_map dec_ChunkRecord) Map.empty ''chunk_registry'' fs;
     x2 \<leftarrow> json_field (dec_map dec_NodeEntry) Map.empty ''node_registry'' fs;
     x3 \<leftarrow> json_field (dec_map dec_RepairJob) Map.empty ''repairjob_registry'' fs;
     x4 \<leftarrow> json_field (dec_map dec_MetadataNodeEntry) Map.empty ''md_node_registry'' fs;
     Some \<lparr>sn_FileIndex = x0, sn_ChunkRegistry = x1, sn_NodeRegistry = x2,
       sn_RepairJobRegistry = x3, sn_MDNodeRegistry = x4\<rparr> }"

section \<open>Snapshot, Persist, Restore\<close>

text \<open>
  \<open>DeepCopy\<close> copies the records of a registry by value. The slices inside a record
  still share their arrays with the registry, which a value model does not show.
\<close>

definition DeepCopy :: "'v gomap \<Rightarrow> 'v gomap" where
  "DeepCopy registry = (\<lambda>k. case registry k of None \<Rightarrow> None | Some v \<Rightarrow> Some v)"

definition Snapshot :: "MetadataFSM \<Rightarrow> MetadataFSMSnapshot" where
  "Snapshot s =
     \<lparr>sn_FileIndex = DeepCopy (fileIndex s),
      sn_ChunkRegistry = DeepCopy (chunkRegistry s),
      sn_NodeRegistry = DeepCopy (nodeRegistry s),
      sn_RepairJobRegistry = DeepCopy (repairJobRegistry s),
      sn_MDNodeRegistry = DeepCopy (mdNodeRegistry s)\<rparr>"

definition RestoreFSM :: "MetadataFSMSnapshot \<Rightarrow> MetadataFSM" where
  "RestoreFSM sn =
     \<lparr>fileIndex = DeepCopy (sn_FileIndex sn),
      chunkRegistry = DeepCopy (sn_ChunkRegistry sn),
      nodeRegistry = DeepCopy (sn_NodeRegistry sn),
      repairJobRegistry = DeepCopy (sn_RepairJobRegistry sn),
      mdNodeRegistry = DeepCopy (sn_MDNodeRegistry sn)\<rparr>"

text \<open>
  The sink is Raft's. Its part in \<open>Persist\<close> is how much of the document \<open>io.Copy\<close>
  gets into it, with which error, and what \<open>Close\<close> answers. The sink ends up
  holding a finished document only when it was closed and not cancelled.
\<close>

datatype sink_end = SinkFinished json | SinkCancelled

record sink_behaviour =
  sb_copied_all :: bool
  sb_copy_err   :: "goerror option"
  sb_close_err  :: "goerror option"

definition Persist ::
    "sink_behaviour \<Rightarrow> range_orders \<Rightarrow> MetadataFSMSnapshot \<Rightarrow> sink_end \<times> goerror option" where
  "Persist sink ro sn =
     (let data = enc_MetadataFSMSnapshot ro sn in
      case sb_copy_err sink of
        Some e \<Rightarrow> (SinkCancelled, Some e)
      | None \<Rightarrow>
          if \<not> sb_copied_all sink then (SinkCancelled, Some (NewError ''Persist: short write''))
          else
            (case sb_close_err sink of
               Some e \<Rightarrow> (SinkCancelled, Some e)
             | None \<Rightarrow> (SinkFinished data, None)))"

text \<open>
  \<open>Restore\<close> is given the outcome of reading the snapshot: a read error, bytes that
  are no JSON document (\<open>None\<close>), or a document.
\<close>

definition Restore :: "MetadataFSM \<Rightarrow> json option result \<Rightarrow> fsm_step" where
  "Restore s read =
     (case read of
        Inl e \<Rightarrow> (s, Some e)
      | Inr data \<Rightarrow>
          (case Option.bind data dec_MetadataFSMSnapshot of
             None \<Rightarrow> (s, Some ErrUnmarshal)
           | Some snap \<Rightarrow>
               (let restored = RestoreFSM snap in
                (s\<lparr>fileIndex := fileIndex restored, chunkRegistry := chunkRegistry restored,
                  nodeRegistry := nodeRegistry restored,
                  repairJobRegistry := repairJobRegistry restored,
                  mdNodeRegistry := mdNodeRegistry restored\<rparr>, None))))"

section \<open>Documents of maps\<close>

lemma DeepCopy_id [simp]: "DeepCopy m = m"
  by (auto simp: DeepCopy_def split: option.split)

lemma enc_map_not_null [json_codec]: "enc_map enc ord m \<noteq> JNull"
  by (simp add: enc_map_def)

text \<open>Decoding the entries written for the keys \<open>ks\<close> fills in exactly those keys.\<close>

lemma dec_entries_map_filter:
  assumes "\<And>k v. k \<in> set ks \<Longrightarrow> m k = Some v \<Longrightarrow> dec (enc v) = Some (g v)"
  shows "dec_entries dec (List.map_filter (\<lambda>k. map_option (\<lambda>v. (k, enc v)) (m k)) ks) acc =
     Some (\<lambda>k. if k \<in> set ks \<and> m k \<noteq> None then map_option g (m k) else acc k)"
  using assms
proof (induction ks arbitrary: acc)
  case Nil
  then show ?case by (simp add: List.map_filter_simps)
next
  case (Cons a ks)
  have IH: "dec_entries dec (List.map_filter (\<lambda>k. map_option (\<lambda>v. (k, enc v)) (m k)) ks) acc' =
      Some (\<lambda>k. if k \<in> set ks \<and> m k \<noteq> None then map_option g (m k) else acc' k)" for acc'
    by (rule Cons.IH) (meson Cons.prems list.set_intros(2))
  show ?case
  proof (cases "m a")
    case None
    then show ?thesis using IH by (auto simp: List.map_filter_simps fun_eq_iff)
  next
    case (Some v)
    then have "dec (enc v) = Some (g v)" by (rule Cons.prems [rotated]) simp
    with Some show ?thesis using IH by (auto simp: List.map_filter_simps fun_eq_iff)
  qed
qed

lemma dec_enc_map:
  assumes "range_order ord m" "\<And>k v. m k = Some v \<Longrightarrow> dec (enc v) = Some (g v)"
  shows "dec_map dec (enc_map enc ord m) = Some (\<lambda>k. map_option g (m k))"
proof -
  have "dec_entries dec (List.map_filter (\<lambda>k. map_option (\<lambda>v. (k, enc v)) (m k)) (sort ord)) Map.empty =
     Some (\<lambda>k. if k \<in> set (sort ord) \<and> m k \<noteq> None then map_option g (m k) else None)"
    by (rule dec_entries_map_filter) (rule assms(2))
  also have "(\<lambda>k. if k \<in> set (sort ord) \<and> m k \<noteq> None then map_option g (m k) else None) =
     (\<lambda>k. map_option g (m k))"
    using assms(1) by (auto simp: range_order_def fun_eq_iff dom_def)
  finally show ?thesis by (simp add: dec_map_def enc_map_def)
qed

text \<open>Two replicas with the same registry write the same document.\<close>

lemma enc_map_order:
  assumes "range_order ord m" "range_order ord' m"
  shows "enc_map enc ord m = enc_map enc ord' m"
proof -
  have "mset ord = mset ord'"
    using assms by (simp add: range_order_def set_eq_iff_mset_eq_distinct [of ord ord', symmetric])
  then have "sort ord = sort ord'"
    by (metis properties_for_sort sorted_sort mset_sort)
  then show ?thesis by (simp add: enc_map_def)
qed

section \<open>Round trip\<close>

definition forget_seen :: "MetadataFSM \<Rightarrow> MetadataFSM" where
  "forget_seen s = s\<lparr>nodeRegistry := (\<lambda>k. map_option (ne_LastSeen_update (\<lambda>_. zero_time)) (nodeRegistry s k))\<rparr>"

definition orders_of :: "range_orders \<Rightarrow> MetadataFSM \<Rightarrow> bool" where
  "orders_of ro s \<longleftrightarrow>
     range_order (ro_files ro) (fileIndex s) \<and> range_order (ro_chunks ro) (chunkRegistry s) \<and>
     range_order (ro_nodes ro) (nodeRegistry s) \<and> range_order (ro_jobs ro) (repairJobRegistry s) \<and>
     range_order (ro_mds ro) (mdNodeRegistry s)"

text \<open>The \<open>int\<close> fields of a chunk record are machine integers.\<close>

definition chunk_ints_ok :: "ChunkRecord \<Rightarrow> bool" where
  "chunk_ints_ok c \<longleftrightarrow>
     - (2 ^ 63) \<le> cr_ChunkIndex c \<and> cr_ChunkIndex c < 2 ^ 63 \<and>
     - (2 ^ 63) \<le> cr_Size c \<and> cr_Size c < 2 ^ 63 \<and>
     - (2 ^ 63) \<le> cr_Version c \<and> cr_Version c < 2 ^ 63"

definition ints_ok :: "MetadataFSM \<Rightarrow> bool" where
  "ints_ok s \<longleftrightarrow> (\<forall>k c. chunkRegistry s k = Some c \<longrightarrow> chunk_ints_ok c)"

lemma snapshot_document:
  assumes "orders_of ro s" "ints_ok s"
  shows "dec_MetadataFSMSnapshot (enc_MetadataFSMSnapshot ro (Snapshot s)) = Some (Snapshot (forget_seen s))"
proof -
  have f: "dec_map dec_FileRecord (enc_map enc_FileRecord (ro_files ro) (fileIndex s)) = Some (fileIndex s)"
    using dec_enc_map [of "ro_files ro" "fileIndex s" dec_FileRecord enc_FileRecord id] assms(1)
    by (simp add: orders_of_def json_codec option.map_id)
  have c: "dec_map dec_ChunkRecord (enc_map enc_ChunkRecord (ro_chunks ro) (chunkRegistry s)) = Some (chunkRegistry s)"
    using dec_enc_map [of "ro_chunks ro" "chunkRegistry s" dec_ChunkRecord enc_ChunkRecord id] assms
    by (simp add: orders_of_def ints_ok_def chunk_ints_ok_def json_codec option.map_id)
  have n: "dec_map dec_NodeEntry (enc_map enc_NodeEntry (ro_nodes ro) (nodeRegistry s)) =
      Some (nodeRegistry (forget_seen s))"
    using dec_enc_map [of "ro_nodes ro" "nodeRegistry s" dec_NodeEntry enc_NodeEntry
        "ne_LastSeen_update (\<lambda>_. zero_time)"] assms(1)
    by (simp add: orders_of_def forget_seen_def json_codec)
  have j: "dec_map dec_RepairJob (enc_map enc_RepairJob (ro_jobs ro) (repairJobRegistry s)) =
      Some (repairJobRegistry s)"
    using dec_enc_map [of "ro_jobs ro" "repairJobRegistry s" dec_RepairJob enc_RepairJob id] assms(1)
    by (simp add: orders_of_def json_codec option.map_id)
  have m: "dec_map dec_MetadataNodeEntry (enc_map enc_MetadataNodeEntry (ro_mds ro) (mdNodeRegistry s)) =
      Some (mdNodeRegistry s)"
    using dec_enc_map [of "ro_mds ro" "mdNodeRegistry s" dec_MetadataNodeEntry enc_MetadataNodeEntry id] assms(1)
    by (simp add: orders_of_def json_codec option.map_id)
  show ?thesis
    by (simp add: enc_MetadataFSMSnapshot_def dec_MetadataFSMSnapshot_def Snapshot_def json_codec
        f c n j m) (simp add: forget_seen_def)
qed

lemma RestoreFSM_Snapshot: "RestoreFSM (Snapshot s) = s"
  by (simp add: RestoreFSM_def Snapshot_def)

lemma Restore_document:
  assumes "orders_of ro s" "ints_ok s"
  shows "Restore old (Inr (Some (enc_MetadataFSMSnapshot ro (Snapshot s)))) = (forget_seen s, None)"
  using assms by (simp add: Restore_def snapshot_document RestoreFSM_Snapshot Let_def)

lemma fsm_inv_forget_seen: "fsm_inv s \<Longrightarrow> fsm_inv (forget_seen s)"
  by (auto simp: fsm_inv_defs forget_seen_def)

lemma Persist_finished:
  "fst (Persist sink ro sn) = SinkFinished data \<longleftrightarrow>
     snd (Persist sink ro sn) = None \<and> data = enc_MetadataFSMSnapshot ro sn"
  by (auto simp: Persist_def Let_def split: option.split)

lemma Persist_cancelled: "fst (Persist sink ro sn) = SinkCancelled \<longleftrightarrow> snd (Persist sink ro sn) \<noteq> None"
  by (auto simp: Persist_def Let_def split: option.split)

end
