(* ===== verification/Fsm_Replication.thy ===== *)
theory Fsm_Replication
  imports Fsm_Snapshot
begin

text \<open>
  Agreement of the replicas of the metadata state. Every metadata node applies the
  same log, in its own map iteration order and possibly from a restored snapshot.
  The first part is about iteration orders: as long as no two storage nodes share an
  address, the order never shows. The second part is about snapshots: no command
  reads a heartbeat timestamp, so the timestamps a snapshot forgets are the only
  difference it can make.
\<close>

section \<open>Replaying a log\<close>

fun replay :: "(nat \<Rightarrow> nat \<Rightarrow> string list) \<Rightarrow> MetadataFSM \<Rightarrow> json option list \<Rightarrow> MetadataFSM" where
  "replay os s [] = s"
| "replay os s (rlog # rlogs) = replay (\<lambda>i. os (Suc i)) (fst (Apply (os 0) s rlog)) rlogs"

lemma replay_inv: "fsm_inv s \<Longrightarrow> fsm_inv (replay os s rlogs)"
  by (induction os s rlogs rule: replay.induct) (auto intro: Apply_inv)

lemma replay_extends: "fsm_inv s \<Longrightarrow> fsm_extends s (replay os s rlogs)"
proof (induction os s rlogs rule: replay.induct)
  case (1 os s)
  then show ?case by simp
next
  case (2 os s rlog rlogs)
  then show ?case
    using Apply_inv [of s "os 0" rlog] Apply_extends [of s "os 0" rlog]
    by (auto intro: fsm_extends_trans)
qed

section \<open>Iteration orders\<close>

definition unique_addresses :: "NodeEntry gomap \<Rightarrow> bool" where
  "unique_addresses reg \<longleftrightarrow>
     (\<forall>k k' n n'. reg k = Some n \<longrightarrow> reg k' = Some n' \<longrightarrow> ne_Address n = ne_Address n' \<longrightarrow> n = n')"

definition orders_fit :: "(nat \<Rightarrow> string list) \<Rightarrow> MetadataFSM \<Rightarrow> bool" where
  "orders_fit ords s \<longleftrightarrow> (\<forall>i. range_order (ords i) (nodeRegistry s))"

lemma resolve_address_order:
  assumes "range_order ord reg" "range_order ord' reg" "unique_addresses reg"
  shows "resolve_address ord reg a = resolve_address ord' reg a"
proof -
  have "find (\<lambda>n. ne_Address n = a) (range_values ord reg) = find (\<lambda>n. ne_Address n = a) (range_values ord' reg)"
    using assms by (intro find_unique) (auto simp: set_range_values_ran ran_def unique_addresses_def)
  then show ?thesis by (simp add: resolve_address_def)
qed

lemma normalize_loop_order:
  assumes "orders_fit ords s" "orders_fit ords' s" "unique_addresses (nodeRegistry s)"
  shows "normalize_loop ords s i raw normalized seen = normalize_loop ords' s i raw normalized seen"
proof (induction raw arbitrary: i normalized seen)
  case Nil
  show ?case by simp
next
  case (Cons a raw)
  have "resolve_address (ords i) (nodeRegistry s) a = resolve_address (ords' i) (nodeRegistry s) a"
    using assms by (intro resolve_address_order) (auto simp: orders_fit_def)
  with Cons.IH show ?case by (simp add: Let_def split: sum.split)
qed

lemma Apply_order:
  assumes "orders_fit ords s" "orders_fit ords' s" "unique_addresses (nodeRegistry s)"
  shows "Apply ords s rlog = Apply ords' s rlog"
proof -
  have "normalizeReplicaNodeIDs ords s = normalizeReplicaNodeIDs ords' s"
    using normalize_loop_order [OF assms] by (simp add: fun_eq_iff normalizeReplicaNodeIDs_def)
  then have "handleCmdCommitChunk ords s = handleCmdCommitChunk ords' s"
    by (simp only: fun_eq_iff handleCmdCommitChunk_def) simp
  then have "decode_then dec (handleCmdCommitChunk ords) s p = decode_then dec (handleCmdCommitChunk ords') s p"
    for dec p by (simp add: decode_then_def split: option.split)
  then show ?thesis by (simp only: Apply_def)
qed

text \<open>\<open>replay_fits\<close> asks for valid orders and unique addresses at every step of a replay.\<close>

fun replay_fits :: "(nat \<Rightarrow> nat \<Rightarrow> string list) \<Rightarrow> MetadataFSM \<Rightarrow> json option list \<Rightarrow> bool" where
  "replay_fits os s [] = True"
| "replay_fits os s (rlog # rlogs) =
     (orders_fit (os 0) s \<and> unique_addresses (nodeRegistry s) \<and>
      replay_fits (\<lambda>i. os (Suc i)) (fst (Apply (os 0) s rlog)) rlogs)"

lemma replay_order:
  "replay_fits os s rlogs \<Longrightarrow> replay_fits os' s rlogs \<Longrightarrow> replay os s rlogs = replay os' s rlogs"
proof (induction rlogs arbitrary: os os' s)
  case Nil
  then show ?case by simp
next
  case (Cons rlog rlogs)
  from Cons.prems have "Apply (os 0) s rlog = Apply (os' 0) s rlog"
    by (intro Apply_order) auto
  with Cons show ?case by simp
qed

section \<open>Commands do not read heartbeat timestamps\<close>

lemma forget_seen_fields [simp]:
  "fileIndex (forget_seen s) = fileIndex s"
  "chunkRegistry (forget_seen s) = chunkRegistry s"
  "repairJobRegistry (forget_seen s) = repairJobRegistry s"
  "mdNodeRegistry (forget_seen s) = mdNodeRegistry s"
  "nodeRegistry (forget_seen s) k = map_option (ne_LastSeen_update (\<lambda>_. zero_time)) (nodeRegistry s k)"
  by (simp_all add: forget_seen_def)

lemma forget_seen_updates [simp]:
  "forget_seen (s\<lparr>fileIndex := x\<rparr>) = (forget_seen s)\<lparr>fileIndex := x\<rparr>"
  "forget_seen (s\<lparr>chunkRegistry := y\<rparr>) = (forget_seen s)\<lparr>chunkRegistry := y\<rparr>"
  "forget_seen (s\<lparr>repairJobRegistry := z\<rparr>) = (forget_seen s)\<lparr>repairJobRegistry := z\<rparr>"
  "forget_seen (s\<lparr>mdNodeRegistry := w\<rparr>) = (forget_seen s)\<lparr>mdNodeRegistry := w\<rparr>"
  "forget_seen (set_chunk s k c) = set_chunk (forget_seen s) k c"
  by (simp_all add: forget_seen_def set_chunk_def)

lemma forget_seen_idem [simp]: "forget_seen (forget_seen s) = forget_seen s"
  by (simp add: forget_seen_def option.map_comp comp_def)

lemma forget_seen_set_node:
  "forget_seen (set_node s k n) = set_node (forget_seen s) k (n\<lparr>ne_LastSeen := zero_time\<rparr>)"
  by (simp add: forget_seen_def set_node_def fun_eq_iff)

lemma forget_touch [simp]:
  "(touch_node n t)\<lparr>ne_LastSeen := ts\<rparr> = touch_node (n\<lparr>ne_LastSeen := ts\<rparr>) t"
  by (simp add: touch_node_def)

lemmas seen_simps = handler_simps forget_seen_set_node

definition seen_agree :: "fsm_step \<Rightarrow> fsm_step \<Rightarrow> bool" where
  "seen_agree r r' \<longleftrightarrow> forget_seen (fst r) = forget_seen (fst r') \<and> snd r = snd r'"

lemma seen_agree_error [simp]: "seen_agree (forget_seen s, e) (s, e)"
  by (simp add: seen_agree_def)

locale seen_blind =
  fixes h :: "MetadataFSM \<Rightarrow> 'req \<Rightarrow> fsm_step"
  assumes blind_state: "forget_seen (fst (h (forget_seen s) req)) = forget_seen (fst (h s req))"
    and blind_error: "snd (h (forget_seen s) req) = snd (h s req)"
begin

lemma blind_dispatched:
  "seen_agree (decode_then dec h (forget_seen s) p) (decode_then dec h s p)"
  by (simp add: decode_then_def seen_agree_def blind_state blind_error split: option.split)

end

interpretation register_node_blind: seen_blind handleCmdRegisterNode
proof
  fix s req
  show "forget_seen (fst (handleCmdRegisterNode (forget_seen s) req)) =
      forget_seen (fst (handleCmdRegisterNode s req))"
    by (cases "nodeRegistry s (crn_NodeID req)")
      (simp_all add: handleCmdRegisterNode_def handler_simps set_node_def forget_seen_def fun_eq_iff
        option.map_comp comp_def)
  show "snd (handleCmdRegisterNode (forget_seen s) req) = snd (handleCmdRegisterNode s req)"
    by (cases "nodeRegistry s (crn_NodeID req)") (simp_all add: handleCmdRegisterNode_def handler_simps)
qed

interpretation deregister_node_blind: seen_blind handleCmdDeregisterNode
  by unfold_locales (simp_all add: handleCmdDeregisterNode_def seen_simps split: option.split)

interpretation mark_node_dead_blind: seen_blind handleCmdMarkNodeDead
  by unfold_locales (simp_all add: handleCmdMarkNodeDead_def seen_simps split: option.split)

interpretation mark_node_alive_blind: seen_blind handleCmdMarkNodeAlive
  by unfold_locales (simp_all add: handleCmdMarkNodeAlive_def seen_simps split: option.split)

interpretation update_node_space_blind: seen_blind handleCmdUpdateNodeSpace
  by unfold_locales (simp_all add: handleCmdUpdateNodeSpace_def seen_simps split: option.split)

interpretation create_file_blind: seen_blind handleCmdCreateFile
  by unfold_locales (simp_all add: handleCmdCreateFile_def seen_simps split: option.split)

interpretation commit_file_blind: seen_blind handleCmdCommitFile
  by unfold_locales (simp_all add: handleCmdCommitFile_def seen_simps split: option.split)

interpretation delete_file_blind: seen_blind handleCmdDeleteFile
  by unfold_locales (simp_all add: handleCmdDeleteFile_def seen_simps split: option.split)

lemma range_values_forget_seen:
  "range_values ord (nodeRegistry (forget_seen s)) =
     map (ne_LastSeen_update (\<lambda>_. zero_time)) (range_values ord (nodeRegistry s))"
  by (induction ord) (simp_all split: option.split)

lemma resolve_address_forget_seen:
  "resolve_address ord (nodeRegistry (forget_seen s)) a = resolve_address ord (nodeRegistry s) a"
proof -
  have "map_option ne_NodeID (find (\<lambda>n. ne_Address n = a) (map (ne_LastSeen_update (\<lambda>_. zero_time)) ns)) =
      map_option ne_NodeID (find (\<lambda>n. ne_Address n = a) ns)" for ns
    by (induction ns) simp_all
  from this [of "range_values ord (nodeRegistry s)"] show ?thesis
    by (auto simp: resolve_address_def range_values_forget_seen split: option.splits)
qed

lemma normalize_forget_seen:
  "normalizeReplicaNodeIDs ords (forget_seen s) raw = normalizeReplicaNodeIDs ords s raw"
proof -
  have "normalize_loop ords (forget_seen s) i raw normalized seen = normalize_loop ords s i raw normalized seen"
    for i normalized seen
    by (induction raw arbitrary: i normalized seen)
      (simp_all add: GetNode_def Let_def resolve_address_forget_seen split: option.split)
  then show ?thesis by (simp add: normalizeReplicaNodeIDs_def)
qed

interpretation commit_chunk_blind: seen_blind "handleCmdCommitChunk ords" for ords
  by unfold_locales
    (simp_all add: handleCmdCommitChunk_def seen_simps normalize_forget_seen split: option.split)

interpretation evict_chunk_blind: seen_blind handleCmdEvictChunkFromNode
  by unfold_locales (simp_all add: handleCmdEvictChunkFromNode_def seen_simps split: option.split)

interpretation mark_chunk_lost_blind: seen_blind handleCmdMarkChunkLost
  by unfold_locales (simp_all add: handleCmdMarkChunkLost_def seen_simps split: option.split)

interpretation add_replica_blind: seen_blind handleCmdAddChunkReplica
  by unfold_locales (simp_all add: handleCmdAddChunkReplica_def seen_simps split: option.split)

interpretation create_repair_job_blind: seen_blind handleCmdCreateRepairJob
  by unfold_locales (simp_all add: handleCmdCreateRepairJob_def seen_simps)

interpretation update_repair_job_blind: seen_blind handleCmdUpdateRepairJob
  by unfold_locales (simp_all add: handleCmdUpdateRepairJob_def seen_simps split: option.split)

interpretation register_metadata_node_blind: seen_blind handleCmdRegisterMetadataNode
  by unfold_locales (simp_all add: handleCmdRegisterMetadataNode_def seen_simps)

interpretation deregister_metadata_node_blind: seen_blind handleCmdDeregisterMetadataNode
  by unfold_locales (simp_all add: handleCmdDeregisterMetadataNode_def seen_simps)

lemmas apply_blind_dispatched =
  register_node_blind.blind_dispatched deregister_node_blind.blind_dispatched
  mark_node_dead_blind.blind_dispatched mark_node_alive_blind.blind_dispatched
  update_node_space_blind.blind_dispatched create_file_blind.blind_dispatched
  commit_file_blind.blind_dispatched delete_file_blind.blind_dispatched
  commit_chunk_blind.blind_dispatched evict_chunk_blind.blind_dispatched
  mark_chunk_lost_blind.blind_dispatched add_replica_blind.blind_dispatched
  create_repair_job_blind.blind_dispatched update_repair_job_blind.blind_dispatched
  register_metadata_node_blind.blind_dispatched deregister_metadata_node_blind.blind_dispatched

lemma Apply_forget_seen:
  "seen_agree (Apply ords (forget_seen s) rlog) (Apply ords s rlog)"
  by (simp add: Apply_def Let_def apply_blind_dispatched split: option.split)

lemma Apply_seen_eq:
  assumes "forget_seen s = forget_seen t"
  shows "forget_seen (fst (Apply ords s rlog)) = forget_seen (fst (Apply ords t rlog))"
    and "snd (Apply ords s rlog) = snd (Apply ords t rlog)"
proof -
  have "seen_agree (Apply ords (forget_seen t) rlog) (Apply ords s rlog)"
    using Apply_forget_seen [of ords s rlog] unfolding assms .
  moreover have "seen_agree (Apply ords (forget_seen t) rlog) (Apply ords t rlog)"
    by (rule Apply_forget_seen)
  ultimately show "forget_seen (fst (Apply ords s rlog)) = forget_seen (fst (Apply ords t rlog))"
    and "snd (Apply ords s rlog) = snd (Apply ords t rlog)"
    unfolding seen_agree_def by metis+
qed

lemma replay_seen_eq:
  "forget_seen s = forget_seen t \<Longrightarrow> forget_seen (replay os s rlogs) = forget_seen (replay os t rlogs)"
proof (induction rlogs arbitrary: os s t)
  case Nil
  then show ?case by simp
next
  case (Cons rlog rlogs)
  show ?case unfolding replay.simps by (rule Cons.IH) (rule Apply_seen_eq [OF Cons.prems])
qed

lemma replay_append:
  "replay os s (xs @ ys) = replay (\<lambda>i. os (length xs + i)) (replay os s xs) ys"
  by (induction os s xs rule: replay.induct) simp_all

end
