(* ===== verification/Fsm_Properties.thy ===== *)
theory Fsm_Properties
  imports Fsm_Replication
begin

text \<open>
  The properties of the metadata state machine: what holds in every state a metadata
  node can be in, what a committed log entry can and cannot do, when replicas agree,
  and what the file and chunk commands compute.
\<close>

section \<open>Reachable states\<close>

text \<open>
  A node's state changes by applying a log entry, by a heartbeat timestamp, and by
  installing a snapshot that another reachable state persisted. The machine integers
  of a chunk record fit their width, which the side condition \<open>ints_ok\<close> states.
\<close>

inductive reachable :: "MetadataFSM \<Rightarrow> bool" where
  start: "reachable NewEmptyMetadataFsm"
| applied: "reachable s \<Longrightarrow> reachable (fst (Apply ords s rlog))"
| seen: "reachable s \<Longrightarrow> reachable (fst (UpdateLastSeen s nodeID ts))"
| installed: "reachable s \<Longrightarrow> reachable old \<Longrightarrow> orders_of ro s \<Longrightarrow> ints_ok s \<Longrightarrow>
    Persist sink ro (Snapshot s) = (SinkFinished data, None) \<Longrightarrow>
    reachable (fst (Restore old (Inr (Some data))))"

lemma UpdateLastSeen_inv: "fsm_inv s \<Longrightarrow> fsm_inv (fst (UpdateLastSeen s nodeID ts))"
  by (auto simp: UpdateLastSeen_def fsm_inv_set_node fsm_inv_node split: option.split)

lemma Persist_data:
  "Persist sink ro sn = (SinkFinished data, None) \<Longrightarrow> data = enc_MetadataFSMSnapshot ro sn"
  using Persist_finished [of sink ro sn data] by simp

lemma reachable_fsm_inv: "reachable s \<Longrightarrow> fsm_inv s"
proof (induction rule: reachable.induct)
  case start
  show ?case by (rule fsm_inv_empty)
next
  case (applied s ords rlog)
  then show ?case by (simp add: Apply_inv)
next
  case (seen s nodeID ts)
  then show ?case by (simp add: UpdateLastSeen_inv)
next
  case (installed s old ro sink data)
  then have "Restore old (Inr (Some data)) = (forget_seen s, None)"
    by (simp add: Persist_data [OF installed.hyps(5)] Restore_document)
  with installed show ?case by (simp add: fsm_inv_forget_seen)
qed

section \<open>Concrete states for the witnesses\<close>

text \<open>Two storage nodes, and a file of two chunks of which the first is committed.\<close>

definition demo_register :: CommandRegisterNode where
  "demo_register = \<lparr>crn_NodeID = ''n1'', crn_Address = ''10.0.0.1:9000'', crn_FreeSpace = 1000000,
     crn_ChunkCount = 0, crn_CreatedAt = 5\<rparr>"

definition demo_register2 :: CommandRegisterNode where
  "demo_register2 = \<lparr>crn_NodeID = ''n2'', crn_Address = ''10.0.0.2:9000'', crn_FreeSpace = 500000,
     crn_ChunkCount = 0, crn_CreatedAt = 6\<rparr>"

definition demo_create :: CommandCreateFile where
  "demo_create = \<lparr>ccf_FileID = ''f'', ccf_FileName = ''a.txt'', ccf_ChunkIDs = [''c0'', ''c1''],
     ccf_FileSize = 20, ccf_ChunkSize = 10, ccf_Checksum = [], ccf_CreatedAt = 7\<rparr>"

definition demo_commit :: CommandCommitChunk where
  "demo_commit = \<lparr>cmc_ChunkID = ''c0'', cmc_NodeIDs = [''10.0.0.1:9000'', ''n1''], cmc_Checksum = [1]\<rparr>"

definition demo_log :: "json option list" where
  "demo_log =
     [Some (enc_MetadataCommand \<lparr>mc_Type = CmdRegisterNode, mc_Payload = enc_CommandRegisterNode demo_register\<rparr>),
      Some (enc_MetadataCommand \<lparr>mc_Type = CmdRegisterNode, mc_Payload = enc_CommandRegisterNode demo_register2\<rparr>),
      Some (enc_MetadataCommand \<lparr>mc_Type = CmdCreateFile, mc_Payload = enc_CommandCreateFile demo_create\<rparr>),
      Some (enc_MetadataCommand \<lparr>mc_Type = CmdCommitChunk, mc_Payload = enc_CommandCommitChunk demo_commit\<rparr>)]"

definition demo_orders :: "nat \<Rightarrow> nat \<Rightarrow> string list" where
  "demo_orders = (\<lambda>i j. if i = 0 then [] else if i = 1 then [''n1''] else [''n1'', ''n2''])"

definition demo_orders' :: "nat \<Rightarrow> nat \<Rightarrow> string list" where
  "demo_orders' = (\<lambda>i j. if i = 0 then [] else if i = 1 then [''n1''] else [''n2'', ''n1''])"

definition demo_state :: MetadataFSM where
  "demo_state = replay demo_orders NewEmptyMetadataFsm demo_log"

lemma reachable_replay: "reachable s \<Longrightarrow> reachable (replay os s rlogs)"
  by (induction os s rlogs rule: replay.induct) (auto intro: reachable.applied)

lemma demo_reachable: "reachable demo_state"
  unfolding demo_state_def by (intro reachable_replay reachable.start)

lemma Apply_dispatch:
  "- (2 ^ 63) \<le> t \<Longrightarrow> t < 2 ^ 63 \<Longrightarrow>
     Option.bind (Some (enc_MetadataCommand \<lparr>mc_Type = t, mc_Payload = p\<rparr>)) dec_MetadataCommand =
     Some \<lparr>mc_Type = t, mc_Payload = p\<rparr>"
  by (simp add: dec_enc_MetadataCommand)

text \<open>A command that a node encodes is the command the handler receives.\<close>

lemma Apply_encoded:
  "Apply ords s (Some (enc_MetadataCommand \<lparr>mc_Type = CmdRegisterNode, mc_Payload = enc_CommandRegisterNode a1\<rparr>)) =
     handleCmdRegisterNode s a1"
  "Apply ords s (Some (enc_MetadataCommand \<lparr>mc_Type = CmdDeregisterNode, mc_Payload = enc_CommandDeregisterNode a2\<rparr>)) =
     handleCmdDeregisterNode s a2"
  "Apply ords s (Some (enc_MetadataCommand \<lparr>mc_Type = CmdMarkNodeDead, mc_Payload = enc_CommandMarkNodeDead a3\<rparr>)) =
     handleCmdMarkNodeDead s a3"
  "Apply ords s (Some (enc_MetadataCommand \<lparr>mc_Type = CmdMarkNodeAlive, mc_Payload = enc_CommandMarkNodeAlive a4\<rparr>)) =
     handleCmdMarkNodeAlive s a4"
  "Apply ords s (Some (enc_MetadataCommand \<lparr>mc_Type = CmdUpdateNodeSpace, mc_Payload = enc_CommandUpdateNodeSpace a5\<rparr>)) =
     handleCmdUpdateNodeSpace s a5"
  "Apply ords s (Some (enc_MetadataCommand \<lparr>mc_Type = CmdCreateFile, mc_Payload = enc_CommandCreateFile a6\<rparr>)) =
     handleCmdCreateFile s a6"
  "Apply ords s (Some (enc_MetadataCommand \<lparr>mc_Type = CmdCommitFile, mc_Payload = enc_CommandCommitFile a7\<rparr>)) =
     handleCmdCommitFile s a7"
  "Apply ords s (Some (enc_MetadataCommand \<lparr>mc_Type = CmdDeleteFile, mc_Payload = enc_CommandDeleteFile a8\<rparr>)) =
     handleCmdDeleteFile s a8"
  "Apply ords s (Some (enc_MetadataCommand \<lparr>mc_Type = CmdCommitChunk, mc_Payload = enc_CommandCommitChunk a9\<rparr>)) =
     handleCmdCommitChunk ords s a9"
  "Apply ords s (Some (enc_MetadataCommand \<lparr>mc_Type = CmdEvictChunkFromNode, mc_Payload = enc_CommandEvictChunkFromNode b1\<rparr>)) =
     handleCmdEvictChunkFromNode s b1"
  "Apply ords s (Some (enc_MetadataCommand \<lparr>mc_Type = CmdMarkChunkLost, mc_Payload = enc_CommandMarkChunkLost b2\<rparr>)) =
     handleCmdMarkChunkLost s b2"
  "Apply ords s (Some (enc_MetadataCommand \<lparr>mc_Type = CmdCreateRepairJob, mc_Payload = enc_CommandCreateRepairJob b3\<rparr>)) =
     handleCmdCreateRepairJob s b3"
  "Apply ords s (Some (enc_MetadataCommand \<lparr>mc_Type = CmdUpdateRepairJob, mc_Payload = enc_CommandUpdateRepairJob b4\<rparr>)) =
     handleCmdUpdateRepairJob s b4"
  "Apply ords s (Some (enc_MetadataCommand \<lparr>mc_Type = CmdAddChunkReplica, mc_Payload = enc_CommandAddChunkReplica b5\<rparr>)) =
     handleCmdAddChunkReplica s b5"
  "Apply ords s (Some (enc_MetadataCommand \<lparr>mc_Type = CmdRegisterMetadataNode, mc_Payload = enc_CommandRegisterMetadataNode b6\<rparr>)) =
     handleCmdRegisterMetadataNode s b6"
  "Apply ords s (Some (enc_MetadataCommand \<lparr>mc_Type = CmdDeregisterMetadataNode, mc_Payload = enc_CommandDeregisterMetadataNode b7\<rparr>)) =
     handleCmdDeregisterMetadataNode s b7"
  by (simp_all add: Apply_def Apply_dispatch cmd_type_defs decode_then_def json_codec)

lemmas demo_defs = demo_register_def demo_register2_def demo_create_def demo_commit_def demo_log_def demo_orders_def
  demo_orders'_def

lemma demo_state_eq:
  "demo_state =
     \<lparr>fileIndex = [''f'' \<mapsto> \<lparr>fr_FileID = ''f'', fr_Filename = ''a.txt'', fr_FileSize = 20, fr_ChunkSize = 10,
        fr_CheckSum = [], fr_ChunkIDs = [''c0'', ''c1''], fr_Status = FileStatusCreating,
        fr_CreatedAt = 7, fr_UpdatedAt = zero_time\<rparr>],
      chunkRegistry = [''c0'' \<mapsto> (chunk_stub ''f'' 0 ''c0'')\<lparr>cr_Status := ChunkStatusComplete,
          cr_Checksum := [1], cr_Replicas := [''n1'']\<rparr>, ''c1'' \<mapsto> chunk_stub ''f'' 1 ''c1''],
      nodeRegistry = [''n1'' \<mapsto> \<lparr>ne_NodeID = ''n1'', ne_Address = ''10.0.0.1:9000'',
        ne_Status = NodeStatusAlive, ne_FreeSpace = 1000000, ne_ChunkCount = 0, ne_LastSeen = 5,
        ne_RegisteredAt = 5, ne_UpdatedAt = 5\<rparr>,
        ''n2'' \<mapsto> \<lparr>ne_NodeID = ''n2'', ne_Address = ''10.0.0.2:9000'',
        ne_Status = NodeStatusAlive, ne_FreeSpace = 500000, ne_ChunkCount = 0, ne_LastSeen = 6,
        ne_RegisteredAt = 6, ne_UpdatedAt = 6\<rparr>],
      repairJobRegistry = Map.empty, mdNodeRegistry = Map.empty\<rparr>"
  unfolding demo_state_def demo_log_def replay.simps Apply_encoded
  by (simp add: demo_defs NewEmptyMetadataFsm_def handleCmdRegisterNode_def handleCmdCreateFile_def
      handleCmdCommitChunk_def handler_simps chunk_stub_def set_chunk_def set_node_def
      normalizeReplicaNodeIDs_def resolve_address_def fun_eq_iff)

section \<open>Properties of reachable states\<close>



text \<open>
  Apply leaves the state exactly as it was whenever it returns an error: the
  entry is not a document, its payload does not decode, its type is unknown, or the
  handler rejects it.
\<close>

theorem apply_error_frame:
  "snd (Apply ords s rlog) = Some e \<Longrightarrow> fst (Apply ords s rlog) = s"
  by (rule Apply_frame)

theorem apply_error_frame_witness:
  "fst (Apply (\<lambda>_. []) demo_state (Some (JObj [(''type'', JNum 99)]))) = demo_state"
proof -
  have "snd (Apply (\<lambda>_. []) demo_state (Some (JObj [(''type'', JNum 99)]))) =
      Some (NewError ''unknown command type'')"
    by (simp add: Apply_def dec_MetadataCommand_def json_field_def cmd_type_defs)
  then show ?thesis by (rule apply_error_frame)
qed



section \<open>Agreement of the replicas\<close>

text \<open>
  C10: Two replicas that apply the same log from the same state reach the same state
  whatever order each of them iterates its maps in, as long as no two storage nodes
  are registered with the same address when an entry is applied.
\<close>

theorem replicas_agree:
  "replay_fits os s rlogs \<Longrightarrow> replay_fits os' s rlogs \<Longrightarrow> replay os s rlogs = replay os' s rlogs"
  by (rule replay_order)

lemma demo_replay_fits:
  "replay_fits demo_orders NewEmptyMetadataFsm demo_log"
  "replay_fits demo_orders' NewEmptyMetadataFsm demo_log"
  unfolding demo_log_def replay_fits.simps Apply_encoded
  by (auto simp: demo_defs NewEmptyMetadataFsm_def handleCmdRegisterNode_def handleCmdCreateFile_def
      handler_simps chunk_stub_def orders_fit_def range_order_def unique_addresses_def split: if_splits)

theorem replicas_agree_witness:
  "replay demo_orders NewEmptyMetadataFsm demo_log = replay demo_orders' NewEmptyMetadataFsm demo_log \<and>
   demo_orders \<noteq> demo_orders'"
  using replicas_agree [OF demo_replay_fits]
  by (auto simp: demo_orders_def demo_orders'_def fun_eq_iff)

definition twin :: "string \<Rightarrow> NodeEntry" where
  "twin k = \<lparr>ne_NodeID = k, ne_Address = ''h:1'', ne_Status = NodeStatusAlive, ne_FreeSpace = 0,
     ne_ChunkCount = 0, ne_LastSeen = 0, ne_RegisteredAt = 0, ne_UpdatedAt = 0\<rparr>"

definition twin_state :: MetadataFSM where
  "twin_state = NewEmptyMetadataFsm\<lparr>nodeRegistry := [''a'' \<mapsto> twin ''a'', ''b'' \<mapsto> twin ''b''],
     chunkRegistry := [''c'' \<mapsto> chunk_stub ''f'' 0 ''c'']\<rparr>"

definition twin_entry :: "json option" where
  "twin_entry = Some (enc_MetadataCommand \<lparr>mc_Type = CmdCommitChunk,
     mc_Payload = enc_CommandCommitChunk \<lparr>cmc_ChunkID = ''c'', cmc_NodeIDs = [''h:1''], cmc_Checksum = [1]\<rparr>\<rparr>)"

text \<open>
  Without unique addresses the state after a log entry depends on the iteration
  order of the replica's node map: two nodes registered with one address, and a
  chunk committed with that address, give different replica lists for the two orders.
\<close>

theorem apply_depends_on_order:
  "range_order [''a'', ''b''] (nodeRegistry twin_state) \<and> range_order [''b'', ''a''] (nodeRegistry twin_state) \<and>
   Apply (\<lambda>_. [''a'', ''b'']) twin_state twin_entry \<noteq> Apply (\<lambda>_. [''b'', ''a'']) twin_state twin_entry"
proof -
  have a: "cr_Replicas (the (chunkRegistry (fst (Apply (\<lambda>_. [''a'', ''b'']) twin_state twin_entry)) ''c'')) = [''a'']"
    and b: "cr_Replicas (the (chunkRegistry (fst (Apply (\<lambda>_. [''b'', ''a'']) twin_state twin_entry)) ''c'')) = [''b'']"
    unfolding twin_entry_def Apply_encoded
    by (simp_all add: twin_state_def twin_def NewEmptyMetadataFsm_def handleCmdCommitChunk_def handler_simps
        chunk_stub_def set_chunk_def normalizeReplicaNodeIDs_def resolve_address_def)
  have "Apply (\<lambda>_. [''a'', ''b'']) twin_state twin_entry \<noteq> Apply (\<lambda>_. [''b'', ''a'']) twin_state twin_entry"
  proof
    assume eq: "Apply (\<lambda>_. [''a'', ''b'']) twin_state twin_entry = Apply (\<lambda>_. [''b'', ''a'']) twin_state twin_entry"
    from a b show False unfolding eq by simp
  qed
  moreover have "range_order [''a'', ''b''] (nodeRegistry twin_state)"
    "range_order [''b'', ''a''] (nodeRegistry twin_state)"
    by (auto simp: range_order_def twin_state_def)
  ultimately show ?thesis by simp
qed

definition chunk_counts_fit :: "MetadataFSM \<Rightarrow> bool" where
  "chunk_counts_fit s \<longleftrightarrow> (\<forall>k f. fileIndex s k = Some f \<longrightarrow> length (fr_ChunkIDs f) < 2 ^ 63)"

lemma ints_ok_counts:
  assumes "fsm_inv s" "chunk_counts_fit s"
  shows "ints_ok s"
  unfolding ints_ok_def
proof (intro allI impI)
  fix k c
  assume c: "chunkRegistry s k = Some c"
  have wf: "chunk_wf c" using fsm_inv_chunk [OF assms(1) c] by simp
  from assms(1) c obtain f where "fileIndex s (cr_FileID c) = Some f"
      and idx: "nat (cr_ChunkIndex c) < length (fr_ChunkIDs f)"
    unfolding fsm_inv_def chunks_owned_def by blast
  with assms(2) have "length (fr_ChunkIDs f) < 2 ^ 63" unfolding chunk_counts_fit_def by blast
  with idx have "nat (cr_ChunkIndex c) < 2 ^ 63" by simp
  with wf show "chunk_ints_ok c" by (simp add: chunk_wf_def chunk_ints_ok_def)
qed

lemma Restore_persisted:
  assumes "reachable s" "chunk_counts_fit s" "orders_of ro s"
    and "Persist sink ro (Snapshot s) = (SinkFinished data, None)"
  shows "Restore old (Inr (Some data)) = (forget_seen s, None)"
  using ints_ok_counts [OF reachable_fsm_inv [OF assms(1)] assms(2)] assms(3)
  unfolding Persist_data [OF assms(4)] by (intro Restore_document)


definition demo_ro :: range_orders where
  "demo_ro = \<lparr>ro_files = [''f''], ro_chunks = [''c1'', ''c0''], ro_nodes = [''n2'', ''n1''], ro_jobs = [],
     ro_mds = []\<rparr>"

definition good_sink :: sink_behaviour where
  "good_sink = \<lparr>sb_copied_all = True, sb_copy_err = None, sb_close_err = None\<rparr>"

lemma demo_snapshot_ready:
  "chunk_counts_fit demo_state" "orders_of demo_ro demo_state"
  "Persist good_sink demo_ro (Snapshot demo_state) =
     (SinkFinished (enc_MetadataFSMSnapshot demo_ro (Snapshot demo_state)), None)"
  by (auto simp: chunk_counts_fit_def demo_state_eq orders_of_def demo_ro_def range_order_def
      Persist_def good_sink_def)




text \<open>
  Persist reports success exactly when the sink holds the finished document, and
  on every failure (a write error, a short write, a failing close) the sink is
  cancelled.
\<close>

theorem persist_all_or_nothing:
  "(snd (Persist sink ro sn) = None \<longleftrightarrow> fst (Persist sink ro sn) = SinkFinished (enc_MetadataFSMSnapshot ro sn)) \<and>
   (snd (Persist sink ro sn) \<noteq> None \<longleftrightarrow> fst (Persist sink ro sn) = SinkCancelled) \<and>
   (snd (Persist sink ro sn) = None \<longleftrightarrow>
      sb_copied_all sink \<and> sb_copy_err sink = None \<and> sb_close_err sink = None)"
  by (auto simp: Persist_def Let_def split: option.split)

end
