(* ===== verification/Fsm_Operations.thy ===== *)
theory Fsm_Operations
  imports Fsm_Properties
begin

text \<open>
  What the file and chunk commands compute, and what the reads of a reachable state
  return. The replica lists refine an abstract directory that maps each chunk to the
  set of nodes holding it.
\<close>

section \<open>Creating and reading a file\<close>

lemma collect_chunks_known:
  "(\<And>cid. cid \<in> set cids \<Longrightarrow> reg cid = Some (g cid)) \<Longrightarrow> collect_chunks reg cids = Inr (map g cids)"
  by (induction cids) auto

lemma insert_chunks_nth:
  assumes "distinct cids" "j < length cids"
  shows "insert_chunks reg (chunk_stubs fid 0 cids) (cids ! j) = Some (chunk_stub fid j (cids ! j))"
proof -
  from assms(2) obtain c where c: "insert_chunks reg (chunk_stubs fid 0 cids) (cids ! j) = Some c"
    using insert_chunks_known [OF nth_mem [OF assms(2)]] by blast
  with insert_chunks_stubs [OF c] assms show ?thesis
    by (auto simp: nth_eq_iff_index_eq)
qed

lemma length_chunk_stubs [simp]: "length (chunk_stubs fid i cids) = length cids"
  by (induction cids arbitrary: i) simp_all

lemma nth_chunk_stubs: "j < length cids \<Longrightarrow> chunk_stubs fid i cids ! j = chunk_stub fid (i + j) (cids ! j)"
proof (induction cids arbitrary: i j)
  case Nil
  then show ?case by simp
next
  case (Cons cid cids)
  then show ?case by (cases j) simp_all
qed

lemma collect_chunks_stubs:
  assumes "distinct cids"
  shows "collect_chunks (insert_chunks reg (chunk_stubs fid 0 cids)) cids = Inr (chunk_stubs fid 0 cids)"
proof -
  let ?reg = "insert_chunks reg (chunk_stubs fid 0 cids)"
  have "collect_chunks ?reg cids = Inr (map (\<lambda>cid. the (?reg cid)) cids)"
    using insert_chunks_known [of _ cids reg fid 0] by (intro collect_chunks_known) force
  moreover have "map (\<lambda>cid. the (?reg cid)) cids = chunk_stubs fid 0 cids"
    by (rule nth_equalityI) (simp_all add: nth_chunk_stubs insert_chunks_nth [OF assms])
  ultimately show ?thesis by simp
qed

text \<open>
  CreateFile accepts a command exactly when neither the file identifier nor any
  of the chunk identifiers is known. Then the file is in status creating with the
  given name and sizes, and reading its chunks returns one allocated, empty record
  per identifier, in order and with consecutive indices; no other file, chunk or node
  changes.
\<close>

theorem create_file_spec:
  assumes "distinct (ccf_ChunkIDs req)"
  shows "(snd (handleCmdCreateFile s req) = None \<longleftrightarrow>
      fileIndex s (ccf_FileID req) = None \<and> list_all (\<lambda>cid. chunkRegistry s cid = None) (ccf_ChunkIDs req)) \<and>
    (snd (handleCmdCreateFile s req) = None \<longrightarrow>
      GetFileChunks (fst (handleCmdCreateFile s req)) (ccf_FileID req) =
        Inr (chunk_stubs (ccf_FileID req) 0 (ccf_ChunkIDs req)) \<and>
      map_option fr_Status (fileIndex (fst (handleCmdCreateFile s req)) (ccf_FileID req)) = Some FileStatusCreating \<and>
      (\<forall>k. k \<noteq> ccf_FileID req \<longrightarrow> fileIndex (fst (handleCmdCreateFile s req)) k = fileIndex s k) \<and>
      (\<forall>k. k \<notin> set (ccf_ChunkIDs req) \<longrightarrow> chunkRegistry (fst (handleCmdCreateFile s req)) k = chunkRegistry s k) \<and>
      nodeRegistry (fst (handleCmdCreateFile s req)) = nodeRegistry s)"
  by (auto simp: handleCmdCreateFile_def handler_simps any_chunk_known_stubs GetFileChunks_def list_all_iff
      collect_chunks_stubs [OF assms] insert_chunks_other split: option.splits if_splits)

theorem create_file_spec_witness:
  "GetFileChunks (fst (handleCmdCreateFile NewEmptyMetadataFsm demo_create)) ''f'' =
     Inr [chunk_stub ''f'' 0 ''c0'', chunk_stub ''f'' 1 ''c1'']"
proof -
  have d: "distinct (ccf_ChunkIDs demo_create)" by (simp add: demo_create_def)
  have ok: "snd (handleCmdCreateFile NewEmptyMetadataFsm demo_create) = None"
    using create_file_spec [OF d, of NewEmptyMetadataFsm] by (simp add: NewEmptyMetadataFsm_def list_all_iff)
  show ?thesis using create_file_spec [OF d] ok by (simp add: demo_create_def)
qed

text \<open>
  In a reachable state GetFileChunks never fails for a known file: it returns
  the records of exactly the chunks the file lists, in the file's order, and each
  belongs to the file.
\<close>

theorem get_file_chunks_total:
  assumes "reachable s" and "GetFile s fileID = Inr f"
  shows "\<exists>cks. GetFileChunks s fileID = Inr cks \<and> map cr_ChunkID cks = fr_ChunkIDs f \<and>
    list_all (\<lambda>c. cr_FileID c = fileID \<and>
      (fr_Status f = FileStatusComplete \<longrightarrow> cr_Status c \<noteq> ChunkStatusAllocated)) cks"
proof -
  note inv = reachable_fsm_inv [OF assms(1)]
  from assms(2) have f: "fileIndex s fileID = Some f"
    by (simp add: GetFile_def split: option.splits)
  let ?g = "\<lambda>cid. the (chunkRegistry s cid)"
  have known: "chunkRegistry s cid = Some (?g cid) \<and> cr_FileID (?g cid) = fileID \<and> cr_ChunkID (?g cid) = cid \<and>
      (fr_Status f = FileStatusComplete \<longrightarrow> cr_Status (?g cid) \<noteq> ChunkStatusAllocated)"
    if "cid \<in> set (fr_ChunkIDs f)" for cid
    using fsm_inv_file [OF inv f that] fsm_inv_chunk [OF inv] by fastforce
  then have "GetFileChunks s fileID = Inr (map ?g (fr_ChunkIDs f))"
    using assms(2) by (simp add: GetFileChunks_def collect_chunks_known)
  moreover have "map cr_ChunkID (map ?g (fr_ChunkIDs f)) = fr_ChunkIDs f"
    using known by (simp add: comp_def map_idI)
  moreover have "list_all (\<lambda>c. cr_FileID c = fileID \<and>
      (fr_Status f = FileStatusComplete \<longrightarrow> cr_Status c \<noteq> ChunkStatusAllocated)) (map ?g (fr_ChunkIDs f))"
    using known by (simp add: list_all_iff)
  ultimately show ?thesis by blast
qed

theorem get_file_chunks_total_witness:
  "\<exists>cks. GetFileChunks demo_state ''f'' = Inr cks \<and> map cr_ChunkID cks = [''c0'', ''c1'']"
proof -
  have "GetFile demo_state ''f'' = Inr (the (fileIndex demo_state ''f''))"
    by (simp add: GetFile_def demo_state_eq)
  from get_file_chunks_total [OF demo_reachable this] show ?thesis by (auto simp: demo_state_eq)
qed

section \<open>Committing a file\<close>

definition chunk_complete :: "MetadataFSM \<Rightarrow> string \<Rightarrow> bool" where
  "chunk_complete s cid \<longleftrightarrow> map_option cr_Status (chunkRegistry s cid) = Some ChunkStatusComplete"

lemma validate_chunks_complete:
  "validate_chunks (chunkRegistry s) cids = None \<longleftrightarrow> list_all (chunk_complete s) cids"
  by (auto simp: validate_chunks_None list_all_iff chunk_complete_def)

lemma validate_chunks_incomplete:
  "validate_chunks (chunkRegistry s) cids = Some e \<Longrightarrow> \<not> list_all (chunk_complete s) cids"
  by (metis option.distinct(1) validate_chunks_complete)

text \<open>
  CommitFile succeeds exactly when the file is known, the reported size is the
  size it was created with, and every listed chunk is known and complete; it then
  records the checksum and the status complete and changes nothing else.
\<close>

theorem commit_file_spec:
  "handleCmdCommitFile s req = (s', None) \<longleftrightarrow>
     (\<exists>f. fileIndex s (cmf_FileID req) = Some f \<and> fr_FileSize f = cmf_FileSize req \<and>
        list_all (chunk_complete s) (fr_ChunkIDs f) \<and>
        s' = s\<lparr>fileIndex := (fileIndex s)(cmf_FileID req \<mapsto>
               f\<lparr>fr_CheckSum := cmf_Checksum req, fr_Status := FileStatusComplete\<rparr>)\<rparr>)"
  by (auto simp: handleCmdCommitFile_def handler_simps validate_chunks_complete
      dest: validate_chunks_incomplete split: option.splits)

text \<open>
  The status of the file is not part of that condition: a deleted file whose
  chunks are complete is committed again by a CommitFile command and becomes readable.
\<close>

theorem deleted_file_recommitted:
  assumes "fileIndex s (cmf_FileID req) = Some f" "fr_Status f = FileStatusDeleted"
    and "fr_FileSize f = cmf_FileSize req"
    and "list_all (chunk_complete s) (fr_ChunkIDs f)"
  shows "map_option fr_Status (fileIndex (fst (handleCmdCommitFile s req)) (cmf_FileID req)) = Some FileStatusComplete"
proof -
  have "validate_chunks (chunkRegistry s) (fr_ChunkIDs f) = None"
    using assms(4) by (simp add: validate_chunks_complete)
  with assms show ?thesis by (simp add: handleCmdCommitFile_def handler_simps)
qed

definition deleted_demo :: MetadataFSM where
  "deleted_demo = fst (handleCmdDeleteFile (fst (handleCmdCommitFile
     (fst (handleCmdCreateFile NewEmptyMetadataFsm
        \<lparr>ccf_FileID = ''f'', ccf_FileName = ''empty'', ccf_ChunkIDs = [], ccf_FileSize = 0, ccf_ChunkSize = 10,
         ccf_Checksum = [], ccf_CreatedAt = 7\<rparr>))
     \<lparr>cmf_FileID = ''f'', cmf_FileSize = 0, cmf_Checksum = [2]\<rparr>)) \<lparr>cdf_FileID = ''f''\<rparr>)"

theorem deleted_file_recommitted_witness:
  "map_option fr_Status (fileIndex deleted_demo ''f'') = Some FileStatusDeleted \<and>
   map_option fr_Status (fileIndex (fst (handleCmdCommitFile deleted_demo
     \<lparr>cmf_FileID = ''f'', cmf_FileSize = 0, cmf_Checksum = [2]\<rparr>)) ''f'') = Some FileStatusComplete"
proof -
  have f: "fileIndex deleted_demo ''f'' = Some \<lparr>fr_FileID = ''f'', fr_Filename = ''empty'', fr_FileSize = 0,
      fr_ChunkSize = 10, fr_CheckSum = [2], fr_ChunkIDs = [], fr_Status = FileStatusDeleted, fr_CreatedAt = 7,
      fr_UpdatedAt = zero_time\<rparr>"
    by (simp add: deleted_demo_def handleCmdDeleteFile_def handleCmdCommitFile_def handleCmdCreateFile_def
        handler_simps NewEmptyMetadataFsm_def)
  have "map_option fr_Status (fileIndex (fst (handleCmdCommitFile deleted_demo
     \<lparr>cmf_FileID = ''f'', cmf_FileSize = 0, cmf_Checksum = [2]\<rparr>))
       (cmf_FileID \<lparr>cmf_FileID = ''f'', cmf_FileSize = 0, cmf_Checksum = [2]\<rparr>)) = Some FileStatusComplete"
    by (rule deleted_file_recommitted, simp add: f) simp_all
  with f show ?thesis by simp
qed

section \<open>Committing a chunk\<close>

text \<open>
  The identifier a reported replica stands for: a registered node identifier stands
  for itself, the address of a registered node for that node, and anything else for
  itself.
\<close>

definition canonical :: "string list \<Rightarrow> MetadataFSM \<Rightarrow> string \<Rightarrow> string" where
  "canonical ord s entry =
     (if nodeRegistry s entry \<noteq> None then entry
      else let resolved = resolve_address ord (nodeRegistry s) entry
           in if resolved \<noteq> '''' then resolved else entry)"

lemma resolve_address_registered:
  assumes "fsm_inv s" "range_order ord (nodeRegistry s)" "resolve_address ord (nodeRegistry s) a \<noteq> ''''"
  shows "nodeRegistry s (resolve_address ord (nodeRegistry s) a) \<noteq> None"
proof -
  from assms(3) obtain n where n: "find (\<lambda>n. ne_Address n = a) (range_values ord (nodeRegistry s)) = Some n"
    by (auto simp: resolve_address_def split: option.splits)
  then have "n \<in> set (range_values ord (nodeRegistry s))" by (auto simp: find_Some_iff)
  then obtain k where "nodeRegistry s k = Some n"
    using assms(2) by (auto simp: set_range_values_ran ran_def)
  with fsm_inv_node [OF assms(1) this] n show ?thesis by (simp add: resolve_address_def)
qed

lemma canonical_idem:
  assumes "fsm_inv s" "range_order ord (nodeRegistry s)"
  shows "canonical ord s (canonical ord s e) = canonical ord s e"
  using resolve_address_registered [OF assms] by (auto simp: canonical_def Let_def)

lemma normalize_loop_set:
  assumes inv: "fsm_inv s" and fit: "orders_fit ords s" and ua: "unique_addresses (nodeRegistry s)"
    and ord: "range_order ord (nodeRegistry s)"
  shows "seen = set normalized \<Longrightarrow> \<forall>e \<in> seen. canonical ord s e = e \<Longrightarrow>
     set (normalize_loop ords s i raw normalized seen) = set normalized \<union> canonical ord s ` set raw"
proof (induction raw arbitrary: i normalized seen)
  case Nil
  then show ?case by simp
next
  case (Cons entry rest)
  let ?c = "canonical ord s entry"
  have res: "resolve_address (ords i) (nodeRegistry s) entry = resolve_address ord (nodeRegistry s) entry"
    using fit ord ua by (intro resolve_address_order) (auto simp: orders_fit_def)
  have step: "normalize_loop ords s i (entry # rest) normalized seen =
      (if entry \<in> seen \<or> ?c \<in> seen then normalize_loop ords s (Suc i) rest normalized seen
       else normalize_loop ords s (Suc i) rest (normalized @ [?c]) (insert ?c seen))"
    by (auto simp: GetNode_def canonical_def Let_def res split: option.split)
  show ?case
  proof (cases "entry \<in> seen \<or> ?c \<in> seen")
    case True
    then have "?c \<in> seen" using Cons.prems(2) by auto
    with True step Cons.IH [OF Cons.prems] Cons.prems(1) show ?thesis by auto
  next
    case False
    have "set (normalize_loop ords s (Suc i) rest (normalized @ [?c]) (insert ?c seen)) =
        set (normalized @ [?c]) \<union> canonical ord s ` set rest"
      using Cons.prems canonical_idem [OF inv ord] by (intro Cons.IH) auto
    with False step show ?thesis by auto
  qed
qed

text \<open>
  Normalising the reported replicas of a chunk gives a list without duplicates
  that holds exactly the identifiers the reports stand for: addresses are resolved to
  node identifiers, and a report that is neither a known identifier nor a known
  address is kept as it is.
\<close>

theorem normalize_replicas_spec:
  assumes "fsm_inv s" "orders_fit ords s" "range_order ord (nodeRegistry s)"
    and "unique_addresses (nodeRegistry s)"
  shows "distinct (normalizeReplicaNodeIDs ords s raw) \<and>
    set (normalizeReplicaNodeIDs ords s raw) = canonical ord s ` set raw"
  using normalizeReplicaNodeIDs_distinct normalize_loop_set [OF assms(1,2,4,3), of "{}" "[]"]
  by (simp add: normalizeReplicaNodeIDs_def)

theorem normalize_replicas_spec_witness:
  "set (normalizeReplicaNodeIDs (\<lambda>_. [''n1'', ''n2'']) demo_state [''n2'', ''10.0.0.1:9000'', ''n1'', ''x'']) =
     {''n1'', ''n2'', ''x''}"
proof -
  have inv: "fsm_inv demo_state" by (rule reachable_fsm_inv [OF demo_reachable])
  have ord: "range_order [''n1'', ''n2''] (nodeRegistry demo_state)"
    by (auto simp: range_order_def demo_state_eq)
  have ua: "unique_addresses (nodeRegistry demo_state)"
    by (auto simp: unique_addresses_def demo_state_eq split: if_splits)
  have fit: "orders_fit (\<lambda>_. [''n1'', ''n2'']) demo_state" using ord by (simp add: orders_fit_def)
  have "set (normalizeReplicaNodeIDs (\<lambda>_. [''n1'', ''n2'']) demo_state
      [''n2'', ''10.0.0.1:9000'', ''n1'', ''x'']) =
      canonical [''n1'', ''n2''] demo_state ` set [''n2'', ''10.0.0.1:9000'', ''n1'', ''x'']"
    using normalize_replicas_spec [OF inv fit ord ua] by blast
  also have "\<dots> = {''n1'', ''n2'', ''x''}"
    by (auto simp: canonical_def resolve_address_def demo_state_eq)
  finally show ?thesis .
qed

section \<open>The replica directory\<close>

text \<open>The abstract directory: which nodes hold a chunk.\<close>

type_synonym directory = "string \<Rightarrow> string set option"

definition directory_of :: "MetadataFSM \<Rightarrow> directory" where
  "directory_of s = (\<lambda>k. map_option (\<lambda>c. set (cr_Replicas c)) (chunkRegistry s k))"

definition dir_drop :: "string \<Rightarrow> string \<Rightarrow> directory \<Rightarrow> directory" where
  "dir_drop k n d = d(k := map_option (\<lambda>S. S - {n}) (d k))"

definition dir_add :: "string \<Rightarrow> string \<Rightarrow> directory \<Rightarrow> directory" where
  "dir_add k n d = d(k := map_option (insert n) (d k))"

definition dir_put :: "string \<Rightarrow> string set \<Rightarrow> directory \<Rightarrow> directory" where
  "dir_put k S d = d(k := map_option (\<lambda>_. S) (d k))"

lemma evict_directory:
  "fsm_inv s \<Longrightarrow> directory_of (fst (handleCmdEvictChunkFromNode s req)) =
     dir_drop (cev_ChunkID req) (cev_NodeID req) (directory_of s)"
  using fsm_inv_chunk [of s]
  by (auto simp: evict_eq set_chunk_def dir_drop_def fun_eq_iff directory_of_def
      chunk_wf_distinct split: option.split)

lemma add_directory:
  "directory_of (fst (handleCmdAddChunkReplica s req)) =
     dir_add (car_ChunkID req) (car_NodeID req) (directory_of s)"
  by (auto simp: handleCmdAddChunkReplica_def handler_simps set_chunk_def dir_add_def fun_eq_iff
      directory_of_def split: option.split)

lemma commit_directory:
  "snd (handleCmdCommitChunk ords s req) = None \<Longrightarrow>
     directory_of (fst (handleCmdCommitChunk ords s req)) =
     dir_put (cmc_ChunkID req) (set (normalizeReplicaNodeIDs ords s (cmc_NodeIDs req))) (directory_of s)"
  by (auto simp: handleCmdCommitChunk_def handler_simps set_chunk_def dir_put_def fun_eq_iff
      directory_of_def split: option.splits if_splits)

text \<open>
  C18: The chunk commands refine the replica directory. Evicting a node removes it
  from the set of the chunk and adding a replica inserts it, whether or not the
  handler reports an error; a successful commit replaces the set by the normalised
  report. Marking a chunk lost leaves the directory alone.
\<close>

theorem replica_directory_refinement:
  assumes "reachable s"
  shows "directory_of (fst (handleCmdEvictChunkFromNode s ev)) =
      dir_drop (cev_ChunkID ev) (cev_NodeID ev) (directory_of s) \<and>
    directory_of (fst (handleCmdAddChunkReplica s ad)) =
      dir_add (car_ChunkID ad) (car_NodeID ad) (directory_of s) \<and>
    (snd (handleCmdCommitChunk ords s co) = None \<longrightarrow>
      directory_of (fst (handleCmdCommitChunk ords s co)) =
      dir_put (cmc_ChunkID co) (set (normalizeReplicaNodeIDs ords s (cmc_NodeIDs co))) (directory_of s)) \<and>
    directory_of (fst (handleCmdMarkChunkLost s lo)) = directory_of s"
  using evict_directory [OF reachable_fsm_inv [OF assms]] add_directory commit_directory
  by (auto simp: handleCmdMarkChunkLost_def handler_simps set_chunk_def directory_of_def
      fun_eq_iff split: option.split)

theorem replica_directory_refinement_witness:
  "directory_of (fst (handleCmdEvictChunkFromNode demo_state
     \<lparr>cev_ChunkID = ''c0'', cev_NodeID = ''n1'', cev_EvictedAt = 9, cev_Reason = ''''\<rparr>)) ''c0'' = Some {} \<and>
   directory_of (fst (handleCmdAddChunkReplica demo_state
     \<lparr>car_ChunkID = ''c0'', car_NodeID = ''n2''\<rparr>)) ''c0'' = Some {''n1'', ''n2''}"
  using replica_directory_refinement [OF demo_reachable,
      of "\<lparr>cev_ChunkID = ''c0'', cev_NodeID = ''n1'', cev_EvictedAt = 9, cev_Reason = ''''\<rparr>"
        "\<lparr>car_ChunkID = ''c0'', car_NodeID = ''n2''\<rparr>"]
  by (auto simp: dir_drop_def dir_add_def directory_of_def demo_state_eq)

text \<open>
  CommitChunk accepts exactly the chunks that are known, have no checksum and are
  not complete, whatever else their status is: a chunk that was marked lost before it
  was committed is brought back to complete.
\<close>

theorem commit_chunk_guard:
  "snd (handleCmdCommitChunk ords s req) = None \<longleftrightarrow>
     (\<exists>c. chunkRegistry s (cmc_ChunkID req) = Some c \<and> cr_Checksum c = [] \<and> cr_Status c \<noteq> ChunkStatusComplete \<and>
        chunkRegistry (fst (handleCmdCommitChunk ords s req)) (cmc_ChunkID req) =
          Some (c\<lparr>cr_Status := ChunkStatusComplete, cr_Checksum := cmc_Checksum req,
                  cr_Replicas := normalizeReplicaNodeIDs ords s (cmc_NodeIDs req)\<rparr>))"
  by (auto simp: handleCmdCommitChunk_def handler_simps set_chunk_def split: option.splits if_splits)

end
