(* ===== verification/Proposer.thy ===== *)
theory Proposer
  imports Fsm_Operations
begin

text \<open>
  Proposing commands to Raft: \<open>Propose\<close> of \<open>metadata/fsm/commands.go\<close>, \<open>newCommand\<close>
  of \<open>metadata/server/handler.go\<close>, and the two proposing methods at the end of
  \<open>metadata/fsm/fsm.go\<close>. The Raft library is a parameter: given the state and the
  bytes of an entry it answers with the state after the call and either its own error
  or the value that \<open>Apply\<close> returned. The locale \<open>raft_log\<close> states what it documents:
  an entry it reports as committed was applied, and after an error the entry may or
  may not have been applied.

  The components that propose take the proposing function as an argument, as they do
  in the source. The locale \<open>proposer\<close> is the contract they rely on.
\<close>

type_synonym raft_apply = "MetadataFSM \<Rightarrow> json \<Rightarrow> MetadataFSM \<times> (goerror + goerror option)"

type_synonym propose_fn = "MetadataFSM \<Rightarrow> MetadataCommand \<Rightarrow> fsm_step"

definition Propose :: "raft_apply \<Rightarrow> propose_fn" where
  "Propose raft s cmd =
     (let data = enc_MetadataCommand cmd in
      case raft s data of
        (s', Inl err) \<Rightarrow> (s', Some err)
      | (s', Inr resp) \<Rightarrow> (s', resp))"

definition newCommand :: "int \<Rightarrow> json \<Rightarrow> MetadataCommand" where
  "newCommand cmdType payload = \<lparr>mc_Type = cmdType, mc_Payload = payload\<rparr>"

definition UpdateRepairJobStatus :: "raft_apply \<Rightarrow> gotime \<Rightarrow> MetadataFSM \<Rightarrow> string \<Rightarrow> RepairStatus \<Rightarrow> fsm_step" where
  "UpdateRepairJobStatus raft now s jobid status =
     Propose raft s \<lparr>mc_Type = CmdUpdateRepairJob, mc_Payload = enc_CommandUpdateRepairJob
       \<lparr>cur_JobID = jobid, cur_Status = status, cur_SourceNode = '''', cur_UpdatedAt = now,
        cur_Attempts = 0, cur_Error = ''''\<rparr>\<rparr>"

definition ProposeUpdateNodeSpace ::
    "raft_apply \<Rightarrow> gotime \<Rightarrow> MetadataFSM \<Rightarrow> string \<Rightarrow> uint64 \<Rightarrow> uint64 \<Rightarrow> fsm_step" where
  "ProposeUpdateNodeSpace raft now s nodeID space cc =
     Propose raft s \<lparr>mc_Type = CmdUpdateNodeSpace, mc_Payload = enc_CommandUpdateNodeSpace
       \<lparr>cus_NodeID = nodeID, cus_FreeSpace = space, cus_ChunkCount = cc, cus_UpdatedAt = now\<rparr>\<rparr>"

section \<open>What Raft promises\<close>

locale raft_log =
  fixes raft :: raft_apply
  assumes committed: "raft s d = (s', Inr r) \<Longrightarrow> \<exists>ords. Apply ords s (Some d) = (s', r)"
    and failed: "raft s d = (s', Inl e) \<Longrightarrow> s' = s \<or> (\<exists>ords. s' = fst (Apply ords s (Some d)))"

locale proposer =
  fixes propose :: propose_fn
  assumes accepted: "propose s cmd = (s', None) \<Longrightarrow>
      \<exists>ords. Apply ords s (Some (enc_MetadataCommand cmd)) = (s', None)"
    and rejected: "propose s cmd = (s', Some e) \<Longrightarrow>
      s' = s \<or> (\<exists>ords. s' = fst (Apply ords s (Some (enc_MetadataCommand cmd))))"
begin

text \<open>Whatever it answers, a proposal leaves the state alone or applies the entry.\<close>

lemma propose_step:
  "fst (propose s cmd) = s \<or> (\<exists>ords. fst (propose s cmd) = fst (Apply ords s (Some (enc_MetadataCommand cmd))))"
proof (cases "propose s cmd")
  case (Pair s' err)
  then show ?thesis
  proof (cases err)
    case None
    with accepted Pair show ?thesis by (metis fst_conv)
  next
    case (Some e)
    with rejected Pair show ?thesis by simp
  qed
qed

lemma propose_inv: "fsm_inv s \<Longrightarrow> fsm_inv (fst (propose s cmd))"
  using propose_step [of s cmd] Apply_inv by auto

lemma propose_extends: "fsm_inv s \<Longrightarrow> fsm_extends s (fst (propose s cmd))"
  using propose_step [of s cmd] Apply_extends by auto

lemma propose_reachable: "reachable s \<Longrightarrow> reachable (fst (propose s cmd))"
  using propose_step [of s cmd] reachable.applied by auto

end

sublocale raft_log \<subseteq> proposer "Propose raft"
proof
  fix s cmd s' e
  show "Propose raft s cmd = (s', None) \<Longrightarrow> \<exists>ords. Apply ords s (Some (enc_MetadataCommand cmd)) = (s', None)"
    using committed by (auto simp: Propose_def Let_def split: prod.splits sum.splits)
  show "Propose raft s cmd = (s', Some e) \<Longrightarrow>
      s' = s \<or> (\<exists>ords. s' = fst (Apply ords s (Some (enc_MetadataCommand cmd))))"
    using committed failed
    by (auto simp: Propose_def Let_def split: prod.splits sum.splits) (metis fst_conv)+
qed

context raft_log
begin

lemma is_proposer: "proposer (Propose raft)"
  by unfold_locales

end

section \<open>A leader whose entries commit\<close>

text \<open>
  The Raft of a leader with a quorum, which applies every entry at once in the
  iteration orders \<open>ords\<close>, and the Raft of a node that refuses every entry.
\<close>

definition leader_raft :: "(nat \<Rightarrow> string list) \<Rightarrow> raft_apply" where
  "leader_raft ords s d = (case Apply ords s (Some d) of (s', r) \<Rightarrow> (s', Inr r))"

definition follower_raft :: "goerror \<Rightarrow> raft_apply" where
  "follower_raft e s d = (s, Inl e)"

interpretation leader: raft_log "leader_raft ords" for ords
  by unfold_locales (auto simp: leader_raft_def split: prod.splits)

interpretation follower: raft_log "follower_raft e" for e
  by unfold_locales (auto simp: follower_raft_def)

lemma Propose_leader: "Propose (leader_raft ords) s cmd = Apply ords s (Some (enc_MetadataCommand cmd))"
  by (simp add: Propose_def leader_raft_def split: prod.split)

lemma Propose_follower: "Propose (follower_raft e) s cmd = (s, Some e)"
  by (simp add: Propose_def follower_raft_def)

lemmas leader_simps = Propose_leader Apply_encoded newCommand_def

section \<open>Properties\<close>

text \<open>
  A proposal never breaks the state and never loses an error. With any Raft that
  keeps its promises, the state after Propose is reachable if the state before was;
  if Propose returns no error the entry was applied and its handler returned none;
  and if the handler rejected the committed entry, Propose returns that rejection
  and the state is unchanged.
\<close>

theorem propose_sound:
  assumes raft: "raft_log raft" and reach: "reachable s"
  shows "reachable (fst (Propose raft s cmd)) \<and>
    (snd (Propose raft s cmd) = None \<longrightarrow>
       (\<exists>ords. Apply ords s (Some (enc_MetadataCommand cmd)) = (fst (Propose raft s cmd), None))) \<and>
    (\<forall>s' e. raft s (enc_MetadataCommand cmd) = (s', Inr (Some e)) \<longrightarrow> Propose raft s cmd = (s, Some e))"
proof (intro conjI impI allI)
  note pr = raft_log.is_proposer [OF raft]
  show "reachable (fst (Propose raft s cmd))"
    by (rule proposer.propose_reachable [OF pr reach])
  show "\<exists>ords. Apply ords s (Some (enc_MetadataCommand cmd)) = (fst (Propose raft s cmd), None)"
    if "snd (Propose raft s cmd) = None"
    by (rule proposer.accepted [OF pr]) (use that in \<open>simp add: prod_eq_iff\<close>)
  fix s' e
  assume eq: "raft s (enc_MetadataCommand cmd) = (s', Inr (Some e))"
  from raft_log.committed [OF raft this] Apply_frame have "s' = s" by (metis fst_conv snd_conv)
  with eq show "Propose raft s cmd = (s, Some e)" by (simp add: Propose_def)
qed

theorem propose_sound_witness:
  "reachable (fst (Propose (leader_raft (\<lambda>_. [])) demo_state
     (newCommand CmdDeleteFile (enc_CommandDeleteFile \<lparr>cdf_FileID = ''f''\<rparr>)))) \<and>
   map_option fr_Status (fileIndex (fst (Propose (leader_raft (\<lambda>_. [])) demo_state
     (newCommand CmdDeleteFile (enc_CommandDeleteFile \<lparr>cdf_FileID = ''f''\<rparr>)))) ''f'') = Some FileStatusDeleted"
  (is "reachable (fst (Propose ?r demo_state ?c)) \<and> ?deleted")
proof
  show "reachable (fst (Propose ?r demo_state ?c))"
    using propose_sound [OF leader.raft_log_axioms demo_reachable] by blast
  show ?deleted by (simp add: leader_simps handleCmdDeleteFile_def GetFile_def demo_state_eq)
qed

end
