(* ===== verification/Placement.thy ===== *)
theory Placement
  imports Fsm_Types
begin

text \<open>
  Placement strategies, \<open>metadata/placement/strategy.go\<close>: which storage nodes
  receive a chunk. A strategy is a stateless value with three methods; the interface
  is a record of functions and its contract the locale \<open>placement\<close>, which both
  strategies of the source satisfy. The sorting function is an argument, so the
  results hold whatever the standard library does with elements that compare equal.
  A count is a length and never negative.
\<close>

section \<open>The interface\<close>

type_synonym node_selector =
  "NodeEntry list \<Rightarrow> string \<Rightarrow> int \<Rightarrow> nat \<Rightarrow> NodeEntry list \<Rightarrow> NodeEntry list \<times> goerror option"

record PlacementStrategy =
  SelectNodes       :: node_selector
  SelectNodeReverse :: node_selector
  SelectPrimary     :: "NodeEntry list \<Rightarrow> NodeEntry"

definition ErrNotEnoughNodes :: goerror where
  "ErrNotEnoughNodes = NewError ''there are not enough nodes''"

section \<open>Filters\<close>

definition filterByMinSpace :: "NodeEntry list \<Rightarrow> int \<Rightarrow> NodeEntry list" where
  "filterByMinSpace nodes minSpace =
     (if minSpace \<le> 0 then nodes
      else filter (\<lambda>n. ne_FreeSpace n \<ge> uint64_of minSpace) nodes)"

definition filterNodes :: "NodeEntry list \<Rightarrow> NodeEntry list \<Rightarrow> NodeEntry list" where
  "filterNodes nodes exclude =
     (let skipMap = fold (\<lambda>nd m. m(ne_NodeID nd \<mapsto> True)) exclude Map.empty
      in filter (\<lambda>v. skipMap (ne_NodeID v) = None) nodes)"

text \<open>The end of all four selection methods: not enough nodes, or the first \<open>cnt\<close>.\<close>

definition first_nodes :: "NodeEntry list \<Rightarrow> nat \<Rightarrow> NodeEntry list \<times> goerror option" where
  "first_nodes filtered cnt =
     (if length filtered < cnt then (filtered, Some ErrNotEnoughNodes)
      else (take cnt filtered, None))"

section \<open>Most free space\<close>

definition Less_MostFreeSpace :: "NodeEntry \<Rightarrow> NodeEntry \<Rightarrow> bool" where
  "Less_MostFreeSpace a b =
     (if ne_FreeSpace a = ne_FreeSpace b then ne_ChunkCount a < ne_ChunkCount b
      else ne_FreeSpace a > ne_FreeSpace b)"

definition mfs_SelectNodes :: "NodeEntry sorter \<Rightarrow> node_selector" where
  "mfs_SelectNodes srt nodes chunkID minSpace cnt exclude =
     first_nodes (srt Less_MostFreeSpace (filterByMinSpace (filterNodes nodes exclude) minSpace)) cnt"

text \<open>\<open>sort.Reverse\<close> swaps the arguments of \<open>Less\<close>.\<close>

definition mfs_SelectNodeReverse :: "NodeEntry sorter \<Rightarrow> node_selector" where
  "mfs_SelectNodeReverse srt nodes chunkID minSpace cnt exclude =
     first_nodes (srt (\<lambda>a b. Less_MostFreeSpace b a) (filterByMinSpace (filterNodes nodes exclude) minSpace))
       cnt"

definition mfs_SelectPrimary :: "NodeEntry sorter \<Rightarrow> NodeEntry list \<Rightarrow> NodeEntry" where
  "mfs_SelectPrimary srt nodes =
     (if nodes = [] then zero_NodeEntry else hd (srt Less_MostFreeSpace nodes))"

definition MostFreeSpaceStrategy :: "NodeEntry sorter \<Rightarrow> PlacementStrategy" where
  "MostFreeSpaceStrategy srt =
     \<lparr>SelectNodes = mfs_SelectNodes srt, SelectNodeReverse = mfs_SelectNodeReverse srt,
      SelectPrimary = mfs_SelectPrimary srt\<rparr>"

section \<open>Least loaded\<close>

definition lls_SelectNodes :: "NodeEntry sorter \<Rightarrow> node_selector" where
  "lls_SelectNodes srt nodes chunkID minSpace cnt exclude =
     first_nodes (srt (\<lambda>a b. ne_ChunkCount a < ne_ChunkCount b)
       (filterByMinSpace (filterNodes nodes exclude) minSpace)) cnt"

definition lls_SelectNodeReverse :: "NodeEntry sorter \<Rightarrow> node_selector" where
  "lls_SelectNodeReverse srt nodes chunkID minSpace cnt exclude =
     first_nodes (srt (\<lambda>a b. ne_ChunkCount a > ne_ChunkCount b)
       (filterByMinSpace (filterNodes nodes exclude) minSpace)) cnt"

fun least_loaded :: "NodeEntry \<Rightarrow> NodeEntry list \<Rightarrow> NodeEntry" where
  "least_loaded best [] = best"
| "least_loaded best (n # ns) =
     least_loaded (if ne_ChunkCount n < ne_ChunkCount best then n else best) ns"

fun lls_SelectPrimary :: "NodeEntry list \<Rightarrow> NodeEntry" where
  "lls_SelectPrimary [] = zero_NodeEntry"
| "lls_SelectPrimary (n # ns) = least_loaded n ns"

definition LeastLoadedStrategy :: "NodeEntry sorter \<Rightarrow> PlacementStrategy" where
  "LeastLoadedStrategy srt =
     \<lparr>SelectNodes = lls_SelectNodes srt, SelectNodeReverse = lls_SelectNodeReverse srt,
      SelectPrimary = lls_SelectPrimary\<rparr>"

section \<open>The contract\<close>

text \<open>The nodes a selection may choose from.\<close>

definition eligible :: "NodeEntry list \<Rightarrow> int \<Rightarrow> NodeEntry list \<Rightarrow> NodeEntry list" where
  "eligible nodes minSpace exclude =
     filter (\<lambda>n. ne_NodeID n \<notin> ne_NodeID ` set exclude \<and>
                 (0 < minSpace \<longrightarrow> uint64_of minSpace \<le> ne_FreeSpace n)) nodes"

definition selects :: "node_selector \<Rightarrow> bool" where
  "selects select \<longleftrightarrow>
     (\<forall>nodes chunkID minSpace cnt exclude.
        let r = select nodes chunkID minSpace cnt exclude; cand = eligible nodes minSpace exclude
        in mset (fst r) \<subseteq># mset cand \<and> length (fst r) = min cnt (length cand) \<and>
           snd r = (if length cand < cnt then Some ErrNotEnoughNodes else None))"

locale placement =
  fixes ps :: PlacementStrategy
  assumes select: "selects (SelectNodes ps)"
    and reverse: "selects (SelectNodeReverse ps)"
    and primary_mem: "nodes \<noteq> [] \<Longrightarrow> SelectPrimary ps nodes \<in> set nodes"
    and primary_none: "SelectPrimary ps [] = zero_NodeEntry"
begin

lemma select_mset:
  "mset (fst (SelectNodes ps nodes chunkID minSpace cnt exclude)) \<subseteq># mset (eligible nodes minSpace exclude)"
  using select unfolding selects_def Let_def by blast

lemma select_eligible:
  "set (fst (SelectNodes ps nodes chunkID minSpace cnt exclude)) \<subseteq> set (eligible nodes minSpace exclude)"
  using set_mset_mono [OF select_mset] by simp

lemma select_length:
  "length (fst (SelectNodes ps nodes chunkID minSpace cnt exclude)) = min cnt (length (eligible nodes minSpace exclude))"
  using select unfolding selects_def Let_def by blast

lemma select_error:
  "snd (SelectNodes ps nodes chunkID minSpace cnt exclude) =
     (if length (eligible nodes minSpace exclude) < cnt then Some ErrNotEnoughNodes else None)"
  using select unfolding selects_def Let_def by blast

lemma select_success:
  "snd (SelectNodes ps nodes chunkID minSpace cnt exclude) = None \<Longrightarrow>
     length (fst (SelectNodes ps nodes chunkID minSpace cnt exclude)) = cnt"
  by (simp add: select_error select_length split: if_splits)

lemma select_distinct:
  assumes "distinct (map ne_NodeID nodes)"
  shows "distinct (map ne_NodeID (fst (SelectNodes ps nodes chunkID minSpace cnt exclude)))"
proof -
  let ?ch = "fst (SelectNodes ps nodes chunkID minSpace cnt exclude)"
  have "mset (map ne_NodeID ?ch) \<subseteq># mset (map ne_NodeID (eligible nodes minSpace exclude))"
    using image_mset_subseteq_mono [OF select_mset] by simp
  moreover have "distinct (map ne_NodeID (eligible nodes minSpace exclude))"
    using assms by (simp add: eligible_def distinct_map_filter)
  ultimately show ?thesis by (rule mset_subset_distinct)
qed

end

section \<open>Both strategies meet it\<close>

lemma skipMap_mem:
  "fold (\<lambda>nd m. m(ne_NodeID nd \<mapsto> True)) exclude m k = None \<longleftrightarrow> m k = None \<and> k \<notin> ne_NodeID ` set exclude"
  by (induction exclude arbitrary: m) auto

lemma filters_eligible: "filterByMinSpace (filterNodes nodes exclude) minSpace = eligible nodes minSpace exclude"
  by (auto simp: filterByMinSpace_def filterNodes_def eligible_def Let_def skipMap_mem conj_commute
      intro!: filter_cong)

lemma first_nodes_selects:
  assumes "sort_spec srt"
    and sel: "\<And>nodes chunkID minSpace cnt exclude.
      select nodes chunkID minSpace cnt exclude = first_nodes (srt lt (eligible nodes minSpace exclude)) cnt"
  shows "selects select"
proof -
  have "mset (take cnt (srt lt xs)) \<subseteq># mset xs" for cnt xs
    using mset_take_subset [of cnt "srt lt xs"] by (simp add: sort_spec_mset [OF assms(1)])
  then show ?thesis
    using assms(1) by (auto simp: selects_def sel first_nodes_def Let_def sort_spec_length sort_spec_mset)
qed

lemma least_loaded_mem: "least_loaded best ns \<in> set (best # ns)"
  by (induction ns arbitrary: best) (auto split: if_splits)

lemma least_loaded_least: "m \<in> set (best # ns) \<Longrightarrow> ne_ChunkCount (least_loaded best ns) \<le> ne_ChunkCount m"
proof (induction ns arbitrary: best m)
  case Nil
  then show ?case by simp
next
  case (Cons n ns)
  let ?b = "if ne_ChunkCount n < ne_ChunkCount best then n else best"
  have "ne_ChunkCount (least_loaded ?b ns) \<le> ne_ChunkCount ?b" by (rule Cons.IH) simp
  moreover have "ne_ChunkCount ?b \<le> ne_ChunkCount best" "ne_ChunkCount ?b \<le> ne_ChunkCount n" by auto
  ultimately show ?case using Cons.prems Cons.IH [of m ?b] by force
qed

lemma mfs_placement:
  assumes "sort_spec srt"
  shows "placement (MostFreeSpaceStrategy srt)"
proof
  show "selects (SelectNodes (MostFreeSpaceStrategy srt))"
    by (rule first_nodes_selects [OF assms, of _ Less_MostFreeSpace])
      (simp add: MostFreeSpaceStrategy_def mfs_SelectNodes_def filters_eligible)
  show "selects (SelectNodeReverse (MostFreeSpaceStrategy srt))"
    by (rule first_nodes_selects [OF assms, of _ "\<lambda>a b. Less_MostFreeSpace b a"])
      (simp add: MostFreeSpaceStrategy_def mfs_SelectNodeReverse_def filters_eligible)
  fix nodes :: "NodeEntry list"
  assume "nodes \<noteq> []"
  then have "srt Less_MostFreeSpace nodes \<noteq> []"
    using sort_spec_length [OF assms] by (metis length_0_conv)
  then show "SelectPrimary (MostFreeSpaceStrategy srt) nodes \<in> set nodes"
    using \<open>nodes \<noteq> []\<close> hd_in_set sort_spec_set [OF assms]
    by (fastforce simp: MostFreeSpaceStrategy_def mfs_SelectPrimary_def)
qed (simp add: MostFreeSpaceStrategy_def mfs_SelectPrimary_def)

lemma lls_placement:
  assumes "sort_spec srt"
  shows "placement (LeastLoadedStrategy srt)"
proof
  show "selects (SelectNodes (LeastLoadedStrategy srt))"
    by (rule first_nodes_selects [OF assms, of _ "\<lambda>a b. ne_ChunkCount a < ne_ChunkCount b"])
      (simp add: LeastLoadedStrategy_def lls_SelectNodes_def filters_eligible)
  show "selects (SelectNodeReverse (LeastLoadedStrategy srt))"
    by (rule first_nodes_selects [OF assms, of _ "\<lambda>a b. ne_ChunkCount a > ne_ChunkCount b"])
      (simp add: LeastLoadedStrategy_def lls_SelectNodeReverse_def filters_eligible)
  fix nodes :: "NodeEntry list"
  assume "nodes \<noteq> []"
  then show "SelectPrimary (LeastLoadedStrategy srt) nodes \<in> set nodes"
    using least_loaded_mem by (cases nodes) (auto simp: LeastLoadedStrategy_def)
qed (simp add: LeastLoadedStrategy_def)

interpretation mfs: placement "MostFreeSpaceStrategy insertionSort"
  by (rule mfs_placement) (rule insertionSort_spec)

interpretation lls: placement "LeastLoadedStrategy insertionSort"
  by (rule lls_placement) (rule insertionSort_spec)

section \<open>Which nodes are chosen\<close>

lemma not_Less_MostFreeSpace:
  "\<not> Less_MostFreeSpace m n \<longleftrightarrow>
     ne_FreeSpace m \<le> ne_FreeSpace n \<and> (ne_FreeSpace m = ne_FreeSpace n \<longrightarrow> ne_ChunkCount n \<le> ne_ChunkCount m)"
  by (auto simp: Less_MostFreeSpace_def not_less)

lemma weak_order_MostFreeSpace: "weak_order Less_MostFreeSpace"
  unfolding weak_order_def Less_MostFreeSpace_def
  by (auto split: if_splits)

lemma first_nodes_best:
  assumes srt: "sort_spec srt" and lt: "weak_order lt"
    and a: "a \<in> set (fst (first_nodes (srt lt xs) cnt))"
    and b: "b \<in> set xs" "b \<notin> set (fst (first_nodes (srt lt xs) cnt))"
  shows "\<not> lt b a"
proof (cases "length (srt lt xs) < cnt")
  case True
  with b show ?thesis by (simp add: first_nodes_def sort_spec_set [OF srt])
next
  case False
  let ?ys = "srt lt xs"
  from b False have "b \<in> set (take cnt ?ys @ drop cnt ?ys)" by (simp add: sort_spec_set [OF srt])
  with b(2) False have "b \<in> set (drop cnt ?ys)" by (auto simp: first_nodes_def simp del: append_take_drop_id)
  with a False show ?thesis
    using sorted_by_take [OF sort_spec_sorted [OF srt lt], of a cnt xs b] by (simp add: first_nodes_def)
qed

text \<open>
  Selecting by most free space returns the requested number of distinct nodes
  among those that are not excluded and have the required space, and no eligible node
  that was passed over has more free space, or as much with fewer chunks. When there
  are too few eligible nodes it returns all of them with an error.
\<close>

theorem most_free_space_selects_best:
  assumes "sort_spec srt" "distinct (map ne_NodeID nodes)"
    and "mfs_SelectNodes srt nodes chunkID minSpace cnt exclude = (chosen, err)"
  shows "set chosen \<subseteq> set (eligible nodes minSpace exclude) \<and> distinct (map ne_NodeID chosen) \<and>
    (err = None \<longleftrightarrow> cnt \<le> length (eligible nodes minSpace exclude)) \<and>
    length chosen = min cnt (length (eligible nodes minSpace exclude)) \<and>
    (\<forall>n m. n \<in> set chosen \<and> m \<in> set (eligible nodes minSpace exclude) \<and> m \<notin> set chosen \<longrightarrow>
       ne_FreeSpace m \<le> ne_FreeSpace n \<and>
       (ne_FreeSpace m = ne_FreeSpace n \<longrightarrow> ne_ChunkCount n \<le> ne_ChunkCount m))"
proof -
  have "placement (MostFreeSpaceStrategy srt)" by (rule mfs_placement) (rule assms(1))
  note facts =
    placement.select_eligible [OF this, of nodes chunkID minSpace cnt exclude]
    placement.select_distinct [OF this assms(2), of chunkID minSpace cnt exclude]
    placement.select_error [OF this, of nodes chunkID minSpace cnt exclude]
    placement.select_length [OF this, of nodes chunkID minSpace cnt exclude]
  have sel: "SelectNodes (MostFreeSpaceStrategy srt) nodes chunkID minSpace cnt exclude = (chosen, err)"
    using assms(3) by (simp add: MostFreeSpaceStrategy_def)
  have "\<not> Less_MostFreeSpace m n"
    if "n \<in> set chosen" "m \<in> set (eligible nodes minSpace exclude)" "m \<notin> set chosen" for n m
    using first_nodes_best [OF assms(1) weak_order_MostFreeSpace, of n "eligible nodes minSpace exclude" cnt m]
      that assms(3) by (simp add: mfs_SelectNodes_def filters_eligible)
  then show ?thesis
    using facts sel by (auto simp: not_less not_Less_MostFreeSpace)
qed

definition space_node :: "string \<Rightarrow> uint64 \<Rightarrow> uint64 \<Rightarrow> NodeEntry" where
  "space_node k free chunks = \<lparr>ne_NodeID = k, ne_Address = k, ne_Status = NodeStatusAlive, ne_FreeSpace = free,
     ne_ChunkCount = chunks, ne_LastSeen = 0, ne_RegisteredAt = 0, ne_UpdatedAt = 0\<rparr>"

lemma mfs_example:
  "mfs_SelectNodes insertionSort [space_node ''a'' 5 0, space_node ''b'' 9 2, space_node ''c'' 9 1] ''k'' 3 1
     [space_node ''d'' 0 0] = ([space_node ''c'' 9 1], None)"
  by (simp add: mfs_SelectNodes_def filterByMinSpace_def filterNodes_def first_nodes_def insertionSort_def
      Less_MostFreeSpace_def space_node_def uint64_of_def)

theorem most_free_space_selects_best_witness:
  "ne_FreeSpace (space_node ''a'' 5 0) \<le> ne_FreeSpace (space_node ''c'' 9 1) \<and>
   length [space_node ''c'' 9 1] =
     min 1 (length (eligible [space_node ''a'' 5 0, space_node ''b'' 9 2, space_node ''c'' 9 1] 3 [space_node ''d'' 0 0]))"
proof -
  have "distinct (map ne_NodeID [space_node ''a'' 5 0, space_node ''b'' 9 2, space_node ''c'' 9 1])"
    by (simp add: space_node_def)
  from most_free_space_selects_best [OF insertionSort_spec this mfs_example]
  show ?thesis by (simp add: space_node_def eligible_def uint64_of_def)
qed

text \<open>
  The least-loaded strategy picks, from a non-empty list, a node of the list that
  no other node undercuts in chunk count.
\<close>

theorem least_loaded_primary:
  assumes "nodes \<noteq> []"
  shows "lls_SelectPrimary nodes \<in> set nodes \<and>
    list_all (\<lambda>m. ne_ChunkCount (lls_SelectPrimary nodes) \<le> ne_ChunkCount m) nodes"
proof -
  from assms obtain n ns where nodes: "nodes = n # ns" by (cases nodes) auto
  show ?thesis
    using least_loaded_mem [of n ns] least_loaded_least [of _ n ns] by (simp only: nodes lls_SelectPrimary.simps list_all_iff) blast
qed

theorem least_loaded_primary_witness:
  "list_all (\<lambda>m. ne_ChunkCount (lls_SelectPrimary [space_node ''a'' 5 3, space_node ''b'' 9 2]) \<le> ne_ChunkCount m)
     [space_node ''a'' 5 3, space_node ''b'' 9 2]"
  using least_loaded_primary [of "[space_node ''a'' 5 3, space_node ''b'' 9 2]"] by blast

end
