(* ===== verification/Repair_Scheduler.thy ===== *)
theory Repair_Scheduler
  imports Proposer Placement
begin

text \<open>
  The repair scheduler, \<open>metadata/scheduler/repair_scheduler.go\<close>. The world of an
  operation is the metadata state, the scheduler's own maps and queue, the timers it
  armed, and a tick that numbers the calls to the clock and to the UUID generator.
  What the operations get from outside is the record \<open>repair_env\<close>: the proposing
  function, UUIDs and instants by tick. Each operation runs to its end before the
  next one starts; the worker goroutines are the operation \<open>worker_step\<close>.
\<close>

section \<open>State\<close>

definition workerCount :: nat where
  "workerCount = 5"

definition defaultReplicationFactor :: int where
  "defaultReplicationFactor = 3"

definition maxReplicationFactor :: int where
  "maxReplicationFactor = 10"

definition repairQueueCapacity :: nat where
  "repairQueueCapacity = 1024"

record RepairScheduler =
  rs_pendingJobs       :: "string list gomap"
  rs_pendingJobsSet    :: "string gomap"
  rs_jobs              :: "string list"
  rs_replicationFactor :: int
  rs_sourceStrategy    :: PlacementStrategy
  rs_targetStrategy    :: PlacementStrategy

record repair_env =
  re_propose :: propose_fn
  re_uuid    :: "nat \<Rightarrow> string"
  re_now     :: "nat \<Rightarrow> gotime"

record world =
  w_fsm    :: MetadataFSM
  w_sched  :: RepairScheduler
  w_timers :: "(duration \<times> string) list"
  w_tick   :: nat

definition NewRepairScheduler :: "PlacementStrategy \<Rightarrow> PlacementStrategy \<Rightarrow> int \<Rightarrow> RepairScheduler" where
  "NewRepairScheduler source target rf =
     \<lparr>rs_pendingJobs = Map.empty, rs_pendingJobsSet = Map.empty, rs_jobs = [],
      rs_replicationFactor = min (if rf \<le> 0 then defaultReplicationFactor else rf) maxReplicationFactor,
      rs_sourceStrategy = source, rs_targetStrategy = target\<rparr>"

section \<open>Helpers\<close>

definition excludeNode :: "NodeEntry list \<Rightarrow> string \<Rightarrow> NodeEntry list" where
  "excludeNode nodes nodeID = filter (\<lambda>n. ne_NodeID n \<noteq> nodeID) nodes"

definition appendUnique :: "string list \<Rightarrow> string \<Rightarrow> string list" where
  "appendUnique values v = (if v \<in> set values then values else values @ [v])"

fun removeJob :: "string list \<Rightarrow> string \<Rightarrow> string list" where
  "removeJob [] target = []"
| "removeJob (v # vs) target = (if v = target then vs else v # removeJob vs target)"

text \<open>\<open>fmt.Sprintf("%v:%v", chunkID, nodeID)\<close>\<close>

definition pending_key :: "string \<Rightarrow> string \<Rightarrow> string" where
  "pending_key chunkID nodeID = chunkID @ '':'' @ nodeID"

definition retryDelay :: "uint64 \<Rightarrow> duration" where
  "retryDelay attempt =
     (let delay = 2 ^ unat (min attempt 6) * Second
      in if delay > 60 * Second then 60 * Second else delay)"

text \<open>A proposal: the state and the tick move on, the error is returned.\<close>

definition propose_in :: "repair_env \<Rightarrow> world \<Rightarrow> MetadataCommand \<Rightarrow> world \<times> goerror option" where
  "propose_in env w cmd =
     (case re_propose env (w_fsm w) cmd of (s', err) \<Rightarrow> (w\<lparr>w_fsm := s', w_tick := w_tick w + 1\<rparr>, err))"

definition proposeAddReplica :: "repair_env \<Rightarrow> world \<Rightarrow> string \<Rightarrow> string \<Rightarrow> world \<times> goerror option" where
  "proposeAddReplica env w chunkID nodeID =
     propose_in env w \<lparr>mc_Type = CmdAddChunkReplica, mc_Payload = enc_CommandAddChunkReplica
       \<lparr>car_ChunkID = chunkID, car_NodeID = nodeID\<rparr>\<rparr>"

definition proposeEvictChunk ::
    "repair_env \<Rightarrow> world \<Rightarrow> string \<Rightarrow> string \<Rightarrow> string \<Rightarrow> world \<times> goerror option" where
  "proposeEvictChunk env w chunkID nodeID reason =
     propose_in env w \<lparr>mc_Type = CmdEvictChunkFromNode, mc_Payload = enc_CommandEvictChunkFromNode
       \<lparr>cev_ChunkID = chunkID, cev_NodeID = nodeID, cev_EvictedAt = re_now env (w_tick w),
        cev_Reason = reason\<rparr>\<rparr>"

text \<open>The non-blocking send on the job channel drops the job when the channel is full.\<close>

definition try_enqueue :: "world \<Rightarrow> string \<Rightarrow> world" where
  "try_enqueue w jid =
     (if length (rs_jobs (w_sched w)) < repairQueueCapacity
      then w\<lparr>w_sched := (w_sched w)\<lparr>rs_jobs := rs_jobs (w_sched w) @ [jid]\<rparr>\<rparr>
      else w)"

text \<open>Propose one repair job and queue it if the proposal succeeded.\<close>

definition propose_job :: "repair_env \<Rightarrow> world \<Rightarrow> CommandCreateRepairJob \<Rightarrow> world" where
  "propose_job env w cmd =
     (case propose_in env w \<lparr>mc_Type = CmdCreateRepairJob, mc_Payload = enc_CommandCreateRepairJob cmd\<rparr> of
        (w', Some _) \<Rightarrow> w'
      | (w', None) \<Rightarrow> try_enqueue w' (ccr_JobID cmd))"

section \<open>Scheduling\<close>

fun schedule_targets :: "repair_env \<Rightarrow> string \<Rightarrow> string \<Rightarrow> world \<Rightarrow> NodeEntry list \<Rightarrow> world" where
  "schedule_targets env chunkID sourceNode w [] = w"
| "schedule_targets env chunkID sourceNode w (node # nodes) =
     (if rs_pendingJobsSet (w_sched w) (pending_key chunkID (ne_NodeID node)) \<noteq> None
      then schedule_targets env chunkID sourceNode w nodes
      else schedule_targets env chunkID sourceNode
             (propose_job env w \<lparr>ccr_JobID = re_uuid env (w_tick w), ccr_CreatedAt = re_now env (w_tick w),
                ccr_ChunkID = chunkID, ccr_DeleteSource = False, ccr_SourceNode = sourceNode,
                ccr_TargetNode = ne_NodeID node\<rparr>) nodes)"

fun schedule_deletions :: "repair_env \<Rightarrow> string \<Rightarrow> world \<Rightarrow> NodeEntry list \<Rightarrow> world" where
  "schedule_deletions env chunkID w [] = w"
| "schedule_deletions env chunkID w (node # nodes) =
     schedule_deletions env chunkID
       (propose_job env w \<lparr>ccr_JobID = re_uuid env (w_tick w), ccr_CreatedAt = re_now env (w_tick w),
          ccr_ChunkID = chunkID, ccr_DeleteSource = True, ccr_SourceNode = ne_NodeID node,
          ccr_TargetNode = ''''\<rparr>) nodes"

text \<open>\<open>ord\<close> is the order in which \<open>GetLiveNodes\<close> ranges over the node registry.\<close>

definition scheduleRepairJobs ::
    "repair_env \<Rightarrow> string list \<Rightarrow> world \<Rightarrow> string \<Rightarrow> NodeEntry list \<Rightarrow> int \<Rightarrow> world" where
  "scheduleRepairJobs env ord w chunkID liveReplicas deficit =
     (if deficit > 0 then
        if length liveReplicas = 0 then w
        else
          (let liveNodes = GetLiveNodes ord (w_fsm w) in
           case GetChunk (w_fsm w) chunkID of
             Inl _ \<Rightarrow> w
           | Inr chunk \<Rightarrow>
               (case SelectNodes (rs_targetStrategy (w_sched w)) liveNodes chunkID (cr_Size chunk)
                       (nat deficit) liveReplicas of
                  (_, Some _) \<Rightarrow> w
                | (newNodes, None) \<Rightarrow>
                    (let source = SelectPrimary (rs_sourceStrategy (w_sched w)) liveReplicas
                     in schedule_targets env chunkID (ne_NodeID source) w newNodes)))
      else
        (case SelectNodeReverse (rs_targetStrategy (w_sched w)) liveReplicas chunkID 0 (nat (- deficit)) [] of
           (_, Some _) \<Rightarrow> w
         | (deletingNodes, None) \<Rightarrow> schedule_deletions env chunkID w deletingNodes))"

definition ScheduleRepairForChunk :: "repair_env \<Rightarrow> string list \<Rightarrow> world \<Rightarrow> string \<Rightarrow> world" where
  "ScheduleRepairForChunk env ord w chunkID =
     (case GetChunkLocations (w_fsm w) chunkID of
        Inl _ \<Rightarrow> w
      | Inr liveReplicas \<Rightarrow>
          (let deficit = rs_replicationFactor (w_sched w) - int (length liveReplicas)
           in if deficit \<le> 0 then w else scheduleRepairJobs env ord w chunkID liveReplicas deficit))"

definition trigger_chunk :: "repair_env \<Rightarrow> (string \<Rightarrow> string list) \<Rightarrow> string \<Rightarrow> world \<Rightarrow> string \<Rightarrow> world" where
  "trigger_chunk env ords deadNodeID w chkId =
     (let w1 = fst (proposeEvictChunk env w chkId deadNodeID ''node marked dead'') in
      case GetChunkLocations (w_fsm w1) chkId of
        Inl _ \<Rightarrow> w1
      | Inr liveReplicas \<Rightarrow>
          (let liveWithoutDead = excludeNode liveReplicas deadNodeID;
               deficit = rs_replicationFactor (w_sched w1) - int (length liveWithoutDead)
           in if deficit \<le> 0 then w1
              else scheduleRepairJobs env (ords chkId) w1 chkId liveWithoutDead deficit))"

fun trigger_chunks ::
    "repair_env \<Rightarrow> (string \<Rightarrow> string list) \<Rightarrow> string \<Rightarrow> world \<Rightarrow> string list \<Rightarrow> world" where
  "trigger_chunks env ords deadNodeID w [] = w"
| "trigger_chunks env ords deadNodeID w (chkId # chkIds) =
     trigger_chunks env ords deadNodeID (trigger_chunk env ords deadNodeID w chkId) chkIds"

text \<open>\<open>ord\<close> is the order in which the chunk registry is scanned, \<open>ords c\<close> the node order for chunk \<open>c\<close>.\<close>

definition TriggerRepair ::
    "repair_env \<Rightarrow> string list \<Rightarrow> (string \<Rightarrow> string list) \<Rightarrow> world \<Rightarrow> string \<Rightarrow> world" where
  "TriggerRepair env ord ords w deadNodeID =
     trigger_chunks env ords deadNodeID w (GetChunksByNode ord (w_fsm w) deadNodeID)"

section \<open>Executing and completing jobs\<close>

definition executeJob :: "repair_env \<Rightarrow> world \<Rightarrow> string \<Rightarrow> world" where
  "executeJob env w jobID =
     (case GetRepairJob (w_fsm w) jobID of
        Inl _ \<Rightarrow> w
      | Inr job \<Rightarrow>
          (let rs = w_sched w;
               old = (case rs_pendingJobs rs (rj_SourceNodeID job) of None \<Rightarrow> [] | Some js \<Rightarrow> js);
               rs' = rs\<lparr>rs_pendingJobs := (rs_pendingJobs rs)(rj_SourceNodeID job \<mapsto> appendUnique old jobID),
                        rs_pendingJobsSet := (rs_pendingJobsSet rs)
                          (pending_key (rj_ChunkID job) (rj_TargetNodeID job) \<mapsto> jobID)\<rparr>
           in fst (propose_in env (w\<lparr>w_sched := rs'\<rparr>)
                \<lparr>mc_Type = CmdUpdateRepairJob, mc_Payload = enc_CommandUpdateRepairJob
                  \<lparr>cur_JobID = jobID, cur_Status = RepairStatusInProgress, cur_SourceNode = '''',
                   cur_UpdatedAt = re_now env (w_tick w), cur_Attempts = 0, cur_Error = ''''\<rparr>\<rparr>)))"

text \<open>A worker takes the oldest job off the channel and executes it.\<close>

definition worker_step :: "repair_env \<Rightarrow> world \<Rightarrow> world" where
  "worker_step env w =
     (case rs_jobs (w_sched w) of
        [] \<Rightarrow> w
      | jobID # rest \<Rightarrow> executeJob env (w\<lparr>w_sched := (w_sched w)\<lparr>rs_jobs := rest\<rparr>\<rparr>) jobID)"

definition rs_GetPendingJobsForNode :: "RepairScheduler \<Rightarrow> string \<Rightarrow> string list" where
  "rs_GetPendingJobsForNode rs nodeID = (case rs_pendingJobs rs nodeID of None \<Rightarrow> [] | Some js \<Rightarrow> js)"

text \<open>The part of \<open>OnJobComplete\<close> under the mutex.\<close>

definition forget_job :: "RepairScheduler \<Rightarrow> string \<Rightarrow> string \<Rightarrow> RepairScheduler" where
  "forget_job rs nodeid jobID =
     (case rs_pendingJobs rs nodeid of
        None \<Rightarrow> rs
      | Some jobsForNode \<Rightarrow>
          (let removed = removeJob jobsForNode jobID
           in rs\<lparr>rs_pendingJobsSet := (\<lambda>k. if rs_pendingJobsSet rs k = Some jobID then None
                                           else rs_pendingJobsSet rs k),
                 rs_pendingJobs := (rs_pendingJobs rs)
                   (nodeid := (if length removed = 0 then None else Some removed))\<rparr>))"

definition OnJobComplete ::
    "repair_env \<Rightarrow> world \<Rightarrow> string \<Rightarrow> string \<Rightarrow> bool \<Rightarrow> string \<Rightarrow> world \<times> goerror option" where
  "OnJobComplete env w nodeid jobID success errorMsg =
     (let w1 = w\<lparr>w_sched := forget_job (w_sched w) nodeid jobID\<rparr> in
      case GetRepairJob (w_fsm w1) jobID of
        Inl e \<Rightarrow> (w1, Some e)
      | Inr job \<Rightarrow>
          if success then
            if rj_DeleteSource job
            then proposeEvictChunk env w1 (rj_ChunkID job) (rj_SourceNodeID job) ''over-replicated repair completed''
            else proposeAddReplica env w1 (rj_ChunkID job) (rj_TargetNodeID job)
          else
            (case GetChunkLocations (w_fsm w1) (rj_ChunkID job) of
               Inl e \<Rightarrow> (w1, Some e)
             | Inr liveReplicas \<Rightarrow>
                 (let deficit = rs_replicationFactor (w_sched w1) - int (length liveReplicas)
                  in if deficit > 0
                     then (w1\<lparr>w_timers := w_timers w1 @ [(retryDelay (rj_Attempts job + 1), rj_ChunkID job)]\<rparr>, None)
                     else (w1, None))))"

text \<open>The callback of the timer armed for a chunk.\<close>

definition reschedule :: "repair_env \<Rightarrow> string list \<Rightarrow> world \<Rightarrow> string \<Rightarrow> world" where
  "reschedule env ord w chunkID =
     (case GetChunkLocations (w_fsm w) chunkID of
        Inl _ \<Rightarrow> w
      | Inr currentLive \<Rightarrow>
          (let currentDeficit = rs_replicationFactor (w_sched w) - int (length currentLive)
           in if currentDeficit > 0 then scheduleRepairJobs env ord w chunkID currentLive currentDeficit else w))"

section \<open>Recovery at start-up\<close>

text \<open>
  \<open>cancelled i\<close> tells whether the context is found cancelled at the check of iteration
  \<open>i\<close>, and \<open>sent i\<close> whether the blocking send there wins over cancellation. A send
  that had to wait for room completes after a worker took a job off the channel.
\<close>

definition enqueueJob :: "bool \<Rightarrow> world \<Rightarrow> string \<Rightarrow> world \<times> bool" where
  "enqueueJob sent w jobID =
     (if sent then (w\<lparr>w_sched := (w_sched w)\<lparr>rs_jobs := rs_jobs (w_sched w) @ [jobID]\<rparr>\<rparr>, True)
      else (w, False))"

fun recover_jobs ::
    "repair_env \<Rightarrow> (nat \<Rightarrow> bool) \<Rightarrow> (nat \<Rightarrow> bool) \<Rightarrow> nat \<Rightarrow> world \<Rightarrow> RepairJob list \<Rightarrow> world" where
  "recover_jobs env cancelled sent i w [] = w"
| "recover_jobs env cancelled sent i w (job # jobs) =
     (if cancelled i then w
      else
        (case GetChunkLocations (w_fsm w) (rj_ChunkID job) of
           Inl _ \<Rightarrow> recover_jobs env cancelled sent (Suc i) w jobs
         | Inr liveReplicas \<Rightarrow>
             if length liveReplicas = 0 then recover_jobs env cancelled sent (Suc i) w jobs
             else if rs_replicationFactor (w_sched w) - int (length liveReplicas) \<le> 0
             then recover_jobs env cancelled sent (Suc i) w jobs
             else if list_ex (\<lambda>n. rj_SourceNodeID job = ne_NodeID n) liveReplicas
             then (case enqueueJob (sent i) w (rj_JobID job) of
                     (w', True) \<Rightarrow> recover_jobs env cancelled sent (Suc i) w' jobs
                   | (w', False) \<Rightarrow> w')
             else
               (let newSource = SelectPrimary (rs_sourceStrategy (w_sched w)) liveReplicas in
                case propose_in env w \<lparr>mc_Type = CmdUpdateRepairJob, mc_Payload = enc_CommandUpdateRepairJob
                       \<lparr>cur_JobID = rj_JobID job, cur_Status = RepairStatusPending,
                        cur_SourceNode = ne_NodeID newSource, cur_UpdatedAt = re_now env (w_tick w),
                        cur_Attempts = 0, cur_Error = ''''\<rparr>\<rparr> of
                  (w1, Some _) \<Rightarrow> recover_jobs env cancelled sent (Suc i) w1 jobs
                | (w1, None) \<Rightarrow>
                    (case enqueueJob (sent i) w1 (rj_JobID job) of
                       (w', True) \<Rightarrow> recover_jobs env cancelled sent (Suc i) w' jobs
                     | (w', False) \<Rightarrow> w'))))"

definition RecoverStuckJobs ::
    "repair_env \<Rightarrow> string list \<Rightarrow> (nat \<Rightarrow> bool) \<Rightarrow> (nat \<Rightarrow> bool) \<Rightarrow> world \<Rightarrow> world" where
  "RecoverStuckJobs env ord cancelled sent w =
     recover_jobs env cancelled sent 0 w (GetJobsByStatus ord (w_fsm w) RepairStatusInProgress)"

section \<open>What a proposal changes\<close>

definition job_of :: "CommandCreateRepairJob \<Rightarrow> RepairJob" where
  "job_of cmd =
     \<lparr>rj_JobID = ccr_JobID cmd, rj_ChunkID = ccr_ChunkID cmd, rj_Error = '''',
      rj_DeleteSource = ccr_DeleteSource cmd, rj_SourceNodeID = ccr_SourceNode cmd,
      rj_TargetNodeID = ccr_TargetNode cmd, rj_Status = RepairStatusPending, rj_Attempts = 0,
      rj_CreatedAt = ccr_CreatedAt cmd, rj_UpdatedAt = ccr_CreatedAt cmd\<rparr>"

lemma create_job_eq:
  "handleCmdCreateRepairJob s cmd =
     (if repairJobRegistry s (ccr_JobID cmd) = None
      then (s\<lparr>repairJobRegistry := (repairJobRegistry s)(ccr_JobID cmd \<mapsto> job_of cmd)\<rparr>, None)
      else (s, Some (NewError ''cmdCreateRepairJob: job already exists'')))"
  by (simp add: handleCmdCreateRepairJob_def upsert_def Let_def job_of_def)

lemma propose_in_frame [simp]:
  "w_sched (fst (propose_in env w cmd)) = w_sched w"
  "w_timers (fst (propose_in env w cmd)) = w_timers w"
  "w_fsm (fst (propose_in env w cmd)) = fst (re_propose env (w_fsm w) cmd)"
  "w_tick (fst (propose_in env w cmd)) = w_tick w + 1"
  "snd (propose_in env w cmd) = snd (re_propose env (w_fsm w) cmd)"
  by (simp_all add: propose_in_def split: prod.split)

lemma try_enqueue_frame [simp]:
  "w_fsm (try_enqueue w jid) = w_fsm w" "w_timers (try_enqueue w jid) = w_timers w"
  "w_tick (try_enqueue w jid) = w_tick w"
  "rs_pendingJobs (w_sched (try_enqueue w jid)) = rs_pendingJobs (w_sched w)"
  "rs_pendingJobsSet (w_sched (try_enqueue w jid)) = rs_pendingJobsSet (w_sched w)"
  "rs_replicationFactor (w_sched (try_enqueue w jid)) = rs_replicationFactor (w_sched w)"
  "rs_sourceStrategy (w_sched (try_enqueue w jid)) = rs_sourceStrategy (w_sched w)"
  "rs_targetStrategy (w_sched (try_enqueue w jid)) = rs_targetStrategy (w_sched w)"
  by (simp_all add: try_enqueue_def)

lemma propose_job_eq:
  "propose_job env w cmd =
     (let c = \<lparr>mc_Type = CmdCreateRepairJob, mc_Payload = enc_CommandCreateRepairJob cmd\<rparr>;
          w' = fst (propose_in env w c)
      in if snd (re_propose env (w_fsm w) c) = None then try_enqueue w' (ccr_JobID cmd) else w')"
  by (auto simp: propose_job_def propose_in_def Let_def split: prod.split option.split)

lemma propose_job_frame [simp]:
  "w_fsm (propose_job env w cmd) =
     fst (re_propose env (w_fsm w) \<lparr>mc_Type = CmdCreateRepairJob, mc_Payload = enc_CommandCreateRepairJob cmd\<rparr>)"
  "w_timers (propose_job env w cmd) = w_timers w"
  "w_tick (propose_job env w cmd) = w_tick w + 1"
  "rs_pendingJobs (w_sched (propose_job env w cmd)) = rs_pendingJobs (w_sched w)"
  "rs_pendingJobsSet (w_sched (propose_job env w cmd)) = rs_pendingJobsSet (w_sched w)"
  "rs_replicationFactor (w_sched (propose_job env w cmd)) = rs_replicationFactor (w_sched w)"
  "rs_sourceStrategy (w_sched (propose_job env w cmd)) = rs_sourceStrategy (w_sched w)"
  "rs_targetStrategy (w_sched (propose_job env w cmd)) = rs_targetStrategy (w_sched w)"
  by (simp_all add: propose_job_eq Let_def)

text \<open>
  \<open>adds_jobs P s s'\<close>: the only difference between the two states is repair jobs that
  are new in \<open>s'\<close> and satisfy \<open>P\<close>.
\<close>

definition adds_jobs :: "(RepairJob \<Rightarrow> bool) \<Rightarrow> MetadataFSM \<Rightarrow> MetadataFSM \<Rightarrow> bool" where
  "adds_jobs P s s' \<longleftrightarrow>
     s' = s\<lparr>repairJobRegistry := repairJobRegistry s'\<rparr> \<and>
     (\<forall>k j. repairJobRegistry s k = Some j \<longrightarrow> repairJobRegistry s' k = Some j) \<and>
     (\<forall>k j. repairJobRegistry s' k = Some j \<longrightarrow> repairJobRegistry s k = Some j \<or> P j)"

lemma adds_jobs_refl [simp]: "adds_jobs P s s"
  by (simp add: adds_jobs_def)

lemma adds_jobs_trans: "adds_jobs P s t \<Longrightarrow> adds_jobs P t u \<Longrightarrow> adds_jobs P s u"
  unfolding adds_jobs_def by (cases s; cases t; cases u) (simp, blast)

lemma adds_jobs_frame:
  assumes "adds_jobs P s s'"
  shows "chunkRegistry s' = chunkRegistry s" "nodeRegistry s' = nodeRegistry s" "fileIndex s' = fileIndex s"
  using assms unfolding adds_jobs_def by (cases s; cases s'; simp)+

lemma adds_jobs_create:
  "P (job_of cmd) \<Longrightarrow> adds_jobs P s (fst (handleCmdCreateRepairJob s cmd))"
  by (simp add: create_job_eq adds_jobs_def)

section \<open>The scheduler over any proposer\<close>

text \<open>
  The interface between the scheduler and Raft: its proposing function keeps the
  contract of the locale \<open>proposer\<close>.
\<close>

locale repair_world =
  fixes env :: repair_env
  assumes proposes: "proposer (re_propose env)"
begin

lemma create_job_step:
  assumes "P (job_of cmd)"
  shows "adds_jobs P s (fst (re_propose env s
    \<lparr>mc_Type = CmdCreateRepairJob, mc_Payload = enc_CommandCreateRepairJob cmd\<rparr>))"
  using proposer.propose_step [OF proposes, of s
      "\<lparr>mc_Type = CmdCreateRepairJob, mc_Payload = enc_CommandCreateRepairJob cmd\<rparr>"]
  by (auto simp: Apply_encoded adds_jobs_create assms)

lemma targets_add_jobs:
  assumes "\<And>t node. node \<in> set nodes \<Longrightarrow>
    P (job_of \<lparr>ccr_JobID = re_uuid env t, ccr_CreatedAt = re_now env t, ccr_ChunkID = chunkID,
         ccr_DeleteSource = False, ccr_SourceNode = sourceNode, ccr_TargetNode = ne_NodeID node\<rparr>)"
  shows "adds_jobs P (w_fsm w) (w_fsm (schedule_targets env chunkID sourceNode w nodes))"
  using assms
proof (induction nodes arbitrary: w)
  case Nil
  show ?case by simp
next
  case (Cons node nodes)
  let ?w = "propose_job env w \<lparr>ccr_JobID = re_uuid env (w_tick w), ccr_CreatedAt = re_now env (w_tick w),
      ccr_ChunkID = chunkID, ccr_DeleteSource = False, ccr_SourceNode = sourceNode,
      ccr_TargetNode = ne_NodeID node\<rparr>"
  have one: "adds_jobs P (w_fsm w) (w_fsm ?w)"
    unfolding propose_job_frame by (rule create_job_step) (simp add: Cons.prems)
  have rest: "adds_jobs P (w_fsm v) (w_fsm (schedule_targets env chunkID sourceNode v nodes))" for v
    by (rule Cons.IH) (simp add: Cons.prems)
  show ?case using adds_jobs_trans [OF one rest] rest by (simp del: propose_job_frame)
qed

lemma deletions_add_jobs:
  assumes "\<And>t node. node \<in> set nodes \<Longrightarrow>
    P (job_of \<lparr>ccr_JobID = re_uuid env t, ccr_CreatedAt = re_now env t, ccr_ChunkID = chunkID,
         ccr_DeleteSource = True, ccr_SourceNode = ne_NodeID node, ccr_TargetNode = ''''\<rparr>)"
  shows "adds_jobs P (w_fsm w) (w_fsm (schedule_deletions env chunkID w nodes))"
  using assms
proof (induction nodes arbitrary: w)
  case Nil
  show ?case by simp
next
  case (Cons node nodes)
  let ?w = "propose_job env w \<lparr>ccr_JobID = re_uuid env (w_tick w), ccr_CreatedAt = re_now env (w_tick w),
      ccr_ChunkID = chunkID, ccr_DeleteSource = True, ccr_SourceNode = ne_NodeID node,
      ccr_TargetNode = ''''\<rparr>"
  have one: "adds_jobs P (w_fsm w) (w_fsm ?w)"
    unfolding propose_job_frame by (rule create_job_step) (simp add: Cons.prems)
  have rest: "adds_jobs P (w_fsm v) (w_fsm (schedule_deletions env chunkID v nodes))" for v
    by (rule Cons.IH) (simp add: Cons.prems)
  show ?case using adds_jobs_trans [OF one rest] rest by (simp del: propose_job_frame)
qed

end

text \<open>The schedulers of the source propose through \<open>Propose\<close>.\<close>

definition raft_env :: "raft_apply \<Rightarrow> (nat \<Rightarrow> string) \<Rightarrow> (nat \<Rightarrow> gotime) \<Rightarrow> repair_env" where
  "raft_env raft uuid now = \<lparr>re_propose = Propose raft, re_uuid = uuid, re_now = now\<rparr>"

lemma raft_env_world: "raft_log raft \<Longrightarrow> repair_world (raft_env raft uuid now)"
  by (simp add: repair_world_def raft_env_def raft_log.is_proposer)

interpretation leader_repair: repair_world "raft_env (leader_raft ords) uuid now" for ords uuid now
  by (rule raft_env_world) (rule leader.raft_log_axioms)

section \<open>The scheduler's invariant\<close>

definition sched_inv :: "RepairScheduler \<Rightarrow> bool" where
  "sched_inv rs \<longleftrightarrow>
     1 \<le> rs_replicationFactor rs \<and> rs_replicationFactor rs \<le> maxReplicationFactor \<and>
     placement (rs_sourceStrategy rs) \<and> placement (rs_targetStrategy rs) \<and>
     (\<forall>k js. rs_pendingJobs rs k = Some js \<longrightarrow> js \<noteq> [] \<and> distinct js)"

definition world_inv :: "world \<Rightarrow> bool" where
  "world_inv w \<longleftrightarrow>
     reachable (w_fsm w) \<and> sched_inv (w_sched w) \<and>
     (\<forall>d c. (d, c) \<in> set (w_timers w) \<longrightarrow> Second \<le> d \<and> d \<le> 60 * Second)"

lemma removeJob_remove1: "removeJob js j = remove1 j js"
  by (induction js) auto

lemma retryDelay_eq: "retryDelay attempt = min (2 ^ unat (min attempt 6)) 60 * Second"
  by (simp add: retryDelay_def Let_def Second_def min_def)

lemma retryDelay_bounds: "Second \<le> retryDelay attempt" "retryDelay attempt \<le> 60 * Second"
  by (simp_all add: retryDelay_eq Second_def)

lemma sched_inv_jobs [simp]: "sched_inv (rs\<lparr>rs_jobs := js\<rparr>) = sched_inv rs"
  by (simp add: sched_inv_def)

lemma world_inv_jobs [simp]: "world_inv (w\<lparr>w_sched := (w_sched w)\<lparr>rs_jobs := js\<rparr>\<rparr>) = world_inv w"
  by (simp add: world_inv_def)

lemma world_inv_enqueue [simp]: "world_inv (try_enqueue w j) = world_inv w"
  by (simp add: try_enqueue_def)

lemma forget_job_inv: "sched_inv rs \<Longrightarrow> sched_inv (forget_job rs nodeid jobID)"
  by (auto simp: forget_job_def sched_inv_def Let_def removeJob_remove1 split: option.split if_splits)

lemma placement_zero: "placement ps \<Longrightarrow> SelectPrimary ps [] = zero_NodeEntry"
  by (rule placement.primary_none)

context repair_world
begin

lemma propose_in_inv: "world_inv w \<Longrightarrow> world_inv (fst (propose_in env w cmd))"
  using proposer.propose_reachable [OF proposes] by (simp add: world_inv_def)

lemma propose_job_inv: "world_inv w \<Longrightarrow> world_inv (propose_job env w cmd)"
  using propose_in_inv by (simp add: propose_job_eq Let_def)

lemma schedule_targets_inv: "world_inv w \<Longrightarrow> world_inv (schedule_targets env chunkID sourceNode w nodes)"
  by (induction nodes arbitrary: w) (simp_all add: propose_job_inv)

lemma schedule_deletions_inv: "world_inv w \<Longrightarrow> world_inv (schedule_deletions env chunkID w nodes)"
  by (induction nodes arbitrary: w) (simp_all add: propose_job_inv)

lemma scheduleRepairJobs_inv: "world_inv w \<Longrightarrow> world_inv (scheduleRepairJobs env ord w chunkID live deficit)"
  by (simp add: scheduleRepairJobs_def Let_def schedule_targets_inv schedule_deletions_inv
      split: sum.split prod.split option.split)

lemma ScheduleRepairForChunk_inv: "world_inv w \<Longrightarrow> world_inv (ScheduleRepairForChunk env ord w chunkID)"
  by (simp add: ScheduleRepairForChunk_def Let_def scheduleRepairJobs_inv split: sum.split)

lemma reschedule_inv: "world_inv w \<Longrightarrow> world_inv (reschedule env ord w chunkID)"
  by (simp add: reschedule_def Let_def scheduleRepairJobs_inv split: sum.split)

lemma trigger_chunk_inv: "world_inv w \<Longrightarrow> world_inv (trigger_chunk env ords deadNodeID w c)"
  by (simp add: trigger_chunk_def proposeEvictChunk_def Let_def scheduleRepairJobs_inv propose_in_inv
      del: propose_in_frame split: sum.split)

lemma TriggerRepair_inv: "world_inv w \<Longrightarrow> world_inv (TriggerRepair env ord ords w deadNodeID)"
proof -
  have "world_inv v \<Longrightarrow> world_inv (trigger_chunks env ords deadNodeID v cs)" for v cs
    by (induction cs arbitrary: v) (simp_all add: trigger_chunk_inv)
  then show "world_inv w \<Longrightarrow> world_inv (TriggerRepair env ord ords w deadNodeID)"
    by (simp add: TriggerRepair_def)
qed

lemma executeJob_inv: "world_inv w \<Longrightarrow> world_inv (executeJob env w jobID)"
proof -
  assume w: "world_inv w"
  have "sched_inv (rs\<lparr>rs_pendingJobs := (rs_pendingJobs rs)(k \<mapsto> appendUnique
      (case rs_pendingJobs rs k of None \<Rightarrow> [] | Some js \<Rightarrow> js) jobID), rs_pendingJobsSet := m\<rparr>)"
    if "sched_inv rs" for rs k m
    using that by (auto simp: sched_inv_def appendUnique_def split: option.splits)
  with w have "world_inv (w\<lparr>w_sched := (w_sched w)\<lparr>rs_pendingJobs := (rs_pendingJobs (w_sched w))(k \<mapsto> appendUnique
      (case rs_pendingJobs (w_sched w) k of None \<Rightarrow> [] | Some js \<Rightarrow> js) jobID), rs_pendingJobsSet := m\<rparr>\<rparr>)" for k m
    by (simp add: world_inv_def)
  with w show ?thesis
    by (simp add: executeJob_def Let_def propose_in_inv del: propose_in_frame split: sum.split)
qed

lemma worker_step_inv: "world_inv w \<Longrightarrow> world_inv (worker_step env w)"
  by (simp add: worker_step_def executeJob_inv split: list.split)

lemma OnJobComplete_inv: "world_inv w \<Longrightarrow> world_inv (fst (OnJobComplete env w nodeid jobID success msg))"
proof -
  assume "world_inv w"
  then have w1: "world_inv (w\<lparr>w_sched := forget_job (w_sched w) nodeid jobID\<rparr>)"
    by (simp add: world_inv_def forget_job_inv)
  have timer: "world_inv (v\<lparr>w_timers := w_timers v @ [(retryDelay a, c)]\<rparr>)" if "world_inv v" for v a c
    using that retryDelay_bounds [of a] by (auto simp: world_inv_def)
  show "world_inv (fst (OnJobComplete env w nodeid jobID success msg))"
    using w1 timer [OF w1]
    by (simp add: OnJobComplete_def Let_def proposeEvictChunk_def proposeAddReplica_def propose_in_inv
        del: propose_in_frame split: sum.split)
qed

lemma recover_jobs_inv: "world_inv w \<Longrightarrow> world_inv (recover_jobs env cancelled sent i w jobs)"
proof (induction jobs arbitrary: i w)
  case Nil
  then show ?case by simp
next
  case (Cons job jobs)
  have "world_inv (fst (propose_in env w cmd))" for cmd using Cons.prems by (rule propose_in_inv)
  then have step: "propose_in env w cmd = (v, e) \<Longrightarrow> world_inv v" for cmd v e by (metis fst_conv)
  show ?case
    using Cons.prems Cons.IH step
    by (auto simp: enqueueJob_def Let_def split: sum.split option.split prod.split)
qed

lemma RecoverStuckJobs_inv: "world_inv w \<Longrightarrow> world_inv (RecoverStuckJobs env ord cancelled sent w)"
  by (simp add: RecoverStuckJobs_def recover_jobs_inv)

lemmas operations_inv =
  TriggerRepair_inv ScheduleRepairForChunk_inv worker_step_inv OnJobComplete_inv reschedule_inv
  RecoverStuckJobs_inv

end

section \<open>Runs of the scheduler\<close>

text \<open>
  The operations of a running scheduler, in any order: a node dies, a chunk is
  re-evaluated, a worker takes a job, a storage node reports a result, a timer fires,
  recovery runs, or somebody else's log entry is applied.
\<close>

inductive repair_step :: "repair_env \<Rightarrow> world \<Rightarrow> world \<Rightarrow> bool" for env where
  triggered: "repair_step env w (TriggerRepair env ord ords w deadNodeID)"
| evaluated: "repair_step env w (ScheduleRepairForChunk env ord w chunkID)"
| worked: "repair_step env w (worker_step env w)"
| completed: "repair_step env w (fst (OnJobComplete env w nodeid jobID success msg))"
| fired: "(d, c) \<in> set (w_timers w) \<Longrightarrow>
    repair_step env w (reschedule env ord (w\<lparr>w_timers := remove1 (d, c) (w_timers w)\<rparr>) c)"
| recovered: "repair_step env w (RecoverStuckJobs env ord cancelled sent w)"
| foreign: "repair_step env w (w\<lparr>w_fsm := fst (Apply ords (w_fsm w) rlog)\<rparr>)"

lemma world_inv_timers: "world_inv w \<Longrightarrow> set ts \<subseteq> set (w_timers w) \<Longrightarrow> world_inv (w\<lparr>w_timers := ts\<rparr>)"
  by (auto simp: world_inv_def)

lemma repair_step_inv:
  assumes "repair_world env" "repair_step env w w'" "world_inv w"
  shows "world_inv w'"
  using assms(2,3)
proof (induction rule: repair_step.induct)
  case (fired d c w ord)
  then have "world_inv (w\<lparr>w_timers := remove1 (d, c) (w_timers w)\<rparr>)"
    by (intro world_inv_timers) (auto dest: notin_set_remove1 [rotated] simp: set_remove1_subset)
  then show ?case by (rule repair_world.reschedule_inv [OF assms(1)])
next
  case (foreign w ords rlog)
  then show ?case by (simp add: world_inv_def reachable.applied)
qed (simp_all add: repair_world.operations_inv [OF assms(1)])

lemma repair_run_inv:
  assumes "repair_world env" "(repair_step env)\<^sup>*\<^sup>* w w'" "world_inv w"
  shows "world_inv w'"
  using assms(2,3) by (induction rule: rtranclp_induct) (auto intro: repair_step_inv [OF assms(1)])

definition start_world :: "MetadataFSM \<Rightarrow> PlacementStrategy \<Rightarrow> PlacementStrategy \<Rightarrow> int \<Rightarrow> world" where
  "start_world s source target rf =
     \<lparr>w_fsm = s, w_sched = NewRepairScheduler source target rf, w_timers = [], w_tick = 0\<rparr>"

lemma start_world_inv:
  "reachable s \<Longrightarrow> placement source \<Longrightarrow> placement target \<Longrightarrow> world_inv (start_world s source target rf)"
  by (auto simp: start_world_def world_inv_def sched_inv_def NewRepairScheduler_def
      defaultReplicationFactor_def maxReplicationFactor_def)

text \<open>
  In every run of the scheduler over a Raft that keeps its promises, from start-up
  on and whatever other entries are applied in between, the metadata state stays
  reachable, the replication factor is between 1 and 10, the pending list of a node
  is non-empty without duplicates, and every armed retry timer lies between one second
  and one minute.
\<close>

theorem scheduler_run_invariant:
  assumes "raft_log raft" "reachable s" "placement source" "placement target"
    and "(repair_step (raft_env raft uuid now))\<^sup>*\<^sup>* (start_world s source target rf) w"
  shows "reachable (w_fsm w) \<and> 1 \<le> rs_replicationFactor (w_sched w) \<and> rs_replicationFactor (w_sched w) \<le> 10 \<and>
    (\<forall>k js. rs_pendingJobs (w_sched w) k = Some js \<longrightarrow> js \<noteq> [] \<and> distinct js) \<and>
    (\<forall>d c. (d, c) \<in> set (w_timers w) \<longrightarrow> Second \<le> d \<and> d \<le> 60 * Second)"
  using repair_run_inv [OF raft_env_world [OF assms(1)] assms(5) start_world_inv [OF assms(2-4)]]
  by (simp add: world_inv_def sched_inv_def maxReplicationFactor_def)

definition demo_world :: world where
  "demo_world = start_world demo_state (LeastLoadedStrategy insertionSort) (MostFreeSpaceStrategy insertionSort) 2"

definition demo_env :: repair_env where
  "demo_env = raft_env (leader_raft (\<lambda>_. [''n1'', ''n2''])) (\<lambda>i. if i = 0 then ''job0'' else ''job1'') (\<lambda>i. 100 + int i)"

theorem scheduler_run_invariant_witness:
  "reachable (w_fsm (ScheduleRepairForChunk demo_env [''n1'', ''n2''] demo_world ''c0''))"
proof -
  have "(repair_step demo_env)\<^sup>*\<^sup>* demo_world (ScheduleRepairForChunk demo_env [''n1'', ''n2''] demo_world ''c0'')"
    by (rule r_into_rtranclp) (rule repair_step.evaluated)
  from scheduler_run_invariant [OF leader.raft_log_axioms demo_reachable lls.placement_axioms mfs.placement_axioms
      this [unfolded demo_env_def demo_world_def]]
  show ?thesis by (simp add: demo_env_def demo_world_def)
qed

section \<open>Which jobs are scheduled\<close>

definition repair_job_ok :: "MetadataFSM \<Rightarrow> string \<Rightarrow> NodeEntry list \<Rightarrow> RepairJob \<Rightarrow> bool" where
  "repair_job_ok s chunkID live j \<longleftrightarrow>
     rj_ChunkID j = chunkID \<and> rj_Status j = RepairStatusPending \<and> rj_Attempts j = 0 \<and> \<not> rj_DeleteSource j \<and>
     rj_SourceNodeID j \<in> ne_NodeID ` set live \<and> rj_TargetNodeID j \<notin> ne_NodeID ` set live \<and>
     map_option ne_Status (nodeRegistry s (rj_TargetNodeID j)) = Some NodeStatusAlive"

lemma GetLiveNodes_alive:
  "fsm_inv s \<Longrightarrow> n \<in> set (GetLiveNodes ord s) \<Longrightarrow>
     map_option ne_Status (nodeRegistry s (ne_NodeID n)) = Some NodeStatusAlive"
  using fsm_inv_node by (fastforce simp: GetLiveNodes_def set_range_values)

lemma scheduleRepairJobs_jobs:
  assumes world: "repair_world env" and inv: "fsm_inv (w_fsm w)" and sched: "sched_inv (w_sched w)"
    and deficit: "0 < deficit"
  shows "adds_jobs (repair_job_ok (w_fsm w) chunkID live) (w_fsm w)
    (w_fsm (scheduleRepairJobs env ord w chunkID live deficit))"
proof (cases "live = [] \<or> GetChunk (w_fsm w) chunkID \<notin> range Inr")
  case True
  then show ?thesis using deficit
    by (auto simp: scheduleRepairJobs_def Let_def split: sum.split)
next
  case False
  then obtain chunk where chunk: "GetChunk (w_fsm w) chunkID = Inr chunk" and live: "live \<noteq> []" by auto
  let ?tgt = "rs_targetStrategy (w_sched w)" and ?src = "rs_sourceStrategy (w_sched w)"
  obtain new err where new: "SelectNodes ?tgt (GetLiveNodes ord (w_fsm w)) chunkID (cr_Size chunk) (nat deficit) live = (new, err)"
    by fastforce
  have "placement ?tgt" "placement ?src" using sched by (simp_all add: sched_inv_def)
  then have src: "ne_NodeID (SelectPrimary ?src live) \<in> ne_NodeID ` set live"
    and sub: "set new \<subseteq> set (eligible (GetLiveNodes ord (w_fsm w)) (cr_Size chunk) live)"
    using placement.primary_mem [OF _ live] placement.select_eligible new by (blast, metis fst_conv)
  have "repair_job_ok (w_fsm w) chunkID live (job_of \<lparr>ccr_JobID = re_uuid env t, ccr_CreatedAt = re_now env t,
      ccr_ChunkID = chunkID, ccr_DeleteSource = False, ccr_SourceNode = ne_NodeID (SelectPrimary ?src live),
      ccr_TargetNode = ne_NodeID node\<rparr>)" if "node \<in> set new" for t node
    using that sub src GetLiveNodes_alive [OF inv, of node ord]
    by (auto simp: repair_job_ok_def job_of_def eligible_def)
  then have "adds_jobs (repair_job_ok (w_fsm w) chunkID live) (w_fsm w)
      (w_fsm (schedule_targets env chunkID (ne_NodeID (SelectPrimary ?src live)) w new))"
    by (rule repair_world.targets_add_jobs [OF world])
  then show ?thesis using deficit live chunk new
    by (simp add: scheduleRepairJobs_def Let_def split: option.split)
qed

text \<open>
  C16: Evaluating a chunk never changes anything but the repair-job registry, never
  touches an existing job, and every job it adds asks a node that holds a live replica
  of the chunk to copy it to a registered, alive node that does not.
\<close>

theorem repair_jobs_well_targeted:
  assumes "raft_log raft" "world_inv w" "GetChunkLocations (w_fsm w) chunkID = Inr live"
  shows "adds_jobs (repair_job_ok (w_fsm w) chunkID live) (w_fsm w)
    (w_fsm (ScheduleRepairForChunk (raft_env raft uuid now) ord w chunkID))"
  using assms scheduleRepairJobs_jobs [OF raft_env_world [OF assms(1)] reachable_fsm_inv]
  by (simp add: ScheduleRepairForChunk_def Let_def world_inv_def)

lemma demo_world_inv: "world_inv demo_world"
  unfolding demo_world_def by (intro start_world_inv demo_reachable lls.placement_axioms mfs.placement_axioms)

lemma demo_locations:
  "GetChunkLocations (w_fsm demo_world) ''c0'' = Inr [the (nodeRegistry demo_state ''n1'')]"
  by (simp add: demo_world_def start_world_def demo_state_eq GetChunkLocations_def GetChunk_def live_entries_def)

theorem repair_jobs_well_targeted_witness:
  "adds_jobs (repair_job_ok demo_state ''c0'' [the (nodeRegistry demo_state ''n1'')]) demo_state
     (w_fsm (ScheduleRepairForChunk demo_env [''n1'', ''n2''] demo_world ''c0''))"
  using repair_jobs_well_targeted [OF leader.raft_log_axioms demo_world_inv demo_locations]
  unfolding demo_env_def by (simp add: demo_world_def start_world_def)

section \<open>A committing leader\<close>

definition drop_node :: "string \<Rightarrow> ChunkRecord \<Rightarrow> ChunkRecord" where
  "drop_node n c = c\<lparr>cr_Replicas := removeAll n (cr_Replicas c)\<rparr>"

lemma drop_node_absent: "n \<notin> set (cr_Replicas c) \<Longrightarrow> drop_node n c = c"
  by (simp add: drop_node_def)

lemma drop_node_idem [simp]: "drop_node n (drop_node n c) = drop_node n c"
  by (simp add: drop_node_def)

lemma evict_chunkRegistry:
  assumes "fsm_inv s"
  shows "chunkRegistry (fst (handleCmdEvictChunkFromNode s req)) =
    (chunkRegistry s)(cev_ChunkID req := map_option (drop_node (cev_NodeID req)) (chunkRegistry s (cev_ChunkID req)))"
proof (cases "chunkRegistry s (cev_ChunkID req)")
  case None
  then show ?thesis by (simp add: evict_eq fun_upd_idem)
next
  case (Some c)
  then have "distinct (cr_Replicas c)" using fsm_inv_chunk [OF assms Some] chunk_wf_distinct by blast
  then have "cev_NodeID req \<in> set (cr_Replicas c) \<Longrightarrow>
      c\<lparr>cr_Replicas := remove1 (cev_NodeID req) (cr_Replicas c)\<rparr> = drop_node (cev_NodeID req) c"
    by (simp add: drop_node_def distinct_remove1_removeAll)
  moreover have "chunkRegistry s = (chunkRegistry s)(cev_ChunkID req \<mapsto> c)" using Some by auto
  ultimately show ?thesis using Some
    by (auto simp: evict_eq set_chunk_def drop_node_absent)
qed

lemma leader_evict:
  "w_fsm (fst (proposeEvictChunk (raft_env (leader_raft ords) uuid now) w c n reason)) =
     fst (handleCmdEvictChunkFromNode (w_fsm w)
       \<lparr>cev_ChunkID = c, cev_NodeID = n, cev_EvictedAt = now (w_tick w), cev_Reason = reason\<rparr>)"
  by (simp add: proposeEvictChunk_def raft_env_def leader_simps)

lemma sched_after_evict [simp]: "w_sched (fst (proposeEvictChunk env w c n reason)) = w_sched w"
  by (simp add: proposeEvictChunk_def)

lemma trigger_chunk_registry:
  assumes "world_inv w"
  shows "chunkRegistry (w_fsm (trigger_chunk (raft_env (leader_raft ords0) uuid now) ords dead w c)) =
    (chunkRegistry (w_fsm w))(c := map_option (drop_node dead) (chunkRegistry (w_fsm w) c))"
proof -
  let ?env = "raft_env (leader_raft ords0) uuid now"
  let ?w1 = "fst (proposeEvictChunk ?env w c dead ''node marked dead'')"
  have inv: "fsm_inv (w_fsm w)" "sched_inv (w_sched w)"
    using assms reachable_fsm_inv by (simp_all add: world_inv_def)
  have evicted: "chunkRegistry (w_fsm ?w1) = (chunkRegistry (w_fsm w))(c := map_option (drop_node dead) (chunkRegistry (w_fsm w) c))"
    unfolding leader_evict evict_chunkRegistry [OF inv(1)] by simp
  have "fsm_inv (w_fsm ?w1)" unfolding leader_evict by (rule evict_chunk.keeps_inv [OF inv(1)])
  then have "chunkRegistry (w_fsm (scheduleRepairJobs ?env ord ?w1 c live d)) = chunkRegistry (w_fsm ?w1)"
    if "0 < d" for ord live d
    using adds_jobs_frame(1) [OF scheduleRepairJobs_jobs [OF leader_repair.repair_world_axioms _ _ that]] inv(2) by simp
  with evicted show ?thesis by (simp add: trigger_chunk_def Let_def split: sum.split)
qed

lemma trigger_chunks_registry:
  assumes "world_inv w"
  shows "chunkRegistry (w_fsm (trigger_chunks (raft_env (leader_raft ords0) uuid now) ords dead w cs)) k =
    (if k \<in> set cs then map_option (drop_node dead) (chunkRegistry (w_fsm w) k) else chunkRegistry (w_fsm w) k)"
  using assms
proof (induction cs arbitrary: w)
  case Nil
  then show ?case by simp
next
  case (Cons c cs)
  from Cons.prems have "world_inv (trigger_chunk (raft_env (leader_raft ords0) uuid now) ords dead w c)"
    by (rule leader_repair.trigger_chunk_inv)
  from Cons.IH [OF this] show ?case
    by (simp add: trigger_chunk_registry [OF Cons.prems] option.map_comp comp_def)
qed

lemma GetChunksByNode_set:
  assumes "fsm_inv s" "range_order ord (chunkRegistry s)"
  shows "set (GetChunksByNode ord s n) = {k. \<exists>c. chunkRegistry s k = Some c \<and> n \<in> set (cr_Replicas c)}"
  using fsm_inv_chunk [OF assms(1)] set_range_values_ran [OF assms(2)]
  by (fastforce simp: GetChunksByNode_def ran_def)

text \<open>
  C13: When a node is declared dead and the leader's proposals commit, TriggerRepair
  removes exactly that node from the replica list of every chunk: afterwards no chunk
  lists the dead node, and nothing else about any chunk has changed.
\<close>

theorem trigger_repair_evicts_dead_node:
  assumes "world_inv w" "range_order ord (chunkRegistry (w_fsm w))"
  shows "chunkRegistry (w_fsm (TriggerRepair (raft_env (leader_raft ords0) uuid now) ord ords w dead)) =
    (\<lambda>k. map_option (drop_node dead) (chunkRegistry (w_fsm w) k))"
proof
  fix k
  have inv: "fsm_inv (w_fsm w)" using assms(1) reachable_fsm_inv by (simp add: world_inv_def)
  show "chunkRegistry (w_fsm (TriggerRepair (raft_env (leader_raft ords0) uuid now) ord ords w dead)) k =
      map_option (drop_node dead) (chunkRegistry (w_fsm w) k)"
    unfolding TriggerRepair_def trigger_chunks_registry [OF assms(1)] GetChunksByNode_set [OF inv assms(2)]
    by (cases "chunkRegistry (w_fsm w) k") (auto simp: drop_node_absent)
qed

theorem trigger_repair_evicts_dead_node_witness:
  "map_option cr_Replicas (chunkRegistry (w_fsm (TriggerRepair (raft_env (leader_raft (\<lambda>_. [])) (\<lambda>_. ''j'') (\<lambda>_. 0))
     [''c0'', ''c1''] (\<lambda>_. [''n2'', ''n1'']) demo_world ''n1'')) ''c0'') = Some []"
proof -
  have "range_order [''c0'', ''c1''] (chunkRegistry (w_fsm demo_world))"
    by (auto simp: range_order_def demo_world_def start_world_def demo_state_eq)
  from trigger_repair_evicts_dead_node [OF demo_world_inv this] show ?thesis
    by (simp add: demo_world_def start_world_def demo_state_eq drop_node_def)
qed

section \<open>Coverage of the deficit\<close>

definition fresh_uuids :: "(nat \<Rightarrow> string) \<Rightarrow> world \<Rightarrow> bool" where
  "fresh_uuids uuid w \<longleftrightarrow> inj uuid \<and> (\<forall>t \<ge> w_tick w. repairJobRegistry (w_fsm w) (uuid t) = None)"

text \<open>A proposal of the leader under a fresh identifier creates the job and queues it.\<close>

lemma leader_propose_job:
  assumes "repairJobRegistry (w_fsm w) (ccr_JobID cmd) = None"
  shows "w_fsm (propose_job (raft_env (leader_raft ords) uuid now) w cmd) =
    (w_fsm w)\<lparr>repairJobRegistry := (repairJobRegistry (w_fsm w))(ccr_JobID cmd \<mapsto> job_of cmd)\<rparr>"
  using assms by (simp add: raft_env_def leader_simps create_job_eq)

lemma targets_covered:
  assumes "fresh_uuids uuid w" "node \<in> set nodes"
    and "rs_pendingJobsSet (w_sched w) (pending_key chunkID (ne_NodeID node)) = None"
  shows "\<exists>k j. repairJobRegistry (w_fsm (schedule_targets (raft_env (leader_raft ords) uuid now) chunkID src w nodes)) k = Some j \<and>
    rj_ChunkID j = chunkID \<and> rj_SourceNodeID j = src \<and> rj_TargetNodeID j = ne_NodeID node \<and>
    rj_Status j = RepairStatusPending"
  using assms
proof (induction nodes arbitrary: w)
  case Nil
  then show ?case by simp
next
  case (Cons n nodes)
  let ?env = "raft_env (leader_raft ords) uuid now"
  show ?case
  proof (cases "rs_pendingJobsSet (w_sched w) (pending_key chunkID (ne_NodeID n)) = None")
    case False
    with Cons.prems have "node \<in> set nodes" by auto
    with False Cons show ?thesis by simp
  next
    case True
    let ?cmd = "\<lparr>ccr_JobID = uuid (w_tick w), ccr_CreatedAt = now (w_tick w), ccr_ChunkID = chunkID,
        ccr_DeleteSource = False, ccr_SourceNode = src, ccr_TargetNode = ne_NodeID n\<rparr>"
    let ?w = "propose_job ?env w ?cmd"
    have "repairJobRegistry (w_fsm w) (ccr_JobID ?cmd) = None"
      using Cons.prems(1) by (simp add: fresh_uuids_def)
    note made = leader_propose_job [OF this, of ords uuid now]
    have fresh: "fresh_uuids uuid ?w"
      using Cons.prems(1) unfolding fresh_uuids_def made by (auto dest: injD)
    have step: "schedule_targets ?env chunkID src w (n # nodes) = schedule_targets ?env chunkID src ?w nodes"
      using True by (simp add: raft_env_def)
    show ?thesis
    proof (cases "node \<in> set nodes")
      case True
      then show ?thesis unfolding step using Cons.IH [OF fresh] Cons.prems(3) by simp
    next
      case False
      then have n: "node = n" using Cons.prems(2) by simp
      have "adds_jobs (\<lambda>_. True) (w_fsm ?w) (w_fsm (schedule_targets ?env chunkID src ?w nodes))"
        by (rule leader_repair.targets_add_jobs) simp
      moreover have "repairJobRegistry (w_fsm ?w) (uuid (w_tick w)) = Some (job_of ?cmd)"
        unfolding made by simp
      ultimately have "repairJobRegistry (w_fsm (schedule_targets ?env chunkID src ?w nodes)) (uuid (w_tick w)) =
          Some (job_of ?cmd)" unfolding adds_jobs_def by blast
      then show ?thesis unfolding step n by (intro exI conjI) (auto simp: job_of_def)
    qed
  qed
qed

text \<open>
  C17: If a chunk is short of replicas, has at least one live replica, and there are
  enough alive nodes that do not hold it, then evaluating it on a committing leader
  with fresh job identifiers and no pending job for it schedules one pending job for
  each of as many distinct target nodes as replicas are missing.
\<close>

theorem deficit_is_covered:
  assumes w: "world_inv w" and fresh: "fresh_uuids uuid w" and ord: "range_order ord (nodeRegistry (w_fsm w))"
    and locs: "GetChunkLocations (w_fsm w) chunkID = Inr live" "live \<noteq> []"
    and d: "rs_replicationFactor (w_sched w) - int (length live) = int missing" "0 < missing"
    and enough: "missing \<le> length (eligible (GetLiveNodes ord (w_fsm w)) 0 live)"
    and idle: "\<forall>n. rs_pendingJobsSet (w_sched w) (pending_key chunkID n) = None"
  shows "\<exists>targets. length targets = missing \<and> distinct targets \<and>
    list_all (\<lambda>t. \<exists>k j. repairJobRegistry (w_fsm (ScheduleRepairForChunk
        (raft_env (leader_raft ords) uuid now) ord w chunkID)) k = Some j \<and>
      rj_ChunkID j = chunkID \<and> rj_TargetNodeID j = t \<and> rj_Status j = RepairStatusPending) targets"
proof -
  let ?env = "raft_env (leader_raft ords) uuid now" and ?s = "w_fsm w"
  have inv: "fsm_inv ?s" and tgt: "placement (rs_targetStrategy (w_sched w))"
    using w reachable_fsm_inv by (simp_all add: world_inv_def sched_inv_def)
  from locs(1) obtain c where c: "GetChunk ?s chunkID = Inr c"
    by (auto simp: GetChunkLocations_def split: sum.splits)
  then have size: "cr_Size c = 0"
    using fsm_inv_chunk [OF inv] by (force simp: GetChunk_def chunk_wf_def split: option.splits)
  let ?r = "SelectNodes (rs_targetStrategy (w_sched w)) (GetLiveNodes ord ?s) chunkID 0 missing live"
  have ok: "snd ?r = None" using enough by (simp add: placement.select_error [OF tgt])
  have "map ne_NodeID (range_values ord (nodeRegistry ?s)) = filter (\<lambda>k. nodeRegistry ?s k \<noteq> None) ord"
    by (rule map_key_range_values) (use fsm_inv_node [OF inv] in blast)
  then have "distinct (map ne_NodeID (GetLiveNodes ord ?s))"
    using ord by (simp add: GetLiveNodes_def distinct_map_filter range_order_def)
  then have dist: "distinct (map ne_NodeID (fst ?r))" by (rule placement.select_distinct [OF tgt])
  have len: "length (fst ?r) = missing" using placement.select_success [OF tgt ok] .
  have step: "ScheduleRepairForChunk ?env ord w chunkID = schedule_targets ?env chunkID
      (ne_NodeID (SelectPrimary (rs_sourceStrategy (w_sched w)) live)) w (fst ?r)"
    using locs d c size ok
    by (cases ?r) (simp add: ScheduleRepairForChunk_def scheduleRepairJobs_def Let_def)
  have "list_all (\<lambda>n. \<exists>k j. repairJobRegistry (w_fsm (ScheduleRepairForChunk ?env ord w chunkID)) k = Some j \<and>
      rj_ChunkID j = chunkID \<and> rj_TargetNodeID j = ne_NodeID n \<and> rj_Status j = RepairStatusPending) (fst ?r)"
    unfolding step list_all_iff using targets_covered [OF fresh] idle by (metis (no_types, lifting))
  then show ?thesis using len dist by (intro exI [of _ "map ne_NodeID (fst ?r)"]) (simp add: list_all_iff)
qed

theorem deficit_is_covered_witness:
  "\<exists>targets. length targets = 1 \<and> distinct targets \<and>
    list_all (\<lambda>t. \<exists>k j. repairJobRegistry (w_fsm (ScheduleRepairForChunk
        (raft_env (leader_raft (\<lambda>_. [])) (\<lambda>i. replicate i CHR ''x'') (\<lambda>_. 0)) [''n1'', ''n2''] demo_world ''c0'')) k = Some j \<and>
      rj_ChunkID j = ''c0'' \<and> rj_TargetNodeID j = t \<and> rj_Status j = RepairStatusPending) targets"
proof (rule deficit_is_covered [OF demo_world_inv _ _ demo_locations])
  have "inj (\<lambda>i. replicate i CHR ''x'')" by (rule injI) simp
  then show "fresh_uuids (\<lambda>i. replicate i CHR ''x'') demo_world"
    by (simp add: fresh_uuids_def demo_world_def start_world_def demo_state_eq)
  show "range_order [''n1'', ''n2''] (nodeRegistry (w_fsm demo_world))"
    by (auto simp: range_order_def demo_world_def start_world_def demo_state_eq)
  show "1 \<le> length (eligible (GetLiveNodes [''n1'', ''n2''] (w_fsm demo_world)) 0 [the (nodeRegistry demo_state ''n1'')])"
    by (simp add: eligible_def GetLiveNodes_def demo_world_def start_world_def demo_state_eq)
qed (simp_all add: demo_world_def start_world_def NewRepairScheduler_def maxReplicationFactor_def)

section \<open>Results and retries\<close>

text \<open>
  The retry delay is two to the number of attempts in seconds, capped at one
  minute: it never decreases with the attempts and always lies between one and sixty
  seconds.
\<close>

theorem retry_delay_bounded:
  "retryDelay a = min (2 ^ unat (min a 6)) 60 * Second \<and> Second \<le> retryDelay a \<and> retryDelay a \<le> 60 * Second \<and>
   (a \<le> b \<longrightarrow> retryDelay a \<le> retryDelay b)"
proof -
  have "retryDelay a \<le> retryDelay b" if "a \<le> b"
  proof -
    have "unat (min a 6) \<le> unat (min b 6)" using that by (intro word_le_nat_alt [THEN iffD1]) (auto simp: min_def)
    then have "(2::int) ^ unat (min a 6) \<le> 2 ^ unat (min b 6)" by (intro power_increasing) auto
    then show ?thesis unfolding retryDelay_eq by (intro mult_right_mono min.mono) (auto simp: Second_def)
  qed
  then show ?thesis using retryDelay_bounds [of a] retryDelay_eq [of a] by simp
qed

theorem retry_delay_bounded_witness: "retryDelay 3 \<le> retryDelay 5 \<and> retryDelay 3 = 8 * Second"
  using retry_delay_bounded [of 3 5] by simp

lemma leader_execute:
  assumes "repairJobRegistry (w_fsm w) jobID = Some job"
  shows "w_fsm (executeJob (raft_env (leader_raft ords) uuid now) w jobID) =
    (w_fsm w)\<lparr>repairJobRegistry := (repairJobRegistry (w_fsm w))(jobID \<mapsto>
      job\<lparr>rj_Status := RepairStatusInProgress, rj_UpdatedAt := now (w_tick w), rj_Error := '''', rj_Attempts := 0\<rparr>)\<rparr>"
  using assms by (simp add: executeJob_def GetRepairJob_def Let_def raft_env_def leader_simps handleCmdUpdateRepairJob_def)

text \<open>
  Executing a job resets its attempt counter, so the delay before a failed job is
  retried is always that of the first attempt, two seconds, however often the job has
  failed before.
\<close>

theorem backoff_never_grows:
  assumes "repairJobRegistry (w_fsm w) jobID = Some job"
    and "GetChunkLocations (w_fsm w) (rj_ChunkID job) = Inr live"
    and "int (length live) < rs_replicationFactor (w_sched w)"
  shows "w_timers (fst (OnJobComplete env (executeJob (raft_env (leader_raft ords) uuid now) w jobID) nodeid jobID False msg)) =
    w_timers w @ [(2 * Second, rj_ChunkID job)]"
proof -
  let ?w = "executeJob (raft_env (leader_raft ords) uuid now) w jobID"
  note fsm = leader_execute [OF assms(1), of ords uuid now]
  have rf: "rs_replicationFactor (forget_job rs nodeid jobID) = rs_replicationFactor rs" for rs
    by (simp add: forget_job_def Let_def split: option.split)
  have "rs_replicationFactor (w_sched ?w) = rs_replicationFactor (w_sched w)" "w_timers ?w = w_timers w"
    using assms(1) by (simp_all add: executeJob_def GetRepairJob_def Let_def)
  moreover have "GetChunkLocations (w_fsm ?w) (rj_ChunkID job) = Inr live"
    using assms(2) by (simp add: fsm GetChunkLocations_def GetChunk_def split: option.splits)
  moreover have "retryDelay 1 = 2 * Second" by (simp add: retryDelay_eq)
  ultimately show ?thesis
    using assms(3) by (simp add: OnJobComplete_def Let_def GetRepairJob_def fsm rf)
qed

definition failing_world :: world where
  "failing_world = demo_world\<lparr>w_fsm := demo_state\<lparr>repairJobRegistry := [''j'' \<mapsto>
     \<lparr>rj_JobID = ''j'', rj_ChunkID = ''c0'', rj_Error = ''disk full'', rj_DeleteSource = False, rj_SourceNodeID = ''n1'',
      rj_TargetNodeID = ''n2'', rj_Status = RepairStatusFailed, rj_Attempts = 5, rj_CreatedAt = 0, rj_UpdatedAt = 0\<rparr>]\<rparr>\<rparr>"

theorem backoff_never_grows_witness:
  "w_timers (fst (OnJobComplete demo_env (executeJob (raft_env (leader_raft (\<lambda>_. [])) (\<lambda>_. ''u'') (\<lambda>_. 0)) failing_world ''j'')
     ''n1'' ''j'' False ''disk full'')) = [(2 * Second, ''c0'')]"
proof -
  have job: "repairJobRegistry (w_fsm failing_world) ''j'' =
      Some \<lparr>rj_JobID = ''j'', rj_ChunkID = ''c0'', rj_Error = ''disk full'', rj_DeleteSource = False, rj_SourceNodeID = ''n1'',
      rj_TargetNodeID = ''n2'', rj_Status = RepairStatusFailed, rj_Attempts = 5, rj_CreatedAt = 0, rj_UpdatedAt = 0\<rparr>"
    by (simp add: failing_world_def)
  have locs: "GetChunkLocations (w_fsm failing_world) ''c0'' = Inr [the (nodeRegistry demo_state ''n1'')]"
    by (simp add: failing_world_def demo_state_eq GetChunkLocations_def GetChunk_def live_entries_def)
  show ?thesis
    using backoff_never_grows [OF job] locs
    by (simp add: failing_world_def demo_world_def start_world_def NewRepairScheduler_def maxReplicationFactor_def)
qed

text \<open>
  When a storage node reports that a copy job succeeded and the leader's proposal
  commits, the target node is in the replica set of the chunk, no other set changes,
  and the job is no longer pending for the reporting node.
\<close>

theorem completed_repair_adds_replica:
  assumes "world_inv w" "repairJobRegistry (w_fsm w) jobID = Some job" "\<not> rj_DeleteSource job"
    and "OnJobComplete (raft_env (leader_raft ords) uuid now) w nodeid jobID True msg = (w', err)"
  shows "directory_of (w_fsm w') = dir_add (rj_ChunkID job) (rj_TargetNodeID job) (directory_of (w_fsm w)) \<and>
    jobID \<notin> set (rs_GetPendingJobsForNode (w_sched w') nodeid) \<and>
    (err = None \<longleftrightarrow> chunkRegistry (w_fsm w) (rj_ChunkID job) \<noteq> None)"
proof -
  let ?w1 = "w\<lparr>w_sched := forget_job (w_sched w) nodeid jobID\<rparr>"
  have w': "w' = fst (proposeAddReplica (raft_env (leader_raft ords) uuid now) ?w1 (rj_ChunkID job) (rj_TargetNodeID job))"
    and err: "err = snd (proposeAddReplica (raft_env (leader_raft ords) uuid now) ?w1 (rj_ChunkID job) (rj_TargetNodeID job))"
    using assms(2-4) by (simp_all add: OnJobComplete_def Let_def GetRepairJob_def)
  have "directory_of (w_fsm w') = dir_add (rj_ChunkID job) (rj_TargetNodeID job) (directory_of (w_fsm w))"
    unfolding w' by (simp add: proposeAddReplica_def raft_env_def leader_simps add_directory)
  moreover have "w_sched w' = forget_job (w_sched w) nodeid jobID"
    unfolding w' by (simp add: proposeAddReplica_def)
  moreover have "jobID \<notin> set (rs_GetPendingJobsForNode (forget_job (w_sched w) nodeid jobID) nodeid)"
    using assms(1) by (auto simp: world_inv_def sched_inv_def forget_job_def rs_GetPendingJobsForNode_def Let_def
        removeJob_remove1 split: option.splits)
  moreover have "err = None \<longleftrightarrow> chunkRegistry (w_fsm w) (rj_ChunkID job) \<noteq> None"
    unfolding err by (simp add: proposeAddReplica_def raft_env_def leader_simps handleCmdAddChunkReplica_def GetChunk_def
        split: option.split)
  ultimately show ?thesis by simp
qed

lemma demo_scheduled:
  "repairJobRegistry (w_fsm (ScheduleRepairForChunk demo_env [''n1'', ''n2''] demo_world ''c0'')) ''job0'' =
     Some \<lparr>rj_JobID = ''job0'', rj_ChunkID = ''c0'', rj_Error = '''', rj_DeleteSource = False, rj_SourceNodeID = ''n1'',
       rj_TargetNodeID = ''n2'', rj_Status = RepairStatusPending, rj_Attempts = 0, rj_CreatedAt = 100, rj_UpdatedAt = 100\<rparr>"
  using demo_locations
  by (simp add: ScheduleRepairForChunk_def scheduleRepairJobs_def Let_def demo_env_def demo_world_def start_world_def
      NewRepairScheduler_def maxReplicationFactor_def raft_env_def leader_simps create_job_eq job_of_def
      LeastLoadedStrategy_def MostFreeSpaceStrategy_def mfs_SelectNodes_def filters_eligible eligible_def
      GetLiveNodes_def demo_state_eq insertionSort_def first_nodes_def GetChunk_def chunk_stub_def)

theorem completed_repair_adds_replica_witness:
  "directory_of (w_fsm (fst (OnJobComplete demo_env
     (ScheduleRepairForChunk demo_env [''n1'', ''n2''] demo_world ''c0'') ''n1'' ''job0'' True ''''))) ''c0'' =
     Some {''n1'', ''n2''}"
proof -
  let ?w = "ScheduleRepairForChunk demo_env [''n1'', ''n2''] demo_world ''c0''"
  let ?job = "\<lparr>rj_JobID = ''job0'', rj_ChunkID = ''c0'', rj_Error = '''', rj_DeleteSource = False, rj_SourceNodeID = ''n1'',
       rj_TargetNodeID = ''n2'', rj_Status = RepairStatusPending, rj_Attempts = 0, rj_CreatedAt = 100, rj_UpdatedAt = 100\<rparr>"
  have inv: "world_inv ?w"
    unfolding demo_env_def by (rule leader_repair.ScheduleRepairForChunk_inv [OF demo_world_inv])
  obtain w' err where r: "OnJobComplete demo_env ?w ''n1'' ''job0'' True '''' = (w', err)" by fastforce
  have "OnJobComplete (raft_env (leader_raft (\<lambda>_. [''n1'', ''n2''])) (\<lambda>i. if i = 0 then ''job0'' else ''job1'')
      (\<lambda>i. 100 + int i)) ?w ''n1'' ''job0'' True '''' = (w', err)"
    using r by (simp only: demo_env_def)
  from completed_repair_adds_replica [OF inv demo_scheduled _ this]
  have "directory_of (w_fsm w') = dir_add (rj_ChunkID ?job) (rj_TargetNodeID ?job) (directory_of (w_fsm ?w))"
    by simp
  moreover have "chunkRegistry (w_fsm ?w) = chunkRegistry demo_state"
    using adds_jobs_frame(1) [OF scheduleRepairJobs_jobs [OF leader_repair.repair_world_axioms reachable_fsm_inv]] demo_world_inv
    by (simp add: ScheduleRepairForChunk_def demo_locations Let_def world_inv_def demo_env_def)
      (simp add: demo_world_def start_world_def NewRepairScheduler_def maxReplicationFactor_def)
  ultimately show ?thesis using r by (auto simp: dir_add_def directory_of_def demo_state_eq)
qed

end
