(* ===== verification/Node_Watcher.thy ===== *)
theory Node_Watcher
  imports Repair_Scheduler
begin

text \<open>
  The dead-node detector, \<open>metadata/watcher/node_watcher.go\<close>. A sweep runs on the
  leader at every tick of the watcher's interval. What it needs from the repair
  scheduler is the locale \<open>repair_triggerer\<close>: a triggered repair keeps the world's
  invariant and does not change the node registry.
\<close>

record NodeWatcher =
  nw_suspectTimeout :: duration
  nw_interval       :: duration
  nw_stopped        :: bool

definition NewNodeWatcher :: "duration \<Rightarrow> duration \<Rightarrow> NodeWatcher" where
  "NewNodeWatcher suspectTimeout interval =
     \<lparr>nw_suspectTimeout = suspectTimeout, nw_interval = interval, nw_stopped = False\<rparr>"

text \<open>\<open>Stop\<close> closes the channel once; a second call finds it closed.\<close>

definition nw_Stop :: "NodeWatcher \<Rightarrow> NodeWatcher" where
  "nw_Stop nw = (if nw_stopped nw then nw else nw\<lparr>nw_stopped := True\<rparr>)"

definition buildMarkDeadCmd :: "string \<Rightarrow> gotime \<Rightarrow> MetadataCommand" where
  "buildMarkDeadCmd nodeID now =
     \<lparr>mc_Type = CmdMarkNodeDead, mc_Payload = enc_CommandMarkNodeDead \<lparr>cmd_NodeID = nodeID, cmd_UpdatedAt = now\<rparr>\<rparr>"

text \<open>
  The loop of \<open>sweep\<close> over the copies of the node entries taken at its start;
  \<open>repair\<close> is \<open>None\<close> when the watcher has no repair scheduler.
\<close>

fun sweep_nodes :: "repair_env \<Rightarrow> (world \<Rightarrow> string \<Rightarrow> world) option \<Rightarrow> duration \<Rightarrow> gotime \<Rightarrow>
    world \<Rightarrow> NodeEntry list \<Rightarrow> world" where
  "sweep_nodes env repair timeout now w [] = w"
| "sweep_nodes env repair timeout now w (node # nodes) =
     (if ne_Status node \<noteq> NodeStatusAlive then sweep_nodes env repair timeout now w nodes
      else
        (let elapsed = time_Sub now (ne_LastSeen node) in
         if elapsed \<le> timeout then sweep_nodes env repair timeout now w nodes
         else
           (case propose_in env w (buildMarkDeadCmd (ne_NodeID node) now) of
              (w1, Some _) \<Rightarrow> sweep_nodes env repair timeout now w1 nodes
            | (w1, None) \<Rightarrow>
                (case repair of
                   None \<Rightarrow> sweep_nodes env repair timeout now w1 nodes
                 | Some trigger \<Rightarrow>
                     sweep_nodes env repair timeout now (trigger w1 (ne_NodeID node)) nodes))))"

definition sweep :: "repair_env \<Rightarrow> bool \<Rightarrow> (world \<Rightarrow> string \<Rightarrow> world) option \<Rightarrow> NodeWatcher \<Rightarrow>
    string list \<Rightarrow> gotime \<Rightarrow> world \<Rightarrow> world" where
  "sweep env isLeader repair nw ord now w =
     (if \<not> isLeader then w
      else sweep_nodes env repair (nw_suspectTimeout nw) now w (GetAllNodes ord (w_fsm w)))"

text \<open>One turn of the loop in \<open>Start\<close>: nothing is swept once the watcher is stopped.\<close>

definition watcher_tick :: "repair_env \<Rightarrow> bool \<Rightarrow> (world \<Rightarrow> string \<Rightarrow> world) option \<Rightarrow> NodeWatcher \<Rightarrow>
    string list \<Rightarrow> gotime \<Rightarrow> world \<Rightarrow> world" where
  "watcher_tick env isLeader repair nw ord now w =
     (if nw_stopped nw then w else sweep env isLeader repair nw ord now w)"

definition nw_UpdateLastSeen :: "world \<Rightarrow> string \<Rightarrow> gotime \<Rightarrow> world \<times> goerror option" where
  "nw_UpdateLastSeen w nodeID seenAt =
     (case UpdateLastSeen (w_fsm w) nodeID seenAt of (s, err) \<Rightarrow> (w\<lparr>w_fsm := s\<rparr>, err))"

section \<open>The repair interface\<close>

locale repair_triggerer =
  fixes trigger :: "world \<Rightarrow> string \<Rightarrow> world"
  assumes trigger_inv: "world_inv w \<Longrightarrow> world_inv (trigger w n)"
    and trigger_nodes: "world_inv w \<Longrightarrow> nodeRegistry (w_fsm (trigger w n)) = nodeRegistry (w_fsm w)"

lemma evict_nodes: "nodeRegistry (fst (handleCmdEvictChunkFromNode s req)) = nodeRegistry s"
  by (simp add: evict_eq set_chunk_def split: option.split)

lemma trigger_chunk_nodes:
  assumes "world_inv w"
  shows "nodeRegistry (w_fsm (trigger_chunk (raft_env (leader_raft ords0) uuid now) ords dead w c)) = nodeRegistry (w_fsm w)"
proof -
  let ?env = "raft_env (leader_raft ords0) uuid now"
  let ?w1 = "fst (proposeEvictChunk ?env w c dead ''node marked dead'')"
  have inv: "fsm_inv (w_fsm w)" "sched_inv (w_sched w)"
    using assms reachable_fsm_inv by (simp_all add: world_inv_def)
  have evicted: "nodeRegistry (w_fsm ?w1) = nodeRegistry (w_fsm w)"
    unfolding leader_evict evict_nodes ..
  have "fsm_inv (w_fsm ?w1)" unfolding leader_evict by (rule evict_chunk.keeps_inv [OF inv(1)])
  then have "nodeRegistry (w_fsm (scheduleRepairJobs ?env ord ?w1 c live d)) = nodeRegistry (w_fsm ?w1)"
    if "0 < d" for ord live d
    using adds_jobs_frame(2) [OF scheduleRepairJobs_jobs [OF leader_repair.repair_world_axioms _ _ that]] inv(2) by simp
  with evicted show ?thesis by (simp add: trigger_chunk_def Let_def split: sum.split)
qed

lemma trigger_repair_nodes:
  assumes "world_inv w"
  shows "nodeRegistry (w_fsm (TriggerRepair (raft_env (leader_raft ords0) uuid now) ord ords w dead)) = nodeRegistry (w_fsm w)"
proof -
  have "world_inv v \<Longrightarrow>
      nodeRegistry (w_fsm (trigger_chunks (raft_env (leader_raft ords0) uuid now) ords dead v cs)) = nodeRegistry (w_fsm v)" for v cs
    by (induction cs arbitrary: v) (simp_all add: trigger_chunk_nodes leader_repair.trigger_chunk_inv)
  with assms show ?thesis by (simp add: TriggerRepair_def)
qed

interpretation leader_trigger: repair_triggerer
  "\<lambda>w n. TriggerRepair (raft_env (leader_raft ords0) uuid now) (ord n) (ords n) w n" for ords0 uuid now ord ords
  by unfold_locales (simp_all add: leader_repair.TriggerRepair_inv trigger_repair_nodes)

section \<open>What a sweep does\<close>

definition stale :: "duration \<Rightarrow> gotime \<Rightarrow> NodeEntry \<Rightarrow> bool" where
  "stale timeout now n \<longleftrightarrow> ne_Status n = NodeStatusAlive \<and> timeout < time_Sub now (ne_LastSeen n)"

definition bury :: "duration \<Rightarrow> gotime \<Rightarrow> NodeEntry \<Rightarrow> NodeEntry" where
  "bury timeout now n = (if stale timeout now n then touch_node (n\<lparr>ne_Status := NodeStatusDead\<rparr>) now else n)"

lemma leader_mark_dead:
  assumes "nodeRegistry (w_fsm w) k = Some n"
  shows "propose_in (raft_env (leader_raft ords) uuid nw) w (buildMarkDeadCmd k now) =
    (w\<lparr>w_fsm := set_node (w_fsm w) k (touch_node (n\<lparr>ne_Status := NodeStatusDead\<rparr>) now), w_tick := Suc (w_tick w)\<rparr>, None)"
  using assms by (simp add: propose_in_def raft_env_def buildMarkDeadCmd_def leader_simps handleCmdMarkNodeDead_def GetNode_def)

lemma range_values_upd: "k \<notin> set ks \<Longrightarrow> range_values ks (m(k \<mapsto> v)) = range_values ks m"
  by (induction ks) (auto split: option.split)

context repair_triggerer
begin

text \<open>
  Sweeping the entries of the keys \<open>ks\<close>, each of which is still registered as it was
  copied, buries exactly the stale ones among them.
\<close>

lemma sweep_nodes_registry:
  assumes "world_inv w" "distinct ks"
    and "\<And>k. k \<in> set ks \<Longrightarrow> \<exists>n. nodeRegistry (w_fsm w) k = Some n"
  shows "world_inv (sweep_nodes (raft_env (leader_raft ords) uuid nw) (Some trigger) timeout now w
      (range_values ks (nodeRegistry (w_fsm w)))) \<and>
    nodeRegistry (w_fsm (sweep_nodes (raft_env (leader_raft ords) uuid nw) (Some trigger) timeout now w
      (range_values ks (nodeRegistry (w_fsm w))))) =
    (\<lambda>k. if k \<in> set ks then map_option (bury timeout now) (nodeRegistry (w_fsm w) k) else nodeRegistry (w_fsm w) k)"
  using assms
proof (induction ks arbitrary: w)
  case Nil
  then show ?case by simp
next
  case (Cons k ks)
  let ?env = "raft_env (leader_raft ords) uuid nw"
  obtain n where n: "nodeRegistry (w_fsm w) k = Some n" using Cons.prems(3) by auto
  have inv: "fsm_inv (w_fsm w)" using Cons.prems(1) reachable_fsm_inv by (simp add: world_inv_def)
  have id: "ne_NodeID n = k" using fsm_inv_node [OF inv n] by simp
  show ?case
  proof (cases "stale timeout now n")
    case False
    then have "sweep_nodes ?env (Some trigger) timeout now w (range_values (k # ks) (nodeRegistry (w_fsm w))) =
        sweep_nodes ?env (Some trigger) timeout now w (range_values ks (nodeRegistry (w_fsm w)))"
      by (simp add: n stale_def Let_def not_less)
    with Cons.IH [OF Cons.prems(1)] Cons.prems(2,3) False n show ?thesis
      by (auto simp: bury_def fun_eq_iff)
  next
    case True
    let ?n = "touch_node (n\<lparr>ne_Status := NodeStatusDead\<rparr>) now"
    let ?w1 = "w\<lparr>w_fsm := set_node (w_fsm w) k ?n, w_tick := Suc (w_tick w)\<rparr>"
    note dead = leader_mark_dead [OF n, of ords uuid nw now]
    have w1: "world_inv ?w1"
      using leader_repair.propose_in_inv [OF Cons.prems(1), of ords uuid nw "buildMarkDeadCmd k now"] unfolding dead by simp
    define v where "v = trigger ?w1 k"
    have v: "world_inv v" unfolding v_def using w1 by (rule trigger_inv)
    have reg: "nodeRegistry (w_fsm v) = (nodeRegistry (w_fsm w))(k \<mapsto> ?n)"
      unfolding v_def using trigger_nodes [OF w1] by (simp add: set_node_def)
    have same: "range_values ks (nodeRegistry (w_fsm w)) = range_values ks (nodeRegistry (w_fsm v))"
      unfolding reg using Cons.prems(2) by (simp add: range_values_upd)
    have step: "sweep_nodes ?env (Some trigger) timeout now w (range_values (k # ks) (nodeRegistry (w_fsm w))) =
        sweep_nodes ?env (Some trigger) timeout now v (range_values ks (nodeRegistry (w_fsm v)))"
      unfolding same [symmetric] unfolding v_def using True by (simp add: n stale_def Let_def id dead)
    have "\<exists>m. nodeRegistry (w_fsm v) j = Some m" if "j \<in> set ks" for j
      using Cons.prems(2,3) that by (auto simp: reg)
    note ih = Cons.IH [OF v _ this]
    define r where "r = sweep_nodes ?env (Some trigger) timeout now v (range_values ks (nodeRegistry (w_fsm v)))"
    have inv_r: "world_inv r" and res: "nodeRegistry (w_fsm r) = (\<lambda>j. if j \<in> set ks
        then map_option (bury timeout now) (nodeRegistry (w_fsm v) j) else nodeRegistry (w_fsm v) j)"
      unfolding r_def using ih Cons.prems(2) by auto
    show ?thesis unfolding step unfolding r_def [symmetric] unfolding res reg
      using inv_r Cons.prems(2) True n by (auto simp: bury_def fun_eq_iff)
  qed
qed

end

section \<open>Properties\<close>

lemma sweep_registry:
  assumes "world_inv w" "range_order ord (nodeRegistry (w_fsm w))"
  shows "world_inv (sweep (raft_env (leader_raft ords0) uuid tnow) True
      (Some (\<lambda>w n. TriggerRepair (raft_env (leader_raft ords0) uuid tnow) (cord n) (cords n) w n)) nw ord now w)"
    and "nodeRegistry (w_fsm (sweep (raft_env (leader_raft ords0) uuid tnow) True
      (Some (\<lambda>w n. TriggerRepair (raft_env (leader_raft ords0) uuid tnow) (cord n) (cords n) w n)) nw ord now w)) =
      (\<lambda>k. map_option (bury (nw_suspectTimeout nw) now) (nodeRegistry (w_fsm w) k))"
proof -
  have keys: "distinct ord" "k \<in> set ord \<longleftrightarrow> nodeRegistry (w_fsm w) k \<noteq> None" for k
    using assms(2) by (auto simp: range_order_def)
  note sw = leader_trigger.sweep_nodes_registry [OF assms(1) keys(1), of ords0 uuid tnow ords0 uuid tnow cord cords
      "nw_suspectTimeout nw" now]
  have known: "\<And>k. k \<in> set ord \<Longrightarrow> \<exists>n. nodeRegistry (w_fsm w) k = Some n" using keys(2) by auto
  show "world_inv (sweep (raft_env (leader_raft ords0) uuid tnow) True
      (Some (\<lambda>w n. TriggerRepair (raft_env (leader_raft ords0) uuid tnow) (cord n) (cords n) w n)) nw ord now w)"
    using sw [OF known] by (simp add: sweep_def GetAllNodes_def)
  show "nodeRegistry (w_fsm (sweep (raft_env (leader_raft ords0) uuid tnow) True
      (Some (\<lambda>w n. TriggerRepair (raft_env (leader_raft ords0) uuid tnow) (cord n) (cords n) w n)) nw ord now w)) =
      (\<lambda>k. map_option (bury (nw_suspectTimeout nw) now) (nodeRegistry (w_fsm w) k))"
    using sw [OF known] by (auto simp: sweep_def GetAllNodes_def fun_eq_iff keys(2))
qed

text \<open>
  C19: A sweep on a committing leader marks dead exactly the alive nodes whose last
  heartbeat is older than the suspect timeout, whatever the iteration order, although
  repair runs in between; every other node keeps its entry unchanged.
\<close>

theorem sweep_marks_exactly_stale_nodes:
  assumes "world_inv w" "range_order ord (nodeRegistry (w_fsm w))"
  shows "nodeRegistry (w_fsm (sweep (raft_env (leader_raft ords0) uuid tnow) True
      (Some (\<lambda>w n. TriggerRepair (raft_env (leader_raft ords0) uuid tnow) (cord n) (cords n) w n)) nw ord now w)) =
    (\<lambda>k. map_option (bury (nw_suspectTimeout nw) now) (nodeRegistry (w_fsm w) k))"
  by (rule sweep_registry(2) [OF assms])

theorem sweep_marks_exactly_stale_nodes_witness:
  "map_option ne_Status (nodeRegistry (w_fsm (sweep (raft_env (leader_raft (\<lambda>_. [])) (\<lambda>_. ''j'') (\<lambda>_. 0)) True
      (Some (\<lambda>w n. TriggerRepair (raft_env (leader_raft (\<lambda>_. [])) (\<lambda>_. ''j'') (\<lambda>_. 0)) [''c0'', ''c1''] (\<lambda>_. [''n1'', ''n2'']) w n))
      \<lparr>nw_suspectTimeout = 10, nw_interval = 5, nw_stopped = False\<rparr> [''n2'', ''n1''] 16 demo_world)) ''n1'') = Some NodeStatusDead \<and>
   map_option ne_Status (nodeRegistry (w_fsm (sweep (raft_env (leader_raft (\<lambda>_. [])) (\<lambda>_. ''j'') (\<lambda>_. 0)) True
      (Some (\<lambda>w n. TriggerRepair (raft_env (leader_raft (\<lambda>_. [])) (\<lambda>_. ''j'') (\<lambda>_. 0)) [''c0'', ''c1''] (\<lambda>_. [''n1'', ''n2'']) w n))
      \<lparr>nw_suspectTimeout = 10, nw_interval = 5, nw_stopped = False\<rparr> [''n2'', ''n1''] 16 demo_world)) ''n2'') = Some NodeStatusAlive"
proof -
  have "range_order [''n2'', ''n1''] (nodeRegistry (w_fsm demo_world))"
    by (auto simp: range_order_def demo_world_def start_world_def demo_state_eq)
  from sweep_marks_exactly_stale_nodes [OF demo_world_inv this, where cord = "\<lambda>_. [''c0'', ''c1'']" and cords = "\<lambda>_ _. [''n1'', ''n2'']"]
  show ?thesis
    by (simp add: demo_world_def start_world_def demo_state_eq bury_def stale_def time_Sub_def minDuration_def maxDuration_def)
qed

text \<open>
  A follower's watcher, and a watcher that was stopped, never change anything.
\<close>

theorem idle_watcher_changes_nothing:
  "sweep env False repair nw ord now w = w \<and>
   watcher_tick env isLeader repair (nw_Stop nw) ord now w = w \<and> nw_Stop (nw_Stop nw) = nw_Stop nw"
  by (simp add: sweep_def watcher_tick_def nw_Stop_def)

lemma reachable_forget_seen:
  assumes "reachable s" "chunk_counts_fit s" "orders_of ro s"
  shows "reachable (forget_seen s)"
proof -
  have p: "Persist good_sink ro (Snapshot s) = (SinkFinished (enc_MetadataFSMSnapshot ro (Snapshot s)), None)"
    by (simp add: Persist_def good_sink_def)
  have "reachable (fst (Restore s (Inr (Some (enc_MetadataFSMSnapshot ro (Snapshot s))))))"
    by (rule reachable.installed [OF assms(1) assms(1) assms(3) _ p])
      (rule ints_ok_counts [OF reachable_fsm_inv [OF assms(1)] assms(2)])
  then show ?thesis by (simp add: Restore_persisted [OF assms p])
qed

text \<open>
  Heartbeat timestamps are not part of a snapshot, so the first sweep of a leader
  that restored its state marks every alive node dead, however recently the node sent
  a heartbeat to the previous leader.
\<close>

theorem restored_leader_buries_all_nodes:
  assumes "world_inv w" "w_fsm w = forget_seen s" "range_order ord (nodeRegistry (w_fsm w))"
    and "nw_suspectTimeout nw < maxDuration" "zero_time + nw_suspectTimeout nw < now"
    and "nodeRegistry (w_fsm (sweep (raft_env (leader_raft ords0) uuid tnow) True
      (Some (\<lambda>w n. TriggerRepair (raft_env (leader_raft ords0) uuid tnow) (cord n) (cords n) w n)) nw ord now w)) k = Some n"
  shows "ne_Status n \<noteq> NodeStatusAlive"
proof -
  have "nw_suspectTimeout nw < time_Sub now zero_time"
    using assms(4,5) by (intro time_Sub_gt) simp_all
  moreover from assms(6) obtain m where "nodeRegistry (w_fsm w) k = Some m" "n = bury (nw_suspectTimeout nw) now m"
    unfolding sweep_registry(2) [OF assms(1,3)] by auto
  moreover from this assms(2) have "ne_LastSeen m = zero_time" by auto
  ultimately show ?thesis by (auto simp: bury_def stale_def)
qed

lemma demo_restored_inv: "world_inv (demo_world\<lparr>w_fsm := forget_seen demo_state\<rparr>)"
  using demo_world_inv reachable_forget_seen [OF demo_reachable demo_snapshot_ready(1,2)]
  by (simp add: world_inv_def)

theorem restored_leader_buries_all_nodes_witness:
  "ne_Status (the (nodeRegistry (w_fsm (sweep (raft_env (leader_raft (\<lambda>_. [])) (\<lambda>_. ''j'') (\<lambda>_. 0)) True
      (Some (\<lambda>w n. TriggerRepair (raft_env (leader_raft (\<lambda>_. [])) (\<lambda>_. ''j'') (\<lambda>_. 0)) [''c0'', ''c1''] (\<lambda>_. [''n1'', ''n2'']) w n))
      \<lparr>nw_suspectTimeout = 10, nw_interval = 5, nw_stopped = False\<rparr> [''n2'', ''n1''] 16
      (demo_world\<lparr>w_fsm := forget_seen demo_state\<rparr>))) ''n2'')) \<noteq> NodeStatusAlive"
proof -
  let ?w = "demo_world\<lparr>w_fsm := forget_seen demo_state\<rparr>"
  have ord: "range_order [''n2'', ''n1''] (nodeRegistry (w_fsm ?w))"
    by (auto simp: range_order_def demo_state_eq dom_def split: if_splits)
  let ?nw = "\<lparr>nw_suspectTimeout = 10, nw_interval = 5, nw_stopped = False\<rparr>"
  show ?thesis
  proof (rule restored_leader_buries_all_nodes [OF demo_restored_inv _ ord, of demo_state ?nw 16 "\<lambda>_. []" "\<lambda>_. ''j''" "\<lambda>_. 0"
        "\<lambda>_. [''c0'', ''c1'']" "\<lambda>_ _. [''n1'', ''n2'']" "''n2''"])
    show "nodeRegistry (w_fsm (sweep (raft_env (leader_raft (\<lambda>_. [])) (\<lambda>_. ''j'') (\<lambda>_. 0)) True
      (Some (\<lambda>w n. TriggerRepair (raft_env (leader_raft (\<lambda>_. [])) (\<lambda>_. ''j'') (\<lambda>_. 0)) [''c0'', ''c1''] (\<lambda>_. [''n1'', ''n2'']) w n))
      ?nw [''n2'', ''n1''] 16 ?w)) ''n2'' = Some (the (nodeRegistry (w_fsm (sweep (raft_env (leader_raft (\<lambda>_. [])) (\<lambda>_. ''j'') (\<lambda>_. 0)) True
      (Some (\<lambda>w n. TriggerRepair (raft_env (leader_raft (\<lambda>_. [])) (\<lambda>_. ''j'') (\<lambda>_. 0)) [''c0'', ''c1''] (\<lambda>_. [''n1'', ''n2'']) w n))
      ?nw [''n2'', ''n1''] 16 ?w)) ''n2''))"
      using sweep_registry(2) [OF demo_restored_inv ord, of "\<lambda>_. []" "\<lambda>_. ''j''" "\<lambda>_. 0" "\<lambda>_. [''c0'', ''c1'']" "\<lambda>_ _. [''n1'', ''n2'']" ?nw 16]
      by (simp add: demo_state_eq)
  qed (simp_all add: maxDuration_def zero_time_def)
qed

end
