(* ===== verification/Reconcile.thy ===== *)
theory Reconcile
  imports Node_Watcher
begin

text \<open>
  Reconciliation of a storage node's inventory with the metadata state,
  \<open>metadata/reconcile/reconciler.go\<close>. A registration arms a timer that carries the
  inventory reported at that moment; when it fires, stale replicas are deleted on the
  node and missing ones evicted from the metadata. The delete RPC is recorded, not
  executed: its outcome is only logged. What reconciliation needs from the repair
  scheduler is the locale \<open>chunk_repairer\<close>.
\<close>

section \<open>Timers\<close>

text \<open>
  Every call of \<open>time.AfterFunc\<close> makes a new timer: \<open>rc_armed\<close> holds the armed ones
  with what their callback captured, \<open>rc_timers\<close> is the map of the source.
\<close>

record Reconciler =
  rc_reconcileDelay    :: duration
  rc_replicationFactor :: int
  rc_timers            :: "nat gomap"
  rc_armed             :: "(nat \<times> string \<times> string list) list"
  rc_next              :: nat

definition NewReconciler :: "duration \<Rightarrow> int \<Rightarrow> Reconciler result" where
  "NewReconciler delay rf =
     (if rf \<le> 0 then Inl (NewError ''NewReconciler: replication factor invalid'')
      else Inr \<lparr>rc_reconcileDelay = delay, rc_replicationFactor = rf, rc_timers = Map.empty,
                rc_armed = [], rc_next = 0\<rparr>)"

definition stop_timer :: "Reconciler \<Rightarrow> nat \<Rightarrow> Reconciler" where
  "stop_timer r tid = r\<lparr>rc_armed := filter (\<lambda>t. fst t \<noteq> tid) (rc_armed r)\<rparr>"

definition Schedule :: "Reconciler \<Rightarrow> string \<Rightarrow> string list \<Rightarrow> Reconciler" where
  "Schedule r nodeID reportedChunks =
     (let r1 = (case rc_timers r nodeID of None \<Rightarrow> r | Some old \<Rightarrow> stop_timer r old);
          tid = rc_next r1
      in r1\<lparr>rc_timers := (rc_timers r1)(nodeID \<mapsto> tid),
            rc_armed := rc_armed r1 @ [(tid, nodeID, reportedChunks)], rc_next := tid + 1\<rparr>)"

definition Cancel :: "Reconciler \<Rightarrow> string \<Rightarrow> Reconciler" where
  "Cancel r nodeID =
     (case rc_timers r nodeID of
        None \<Rightarrow> r
      | Some old \<Rightarrow> (stop_timer r old)\<lparr>rc_timers := (rc_timers r)(nodeID := None)\<rparr>)"

text \<open>
  A timer that fires is no longer armed while its callback reconciles the node; at
  the end the callback deletes the node's entry from the map.
\<close>

definition fire_begin :: "Reconciler \<Rightarrow> nat \<Rightarrow> Reconciler" where
  "fire_begin r tid = stop_timer r tid"

definition fire_end :: "Reconciler \<Rightarrow> string \<Rightarrow> Reconciler" where
  "fire_end r nodeID = r\<lparr>rc_timers := (rc_timers r)(nodeID := None)\<rparr>"

section \<open>Reconciling a node\<close>

definition rc_proposeEvictChunk ::
    "repair_env \<Rightarrow> world \<Rightarrow> string \<Rightarrow> string \<Rightarrow> string \<Rightarrow> world \<times> goerror option" where
  "rc_proposeEvictChunk env w chunkID nodeID reason =
     propose_in env w \<lparr>mc_Type = CmdEvictChunkFromNode, mc_Payload = enc_CommandEvictChunkFromNode
       \<lparr>cev_ChunkID = chunkID, cev_NodeID = nodeID, cev_EvictedAt = re_now env (w_tick w),
        cev_Reason = reason\<rparr>\<rparr>"

type_synonym delete_rpcs = "(string \<times> string) list"

definition evictStaleReplica ::
    "repair_env \<Rightarrow> string \<Rightarrow> string \<Rightarrow> world \<times> delete_rpcs \<Rightarrow> string \<Rightarrow> world \<times> delete_rpcs" where
  "evictStaleReplica env nodeID nodeAddr st chunkID =
     (case st of (w, rpcs) \<Rightarrow>
        (fst (rc_proposeEvictChunk env w chunkID nodeID ''stale replica during reconciliation''),
         rpcs @ [(nodeAddr, chunkID)]))"

definition handleMissingReplica ::
    "repair_env \<Rightarrow> (world \<Rightarrow> string \<Rightarrow> world) \<Rightarrow> int \<Rightarrow> string \<Rightarrow> world \<Rightarrow> string \<Rightarrow> world" where
  "handleMissingReplica env repairs rf nodeID w chunkID =
     (case rc_proposeEvictChunk env w chunkID nodeID ''missing replica during reconciliation'' of
        (w1, Some _) \<Rightarrow> w1
      | (w1, None) \<Rightarrow>
          (case GetChunkLocations (w_fsm w1) chunkID of
             Inl _ \<Rightarrow> w1
           | Inr liveReplicas \<Rightarrow>
               (let currentLiveCount = int (length liveReplicas);
                    stillListed = list_ex (\<lambda>n. ne_NodeID n = nodeID) liveReplicas;
                    expectedLiveCount = (if stillListed then currentLiveCount - 1 else currentLiveCount)
                in if expectedLiveCount < rf then repairs w1 chunkID else w1)))"

fun stale_loop :: "repair_env \<Rightarrow> string \<Rightarrow> string \<Rightarrow> string set \<Rightarrow> world \<times> delete_rpcs \<Rightarrow> string list \<Rightarrow>
    world \<times> delete_rpcs" where
  "stale_loop env nodeID addr expectedSet st [] = st"
| "stale_loop env nodeID addr expectedSet st (cid # cids) =
     (if cid \<in> expectedSet then stale_loop env nodeID addr expectedSet st cids
      else stale_loop env nodeID addr expectedSet (evictStaleReplica env nodeID addr st cid) cids)"

fun missing_loop :: "repair_env \<Rightarrow> (world \<Rightarrow> string \<Rightarrow> world) \<Rightarrow> int \<Rightarrow> string \<Rightarrow> string set \<Rightarrow> world \<Rightarrow>
    string list \<Rightarrow> world" where
  "missing_loop env repairs rf nodeID reportedSet w [] = w"
| "missing_loop env repairs rf nodeID reportedSet w (cid # cids) =
     (if cid \<in> reportedSet then missing_loop env repairs rf nodeID reportedSet w cids
      else missing_loop env repairs rf nodeID reportedSet (handleMissingReplica env repairs rf nodeID w cid) cids)"

definition ReconcileNode :: "repair_env \<Rightarrow> (world \<Rightarrow> string \<Rightarrow> world) \<Rightarrow> int \<Rightarrow> string list \<Rightarrow> world \<Rightarrow>
    string \<Rightarrow> string list \<Rightarrow> world \<times> delete_rpcs" where
  "ReconcileNode env repairs rf ord w nodeID reportedChunks =
     (case GetNode (w_fsm w) nodeID of
        Inl _ \<Rightarrow> (w, [])
      | Inr node \<Rightarrow>
          (let expectedChunks = GetChunksByNode ord (w_fsm w) nodeID;
               (w1, rpcs) = stale_loop env nodeID (ne_Address node) (set expectedChunks) (w, []) reportedChunks
           in (missing_loop env repairs rf nodeID (set reportedChunks) w1 expectedChunks, rpcs)))"

section \<open>The repair interface\<close>

locale chunk_repairer =
  fixes repairs :: "world \<Rightarrow> string \<Rightarrow> world"
  assumes repairs_inv: "world_inv w \<Longrightarrow> world_inv (repairs w c)"
    and repairs_chunks: "world_inv w \<Longrightarrow> chunkRegistry (w_fsm (repairs w c)) = chunkRegistry (w_fsm w)"
    and repairs_nodes: "world_inv w \<Longrightarrow> nodeRegistry (w_fsm (repairs w c)) = nodeRegistry (w_fsm w)"

lemma schedule_frame:
  assumes "repair_world env" "world_inv w"
  shows "\<exists>P. adds_jobs P (w_fsm w) (w_fsm (ScheduleRepairForChunk env ord w c))"
proof (cases "GetChunkLocations (w_fsm w) c")
  case (Inl e)
  then have "ScheduleRepairForChunk env ord w c = w" by (simp add: ScheduleRepairForChunk_def)
  then show ?thesis by (intro exI [of _ "\<lambda>_. True"]) simp
next
  case (Inr live)
  let ?d = "rs_replicationFactor (w_sched w) - int (length live)"
  have "0 < ?d \<Longrightarrow> adds_jobs (repair_job_ok (w_fsm w) c live) (w_fsm w) (w_fsm (scheduleRepairJobs env ord w c live ?d))"
    using assms reachable_fsm_inv by (intro scheduleRepairJobs_jobs) (simp_all add: world_inv_def)
  then show ?thesis
    using Inr by (intro exI [of _ "repair_job_ok (w_fsm w) c live"]) (simp add: ScheduleRepairForChunk_def Let_def)
qed

interpretation schedule_repairer: chunk_repairer
  "\<lambda>w c. ScheduleRepairForChunk (raft_env (leader_raft ords0) uuid now) (ords c) w c" for ords0 uuid now ords
proof
  fix w c
  assume w: "world_inv w"
  show "world_inv (ScheduleRepairForChunk (raft_env (leader_raft ords0) uuid now) (ords c) w c)"
    by (rule leader_repair.ScheduleRepairForChunk_inv [OF w])
  from schedule_frame [OF leader_repair.repair_world_axioms w] obtain P
    where "adds_jobs P (w_fsm w) (w_fsm (ScheduleRepairForChunk (raft_env (leader_raft ords0) uuid now) (ords c) w c))"
    by blast
  from adds_jobs_frame [OF this]
  show "chunkRegistry (w_fsm (ScheduleRepairForChunk (raft_env (leader_raft ords0) uuid now) (ords c) w c)) = chunkRegistry (w_fsm w)"
    and "nodeRegistry (w_fsm (ScheduleRepairForChunk (raft_env (leader_raft ords0) uuid now) (ords c) w c)) = nodeRegistry (w_fsm w)"
    by simp_all
qed

section \<open>What reconciliation does\<close>

lemma rc_propose_eq: "rc_proposeEvictChunk = proposeEvictChunk"
  by (simp add: fun_eq_iff rc_proposeEvictChunk_def proposeEvictChunk_def)

lemma leader_evict_absent:
  assumes "\<And>ck. chunkRegistry (w_fsm w) c = Some ck \<Longrightarrow> n \<notin> set (cr_Replicas ck)"
  shows "w_fsm (fst (proposeEvictChunk (raft_env (leader_raft ords) uuid now) w c n reason)) = w_fsm w"
  unfolding leader_evict using assms by (simp add: evict_eq split: option.split)

lemma stale_loop_result:
  assumes "\<And>c ck. c \<notin> expected \<Longrightarrow> chunkRegistry (w_fsm w) c = Some ck \<Longrightarrow> n \<notin> set (cr_Replicas ck)"
  shows "\<exists>t. stale_loop (raft_env (leader_raft ords) uuid now) n addr expected (w, rpcs) cids =
    (w\<lparr>w_tick := t\<rparr>, rpcs @ map (Pair addr) (filter (\<lambda>c. c \<notin> expected) cids))"
  using assms
proof (induction cids arbitrary: w rpcs)
  case Nil
  have "(w, rpcs) = (w\<lparr>w_tick := w_tick w\<rparr>, rpcs)" by simp
  then show ?case by (metis append_Nil2 filter.simps(1) list.map_disc_iff stale_loop.simps(1))
next
  case (Cons c cids)
  let ?env = "raft_env (leader_raft ords) uuid now"
  show ?case
  proof (cases "c \<in> expected")
    case True
    with Cons show ?thesis by simp
  next
    case False
    let ?w = "fst (proposeEvictChunk ?env w c n ''stale replica during reconciliation'')"
    have fsm: "w_fsm ?w = w_fsm w" using Cons.prems False by (intro leader_evict_absent)
    then have w: "?w = w\<lparr>w_tick := w_tick w + 1\<rparr>"
      by (intro world.equality) (simp_all add: proposeEvictChunk_def)
    have "\<exists>t. stale_loop ?env n addr expected (?w, rpcs @ [(addr, c)]) cids =
        (?w\<lparr>w_tick := t\<rparr>, (rpcs @ [(addr, c)]) @ map (Pair addr) (filter (\<lambda>c. c \<notin> expected) cids))"
      by (rule Cons.IH) (use Cons.prems fsm in auto)
    then show ?thesis using False w by (simp add: evictStaleReplica_def rc_propose_eq)
  qed
qed

context chunk_repairer
begin

lemma missing_replica_registry:
  assumes "world_inv w"
  shows "world_inv (handleMissingReplica (raft_env (leader_raft ords) uuid now) repairs rf n w c)"
    and "chunkRegistry (w_fsm (handleMissingReplica (raft_env (leader_raft ords) uuid now) repairs rf n w c)) =
      (chunkRegistry (w_fsm w))(c := map_option (drop_node n) (chunkRegistry (w_fsm w) c))"
    and "nodeRegistry (w_fsm (handleMissingReplica (raft_env (leader_raft ords) uuid now) repairs rf n w c)) =
      nodeRegistry (w_fsm w)"
proof -
  let ?env = "raft_env (leader_raft ords) uuid now"
  obtain w1 err where w1: "proposeEvictChunk ?env w c n ''missing replica during reconciliation'' = (w1, err)" by fastforce
  have inv: "fsm_inv (w_fsm w)" using assms reachable_fsm_inv by (simp add: world_inv_def)
  have fsm: "w_fsm w1 = fst (handleCmdEvictChunkFromNode (w_fsm w)
      \<lparr>cev_ChunkID = c, cev_NodeID = n, cev_EvictedAt = now (w_tick w), cev_Reason = ''missing replica during reconciliation''\<rparr>)"
    using leader_evict [of ords uuid now w c n "''missing replica during reconciliation''"] w1 by simp
  have w1_inv: "world_inv w1"
    using leader_repair.propose_in_inv [OF assms] w1 unfolding proposeEvictChunk_def by (metis fst_conv)
  have chunks: "chunkRegistry (w_fsm w1) = (chunkRegistry (w_fsm w))(c := map_option (drop_node n) (chunkRegistry (w_fsm w) c))"
    unfolding fsm evict_chunkRegistry [OF inv] by simp
  have nodes: "nodeRegistry (w_fsm w1) = nodeRegistry (w_fsm w)" unfolding fsm evict_nodes ..
  note facts = w1_inv chunks nodes repairs_inv [OF w1_inv] repairs_chunks [OF w1_inv] repairs_nodes [OF w1_inv]
  show "world_inv (handleMissingReplica ?env repairs rf n w c)"
    "chunkRegistry (w_fsm (handleMissingReplica ?env repairs rf n w c)) =
      (chunkRegistry (w_fsm w))(c := map_option (drop_node n) (chunkRegistry (w_fsm w) c))"
    "nodeRegistry (w_fsm (handleMissingReplica ?env repairs rf n w c)) = nodeRegistry (w_fsm w)"
    using facts by (simp_all add: handleMissingReplica_def rc_propose_eq w1 Let_def split: option.split sum.split)
qed

lemma missing_loop_registry:
  assumes "world_inv w"
  shows "world_inv (missing_loop (raft_env (leader_raft ords) uuid now) repairs rf n reported w cids) \<and>
    chunkRegistry (w_fsm (missing_loop (raft_env (leader_raft ords) uuid now) repairs rf n reported w cids)) =
      (\<lambda>k. if k \<in> set cids - reported then map_option (drop_node n) (chunkRegistry (w_fsm w) k)
           else chunkRegistry (w_fsm w) k) \<and>
    nodeRegistry (w_fsm (missing_loop (raft_env (leader_raft ords) uuid now) repairs rf n reported w cids)) =
      nodeRegistry (w_fsm w)"
  using assms
proof (induction cids arbitrary: w)
  case Nil
  then show ?case by simp
next
  case (Cons c cids)
  show ?case
  proof (cases "c \<in> reported")
    case True
    with Cons.IH [OF Cons.prems] show ?thesis by (auto simp: fun_eq_iff)
  next
    case False
    note step = missing_replica_registry [OF Cons.prems, of ords uuid now rf n c]
    from Cons.IH [OF step(1)] False show ?thesis
      by (auto simp: step(2,3) fun_eq_iff option.map_comp comp_def)
  qed
qed

end

text \<open>
  C20: On a committing leader, reconciling a registered node removes the node from the
  replica list of exactly the chunks that the metadata expects on it and that its
  inventory lacks, asks the node to delete exactly the reported chunks that the
  metadata does not expect on it, and changes no other chunk and no node. Afterwards
  the metadata lists the node only for chunks the inventory contains.
\<close>

theorem reconcile_matches_inventory:
  assumes "world_inv w" "range_order ord (chunkRegistry (w_fsm w))" "nodeRegistry (w_fsm w) nodeID = Some node"
    and "ReconcileNode (raft_env (leader_raft ords0) uuid now)
      (\<lambda>w c. ScheduleRepairForChunk (raft_env (leader_raft ords0) uuid now) (ords c) w c) rf ord w nodeID reported = (w', rpcs)"
  shows "chunkRegistry (w_fsm w') = (\<lambda>k. if k \<in> set reported then chunkRegistry (w_fsm w) k
      else map_option (drop_node nodeID) (chunkRegistry (w_fsm w) k)) \<and>
    rpcs = map (Pair (ne_Address node)) (filter (\<lambda>c. c \<notin> set (GetChunksByNode ord (w_fsm w) nodeID)) reported) \<and>
    nodeRegistry (w_fsm w') = nodeRegistry (w_fsm w)"
proof -
  let ?env = "raft_env (leader_raft ords0) uuid now"
  let ?exp = "GetChunksByNode ord (w_fsm w) nodeID"
  have inv: "fsm_inv (w_fsm w)" using assms(1) reachable_fsm_inv by (simp add: world_inv_def)
  note expected = GetChunksByNode_set [OF inv assms(2), of nodeID]
  have "\<exists>t. stale_loop ?env nodeID (ne_Address node) (set ?exp) (w, []) reported =
      (w\<lparr>w_tick := t\<rparr>, [] @ map (Pair (ne_Address node)) (filter (\<lambda>c. c \<notin> set ?exp) reported))"
    by (rule stale_loop_result) (use expected in auto)
  then obtain t where st: "stale_loop ?env nodeID (ne_Address node) (set ?exp) (w, []) reported =
      (w\<lparr>w_tick := t\<rparr>, map (Pair (ne_Address node)) (filter (\<lambda>c. c \<notin> set ?exp) reported))" by auto
  have w1: "world_inv (w\<lparr>w_tick := t\<rparr>)" using assms(1) by (simp add: world_inv_def)
  have w': "w' = missing_loop ?env (\<lambda>w c. ScheduleRepairForChunk ?env (ords c) w c) rf nodeID (set reported) (w\<lparr>w_tick := t\<rparr>) ?exp"
    and rpcs: "rpcs = map (Pair (ne_Address node)) (filter (\<lambda>c. c \<notin> set ?exp) reported)"
    using assms(3,4) st by (simp_all add: ReconcileNode_def GetNode_def Let_def)
  note loop = schedule_repairer.missing_loop_registry [OF w1, of ords0 uuid now ords0 uuid now ords rf nodeID "set reported" ?exp]
  have "chunkRegistry (w_fsm w') k = (if k \<in> set reported then chunkRegistry (w_fsm w) k
      else map_option (drop_node nodeID) (chunkRegistry (w_fsm w) k))" for k
    unfolding w' using loop expected
    by (cases "chunkRegistry (w_fsm w) k") (auto simp: drop_node_absent)
  then show ?thesis using rpcs loop unfolding w' by auto
qed

theorem reconcile_matches_inventory_witness:
  "map_option cr_Replicas (chunkRegistry (w_fsm (fst (ReconcileNode (raft_env (leader_raft (\<lambda>_. [])) (\<lambda>_. ''j'') (\<lambda>_. 0))
     (\<lambda>w c. ScheduleRepairForChunk (raft_env (leader_raft (\<lambda>_. [])) (\<lambda>_. ''j'') (\<lambda>_. 0)) [''n1'', ''n2''] w c) 2
     [''c0'', ''c1''] demo_world ''n1'' [''old'']))) ''c0'') = Some [] \<and>
   snd (ReconcileNode (raft_env (leader_raft (\<lambda>_. [])) (\<lambda>_. ''j'') (\<lambda>_. 0))
     (\<lambda>w c. ScheduleRepairForChunk (raft_env (leader_raft (\<lambda>_. [])) (\<lambda>_. ''j'') (\<lambda>_. 0)) [''n1'', ''n2''] w c) 2
     [''c0'', ''c1''] demo_world ''n1'' [''old'']) = [(''10.0.0.1:9000'', ''old'')]"
proof -
  have ord: "range_order [''c0'', ''c1''] (chunkRegistry (w_fsm demo_world))"
    by (auto simp: range_order_def demo_world_def start_world_def demo_state_eq)
  have n1: "nodeRegistry (w_fsm demo_world) ''n1'' = Some (the (nodeRegistry demo_state ''n1''))"
    by (simp add: demo_world_def start_world_def demo_state_eq)
  obtain w' rpcs where r: "ReconcileNode (raft_env (leader_raft (\<lambda>_. [])) (\<lambda>_. ''j'') (\<lambda>_. 0))
     (\<lambda>w c. ScheduleRepairForChunk (raft_env (leader_raft (\<lambda>_. [])) (\<lambda>_. ''j'') (\<lambda>_. 0)) ((\<lambda>_. [''n1'', ''n2'']) c) w c) 2
     [''c0'', ''c1''] demo_world ''n1'' [''old''] = (w', rpcs)" by fastforce
  from reconcile_matches_inventory [OF demo_world_inv ord n1 r]
  have "map_option cr_Replicas (chunkRegistry (w_fsm w') ''c0'') = Some []" "rpcs = [(''10.0.0.1:9000'', ''old'')]"
    by (simp_all add: demo_world_def start_world_def demo_state_eq drop_node_def GetChunksByNode_def chunk_stub_def)
  with r show ?thesis by simp
qed

section \<open>The timers\<close>

definition timers_inv :: "Reconciler \<Rightarrow> bool" where
  "timers_inv r \<longleftrightarrow>
     distinct (map fst (rc_armed r)) \<and>
     (\<forall>tid n items. (tid, n, items) \<in> set (rc_armed r) \<longrightarrow> rc_timers r n = Some tid \<and> tid < rc_next r)"

definition armed_for :: "Reconciler \<Rightarrow> string \<Rightarrow> string list list" where
  "armed_for r n = map (\<lambda>t. snd (snd t)) (filter (\<lambda>t. fst (snd t) = n) (rc_armed r))"

lemma stop_timer_simps [simp]:
  "rc_timers (stop_timer r tid) = rc_timers r" "rc_next (stop_timer r tid) = rc_next r"
  "rc_armed (stop_timer r tid) = filter (\<lambda>t. fst t \<noteq> tid) (rc_armed r)"
  by (simp_all add: stop_timer_def)

lemma armed_none:
  "timers_inv r \<Longrightarrow> rc_timers r n = None \<Longrightarrow> filter (\<lambda>t. fst (snd t) = n) (rc_armed r) = []"
  by (fastforce simp: timers_inv_def filter_empty_conv)

lemma armed_stopped:
  "timers_inv r \<Longrightarrow> rc_timers r n = Some tid \<Longrightarrow>
     filter (\<lambda>t. fst (snd t) = n) (filter (\<lambda>t. fst t \<noteq> tid) (rc_armed r)) = []"
  by (fastforce simp: timers_inv_def filter_empty_conv)

lemma Schedule_armed:
  assumes "timers_inv r"
  shows "timers_inv (Schedule r n items)" "armed_for (Schedule r n items) n = [items]"
proof -
  show "timers_inv (Schedule r n items)"
  proof (cases "rc_timers r n")
    case None
    with assms show ?thesis by (force simp: timers_inv_def Schedule_def Let_def)
  next
    case (Some old)
    with assms show ?thesis
      by (force simp: timers_inv_def Schedule_def Let_def distinct_map_filter)
  qed
  show "armed_for (Schedule r n items) n = [items]"
    using armed_none [OF assms] armed_stopped [OF assms]
    by (cases "rc_timers r n") (simp_all add: armed_for_def Schedule_def Let_def)
qed

lemma Cancel_armed:
  assumes "timers_inv r"
  shows "timers_inv (Cancel r n)" "armed_for (Cancel r n) n = []"
proof -
  show "timers_inv (Cancel r n)"
    using assms by (cases "rc_timers r n") (force simp: timers_inv_def Cancel_def distinct_map_filter)+
  show "armed_for (Cancel r n) n = []"
    using armed_none [OF assms] armed_stopped [OF assms]
    by (cases "rc_timers r n") (simp_all add: armed_for_def Cancel_def)
qed

text \<open>
  As long as a firing callback is not overtaken by another registration of its
  node, registering a node leaves exactly one armed timer for it, carrying the latest
  inventory, cancelling leaves none, and a timer that fires leaves none.
\<close>

theorem one_timer_per_node:
  assumes "timers_inv r"
  shows "timers_inv (Schedule r n items) \<and> armed_for (Schedule r n items) n = [items] \<and>
    timers_inv (Cancel r n) \<and> armed_for (Cancel r n) n = [] \<and>
    (rc_timers r n = Some tid \<longrightarrow>
       timers_inv (fire_end (fire_begin r tid) n) \<and> armed_for (fire_end (fire_begin r tid) n) n = [])"
proof -
  have "timers_inv (fire_end (fire_begin r tid) n)" if "rc_timers r n = Some tid"
    using assms that by (force simp: timers_inv_def fire_end_def fire_begin_def distinct_map_filter)
  moreover have "armed_for (fire_end (fire_begin r tid) n) n = []" if "rc_timers r n = Some tid"
    using armed_stopped [OF assms that] by (simp add: armed_for_def fire_end_def fire_begin_def)
  ultimately show ?thesis using Schedule_armed [OF assms] Cancel_armed [OF assms] by simp
qed

definition demo_reconciler :: Reconciler where
  "demo_reconciler = \<lparr>rc_reconcileDelay = 30 * Second, rc_replicationFactor = 3, rc_timers = Map.empty, rc_armed = [], rc_next = 0\<rparr>"

theorem one_timer_per_node_witness:
  "armed_for (Schedule (Schedule demo_reconciler ''n1'' [''a'']) ''n1'' [''b'']) ''n1'' = [[''b'']]"
proof -
  have "timers_inv (Schedule demo_reconciler ''n1'' [''a''])"
    by (rule Schedule_armed) (simp add: timers_inv_def demo_reconciler_def)
  from one_timer_per_node [OF this] show ?thesis by simp
qed

text \<open>
  If a node registers again while the callback of its timer is reconciling it, the
  callback deletes the entry of the new timer when it finishes: the new timer stays
  armed, but cancelling the node no longer stops it.
\<close>

theorem overtaken_timer_escapes_cancel:
  assumes "timers_inv r" "rc_timers r n = Some tid"
  shows "armed_for (Cancel (fire_end (Schedule (fire_begin r tid) n items) n) n) n = [items]"
  using armed_stopped [OF assms]
  by (simp add: Cancel_def fire_end_def fire_begin_def Schedule_def Let_def armed_for_def assms(2))

theorem overtaken_timer_escapes_cancel_witness:
  "armed_for (Cancel (fire_end (Schedule (fire_begin (Schedule demo_reconciler ''n1'' [''a'']) 0) ''n1'' [''b'']) ''n1'') ''n1'') ''n1''
     = [[''b'']]"
proof (rule overtaken_timer_escapes_cancel)
  show "timers_inv (Schedule demo_reconciler ''n1'' [''a''])"
    by (rule Schedule_armed) (simp add: timers_inv_def demo_reconciler_def)
  show "rc_timers (Schedule demo_reconciler ''n1'' [''a'']) ''n1'' = Some 0"
    by (simp add: Schedule_def Let_def demo_reconciler_def)
qed

end
