(* ===== verification/Metadata_Server.thy ===== *)
theory Metadata_Server
  imports Reconcile
begin

text \<open>
  The gRPC handlers of the metadata service, \<open>metadata/server\<close>. A handler takes the
  environment (Raft and what it says about leadership, the UUID generator and the
  clock), the state of the server and a request, and returns the new state with a
  reply: an error with the trailer it set, or a response. The messages are records of
  the fields the handlers read or write. Orders of map iteration are arguments.
\<close>

section \<open>Messages and state\<close>

record RegisterNodeRequest =
  rnq_NodeId    :: string
  rnq_Address   :: string
  rnq_FreeSpace :: int
  rnq_ChunkIds  :: "string list"

record HeartbeatRequest =
  hbq_NodeId     :: string
  hbq_FreeSpace  :: int
  hbq_ChunkCount :: int

record RepairInstruction =
  ri_JobId        :: string
  ri_ChunkId      :: string
  ri_SourceNodeId :: string
  ri_SourceAddr   :: string
  ri_TargetNodeId :: string
  ri_TargetAddr   :: string
  ri_DeleteSource :: bool

record CreateFileRequest =
  cfq_FileId    :: string
  cfq_FileName  :: string
  cfq_FileSize  :: int
  cfq_ChunkSize :: int
  cfq_ChunkIds  :: "string list"

record NodeInfo =
  ni_NodeId    :: string
  ni_Address   :: string
  ni_FreeSpace :: int

record ChunkPlacement =
  cp_ChunkId  :: string
  cp_Primary  :: NodeInfo
  cp_Replicas :: "NodeInfo list"

record ChunkInfo =
  ci_ChunkId    :: string
  ci_FileId     :: string
  ci_ChunkIndex :: int
  ci_Size       :: int
  ci_Checksum   :: bytes
  ci_Replicas   :: "string list"
  ci_Status     :: string

record FileInfo =
  fi_FileId    :: string
  fi_FileName  :: string
  fi_FileSize  :: int
  fi_ChunkSize :: int
  fi_ChunkIds  :: "string list"
  fi_Status    :: string
  fi_CreatedAt :: int
  fi_UpdatedAt :: int

record server_env =
  se_raft              :: raft_apply
  se_isLeader          :: bool
  se_leaderAddr        :: string
  se_uuid              :: "nat \<Rightarrow> string"
  se_now               :: "nat \<Rightarrow> gotime"
  se_TargetPlacement   :: PlacementStrategy
  se_ReplicationFactor :: int

record MetadataServiceHandler =
  sv_world           :: world
  sv_reconciler      :: Reconciler
  sv_heartbeatsCount :: "int gomap"

type_synonym 'r reply = "(goerror \<times> string option) + 'r"

definition env_of :: "server_env \<Rightarrow> repair_env" where
  "env_of e = raft_env (se_raft e) (se_uuid e) (se_now e)"

definition NewMetadataServiceHandler :: "world \<Rightarrow> Reconciler \<Rightarrow> MetadataServiceHandler" where
  "NewMetadataServiceHandler w r = \<lparr>sv_world = w, sv_reconciler = r, sv_heartbeatsCount = Map.empty\<rparr>"

text \<open>Conversions of Go between integer types, and \<open>Unix\<close> of an instant.\<close>

definition int32_of :: "int \<Rightarrow> int" where
  "int32_of i = (i + 2 ^ 31) mod 2 ^ 32 - 2 ^ 31"

definition time_Unix :: "gotime \<Rightarrow> int" where
  "time_Unix t = t div Second - 62135596800"

section \<open>Leadership\<close>

definition leaderRedirect :: "server_env \<Rightarrow> MetadataFSM \<Rightarrow> goerror \<times> string option" where
  "leaderRedirect e s =
     (if se_leaderAddr e = '''' then (Status Unavailable ''no leader elected yet'', None)
      else (Status FailedPrecondition ''not leader'',
            case GetMetadataNodeByRaftAddr s (se_leaderAddr e) of
              Inr n \<Rightarrow> Some (mn_GrpcAddr n)
            | Inl _ \<Rightarrow> None))"

text \<open>A handler's early return when the node is not the leader.\<close>

definition on_leader :: "server_env \<Rightarrow> MetadataServiceHandler \<Rightarrow>
    MetadataServiceHandler \<times> 'r reply \<Rightarrow> MetadataServiceHandler \<times> 'r reply" where
  "on_leader e h body =
     (if \<not> se_isLeader e then (h, Inl (leaderRedirect e (w_fsm (sv_world h)))) else body)"

definition set_world :: "MetadataServiceHandler \<Rightarrow> world \<Rightarrow> MetadataServiceHandler" where
  "set_world h w = h\<lparr>sv_world := w\<rparr>"

definition fail_with :: "grpc_code \<Rightarrow> string \<Rightarrow> 'r reply" where
  "fail_with c msg = Inl (Status c msg, None)"

section \<open>Node handlers\<close>

definition RegisterNode ::
    "server_env \<Rightarrow> MetadataServiceHandler \<Rightarrow> RegisterNodeRequest \<Rightarrow> MetadataServiceHandler \<times> string reply" where
  "RegisterNode e h req = on_leader e h
     (let w = sv_world h;
          cmd = newCommand CmdRegisterNode (enc_CommandRegisterNode
            \<lparr>crn_NodeID = rnq_NodeId req, crn_Address = rnq_Address req,
             crn_FreeSpace = uint64_of (rnq_FreeSpace req),
             crn_ChunkCount = uint64_of (int (length (rnq_ChunkIds req))),
             crn_CreatedAt = se_now e (w_tick w)\<rparr>)
      in case propose_in (env_of e) w cmd of
           (w1, Some _) \<Rightarrow> (set_world h w1, fail_with Internal ''error proposing register command'')
         | (w1, None) \<Rightarrow>
             ((set_world h w1)\<lparr>sv_reconciler := Schedule (sv_reconciler h) (rnq_NodeId req) (rnq_ChunkIds req)\<rparr>,
              Inr (rnq_NodeId req)))"

definition DeregisterNode :: "server_env \<Rightarrow> string list \<Rightarrow> (string \<Rightarrow> string list) \<Rightarrow> MetadataServiceHandler \<Rightarrow>
    string \<Rightarrow> MetadataServiceHandler \<times> bool reply" where
  "DeregisterNode e ord ords h nodeId = on_leader e h
     (let w = sv_world h in
      case GetNode (w_fsm w) nodeId of
        Inl _ \<Rightarrow> (h, fail_with NotFound ''node not found'')
      | Inr _ \<Rightarrow>
          (case propose_in (env_of e) w (newCommand CmdDeregisterNode (enc_CommandDeregisterNode
                  \<lparr>cdn_NodeID = nodeId, cdn_UpdatedAt = se_now e (w_tick w)\<rparr>)) of
             (w1, Some _) \<Rightarrow> (set_world h w1, fail_with Internal ''error proposing deregister command'')
           | (w1, None) \<Rightarrow> (set_world h (TriggerRepair (env_of e) ord ords w1 nodeId), Inr True)))"

definition node_address :: "MetadataFSM \<Rightarrow> string \<Rightarrow> string" where
  "node_address s nodeID =
     (if nodeID = '''' then ''''
      else case GetNode s nodeID of Inl _ \<Rightarrow> '''' | Inr n \<Rightarrow> ne_Address n)"

fun buildRepairInstructions :: "MetadataFSM \<Rightarrow> string list \<Rightarrow> RepairInstruction list" where
  "buildRepairInstructions s [] = []"
| "buildRepairInstructions s (jobID # jobIDs) =
     (case GetRepairJob s jobID of
        Inl _ \<Rightarrow> buildRepairInstructions s jobIDs
      | Inr val \<Rightarrow>
          \<lparr>ri_JobId = rj_JobID val, ri_ChunkId = rj_ChunkID val, ri_SourceNodeId = rj_SourceNodeID val,
           ri_SourceAddr = node_address s (rj_SourceNodeID val), ri_TargetNodeId = rj_TargetNodeID val,
           ri_TargetAddr = node_address s (rj_TargetNodeID val), ri_DeleteSource = rj_DeleteSource val\<rparr>
          # buildRepairInstructions s jobIDs)"

definition Heartbeat :: "server_env \<Rightarrow> MetadataServiceHandler \<Rightarrow> HeartbeatRequest \<Rightarrow>
    MetadataServiceHandler \<times> RepairInstruction list reply" where
  "Heartbeat e h req = on_leader e h
     (let w = sv_world h in
      case GetNode (w_fsm w) (hbq_NodeId req) of
        Inl err \<Rightarrow> (h, if err = ErrNodeNotFound then fail_with NotFound ''node not registered''
                        else fail_with Internal ''internal'')
      | Inr _ \<Rightarrow>
          (let cnt = (case sv_heartbeatsCount h (hbq_NodeId req) of None \<Rightarrow> 0 | Some c \<Rightarrow> c) + 1;
               h1 = h\<lparr>sv_heartbeatsCount := (sv_heartbeatsCount h)(hbq_NodeId req \<mapsto> cnt)\<rparr>;
               w1 = fst (nw_UpdateLastSeen w (hbq_NodeId req) (se_now e (w_tick w)));
               w2 = (if cnt mod 10 = 0
                     then w1\<lparr>w_fsm := fst (ProposeUpdateNodeSpace (se_raft e) (se_now e (w_tick w)) (w_fsm w1)
                            (hbq_NodeId req) (uint64_of (hbq_FreeSpace req)) (uint64_of (hbq_ChunkCount req)))\<rparr>
                     else w1);
               pjobs = rs_GetPendingJobsForNode (w_sched w2) (hbq_NodeId req)
           in (set_world h1 w2, Inr (buildRepairInstructions (w_fsm w2) pjobs))))"

section \<open>File handlers\<close>

definition node_info :: "NodeEntry \<Rightarrow> NodeInfo" where
  "node_info n = \<lparr>ni_NodeId = ne_NodeID n, ni_Address = ne_Address n, ni_FreeSpace = int64_of (ne_FreeSpace n)\<rparr>"

fun place_chunks :: "PlacementStrategy \<Rightarrow> NodeEntry list \<Rightarrow> int \<Rightarrow> nat \<Rightarrow> string list \<Rightarrow> ChunkPlacement list option" where
  "place_chunks ps aliveNodes sz rf [] = Some []"
| "place_chunks ps aliveNodes sz rf (v # vs) =
     (case SelectNodes ps aliveNodes v sz rf [] of
        (outNodes, err) \<Rightarrow>
          if err \<noteq> None \<or> length outNodes = 0 then None
          else
            (case place_chunks ps aliveNodes sz rf vs of
               None \<Rightarrow> None
             | Some ps' \<Rightarrow>
                 (let out = map node_info outNodes
                  in Some (\<lparr>cp_ChunkId = v, cp_Primary = hd out, cp_Replicas = tl out\<rparr> # ps'))))"

definition minChunkSize :: int where
  "minChunkSize = 64 * 1024"

definition maxChunkSize :: int where
  "maxChunkSize = 64 * 1024 * 1024"

definition srv_CreateFile :: "server_env \<Rightarrow> string list \<Rightarrow> MetadataServiceHandler \<Rightarrow> CreateFileRequest \<Rightarrow>
    MetadataServiceHandler \<times> (string \<times> ChunkPlacement list) reply" where
  "srv_CreateFile e ord h req = on_leader e h
     (let w = sv_world h;
          fileId = (if cfq_FileId req = '''' then se_uuid e (w_tick w) else cfq_FileId req)
      in case GetFile (w_fsm w) fileId of
           Inr _ \<Rightarrow> (h, fail_with AlreadyExists ''file with ID already exists'')
         | Inl _ \<Rightarrow>
             if cfq_ChunkSize req \<le> 0 then (h, fail_with InvalidArgument ''chunk_size must be positive'')
             else if cfq_ChunkSize req < minChunkSize
             then (h, fail_with InvalidArgument ''chunk_size is below minimum (64 KB)'')
             else if cfq_ChunkSize req > maxChunkSize
             then (h, fail_with InvalidArgument ''chunk_size exceeds maximum (64 MB)'')
             else
               (case place_chunks (se_TargetPlacement e) (GetLiveNodes ord (w_fsm w)) (cfq_ChunkSize req)
                       (nat (se_ReplicationFactor e)) (cfq_ChunkIds req) of
                  None \<Rightarrow> (h, fail_with Internal ''error getting placement for chunk'')
                | Some placements \<Rightarrow>
                    (case propose_in (env_of e) w (newCommand CmdCreateFile (enc_CommandCreateFile
                            \<lparr>ccf_FileID = fileId, ccf_FileName = cfq_FileName req, ccf_ChunkIDs = cfq_ChunkIds req,
                             ccf_FileSize = uint64_of (cfq_FileSize req), ccf_ChunkSize = uint64_of (cfq_ChunkSize req),
                             ccf_Checksum = [], ccf_CreatedAt = se_now e (w_tick w)\<rparr>)) of
                       (w1, Some _) \<Rightarrow> (set_world h w1, fail_with Internal ''error proposing command'')
                     | (w1, None) \<Rightarrow> (set_world h w1, Inr (fileId, placements)))))"

fun resolve_replicas :: "MetadataFSM \<Rightarrow> string list \<Rightarrow> string list" where
  "resolve_replicas s [] = []"
| "resolve_replicas s (rep # reps) =
     (case GetNode s rep of
        Inl _ \<Rightarrow> resolve_replicas s reps
      | Inr node \<Rightarrow>
          if ne_Status node = NodeStatusDead \<or> ne_Status node = NodeStatusDraining then resolve_replicas s reps
          else if ne_Address node \<noteq> '''' then ne_Address node # resolve_replicas s reps
          else resolve_replicas s reps)"

definition chunk_info :: "MetadataFSM \<Rightarrow> ChunkRecord \<Rightarrow> ChunkInfo" where
  "chunk_info s ck =
     \<lparr>ci_ChunkId = cr_ChunkID ck, ci_FileId = cr_FileID ck, ci_ChunkIndex = int32_of (cr_ChunkIndex ck),
      ci_Size = cr_Size ck, ci_Checksum = cr_Checksum ck, ci_Replicas = resolve_replicas s (cr_Replicas ck),
      ci_Status = cr_Status ck\<rparr>"

definition file_info :: "FileRecord \<Rightarrow> FileInfo" where
  "file_info f =
     \<lparr>fi_FileId = fr_FileID f, fi_FileName = fr_Filename f, fi_FileSize = int64_of (fr_FileSize f),
      fi_ChunkSize = int64_of (fr_ChunkSize f), fi_ChunkIds = fr_ChunkIDs f, fi_Status = fr_Status f,
      fi_CreatedAt = time_Unix (fr_CreatedAt f), fi_UpdatedAt = time_Unix (fr_UpdatedAt f)\<rparr>"

definition srv_GetFile :: "server_env \<Rightarrow> MetadataServiceHandler \<Rightarrow> string \<Rightarrow>
    MetadataServiceHandler \<times> (FileInfo \<times> ChunkInfo list) reply" where
  "srv_GetFile e h fileId = on_leader e h
     (let s = w_fsm (sv_world h) in
      case GetFile s fileId of
        Inl _ \<Rightarrow> (h, fail_with NotFound ''file not found'')
      | Inr fl \<Rightarrow>
          if fr_Status fl \<noteq> FileStatusComplete then (h, fail_with NotFound ''file is not available'')
          else
            (case GetFileChunks s fileId of
               Inl _ \<Rightarrow> (h, fail_with Internal ''error fetching file chunks'')
             | Inr chunks \<Rightarrow> (h, Inr (file_info fl, map (chunk_info s) chunks))))"

definition srv_DeleteFile :: "server_env \<Rightarrow> MetadataServiceHandler \<Rightarrow> string \<Rightarrow> MetadataServiceHandler \<times> bool reply" where
  "srv_DeleteFile e h fileId = on_leader e h
     (let w = sv_world h in
      case GetFile (w_fsm w) fileId of
        Inl _ \<Rightarrow> (h, fail_with NotFound ''file not found'')
      | Inr _ \<Rightarrow>
          (case propose_in (env_of e) w (newCommand CmdDeleteFile (enc_CommandDeleteFile \<lparr>cdf_FileID = fileId\<rparr>)) of
             (w1, Some _) \<Rightarrow> (set_world h w1, fail_with Internal ''error proposing delete command'')
           | (w1, None) \<Rightarrow> (set_world h w1, Inr True)))"

text \<open>The request's prefix is not used.\<close>

definition srv_ListFiles :: "FileRecord sorter \<Rightarrow> server_env \<Rightarrow> string list \<Rightarrow> MetadataServiceHandler \<Rightarrow> string \<Rightarrow>
    MetadataServiceHandler \<times> FileInfo list reply" where
  "srv_ListFiles srt e ord h prefx = on_leader e h
     (h, Inr (map file_info (filter (\<lambda>f. fr_Status f = FileStatusComplete)
               (ListFiles srt ord (w_fsm (sv_world h)) ''''))))"

definition srv_CommitFile :: "server_env \<Rightarrow> MetadataServiceHandler \<Rightarrow> string \<Rightarrow> int \<Rightarrow> bytes \<Rightarrow>
    MetadataServiceHandler \<times> bool reply" where
  "srv_CommitFile e h fileId fileSize checksum = on_leader e h
     (case propose_in (env_of e) (sv_world h) (newCommand CmdCommitFile (enc_CommandCommitFile
             \<lparr>cmf_FileID = fileId, cmf_FileSize = uint64_of fileSize, cmf_Checksum = checksum\<rparr>)) of
        (w1, Some _) \<Rightarrow> (set_world h w1, fail_with Internal ''error proposing commit command'')
      | (w1, None) \<Rightarrow> (set_world h w1, Inr True))"

section \<open>Chunk and repair handlers\<close>

definition srv_CommitChunk :: "server_env \<Rightarrow> string list \<Rightarrow> MetadataServiceHandler \<Rightarrow> string \<Rightarrow> string list \<Rightarrow> bytes \<Rightarrow>
    MetadataServiceHandler \<times> bool reply" where
  "srv_CommitChunk e ord h chunkId confirmedNodes checksum = on_leader e h
     (case propose_in (env_of e) (sv_world h) (newCommand CmdCommitChunk (enc_CommandCommitChunk
             \<lparr>cmc_ChunkID = chunkId, cmc_NodeIDs = confirmedNodes, cmc_Checksum = checksum\<rparr>)) of
        (w1, Some _) \<Rightarrow> (set_world h w1, fail_with Internal ''error proposing commit-chunk command'')
      | (w1, None) \<Rightarrow>
          (case GetChunkLocations (w_fsm w1) chunkId of
             Inl _ \<Rightarrow> (set_world h w1, Inr True)
           | Inr locations \<Rightarrow>
               (set_world h (if int (length locations) < se_ReplicationFactor e
                             then ScheduleRepairForChunk (env_of e) ord w1 chunkId else w1), Inr True)))"

definition srv_GetChunkLocations :: "server_env \<Rightarrow> MetadataServiceHandler \<Rightarrow> string \<Rightarrow>
    MetadataServiceHandler \<times> NodeInfo list reply" where
  "srv_GetChunkLocations e h chunkId = on_leader e h
     (case GetChunkLocations (w_fsm (sv_world h)) chunkId of
        Inl err \<Rightarrow> (h, if err = ErrChunkNotFound then fail_with NotFound ''chunk not found''
                        else fail_with Internal ''error fetching chunk locations'')
      | Inr nodes \<Rightarrow> (h, Inr (map node_info nodes)))"

definition ReportCorruption :: "server_env \<Rightarrow> string list \<Rightarrow> MetadataServiceHandler \<Rightarrow> string \<Rightarrow> string \<Rightarrow>
    MetadataServiceHandler \<times> bool reply" where
  "ReportCorruption e ord h chunkId reporterId = on_leader e h
     (let w = sv_world h in
      case propose_in (env_of e) w (newCommand CmdEvictChunkFromNode (enc_CommandEvictChunkFromNode
             \<lparr>cev_ChunkID = chunkId, cev_NodeID = reporterId, cev_EvictedAt = se_now e (w_tick w),
              cev_Reason = ''corruption reported by node''\<rparr>)) of
        (w1, Some _) \<Rightarrow> (set_world h w1, fail_with Internal ''error proposing eviction command'')
      | (w1, None) \<Rightarrow> (set_world h (ScheduleRepairForChunk (env_of e) ord w1 chunkId), Inr True))"

text \<open>On failure the handler returns the error as it is, with a response that gRPC drops.\<close>

definition ReportRepairResult :: "server_env \<Rightarrow> MetadataServiceHandler \<Rightarrow> string \<Rightarrow> string \<Rightarrow> bool \<Rightarrow> string \<Rightarrow>
    MetadataServiceHandler \<times> bool reply" where
  "ReportRepairResult e h nodeId jobId jobSucceed errorMsg = on_leader e h
     (let w = sv_world h in
      case UpdateRepairJobStatus (se_raft e) (se_now e (w_tick w)) (w_fsm w) jobId
             (if jobSucceed then RepairStatusDone else RepairStatusFailed) of
        (s1, Some err) \<Rightarrow> (set_world h (w\<lparr>w_fsm := s1\<rparr>), Inl (err, None))
      | (s1, None) \<Rightarrow>
          (case OnJobComplete (env_of e) (w\<lparr>w_fsm := s1\<rparr>) nodeId jobId jobSucceed errorMsg of
             (w2, Some err) \<Rightarrow> (set_world h w2, Inl (err, None))
           | (w2, None) \<Rightarrow> (set_world h w2, Inr True)))"

section \<open>Invariant\<close>

definition server_inv :: "MetadataServiceHandler \<Rightarrow> bool" where
  "server_inv h \<longleftrightarrow> world_inv (sv_world h) \<and> timers_inv (sv_reconciler h)"

lemma server_inv_world: "server_inv h \<Longrightarrow> world_inv w \<Longrightarrow> server_inv (set_world h w)"
  by (simp add: server_inv_def set_world_def)

lemma server_inv_counts [simp]: "server_inv (h\<lparr>sv_heartbeatsCount := m\<rparr>) = server_inv h"
  by (simp add: server_inv_def)

lemma on_leader_inv: "server_inv h \<Longrightarrow> (se_isLeader e \<Longrightarrow> server_inv (fst body)) \<Longrightarrow> server_inv (fst (on_leader e h body))"
  by (simp add: on_leader_def)

lemma world_inv_seen:
  assumes "world_inv w"
  shows "world_inv (fst (nw_UpdateLastSeen w nodeID ts))"
  using assms reachable.seen [of "w_fsm w" nodeID ts]
  by (auto simp: nw_UpdateLastSeen_def world_inv_def split: prod.split)

text \<open>A server over a Raft that keeps its promises.\<close>

locale server_world =
  fixes e :: server_env
  assumes raft: "raft_log (se_raft e)"
begin

lemma env_world: "repair_world (env_of e)"
  unfolding env_of_def by (rule raft_env_world) (rule raft)

lemma propose_inv':
  "world_inv w \<Longrightarrow> propose_in (env_of e) w cmd = (w', err) \<Longrightarrow> world_inv w'"
  using repair_world.propose_in_inv [OF env_world] by (metis fst_conv)

lemma raft_step_inv: "world_inv w \<Longrightarrow> world_inv (w\<lparr>w_fsm := fst (Propose (se_raft e) (w_fsm w) cmd)\<rparr>)"
  using proposer.propose_reachable [OF raft_log.is_proposer [OF raft]] by (simp add: world_inv_def)

lemmas world_ops = repair_world.operations_inv [OF env_world] world_inv_seen server_inv_world

lemma server_inv_worldD: "server_inv h \<Longrightarrow> world_inv (sv_world h)"
  by (simp add: server_inv_def)

lemma RegisterNode_inv:
  assumes "server_inv h"
  shows "server_inv (fst (RegisterNode e h req))"
proof -
  have "server_inv ((set_world h w)\<lparr>sv_reconciler := Schedule (sv_reconciler h) n cs\<rparr>)" if "world_inv w" for w n cs
    using assms that by (simp add: server_inv_def set_world_def Schedule_armed)
  then show ?thesis
    using assms propose_inv' [OF server_inv_worldD [OF assms]]
    unfolding RegisterNode_def Let_def
    by (intro on_leader_inv) (auto simp: server_inv_world split: prod.split option.split)
qed

lemma DeregisterNode_inv:
  assumes "server_inv h"
  shows "server_inv (fst (DeregisterNode e ord ords h nodeId))"
  using assms propose_inv' [OF server_inv_worldD [OF assms]]
  unfolding DeregisterNode_def Let_def
  by (intro on_leader_inv) (auto simp: world_ops split: prod.split option.split sum.split)

lemma Heartbeat_inv:
  assumes "server_inv h"
  shows "server_inv (fst (Heartbeat e h req))"
proof -
  have "world_inv (fst (nw_UpdateLastSeen (sv_world h) n t))" for n t
    by (rule world_inv_seen) (rule server_inv_worldD [OF assms])
  then show ?thesis
    using assms raft_step_inv
    unfolding Heartbeat_def Let_def ProposeUpdateNodeSpace_def
    by (intro on_leader_inv) (auto simp: server_inv_world split: sum.split)
qed

lemma srv_CreateFile_inv:
  assumes "server_inv h"
  shows "server_inv (fst (srv_CreateFile e ord h req))"
  using assms propose_inv' [OF server_inv_worldD [OF assms]]
  unfolding srv_CreateFile_def Let_def
  by (intro on_leader_inv) (auto simp: world_ops split: prod.split option.split sum.split)

lemma srv_DeleteFile_inv:
  assumes "server_inv h"
  shows "server_inv (fst (srv_DeleteFile e h fileId))"
  using assms propose_inv' [OF server_inv_worldD [OF assms]]
  unfolding srv_DeleteFile_def Let_def
  by (intro on_leader_inv) (auto simp: world_ops split: prod.split option.split sum.split)

lemma srv_CommitFile_inv:
  assumes "server_inv h"
  shows "server_inv (fst (srv_CommitFile e h fileId sz cs))"
  using assms propose_inv' [OF server_inv_worldD [OF assms]]
  unfolding srv_CommitFile_def
  by (intro on_leader_inv) (auto simp: world_ops split: prod.split option.split sum.split)

lemma srv_CommitChunk_inv:
  assumes "server_inv h"
  shows "server_inv (fst (srv_CommitChunk e ord h c ns cs))"
  using assms propose_inv' [OF server_inv_worldD [OF assms]]
  unfolding srv_CommitChunk_def
  by (intro on_leader_inv) (auto simp: world_ops split: prod.split option.split sum.split)

lemma ReportCorruption_inv:
  assumes "server_inv h"
  shows "server_inv (fst (ReportCorruption e ord h c r))"
  using assms propose_inv' [OF server_inv_worldD [OF assms]]
  unfolding ReportCorruption_def Let_def
  by (intro on_leader_inv) (auto simp: world_ops split: prod.split option.split sum.split)

lemma ReportRepairResult_inv:
  assumes "server_inv h"
  shows "server_inv (fst (ReportRepairResult e h n j ok msg))"
proof -
  have step: "world_inv ((sv_world h)\<lparr>w_fsm := s1\<rparr>)"
    if "UpdateRepairJobStatus (se_raft e) t (w_fsm (sv_world h)) j st = (s1, err)" for t st s1 err
    using raft_step_inv [OF server_inv_worldD [OF assms]] that unfolding UpdateRepairJobStatus_def by (metis fst_conv)
  have "world_inv w2" if "world_inv w" "OnJobComplete (env_of e) w n j ok msg = (w2, err)" for w w2 err
    using repair_world.OnJobComplete_inv [OF env_world that(1)] that(2) by (metis fst_conv)
  moreover obtain s1 err where upd: "UpdateRepairJobStatus (se_raft e) (se_now e (w_tick (sv_world h))) (w_fsm (sv_world h)) j
      (if ok then RepairStatusDone else RepairStatusFailed) = (s1, err)" by fastforce
  moreover obtain w2 err2 where "OnJobComplete (env_of e) ((sv_world h)\<lparr>w_fsm := s1\<rparr>) n j ok msg = (w2, err2)" by fastforce
  ultimately show ?thesis
    using assms step [OF upd] unfolding ReportRepairResult_def Let_def upd
    by (intro on_leader_inv) (simp_all add: server_inv_world split: option.split)
qed

lemma reads_inv:
  "server_inv h \<Longrightarrow> server_inv (fst (srv_GetFile e h fileId))"
  "server_inv h \<Longrightarrow> server_inv (fst (srv_ListFiles srt e ord h p))"
  "server_inv h \<Longrightarrow> server_inv (fst (srv_GetChunkLocations e h c))"
  by (auto simp: srv_GetFile_def srv_ListFiles_def srv_GetChunkLocations_def Let_def intro!: on_leader_inv
      split: sum.split)

lemmas handlers_inv =
  RegisterNode_inv DeregisterNode_inv Heartbeat_inv srv_CreateFile_inv srv_DeleteFile_inv srv_CommitFile_inv
  srv_CommitChunk_inv ReportCorruption_inv ReportRepairResult_inv reads_inv

end

definition leader_env :: "(nat \<Rightarrow> string list) \<Rightarrow> (nat \<Rightarrow> string) \<Rightarrow> (nat \<Rightarrow> gotime) \<Rightarrow> PlacementStrategy \<Rightarrow> int \<Rightarrow> server_env" where
  "leader_env ords uuid now ps rf =
     \<lparr>se_raft = leader_raft ords, se_isLeader = True, se_leaderAddr = '''', se_uuid = uuid, se_now = now,
      se_TargetPlacement = ps, se_ReplicationFactor = rf\<rparr>"

interpretation leader_server: server_world "leader_env ords uuid now ps rf" for ords uuid now ps rf
  by unfold_locales (auto simp: leader_env_def leader_raft_def split: prod.splits)

section \<open>Runs of the server\<close>

lemma sweep_inv:
  assumes "repair_world env" "world_inv w"
  shows "world_inv (sweep env lead (Some (\<lambda>w n. TriggerRepair env (ord n) (ords n) w n)) nw norder now w)"
proof -
  have "world_inv v \<Longrightarrow> world_inv (sweep_nodes env (Some (\<lambda>w n. TriggerRepair env (ord n) (ords n) w n)) timeout now v ns)"
    for v timeout ns
  proof (induction ns arbitrary: v)
    case (Cons n ns)
    have "world_inv w1" if "propose_in env v cmd = (w1, err)" for cmd w1 err
      using repair_world.propose_in_inv [OF assms(1) Cons.prems] that by (metis fst_conv)
    with Cons show ?case
      by (auto simp: Let_def repair_world.TriggerRepair_inv [OF assms(1)] split: prod.split option.split)
  qed simp
  with assms(2) show ?thesis by (simp add: sweep_def)
qed

lemma ReconcileNode_inv:
  assumes env: "repair_world env" and w: "world_inv w"
  shows "world_inv (fst (ReconcileNode env (\<lambda>w c. ScheduleRepairForChunk env (ords c) w c) rf ord w n reported))"
proof -
  have evict: "world_inv w1" if "world_inv v" "proposeEvictChunk env v c n reason = (w1, err)" for v w1 c err reason
    using repair_world.propose_in_inv [OF env that(1)] that(2) unfolding proposeEvictChunk_def by (metis fst_conv)
  have stale: "world_inv (fst st) \<Longrightarrow> world_inv (fst (stale_loop env n addr expected st cs))" for st addr expected cs
  proof (induction cs arbitrary: st)
    case (Cons c cs)
    have "world_inv (fst (evictStaleReplica env n addr st c))"
      using Cons.prems repair_world.propose_in_inv [OF env, of "fst st"]
      by (cases st) (simp add: evictStaleReplica_def rc_proposeEvictChunk_def del: propose_in_frame)
    with Cons show ?case by simp
  qed simp
  have one: "world_inv (handleMissingReplica env (\<lambda>w c. ScheduleRepairForChunk env (ords c) w c) rf n v c)"
    if "world_inv v" for v c
    using evict [OF that] repair_world.ScheduleRepairForChunk_inv [OF env]
    by (auto simp: handleMissingReplica_def rc_propose_eq Let_def split: prod.split option.split sum.split)
  have missing: "world_inv v \<Longrightarrow>
      world_inv (missing_loop env (\<lambda>w c. ScheduleRepairForChunk env (ords c) w c) rf n rep v cs)" for v rep cs
    by (induction cs arbitrary: v) (simp_all add: one)
  show ?thesis
    using w stale [of "(w, [])"] missing
    by (auto simp: ReconcileNode_def Let_def split: sum.split prod.split) (metis fst_conv)
qed

text \<open>
  Everything that changes the state of a metadata server: its handlers, each with the
  Raft and the leadership of the moment, the watcher's sweep, the scheduler's
  operations, and a reconciliation timer that fires and is not overtaken.
\<close>

inductive served :: "MetadataServiceHandler \<Rightarrow> MetadataServiceHandler \<Rightarrow> bool" where
  "server_world e \<Longrightarrow> served h (fst (RegisterNode e h rnq))"
| "server_world e \<Longrightarrow> served h (fst (DeregisterNode e ord ords h n))"
| "server_world e \<Longrightarrow> served h (fst (Heartbeat e h hbq))"
| "server_world e \<Longrightarrow> served h (fst (srv_CreateFile e ord h cfq))"
| "server_world e \<Longrightarrow> served h (fst (srv_GetFile e h f))"
| "server_world e \<Longrightarrow> served h (fst (srv_DeleteFile e h f))"
| "server_world e \<Longrightarrow> served h (fst (srv_ListFiles srt e ord h p))"
| "server_world e \<Longrightarrow> served h (fst (srv_CommitFile e h f sz cs))"
| "server_world e \<Longrightarrow> served h (fst (srv_CommitChunk e ord h c ns cs))"
| "server_world e \<Longrightarrow> served h (fst (srv_GetChunkLocations e h c))"
| "server_world e \<Longrightarrow> served h (fst (ReportCorruption e ord h c r))"
| "server_world e \<Longrightarrow> served h (fst (ReportRepairResult e h n j ok msg))"
| "server_world e \<Longrightarrow> served h (set_world h (sweep (env_of e) (se_isLeader e)
     (Some (\<lambda>w n. TriggerRepair (env_of e) (nord n) (nords n) w n)) nw ord now (sv_world h)))"
| "server_world e \<Longrightarrow> repair_step (env_of e) (sv_world h) w \<Longrightarrow> served h (set_world h w)"
| "server_world e \<Longrightarrow> rc_timers (sv_reconciler h) n = Some tid \<Longrightarrow>
     served h ((set_world h (fst (ReconcileNode (env_of e) (\<lambda>w c. ScheduleRepairForChunk (env_of e) (ords c) w c)
         (rc_replicationFactor (sv_reconciler h)) ord (sv_world h) n reported)))
       \<lparr>sv_reconciler := fire_end (fire_begin (sv_reconciler h) tid) n\<rparr>)"

lemma fire_inv:
  assumes "timers_inv r" "rc_timers r n = Some tid"
  shows "timers_inv (fire_end (fire_begin r tid) n)"
  using assms by (force simp: timers_inv_def fire_end_def fire_begin_def distinct_map_filter)

lemma served_inv: "served h h' \<Longrightarrow> server_inv h \<Longrightarrow> server_inv h'"
proof (induction rule: served.induct)
  case (13 e h nord nords nw ord now)
  then show ?case
    by (intro server_inv_world sweep_inv) (simp_all add: server_world.env_world server_inv_def)
next
  case (14 e h w)
  then show ?case
    using repair_step_inv [OF server_world.env_world [OF 14(1)] 14(2)] by (simp add: server_inv_def set_world_def)
next
  case (15 e h n tid ords ord reported)
  then show ?case
    using ReconcileNode_inv [OF server_world.env_world [OF 15(1)]] fire_inv
    by (simp add: server_inv_def set_world_def)
qed (simp_all add: server_world.handlers_inv)


definition demo_server :: MetadataServiceHandler where
  "demo_server = NewMetadataServiceHandler demo_world demo_reconciler"

lemma demo_server_inv: "server_inv demo_server"
  using demo_world_inv by (simp add: server_inv_def demo_server_def NewMetadataServiceHandler_def timers_inv_def demo_reconciler_def)


section \<open>Followers\<close>

text \<open>
  C21: A node that is not the leader answers every request with the same redirect and
  changes nothing: unavailable while no leader is known, and otherwise a failed
  precondition whose trailer carries the leader's gRPC address if it is registered.
\<close>

theorem followers_redirect:
  assumes "\<not> se_isLeader e"
  shows "RegisterNode e h rnq = (h, Inl (leaderRedirect e (w_fsm (sv_world h)))) \<and>
    DeregisterNode e ord ords h n = (h, Inl (leaderRedirect e (w_fsm (sv_world h)))) \<and>
    Heartbeat e h hbq = (h, Inl (leaderRedirect e (w_fsm (sv_world h)))) \<and>
    srv_CreateFile e ord h cfq = (h, Inl (leaderRedirect e (w_fsm (sv_world h)))) \<and>
    srv_GetFile e h f = (h, Inl (leaderRedirect e (w_fsm (sv_world h)))) \<and>
    srv_DeleteFile e h f = (h, Inl (leaderRedirect e (w_fsm (sv_world h)))) \<and>
    srv_ListFiles srt e ord h p = (h, Inl (leaderRedirect e (w_fsm (sv_world h)))) \<and>
    srv_CommitFile e h f sz cs = (h, Inl (leaderRedirect e (w_fsm (sv_world h)))) \<and>
    srv_CommitChunk e ord h c ns cs = (h, Inl (leaderRedirect e (w_fsm (sv_world h)))) \<and>
    srv_GetChunkLocations e h c = (h, Inl (leaderRedirect e (w_fsm (sv_world h)))) \<and>
    ReportCorruption e ord h c r = (h, Inl (leaderRedirect e (w_fsm (sv_world h)))) \<and>
    ReportRepairResult e h n j ok msg = (h, Inl (leaderRedirect e (w_fsm (sv_world h)))) \<and>
    (snd (leaderRedirect e (w_fsm (sv_world h))) = Some addr \<longrightarrow>
       (\<exists>m. mdNodeRegistry (w_fsm (sv_world h)) (se_leaderAddr e) = Some m \<and> addr = mn_GrpcAddr m))"
  using assms
  by (auto simp: RegisterNode_def DeregisterNode_def Heartbeat_def srv_CreateFile_def srv_GetFile_def srv_DeleteFile_def
      srv_ListFiles_def srv_CommitFile_def srv_CommitChunk_def srv_GetChunkLocations_def ReportCorruption_def
      ReportRepairResult_def on_leader_def leaderRedirect_def GetMetadataNodeByRaftAddr_def split: option.splits if_splits)

theorem followers_redirect_witness:
  "srv_DeleteFile (leader_env (\<lambda>_. []) (\<lambda>_. ''u'') (\<lambda>_. 9) (MostFreeSpaceStrategy insertionSort) 2
     \<lparr>se_isLeader := False, se_leaderAddr := ''m1:7000''\<rparr>) demo_server ''f'' =
     (demo_server, Inl (Status FailedPrecondition ''not leader'', None))"
proof -
  let ?e = "leader_env (\<lambda>_. []) (\<lambda>_. ''u'') (\<lambda>_. 9) (MostFreeSpaceStrategy insertionSort) 2
     \<lparr>se_isLeader := False, se_leaderAddr := ''m1:7000''\<rparr>"
  have "\<not> se_isLeader ?e" by simp
  from followers_redirect [OF this, where h = demo_server and f = "''f''"]
  have "srv_DeleteFile ?e demo_server ''f'' = (demo_server, Inl (leaderRedirect ?e (w_fsm (sv_world demo_server))))" by blast
  then show ?thesis
    by (simp add: leaderRedirect_def GetMetadataNodeByRaftAddr_def demo_server_def NewMetadataServiceHandler_def
        demo_world_def start_world_def demo_state_eq)
qed

section \<open>Creating a file\<close>

lemma place_chunks_result:
  assumes "placement ps" "place_chunks ps alive sz rf cids = Some pls" "0 < rf"
  shows "map cp_ChunkId pls = cids \<and>
    list_all (\<lambda>pl. \<exists>ns. map node_info ns = cp_Primary pl # cp_Replicas pl \<and> length ns = rf \<and>
      mset ns \<subseteq># mset (eligible alive sz [])) pls"
  using assms(2)
proof (induction cids arbitrary: pls)
  case Nil
  then show ?case by simp
next
  case (Cons v vs)
  obtain ns err where sel: "SelectNodes ps alive v sz rf [] = (ns, err)" by fastforce
  with Cons.prems obtain pls' where ok: "err = None" "ns \<noteq> []" "place_chunks ps alive sz rf vs = Some pls'"
      and pls: "pls = \<lparr>cp_ChunkId = v, cp_Primary = hd (map node_info ns), cp_Replicas = tl (map node_info ns)\<rparr> # pls'"
    by (auto simp: Let_def split: if_splits option.splits)
  have "length ns = rf" using placement.select_success [OF assms(1), of alive v sz rf "[]"] sel ok(1) by simp
  moreover have "mset ns \<subseteq># mset (eligible alive sz [])"
    using placement.select_mset [OF assms(1), of alive v sz rf "[]"] sel by simp
  ultimately have "\<exists>ns. map node_info ns = hd (map node_info ns) # tl (map node_info ns) \<and> length ns = rf \<and>
      mset ns \<subseteq># mset (eligible alive sz []) \<and> hd (map node_info ns) = cp_Primary (hd pls) \<and> tl (map node_info ns) = cp_Replicas (hd pls)"
    using ok(2) pls by (intro exI [of _ ns]) simp
  then have "\<exists>ns. map node_info ns = cp_Primary (hd pls) # cp_Replicas (hd pls) \<and> length ns = rf \<and>
      mset ns \<subseteq># mset (eligible alive sz [])" by metis
  with Cons.IH [OF ok(3)] show ?case by (simp add: pls)
qed

text \<open>
  C22: When CreateFile succeeds on a committing leader, the chunk size lies between 64
  KiB and 64 MiB, the file is recorded in status creating with the requested name and
  chunk list, and the reply places every chunk, in order, on as many distinct alive
  nodes as the replication factor, each with at least a chunk's worth of free space.
\<close>

theorem create_file_places_chunks:
  assumes h: "server_inv h" and ord: "range_order ord (nodeRegistry (w_fsm (sv_world h)))"
    and ps: "placement ps" and rf: "0 < rf"
    and res: "srv_CreateFile (leader_env ords uuid now ps (int rf)) ord h req = (h', Inr (fileId, pls))"
  shows "64 * 1024 \<le> cfq_ChunkSize req \<and> cfq_ChunkSize req \<le> 64 * 1024 * 1024 \<and>
    map_option (\<lambda>f. (fr_Filename f, fr_ChunkIDs f, fr_Status f)) (fileIndex (w_fsm (sv_world h')) fileId) =
      Some (cfq_FileName req, cfq_ChunkIds req, FileStatusCreating) \<and>
    map cp_ChunkId pls = cfq_ChunkIds req \<and>
    list_all (\<lambda>pl. \<exists>ns. map node_info ns = cp_Primary pl # cp_Replicas pl \<and> length ns = rf \<and> distinct (map ne_NodeID ns) \<and>
      list_all (\<lambda>n. nodeRegistry (w_fsm (sv_world h)) (ne_NodeID n) = Some n \<and> ne_Status n = NodeStatusAlive \<and>
        uint64_of (cfq_ChunkSize req) \<le> ne_FreeSpace n) ns) pls"
proof -
  let ?e = "leader_env ords uuid now ps (int rf)" and ?w = "sv_world h"
  let ?s = "w_fsm ?w" and ?alive = "GetLiveNodes ord (w_fsm ?w)"
  let ?fid = "if cfq_FileId req = '''' then uuid (w_tick ?w) else cfq_FileId req"
  let ?cmd = "\<lparr>ccf_FileID = ?fid, ccf_FileName = cfq_FileName req, ccf_ChunkIDs = cfq_ChunkIds req,
      ccf_FileSize = uint64_of (cfq_FileSize req), ccf_ChunkSize = uint64_of (cfq_ChunkSize req),
      ccf_Checksum = [], ccf_CreatedAt = now (w_tick ?w)\<rparr>"
  have inv: "fsm_inv ?s" using h reachable_fsm_inv by (simp add: server_inv_def world_inv_def)
  have bounds: "minChunkSize \<le> cfq_ChunkSize req" "cfq_ChunkSize req \<le> maxChunkSize" "0 < cfq_ChunkSize req"
    and placed: "place_chunks ps ?alive (cfq_ChunkSize req) rf (cfq_ChunkIds req) = Some pls"
    and made: "snd (handleCmdCreateFile ?s ?cmd) = None" "fileId = ?fid"
      "w_fsm (sv_world h') = fst (handleCmdCreateFile ?s ?cmd)"
    using res
    by (auto simp: srv_CreateFile_def leader_env_def on_leader_def Let_def fail_with_def env_of_def raft_env_def propose_in_def
        leader_simps set_world_def split: sum.splits if_splits option.splits prod.splits)
  have fl: "map_option (\<lambda>f. (fr_Filename f, fr_ChunkIDs f, fr_Status f)) (fileIndex (w_fsm (sv_world h')) fileId) =
      Some (cfq_FileName req, cfq_ChunkIds req, FileStatusCreating)"
    using made(1) unfolding made(2,3)
    by (auto simp: handleCmdCreateFile_def GetFile_def Let_def split: option.splits if_splits)
  have "distinct (map ne_NodeID (eligible ?alive (cfq_ChunkSize req) []))"
  proof -
    have "map ne_NodeID (range_values ord (nodeRegistry ?s)) = filter (\<lambda>k. nodeRegistry ?s k \<noteq> None) ord"
      by (rule map_key_range_values) (use fsm_inv_node [OF inv] in blast)
    then have "distinct (map ne_NodeID (range_values ord (nodeRegistry ?s)))" using ord by (simp add: range_order_def)
    then show ?thesis by (simp add: eligible_def GetLiveNodes_def distinct_map_filter)
  qed
  then have dist: "distinct (map ne_NodeID ns)" if "mset ns \<subseteq># mset (eligible ?alive (cfq_ChunkSize req) [])" for ns
    by (rule mset_subset_distinct [rotated]) (use image_mset_subseteq_mono [OF that] in simp)
  have alive: "nodeRegistry ?s (ne_NodeID n) = Some n \<and> ne_Status n = NodeStatusAlive \<and>
      uint64_of (cfq_ChunkSize req) \<le> ne_FreeSpace n"
    if "mset ns \<subseteq># mset (eligible ?alive (cfq_ChunkSize req) [])" "n \<in> set ns" for n ns
  proof -
    have "n \<in> set (eligible ?alive (cfq_ChunkSize req) [])" using set_mset_mono [OF that(1)] that(2) by auto
    then show ?thesis
      using bounds(3) fsm_inv_node [OF inv] by (fastforce simp: eligible_def GetLiveNodes_def set_range_values)
  qed
  have "\<exists>ns. map node_info ns = cp_Primary pl # cp_Replicas pl \<and> length ns = rf \<and> distinct (map ne_NodeID ns) \<and>
      list_all (\<lambda>n. nodeRegistry ?s (ne_NodeID n) = Some n \<and> ne_Status n = NodeStatusAlive \<and>
        uint64_of (cfq_ChunkSize req) \<le> ne_FreeSpace n) ns" if "pl \<in> set pls" for pl
  proof -
    have "\<exists>ns. map node_info ns = cp_Primary pl # cp_Replicas pl \<and> length ns = rf \<and>
        mset ns \<subseteq># mset (eligible ?alive (cfq_ChunkSize req) [])"
      using place_chunks_result [OF ps placed rf] that by (simp only: list_all_iff)
    then obtain ns where "map node_info ns = cp_Primary pl # cp_Replicas pl \<and> length ns = rf"
      and sub: "mset ns \<subseteq># mset (eligible ?alive (cfq_ChunkSize req) [])" by metis
    then show ?thesis using dist [OF sub] alive [OF sub] by (intro exI [of _ ns]) (simp add: list_all_iff)
  qed
  then show ?thesis
    using bounds place_chunks_result [OF ps placed rf] fl by (simp add: minChunkSize_def maxChunkSize_def list_all_iff)
qed

section \<open>Reading files\<close>

lemma resolve_replicas_set:
  "a \<in> set (resolve_replicas s reps) \<longleftrightarrow>
     (\<exists>rep n. rep \<in> set reps \<and> nodeRegistry s rep = Some n \<and> a = ne_Address n \<and> ne_Address n \<noteq> '''' \<and>
        ne_Status n \<noteq> NodeStatusDead \<and> ne_Status n \<noteq> NodeStatusDraining)"
  by (induction reps) (auto simp: GetNode_def split: option.splits)

text \<open>
  C23: In a reachable state the leader's GetFile returns a file exactly when it is known
  and complete, and never fails internally. The reply lists the file's chunks in order
  with the checksums they were committed with, and every replica address in it is
  the address of a registered, alive node that the metadata lists as a holder of that
  chunk.
\<close>

theorem get_file_complete_and_alive:
  assumes "server_inv h" "se_isLeader e"
  shows "((\<exists>r. snd (srv_GetFile e h fileId) = Inr r) \<longleftrightarrow>
      map_option fr_Status (fileIndex (w_fsm (sv_world h)) fileId) = Some FileStatusComplete) \<and>
    (\<forall>c m. snd (srv_GetFile e h fileId) \<noteq> Inl (Status Internal m, c)) \<and>
    (\<forall>fi cis. snd (srv_GetFile e h fileId) = Inr (fi, cis) \<longrightarrow>
      map ci_ChunkId cis = fi_ChunkIds fi \<and>
      list_all (\<lambda>ci. \<exists>ck. chunkRegistry (w_fsm (sv_world h)) (ci_ChunkId ci) = Some ck \<and>
        ci_FileId ci = fileId \<and> ci_Checksum ci = cr_Checksum ck \<and>
        list_all (\<lambda>a. \<exists>rep n. rep \<in> set (cr_Replicas ck) \<and> nodeRegistry (w_fsm (sv_world h)) rep = Some n \<and>
          a = ne_Address n \<and> ne_Status n = NodeStatusAlive) (ci_Replicas ci)) cis)"
proof (cases "map_option fr_Status (fileIndex (w_fsm (sv_world h)) fileId) = Some FileStatusComplete")
  case False
  then have "\<exists>m. snd (srv_GetFile e h fileId) = Inl (Status NotFound m, None)"
    using assms(2) by (auto simp: srv_GetFile_def on_leader_def Let_def GetFile_def fail_with_def split: option.split)
  with False show ?thesis by auto
next
  case True
  let ?s = "w_fsm (sv_world h)"
  from True obtain f where f: "fileIndex ?s fileId = Some f" "fr_Status f = FileStatusComplete" by auto
  have inv: "fsm_inv ?s" using assms(1) reachable_fsm_inv by (simp add: server_inv_def world_inv_def)
  let ?g = "\<lambda>cid. the (chunkRegistry ?s cid)"
  have known: "chunkRegistry ?s cid = Some (?g cid) \<and> cr_FileID (?g cid) = fileId \<and> cr_ChunkID (?g cid) = cid"
    if "cid \<in> set (fr_ChunkIDs f)" for cid
    using fsm_inv_file [OF inv f(1) that] fsm_inv_chunk [OF inv] by fastforce
  then have chunks: "GetFileChunks ?s fileId = Inr (map ?g (fr_ChunkIDs f))"
    using f by (simp add: GetFileChunks_def GetFile_def collect_chunks_known)
  have alive: "ne_Status n = NodeStatusAlive" if "nodeRegistry ?s k = Some n" "ne_Status n \<noteq> NodeStatusDead"
      "ne_Status n \<noteq> NodeStatusDraining" for k n
    using fsm_inv_node [OF inv that(1)] that(2,3) by (auto simp: node_wf_def)
  have reply: "snd (srv_GetFile e h fileId) = Inr (file_info f, map (chunk_info ?s) (map ?g (fr_ChunkIDs f)))"
    using assms(2) f chunks by (simp add: srv_GetFile_def on_leader_def Let_def GetFile_def)
  have ids: "map ci_ChunkId (map (chunk_info ?s) (map ?g (fr_ChunkIDs f))) = fi_ChunkIds (file_info f)"
    using known by (simp add: chunk_info_def file_info_def comp_def map_idI)
  have "\<exists>ck. chunkRegistry ?s (ci_ChunkId ci) = Some ck \<and> ci_FileId ci = fileId \<and> ci_Checksum ci = cr_Checksum ck \<and>
      list_all (\<lambda>a. \<exists>rep n. rep \<in> set (cr_Replicas ck) \<and> nodeRegistry ?s rep = Some n \<and>
        a = ne_Address n \<and> ne_Status n = NodeStatusAlive) (ci_Replicas ci)"
    if "ci \<in> set (map (chunk_info ?s) (map ?g (fr_ChunkIDs f)))" for ci
  proof -
    from that obtain cid where cid: "cid \<in> set (fr_ChunkIDs f)" "ci = chunk_info ?s (?g cid)" by auto
    have "\<exists>rep n. rep \<in> set (cr_Replicas (?g cid)) \<and> nodeRegistry ?s rep = Some n \<and> a = ne_Address n \<and>
        ne_Status n = NodeStatusAlive" if "a \<in> set (ci_Replicas ci)" for a
      using that alive unfolding cid(2) by (simp add: chunk_info_def resolve_replicas_set) blast
    then show ?thesis
      using known [OF cid(1)]
      by (intro exI [of _ "?g cid"]) (simp add: cid(2) chunk_info_def list_all_iff)
  qed
  with True ids show ?thesis by (simp add: reply list_all_iff)
qed

text \<open>
  ListFiles on the leader returns exactly the complete files, each once, ordered by
  name, whatever prefix the request carries.
\<close>

theorem list_files_complete_sorted:
  assumes "sort_spec srt" "server_inv h" "se_isLeader e" "range_order ord (fileIndex (w_fsm (sv_world h)))"
  shows "\<exists>fs. srv_ListFiles srt e ord h prefx = (h, Inr (map file_info fs)) \<and>
    set fs = {f. \<exists>k. fileIndex (w_fsm (sv_world h)) k = Some f \<and> fr_Status f = FileStatusComplete} \<and>
    distinct (map fr_FileID fs) \<and> sorted (map fr_Filename fs)"
proof -
  let ?s = "w_fsm (sv_world h)"
  let ?lt = "\<lambda>a b. fr_Filename a < fr_Filename b"
  let ?all = "range_values ord (fileIndex ?s)"
  let ?fs = "filter (\<lambda>f. fr_Status f = FileStatusComplete) (srt ?lt ?all)"
  have inv: "fsm_inv ?s" using assms(2) reachable_fsm_inv by (simp add: server_inv_def world_inv_def)
  have "weak_order ?lt" unfolding weak_order_def by (meson less_asym' linorder_not_less order_trans)
  then have "sorted (map fr_Filename (srt ?lt ?all))"
    using sort_spec_sorted [OF assms(1), of ?lt ?all] by (simp add: sorted_by_def sorted_map not_less)
  then have "sorted (map fr_Filename ?fs)" by (rule sorted_filter)
  moreover have "map fr_FileID ?all = filter (\<lambda>k. fileIndex ?s k \<noteq> None) ord"
    by (rule map_key_range_values) (use inv in \<open>simp add: fsm_inv_def keys_match_def\<close>)
  then have "distinct (map fr_FileID (srt ?lt ?all))"
    using assms(4) by (simp add: sort_spec_distinct_map [OF assms(1)] range_order_def)
  then have "distinct (map fr_FileID ?fs)" by (rule distinct_map_filter)
  moreover have "set ?fs = {f. \<exists>k. fileIndex ?s k = Some f \<and> fr_Status f = FileStatusComplete}"
    using set_range_values_ran [OF assms(4)] by (auto simp: sort_spec_set [OF assms(1)] ran_def)
  moreover have "srv_ListFiles srt e ord h prefx = (h, Inr (map file_info ?fs))"
    using assms(3) by (simp add: srv_ListFiles_def on_leader_def ListFiles_def HasPrefix_def)
  ultimately show ?thesis by blast
qed

section \<open>Concrete requests\<close>

definition demo_leader :: server_env where
  "demo_leader = leader_env (\<lambda>_. [''n1'', ''n2'']) (\<lambda>_. ''u'') (\<lambda>_. 9) (MostFreeSpaceStrategy insertionSort) (int 2)"

definition demo_create_request :: CreateFileRequest where
  "demo_create_request = \<lparr>cfq_FileId = '''', cfq_FileName = ''b.txt'', cfq_FileSize = 100000, cfq_ChunkSize = 65536,
     cfq_ChunkIds = [''d0'', ''d1'']\<rparr>"

lemma demo_server_fsm: "w_fsm (sv_world demo_server) = demo_state" "w_tick (sv_world demo_server) = 0"
  by (simp_all add: demo_server_def NewMetadataServiceHandler_def demo_world_def start_world_def)

lemma demo_placed:
  "place_chunks (MostFreeSpaceStrategy insertionSort) (GetLiveNodes [''n1'', ''n2''] demo_state) 65536 2 [''d0'', ''d1''] \<noteq> None"
  by (simp add: MostFreeSpaceStrategy_def mfs_SelectNodes_def filters_eligible eligible_def GetLiveNodes_def demo_state_eq
      insertionSort_def Less_MostFreeSpace_def first_nodes_def uint64_of_def Let_def)

lemma demo_created: "\<exists>h' fid pls. srv_CreateFile demo_leader [''n1'', ''n2''] demo_server demo_create_request = (h', Inr (fid, pls))"
proof -
  from demo_placed obtain pls where pls: "place_chunks (MostFreeSpaceStrategy insertionSort)
      (GetLiveNodes [''n1'', ''n2''] demo_state) 65536 2 [''d0'', ''d1''] = Some pls" by blast
  have new: "GetFile demo_state ''u'' = Inl ErrFileNotFound" by (simp add: GetFile_def demo_state_eq)
  have "snd (handleCmdCreateFile demo_state \<lparr>ccf_FileID = ''u'', ccf_FileName = ''b.txt'', ccf_ChunkIDs = [''d0'', ''d1''],
      ccf_FileSize = uint64_of 100000, ccf_ChunkSize = uint64_of 65536, ccf_Checksum = [], ccf_CreatedAt = 9\<rparr>) = None"
    by (simp add: handleCmdCreateFile_def new Let_def chunk_stub_def) (simp add: demo_state_eq)
  with pls new show ?thesis
    by (cases "handleCmdCreateFile demo_state \<lparr>ccf_FileID = ''u'', ccf_FileName = ''b.txt'', ccf_ChunkIDs = [''d0'', ''d1''],
        ccf_FileSize = uint64_of 100000, ccf_ChunkSize = uint64_of 65536, ccf_Checksum = [], ccf_CreatedAt = 9\<rparr>")
      (simp add: srv_CreateFile_def demo_leader_def leader_env_def on_leader_def demo_create_request_def demo_server_fsm
        minChunkSize_def maxChunkSize_def env_of_def raft_env_def propose_in_def leader_simps)
qed

theorem create_file_places_chunks_witness:
  "\<exists>h' fid pls. srv_CreateFile demo_leader [''n1'', ''n2''] demo_server demo_create_request = (h', Inr (fid, pls)) \<and>
     map cp_ChunkId pls = [''d0'', ''d1'']"
proof -
  from demo_created obtain h' fid pls where
    r: "srv_CreateFile demo_leader [''n1'', ''n2''] demo_server demo_create_request = (h', Inr (fid, pls))" by blast
  have ord: "range_order [''n1'', ''n2''] (nodeRegistry (w_fsm (sv_world demo_server)))"
    by (auto simp: range_order_def demo_server_fsm demo_state_eq)
  have "map cp_ChunkId pls = cfq_ChunkIds demo_create_request"
    using create_file_places_chunks [OF demo_server_inv ord mfs.placement_axioms _ r [unfolded demo_leader_def]] by simp
  with r show ?thesis by (auto simp: demo_create_request_def)
qed

text \<open>The second chunk of the file is committed on both nodes, then the file.\<close>

definition complete_server :: MetadataServiceHandler where
  "complete_server = fst (srv_CommitFile demo_leader
     (fst (srv_CommitChunk demo_leader [''n1'', ''n2''] demo_server ''c1'' [''n1'', ''n2''] [2])) ''f'' 20 [9])"

lemma complete_server_inv: "server_inv complete_server"
  unfolding complete_server_def demo_leader_def
  by (intro leader_server.srv_CommitFile_inv leader_server.srv_CommitChunk_inv demo_server_inv)

lemma complete_server_file:
  "map_option fr_Status (fileIndex (w_fsm (sv_world complete_server)) ''f'') = Some FileStatusComplete"
  by (simp add: complete_server_def srv_CommitFile_def srv_CommitChunk_def demo_leader_def leader_env_def on_leader_def
      env_of_def raft_env_def propose_in_def leader_simps set_world_def demo_server_fsm handleCmdCommitChunk_def
      handleCmdCommitFile_def handler_simps set_chunk_def normalizeReplicaNodeIDs_def GetChunkLocations_def
      live_entries_def uint64_of_def demo_state_eq chunk_stub_def)

theorem get_file_complete_and_alive_witness: "\<exists>r. snd (srv_GetFile demo_leader complete_server ''f'') = Inr r"
proof -
  have "se_isLeader demo_leader" by (simp add: demo_leader_def leader_env_def)
  from get_file_complete_and_alive [OF complete_server_inv this, of "''f''"] complete_server_file show ?thesis by blast
qed

theorem list_files_complete_sorted_witness:
  "\<exists>fs. srv_ListFiles insertionSort demo_leader [''f''] demo_server ''x'' = (demo_server, Inr (map file_info fs)) \<and>
     sorted (map fr_Filename fs)"
proof -
  have "se_isLeader demo_leader" by (simp add: demo_leader_def leader_env_def)
  moreover have "range_order [''f''] (fileIndex (w_fsm (sv_world demo_server)))"
    by (auto simp: range_order_def demo_server_fsm demo_state_eq)
  ultimately show ?thesis
    using list_files_complete_sorted [OF insertionSort_spec demo_server_inv] by blast
qed

section \<open>Registration and heartbeats\<close>

text \<open>
  Registering a node on a committing leader makes it alive at the reported address,
  and leaves exactly one armed reconciliation timer for it, which carries the reported
  inventory; no chunk and no file changes.
\<close>

theorem register_node_effect:
  assumes "server_inv h"
    and "RegisterNode (leader_env ords uuid now ps rf) h req = (h', r)"
  shows "r = Inr (rnq_NodeId req) \<and>
    map_option (\<lambda>n. (ne_Status n, ne_Address n)) (nodeRegistry (w_fsm (sv_world h')) (rnq_NodeId req)) =
      Some (NodeStatusAlive, rnq_Address req) \<and>
    armed_for (sv_reconciler h') (rnq_NodeId req) = [rnq_ChunkIds req] \<and>
    chunkRegistry (w_fsm (sv_world h')) = chunkRegistry (w_fsm (sv_world h)) \<and>
    fileIndex (w_fsm (sv_world h')) = fileIndex (w_fsm (sv_world h))"
proof -
  have inv: "fsm_inv (w_fsm (sv_world h))" using assms(1) reachable_fsm_inv by (simp add: server_inv_def world_inv_def)
  have timers: "timers_inv (sv_reconciler h)" using assms(1) by (simp add: server_inv_def)
  show ?thesis
    using assms(2) fsm_inv_node [OF inv] Schedule_armed(2) [OF timers]
    by (auto simp: RegisterNode_def leader_env_def on_leader_def env_of_def raft_env_def propose_in_def leader_simps
        set_world_def handleCmdRegisterNode_def handler_simps set_node_def split: option.splits)
qed

theorem register_node_effect_witness:
  "armed_for (sv_reconciler (fst (RegisterNode demo_leader demo_server
     \<lparr>rnq_NodeId = ''n3'', rnq_Address = ''10.0.0.3:9000'', rnq_FreeSpace = 70, rnq_ChunkIds = [''c0'']\<rparr>))) ''n3'' = [[''c0'']]"
proof -
  let ?req = "\<lparr>rnq_NodeId = ''n3'', rnq_Address = ''10.0.0.3:9000'', rnq_FreeSpace = 70, rnq_ChunkIds = [''c0'']\<rparr>"
  obtain h' r where eq: "RegisterNode demo_leader demo_server ?req = (h', r)" by fastforce
  from register_node_effect [OF demo_server_inv eq [unfolded demo_leader_def]] eq show ?thesis by simp
qed

text \<open>
  A heartbeat of a registered node on a committing leader stamps the node with the
  current time, updates its free space and chunk count on every tenth heartbeat, and
  returns the instructions of its pending repair jobs. It never changes the node's
  status: a node that was marked dead stays dead while it sends heartbeats.
\<close>

theorem heartbeat_effect:
  assumes "nodeRegistry (w_fsm (sv_world h)) (hbq_NodeId req) = Some n"
    and "Heartbeat (leader_env ords uuid now ps rf) h req = (h', r)"
  shows "\<exists>m. nodeRegistry (w_fsm (sv_world h')) (hbq_NodeId req) = Some m \<and>
    ne_Status m = ne_Status n \<and> ne_LastSeen m = now (w_tick (sv_world h)) \<and>
    ne_FreeSpace m = (if the (sv_heartbeatsCount h' (hbq_NodeId req)) mod 10 = 0 then uint64_of (hbq_FreeSpace req) else ne_FreeSpace n) \<and>
    r = Inr (buildRepairInstructions (w_fsm (sv_world h')) (rs_GetPendingJobsForNode (w_sched (sv_world h)) (hbq_NodeId req)))"
  using assms
  by (auto simp: Heartbeat_def leader_env_def on_leader_def Let_def GetNode_def nw_UpdateLastSeen_def UpdateLastSeen_def
      ProposeUpdateNodeSpace_def leader_simps handleCmdUpdateNodeSpace_def set_world_def set_node_def touch_node_def
      split: if_splits)

theorem heartbeat_effect_witness:
  "map_option ne_Status (nodeRegistry (w_fsm (sv_world (fst (Heartbeat demo_leader
     (demo_server\<lparr>sv_world := demo_world\<lparr>w_fsm := fst (handleCmdMarkNodeDead demo_state \<lparr>cmd_NodeID = ''n1'', cmd_UpdatedAt = 8\<rparr>)\<rparr>\<rparr>)
     \<lparr>hbq_NodeId = ''n1'', hbq_FreeSpace = 5, hbq_ChunkCount = 1\<rparr>)))) ''n1'') = Some NodeStatusDead"
proof -
  let ?h = "demo_server\<lparr>sv_world := demo_world\<lparr>w_fsm := fst (handleCmdMarkNodeDead demo_state \<lparr>cmd_NodeID = ''n1'', cmd_UpdatedAt = 8\<rparr>)\<rparr>\<rparr>"
  let ?req = "\<lparr>hbq_NodeId = ''n1'', hbq_FreeSpace = 5, hbq_ChunkCount = 1\<rparr>"
  have "nodeRegistry (w_fsm (sv_world ?h)) (hbq_NodeId ?req) =
      Some (touch_node ((the (nodeRegistry demo_state ''n1''))\<lparr>ne_Status := NodeStatusDead\<rparr>) 8)"
    by (simp add: handleCmdMarkNodeDead_def GetNode_def set_node_def demo_state_eq)
  moreover obtain h' r where eq: "Heartbeat demo_leader ?h ?req = (h', r)" by fastforce
  ultimately show ?thesis
    using heartbeat_effect [of ?h ?req _ _ _ _ _ _ h' r] eq unfolding demo_leader_def by fastforce
qed

end
