(* ===== verification/Retry.thy ===== *)
theory Retry
  imports Prelude
begin

text \<open>
  Retrying with exponential backoff (\<^verbatim>\<open>src/internal/retry/retry.go\<close>), used by the
  replication workers and the clients. The action changes a world and may fail;
  the context and the random jitter are functions of the attempt. The multiplier
  is kept as the scaling it denotes on durations: for the factor 2.0 the program
  uses, the float multiplication of a delay below \<open>2 ^ 53\<close> nanoseconds is exact.
  The outcome records the number of calls and the sleeps between them.
\<close>

section \<open>Policies\<close>

record Policy =
  p_MaxAttempts :: int
  p_Base :: duration
  p_Max :: duration
  p_Multiplier :: "duration \<Rightarrow> duration"

definition DefaultPolicy :: Policy where
  "DefaultPolicy = \<lparr>p_MaxAttempts = 5, p_Base = 100 * Millisecond, p_Max = 5 * Second, p_Multiplier = (\<lambda>d. 2 * d)\<rparr>"

text \<open>\<open>DefaultRetryPolicy\<close> of the replication manager.\<close>

definition DefaultRetryPolicy :: Policy where
  "DefaultRetryPolicy =
     \<lparr>p_MaxAttempts = 3, p_Base = 500 * Millisecond, p_Max = 10 * Second, p_Multiplier = (\<lambda>d. 2 * d)\<rparr>"

text \<open>
  What the loop observes: \<open>ctx.Err\<close> before an attempt, an interrupted sleep after it,
  and \<open>rand.Int64N\<close>, which yields a value below its argument.
\<close>

record retry_env =
  re_ctxErr :: "nat \<Rightarrow> goerror option"
  re_ctxDone :: "nat \<Rightarrow> goerror option"
  re_rand :: "nat \<Rightarrow> int \<Rightarrow> int"

definition rand_ok :: "retry_env \<Rightarrow> bool" where
  "rand_ok env \<longleftrightarrow> (\<forall>k n. 0 < n \<longrightarrow> 0 \<le> re_rand env k n \<and> re_rand env k n < n)"

definition sleep_time :: "Policy \<Rightarrow> retry_env \<Rightarrow> nat \<Rightarrow> duration \<Rightarrow> duration" where
  "sleep_time p env k delay =
     (let half = delay div 2;
          jitter = (if 0 < half then re_rand env k half else 0)
      in min (delay + jitter) (p_Max p))"

definition next_delay :: "Policy \<Rightarrow> duration \<Rightarrow> duration" where
  "next_delay p delay = min (p_Multiplier p delay) (p_Max p)"

definition exhausted :: "goerror option \<Rightarrow> goerror" where
  "exhausted lastErr =
     (case lastErr of
        None \<Rightarrow> NewError ''all retry attempts exhausted''
      | Some e \<Rightarrow> Join (NewError ''all retry attempts exhausted'') e)"

record 'w retry_outcome =
  ro_world :: 'w
  ro_err :: "goerror option"
  ro_calls :: nat
  ro_sleeps :: "duration list"

text \<open>The loop, by the number of attempts that are left.\<close>

fun do_loop ::
  "Policy \<Rightarrow> retry_env \<Rightarrow> ('w \<Rightarrow> 'w \<times> goerror option) \<Rightarrow> nat \<Rightarrow> nat \<Rightarrow> duration \<Rightarrow> goerror option \<Rightarrow> 'w \<Rightarrow> 'w retry_outcome" where
  "do_loop p env fn 0 attempt delay lastErr w =
     \<lparr>ro_world = w, ro_err = Some (exhausted lastErr), ro_calls = attempt, ro_sleeps = []\<rparr>"
| "do_loop p env fn (Suc left) attempt delay lastErr w =
     (case re_ctxErr env attempt of
        Some e \<Rightarrow> \<lparr>ro_world = w, ro_err = Some e, ro_calls = attempt, ro_sleeps = []\<rparr>
      | None \<Rightarrow>
          (case fn w of
             (w', None) \<Rightarrow> \<lparr>ro_world = w', ro_err = None, ro_calls = Suc attempt, ro_sleeps = []\<rparr>
           | (w', Some e) \<Rightarrow>
               if left = 0
               then \<lparr>ro_world = w', ro_err = Some (exhausted (Some e)), ro_calls = Suc attempt, ro_sleeps = []\<rparr>
               else (case re_ctxDone env attempt of
                   Some c \<Rightarrow> \<lparr>ro_world = w', ro_err = Some c, ro_calls = Suc attempt, ro_sleeps = []\<rparr>
                 | None \<Rightarrow>
                     (let r = do_loop p env fn left (Suc attempt) (next_delay p delay) (Some e) w'
                      in r\<lparr>ro_sleeps := sleep_time p env attempt delay # ro_sleeps r\<rparr>))))"

definition Do :: "Policy \<Rightarrow> retry_env \<Rightarrow> ('w \<Rightarrow> 'w \<times> goerror option) \<Rightarrow> 'w \<Rightarrow> 'w retry_outcome" where
  "Do p env fn w = do_loop p env fn (nat (p_MaxAttempts p)) 0 (p_Base p) None w"

section \<open>What the loop does\<close>

text \<open>The world after \<open>n\<close> failing calls.\<close>

fun fails_for :: "('w \<Rightarrow> 'w \<times> goerror option) \<Rightarrow> nat \<Rightarrow> 'w \<Rightarrow> 'w \<Rightarrow> bool" where
  "fails_for fn 0 w w' \<longleftrightarrow> w' = w"
| "fails_for fn (Suc n) w w' \<longleftrightarrow> (\<exists>w1 e. fn w = (w1, Some e) \<and> fails_for fn n w1 w')"

definition delay_wf :: "Policy \<Rightarrow> bool" where
  "delay_wf p \<longleftrightarrow> 0 \<le> p_Base p \<and> p_Base p \<le> p_Max p \<and> (\<forall>d. 0 \<le> d \<longrightarrow> d \<le> p_Multiplier p d)"

lemma sleep_time_bounds:
  assumes "rand_ok env" "0 \<le> d" "d \<le> p_Max p"
  shows "d \<le> sleep_time p env k d" "sleep_time p env k d \<le> p_Max p" "2 * sleep_time p env k d \<le> 3 * d"
proof -
  have "0 \<le> (if 0 < d div 2 then re_rand env k (d div 2) else 0)"
    "(if 0 < d div 2 then re_rand env k (d div 2) else 0) \<le> d div 2"
    using assms(1,2) unfolding rand_ok_def by (auto intro: less_imp_le)
  moreover define j where "j = (if 0 < d div 2 then re_rand env k (d div 2) else 0)"
  ultimately have j: "0 \<le> j" "2 * j \<le> d" "sleep_time p env k d = min (d + j) (p_Max p)"
    by (simp_all add: sleep_time_def)
  then show "d \<le> sleep_time p env k d" "sleep_time p env k d \<le> p_Max p" "2 * sleep_time p env k d \<le> 3 * d"
    using assms(2,3) by (auto simp: min_def)
qed

lemma do_loop_sleeps:
  assumes "rand_ok env" "delay_wf p"
  shows "0 \<le> d \<Longrightarrow> d \<le> p_Max p \<Longrightarrow>
    (\<forall>s \<in> set (ro_sleeps (do_loop p env fn left k d le w)). d \<le> s \<and> s \<le> p_Max p)
    \<and> length (ro_sleeps (do_loop p env fn left k d le w)) \<le> left - 1
    \<and> ro_calls (do_loop p env fn left k d le w) \<le> k + left"
proof (induction left arbitrary: k d le w)
  case 0
  then show ?case by simp
next
  case (Suc left)
  have d': "d \<le> next_delay p d" "0 \<le> next_delay p d" "next_delay p d \<le> p_Max p"
    using Suc.prems assms(2) by (auto simp: next_delay_def delay_wf_def)
  show ?case
  proof (cases "re_ctxErr env k = None \<and> left \<noteq> 0 \<and> snd (fn w) \<noteq> None \<and> re_ctxDone env k = None")
    case False
    then show ?thesis by (auto simp: Let_def split: option.splits prod.splits)
  next
    case True
    then obtain w1 e where fn: "fn w = (w1, Some e)" by (cases "fn w") auto
    note ih = Suc.IH [OF d'(2,3), of "Suc k" "Some e" w1]
    have "\<forall>s \<in> set (ro_sleeps (do_loop p env fn left (Suc k) (next_delay p d) (Some e) w1)). d \<le> s \<and> s \<le> p_Max p"
      using ih d'(1) by fastforce
    then show ?thesis
      using True fn ih sleep_time_bounds(1,2) [OF assms(1) Suc.prems] by (auto simp: Let_def)
  qed
qed

lemma do_loop_result:
  "case ro_err (do_loop p env fn left k d le w) of
     None \<Rightarrow> \<exists>n w1. n < left \<and> fails_for fn n w w1 \<and> fn w1 = (ro_world (do_loop p env fn left k d le w), None)
            \<and> ro_calls (do_loop p env fn left k d le w) = k + n + 1
   | Some e \<Rightarrow>
       fails_for fn (ro_calls (do_loop p env fn left k d le w) - k) w (ro_world (do_loop p env fn left k d le w))
       \<and> k \<le> ro_calls (do_loop p env fn left k d le w)
       \<and> ((\<forall>j. re_ctxErr env j = None) \<and> (\<forall>j. re_ctxDone env j = None) \<longrightarrow>
           ro_calls (do_loop p env fn left k d le w) = k + left
           \<and> (\<forall>e' w1. 0 < left \<and> fails_for fn (left - 1) w w1 \<and> snd (fn w1) = Some e' \<longrightarrow> errors_Is e e'))"
proof (induction left arbitrary: k d le w)
  case 0
  then show ?case by simp
next
  case (Suc left)
  obtain w1 r where fn: "fn w = (w1, r)" by (cases "fn w")
  show ?case
  proof (cases "re_ctxErr env k")
    case (Some e)
    then show ?thesis by auto
  next
    case ctx: None
    show ?thesis
    proof (cases r)
      case None
      with ctx fn show ?thesis by (auto intro!: exI [of _ 0])
    next
      case (Some e)
      show ?thesis
      proof (cases "left = 0")
        case True
        have "errors_Is x x" for x by (cases x) auto
        with True ctx fn Some show ?thesis by (auto simp: exhausted_def)
      next
        case left: False
        show ?thesis
        proof (cases "re_ctxDone env k")
          case c: (Some c)
          with left ctx fn Some show ?thesis by auto
        next
          case None
          define q where "q = do_loop p env fn left (Suc k) (next_delay p d) (Some e) w1"
          have eq: "do_loop p env fn (Suc left) k d le w = q\<lparr>ro_sleeps := sleep_time p env k d # ro_sleeps q\<rparr>"
            using None left ctx fn Some by (simp add: q_def Let_def)
          note ih = Suc.IH [where k = "Suc k" and d = "next_delay p d" and le = "Some e" and w = w1, folded q_def]
          have fnw: "fn w = (w1, Some e)" using fn Some by simp
          show ?thesis
          proof (cases "ro_err q")
            case None
            then obtain n w2 where "n < left" "fails_for fn n w1 w2" "fn w2 = (ro_world q, None)" "ro_calls q = Suc k + n + 1"
              using ih by auto
            with None fnw show ?thesis by (simp only: eq) (simp, intro exI [of _ "Suc n"], auto)
          next
            case x: (Some x)
            have calls: "ro_calls q - k = Suc (ro_calls q - Suc k)" "Suc k \<le> ro_calls q" using ih x by auto
            obtain m where m: "left = Suc m" using left by (cases left) auto
            show ?thesis
              unfolding eq using ih x calls fnw m by simp
          qed
        qed
      qed
    qed
  qed
qed

text \<open>
  C28: A retried action is called at most \<open>MaxAttempts\<close> times, with fewer sleeps than
  that, each between the base delay and the maximum. A result without error is the
  result of the first call that succeeded; with a live context an error means that
  every one of the \<open>MaxAttempts\<close> calls failed, and it wraps the error of the last one.
\<close>

theorem retry_bounded:
  assumes env: "rand_ok env" and p: "delay_wf p" and r: "r = Do p env fn w"
  shows "ro_calls r \<le> nat (p_MaxAttempts p) \<and> length (ro_sleeps r) \<le> nat (p_MaxAttempts p) - 1
    \<and> (\<forall>s \<in> set (ro_sleeps r). p_Base p \<le> s \<and> s \<le> p_Max p)
    \<and> (ro_err r = None \<longrightarrow> (\<exists>n w1. n < nat (p_MaxAttempts p) \<and> fails_for fn n w w1
          \<and> fn w1 = (ro_world r, None) \<and> ro_calls r = n + 1))
    \<and> (\<forall>e. ro_err r = Some e \<and> (\<forall>j. re_ctxErr env j = None) \<and> (\<forall>j. re_ctxDone env j = None) \<longrightarrow>
          ro_calls r = nat (p_MaxAttempts p) \<and> fails_for fn (nat (p_MaxAttempts p)) w (ro_world r)
          \<and> (\<forall>e' w1. 0 < nat (p_MaxAttempts p) \<and> fails_for fn (nat (p_MaxAttempts p) - 1) w w1
               \<and> snd (fn w1) = Some e' \<longrightarrow> errors_Is e e'))"
proof -
  have "0 \<le> p_Base p" "p_Base p \<le> p_Max p" using p by (simp_all add: delay_wf_def)
  note s = do_loop_sleeps [OF env p this, of fn "nat (p_MaxAttempts p)" 0 None w, folded Do_def r]
    and q = do_loop_result [where p = p and env = env and fn = fn and left = "nat (p_MaxAttempts p)" and k = 0
        and d = "p_Base p" and le = None and w = w, folded Do_def r]
  from s q show ?thesis by (cases "ro_err r") auto
qed

definition plain_env :: retry_env where
  "plain_env = \<lparr>re_ctxErr = (\<lambda>_. None), re_ctxDone = (\<lambda>_. None), re_rand = (\<lambda>_ _. 0)\<rparr>"

theorem retry_bounded_witness:
  "ro_calls (Do DefaultPolicy plain_env (\<lambda>w. (w + 1, if w < 2 then Some (Foreign 1) else None)) (0 :: nat)) = 3
   \<and> ro_sleeps (Do DefaultPolicy plain_env (\<lambda>w. (w + 1, if w < 2 then Some (Foreign 1) else None)) (0 :: nat))
       = [100 * Millisecond, 200 * Millisecond]
   \<and> list_all (\<lambda>s. 100 * Millisecond \<le> s \<and> s \<le> 5 * Second)
       (ro_sleeps (Do DefaultPolicy plain_env (\<lambda>w. (w + 1, if w < 2 then Some (Foreign 1) else None)) (0 :: nat)))"
proof -
  have "rand_ok plain_env" "delay_wf DefaultPolicy"
    by (simp_all add: rand_ok_def plain_env_def delay_wf_def DefaultPolicy_def Millisecond_def Second_def)
  from retry_bounded [OF this refl, of "\<lambda>w. (w + 1, if w < 2 then Some (Foreign 1) else None)" "0 :: nat"]
  show ?thesis
    by (simp add: Do_def DefaultPolicy_def plain_env_def eval_nat_numeral sleep_time_def next_delay_def Millisecond_def
        Second_def Let_def)
qed

end
