(* ===== verification/Leader_Client.thy ===== *)
theory Leader_Client
  imports Retry
begin

text \<open>
  The connection to the metadata cluster that the storage nodes and the clients use
  (\<^verbatim>\<open>src/internal/leaderclient/leader_cache.go\<close>, \<^verbatim>\<open>client.go\<close>): a cached connection to the
  presumed leader, followed redirects, and rotation through the seed addresses
  with backoff. A connection is the address it was dialled to. A call goes to an
  address, changes the world and yields a reply: a response, or an error with the
  leader address of the trailer, if the server set it.
\<close>

section \<open>The leader cache\<close>

record LeaderCache =
  lc_currentAddr :: string
  lc_seedAddrs :: "string list"
  lc_nextIdx :: nat
  lc_conn :: "string option"

definition NewLeaderCache :: "string list \<Rightarrow> LeaderCache" where
  "NewLeaderCache seedAddrs = \<lparr>lc_currentAddr = '''', lc_seedAddrs = seedAddrs, lc_nextIdx = 0, lc_conn = None\<rparr>"

text \<open>\<open>dial addr\<close> is the error of \<open>grpc.NewClient\<close> for an address.\<close>

definition lc_Update :: "(string \<Rightarrow> goerror option) \<Rightarrow> LeaderCache \<Rightarrow> string \<Rightarrow> LeaderCache \<times> goerror option" where
  "lc_Update dial c addr =
     (case dial addr of
        Some e \<Rightarrow> (c, Some (Wrap ''leaderclient: failed to dial'' e))
      | None \<Rightarrow>
          if lc_currentAddr c = addr \<and> lc_conn c \<noteq> None then (c, None)
          else (c\<lparr>lc_conn := Some addr, lc_currentAddr := addr\<rparr>, None))"

definition NextAddr :: "LeaderCache \<Rightarrow> string" where
  "NextAddr c =
     (if lc_seedAddrs c = [] then lc_currentAddr c
      else lc_seedAddrs c ! (lc_nextIdx c mod length (lc_seedAddrs c)))"

definition AdvanceNextIdx :: "LeaderCache \<Rightarrow> LeaderCache" where
  "AdvanceNextIdx c = c\<lparr>lc_nextIdx := lc_nextIdx c + 1\<rparr>"

section \<open>Calls\<close>

definition isRetryableCode :: "grpc_code \<Rightarrow> bool" where
  "isRetryableCode c \<longleftrightarrow> c \<in> {Unavailable, DeadlineExceeded, Aborted, FailedPrecondition}"

text \<open>\<open>status.FromError\<close>: the code of a status error, also of a wrapped one.\<close>

fun status_code :: "goerror \<Rightarrow> grpc_code option" where
  "status_code (Status c m) = Some c"
| "status_code (Wrap m e) = status_code e"
| "status_code (Join a b) = (case status_code a of None \<Rightarrow> status_code b | Some c \<Rightarrow> Some c)"
| "status_code _ = None"

record LeaderAwareClient =
  la_cache :: LeaderCache
  la_retryPolicy :: Policy

fun new_loop :: "(string \<Rightarrow> goerror option) \<Rightarrow> LeaderCache \<Rightarrow> string list \<Rightarrow> LeaderCache option" where
  "new_loop dial c [] = None"
| "new_loop dial c (addr # addrs) =
     (case lc_Update dial c addr of
        (c', None) \<Rightarrow> Some c'
      | (c', Some e) \<Rightarrow> new_loop dial (AdvanceNextIdx c') addrs)"

definition NewLeaderAwareClient :: "(string \<Rightarrow> goerror option) \<Rightarrow> string list \<Rightarrow> Policy \<Rightarrow> LeaderAwareClient result" where
  "NewLeaderAwareClient dial seedAddrs rp =
     (case new_loop dial (NewLeaderCache seedAddrs) seedAddrs of
        Some c \<Rightarrow> Inr \<lparr>la_cache = c, la_retryPolicy = rp\<rparr>
      | None \<Rightarrow> Inl (NewError ''leaderclient: failed to connect to any seed address''))"

type_synonym 'r rpc_reply = "(goerror \<times> string option) + 'r"

record ('w, 'r) invoke_outcome =
  io_world :: 'w
  io_cache :: LeaderCache
  io_reply :: "'r result"
  io_calls :: "string list"
  io_sleeps :: "duration list"

text \<open>
  The loop, by the number of attempts left; \<open>rotate\<close> moves on to the next seed address.
\<close>

definition rotate_seed :: "(string \<Rightarrow> goerror option) \<Rightarrow> LeaderCache \<Rightarrow> LeaderCache" where
  "rotate_seed dial c =
     (let c1 = AdvanceNextIdx c; nextAddr = NextAddr c1
      in if lc_conn c1 = None \<or> nextAddr \<noteq> '''' then fst (lc_Update dial c1 nextAddr) else c1)"

definition follow_redirect ::
  "(string \<Rightarrow> goerror option) \<Rightarrow> LeaderCache \<Rightarrow> goerror \<Rightarrow> string option \<Rightarrow> LeaderCache option" where
  "follow_redirect dial c e trailer =
     (if status_code e = Some FailedPrecondition then
        (case trailer of
           None \<Rightarrow> None
         | Some addr \<Rightarrow> (case lc_Update dial c addr of (c', None) \<Rightarrow> Some c' | (c', Some x) \<Rightarrow> None))
      else None)"

fun invoke_loop ::
  "Policy \<Rightarrow> retry_env \<Rightarrow> (string \<Rightarrow> goerror option) \<Rightarrow> ('w \<Rightarrow> string \<Rightarrow> 'w \<times> 'r rpc_reply)
   \<Rightarrow> nat \<Rightarrow> nat \<Rightarrow> duration \<Rightarrow> LeaderCache \<Rightarrow> 'w \<Rightarrow> ('w, 'r) invoke_outcome" where
  "invoke_loop p env dial call 0 attempt delay c w =
     \<lparr>io_world = w, io_cache = c, io_reply = Inl (NewError ''leaderclient: RPC failed''), io_calls = [], io_sleeps = []\<rparr>"
| "invoke_loop p env dial call (Suc left) attempt delay c w =
     (case re_ctxErr env attempt of
        Some e \<Rightarrow> \<lparr>io_world = w, io_cache = c, io_reply = Inl e, io_calls = [], io_sleeps = []\<rparr>
      | None \<Rightarrow>
     (case lc_conn c of
        None \<Rightarrow> \<lparr>io_world = w, io_cache = c,
                 io_reply = Inl (NewError ''leaderclient: no metadata connection available''), io_calls = [], io_sleeps = []\<rparr>
      | Some addr \<Rightarrow>
     (case call w addr of
        (w', Inr r) \<Rightarrow> \<lparr>io_world = w', io_cache = c, io_reply = Inr r, io_calls = [addr], io_sleeps = []\<rparr>
      | (w', Inl (e, trailer)) \<Rightarrow>
          (case follow_redirect dial c e trailer of
             Some c' \<Rightarrow>
               (let o1 = invoke_loop p env dial call left (Suc attempt) delay c' w'
                in o1\<lparr>io_calls := addr # io_calls o1\<rparr>)
           | None \<Rightarrow>
               if (case status_code e of None \<Rightarrow> False | Some code \<Rightarrow> \<not> isRetryableCode code)
               then \<lparr>io_world = w', io_cache = c, io_reply = Inl e, io_calls = [addr], io_sleeps = []\<rparr>
               else if left = 0 then
                 (let o1 = invoke_loop p env dial call 0 (Suc attempt) delay c w' in o1\<lparr>io_calls := addr # io_calls o1\<rparr>)
               else
                 (let c1 = rotate_seed dial c in
                  case re_ctxDone env attempt of
                    Some x \<Rightarrow> \<lparr>io_world = w', io_cache = c1, io_reply = Inl x, io_calls = [addr], io_sleeps = []\<rparr>
                  | None \<Rightarrow>
                      (let o1 = invoke_loop p env dial call left (Suc attempt) (next_delay p delay) c1 w'
                       in o1\<lparr>io_calls := addr # io_calls o1,
                             io_sleeps := sleep_time p env attempt delay # io_sleeps o1\<rparr>))))))"

definition Invoke ::
  "retry_env \<Rightarrow> (string \<Rightarrow> goerror option) \<Rightarrow> ('w \<Rightarrow> string \<Rightarrow> 'w \<times> 'r rpc_reply) \<Rightarrow> LeaderAwareClient \<Rightarrow> 'w
   \<Rightarrow> ('w, 'r) invoke_outcome" where
  "Invoke env dial call cl w =
     invoke_loop (la_retryPolicy cl) env dial call (nat (p_MaxAttempts (la_retryPolicy cl))) 0
       (p_Base (la_retryPolicy cl)) (la_cache cl) w"

section \<open>What a call does\<close>

lemma invoke_loop_bounded:
  "length (io_calls (invoke_loop p env dial call left k d c w)) \<le> left
   \<and> length (io_sleeps (invoke_loop p env dial call left k d c w)) \<le> left - 1
   \<and> (\<forall>r. io_reply (invoke_loop p env dial call left k d c w) = Inr r \<longrightarrow>
        (\<exists>w1. io_calls (invoke_loop p env dial call left k d c w) \<noteq> [] \<and>
           call w1 (last (io_calls (invoke_loop p env dial call left k d c w))) =
             (io_world (invoke_loop p env dial call left k d c w), Inr r)))"
proof (induction left arbitrary: k d c w)
  case 0
  then show ?case by simp
next
  case (Suc left)
  show ?case
  proof (cases "re_ctxErr env k")
    case None
    note ctx = this
    show ?thesis
    proof (cases "lc_conn c")
      case (Some addr)
      obtain w' reply where call: "call w addr = (w', reply)" by (cases "call w addr")
      show ?thesis
      proof (cases reply)
        case (Inr r)
        with ctx Some call show ?thesis by auto
      next
        case (Inl et)
        then obtain e t where et: "reply = Inl (e, t)" by (cases et) auto
        let ?rec = "\<lambda>left d c. invoke_loop p env dial call left (Suc k) d c w'"
        consider (redirect) c' where "follow_redirect dial c e t = Some c'"
          | (stop) "follow_redirect dial c e t = None" "case status_code e of None \<Rightarrow> False | Some code \<Rightarrow> \<not> isRetryableCode code"
          | (exhausted) "follow_redirect dial c e t = None"
              "\<not> (case status_code e of None \<Rightarrow> False | Some code \<Rightarrow> \<not> isRetryableCode code)" "left = 0"
          | (retry) "follow_redirect dial c e t = None"
              "\<not> (case status_code e of None \<Rightarrow> False | Some code \<Rightarrow> \<not> isRetryableCode code)" "left \<noteq> 0"
          by blast
        then show ?thesis
        proof cases
          case redirect
          then show ?thesis using Suc.IH [of "Suc k" d c' w'] ctx Some call et
            by (auto simp: Let_def)
        next
          case stop
          then show ?thesis using ctx Some call et by simp
        next
          case exhausted
          then show ?thesis using ctx Some call et by (simp add: Let_def)
        next
          case retry
          then show ?thesis
            using Suc.IH [of "Suc k" "next_delay p d" "rotate_seed dial c" w'] ctx Some call et
            by (cases "re_ctxDone env k") (auto simp: Let_def)
        qed
      qed
    qed (use ctx in simp)
  qed simp
qed

text \<open>One round of the loop, for a followed redirect and for a retry.\<close>

lemma invoke_redirected:
  assumes "re_ctxErr env k = None" "lc_conn c = Some a" "call w a = (w', Inl (e, t))" "follow_redirect dial c e t = Some c'"
  shows "invoke_loop p env dial call (Suc left) k d c w =
    (let o1 = invoke_loop p env dial call left (Suc k) d c' w' in o1\<lparr>io_calls := a # io_calls o1\<rparr>)"
  using assms by simp

lemma invoke_retried:
  assumes "re_ctxErr env k = None" "re_ctxDone env k = None" "lc_conn c = Some a" "call w a = (w', Inl (e, t))"
    "follow_redirect dial c e t = None" "status_code e = Some code" "isRetryableCode code" "0 < left"
  shows "invoke_loop p env dial call (Suc left) k d c w =
    (let o1 = invoke_loop p env dial call left (Suc k) (next_delay p d) (rotate_seed dial c) w'
     in o1\<lparr>io_calls := a # io_calls o1, io_sleeps := sleep_time p env k d # io_sleeps o1\<rparr>)"
  using assms by simp

section \<open>Reaching the leader\<close>

text \<open>
  What a client relies on of a cluster in a state \<open>ok w\<close>: a server that is up and is not
  the leader redirects to it, a server that is down is unavailable, neither changes
  anything, and the leader decides the call.
\<close>

definition decisive :: "'r rpc_reply \<Rightarrow> bool" where
  "decisive reply = (case reply of
      Inr _ \<Rightarrow> True
    | Inl (e, t) \<Rightarrow> (case status_code e of None \<Rightarrow> False | Some code \<Rightarrow> \<not> isRetryableCode code))"

definition plain_reply :: "'r rpc_reply \<Rightarrow> 'r result" where
  "plain_reply reply = (case reply of Inr r \<Rightarrow> Inr r | Inl (e, t) \<Rightarrow> Inl e)"

locale leader_cluster =
  fixes call :: "'w \<Rightarrow> string \<Rightarrow> 'w \<times> 'r rpc_reply"
    and leader :: string
    and ok :: "'w \<Rightarrow> bool"
    and up :: "'w \<Rightarrow> string \<Rightarrow> bool"
  assumes leader_decides: "ok w \<Longrightarrow> decisive (snd (call w leader))"
    and follower_redirects: "ok w \<Longrightarrow> up w a \<Longrightarrow> a \<noteq> leader \<Longrightarrow>
      \<exists>m. call w a = (w, Inl (Status FailedPrecondition m, Some leader))"
    and down_unavailable: "ok w \<Longrightarrow> \<not> up w a \<Longrightarrow> a \<noteq> leader \<Longrightarrow> \<exists>m. call w a = (w, Inl (Status Unavailable m, None))"
begin

lemma at_leader:
  assumes "ok w" "lc_conn c = Some leader" "re_ctxErr env k = None"
  shows "io_world (invoke_loop p env dial call (Suc left) k d c w) = fst (call w leader)
    \<and> io_reply (invoke_loop p env dial call (Suc left) k d c w) = plain_reply (snd (call w leader))"
proof -
  obtain w' reply where call: "call w leader = (w', reply)" by (cases "call w leader")
  have dec: "decisive reply" using leader_decides [OF assms(1)] call by simp
  show ?thesis
  proof (cases reply)
    case (Inl et)
    then obtain e t code where e: "reply = Inl (e, t)" "status_code e = Some code" "\<not> isRetryableCode code"
      using dec by (cases et) (auto simp: decisive_def split: option.splits)
    then have "follow_redirect dial c e t = None" by (auto simp: follow_redirect_def isRetryableCode_def)
    with e assms call show ?thesis by (simp add: plain_reply_def)
  qed (use assms call in \<open>simp add: plain_reply_def\<close>)
qed

lemma at_up_server:
  assumes "ok w" "lc_conn c = Some a" "lc_currentAddr c = a" "a = leader \<or> up w a" "\<And>j. re_ctxErr env j = None"
    "\<And>b. dial b = None"
  shows "io_world (invoke_loop p env dial call (Suc (Suc l)) k d c w) = fst (call w leader)
    \<and> io_reply (invoke_loop p env dial call (Suc (Suc l)) k d c w) = plain_reply (snd (call w leader))"
proof (cases "a = leader")
  case True
  with assms(2) show ?thesis by (intro at_leader [OF assms(1) _ assms(5)]) simp
next
  case False
  with follower_redirects assms(1,4) obtain m where
    call: "call w a = (w, Inl (Status FailedPrecondition m, Some leader))" by blast
  define c' where "c' = c\<lparr>lc_conn := Some leader, lc_currentAddr := leader\<rparr>"
  have "follow_redirect dial c (Status FailedPrecondition m) (Some leader) = Some c'"
    using assms(3,6) False by (simp add: follow_redirect_def lc_Update_def c'_def)
  note step = invoke_redirected [where call = call and w = w and a = a, OF assms(5,2) call this]
  have "lc_conn c' = Some leader" by (simp add: c'_def)
  from at_leader [where p = p and dial = dial and left = l and k = "Suc k" and d = d, OF assms(1) this assms(5)]
  show ?thesis unfolding step by (simp del: invoke_loop.simps add: Let_def)
qed

lemma reaches_leader:
  assumes "ok w" "lc_conn c = Some a" "lc_currentAddr c = a" "\<And>j. re_ctxErr env j = None" "\<And>j. re_ctxDone env j = None"
    "\<And>b. dial b = None" "seeds \<noteq> []" "'''' \<notin> set seeds" "lc_seedAddrs c = seeds"
    "a = leader \<or> up w a \<or> (\<exists>j. 1 \<le> j \<and> j \<le> n \<and> (seeds ! ((lc_nextIdx c + j) mod length seeds) = leader
                                 \<or> up w (seeds ! ((lc_nextIdx c + j) mod length seeds))))"
  shows "io_world (invoke_loop p env dial call (Suc (Suc (n + l))) k d c w) = fst (call w leader)
    \<and> io_reply (invoke_loop p env dial call (Suc (Suc (n + l))) k d c w) = plain_reply (snd (call w leader))"
  using assms(2,3,9,10)
proof (induction n arbitrary: a k d c)
  case 0
  then show ?case using at_up_server [OF assms(1) 0(1,2) _ assms(4,6)] by auto
next
  case (Suc n)
  show ?case
  proof (cases "a = leader \<or> up w a")
    case True
    from at_up_server [OF assms(1) Suc.prems(1,2) True assms(4,6)] show ?thesis by simp
  next
    case False
    then obtain m where call: "call w a = (w, Inl (Status Unavailable m, None))" using down_unavailable assms(1) by blast
    define b where "b = seeds ! ((lc_nextIdx c + 1) mod length seeds)"
    define c' where "c' = c\<lparr>lc_nextIdx := lc_nextIdx c + 1, lc_conn := Some b, lc_currentAddr := b\<rparr>"
    have "b \<in> set seeds" using assms(7) by (simp add: b_def)
    then have "b \<noteq> ''''" using assms(8) by auto
    then have rot: "rotate_seed dial c = c'"
      using assms(6,7) Suc.prems by (auto simp: rotate_seed_def NextAddr_def AdvanceNextIdx_def lc_Update_def b_def c'_def Let_def)
    have "follow_redirect dial c (Status Unavailable m) None = None" by (simp add: follow_redirect_def)
    note step = invoke_retried [where call = call and w = w and a = a, OF assms(4,5) Suc.prems(1) call this, where code = Unavailable, unfolded rot]
    from Suc.prems(4) False obtain j where j: "1 \<le> j" "j \<le> Suc n" "seeds ! ((lc_nextIdx c + j) mod length seeds) = leader
        \<or> up w (seeds ! ((lc_nextIdx c + j) mod length seeds))" by blast
    have "b = leader \<or> up w b \<or> (\<exists>j. 1 \<le> j \<and> j \<le> n \<and> (seeds ! ((lc_nextIdx c' + j) mod length seeds) = leader
        \<or> up w (seeds ! ((lc_nextIdx c' + j) mod length seeds))))"
      using j by (cases "j = 1") (auto simp: b_def c'_def intro!: exI [of _ "j - 1"])
    from Suc.IH [of c' b, OF _ _ _ this] Suc.prems(3)
    show ?thesis using step by (simp del: invoke_loop.simps add: Let_def isRetryableCode_def c'_def)
  qed
qed

end

lemma rotation_covers:
  assumes "i < (n :: nat)"
  shows "\<exists>j. 1 \<le> j \<and> j \<le> n \<and> (idx + j) mod n = i"
proof -
  define r where "r = idx mod n"
  have r: "r < n" "idx = n * (idx div n) + r" using assms by (simp_all add: r_def)
  have "(idx + j) mod n = (r + j) mod n" for j by (simp add: r_def mod_add_left_eq)
  moreover have "\<exists>j. 1 \<le> j \<and> j \<le> n \<and> (r + j) mod n = i"
  proof (cases "r < i")
    case True
    then show ?thesis using assms by (intro exI [of _ "i - r"]) auto
  next
    case False
    then have "(r + (n + i - r)) mod n = i" using assms r(1) by simp
    then show ?thesis using False r(1) assms by (intro exI [of _ "n + i - r"]) auto
  qed
  ultimately show ?thesis by simp
qed

context leader_cluster
begin

lemma Invoke_reaches_leader:
  assumes "ok w" "lc_conn (la_cache cl) = Some a" "lc_currentAddr (la_cache cl) = a"
    "\<And>j. re_ctxErr env j = None" "\<And>j. re_ctxDone env j = None" "\<And>b. dial b = None"
    "s \<in> set (lc_seedAddrs (la_cache cl))" "s = leader \<or> up w s" "'''' \<notin> set (lc_seedAddrs (la_cache cl))"
    "int (length (lc_seedAddrs (la_cache cl))) + 2 \<le> p_MaxAttempts (la_retryPolicy cl)"
  shows "io_world (Invoke env dial call cl w) = fst (call w leader)
    \<and> io_reply (Invoke env dial call cl w) = plain_reply (snd (call w leader))"
proof -
  define seeds where "seeds = lc_seedAddrs (la_cache cl)"
  obtain i where i: "i < length seeds" "seeds ! i = s" using assms(7) by (auto simp: seeds_def in_set_conv_nth)
  obtain j where "1 \<le> j" "j \<le> length seeds" "(lc_nextIdx (la_cache cl) + j) mod length seeds = i"
    using rotation_covers [OF i(1)] by blast
  with i(2) assms(8) have hit: "a = leader \<or> up w a \<or> (\<exists>j. 1 \<le> j \<and> j \<le> length seeds
      \<and> (seeds ! ((lc_nextIdx (la_cache cl) + j) mod length seeds) = leader
         \<or> up w (seeds ! ((lc_nextIdx (la_cache cl) + j) mod length seeds))))" by blast
  have "length seeds + 2 \<le> nat (p_MaxAttempts (la_retryPolicy cl))" using assms(10) by (simp add: seeds_def)
  then obtain l where l: "nat (p_MaxAttempts (la_retryPolicy cl)) = Suc (Suc (length seeds + l))"
    by (metis add_2_eq_Suc' add_Suc le_Suc_ex)
  have "seeds \<noteq> []" "'''' \<notin> set seeds" using i(1) assms(9) by (auto simp: seeds_def)
  from reaches_leader [OF assms(1-6) this _ hit] show ?thesis unfolding Invoke_def l by (simp add: seeds_def)
qed

end

text \<open>A client that has just been created is connected to its first reachable seed.\<close>

lemma NewLeaderAwareClient_connected:
  assumes "\<And>b. dial b = None"
  shows "NewLeaderAwareClient dial (a # seeds) rp =
    Inr \<lparr>la_cache = \<lparr>lc_currentAddr = a, lc_seedAddrs = a # seeds, lc_nextIdx = 0, lc_conn = Some a\<rparr>, la_retryPolicy = rp\<rparr>"
  using assms by (simp add: NewLeaderAwareClient_def NewLeaderCache_def lc_Update_def)

text \<open>
  A call makes at most \<open>MaxAttempts\<close> attempts, whatever the servers answer, redirects
  included, and sleeps fewer times; if it returns a response, that is the answer of
  the last server called.
\<close>

lemma invoke_bounded:
  assumes r: "r = Invoke env dial call cl w"
  shows "int (length (io_calls r)) \<le> max 0 (p_MaxAttempts (la_retryPolicy cl))
    \<and> int (length (io_sleeps r)) \<le> max 0 (p_MaxAttempts (la_retryPolicy cl) - 1)
    \<and> (\<forall>x. io_reply r = Inr x \<longrightarrow> io_calls r \<noteq> [] \<and> (\<exists>w1. call w1 (last (io_calls r)) = (io_world r, Inr x)))"
proof -
  let ?n = "nat (p_MaxAttempts (la_retryPolicy cl))"
  note b = invoke_loop_bounded [of "la_retryPolicy cl" env dial call ?n 0 "p_Base (la_retryPolicy cl)" "la_cache cl" w,
      folded Invoke_def r]
  then have "length (io_calls r) \<le> ?n" "length (io_sleeps r) \<le> ?n - 1" by simp_all
  then have "int (length (io_calls r)) \<le> max 0 (p_MaxAttempts (la_retryPolicy cl))"
    "int (length (io_sleeps r)) \<le> max 0 (p_MaxAttempts (la_retryPolicy cl) - 1)" by linarith+
  with b show ?thesis by blast
qed

text \<open>
  A followed redirect uses up an attempt: with a single attempt a redirected call
  fails although the leader is known.
\<close>

lemma redirect_uses_attempt:
  assumes "p_MaxAttempts (la_retryPolicy cl) = 1" "lc_conn (la_cache cl) = Some a" "re_ctxErr env 0 = None"
    "call w a = (w', Inl (Status FailedPrecondition m, Some leader))" "dial leader = None"
  shows "io_reply (Invoke env dial call cl w) = Inl (NewError ''leaderclient: RPC failed'')
    \<and> lc_conn (io_cache (Invoke env dial call cl w)) \<noteq> None"
  using assms by (simp add: Invoke_def follow_redirect_def lc_Update_def Let_def)

end
