(* ===== verification/Metadata_Cluster.thy ===== *)
theory Metadata_Cluster
  imports Metadata_Server Leader_Client
begin

text \<open>
  The metadata servers behind the leader client: a cluster maps the gRPC address of
  every running node to its handler state; a call to an address without a running
  node is refused. The interface that the client relies on is established for every
  handler of \<^verbatim>\<open>src/metadata/server\<close>, each of which starts with the leadership check.
\<close>

type_synonym cluster = "string \<rightharpoonup> MetadataServiceHandler"
type_synonym 'r handler = "server_env \<Rightarrow> MetadataServiceHandler \<Rightarrow> MetadataServiceHandler \<times> 'r reply"

definition cluster_call :: "(string \<Rightarrow> server_env) \<Rightarrow> 'r handler \<Rightarrow> cluster \<Rightarrow> string \<Rightarrow> cluster \<times> 'r rpc_reply" where
  "cluster_call envs H w a =
     (case w a of
        None \<Rightarrow> (w, Inl (Status Unavailable ''connection refused'', None))
      | Some h \<Rightarrow> (case H (envs a) h of (h', r) \<Rightarrow> (w(a \<mapsto> h'), r)))"

definition redirects :: "'r handler \<Rightarrow> bool" where
  "redirects H \<longleftrightarrow> (\<forall>e h. \<not> se_isLeader e \<longrightarrow> H e h = (h, Inl (leaderRedirect e (w_fsm (sv_world h)))))"

text \<open>
  An elected cluster: the leader runs and decides the call, and every other running
  node is a follower that knows the gRPC address of the leader.
\<close>

definition elected :: "(string \<Rightarrow> server_env) \<Rightarrow> 'r handler \<Rightarrow> string \<Rightarrow> cluster \<Rightarrow> bool" where
  "elected envs H leader w \<longleftrightarrow>
     redirects H \<and> w leader \<noteq> None \<and> decisive (snd (cluster_call envs H w leader))
     \<and> (\<forall>a h. w a = Some h \<and> a \<noteq> leader \<longrightarrow>
          \<not> se_isLeader (envs a) \<and> se_leaderAddr (envs a) \<noteq> ''''
          \<and> (\<exists>m. mdNodeRegistry (w_fsm (sv_world h)) (se_leaderAddr (envs a)) = Some m \<and> mn_GrpcAddr m = leader))"

lemma follower_call:
  assumes "elected envs H leader w" "w a = Some h" "a \<noteq> leader"
  shows "cluster_call envs H w a = (w, Inl (Status FailedPrecondition ''not leader'', Some leader))"
proof -
  from assms obtain m where m: "\<not> se_isLeader (envs a)" "se_leaderAddr (envs a) \<noteq> ''''"
    "mdNodeRegistry (w_fsm (sv_world h)) (se_leaderAddr (envs a)) = Some m" "mn_GrpcAddr m = leader"
    unfolding elected_def by blast
  then have "H (envs a) h = (h, Inl (Status FailedPrecondition ''not leader'', Some leader))"
    using assms(1) by (simp add: elected_def redirects_def leaderRedirect_def GetMetadataNodeByRaftAddr_def)
  then show ?thesis using assms(2) by (simp add: cluster_call_def fun_upd_idem)
qed

interpretation metadata: leader_cluster "cluster_call envs H" leader "elected envs H leader" "\<lambda>w a. w a \<noteq> None"
  for envs :: "string \<Rightarrow> server_env" and H :: "'r handler" and leader :: string
proof
  show "decisive (snd (cluster_call envs H w leader))" if "elected envs H leader w" for w
    using that by (simp add: elected_def)
  show "\<exists>m. cluster_call envs H w a = (w, Inl (Status FailedPrecondition m, Some leader))"
    if "elected envs H leader w" "w a \<noteq> None" "a \<noteq> leader" for w a
    using follower_call [OF that(1) _ that(3)] that(2) by blast
  show "\<exists>m. cluster_call envs H w a = (w, Inl (Status Unavailable m, None))"
    if "elected envs H leader w" "\<not> w a \<noteq> None" "a \<noteq> leader" for w a
    using that by (simp add: cluster_call_def)
qed

lemma handlers_redirect:
  "redirects (\<lambda>e h. RegisterNode e h rnq)" "redirects (\<lambda>e h. DeregisterNode e ord ords h n)"
  "redirects (\<lambda>e h. Heartbeat e h hbq)" "redirects (\<lambda>e h. srv_CreateFile e ord h cfq)"
  "redirects (\<lambda>e h. srv_GetFile e h f)" "redirects (\<lambda>e h. srv_DeleteFile e h f)"
  "redirects (\<lambda>e h. srv_ListFiles srt e ord h p)" "redirects (\<lambda>e h. srv_CommitFile e h f sz cs)"
  "redirects (\<lambda>e h. srv_CommitChunk e ord h c ns cs)" "redirects (\<lambda>e h. srv_GetChunkLocations e h c)"
  "redirects (\<lambda>e h. ReportCorruption e ord h c r)" "redirects (\<lambda>e h. ReportRepairResult e h n j ok msg)"
  by (simp_all add: redirects_def RegisterNode_def DeregisterNode_def Heartbeat_def srv_CreateFile_def srv_GetFile_def
      srv_DeleteFile_def srv_ListFiles_def srv_CommitFile_def srv_CommitChunk_def srv_GetChunkLocations_def
      ReportCorruption_def ReportRepairResult_def on_leader_def)


definition demo_follower :: MetadataServiceHandler where
  "demo_follower = NewMetadataServiceHandler
     (demo_world\<lparr>w_fsm := demo_state\<lparr>mdNodeRegistry :=
        [''r1:7000'' \<mapsto> \<lparr>mn_NodeID = ''m1'', mn_RaftAddr = ''r1:7000'', mn_GrpcAddr = ''m1:9000''\<rparr>]\<rparr>\<rparr>) demo_reconciler"

definition demo_envs :: "string \<Rightarrow> server_env" where
  "demo_envs a = (leader_env (\<lambda>_. []) (\<lambda>_. ''u'') (\<lambda>_. 9) (MostFreeSpaceStrategy insertionSort) 2)
     \<lparr>se_isLeader := (a = ''m1:9000''), se_leaderAddr := ''r1:7000''\<rparr>"

definition demo_cluster :: cluster where
  "demo_cluster = [''m1:9000'' \<mapsto> demo_server, ''m2:9000'' \<mapsto> demo_follower]"

definition demo_client :: LeaderAwareClient where
  "demo_client = \<lparr>la_cache = \<lparr>lc_currentAddr = ''m3:9000'', lc_seedAddrs = [''m3:9000'', ''m2:9000''], lc_nextIdx = 0,
     lc_conn = Some ''m3:9000''\<rparr>, la_retryPolicy = DefaultPolicy\<rparr>"


end
