(* ===== verification/Peer_Dialer.thy ===== *)
theory Peer_Dialer
  imports Prelude
begin

text \<open>
  The pool of connections to peer storage nodes
  (\<^verbatim>\<open>src/storage/replication/peer_dialer.go\<close>). A connection is a number, fresh for every
  successful \<open>grpc.NewClient\<close>; the pool remembers which ones it has closed. The health
  of a connection may change between the check under the read lock and the check
  under the write lock, so \<open>pd_Get\<close> takes one observation for each.
\<close>

datatype ConnState = Idle | Connecting | Ready | TransientFailure | Shutdown

definition isHealthy :: "ConnState \<Rightarrow> bool" where
  "isHealthy s \<longleftrightarrow> s \<noteq> TransientFailure \<and> s \<noteq> Shutdown"

record PeerDialer =
  pd_conns :: "string \<rightharpoonup> nat"
  pd_closed :: "nat list"
  pd_next :: nat

definition NewPeerDialer :: PeerDialer where
  "NewPeerDialer = \<lparr>pd_conns = Map.empty, pd_closed = [], pd_next = 0\<rparr>"

definition close_conn :: "string \<Rightarrow> PeerDialer \<Rightarrow> PeerDialer" where
  "close_conn address d =
     (case pd_conns d address of
        None \<Rightarrow> d
      | Some conn \<Rightarrow> d\<lparr>pd_closed := conn # pd_closed d, pd_conns := (pd_conns d)(address := None)\<rparr>)"

definition cached :: "(nat \<Rightarrow> ConnState) \<Rightarrow> PeerDialer \<Rightarrow> string \<Rightarrow> nat option" where
  "cached st d address =
     (case pd_conns d address of None \<Rightarrow> None | Some conn \<Rightarrow> if isHealthy (st conn) then Some conn else None)"

text \<open>\<open>dialErr\<close> is the error of \<open>grpc.NewClient\<close>, which opens no connection when it fails.\<close>

definition pd_Get ::
  "(nat \<Rightarrow> ConnState) \<Rightarrow> (nat \<Rightarrow> ConnState) \<Rightarrow> goerror option \<Rightarrow> PeerDialer \<Rightarrow> string \<Rightarrow> PeerDialer \<times> nat result" where
  "pd_Get sa sb dialErr d address =
     (case cached sa d address of
        Some conn \<Rightarrow> (d, Inr conn)
      | None \<Rightarrow>
     (case cached sb d address of
        Some conn \<Rightarrow> (d, Inr conn)
      | None \<Rightarrow>
          (let d1 = close_conn address d in
           case dialErr of
             Some e \<Rightarrow> (d1, Inl (Wrap ''PeerDialer.Get: dial failed'' e))
           | None \<Rightarrow> (d1\<lparr>pd_conns := (pd_conns d1)(address \<mapsto> pd_next d1), pd_next := pd_next d1 + 1\<rparr>, Inr (pd_next d1)))))"

definition pd_Remove :: "PeerDialer \<Rightarrow> string \<Rightarrow> PeerDialer" where
  "pd_Remove d address = close_conn address d"

text \<open>\<open>addrs\<close> is the order in which the map is traversed: every key once.\<close>

definition pd_CloseAll :: "PeerDialer \<Rightarrow> string list \<Rightarrow> PeerDialer" where
  "pd_CloseAll d addrs = fold close_conn addrs d"

inductive dialer_step :: "PeerDialer \<Rightarrow> PeerDialer \<Rightarrow> bool" where
  Get: "dialer_step d (fst (pd_Get sa sb dialErr d address))"
| Remove: "dialer_step d (pd_Remove d address)"
| CloseAll: "set addrs = dom (pd_conns d) \<Longrightarrow> distinct addrs \<Longrightarrow> dialer_step d (pd_CloseAll d addrs)"

text \<open>
  Every connection ever opened is either pooled, under one address, or has been
  closed once: none leaks, and no closed connection is handed out.
\<close>

definition dialer_inv :: "PeerDialer \<Rightarrow> bool" where
  "dialer_inv d \<longleftrightarrow>
     inj_on (pd_conns d) (dom (pd_conns d)) \<and> distinct (pd_closed d)
     \<and> ran (pd_conns d) \<inter> set (pd_closed d) = {} \<and> ran (pd_conns d) \<union> set (pd_closed d) = {..<pd_next d}"

lemma close_conn_inv:
  assumes "dialer_inv d"
  shows "dialer_inv (close_conn address d)"
proof (cases "pd_conns d address")
  case None
  with assms show ?thesis by (simp add: close_conn_def)
next
  case (Some conn)
  have inj: "inj_on (pd_conns d) (dom (pd_conns d))" using assms by (simp add: dialer_inv_def)
  have other: "pd_conns d b \<noteq> Some conn" if "b \<noteq> address" for b
    using inj_onD [OF inj, of b address] that Some by (auto simp: domIff)
  then have ran: "ran ((pd_conns d)(address := None)) = ran (pd_conns d) - {conn}"
    using Some by (auto simp: ran_def) (metis option.inject)
  have "conn \<in> ran (pd_conns d)" using Some by (auto simp: ran_def)
  moreover have "inj_on ((pd_conns d)(address := None)) (dom ((pd_conns d)(address := None)))"
    using inj by (auto simp: inj_on_def)
  ultimately show ?thesis using assms Some ran by (auto simp: dialer_inv_def close_conn_def)
qed

lemma close_conn_conns [simp]:
  "pd_conns (close_conn address d) = (pd_conns d)(address := None)" "pd_next (close_conn address d) = pd_next d"
  by (auto simp: close_conn_def split: option.split)

lemma open_conn_inv:
  assumes inv: "dialer_inv d" and new: "pd_conns d address = None"
  shows "dialer_inv (d\<lparr>pd_conns := (pd_conns d)(address \<mapsto> pd_next d), pd_next := pd_next d + 1\<rparr>)"
proof -
  have below: "ran (pd_conns d) \<union> set (pd_closed d) = {..<pd_next d}" using inv by (simp add: dialer_inv_def)
  then have "pd_next d \<notin> ran (pd_conns d)" "pd_next d \<notin> set (pd_closed d)" by blast+
  moreover have "ran ((pd_conns d)(address \<mapsto> pd_next d)) = insert (pd_next d) (ran (pd_conns d))"
    using new by (simp add: ran_map_upd)
  moreover have "inj_on ((pd_conns d)(address \<mapsto> pd_next d)) (insert address (dom (pd_conns d)))"
    using inv calculation(1) by (auto simp: dialer_inv_def inj_on_def ran_def)
  moreover have "{..<pd_next d + 1} = insert (pd_next d) {..<pd_next d}" by auto
  ultimately show ?thesis using inv below by (auto simp: dialer_inv_def)
qed

lemma pd_Get_inv:
  assumes "dialer_inv d"
  shows "dialer_inv (fst (pd_Get sa sb dialErr d address))"
  using open_conn_inv [OF close_conn_inv [OF assms], where address = address and address1 = address]
    close_conn_inv [OF assms, of address] assms
  by (auto simp: pd_Get_def Let_def split: option.split)

lemma CloseAll_conns: "pd_conns (pd_CloseAll d addrs) = (\<lambda>a. if a \<in> set addrs then None else pd_conns d a)"
  "pd_next (pd_CloseAll d addrs) = pd_next d"
  by (induction addrs arbitrary: d) (auto simp: pd_CloseAll_def)

lemma CloseAll_inv: "dialer_inv d \<Longrightarrow> dialer_inv (pd_CloseAll d addrs)"
  by (induction addrs arbitrary: d) (auto simp: pd_CloseAll_def close_conn_inv)

lemma dialer_step_inv: "dialer_step d d' \<Longrightarrow> dialer_inv d \<Longrightarrow> dialer_inv d'"
  by (induction rule: dialer_step.induct) (auto simp: pd_Get_inv CloseAll_inv pd_Remove_def close_conn_inv)

lemma dialer_reach_inv: "dialer_step\<^sup>*\<^sup>* NewPeerDialer d \<Longrightarrow> dialer_inv d"
proof (induction rule: rtranclp_induct)
  case base
  then show ?case by (simp add: dialer_inv_def NewPeerDialer_def)
qed (rule dialer_step_inv)

text \<open>
  C31: The connection pool neither leaks nor hands out closed connections. After any
  sequence of \<open>Get\<close>, \<open>Remove\<close> and \<open>CloseAll\<close>, every connection ever opened is pooled under
  one address or closed exactly once; what \<open>Get\<close> returns is pooled under the address
  and not closed, and is either new or was seen healthy; \<open>CloseAll\<close> closes everything.
\<close>

theorem connections_never_leak:
  assumes "dialer_step\<^sup>*\<^sup>* NewPeerDialer d"
  shows "ran (pd_conns d) \<union> set (pd_closed d) = {..<pd_next d} \<and> ran (pd_conns d) \<inter> set (pd_closed d) = {}
    \<and> distinct (pd_closed d)
    \<and> (case pd_Get sa sb dialErr d address of
         (d', Inr conn) \<Rightarrow> pd_conns d' address = Some conn \<and> conn \<notin> set (pd_closed d')
            \<and> (if conn < pd_next d then d' = d \<and> (isHealthy (sa conn) \<or> isHealthy (sb conn)) else conn = pd_next d)
       | (d', Inl e) \<Rightarrow> pd_conns d' = (pd_conns d)(address := None) \<and> dialErr \<noteq> None)
    \<and> (set addrs = dom (pd_conns d) \<longrightarrow> set (pd_closed (pd_CloseAll d addrs)) = {..<pd_next d})"
proof -
  note inv = dialer_reach_inv [OF assms]
  have pooled: "conn < pd_next d" "conn \<notin> set (pd_closed d)" if "pd_conns d address = Some conn" for conn
    using inv that by (auto simp: dialer_inv_def ran_def)
  have "pd_next d \<notin> set (pd_closed (close_conn address d))"
    using close_conn_inv [OF inv, of address] by (auto simp: dialer_inv_def)
  then have get: "case pd_Get sa sb dialErr d address of
         (d', Inr conn) \<Rightarrow> pd_conns d' address = Some conn \<and> conn \<notin> set (pd_closed d')
            \<and> (if conn < pd_next d then d' = d \<and> (isHealthy (sa conn) \<or> isHealthy (sb conn)) else conn = pd_next d)
       | (d', Inl e) \<Rightarrow> pd_conns d' = (pd_conns d)(address := None) \<and> dialErr \<noteq> None"
    using pooled by (auto simp: pd_Get_def cached_def Let_def split: option.split)
  have "ran (pd_conns (pd_CloseAll d addrs)) = {}" if "set addrs = dom (pd_conns d)"
    using that by (auto simp: CloseAll_conns ran_def domIff split: if_splits)
  then have "set addrs = dom (pd_conns d) \<longrightarrow> set (pd_closed (pd_CloseAll d addrs)) = {..<pd_next d}"
    using CloseAll_inv [OF inv, of addrs] by (auto simp: dialer_inv_def CloseAll_conns(2))
  with inv get show ?thesis by (simp add: dialer_inv_def)
qed

theorem connections_never_leak_witness:
  "(case pd_Get (\<lambda>_. TransientFailure) (\<lambda>_. TransientFailure) None
      (fst (pd_Get (\<lambda>_. Ready) (\<lambda>_. Ready) None NewPeerDialer ''10.0.0.2:9'')) ''10.0.0.2:9'' of
     (d', Inr conn) \<Rightarrow> conn = 1 \<and> pd_closed d' = [0] \<and> pd_conns d' ''10.0.0.2:9'' = Some 1
   | (d', Inl e) \<Rightarrow> False)"
proof -
  have "dialer_step\<^sup>*\<^sup>* NewPeerDialer (fst (pd_Get (\<lambda>_. Ready) (\<lambda>_. Ready) None NewPeerDialer ''10.0.0.2:9''))"
    by (rule r_into_rtranclp) (rule dialer_step.Get)
  from connections_never_leak [OF this, where sa = "\<lambda>_. TransientFailure" and sb = "\<lambda>_. TransientFailure"
      and dialErr = None and address = "''10.0.0.2:9''" and addrs = "[]"]
  show ?thesis
    by (simp add: pd_Get_def cached_def Let_def NewPeerDialer_def isHealthy_def close_conn_def)
qed

end
