(* ===== verification/Go_Parsing.thy ===== *)
theory Go_Parsing
  imports Prelude
begin

text \<open>
  Parsing of text values: the parts of packages \<open>strings\<close>, \<open>strconv\<close> and \<open>time\<close> that the
  configuration code calls, and the decimal rendering of \<open>fmt\<close>. Text is ASCII, so
  white space is what \<open>unicode.IsSpace\<close> accepts below 128. A parser returns \<open>None\<close> where
  the library returns a syntax or range error.
\<close>

section \<open>Splitting and trimming\<close>

fun strings_Split :: "char \<Rightarrow> string \<Rightarrow> string list" where
  "strings_Split sep [] = [[]]"
| "strings_Split sep (c # cs) =
     (if c = sep then [] # strings_Split sep cs
      else (case strings_Split sep cs of [] \<Rightarrow> [[c]] | w # ws \<Rightarrow> (c # w) # ws))"

text \<open>\<open>strings.SplitN\<close> with the limit 2: at most one cut, at the first separator.\<close>

fun strings_SplitN2 :: "char \<Rightarrow> string \<Rightarrow> string list" where
  "strings_SplitN2 sep [] = [[]]"
| "strings_SplitN2 sep (c # cs) =
     (if c = sep then [[], cs]
      else (case strings_SplitN2 sep cs of [] \<Rightarrow> [[c]] | w # ws \<Rightarrow> (c # w) # ws))"

definition is_space :: "char \<Rightarrow> bool" where
  "is_space c \<longleftrightarrow> c \<in> {CHR 0x09, CHR 0x0A, CHR 0x0B, CHR 0x0C, CHR 0x0D, CHR '' ''}"

definition strings_TrimSpace :: "string \<Rightarrow> string" where
  "strings_TrimSpace s = rev (dropWhile is_space (rev (dropWhile is_space s)))"

definition strings_HasPrefix :: "string \<Rightarrow> string \<Rightarrow> bool" where
  "strings_HasPrefix s prefx \<longleftrightarrow> take (length prefx) s = prefx"

fun join_with :: "char \<Rightarrow> string list \<Rightarrow> string" where
  "join_with sep [] = []"
| "join_with sep [w] = w"
| "join_with sep (w # ws) = w @ sep # join_with sep ws"

lemma strings_Split_not_Nil [simp]: "strings_Split sep s \<noteq> []"
  by (induction s) (auto split: list.splits)

lemma strings_Split_plain: "sep \<notin> set w \<Longrightarrow> strings_Split sep w = [w]"
  by (induction w) auto

lemma strings_Split_append: "sep \<notin> set w \<Longrightarrow> strings_Split sep (w @ sep # s) = w # strings_Split sep s"
  by (induction w) auto

lemma strings_Split_join: "ws \<noteq> [] \<Longrightarrow> \<forall>w \<in> set ws. sep \<notin> set w \<Longrightarrow> strings_Split sep (join_with sep ws) = ws"
  by (induction sep ws rule: join_with.induct) (auto simp: strings_Split_plain strings_Split_append)

lemma strings_SplitN2_append: "sep \<notin> set w \<Longrightarrow> strings_SplitN2 sep (w @ sep # s) = [w, s]"
  by (induction w) auto

lemma dropWhile_none: "\<forall>c \<in> set s. \<not> P c \<Longrightarrow> dropWhile P s = s"
  by (cases s) auto

lemma TrimSpace_plain: "\<forall>c \<in> set s. \<not> is_space c \<Longrightarrow> strings_TrimSpace s = s"
  by (simp add: strings_TrimSpace_def dropWhile_none)

section \<open>Numbers\<close>

definition is_digit :: "char \<Rightarrow> bool" where
  "is_digit c \<longleftrightarrow> of_char c \<ge> (48 :: nat) \<and> of_char c \<le> (57 :: nat)"

definition digit_val :: "char \<Rightarrow> nat" where
  "digit_val c = of_char c - 48"

definition digits_val :: "nat \<Rightarrow> string \<Rightarrow> nat" where
  "digits_val acc s = foldl (\<lambda>n c. 10 * n + digit_val c) acc s"

text \<open>\<open>ParseUint(s, 10, 64)\<close>, \<open>ParseInt(s, 10, 64)\<close> and \<open>Atoi\<close>.\<close>

definition strconv_ParseUint :: "string \<Rightarrow> nat option" where
  "strconv_ParseUint s =
     (if s = [] \<or> \<not> list_all is_digit s then None
      else if digits_val 0 s < 2 ^ 64 then Some (digits_val 0 s) else None)"

definition strconv_ParseInt :: "string \<Rightarrow> int option" where
  "strconv_ParseInt s =
     (case s of
        [] \<Rightarrow> None
      | c # cs \<Rightarrow>
          (let neg = (c = CHR ''-''); body = (if c = CHR ''-'' \<or> c = CHR ''+'' then cs else s)
           in case strconv_ParseUint body of
                None \<Rightarrow> None
              | Some n \<Rightarrow> if neg then (if n \<le> 2 ^ 63 then Some (- int n) else None)
                          else (if n < 2 ^ 63 then Some (int n) else None)))"

definition strconv_Atoi :: "string \<Rightarrow> int option" where
  "strconv_Atoi s = strconv_ParseInt s"

definition strconv_ParseBool :: "string \<Rightarrow> bool option" where
  "strconv_ParseBool s =
     (if s \<in> {''1'', ''t'', ''T'', ''TRUE'', ''true'', ''True''} then Some True
      else if s \<in> {''0'', ''f'', ''F'', ''FALSE'', ''false'', ''False''} then Some False
      else None)"

text \<open>The decimal rendering of a number, \<open>%d\<close> of package \<open>fmt\<close>.\<close>

fun show_nat :: "nat \<Rightarrow> string" where
  "show_nat n = (if n < 10 then [char_of (48 + n)] else show_nat (n div 10) @ [char_of (48 + n mod 10)])"

declare show_nat.simps [simp del]

lemma digit_char:
  assumes "n < 10"
  shows "is_digit (char_of (48 + n))" "digit_val (char_of (48 + n)) = n"
proof -
  have "of_char (char_of (48 + n) :: char) = 48 + n"
    using assms by (simp add: of_char_of)
  then show "is_digit (char_of (48 + n))" "digit_val (char_of (48 + n)) = n"
    using assms by (simp_all add: is_digit_def digit_val_def)
qed

lemma show_nat_digits: "list_all is_digit (show_nat n)" "show_nat n \<noteq> []"
proof (induction n rule: show_nat.induct)
  case (1 n)
  {
    case 1
    then show ?case using "1.IH"(1) by (subst show_nat.simps) (auto simp: digit_char)
  next
    case 2
    then show ?case by (subst show_nat.simps) auto
  }
qed

lemma digits_val_append: "digits_val acc (s @ [c]) = 10 * digits_val acc s + digit_val c"
  by (simp add: digits_val_def)

lemma digits_val_show: "digits_val 0 (show_nat n) = n"
proof (induction n rule: show_nat.induct)
  case (1 n)
  show ?case
  proof (cases "n < 10")
    case True
    then show ?thesis by (subst show_nat.simps) (simp add: digits_val_def digit_char)
  next
    case False
    with 1 show ?thesis by (subst show_nat.simps) (simp add: digits_val_append digit_char)
  qed
qed

lemma ParseUint_show: "n < 2 ^ 64 \<Longrightarrow> strconv_ParseUint (show_nat n) = Some n"
  by (simp add: strconv_ParseUint_def show_nat_digits digits_val_show)

lemma digit_not_sign: "is_digit c \<Longrightarrow> c \<noteq> CHR ''-'' \<and> c \<noteq> CHR ''+'' \<and> c \<noteq> CHR ''.''"
  by (auto simp: is_digit_def)

lemma Atoi_show: "n < 2 ^ 63 \<Longrightarrow> strconv_Atoi (show_nat n) = Some (int n)"
proof -
  assume n: "n < 2 ^ 63"
  then have u: "strconv_ParseUint (show_nat n) = Some n" by (simp add: ParseUint_show)
  obtain c cs where s: "show_nat n = c # cs" using show_nat_digits(2) [of n] by (cases "show_nat n") auto
  then have "is_digit c" using show_nat_digits(1) [of n] by simp
  with u n s show ?thesis using digit_not_sign [of c] by (simp add: strconv_Atoi_def strconv_ParseInt_def Let_def)
qed

lemma show_nat_inj: "show_nat m = show_nat n \<Longrightarrow> m = n"
  by (metis digits_val_show)

section \<open>Durations\<close>

text \<open>
  \<open>time.ParseDuration\<close>: an optional sign, then either \<open>0\<close> or a sequence of decimal numbers
  with units. \<open>leadingInt\<close> and \<open>leadingFraction\<close> stop at the first character that is not a
  digit; the former fails above \<open>2 ^ 63\<close>, the latter ignores further digits then.
  The fraction of a unit is computed exactly and cut to nanoseconds.
\<close>

definition limit63 :: nat where
  "limit63 = 2 ^ 63"

fun leadingInt :: "nat \<Rightarrow> string \<Rightarrow> (nat \<times> string) option" where
  "leadingInt x [] = Some (x, [])"
| "leadingInt x (c # cs) =
     (if \<not> is_digit c then Some (x, c # cs)
      else if x > limit63 div 10 then None
      else let y = 10 * x + digit_val c in if y > limit63 then None else leadingInt y cs)"

fun leadingFraction :: "nat \<Rightarrow> nat \<Rightarrow> bool \<Rightarrow> string \<Rightarrow> nat \<times> nat \<times> string" where
  "leadingFraction x scale over [] = (x, scale, [])"
| "leadingFraction x scale over (c # cs) =
     (if \<not> is_digit c then (x, scale, c # cs)
      else if over then leadingFraction x scale True cs
      else let y = 10 * x + digit_val c
           in if x > (limit63 - 1) div 10 \<or> y > limit63 then leadingFraction x scale True cs
              else leadingFraction y (10 * scale) False cs)"

definition duration_unit :: "string \<Rightarrow> nat option" where
  "duration_unit u =
     (if u = ''ns'' then Some 1
      else if u = ''us'' then Some 1000
      else if u = ''ms'' then Some 1000000
      else if u = ''s'' then Some 1000000000
      else if u = ''m'' then Some 60000000000
      else if u = ''h'' then Some 3600000000000
      else None)"

definition unit_char :: "char \<Rightarrow> bool" where
  "unit_char c \<longleftrightarrow> c \<noteq> CHR ''.'' \<and> \<not> is_digit c"

text \<open>One number with its unit, in nanoseconds, and the rest of the text.\<close>

definition duration_item :: "string \<Rightarrow> (nat \<times> string) option" where
  "duration_item s =
     (case leadingInt 0 s of
        None \<Rightarrow> None
      | Some (v, s1) \<Rightarrow>
          (let pre = (length s1 \<noteq> length s);
               dot = (s1 \<noteq> [] \<and> hd s1 = CHR ''.'');
               (f, scale, s2) = (if dot then leadingFraction 0 1 False (tl s1) else (0, 1, s1));
               post = (dot \<and> length s2 \<noteq> length (tl s1));
               u = takeWhile unit_char s2; rest = dropWhile unit_char s2
           in if \<not> pre \<and> \<not> post then None
              else if u = [] then None
              else case duration_unit u of
                None \<Rightarrow> None
              | Some unit1 \<Rightarrow>
                  if v > 2 ^ 63 div unit1 then None
                  else let w = v * unit1 + f * unit1 div scale in if w > 2 ^ 63 then None else Some (w, rest)))"

lemma leadingInt_length: "leadingInt x s = Some (v, s1) \<Longrightarrow> length s1 \<le> length s"
  by (induction x s rule: leadingInt.induct) (auto simp: Let_def split: if_splits)

lemma leadingFraction_length: "leadingFraction x scale over s = (f, scale', s2) \<Longrightarrow> length s2 \<le> length s"
  by (induction x scale over s rule: leadingFraction.induct) (auto simp: Let_def split: if_splits)

lemma dropWhile_shorter: "takeWhile P s \<noteq> [] \<Longrightarrow> length (dropWhile P s) < length s"
  by (cases s) (auto simp: le_imp_less_Suc length_dropWhile_le split: if_splits)

lemma duration_item_length:
  assumes "duration_item s = Some (w, rest)"
  shows "length rest < length s"
proof -
  obtain v s1 where s1: "leadingInt 0 s = Some (v, s1)"
    using assms by (auto simp: duration_item_def split: option.splits)
  define dot where "dot \<longleftrightarrow> s1 \<noteq> [] \<and> hd s1 = CHR ''.''"
  obtain f scale s2 where s2: "(if dot then leadingFraction 0 1 False (tl s1) else (0, 1, s1)) = (f, scale, s2)"
    by (cases "if dot then leadingFraction 0 1 False (tl s1) else (0, 1, s1)")
  have "length s2 \<le> length s1"
    using s2 leadingFraction_length [of 0 1 False "tl s1"] by (auto simp: dot_def split: if_splits)
  moreover have "takeWhile unit_char s2 \<noteq> []" "rest = dropWhile unit_char s2"
    using assms s1 s2 by (auto simp: duration_item_def dot_def Let_def split: if_splits option.splits)
  ultimately show ?thesis
    using leadingInt_length [OF s1] dropWhile_shorter [of unit_char s2] by simp
qed

function duration_sum :: "nat \<Rightarrow> string \<Rightarrow> nat option" where
  "duration_sum d s =
     (if s = [] then Some d
      else case duration_item s of
        None \<Rightarrow> None
      | Some (w, rest) \<Rightarrow> if d + w > 2 ^ 63 then None else duration_sum (d + w) rest)"
  by pat_completeness auto

termination
proof (relation "measure (\<lambda>(d, s). length s)")
  fix d s x w rest
  assume "duration_item s = Some x" "(w, rest) = x"
  then show "((d + w, rest), d, s) \<in> measure (\<lambda>(d, s). length s)"
    using duration_item_length [of s w rest] by simp
qed simp

declare duration_sum.simps [simp del]

definition time_ParseDuration :: "string \<Rightarrow> duration option" where
  "time_ParseDuration s =
     (let signed = (s \<noteq> [] \<and> (hd s = CHR ''-'' \<or> hd s = CHR ''+''));
          neg = (s \<noteq> [] \<and> hd s = CHR ''-'');
          body = (if signed then tl s else s)
      in if body = ''0'' then Some 0
         else if body = [] then None
         else case duration_sum 0 body of
           None \<Rightarrow> None
         | Some d \<Rightarrow> if neg then Some (- int d) else if d > 2 ^ 63 - 1 then None else Some (int d))"

lemma ParseDuration_range: "time_ParseDuration s = Some d \<Longrightarrow> minDuration \<le> d \<and> d \<le> maxDuration"
proof -
  have bound: "y \<le> 2 ^ 63" if "duration_sum x s = Some y" "x \<le> 2 ^ 63" for x s y
    using that
  proof (induction x s rule: duration_sum.induct)
    case (1 d s)
    show ?case
    proof (cases "s = []")
      case True
      with "1.prems" show ?thesis by (simp add: duration_sum.simps [of d])
    next
      case False
      with "1.prems"(1) obtain w rest where i: "duration_item s = Some (w, rest)" "\<not> d + w > 2 ^ 63"
        "duration_sum (d + w) rest = Some y"
        by (subst (asm) duration_sum.simps) (auto split: option.splits if_splits)
      from "1.IH" [OF False i(1) refl i(2,3)] i(2) show ?thesis by simp
    qed
  qed
  assume d: "time_ParseDuration s = Some d"
  define body where "body = (if s \<noteq> [] \<and> (hd s = CHR ''-'' \<or> hd s = CHR ''+'') then tl s else s)"
  consider "d = 0" | y where "duration_sum 0 body = Some y" "d = - int y \<or> d = int y \<and> y \<le> 2 ^ 63 - 1"
    using d unfolding time_ParseDuration_def Let_def body_def [symmetric] by (auto split: if_splits option.splits)
  then show ?thesis
  proof cases
    case 2
    then have "y \<le> 2 ^ 63" using bound by simp
    with 2 show ?thesis by (auto simp: minDuration_def maxDuration_def)
  qed (simp add: minDuration_def maxDuration_def)
qed

text \<open>A whole number of seconds reads back as that duration.\<close>

lemma leadingInt_digits:
  assumes "list_all is_digit s" "digits_val x s \<le> limit63" "cs = [] \<or> \<not> is_digit (hd cs)"
  shows "leadingInt x (s @ cs) = Some (digits_val x s, cs)"
  using assms(1,2)
proof (induction s arbitrary: x)
  case Nil
  then show ?case using assms(3) by (cases cs) (auto simp: digits_val_def)
next
  case (Cons c s)
  have mono: "y \<le> digits_val y s" for y
  proof (induction s arbitrary: y)
    case (Cons c s)
    from Cons [of "10 * y + digit_val c"] show ?case by (simp add: digits_val_def)
  qed (simp add: digits_val_def)
  have step: "digits_val x (c # s) = digits_val (10 * x + digit_val c) s" by (simp add: digits_val_def)
  have "10 * x + digit_val c \<le> limit63" using mono [of "10 * x + digit_val c"] Cons.prems(2) step by simp
  moreover from this have "x \<le> limit63 div 10" by simp
  ultimately show ?case using Cons step by (simp add: Let_def)
qed

lemma ParseDuration_seconds:
  assumes "n * 1000000000 < 2 ^ 63"
  shows "time_ParseDuration (show_nat n @ ''s'') = Some (int n * Second)"
proof -
  have li: "leadingInt 0 (show_nat n @ ''s'') = Some (n, ''s'')"
    using leadingInt_digits [of "show_nat n" 0 "''s''"] assms show_nat_digits(1) [of n] digits_val_show [of n]
    by (simp add: is_digit_def limit63_def)
  have "unit_char CHR ''s''" by (simp add: unit_char_def is_digit_def)
  moreover have "n \<le> 2 ^ 63 div 1000000000" using assms by simp
  ultimately have item: "duration_item (show_nat n @ ''s'') = Some (n * 1000000000, [])"
    using assms show_nat_digits(2) [of n] by (simp add: duration_item_def li duration_unit_def Let_def)
  have "duration_sum 0 (show_nat n @ ''s'') = Some (n * 1000000000)"
    using assms by (subst duration_sum.simps) (simp add: item duration_sum.simps [of _ "[]"])
  moreover obtain c cs where s: "show_nat n = c # cs" using show_nat_digits(2) [of n] by (cases "show_nat n") auto
  moreover have "is_digit c" using show_nat_digits(1) [of n] s by simp
  ultimately show ?thesis
    using digit_not_sign [of c] assms by (auto simp: time_ParseDuration_def Let_def Second_def)
qed

text \<open>Evaluation of a duration written out.\<close>

lemmas duration_eval = time_ParseDuration_def Let_def duration_sum.simps duration_item_def is_digit_def digit_val_def
  unit_char_def duration_unit_def limit63_def

section \<open>Text as bytes\<close>

definition string_bytes :: "string \<Rightarrow> bytes" where
  "string_bytes s = map (\<lambda>c. word_of_nat (of_char c)) s"

definition bytes_string :: "bytes \<Rightarrow> string" where
  "bytes_string b = map (\<lambda>w. char_of (unat w)) b"

lemma bytes_string_inverse [simp]: "bytes_string (string_bytes s) = s"
proof -
  have "char_of (unat (word_of_nat (of_char c) :: byte)) = c" for c
    using nat_of_char_less_256 [of c] by (simp add: unat_of_nat)
  then show ?thesis by (simp add: bytes_string_def string_bytes_def comp_def)
qed

lemma string_bytes_Nil [simp]: "string_bytes s = [] \<longleftrightarrow> s = ''''"
  by (simp add: string_bytes_def)

end
