(* ===== verification/Config_Steps.thy ===== *)
theory Config_Steps
  imports Go_Parsing Json
begin

text \<open>
  Configuration is read in steps: a default value is overridden by the fields of a
  JSON document and then by environment variables, and the first value that does
  not parse stops the loading with an error. A step is a function on the
  configuration that may fail; the environment maps an unset variable to the empty
  string, as \<open>os.Getenv\<close> does.
\<close>

named_theorems config_step \<open>single configuration steps\<close>

type_synonym 'c step = "'c \<Rightarrow> 'c result"
type_synonym environ = "string \<Rightarrow> string"

fun run_steps :: "'c step list \<Rightarrow> 'c step" where
  "run_steps [] c = Inr c"
| "run_steps (f # fs) c = (case f c of Inl e \<Rightarrow> Inl e | Inr c' \<Rightarrow> run_steps fs c')"

definition env_step :: "environ \<Rightarrow> string \<Rightarrow> (string \<Rightarrow> 'a option) \<Rightarrow> ('a \<Rightarrow> 'c \<Rightarrow> 'c) \<Rightarrow> 'c step" where
  "env_step env key parse upd c =
     (if env key = '''' then Inr c
      else case parse (env key) of
        None \<Rightarrow> Inl (Wrap ''invalid env var'' (NewError key))
      | Some v \<Rightarrow> Inr (upd v c))"

text \<open>A field of the document that is absent or null leaves the configuration as it is.\<close>

definition json_step :: "fields \<Rightarrow> string \<Rightarrow> (json \<Rightarrow> 'a option) \<Rightarrow> ('a \<Rightarrow> 'c \<Rightarrow> 'c) \<Rightarrow> 'c step" where
  "json_step fs key dec upd c =
     (case json_field (\<lambda>v. map_option Some (dec v)) None key fs of
        None \<Rightarrow> Inl (NewError ''json: cannot unmarshal'')
      | Some None \<Rightarrow> Inr c
      | Some (Some v) \<Rightarrow> Inr (upd v c))"

text \<open>A duration in a document is a string that \<open>time.ParseDuration\<close> accepts.\<close>

definition json_duration_step :: "fields \<Rightarrow> string \<Rightarrow> (duration \<Rightarrow> 'c \<Rightarrow> 'c) \<Rightarrow> 'c step" where
  "json_duration_step fs key upd c =
     (case json_field (\<lambda>v. map_option Some (dec_string v)) None key fs of
        None \<Rightarrow> Inl (Wrap ''invalid duration format'' (NewError key))
      | Some None \<Rightarrow> Inr c
      | Some (Some s) \<Rightarrow>
          (case time_ParseDuration s of
             None \<Rightarrow> Inl (Wrap ''invalid duration value'' (NewError key))
           | Some d \<Rightarrow> Inr (upd d c)))"

fun dec_string0 :: "json \<Rightarrow> string option" where
  "dec_string0 JNull = Some ''''"
| "dec_string0 v = dec_string v"

fun dec_string_list :: "json \<Rightarrow> string list option" where
  "dec_string_list (JArr vs) = those (map dec_string0 vs)"
| "dec_string_list _ = None"

fun dec_string_map :: "json \<Rightarrow> (string \<rightharpoonup> string) option" where
  "dec_string_map (JObj kvs) =
     map_option (\<lambda>vs. map_of (rev (zip (map fst kvs) vs))) (those (map (\<lambda>kv. dec_string0 (snd kv)) kvs))"
| "dec_string_map _ = None"

section \<open>What a successful run did\<close>

text \<open>
  A successful run is the composition of its steps, each of which either overrides
  the configuration by one value or leaves it alone.
\<close>

definition override :: "'a option \<Rightarrow> ('a \<Rightarrow> 'c \<Rightarrow> 'c) \<Rightarrow> 'c \<Rightarrow> 'c" where
  "override x upd c = (case x of None \<Rightarrow> c | Some v \<Rightarrow> upd v c)"

definition step_ok :: "'c step \<Rightarrow> 'c \<Rightarrow> 'c" where
  "step_ok f c = (case f c of Inr c' \<Rightarrow> c' | Inl e \<Rightarrow> c)"

lemma run_steps_append: "run_steps (fs @ gs) c = (case run_steps fs c of Inl e \<Rightarrow> Inl e | Inr c' \<Rightarrow> run_steps gs c')"
  by (induction fs arbitrary: c) (auto split: sum.split)

lemma run_steps_result: "run_steps fs c = Inr c' \<Longrightarrow> c' = fold step_ok fs c"
  by (induction fs arbitrary: c) (auto simp: step_ok_def split: sum.splits)

definition json_value :: "fields \<Rightarrow> string \<Rightarrow> (json \<Rightarrow> 'a option) \<Rightarrow> 'a option" where
  "json_value fs key dec =
     (case json_field (\<lambda>v. map_option Some (dec v)) None key fs of Some (Some v) \<Rightarrow> Some v | _ \<Rightarrow> None)"

definition duration_value :: "fields \<Rightarrow> string \<Rightarrow> duration option" where
  "duration_value fs key = Option.bind (json_value fs key dec_string) time_ParseDuration"

definition env_value :: "environ \<Rightarrow> string \<Rightarrow> (string \<Rightarrow> 'a option) \<Rightarrow> 'a option" where
  "env_value env key parse = (if env key = '''' then None else parse (env key))"

lemma step_ok_env [config_step]:
  "step_ok (env_step env key parse upd) c =
     override (env_value env key parse) upd c"
  by (simp add: step_ok_def env_step_def env_value_def override_def split: option.split)

lemma step_ok_json [config_step]:
  "step_ok (json_step fs key dec upd) c = override (json_value fs key dec) upd c"
  by (simp add: step_ok_def json_step_def json_value_def override_def split: option.split)

lemma step_ok_duration [config_step]:
  "step_ok (json_duration_step fs key upd) c =
     override (duration_value fs key) upd c"
  by (simp add: step_ok_def json_duration_step_def duration_value_def json_value_def override_def split: option.split)

text \<open>Selecting a field after an override; instances of these rules evaluate a run field by field.\<close>

definition or_else :: "'a option \<Rightarrow> 'a \<Rightarrow> 'a" where
  "or_else a d = (case a of Some x \<Rightarrow> x | None \<Rightarrow> d)"

lemma or_else_simps [simp]: "or_else None d = d" "or_else (Some x) d = x"
  by (simp_all add: or_else_def)

lemma select_override:
  "(\<And>v c. g (upd v c) = g c) \<Longrightarrow> g (override x upd c) = g c"
  by (simp add: override_def split: option.split)

lemma select_overridden:
  "(\<And>v c. g (upd v c) = v) \<Longrightarrow> g (override x upd c) = or_else x (g c)"
  by (simp add: override_def split: option.split)

text \<open>A duration of a document whose type has been checked.\<close>

definition json_text_duration_step :: "fields \<Rightarrow> string \<Rightarrow> (duration \<Rightarrow> 'c \<Rightarrow> 'c) \<Rightarrow> 'c step" where
  "json_text_duration_step fs key upd c =
     (case json_value fs key dec_string of
        None \<Rightarrow> Inr c
      | Some s \<Rightarrow>
          (case time_ParseDuration s of
             None \<Rightarrow> Inl (Wrap (''config: '' @ key) (NewError ''time: invalid duration''))
           | Some d \<Rightarrow> Inr (upd d c)))"

lemma step_ok_text_duration [config_step]:
  "step_ok (json_text_duration_step fs key upd) c = override (duration_value fs key) upd c"
  by (simp add: step_ok_def json_text_duration_step_def duration_value_def override_def split: option.split)

definition type_check :: "fields \<Rightarrow> string \<Rightarrow> (json \<Rightarrow> 'a option) \<Rightarrow> 'c step" where
  "type_check fs key dec = json_step fs key dec (\<lambda>v c. c)"

lemma step_ok_type_check [config_step]: "step_ok (type_check fs key dec) c = c"
  by (simp add: type_check_def step_ok_json override_def split: option.split)

text \<open>A variable that does not parse is skipped.\<close>

definition lenient_env_step :: "environ \<Rightarrow> string \<Rightarrow> (string \<Rightarrow> 'a option) \<Rightarrow> ('a \<Rightarrow> 'c \<Rightarrow> 'c) \<Rightarrow> 'c \<Rightarrow> 'c" where
  "lenient_env_step env key parse upd c =
     (if env key = '''' then c else case parse (env key) of None \<Rightarrow> c | Some v \<Rightarrow> upd v c)"

lemma lenient_env_step_override:
  "lenient_env_step env key parse upd c = override (env_value env key parse) upd c"
  by (simp add: lenient_env_step_def env_value_def override_def split: option.split)

end
