(* ===== verification/File_Paths.thy ===== *)
theory File_Paths
  imports Prelude
begin

text \<open>
  The functions of package \<open>path/filepath\<close> (on a Unix system) that decide where
  a storage node puts a file: \<open>Clean\<close>, \<open>Join\<close> and \<open>Dir\<close>. A path is split at the
  slashes; \<open>Clean\<close> folds the elements over a stack that drops empty elements and
  dots and lets a double dot cancel the element before it. The lemmas say what a
  joined path is when the joined elements are plain names: the cleaned base
  followed by those names, never anything outside the base.
\<close>

section \<open>Elements of a path\<close>

definition slash :: char where
  "slash = CHR ''/''"

fun split_slash :: "string \<Rightarrow> string list" where
  "split_slash [] = [[]]"
| "split_slash (c # cs) =
     (if c = slash then [] # split_slash cs
      else (case split_slash cs of [] \<Rightarrow> [[c]] | w # ws \<Rightarrow> (c # w) # ws))"

fun join_slash :: "string list \<Rightarrow> string" where
  "join_slash [] = []"
| "join_slash [w] = w"
| "join_slash (w # v # ws) = w @ slash # join_slash (v # ws)"

definition clean_step :: "bool \<Rightarrow> string list \<Rightarrow> string \<Rightarrow> string list" where
  "clean_step rooted out e =
     (if e = '''' \<or> e = ''.'' then out
      else if e = ''..'' then
        (if out \<noteq> [] \<and> last out \<noteq> ''..'' then butlast out
         else if rooted then out
         else out @ [e])
      else out @ [e])"

definition clean_elems :: "bool \<Rightarrow> string list \<Rightarrow> string list" where
  "clean_elems rooted es = foldl (clean_step rooted) [] es"

definition is_rooted :: "string \<Rightarrow> bool" where
  "is_rooted p \<longleftrightarrow> take 1 p = [slash]"

definition render_path :: "bool \<Rightarrow> string list \<Rightarrow> string" where
  "render_path rooted out =
     (if rooted then slash # join_slash out else if out = [] then ''.'' else join_slash out)"

definition filepath_Clean :: "string \<Rightarrow> string" where
  "filepath_Clean p = render_path (is_rooted p) (clean_elems (is_rooted p) (split_slash p))"

definition filepath_Join :: "string list \<Rightarrow> string" where
  "filepath_Join es =
     (case dropWhile (\<lambda>e. e = '''') es of [] \<Rightarrow> '''' | fs \<Rightarrow> filepath_Clean (join_slash fs))"

definition filepath_Dir :: "string \<Rightarrow> string" where
  "filepath_Dir p = filepath_Clean (rev (dropWhile (\<lambda>c. c \<noteq> slash) (rev p)))"

text \<open>The last element of a path, as \<open>filepath.Base\<close> of a path that does not end in a slash.\<close>

definition base_name :: "string \<Rightarrow> string" where
  "base_name p = rev (takeWhile (\<lambda>c. c \<noteq> slash) (rev p))"

section \<open>Splitting and joining\<close>

lemma split_slash_ne [simp]: "split_slash p \<noteq> []"
  by (induction p) (auto split: list.split)

lemma split_slash_append: "split_slash (a @ slash # b) = split_slash a @ split_slash b"
  by (induction a) (auto split: list.split)

lemma split_slash_plain: "slash \<notin> set w \<Longrightarrow> split_slash w = [w]"
  by (induction w) (auto split: list.split)

lemma split_slash_elems: "w \<in> set (split_slash p) \<Longrightarrow> slash \<notin> set w"
proof (induction p arbitrary: w)
  case Nil
  then show ?case by simp
next
  case (Cons c p)
  then show ?case
    by (cases "split_slash p") (auto split: if_splits)
qed

lemma join_slash_Cons: "join_slash (w # ws) = (if ws = [] then w else w @ slash # join_slash ws)"
  by (cases ws) auto

lemma join_slash_snoc: "join_slash (ws @ [w]) = (if ws = [] then w else join_slash ws @ slash # w)"
  by (induction ws) (auto simp: join_slash_Cons)

text \<open>The elements of joined strings are the elements of the parts.\<close>

lemma split_join_slash: "es \<noteq> [] \<Longrightarrow> split_slash (join_slash es) = concat (map split_slash es)"
proof (induction es)
  case Nil
  then show ?case by simp
next
  case (Cons w ws)
  then show ?case by (cases ws) (auto simp: split_slash_append)
qed

lemma split_join_plain:
  "es \<noteq> [] \<Longrightarrow> (\<forall>w \<in> set es. slash \<notin> set w) \<Longrightarrow> split_slash (join_slash es) = es"
  by (simp add: split_join_slash split_slash_plain cong: map_cong)

section \<open>Plain names\<close>

definition plain_name :: "string \<Rightarrow> bool" where
  "plain_name w \<longleftrightarrow> slash \<notin> set w \<and> w \<noteq> '''' \<and> w \<noteq> ''.'' \<and> w \<noteq> ''..''"

lemma clean_step_plain: "plain_name w \<Longrightarrow> clean_step r out w = out @ [w]"
  by (simp add: clean_step_def plain_name_def)

lemma clean_step_empty [simp]: "clean_step r out [] = out"
  by (simp add: clean_step_def)

lemma foldl_clean_plain:
  "(\<forall>w \<in> set ws. w = '''' \<or> plain_name w)
   \<Longrightarrow> foldl (clean_step r) out ws = out @ filter (\<lambda>w. w \<noteq> '''') ws"
proof (induction ws arbitrary: out)
  case Nil
  then show ?case by simp
next
  case (Cons w ws)
  then show ?case by (cases "w = ''''") (auto simp: clean_step_plain)
qed

text \<open>
  What \<open>Clean\<close> leaves: plain names behind a run of double dots, and no double
  dots at all in a rooted path. Cleaning such a list again changes nothing.
\<close>

definition clean_form :: "bool \<Rightarrow> string list \<Rightarrow> bool" where
  "clean_form r out \<longleftrightarrow>
     (\<exists>k ws. out = replicate k ''..'' @ ws \<and> (\<forall>w \<in> set ws. plain_name w) \<and> (r \<longrightarrow> k = 0))"

lemma clean_form_Nil [simp]: "clean_form r []"
  by (simp add: clean_form_def)

lemma clean_form_append:
  assumes "clean_form r out" and new: "\<forall>w \<in> set vs. plain_name w"
  shows "clean_form r (out @ vs)"
proof -
  obtain k ws where "out = replicate k ''..'' @ ws" "\<forall>w \<in> set ws. plain_name w" "r \<longrightarrow> k = 0"
    using assms(1) unfolding clean_form_def by blast
  with new have "out @ vs = replicate k ''..'' @ (ws @ vs) \<and> (\<forall>w \<in> set (ws @ vs). plain_name w) \<and> (r \<longrightarrow> k = 0)"
    by auto
  then show ?thesis unfolding clean_form_def by blast
qed

lemma clean_form_step:
  assumes "clean_form r out" and "slash \<notin> set w"
  shows "clean_form r (clean_step r out w)"
proof -
  obtain k ws where out: "out = replicate k ''..'' @ ws" and ws: "\<forall>w \<in> set ws. plain_name w"
    and k: "r \<longrightarrow> k = 0"
    using assms(1) unfolding clean_form_def by blast
  show ?thesis
  proof (cases "w = ''..''")
    case dots: True
    show ?thesis
    proof (cases "ws = []")
      case True
      then have "clean_step r out w = (if r then [] else replicate (Suc k) ''..'')"
        using out dots k by (cases k) (simp_all add: clean_step_def replicate_append_same)
      moreover have "clean_form False (replicate (Suc k) ''..'')"
        unfolding clean_form_def by (rule exI [of _ "Suc k"], rule exI [of _ "[]"]) simp
      ultimately show ?thesis by (cases r) simp_all
    next
      case False
      then have "last out = last ws" "plain_name (last ws)" "butlast out = replicate k ''..'' @ butlast ws"
        using out ws by (auto simp: butlast_append)
      moreover from this have "clean_step r out w = butlast out"
        using dots out False by (simp add: clean_step_def plain_name_def)
      moreover have "\<forall>w \<in> set (butlast ws). plain_name w"
        using ws by (meson in_set_butlastD)
      ultimately show ?thesis
        using k unfolding clean_form_def by metis
    qed
  next
    case False
    then have "clean_step r out w = out \<or> clean_step r out w = out @ [w] \<and> plain_name w"
      using assms(2) by (simp add: clean_step_def plain_name_def)
    then show ?thesis
      using assms(1) clean_form_append [OF assms(1), of "[w]"] by auto
  qed
qed

lemma clean_form_elems: "(\<forall>w \<in> set ws. slash \<notin> set w) \<Longrightarrow> clean_form r (clean_elems r ws)"
proof (induction ws rule: rev_induct)
  case Nil
  then show ?case by (simp add: clean_elems_def)
next
  case (snoc w ws)
  then show ?case by (simp add: clean_elems_def clean_form_step)
qed

lemma clean_form_slash_free:
  assumes "clean_form r out" and "w \<in> set out"
  shows "slash \<notin> set w \<and> w \<noteq> ''''"
proof -
  obtain k ws where "out = replicate k ''..'' @ ws" "\<forall>w \<in> set ws. plain_name w"
    using assms(1) unfolding clean_form_def by blast
  with assms(2) have "w = ''..'' \<or> plain_name w"
    by (auto split: if_splits)
  moreover have "slash \<notin> set ''..''" by (simp add: slash_def)
  ultimately show ?thesis unfolding plain_name_def by blast
qed

lemma clean_elems_clean_form:
  assumes "clean_form r out"
  shows "clean_elems r out = out"
proof -
  obtain k ws where out: "out = replicate k ''..'' @ ws" and ws: "\<forall>w \<in> set ws. plain_name w"
    and k: "r \<longrightarrow> k = 0"
    using assms unfolding clean_form_def by blast
  have "foldl (clean_step r) [] (replicate k ''..'') = replicate k ''..''"
  proof (cases r)
    case True
    with k show ?thesis by simp
  next
    case False
    then have "foldl (clean_step r) (replicate n ''..'') (replicate m ''..'') = replicate (n + m) ''..''"
      for n m
    proof (induction m arbitrary: n)
      case 0
      then show ?case by simp
    next
      case (Suc m)
      have "clean_step r (replicate n ''..'') ''..'' = replicate (Suc n) ''..''"
        using False by (cases n) (simp_all add: clean_step_def replicate_append_same)
      then show ?case using Suc.IH [of "Suc n"] False by simp
    qed
    from this [of 0 k] show ?thesis by simp
  qed
  moreover have "filter (\<lambda>w. w \<noteq> '''') ws = ws"
    using ws by (simp add: filter_id_conv plain_name_def)
  ultimately show ?thesis
    using ws by (simp add: clean_elems_def out foldl_clean_plain)
qed

section \<open>Joining plain names to a base\<close>

definition base_elems :: "string \<Rightarrow> string list" where
  "base_elems p = clean_elems (is_rooted p) (split_slash p)"

lemma clean_form_base: "clean_form (is_rooted p) (base_elems p)"
  unfolding base_elems_def by (rule clean_form_elems) (blast dest: split_slash_elems)

lemma Clean_render_base: "filepath_Clean p = render_path (is_rooted p) (base_elems p)"
  by (simp add: filepath_Clean_def base_elems_def)

lemma is_rooted_render:
  assumes "clean_form r out"
  shows "is_rooted (render_path r out) = r"
proof (cases "r \<or> out = []")
  case True
  then show ?thesis by (auto simp: render_path_def is_rooted_def slash_def)
next
  case False
  then obtain w ws where out: "out = w # ws" by (cases out) auto
  then have "slash \<notin> set w \<and> w \<noteq> ''''" using clean_form_slash_free [OF assms, of w] by simp
  then show ?thesis using False out
    by (cases w) (auto simp: render_path_def is_rooted_def join_slash_Cons)
qed

lemma base_elems_render:
  assumes "clean_form r out"
  shows "base_elems (render_path r out) = out"
proof -
  have plain: "\<forall>w \<in> set out. slash \<notin> set w" using clean_form_slash_free [OF assms] by blast
  have "clean_elems r (split_slash (render_path r out)) = clean_elems r out"
  proof (cases "out = []")
    case True
    then show ?thesis
      by (simp add: render_path_def clean_elems_def clean_step_def slash_def)
  next
    case False
    then have "split_slash (join_slash out) = out" using plain by (rule split_join_plain)
    then show ?thesis using False by (simp add: render_path_def clean_elems_def)
  qed
  then show ?thesis
    by (simp add: base_elems_def is_rooted_render [OF assms] clean_elems_clean_form [OF assms])
qed

lemma Clean_render: "clean_form r out \<Longrightarrow> filepath_Clean (render_path r out) = render_path r out"
  by (simp add: Clean_render_base is_rooted_render base_elems_render)

lemma Clean_idem [simp]: "filepath_Clean (filepath_Clean p) = filepath_Clean p"
  by (simp add: Clean_render_base [of p] Clean_render clean_form_base)

lemma Join_under:
  assumes "base \<noteq> ''''"
    and names: "\<forall>w \<in> set (concat (map split_slash ds)). w = '''' \<or> plain_name w"
  shows "filepath_Join (base # ds) =
     render_path (is_rooted base) (base_elems base @ filter (\<lambda>w. w \<noteq> '''') (concat (map split_slash ds)))"
proof -
  have rooted: "is_rooted (join_slash (base # ds)) = is_rooted base"
    using assms(1) by (cases base) (auto simp: is_rooted_def join_slash_Cons)
  have "clean_elems (is_rooted base) (split_slash (join_slash (base # ds))) =
    base_elems base @ filter (\<lambda>w. w \<noteq> '''') (concat (map split_slash ds))"
    using foldl_clean_plain [OF names]
    by (simp add: split_join_slash clean_elems_def base_elems_def)
  then show ?thesis
    using assms(1) by (simp add: filepath_Join_def filepath_Clean_def rooted)
qed

lemma base_name_render:
  assumes "slash \<notin> set w"
  shows "base_name (render_path r (out @ [w])) = w"
proof -
  have "rev (takeWhile (\<lambda>c. c \<noteq> slash) (rev w @ slash # x)) = w" for x
    using assms by (subst takeWhile_append2) auto
  moreover have "takeWhile (\<lambda>c. c \<noteq> slash) (rev w) = takeWhile (\<lambda>c. c \<noteq> slash) (rev w @ [slash])"
    by (induction "rev w") (auto simp: takeWhile_tail)
  ultimately show ?thesis
    by (simp add: base_name_def render_path_def join_slash_snoc)
qed

lemma Dir_render:
  assumes "clean_form r out" and "slash \<notin> set w"
  shows "filepath_Dir (render_path r (out @ [w])) = render_path r out"
proof -
  have drop: "dropWhile (\<lambda>c. c \<noteq> slash) (rev w @ x) = dropWhile (\<lambda>c. c \<noteq> slash) x" for x
    using assms(2) by (subst dropWhile_append2) auto
  have form: "is_rooted (render_path r out) = r" "base_elems (render_path r out) = out"
    using assms(1) by (simp_all add: is_rooted_render base_elems_render)
  show ?thesis
  proof (cases "out = []")
    case True
    have "rev (dropWhile (\<lambda>c. c \<noteq> slash) (rev (render_path r (out @ [w])))) = (if r then [slash] else [])"
      using True drop [of "[]"] drop [of "[slash]"] by (simp only: render_path_def) simp
    then show ?thesis
      using True by (simp add: filepath_Dir_def render_path_def filepath_Clean_def is_rooted_def
          clean_elems_def)
  next
    case False
    then have "rev (dropWhile (\<lambda>c. c \<noteq> slash) (rev (render_path r (out @ [w])))) = render_path r out @ [slash]"
      by (simp add: render_path_def join_slash_snoc drop)
    moreover have "filepath_Clean (render_path r out @ [slash]) = render_path r out"
    proof -
      have "render_path r out \<noteq> []"
        using False clean_form_slash_free [OF assms(1)]
        by (cases out) (auto simp: render_path_def join_slash_Cons)
      then have "is_rooted (render_path r out @ [slash]) = r"
        using form(1) by (cases "render_path r out") (auto simp: is_rooted_def)
      then show ?thesis
        using form by (simp add: filepath_Clean_def split_slash_append clean_elems_def base_elems_def)
    qed
    ultimately show ?thesis by (simp add: filepath_Dir_def)
  qed
qed

end
