(* ===== verification/Os_Files.thy ===== *)
theory Os_Files
  imports File_Paths
begin

text \<open>
  The part of package \<open>os\<close> the storage nodes use. A file system has names, which
  refer to files (inodes), and the contents of the files; an open file is a
  reference to an inode and an offset, so that it survives a rename of its name
  and sees what another open file of the same inode writes. Every call may fail:
  \<open>os_env\<close> says which calls of an operation fail and with which error, and how
  much of a failing write reaches the file. A call that does not fail has the
  documented effect; a call on a missing file or in a missing directory always
  fails. \<open>fs_content\<close> is the view of the names and their contents on which the
  components above are proved.
\<close>

section \<open>State and environment\<close>

datatype os_call =
    OsMkdirAll | OsStat | OsRestat | OsOpen | OsSync | OsClose | OsRename | OsReadFile
  | OsWriteOpen | OsWriteData | OsCreate | OsFileWrite | OsRemove | OsFileRead | OsSeek

record os_env =
  os_fault :: "os_call \<Rightarrow> string \<Rightarrow> goerror option"
  os_short :: "string \<Rightarrow> nat"

definition reliable_os :: os_env where
  "reliable_os = \<lparr>os_fault = (\<lambda>_ _. None), os_short = (\<lambda>_. 0)\<rparr>"

lemma reliable_fault [simp]: "os_fault reliable_os call p = None"
  by (simp add: reliable_os_def)

record filesystem =
  fs_names :: "string \<rightharpoonup> nat"
  fs_data :: "nat \<Rightarrow> bytes"
  fs_next :: nat
  fs_dirs :: "string list"

record os_File =
  f_inode :: nat
  f_pos :: nat
  f_name :: string

definition ENOENT :: goerror where
  "ENOENT = Foreign 2"

definition os_IsNotExist :: "goerror \<Rightarrow> bool" where
  "os_IsNotExist e \<longleftrightarrow> e = ENOENT"

definition fs_content :: "filesystem \<Rightarrow> string \<rightharpoonup> bytes" where
  "fs_content fs p = map_option (fs_data fs) (fs_names fs p)"

definition fs_empty :: filesystem where
  "fs_empty = \<lparr>fs_names = Map.empty, fs_data = (\<lambda>_. []), fs_next = 0, fs_dirs = []\<rparr>"

section \<open>Calls\<close>

definition os_MkdirAll :: "os_env \<Rightarrow> string \<Rightarrow> filesystem \<Rightarrow> filesystem \<times> goerror option" where
  "os_MkdirAll os p fs =
     (if p = '''' then (fs, Some ENOENT)
      else case os_fault os OsMkdirAll p of
        Some e \<Rightarrow> (fs, Some e)
      | None \<Rightarrow> (fs\<lparr>fs_dirs := filepath_Clean p # fs_dirs fs\<rparr>, None))"

text \<open>\<open>Stat\<close> yields the size of the file.\<close>

definition os_Stat :: "os_call \<Rightarrow> os_env \<Rightarrow> string \<Rightarrow> filesystem \<Rightarrow> nat result" where
  "os_Stat site os p fs =
     (case os_fault os site p of
        Some e \<Rightarrow> Inl e
      | None \<Rightarrow> (case fs_content fs p of None \<Rightarrow> Inl ENOENT | Some d \<Rightarrow> Inr (length d)))"

definition os_ReadFile :: "os_env \<Rightarrow> string \<Rightarrow> filesystem \<Rightarrow> bytes result" where
  "os_ReadFile os p fs =
     (case os_fault os OsReadFile p of
        Some e \<Rightarrow> Inl e
      | None \<Rightarrow> (case fs_content fs p of None \<Rightarrow> Inl ENOENT | Some d \<Rightarrow> Inr d))"

definition set_data :: "nat \<Rightarrow> bytes \<Rightarrow> filesystem \<Rightarrow> filesystem" where
  "set_data i d fs = fs\<lparr>fs_data := (fs_data fs)(i := d)\<rparr>"

text \<open>Opening for writing with truncation: the file of that name is emptied, or made.\<close>

definition open_trunc :: "string \<Rightarrow> filesystem \<Rightarrow> nat \<times> filesystem" where
  "open_trunc p fs =
     (case fs_names fs p of
        Some i \<Rightarrow> (i, set_data i [] fs)
      | None \<Rightarrow>
          (fs_next fs,
           fs\<lparr>fs_names := (fs_names fs)(p \<mapsto> fs_next fs),
              fs_data := (fs_data fs)(fs_next fs := []),
              fs_next := Suc (fs_next fs)\<rparr>))"

definition os_WriteFile :: "os_env \<Rightarrow> string \<Rightarrow> bytes \<Rightarrow> filesystem \<Rightarrow> filesystem \<times> goerror option" where
  "os_WriteFile os p v fs =
     (case os_fault os OsWriteOpen p of
        Some e \<Rightarrow> (fs, Some e)
      | None \<Rightarrow>
          if filepath_Dir p \<notin> set (fs_dirs fs) then (fs, Some ENOENT)
          else (case open_trunc p fs of
            (i, fs1) \<Rightarrow>
              (case os_fault os OsWriteData p of
                 Some e \<Rightarrow> (set_data i (take (os_short os p) v) fs1, Some e)
               | None \<Rightarrow> (set_data i v fs1, None))))"

definition os_Create :: "os_env \<Rightarrow> string \<Rightarrow> filesystem \<Rightarrow> (filesystem \<times> os_File) result" where
  "os_Create os p fs =
     (case os_fault os OsCreate p of
        Some e \<Rightarrow> Inl e
      | None \<Rightarrow>
          if filepath_Dir p \<notin> set (fs_dirs fs) then Inl ENOENT
          else (case open_trunc p fs of
            (i, fs1) \<Rightarrow> Inr (fs1, \<lparr>f_inode = i, f_pos = 0, f_name = p\<rparr>)))"

text \<open>A write beyond the end of the file fills the gap with zeros.\<close>

definition write_at :: "nat \<Rightarrow> bytes \<Rightarrow> bytes \<Rightarrow> bytes" where
  "write_at pos d old = take pos old @ replicate (pos - length old) 0 @ d @ drop (pos + length d) old"

text \<open>\<open>File.Write\<close>: the number of bytes written is short exactly when there is an error.\<close>

definition file_Write ::
  "os_env \<Rightarrow> bytes \<Rightarrow> os_File \<Rightarrow> filesystem \<Rightarrow> filesystem \<times> os_File \<times> nat \<times> goerror option" where
  "file_Write os d f fs =
     (let err = os_fault os OsFileWrite (f_name f);
          n = (case err of None \<Rightarrow> length d | Some _ \<Rightarrow> min (os_short os (f_name f)) (length d))
      in (set_data (f_inode f) (write_at (f_pos f) (take n d) (fs_data fs (f_inode f))) fs,
          f\<lparr>f_pos := f_pos f + n\<rparr>, n, err))"

definition os_Rename :: "os_env \<Rightarrow> string \<Rightarrow> string \<Rightarrow> filesystem \<Rightarrow> filesystem \<times> goerror option" where
  "os_Rename os src dst fs =
     (case os_fault os OsRename src of
        Some e \<Rightarrow> (fs, Some e)
      | None \<Rightarrow>
          (case fs_names fs src of
             None \<Rightarrow> (fs, Some ENOENT)
           | Some i \<Rightarrow>
               if filepath_Dir dst \<notin> set (fs_dirs fs) then (fs, Some ENOENT)
               else (fs\<lparr>fs_names := (fs_names fs)(src := None, dst \<mapsto> i)\<rparr>, None)))"

definition os_Remove :: "os_env \<Rightarrow> string \<Rightarrow> filesystem \<Rightarrow> filesystem \<times> goerror option" where
  "os_Remove os p fs =
     (case os_fault os OsRemove p of
        Some e \<Rightarrow> (fs, Some e)
      | None \<Rightarrow>
          (case fs_names fs p of
             None \<Rightarrow> (fs, Some ENOENT)
           | Some i \<Rightarrow> (fs\<lparr>fs_names := (fs_names fs)(p := None)\<rparr>, None)))"

definition os_Open :: "os_env \<Rightarrow> string \<Rightarrow> filesystem \<Rightarrow> os_File result" where
  "os_Open os p fs =
     (case os_fault os OsOpen p of
        Some e \<Rightarrow> Inl e
      | None \<Rightarrow>
          (case fs_names fs p of
             None \<Rightarrow> Inl ENOENT
           | Some i \<Rightarrow> Inr \<lparr>f_inode = i, f_pos = 0, f_name = p\<rparr>))"

text \<open>
  \<open>File.Read\<close> into a buffer of \<open>n\<close> bytes: what is left of the file up to \<open>n\<close> bytes,
  and \<open>io.EOF\<close> when nothing is left.
\<close>

definition file_Read :: "os_env \<Rightarrow> nat \<Rightarrow> os_File \<Rightarrow> filesystem \<Rightarrow> os_File \<times> bytes \<times> goerror option" where
  "file_Read os n f fs =
     (case os_fault os OsFileRead (f_name f) of
        Some e \<Rightarrow> (f, [], Some e)
      | None \<Rightarrow>
          (let d = take n (drop (f_pos f) (fs_data fs (f_inode f)))
           in (f\<lparr>f_pos := f_pos f + length d\<rparr>, d, if d = [] \<and> 0 < n then Some EOF else None)))"

section \<open>Contents after a call\<close>

definition fs_wf :: "filesystem \<Rightarrow> bool" where
  "fs_wf fs \<longleftrightarrow>
     inj_on (fs_names fs) (dom (fs_names fs)) \<and>
     (\<forall>p i. fs_names fs p = Some i \<longrightarrow> i < fs_next fs)"

lemma fs_wf_inj: "fs_wf fs \<Longrightarrow> fs_names fs p = Some i \<Longrightarrow> fs_names fs q = Some i \<Longrightarrow> p = q"
  unfolding fs_wf_def by (metis domI inj_onD)

lemma fs_wf_less: "fs_wf fs \<Longrightarrow> fs_names fs p = Some i \<Longrightarrow> i < fs_next fs"
  by (simp add: fs_wf_def)

lemma fs_empty_wf [simp]: "fs_wf fs_empty"
  by (simp add: fs_wf_def fs_empty_def)

lemma fs_wfI:
  assumes "\<And>p q i. fs_names fs p = Some i \<Longrightarrow> fs_names fs q = Some i \<Longrightarrow> p = q"
    and "\<And>p i. fs_names fs p = Some i \<Longrightarrow> i < fs_next fs"
  shows "fs_wf fs"
  using assms by (auto simp: fs_wf_def inj_on_def)

lemma set_data_simps [simp]:
  "fs_names (set_data i d fs) = fs_names fs"
  "fs_next (set_data i d fs) = fs_next fs"
  "fs_dirs (set_data i d fs) = fs_dirs fs"
  "fs_wf (set_data i d fs) = fs_wf fs"
  "fs_data (set_data i d fs) i = d"
  "set_data i d (set_data i d' fs) = set_data i d fs"
  by (simp_all add: set_data_def fs_wf_def)

lemma content_set_data:
  assumes "fs_wf fs" and "fs_names fs p = Some i"
  shows "fs_content (set_data i d fs) = (fs_content fs)(p \<mapsto> d)"
proof
  fix q
  show "fs_content (set_data i d fs) q = ((fs_content fs)(p \<mapsto> d)) q"
  proof (cases "q = p")
    case True
    with assms(2) show ?thesis by (simp add: fs_content_def)
  next
    case False
    then have "fs_names fs q \<noteq> Some i" using fs_wf_inj [OF assms, of q] by blast
    with False show ?thesis
      by (cases "fs_names fs q") (simp_all add: fs_content_def set_data_def)
  qed
qed

text \<open>Opening with truncation leaves an empty file of that name and touches no other.\<close>

lemma open_trunc:
  assumes wf: "fs_wf fs" and op: "open_trunc p fs = (i, fs1)"
  shows "fs_wf fs1" "fs_names fs1 p = Some i" "fs_content fs1 = (fs_content fs)(p \<mapsto> [])"
    "fs_dirs fs1 = fs_dirs fs" "fs_data fs1 i = []"
proof -
  show wf1: "fs_wf fs1"
  proof (cases "fs_names fs p")
    case None
    with op have fs1: "fs_names fs1 = (fs_names fs)(p \<mapsto> fs_next fs)" "fs_next fs1 = Suc (fs_next fs)"
      by (auto simp: open_trunc_def)
    show ?thesis
    proof (rule fs_wfI)
      fix q q' j
      assume "fs_names fs1 q = Some j" "fs_names fs1 q' = Some j"
      then show "q = q'"
        using fs_wf_inj [OF wf, of q j q'] fs_wf_less [OF wf, of q j] fs_wf_less [OF wf, of q' j]
        by (auto simp: fs1 split: if_splits)
    next
      fix q j
      assume "fs_names fs1 q = Some j"
      then show "j < fs_next fs1"
        using fs_wf_less [OF wf, of q j] by (auto simp: fs1 split: if_splits)
    qed
  next
    case (Some j)
    with op wf show ?thesis by (auto simp: open_trunc_def)
  qed
  show "fs_names fs1 p = Some i" "fs_dirs fs1 = fs_dirs fs" "fs_data fs1 i = []"
    using op by (auto simp: open_trunc_def split: option.splits)
  show "fs_content fs1 = (fs_content fs)(p \<mapsto> [])"
  proof (cases "fs_names fs p")
    case None
    show ?thesis
    proof
      fix q
      show "fs_content fs1 q = ((fs_content fs)(p \<mapsto> [])) q"
        using op None fs_wf_less [OF wf, of q]
        by (cases "fs_names fs q") (auto simp: open_trunc_def fs_content_def)
    qed
  next
    case (Some j)
    with op content_set_data [OF wf Some, of "[]"] show ?thesis by (auto simp: open_trunc_def)
  qed
qed

text \<open>The other calls, on the contents.\<close>

lemma MkdirAll_simps:
  assumes "os_MkdirAll os p fs = (fs', err)"
  shows "fs_content fs' = fs_content fs" "fs_wf fs' = fs_wf fs" "fs_names fs' = fs_names fs"
    "fs_data fs' = fs_data fs" "set (fs_dirs fs) \<subseteq> set (fs_dirs fs')"
    "err = None \<Longrightarrow> filepath_Clean p \<in> set (fs_dirs fs')"
  using assms
  by (auto simp: os_MkdirAll_def fs_wf_def fs_content_def fun_eq_iff split: if_splits option.splits)

lemma WriteFile_content:
  assumes wf: "fs_wf fs" and w: "os_WriteFile os p v fs = (fs', err)"
  shows "fs_wf fs'" "fs_dirs fs' = fs_dirs fs"
    "err = None \<Longrightarrow> fs_content fs' = (fs_content fs)(p \<mapsto> v)"
    "fs_content fs' = fs_content fs \<or> (\<exists>n. fs_content fs' = (fs_content fs)(p \<mapsto> take n v))"
proof -
  obtain i fs1 where op: "open_trunc p fs = (i, fs1)" by (cases "open_trunc p fs")
  note o = open_trunc [OF wf op]
  have "fs' = fs \<and> err \<noteq> None \<or>
      (\<exists>n. fs' = set_data i (take n v) fs1 \<and> (err = None \<longrightarrow> n = length v))"
    using w by (auto simp: os_WriteFile_def op split: if_splits option.splits intro: exI [of _ "length v"])
  moreover have "fs_content (set_data i d fs1) = (fs_content fs)(p \<mapsto> d)" for d
    using content_set_data [OF o(1,2), of d] by (simp add: o(3))
  ultimately show "fs_wf fs'" "fs_dirs fs' = fs_dirs fs"
    "err = None \<Longrightarrow> fs_content fs' = (fs_content fs)(p \<mapsto> v)"
    "fs_content fs' = fs_content fs \<or> (\<exists>n. fs_content fs' = (fs_content fs)(p \<mapsto> take n v))"
    using wf o(1,4) by auto
qed

lemma Create_content:
  assumes wf: "fs_wf fs" and c: "os_Create os p fs = Inr (fs1, f)"
  shows "fs_wf fs1" "fs_dirs fs1 = fs_dirs fs" "fs_content fs1 = (fs_content fs)(p \<mapsto> [])"
    "fs_names fs1 p = Some (f_inode f)" "f_pos f = 0" "f_name f = p" "fs_data fs1 (f_inode f) = []"
  using c open_trunc [OF wf]
  by (auto simp: os_Create_def split: if_splits option.splits prod.splits)

lemma Rename_content:
  assumes wf: "fs_wf fs" and r: "os_Rename os src dst fs = (fs', err)"
  shows "fs_wf fs'" "fs_dirs fs' = fs_dirs fs" "err \<noteq> None \<Longrightarrow> fs' = fs"
    "err = None \<Longrightarrow> \<exists>d. fs_content fs src = Some d \<and> fs_content fs' = (fs_content fs)(src := None, dst \<mapsto> d)"
proof -
  have cases: "fs' = fs \<and> err \<noteq> None \<or> (\<exists>i. fs_names fs src = Some i \<and> err = None \<and>
      fs' = fs\<lparr>fs_names := (fs_names fs)(src := None, dst \<mapsto> i)\<rparr>)"
    using r by (auto simp: os_Rename_def split: if_splits option.splits)
  have wf': "fs_wf (fs\<lparr>fs_names := (fs_names fs)(src := None, dst \<mapsto> i)\<rparr>)"
    if "fs_names fs src = Some i" for i
  proof (rule fs_wfI)
    fix p q j
    assume "fs_names (fs\<lparr>fs_names := (fs_names fs)(src := None, dst \<mapsto> i)\<rparr>) p = Some j"
      and "fs_names (fs\<lparr>fs_names := (fs_names fs)(src := None, dst \<mapsto> i)\<rparr>) q = Some j"
    then show "p = q"
      using fs_wf_inj [OF wf that, of p] fs_wf_inj [OF wf that, of q] fs_wf_inj [OF wf, of p j q]
      by (auto split: if_splits)
  next
    fix p j
    assume "fs_names (fs\<lparr>fs_names := (fs_names fs)(src := None, dst \<mapsto> i)\<rparr>) p = Some j"
    then show "j < fs_next (fs\<lparr>fs_names := (fs_names fs)(src := None, dst \<mapsto> i)\<rparr>)"
      using fs_wf_less [OF wf, of p j] fs_wf_less [OF wf that] by (auto split: if_splits)
  qed
  show "fs_wf fs'" using cases wf wf' by auto
  show "fs_dirs fs' = fs_dirs fs" "err \<noteq> None \<Longrightarrow> fs' = fs" using cases by auto
  show "err = None \<Longrightarrow> \<exists>d. fs_content fs src = Some d \<and> fs_content fs' = (fs_content fs)(src := None, dst \<mapsto> d)"
    using cases by (auto simp: fs_content_def fun_eq_iff)
qed

lemma Remove_content:
  assumes wf: "fs_wf fs" and r: "os_Remove os p fs = (fs', err)"
  shows "fs_wf fs'" "fs_dirs fs' = fs_dirs fs" "err \<noteq> None \<Longrightarrow> fs' = fs"
    "err = None \<Longrightarrow> fs_content fs' = (fs_content fs)(p := None)"
proof -
  have cases: "fs' = fs \<and> err \<noteq> None \<or> err = None \<and> fs' = fs\<lparr>fs_names := (fs_names fs)(p := None)\<rparr>"
    using r by (auto simp: os_Remove_def split: option.splits)
  have "fs_wf (fs\<lparr>fs_names := (fs_names fs)(p := None)\<rparr>)"
    using fs_wf_inj [OF wf] fs_wf_less [OF wf] by (intro fs_wfI) (auto split: if_splits)
  with cases wf show "fs_wf fs'" by auto
  show "fs_dirs fs' = fs_dirs fs" "err \<noteq> None \<Longrightarrow> fs' = fs"
    "err = None \<Longrightarrow> fs_content fs' = (fs_content fs)(p := None)"
    using cases by (auto simp: fs_content_def fun_eq_iff)
qed

lemma file_Write_content:
  assumes wf: "fs_wf fs" and h: "fs_names fs p = Some (f_inode f)"
    and w: "file_Write os d f fs = (fs', f', n, err)"
  shows "fs_wf fs'" "fs_names fs' = fs_names fs" "fs_dirs fs' = fs_dirs fs"
    "f_inode f' = f_inode f" "f_name f' = f_name f" "f_pos f' = f_pos f + n" "n \<le> length d"
    "fs_content fs' = (fs_content fs)(p \<mapsto> write_at (f_pos f) (take n d) (fs_data fs (f_inode f)))"
    "fs_data fs' (f_inode f) = write_at (f_pos f) (take n d) (fs_data fs (f_inode f))"
    "err = None \<Longrightarrow> n = length d"
  using w wf content_set_data [OF wf h]
  by (auto simp: file_Write_def Let_def split: option.splits)

text \<open>Writing at the end of a file appends.\<close>

lemma write_at_end: "write_at (length old) d old = old @ d"
  by (simp add: write_at_def)

end
