(* ===== verification/Metadata_Config.thy ===== *)
theory Metadata_Config
  imports Config_Steps Os_Files
begin

text \<open>
  The configuration of a metadata node (\<^verbatim>\<open>src/metadata/config.go\<close>): defaults, the JSON
  file, the environment, and validation. The file is given as the document that
  a path holds, or the error of reading or parsing it; keys are matched exactly.
\<close>

record NodeConfig =
  nc_NodeID :: string
  nc_GRPCAddr :: string
  nc_RaftAddr :: string
  nc_RaftAdvertise :: string
  nc_RaftDir :: string
  nc_PeerAddrs :: "string \<rightharpoonup> string"
  nc_Bootstrap :: bool
  nc_ReplicationFactor :: int
  nc_SuspectTimeout :: duration
  nc_DeadTimeout :: duration
  nc_WatcherInterval :: duration
  nc_ReconcileDelay :: duration
  nc_HeartbeatTimeout :: duration
  nc_ElectionTimeout :: duration
  nc_SnapshotInterval :: duration
  nc_SnapshotThreshold :: uint64
  nc_SnapshotRetain :: int

section \<open>Defaults\<close>

definition DefaultReplicationFactor :: int where "DefaultReplicationFactor = 3"

definition DefaultNodeConfig :: NodeConfig where
  "DefaultNodeConfig =
     \<lparr>nc_NodeID = ''node-1'', nc_GRPCAddr = '':4001'', nc_RaftAddr = ''127.0.0.1:5001'', nc_RaftAdvertise = '''',
      nc_RaftDir = ''./data/metadata/raft'', nc_PeerAddrs = Map.empty, nc_Bootstrap = False,
      nc_ReplicationFactor = DefaultReplicationFactor,
      nc_SuspectTimeout = 10 * Second, nc_DeadTimeout = 30 * Second, nc_WatcherInterval = 5 * Second,
      nc_ReconcileDelay = 30 * Second, nc_HeartbeatTimeout = 1 * Second, nc_ElectionTimeout = 5 * Second,
      nc_SnapshotInterval = 30 * Second, nc_SnapshotThreshold = 8192, nc_SnapshotRetain = 2\<rparr>"

text \<open>\<open>Default\<close> repairs empty and non-positive values.\<close>

definition nc_Default :: "NodeConfig \<Rightarrow> NodeConfig" where
  "nc_Default c =
     (let D = DefaultNodeConfig;
          text1 = (\<lambda>s d. if s = '''' then d else s);
          pos = (\<lambda>n d. if n \<le> (0 :: int) then d else n)
      in c\<lparr>nc_NodeID := text1 (nc_NodeID c) (nc_NodeID D), nc_GRPCAddr := text1 (nc_GRPCAddr c) (nc_GRPCAddr D),
           nc_RaftAddr := text1 (nc_RaftAddr c) (nc_RaftAddr D), nc_RaftDir := text1 (nc_RaftDir c) (nc_RaftDir D),
           nc_ReplicationFactor := pos (nc_ReplicationFactor c) (nc_ReplicationFactor D),
           nc_SuspectTimeout := pos (nc_SuspectTimeout c) (nc_SuspectTimeout D),
           nc_DeadTimeout := pos (nc_DeadTimeout c) (nc_DeadTimeout D),
           nc_WatcherInterval := pos (nc_WatcherInterval c) (nc_WatcherInterval D),
           nc_ReconcileDelay := pos (nc_ReconcileDelay c) (nc_ReconcileDelay D),
           nc_HeartbeatTimeout := pos (nc_HeartbeatTimeout c) (nc_HeartbeatTimeout D),
           nc_ElectionTimeout := pos (nc_ElectionTimeout c) (nc_ElectionTimeout D),
           nc_SnapshotInterval := pos (nc_SnapshotInterval c) (nc_SnapshotInterval D),
           nc_SnapshotThreshold := (if nc_SnapshotThreshold c = 0 then nc_SnapshotThreshold D else nc_SnapshotThreshold c),
           nc_SnapshotRetain := pos (nc_SnapshotRetain c) (nc_SnapshotRetain D)\<rparr>)"

definition ReplicationCount :: "NodeConfig \<Rightarrow> int" where
  "ReplicationCount c = (if nc_ReplicationFactor c \<le> 0 then DefaultReplicationFactor else nc_ReplicationFactor c)"

section \<open>The file and the environment\<close>

text \<open>\<open>parsePeerAddrs\<close>: pairs of a node and its Raft address, separated by commas.\<close>

definition parse_pair :: "string \<Rightarrow> (string \<times> string) option" where
  "parse_pair raw =
     (let pair = strings_TrimSpace raw in
      if pair = '''' then None
      else case strings_SplitN2 CHR '':'' pair of
        [a, b] \<Rightarrow>
          (let nodeID = strings_TrimSpace a; addr = strings_TrimSpace b
           in if nodeID = '''' \<or> addr = '''' then None else Some (nodeID, addr))
      | _ \<Rightarrow> None)"

fun add_pairs :: "string list \<Rightarrow> (string \<rightharpoonup> string) \<Rightarrow> (string \<rightharpoonup> string)" where
  "add_pairs [] m = m"
| "add_pairs (p # ps) m = add_pairs ps (case parse_pair p of None \<Rightarrow> m | Some (k, v) \<Rightarrow> m(k \<mapsto> v))"

definition parsePeerAddrs :: "string \<Rightarrow> (string \<rightharpoonup> string)" where
  "parsePeerAddrs s = (if s = '''' then Map.empty else add_pairs (strings_Split CHR '','' s) Map.empty)"

definition nc_json_steps :: "fields \<Rightarrow> NodeConfig step list" where
  "nc_json_steps fs =
     [json_step fs ''node_id'' dec_string (\<lambda>v c. c\<lparr>nc_NodeID := v\<rparr>),
      json_step fs ''grpc_addr'' dec_string (\<lambda>v c. c\<lparr>nc_GRPCAddr := v\<rparr>),
      json_step fs ''raft_addr'' dec_string (\<lambda>v c. c\<lparr>nc_RaftAddr := v\<rparr>),
      json_step fs ''raft_dir'' dec_string (\<lambda>v c. c\<lparr>nc_RaftDir := v\<rparr>),
      json_step fs ''peer_addrs'' dec_string_map (\<lambda>v c. c\<lparr>nc_PeerAddrs := v\<rparr>),
      json_step fs ''bootstrap'' dec_bool (\<lambda>v c. c\<lparr>nc_Bootstrap := v\<rparr>),
      json_step fs ''replication_factor'' dec_int64 (\<lambda>v c. c\<lparr>nc_ReplicationFactor := v\<rparr>),
      json_step fs ''snapshot_threshold'' dec_uint64 (\<lambda>v c. c\<lparr>nc_SnapshotThreshold := v\<rparr>),
      json_step fs ''snapshot_retain'' dec_int64 (\<lambda>v c. c\<lparr>nc_SnapshotRetain := v\<rparr>),
      json_duration_step fs ''suspect_timeout'' (\<lambda>v c. c\<lparr>nc_SuspectTimeout := v\<rparr>),
      json_duration_step fs ''dead_timeout'' (\<lambda>v c. c\<lparr>nc_DeadTimeout := v\<rparr>),
      json_duration_step fs ''watcher_interval'' (\<lambda>v c. c\<lparr>nc_WatcherInterval := v\<rparr>),
      json_duration_step fs ''reconcile_delay'' (\<lambda>v c. c\<lparr>nc_ReconcileDelay := v\<rparr>),
      json_duration_step fs ''heartbeat_timeout'' (\<lambda>v c. c\<lparr>nc_HeartbeatTimeout := v\<rparr>),
      json_duration_step fs ''election_timeout'' (\<lambda>v c. c\<lparr>nc_ElectionTimeout := v\<rparr>),
      json_duration_step fs ''snapshot_interval'' (\<lambda>v c. c\<lparr>nc_SnapshotInterval := v\<rparr>)]"

definition nc_ApplyJSON :: "(string \<Rightarrow> json result) \<Rightarrow> string \<Rightarrow> NodeConfig step" where
  "nc_ApplyJSON files path c =
     (case files path of
        Inl e \<Rightarrow> Inl e
      | Inr doc \<Rightarrow>
          (case json_object doc of
             None \<Rightarrow> Inl (NewError ''json: cannot unmarshal'')
           | Some fs \<Rightarrow> run_steps (nc_json_steps fs) c))"

definition nc_env_steps :: "environ \<Rightarrow> NodeConfig step list" where
  "nc_env_steps env =
     [env_step env ''METADATA_NODE_ID'' Some (\<lambda>v c. c\<lparr>nc_NodeID := v\<rparr>),
      env_step env ''METADATA_GRPC_ADDR'' Some (\<lambda>v c. c\<lparr>nc_GRPCAddr := v\<rparr>),
      env_step env ''METADATA_RAFT_ADDR'' Some (\<lambda>v c. c\<lparr>nc_RaftAddr := v\<rparr>),
      env_step env ''METADATA_RAFT_ADVERTISE'' Some (\<lambda>v c. c\<lparr>nc_RaftAdvertise := v\<rparr>),
      env_step env ''METADATA_RAFT_DIR'' Some (\<lambda>v c. c\<lparr>nc_RaftDir := v\<rparr>),
      env_step env ''METADATA_PEER_ADDRS'' (\<lambda>s. Some (parsePeerAddrs s)) (\<lambda>v c. c\<lparr>nc_PeerAddrs := v\<rparr>),
      env_step env ''METADATA_BOOTSTRAP'' strconv_ParseBool (\<lambda>v c. c\<lparr>nc_Bootstrap := v\<rparr>),
      env_step env ''METADATA_REPLICATION_FACTOR'' strconv_Atoi (\<lambda>v c. c\<lparr>nc_ReplicationFactor := v\<rparr>),
      env_step env ''METADATA_SUSPECT_TIMEOUT'' time_ParseDuration (\<lambda>v c. c\<lparr>nc_SuspectTimeout := v\<rparr>),
      env_step env ''METADATA_DEAD_TIMEOUT'' time_ParseDuration (\<lambda>v c. c\<lparr>nc_DeadTimeout := v\<rparr>),
      env_step env ''METADATA_WATCHER_INTERVAL'' time_ParseDuration (\<lambda>v c. c\<lparr>nc_WatcherInterval := v\<rparr>),
      env_step env ''METADATA_RECONCILE_DELAY'' time_ParseDuration (\<lambda>v c. c\<lparr>nc_ReconcileDelay := v\<rparr>),
      env_step env ''METADATA_HEARTBEAT_TIMEOUT'' time_ParseDuration (\<lambda>v c. c\<lparr>nc_HeartbeatTimeout := v\<rparr>),
      env_step env ''METADATA_ELECTION_TIMEOUT'' time_ParseDuration (\<lambda>v c. c\<lparr>nc_ElectionTimeout := v\<rparr>),
      env_step env ''METADATA_SNAPSHOT_INTERVAL'' time_ParseDuration (\<lambda>v c. c\<lparr>nc_SnapshotInterval := v\<rparr>),
      env_step env ''METADATA_SNAPSHOT_THRESHOLD'' strconv_ParseUint (\<lambda>v c. c\<lparr>nc_SnapshotThreshold := word_of_nat v\<rparr>),
      env_step env ''METADATA_SNAPSHOT_RETAIN'' strconv_Atoi (\<lambda>v c. c\<lparr>nc_SnapshotRetain := v\<rparr>)]"

definition nc_ApplyEnv :: "environ \<Rightarrow> NodeConfig step" where
  "nc_ApplyEnv env = run_steps (nc_env_steps env)"

section \<open>Loading\<close>

definition nc_Validate :: "os_env \<Rightarrow> NodeConfig \<Rightarrow> filesystem \<Rightarrow> filesystem \<times> goerror option" where
  "nc_Validate os c fs =
     (if nc_NodeID c = '''' then (fs, Some (NewError ''config: NodeID is required''))
      else if nc_GRPCAddr c = '''' then (fs, Some (NewError ''config: GRPCAddr is required''))
      else if nc_RaftAddr c = '''' then (fs, Some (NewError ''config: RaftAddr is required''))
      else if nc_RaftDir c = '''' then (fs, Some (NewError ''config: RaftDir is required''))
      else case os_MkdirAll os (nc_RaftDir c) fs of
        (fs', Some e) \<Rightarrow> (fs', Some (Wrap ''failed to create raft dir'' e))
      | (fs', None) \<Rightarrow> (fs', None))"

definition nc_LoadFromJSON :: "(string \<Rightarrow> json result) \<Rightarrow> string \<Rightarrow> NodeConfig result" where
  "nc_LoadFromJSON files path =
     (case nc_ApplyJSON files path DefaultNodeConfig of Inl e \<Rightarrow> Inl e | Inr c \<Rightarrow> Inr (nc_Default c))"

definition nc_LoadConfigDefaultFlow ::
  "os_env \<Rightarrow> environ \<Rightarrow> (string \<Rightarrow> json result) \<Rightarrow> filesystem \<Rightarrow> filesystem \<times> NodeConfig result" where
  "nc_LoadConfigDefaultFlow os env files fs =
     (let path = env ''METADATA_CONFIG'';
          base = (if path = '''' then Inr DefaultNodeConfig else nc_ApplyJSON files path DefaultNodeConfig)
      in case base of
           Inl e \<Rightarrow> (fs, Inl (Wrap ''failed to load config'' e))
         | Inr c \<Rightarrow>
             (case nc_ApplyEnv env c of
                Inl e \<Rightarrow> (fs, Inl (Wrap ''failed to apply env config'' e))
              | Inr c1 \<Rightarrow>
                  (case nc_Validate os c1 fs of
                     (fs', Some e) \<Rightarrow> (fs', Inl (Wrap ''failed to validate config'' e))
                   | (fs', None) \<Rightarrow> (fs', Inr c1))))"

text \<open>The fields of the document the flow reads; none if no file is named.\<close>

definition nc_doc :: "environ \<Rightarrow> (string \<Rightarrow> json result) \<Rightarrow> fields" where
  "nc_doc env files =
     (if env ''METADATA_CONFIG'' = '''' then []
      else case files (env ''METADATA_CONFIG'') of
        Inr doc \<Rightarrow> (case json_object doc of Some fs \<Rightarrow> fs | None \<Rightarrow> [])
      | Inl e \<Rightarrow> [])"

section \<open>What is loaded\<close>

lemmas nc_select =
  select_override [of nc_NodeID] select_override [of nc_GRPCAddr] select_override [of nc_RaftAddr] select_override [of nc_RaftAdvertise]
  select_override [of nc_RaftDir] select_override [of nc_PeerAddrs] select_override [of nc_Bootstrap] select_override [of nc_ReplicationFactor]
  select_override [of nc_SuspectTimeout] select_override [of nc_DeadTimeout] select_override [of nc_WatcherInterval] select_override [of nc_ReconcileDelay]
  select_override [of nc_HeartbeatTimeout] select_override [of nc_ElectionTimeout] select_override [of nc_SnapshotInterval] select_override [of nc_SnapshotThreshold]
  select_override [of nc_SnapshotRetain]

lemmas nc_selected =
  select_overridden [of nc_NodeID] select_overridden [of nc_GRPCAddr] select_overridden [of nc_RaftAddr] select_overridden [of nc_RaftAdvertise]
  select_overridden [of nc_RaftDir] select_overridden [of nc_PeerAddrs] select_overridden [of nc_Bootstrap] select_overridden [of nc_ReplicationFactor]
  select_overridden [of nc_SuspectTimeout] select_overridden [of nc_DeadTimeout] select_overridden [of nc_WatcherInterval] select_overridden [of nc_ReconcileDelay]
  select_overridden [of nc_HeartbeatTimeout] select_overridden [of nc_ElectionTimeout] select_overridden [of nc_SnapshotInterval] select_overridden [of nc_SnapshotThreshold]
  select_overridden [of nc_SnapshotRetain]

lemma json_value_Nil [simp]: "json_value [] k dec = None" "duration_value [] k = None"
  by (simp_all add: json_value_def duration_value_def json_field_def)

lemma nc_loaded:
  assumes "nc_LoadConfigDefaultFlow os env files fs = (fs', Inr c)"
  shows "c = fold step_ok (nc_env_steps env) (fold step_ok (nc_json_steps (nc_doc env files)) DefaultNodeConfig)"
    and "nc_Validate os c fs = (fs', None)"
proof -
  define base where "base = (if env ''METADATA_CONFIG'' = '''' then Inr DefaultNodeConfig
    else nc_ApplyJSON files (env ''METADATA_CONFIG'') DefaultNodeConfig)"
  from assms obtain c0 where c0: "base = Inr c0" "nc_ApplyEnv env c0 = Inr c" "nc_Validate os c fs = (fs', None)"
    unfolding nc_LoadConfigDefaultFlow_def Let_def base_def [symmetric]
    by (auto split: sum.splits prod.splits option.splits)
  have none: "fold step_ok (nc_json_steps []) d = d" for d
    by (simp add: nc_json_steps_def config_step override_def)
  have "c0 = fold step_ok (nc_json_steps (nc_doc env files)) DefaultNodeConfig"
  proof (cases "env ''METADATA_CONFIG'' = ''''")
    case True
    with c0(1) show ?thesis by (simp add: base_def nc_doc_def none)
  next
    case False
    with c0(1) show ?thesis
      by (auto simp: base_def nc_doc_def nc_ApplyJSON_def dest!: run_steps_result split: sum.splits option.splits)
  qed
  moreover have "c = fold step_ok (nc_env_steps env) c0"
    using c0(2) by (simp add: nc_ApplyEnv_def run_steps_result)
  ultimately show "c = fold step_ok (nc_env_steps env) (fold step_ok (nc_json_steps (nc_doc env files)) DefaultNodeConfig)"
    by simp
  show "nc_Validate os c fs = (fs', None)" by (rule c0(3))
qed

lemma nc_env_fields:
  "nc_NodeID (fold step_ok (nc_env_steps env) c) = or_else (env_value env ''METADATA_NODE_ID'' Some) (nc_NodeID c)"
  "nc_GRPCAddr (fold step_ok (nc_env_steps env) c) = or_else (env_value env ''METADATA_GRPC_ADDR'' Some) (nc_GRPCAddr c)"
  "nc_RaftAddr (fold step_ok (nc_env_steps env) c) = or_else (env_value env ''METADATA_RAFT_ADDR'' Some) (nc_RaftAddr c)"
  "nc_RaftAdvertise (fold step_ok (nc_env_steps env) c) = or_else (env_value env ''METADATA_RAFT_ADVERTISE'' Some) (nc_RaftAdvertise c)"
  "nc_RaftDir (fold step_ok (nc_env_steps env) c) = or_else (env_value env ''METADATA_RAFT_DIR'' Some) (nc_RaftDir c)"
  "nc_PeerAddrs (fold step_ok (nc_env_steps env) c) = or_else (env_value env ''METADATA_PEER_ADDRS'' (\<lambda>s. Some (parsePeerAddrs s))) (nc_PeerAddrs c)"
  "nc_Bootstrap (fold step_ok (nc_env_steps env) c) = or_else (env_value env ''METADATA_BOOTSTRAP'' strconv_ParseBool) (nc_Bootstrap c)"
  "nc_ReplicationFactor (fold step_ok (nc_env_steps env) c) = or_else (env_value env ''METADATA_REPLICATION_FACTOR'' strconv_Atoi) (nc_ReplicationFactor c)"
  "nc_SuspectTimeout (fold step_ok (nc_env_steps env) c) = or_else (env_value env ''METADATA_SUSPECT_TIMEOUT'' time_ParseDuration) (nc_SuspectTimeout c)"
  "nc_DeadTimeout (fold step_ok (nc_env_steps env) c) = or_else (env_value env ''METADATA_DEAD_TIMEOUT'' time_ParseDuration) (nc_DeadTimeout c)"
  "nc_WatcherInterval (fold step_ok (nc_env_steps env) c) = or_else (env_value env ''METADATA_WATCHER_INTERVAL'' time_ParseDuration) (nc_WatcherInterval c)"
  "nc_ReconcileDelay (fold step_ok (nc_env_steps env) c) = or_else (env_value env ''METADATA_RECONCILE_DELAY'' time_ParseDuration) (nc_ReconcileDelay c)"
  "nc_HeartbeatTimeout (fold step_ok (nc_env_steps env) c) = or_else (env_value env ''METADATA_HEARTBEAT_TIMEOUT'' time_ParseDuration) (nc_HeartbeatTimeout c)"
  "nc_ElectionTimeout (fold step_ok (nc_env_steps env) c) = or_else (env_value env ''METADATA_ELECTION_TIMEOUT'' time_ParseDuration) (nc_ElectionTimeout c)"
  "nc_SnapshotInterval (fold step_ok (nc_env_steps env) c) = or_else (env_value env ''METADATA_SNAPSHOT_INTERVAL'' time_ParseDuration) (nc_SnapshotInterval c)"
  "nc_SnapshotRetain (fold step_ok (nc_env_steps env) c) = or_else (env_value env ''METADATA_SNAPSHOT_RETAIN'' strconv_Atoi) (nc_SnapshotRetain c)"
  by (simp_all add: nc_env_steps_def config_step nc_select nc_selected)

lemma nc_json_fields:
  "nc_NodeID (fold step_ok (nc_json_steps j) c) = or_else (json_value j ''node_id'' dec_string) (nc_NodeID c)"
  "nc_GRPCAddr (fold step_ok (nc_json_steps j) c) = or_else (json_value j ''grpc_addr'' dec_string) (nc_GRPCAddr c)"
  "nc_RaftAddr (fold step_ok (nc_json_steps j) c) = or_else (json_value j ''raft_addr'' dec_string) (nc_RaftAddr c)"
  "nc_RaftAdvertise (fold step_ok (nc_json_steps j) c) = nc_RaftAdvertise c"
  "nc_RaftDir (fold step_ok (nc_json_steps j) c) = or_else (json_value j ''raft_dir'' dec_string) (nc_RaftDir c)"
  "nc_PeerAddrs (fold step_ok (nc_json_steps j) c) = or_else (json_value j ''peer_addrs'' dec_string_map) (nc_PeerAddrs c)"
  "nc_Bootstrap (fold step_ok (nc_json_steps j) c) = or_else (json_value j ''bootstrap'' dec_bool) (nc_Bootstrap c)"
  "nc_ReplicationFactor (fold step_ok (nc_json_steps j) c) = or_else (json_value j ''replication_factor'' dec_int64) (nc_ReplicationFactor c)"
  "nc_SuspectTimeout (fold step_ok (nc_json_steps j) c) = or_else (duration_value j ''suspect_timeout'') (nc_SuspectTimeout c)"
  "nc_DeadTimeout (fold step_ok (nc_json_steps j) c) = or_else (duration_value j ''dead_timeout'') (nc_DeadTimeout c)"
  "nc_WatcherInterval (fold step_ok (nc_json_steps j) c) = or_else (duration_value j ''watcher_interval'') (nc_WatcherInterval c)"
  "nc_ReconcileDelay (fold step_ok (nc_json_steps j) c) = or_else (duration_value j ''reconcile_delay'') (nc_ReconcileDelay c)"
  "nc_HeartbeatTimeout (fold step_ok (nc_json_steps j) c) = or_else (duration_value j ''heartbeat_timeout'') (nc_HeartbeatTimeout c)"
  "nc_ElectionTimeout (fold step_ok (nc_json_steps j) c) = or_else (duration_value j ''election_timeout'') (nc_ElectionTimeout c)"
  "nc_SnapshotInterval (fold step_ok (nc_json_steps j) c) = or_else (duration_value j ''snapshot_interval'') (nc_SnapshotInterval c)"
  "nc_SnapshotRetain (fold step_ok (nc_json_steps j) c) = or_else (json_value j ''snapshot_retain'' dec_int64) (nc_SnapshotRetain c)"
  by (simp_all add: nc_json_steps_def config_step nc_select nc_selected)


definition demo_environ :: environ where
  "demo_environ k =
     (if k = ''METADATA_CONFIG'' then ''m.json''
      else if k = ''METADATA_NODE_ID'' then ''m7''
      else if k = ''METADATA_PEER_ADDRS'' then ''m8: 10.0.0.8:5001, bad, m9:10.0.0.9:5001''
      else if k = ''METADATA_SUSPECT_TIMEOUT'' then ''1m30.5s''
      else '''')"

definition demo_document :: json where
  "demo_document = JObj [(''node_id'', JStr ''m1''), (''grpc_addr'', JStr ''0.0.0.0:4001''), (''replication_factor'', JNum 2),
     (''raft_dir'', JNull), (''suspect_timeout'', JStr ''15s'')]"

lemma demo_values:
  "time_ParseDuration ''1m30.5s'' = Some 90500000000" "time_ParseDuration ''15s'' = Some (15 * Second)"
  "time_ParseDuration ''0s'' = Some 0"
  by (simp_all add: duration_eval Second_def)

lemma demo_loaded:
  "\<exists>fs' c. nc_LoadConfigDefaultFlow reliable_os demo_environ (\<lambda>_. Inr demo_document) fs_empty = (fs', Inr c)"
  by (simp add: nc_LoadConfigDefaultFlow_def nc_ApplyEnv_def nc_env_steps_def env_step_def demo_environ_def
      nc_ApplyJSON_def nc_json_steps_def json_step_def json_duration_step_def json_field_def demo_document_def demo_values
      nc_Validate_def os_MkdirAll_def DefaultNodeConfig_def Let_def)


section \<open>Peers\<close>

text \<open>Writing the peers as text and parsing it gives the same peers.\<close>

definition show_peers :: "(string \<times> string) list \<Rightarrow> string" where
  "show_peers ps = join_with CHR '','' (map (\<lambda>(k, v). k @ CHR '':'' # v) ps)"

definition plain_text :: "string \<Rightarrow> bool" where
  "plain_text s \<longleftrightarrow> s \<noteq> [] \<and> CHR '','' \<notin> set s \<and> (\<forall>c \<in> set s. \<not> is_space c)"

lemma parse_pair_plain:
  assumes "plain_text k" "plain_text v" "CHR '':'' \<notin> set k"
  shows "parse_pair (k @ CHR '':'' # v) = Some (k, v)"
proof -
  have "\<forall>c \<in> set (k @ CHR '':'' # v). \<not> is_space c" using assms by (auto simp: plain_text_def is_space_def)
  then show ?thesis
    using assms by (simp add: parse_pair_def TrimSpace_plain strings_SplitN2_append plain_text_def Let_def)
qed

lemma add_pairs_plain:
  "\<forall>(k, v) \<in> set ps. plain_text k \<and> plain_text v \<and> CHR '':'' \<notin> set k \<Longrightarrow>
   add_pairs (map (\<lambda>(k, v). k @ CHR '':'' # v) ps) m = m ++ map_of (rev ps)"
proof (induction ps arbitrary: m)
  case (Cons p ps)
  then show ?case by (cases p) (auto simp: parse_pair_plain map_add_upd_left)
qed simp

lemma parsePeerAddrs_round_trip:
  assumes "\<forall>(k, v) \<in> set ps. plain_text k \<and> plain_text v \<and> CHR '':'' \<notin> set k" "distinct (map fst ps)" "ps \<noteq> []"
  shows "parsePeerAddrs (show_peers ps) = map_of ps"
proof -
  let ?ws = "map (\<lambda>(k, v). k @ CHR '':'' # v) ps"
  have "strings_Split CHR '','' (show_peers ps) = ?ws"
    unfolding show_peers_def using assms(1,3) by (intro strings_Split_join) (auto simp: plain_text_def)
  moreover have "show_peers ps \<noteq> ''''"
    using assms(3) by (cases ps; cases "tl ps") (auto simp: show_peers_def)
  moreover have "map_of (rev ps) = map_of ps" using assms(2) by (metis distinct_map map_of_eqI map_of_inject_set rev_map set_rev distinct_rev)
  ultimately show ?thesis using add_pairs_plain [OF assms(1)] by (simp add: parsePeerAddrs_def)
qed

section \<open>Well-formed configurations\<close>

text \<open>
  A configuration loaded with \<open>LoadFromJSON\<close> has no empty and no non-positive setting;
  the default flow, which the program uses, lets a zero interval through, with which
  the ticker of the node watcher cannot be created.
\<close>

definition node_config_wf :: "NodeConfig \<Rightarrow> bool" where
  "node_config_wf c \<longleftrightarrow>
     '''' \<notin> {nc_NodeID c, nc_GRPCAddr c, nc_RaftAddr c, nc_RaftDir c}
     \<and> list_all (\<lambda>n. 0 < n) [nc_ReplicationFactor c, nc_SuspectTimeout c, nc_DeadTimeout c, nc_WatcherInterval c,
          nc_ReconcileDelay c, nc_HeartbeatTimeout c, nc_ElectionTimeout c, nc_SnapshotInterval c, nc_SnapshotRetain c]
     \<and> 0 < nc_SnapshotThreshold c"

lemma nc_Default_wf: "node_config_wf (nc_Default c)"
  by (simp add: node_config_wf_def nc_Default_def DefaultNodeConfig_def Let_def Second_def DefaultReplicationFactor_def word_greater_zero_iff)

lemma LoadFromJSON_wf: "nc_LoadFromJSON files path = Inr c \<Longrightarrow> node_config_wf c"
  by (auto simp: nc_LoadFromJSON_def nc_Default_wf split: sum.splits)

lemma zero_watcher_interval_accepted:
  "case snd (nc_LoadConfigDefaultFlow reliable_os (\<lambda>k. if k = ''METADATA_WATCHER_INTERVAL'' then ''0s'' else '''') files fs_empty) of
     Inr c \<Rightarrow> nc_WatcherInterval c = 0 \<and> \<not> node_config_wf c
   | Inl e \<Rightarrow> False"
  by (simp add: nc_LoadConfigDefaultFlow_def nc_ApplyEnv_def nc_env_steps_def env_step_def demo_values nc_Validate_def
      os_MkdirAll_def DefaultNodeConfig_def Let_def node_config_wf_def)

end
