(* ===== verification/Metadata_App.thy ===== *)
theory Metadata_App
  imports Metadata_Cluster Metadata_Config
begin

text \<open>
  The metadata node as a process (\<^verbatim>\<open>src/metadata/app.go\<close>, \<^verbatim>\<open>src/metadata/raft.go\<close>,
  \<^verbatim>\<open>src/internal/raftutil/raftutil.go\<close>): how it is put together, started and stopped, and how it
  announces the address at which its clients reach it. The Raft library and the BoltDB log
  are a table of calls with their errors, \<open>raft_lib\<close>; \<open>'r\<close> is its type of a Raft node.
\<close>

section \<open>The Raft node\<close>

record raft_settings =
  rg_LocalID :: string
  rg_HeartbeatTimeout :: duration
  rg_ElectionTimeout :: duration
  rg_SnapshotInterval :: duration
  rg_SnapshotThreshold :: uint64

record 'r raft_lib =
  rl_ResolveTCPAddr :: "string \<Rightarrow> string result"
  rl_NewTCPTransport :: "string \<Rightarrow> string \<Rightarrow> goerror option"
  rl_NewFileSnapshotStore :: "string \<Rightarrow> int \<Rightarrow> goerror option"
  rl_NewBoltStore :: "string \<Rightarrow> goerror option"
  rl_NewRaft :: "raft_settings \<Rightarrow> 'r result"
  rl_BootstrapCluster :: "'r \<Rightarrow> (string \<times> string) list \<Rightarrow> goerror option"

definition advertise_addr :: "NodeConfig \<Rightarrow> string" where
  "advertise_addr c = (if nc_RaftAdvertise c = '''' then nc_RaftAddr c else nc_RaftAdvertise c)"

definition raft_config :: "NodeConfig \<Rightarrow> raft_settings" where
  "raft_config c =
     \<lparr>rg_LocalID = nc_NodeID c, rg_HeartbeatTimeout = nc_HeartbeatTimeout c, rg_ElectionTimeout = nc_ElectionTimeout c,
      rg_SnapshotInterval = nc_SnapshotInterval c, rg_SnapshotThreshold = nc_SnapshotThreshold c\<rparr>"

text \<open>The servers of a bootstrapped cluster; \<open>ord\<close> is the order in which the peers are visited.\<close>

definition bootstrap_servers :: "string list \<Rightarrow> NodeConfig \<Rightarrow> (string \<times> string) list" where
  "bootstrap_servers ord c =
     (nc_NodeID c, if advertise_addr c = '''' then nc_RaftAddr c else advertise_addr c)
     # concat (map (\<lambda>k. case nc_PeerAddrs c k of None \<Rightarrow> [] | Some a \<Rightarrow> [(k, a)]) ord)"

definition NewRaftNode :: "'r raft_lib \<Rightarrow> string list \<Rightarrow> NodeConfig \<Rightarrow> 'r result" where
  "NewRaftNode lib ord c =
     (case rl_ResolveTCPAddr lib (advertise_addr c) of
        Inl e \<Rightarrow> Inl (Wrap ''resolve raft addr'' e)
      | Inr addr \<Rightarrow>
     (case rl_NewTCPTransport lib (nc_RaftAddr c) addr of
        Some e \<Rightarrow> Inl (Wrap ''create transport'' e)
      | None \<Rightarrow>
     (case rl_NewFileSnapshotStore lib (nc_RaftDir c) (nc_SnapshotRetain c) of
        Some e \<Rightarrow> Inl (Wrap ''create snapshot store'' e)
      | None \<Rightarrow>
     (case rl_NewRaft lib (raft_config c) of
        Inl e \<Rightarrow> Inl (Wrap ''create raft'' e)
      | Inr r \<Rightarrow>
          if nc_Bootstrap c
          then (case rl_BootstrapCluster lib r (bootstrap_servers ord c) of
                  Some e \<Rightarrow> Inl (Wrap ''bootstrap cluster'' e)
                | None \<Rightarrow> Inr r)
          else Inr r))))"

section \<open>Putting the node together\<close>

text \<open>
  The options that inject a logger and a storage client do not change the model: logging is not
  part of it, and the deletions that the storage client performs are an output of reconciliation.
\<close>

datatype AppOption = WithSourcePlacement PlacementStrategy | WithTargetPlacement PlacementStrategy

record 'r MetadataApp =
  ma_Config :: NodeConfig
  ma_raft :: 'r
  ma_handler :: MetadataServiceHandler
  ma_watcher :: NodeWatcher
  ma_targetPlacement :: PlacementStrategy
  ma_scheduling :: bool
  ma_watching :: bool
  ma_serving :: bool
  ma_raftOpen :: bool
  ma_grpcLis :: "string option"

fun apply_app_option :: "AppOption \<Rightarrow> PlacementStrategy \<times> PlacementStrategy \<Rightarrow> PlacementStrategy \<times> PlacementStrategy" where
  "apply_app_option (WithSourcePlacement ps) (src, tgt) = (ps, tgt)"
| "apply_app_option (WithTargetPlacement ps) (src, tgt) = (src, ps)"

text \<open>\<open>initStore\<close>: the Raft directory must be there; the log is opened below it.\<close>

definition initStore :: "os_env \<Rightarrow> 'r raft_lib \<Rightarrow> NodeConfig \<Rightarrow> filesystem \<Rightarrow> goerror option" where
  "initStore os lib c fs =
     (case os_fault os OsStat (nc_RaftDir c) of
        Some e \<Rightarrow> Some e
      | None \<Rightarrow>
          if filepath_Clean (nc_RaftDir c) \<in> set (fs_dirs fs) then rl_NewBoltStore lib (filepath_Join [nc_RaftDir c, ''raft.db''])
          else if fs_content fs (nc_RaftDir c) \<noteq> None then Some (NewError ''raftDir does not exist'')
          else Some ENOENT)"

text \<open>\<open>initWorkers\<close>: the result is \<open>None\<close> where \<open>FatalError\<close> ends the process.\<close>

definition initWorkers :: "PlacementStrategy \<Rightarrow> PlacementStrategy \<Rightarrow> NodeConfig \<Rightarrow> (MetadataServiceHandler \<times> NodeWatcher) option" where
  "initWorkers src tgt c =
     (let rf = ReplicationCount c in
      case NewReconciler (nc_ReconcileDelay c) rf of
        Inl e \<Rightarrow> None
      | Inr r \<Rightarrow>
          Some (NewMetadataServiceHandler (start_world NewEmptyMetadataFsm src tgt rf) r,
                NewNodeWatcher (nc_SuspectTimeout c) (nc_WatcherInterval c)))"

definition NewMetadataApp ::
  "NodeEntry sorter \<Rightarrow> os_env \<Rightarrow> 'r raft_lib \<Rightarrow> string list \<Rightarrow> NodeConfig \<Rightarrow> AppOption list \<Rightarrow> filesystem
   \<Rightarrow> filesystem \<times> 'r MetadataApp result option" where
  "NewMetadataApp nsrt os lib ord c opts fs =
     (case nc_Validate os c fs of
        (fs1, Some e) \<Rightarrow> (fs1, Some (Inl e))
      | (fs1, None) \<Rightarrow>
     (case fold apply_app_option opts (LeastLoadedStrategy nsrt, MostFreeSpaceStrategy nsrt) of
        (src, tgt) \<Rightarrow>
     (case initStore os lib c fs1 of
        Some e \<Rightarrow> (fs1, Some (Inl e))
      | None \<Rightarrow>
     (case NewRaftNode lib ord c of
        Inl e \<Rightarrow> (fs1, Some (Inl e))
      | Inr r \<Rightarrow>
          (fs1, map_option (\<lambda>(h, nw). Inr \<lparr>ma_Config = c, ma_raft = r, ma_handler = h, ma_watcher = nw, ma_targetPlacement = tgt,
                                          ma_scheduling = False, ma_watching = False, ma_serving = False,
                                          ma_raftOpen = True, ma_grpcLis = None\<rparr>)
                  (initWorkers src tgt c))))))"

section \<open>Waiting for a leader\<close>

text \<open>
  \<open>WaitForLeader\<close>: \<open>clock k\<close> and \<open>leader k\<close> are what the \<open>k\<close>-th round of the loop sees. The
  value \<open>None\<close> stands for a loop that does not end.
\<close>

partial_function (option) wait_loop ::
  "(nat \<Rightarrow> gotime) \<Rightarrow> (nat \<Rightarrow> string) \<Rightarrow> gotime \<Rightarrow> nat \<Rightarrow> goerror option option" where
  "wait_loop clock leader deadline k =
     (if clock k < deadline then
        (if leader k \<noteq> '''' then Some None else wait_loop clock leader deadline (Suc k))
      else Some (Some (NewError ''timed out waiting for raft leader'')))"

definition WaitForLeader :: "(nat \<Rightarrow> gotime) \<Rightarrow> (nat \<Rightarrow> string) \<Rightarrow> gotime \<Rightarrow> duration \<Rightarrow> goerror option option" where
  "WaitForLeader clock leader now timeout = wait_loop clock leader (now + timeout) 0"

section \<open>Announcing the node, running and stopping\<close>

definition BoundGRPCAddr :: "'r MetadataApp \<Rightarrow> string" where
  "BoundGRPCAddr a = (case ma_grpcLis a of None \<Rightarrow> '''' | Some addr \<Rightarrow> addr)"

definition register_command :: "'r MetadataApp \<Rightarrow> MetadataCommand" where
  "register_command a =
     \<lparr>mc_Type = CmdRegisterMetadataNode, mc_Payload = enc_CommandRegisterMetadataNode
       \<lparr>crm_NodeID = nc_NodeID (ma_Config a), crm_RaftAddr = nc_RaftAddr (ma_Config a), crm_GrpcAddr = BoundGRPCAddr a\<rparr>\<rparr>"

definition registerInFSM :: "raft_apply \<Rightarrow> bool \<Rightarrow> 'r MetadataApp \<Rightarrow> MetadataFSM \<Rightarrow> MetadataFSM" where
  "registerInFSM raft isLeader a s = (if \<not> isLeader then s else fst (Propose raft s (register_command a)))"

text \<open>
  \<open>Run\<close>: \<open>waited\<close> is the result of \<open>WaitForLeader\<close>, \<open>listen\<close> that of \<open>net.Listen\<close>, which yields
  the address that was bound. The state of the replicated machine is passed separately.
\<close>

definition app_Run ::
  "goerror option \<Rightarrow> (string \<Rightarrow> string result) \<Rightarrow> raft_apply \<Rightarrow> bool \<Rightarrow> 'r MetadataApp \<Rightarrow> MetadataFSM
   \<Rightarrow> 'r MetadataApp \<times> MetadataFSM \<times> goerror option" where
  "app_Run waited listen raft isLeader a s =
     (case waited of
        Some e \<Rightarrow> (a, s, Some e)
      | None \<Rightarrow>
          (let a1 = a\<lparr>ma_scheduling := True, ma_watching := True\<rparr> in
           case listen (nc_GRPCAddr (ma_Config a)) of
             Inl e \<Rightarrow> (a1, s, Some e)
           | Inr addr \<Rightarrow>
               (let a2 = a1\<lparr>ma_grpcLis := Some addr, ma_serving := True\<rparr> in (a2, registerInFSM raft isLeader a2 s, None))))"

text \<open>A value on the leadership channel.\<close>

definition leadership_change :: "raft_apply \<Rightarrow> bool \<Rightarrow> bool \<Rightarrow> 'r MetadataApp \<Rightarrow> MetadataFSM \<Rightarrow> MetadataFSM" where
  "leadership_change raft became isLeader a s = (if became then registerInFSM raft isLeader a s else s)"

text \<open>\<open>Shutdown\<close>: errors of Raft and of the log are logged and dropped.\<close>

definition app_Shutdown :: "'r MetadataApp \<Rightarrow> 'r MetadataApp \<times> goerror option" where
  "app_Shutdown a = (a\<lparr>ma_serving := False, ma_watcher := nw_Stop (ma_watcher a), ma_watching := False, ma_scheduling := False, ma_raftOpen := False\<rparr>, None)"

section \<open>Properties\<close>

text \<open>
  Waiting for a leader always ends. If each round of \<open>WaitForLeader\<close> takes at least the
  100 ms it sleeps, the call returns: without error exactly if a round before the deadline
  sees a leader.
\<close>

theorem wait_for_leader_decides:
  assumes "\<forall>k. clock k + 100 * Millisecond \<le> clock (Suc k)"
  shows "\<exists>err. WaitForLeader clock leader now timeout = Some err
    \<and> (err = None \<longleftrightarrow> (\<exists>k. clock k < now + timeout \<and> leader k \<noteq> ''''))"
proof -
  let ?d = "now + timeout"
  have pos: "0 < 100 * Millisecond" by (simp add: Millisecond_def)
  have mono: "clock k \<le> clock (k + j)" for k j
  proof (induction j)
    case (Suc j)
    have "clock (k + j) + 100 * Millisecond \<le> clock (k + Suc j)" using assms by simp
    with Suc pos show ?case by linarith
  qed simp
  have "\<exists>err. wait_loop clock leader ?d k = Some err \<and> (err = None \<longleftrightarrow> (\<exists>j \<ge> k. clock j < ?d \<and> leader j \<noteq> ''''))" for k
  proof (induction "nat (?d - clock k)" arbitrary: k rule: less_induct)
    case less
    show ?case
    proof (cases "clock k < ?d \<and> leader k = ''''")
      case False
      have "\<not> clock j < ?d" if "k \<le> j" "\<not> clock k < ?d" for j using mono [of k "j - k"] that by simp
      with False show ?thesis by (subst wait_loop.simps) auto
    next
      case True
      have "clock k + 100 * Millisecond \<le> clock (Suc k)" using assms by simp
      with True pos have "nat (?d - clock (Suc k)) < nat (?d - clock k)" by linarith
      from less [OF this] obtain err where "wait_loop clock leader ?d (Suc k) = Some err"
        "err = None \<longleftrightarrow> (\<exists>j \<ge> Suc k. clock j < ?d \<and> leader j \<noteq> '''')" by blast
      moreover have "(\<exists>j \<ge> Suc k. clock j < ?d \<and> leader j \<noteq> '''') \<longleftrightarrow> (\<exists>j \<ge> k. clock j < ?d \<and> leader j \<noteq> '''')"
        using True by (metis Suc_leD le_antisym not_less_eq_eq)
      ultimately show ?thesis using True by (subst wait_loop.simps) auto
    qed
  qed
  from this [of 0] show ?thesis by (auto simp: WaitForLeader_def)
qed

theorem wait_for_leader_decides_witness:
  "WaitForLeader (\<lambda>k. int k * (200 * Millisecond)) (\<lambda>k. if 5 \<le> k then ''m1:7000'' else '''') 0 (10 * Second) = Some None"
proof -
  have "\<exists>k. int k * (200 * Millisecond) < 0 + 10 * Second \<and> (if 5 \<le> k then ''m1:7000'' else '''') \<noteq> ''''"
    by (intro exI [of _ 5]) (simp add: Millisecond_def Second_def)
  then show ?thesis
    using wait_for_leader_decides [of "\<lambda>k. int k * (200 * Millisecond)" "\<lambda>k. if 5 \<le> k then ''m1:7000'' else ''''" 0 "10 * Second"]
    by (auto simp: Millisecond_def algebra_simps)
qed

text \<open>
  A node that has been put together is ready to serve. Whatever the configuration, \<open>FatalError\<close> is
  never reached; if \<open>NewMetadataApp\<close> returns a node, its handler satisfies the invariant of
  the server, its replication factor is positive, and nothing runs yet. If it returns an error,
  the error is that of the configuration, the log or Raft.
\<close>

theorem new_app_sound:
  assumes "sort_spec nsrt" "list_all (\<lambda>opt. case opt of WithSourcePlacement ps \<Rightarrow> placement ps | WithTargetPlacement ps \<Rightarrow> placement ps) opts"
    and "NewMetadataApp nsrt os lib ord c opts fs = (fs', out)"
  shows "\<exists>res. out = Some res \<and> (case res of
      Inr a \<Rightarrow> server_inv (ma_handler a) \<and> placement (ma_targetPlacement a) \<and> 0 < ReplicationCount (ma_Config a)
        \<and> \<not> ma_scheduling a \<and> \<not> ma_watching a \<and> \<not> ma_serving a \<and> nc_Validate os c fs = (fs', None) \<and> NewRaftNode lib ord c = Inr (ma_raft a)
    | Inl e \<Rightarrow> snd (nc_Validate os c fs) = Some e \<or> initStore os lib c fs' = Some e \<or> NewRaftNode lib ord c = Inl e)"
proof -
  have placed: "placement (fst (fold apply_app_option opts x)) \<and> placement (snd (fold apply_app_option opts x))"
    if "placement (fst x)" "placement (snd x)" for x
    using assms(2) that
  proof (induction opts arbitrary: x)
    case (Cons opt opts)
    then show ?case by (cases x; cases opt) auto
  qed simp
  obtain src tgt where o: "fold apply_app_option opts (LeastLoadedStrategy nsrt, MostFreeSpaceStrategy nsrt) = (src, tgt)" by fastforce
  then have pl: "placement src" "placement tgt"
    using placed [of "(LeastLoadedStrategy nsrt, MostFreeSpaceStrategy nsrt)"] lls_placement [OF assms(1)] mfs_placement [OF assms(1)] by simp_all
  have rf: "0 < ReplicationCount c" by (simp add: ReplicationCount_def DefaultReplicationFactor_def)
  then obtain h nw where w: "initWorkers src tgt c = Some (h, nw)" "server_inv h"
    using start_world_inv [OF reachable.start pl]
    by (simp add: initWorkers_def NewReconciler_def server_inv_def NewMetadataServiceHandler_def timers_inv_def Let_def)
  obtain fs1 v where v: "nc_Validate os c fs = (fs1, v)" by fastforce
  show ?thesis
  proof (cases "v = None \<and> initStore os lib c fs1 = None")
    case True
    then show ?thesis
      using assms(3) v o w rf pl(2) by (cases "NewRaftNode lib ord c") (auto simp: NewMetadataApp_def)
  next
    case False
    then show ?thesis using assms(3) v o by (cases v; cases "initStore os lib c fs1") (auto simp: NewMetadataApp_def)
  qed
qed

text \<open>
  C40: A leader that has started is found by the clients of the other nodes if Raft knows
  it by the address it binds. Once \<open>Run\<close> has returned on a committing leader, every node that
  has applied its log refuses requests with the address at which the leader's gRPC server
  really listens, if the Raft address of the leader is \<open>RaftAddr\<close> of its configuration. If Raft
  knows the leader by another address, as it does where \<open>RaftAdvertise\<close> is set, starting it
  changes nothing in the answer.
\<close>

theorem redirect_names_leader:
  assumes "app_Run None listen (leader_raft ords) True a s = (a', s', None)" "se_leaderAddr e \<noteq> ''''"
  shows "listen (nc_GRPCAddr (ma_Config a)) = Inr (BoundGRPCAddr a')
    \<and> leaderRedirect e s' = (Status FailedPrecondition ''not leader'',
        if se_leaderAddr e = nc_RaftAddr (ma_Config a) then Some (BoundGRPCAddr a') else snd (leaderRedirect e s))"
proof -
  let ?c = "ma_Config a"
  obtain addr where l: "listen (nc_GRPCAddr ?c) = Inr addr" and a': "BoundGRPCAddr a' = addr" "ma_Config a' = ?c"
    and s': "s' = registerInFSM (leader_raft ords) True a' s"
    using assms(1) by (auto simp: app_Run_def BoundGRPCAddr_def Let_def split: sum.splits)
  have "mdNodeRegistry s' = (mdNodeRegistry s)(nc_RaftAddr ?c \<mapsto>
      \<lparr>mn_NodeID = nc_NodeID ?c, mn_RaftAddr = nc_RaftAddr ?c, mn_GrpcAddr = addr\<rparr>)"
    by (simp add: s' a' registerInFSM_def register_command_def leader_simps handleCmdRegisterMetadataNode_def upsert_def Let_def)
  then show ?thesis
    using assms(2) l a' by (simp add: leaderRedirect_def GetMetadataNodeByRaftAddr_def)
qed

definition demo_app :: "unit MetadataApp" where
  "demo_app = \<lparr>ma_Config = DefaultNodeConfig\<lparr>nc_RaftAddr := ''0.0.0.0:5001'', nc_RaftAdvertise := ''10.0.0.1:5001'', nc_GRPCAddr := '':9000''\<rparr>,
     ma_raft = (), ma_handler = demo_server, ma_watcher = NewNodeWatcher Second Second, ma_targetPlacement = MostFreeSpaceStrategy insertionSort,
     ma_scheduling = False, ma_watching = False, ma_serving = False, ma_raftOpen = True, ma_grpcLis = None\<rparr>"

theorem redirect_names_leader_witness:
  "let s' = fst (snd (app_Run None (\<lambda>_. Inr ''10.0.0.1:9000'') (leader_raft (\<lambda>_. [])) True demo_app NewEmptyMetadataFsm)) in
     leaderRedirect (demo_leader\<lparr>se_leaderAddr := ''0.0.0.0:5001''\<rparr>) s' = (Status FailedPrecondition ''not leader'', Some ''10.0.0.1:9000'')
   \<and> leaderRedirect (demo_leader\<lparr>se_leaderAddr := advertise_addr (ma_Config demo_app)\<rparr>) s' = (Status FailedPrecondition ''not leader'', None)"
proof -
  obtain a' s' where run: "app_Run None (\<lambda>_. Inr ''10.0.0.1:9000'') (leader_raft (\<lambda>_. [])) True demo_app NewEmptyMetadataFsm = (a', s', None)"
    by (simp add: app_Run_def Let_def)
  have adv: "advertise_addr (ma_Config demo_app) = ''10.0.0.1:5001''" "nc_RaftAddr (ma_Config demo_app) = ''0.0.0.0:5001''"
    by (simp_all add: demo_app_def advertise_addr_def)
  from redirect_names_leader [OF run, of "demo_leader\<lparr>se_leaderAddr := ''0.0.0.0:5001''\<rparr>"]
    redirect_names_leader [OF run, of "demo_leader\<lparr>se_leaderAddr := ''10.0.0.1:5001''\<rparr>"]
  have "leaderRedirect (demo_leader\<lparr>se_leaderAddr := ''0.0.0.0:5001''\<rparr>) s' = (Status FailedPrecondition ''not leader'', Some ''10.0.0.1:9000'')"
    "leaderRedirect (demo_leader\<lparr>se_leaderAddr := ''10.0.0.1:5001''\<rparr>) s'
       = (Status FailedPrecondition ''not leader'', snd (leaderRedirect (demo_leader\<lparr>se_leaderAddr := ''10.0.0.1:5001''\<rparr>) NewEmptyMetadataFsm))"
    by (simp_all add: adv)
  then show ?thesis
    by (simp add: run adv Let_def) (simp add: leaderRedirect_def GetMetadataNodeByRaftAddr_def NewEmptyMetadataFsm_def)
qed

end
