(* ===== verification/Checksum_Index.thy ===== *)
theory Checksum_Index
  imports Os_Files
begin

text \<open>
  The checksum index of a storage node (\<^verbatim>\<open>src/storage/store/checksum_index.go\<close>):
  a persistent map from chunk ids to values, kept in a bucket of a bbolt database
  through a codec. The database is code outside the repository: it is the
  parameter \<open>'db bbolt\<close>, a table of the calls the index makes, and the locale
  \<open>bolt_db\<close> states what their documentation promises. The interface the disk store
  uses is the method table \<open>ChecksumIndexStore\<close>; its contract is the locale
  \<open>checksum_index\<close>, which every database satisfying \<open>bolt_db\<close> provides.
\<close>

section \<open>Codecs\<close>

record 't Codec =
  Marshal :: "'t \<Rightarrow> bytes result"
  Unmarshal :: "bytes \<Rightarrow> 't result"

definition StringCodec :: "string Codec" where
  "StringCodec =
     \<lparr>Marshal = (\<lambda>v. Inr (map (\<lambda>c. word_of_nat (of_char c)) v)),
      Unmarshal = (\<lambda>b. Inr (map (\<lambda>w. char_of (unat w)) b))\<rparr>"

definition ByteCodec :: "bytes Codec" where
  "ByteCodec = \<lparr>Marshal = (\<lambda>v. Inr v), Unmarshal = (\<lambda>b. Inr b)\<rparr>"

text \<open>The built-in \<open>copy\<close>: as many elements as both slices have.\<close>

definition go_copy :: "'a list \<Rightarrow> 'a list \<Rightarrow> 'a list" where
  "go_copy dst src = take (length dst) src @ drop (length src) dst"

definition Sha256Codec :: "bytes Codec" where
  "Sha256Codec =
     \<lparr>Marshal = (\<lambda>v. Inr (go_copy (replicate 32 0) v)),
      Unmarshal = (\<lambda>b. if length b \<noteq> 32 then Inl (NewError ''sha256: expected 32 bytes'')
                       else Inr (go_copy (replicate 32 0) b))\<rparr>"

text \<open>What the index relies on: a value that may be stored is read back as it was.\<close>

locale codec =
  fixes C :: "'t Codec" and storable :: "'t \<Rightarrow> bool"
  assumes round_trip: "storable v \<Longrightarrow> \<exists>b. Marshal C v = Inr b \<and> Unmarshal C b = Inr v"

interpretation strings: codec StringCodec "\<lambda>_. True"
  by unfold_locales (simp add: StringCodec_def unat_of_nat comp_def)

interpretation raw: codec ByteCodec "\<lambda>_. True"
  by unfold_locales (simp add: ByteCodec_def)

interpretation sha: codec Sha256Codec "\<lambda>v. length v = 32"
  by unfold_locales (simp add: Sha256Codec_def go_copy_def)

section \<open>The index\<close>

record 'db bbolt =
  bbolt_Open :: "string \<Rightarrow> 'db result"
  tx_CreateBucketIfNotExists :: "'db \<Rightarrow> string \<Rightarrow> 'db result"
  tx_Bucket :: "'db \<Rightarrow> string \<Rightarrow> bool"
  tx_Get :: "'db \<Rightarrow> string \<Rightarrow> string \<rightharpoonup> bytes"
  tx_Put :: "'db \<Rightarrow> string \<Rightarrow> string \<Rightarrow> bytes \<Rightarrow> 'db result"
  tx_Delete :: "'db \<Rightarrow> string \<Rightarrow> string \<Rightarrow> 'db result"
  tx_ForEach :: "'db \<Rightarrow> string \<Rightarrow> string list"

record ('db, 't) BoltChecksumIndex =
  ci_db :: "'db option"
  ci_path :: string
  ci_bucket :: string
  ci_codec :: "'t Codec"

definition WithDbPath :: "string \<Rightarrow> ('db, 't) BoltChecksumIndex \<Rightarrow> ('db, 't) BoltChecksumIndex" where
  "WithDbPath p c = c\<lparr>ci_path := p\<rparr>"

definition WithDefaultPath :: "('db, 't) BoltChecksumIndex \<Rightarrow> ('db, 't) BoltChecksumIndex" where
  "WithDefaultPath c = c\<lparr>ci_path := filepath_Join [''.'', ''storage'', ''store'']\<rparr>"

definition NewChecksumIndexBoltDB ::
  "'t Codec option \<Rightarrow> (('db, 't) BoltChecksumIndex \<Rightarrow> ('db, 't) BoltChecksumIndex) list
   \<Rightarrow> ('db, 't) BoltChecksumIndex result" where
  "NewChecksumIndexBoltDB cdc opts =
     (case cdc of
        None \<Rightarrow> Inl (NewError ''ChecksumIndexBoltDB: codec is required'')
      | Some C \<Rightarrow>
          Inr (fold (\<lambda>f c. f c) opts
            (WithDefaultPath \<lparr>ci_db = None, ci_path = '''', ci_bucket = ''checksums'', ci_codec = C\<rparr>)))"

text \<open>\<open>filepath.Abs\<close> resolves a relative path in the working directory.\<close>

definition filepath_Abs :: "string result \<Rightarrow> string \<Rightarrow> string result" where
  "filepath_Abs wd p =
     (if is_rooted p then Inr (filepath_Clean p)
      else case wd of Inl e \<Rightarrow> Inl e | Inr d \<Rightarrow> Inr (filepath_Join [d, p]))"

definition ci_Open ::
  "'db bbolt \<Rightarrow> os_env \<Rightarrow> string result \<Rightarrow> ('db, 't) BoltChecksumIndex \<Rightarrow> filesystem
   \<Rightarrow> filesystem \<times> ('db, 't) BoltChecksumIndex \<times> goerror option" where
  "ci_Open api os wd c fs =
     (if ci_db c \<noteq> None then (fs, c, Some ErrDatabaseAlreadyOpened)
      else case filepath_Abs wd (filepath_Join [ci_path c, ''checksum.db'']) of
        Inl e \<Rightarrow> (fs, c, Some e)
      | Inr dbFile \<Rightarrow>
          (case os_MkdirAll os (filepath_Dir dbFile) fs of
             (fs1, Some e) \<Rightarrow> (fs1, c, Some e)
           | (fs1, None) \<Rightarrow>
               (case bbolt_Open api dbFile of
                  Inl e \<Rightarrow> (fs1, c, Some e)
                | Inr db \<Rightarrow>
                    (case tx_CreateBucketIfNotExists api db (ci_bucket c) of
                       Inl e \<Rightarrow> (fs1, c\<lparr>ci_db := Some db\<rparr>, Some e)
                     | Inr db' \<Rightarrow> (fs1, c\<lparr>ci_db := Some db'\<rparr>, None)))))"

text \<open>An \<open>Update\<close> transaction that returns an error is rolled back.\<close>

definition ci_Put ::
  "'db bbolt \<Rightarrow> ('db, 't) BoltChecksumIndex \<Rightarrow> string \<Rightarrow> 't
   \<Rightarrow> ('db, 't) BoltChecksumIndex \<times> goerror option" where
  "ci_Put api c key v =
     (if key = '''' then (c, Some ErrEmptyKey)
      else case ci_db c of
        None \<Rightarrow> (c, Some ErrDatabaseNotOpened)
      | Some db \<Rightarrow>
          if \<not> tx_Bucket api db (ci_bucket c) then (c, Some ErrBucketNotFound)
          else (case Marshal (ci_codec c) v of
            Inl e \<Rightarrow> (c, Some e)
          | Inr data \<Rightarrow>
              (case tx_Put api db (ci_bucket c) key data of
                 Inl e \<Rightarrow> (c, Some e)
               | Inr db' \<Rightarrow> (c\<lparr>ci_db := Some db'\<rparr>, None))))"

definition ci_Get :: "'db bbolt \<Rightarrow> ('db, 't) BoltChecksumIndex \<Rightarrow> string \<Rightarrow> 't result" where
  "ci_Get api c key =
     (case ci_db c of
        None \<Rightarrow> Inl ErrDatabaseNotOpened
      | Some db \<Rightarrow>
          if \<not> tx_Bucket api db (ci_bucket c) then Inl ErrBucketNotFound
          else (case tx_Get api db (ci_bucket c) key of
            None \<Rightarrow> Inl ErrKeyNotFound
          | Some data \<Rightarrow> Unmarshal (ci_codec c) data))"

definition ci_GetAll :: "'db bbolt \<Rightarrow> ('db, 't) BoltChecksumIndex \<Rightarrow> string list result" where
  "ci_GetAll api c =
     (case ci_db c of
        None \<Rightarrow> Inl ErrDatabaseNotOpened
      | Some db \<Rightarrow>
          if \<not> tx_Bucket api db (ci_bucket c) then Inl ErrBucketNotFound
          else Inr (tx_ForEach api db (ci_bucket c)))"

fun ci_PutAll_loop ::
  "'db bbolt \<Rightarrow> ('db, 't) BoltChecksumIndex \<Rightarrow> (string \<times> 't) list
   \<Rightarrow> ('db, 't) BoltChecksumIndex \<times> goerror option" where
  "ci_PutAll_loop api c [] = (c, None)"
| "ci_PutAll_loop api c ((k, v) # kvs) =
     (case ci_Put api c k v of
        (c', Some e) \<Rightarrow> (c', Some e)
      | (c', None) \<Rightarrow> ci_PutAll_loop api c' kvs)"

definition ci_PutAll ::
  "'db bbolt \<Rightarrow> ('db, 't) BoltChecksumIndex \<Rightarrow> (string \<times> 't) list
   \<Rightarrow> ('db, 't) BoltChecksumIndex \<times> goerror option" where
  "ci_PutAll api c kvs =
     (if ci_db c = None then (c, Some ErrDatabaseNotOpened) else ci_PutAll_loop api c kvs)"

definition ci_Delete ::
  "'db bbolt \<Rightarrow> ('db, 't) BoltChecksumIndex \<Rightarrow> string
   \<Rightarrow> ('db, 't) BoltChecksumIndex \<times> goerror option" where
  "ci_Delete api c key =
     (if key = '''' then (c, Some ErrEmptyKey)
      else case ci_db c of
        None \<Rightarrow> (c, Some ErrDatabaseNotOpened)
      | Some db \<Rightarrow>
          if \<not> tx_Bucket api db (ci_bucket c) then (c, Some ErrBucketNotFound)
          else if tx_Get api db (ci_bucket c) key = None then (c, Some ErrKeyNotFound)
          else (case tx_Delete api db (ci_bucket c) key of
            Inl e \<Rightarrow> (c, Some e)
          | Inr db' \<Rightarrow> (c\<lparr>ci_db := Some db'\<rparr>, None)))"

definition ci_CleanUp :: "('db, 't) BoltChecksumIndex \<Rightarrow> ('db, 't) BoltChecksumIndex" where
  "ci_CleanUp c = (if ci_db c = None then c else c\<lparr>ci_db := None\<rparr>)"

section \<open>Contracts\<close>

text \<open>
  What the documentation of bbolt says of the calls above: a committed \<open>Put\<close> or
  \<open>Delete\<close> changes the one key of the one bucket, \<open>CreateBucketIfNotExists\<close> keeps an
  existing bucket and makes an empty one otherwise, \<open>ForEach\<close> visits every key once.
\<close>

locale bolt_db =
  fixes api :: "'db bbolt"
  assumes put_get: "tx_Bucket api db b \<Longrightarrow> tx_Put api db b k v = Inr db'
      \<Longrightarrow> tx_Get api db' b = (tx_Get api db b)(k \<mapsto> v)"
    and put_bucket: "tx_Put api db b k v = Inr db' \<Longrightarrow> tx_Bucket api db' b = tx_Bucket api db b"
    and delete_get: "tx_Bucket api db b \<Longrightarrow> tx_Delete api db b k = Inr db'
      \<Longrightarrow> tx_Get api db' b = (tx_Get api db b)(k := None)"
    and delete_bucket: "tx_Delete api db b k = Inr db' \<Longrightarrow> tx_Bucket api db' b = tx_Bucket api db b"
    and create_bucket: "tx_CreateBucketIfNotExists api db b = Inr db' \<Longrightarrow> tx_Bucket api db' b"
    and create_keeps: "tx_CreateBucketIfNotExists api db b = Inr db' \<Longrightarrow>
      tx_Get api db' b = (if tx_Bucket api db b then tx_Get api db b else Map.empty)"
    and for_each: "tx_Bucket api db b
      \<Longrightarrow> distinct (tx_ForEach api db b) \<and> set (tx_ForEach api db b) = dom (tx_Get api db b)"

text \<open>The interface of the disk store, for values that are byte slices.\<close>

record 'ix ChecksumIndexStore =
  cs_Put :: "'ix \<Rightarrow> string \<Rightarrow> bytes \<Rightarrow> 'ix \<times> goerror option"
  cs_Get :: "'ix \<Rightarrow> string \<Rightarrow> bytes result"
  cs_GetAll :: "'ix \<Rightarrow> string list result"
  cs_Delete :: "'ix \<Rightarrow> string \<Rightarrow> 'ix \<times> goerror option"

locale checksum_index =
  fixes cs :: "'ix ChecksumIndexStore" and sums :: "'ix \<Rightarrow> string \<rightharpoonup> bytes" and ready :: "'ix \<Rightarrow> bool"
  assumes get: "ready ix \<Longrightarrow>
      cs_Get cs ix k = (case sums ix k of None \<Rightarrow> Inl ErrKeyNotFound | Some v \<Rightarrow> Inr v)"
    and put: "ready ix \<Longrightarrow> cs_Put cs ix k v = (ix', None) \<Longrightarrow> ready ix' \<and> sums ix' = (sums ix)(k \<mapsto> v)"
    and put_error: "ready ix \<Longrightarrow> cs_Put cs ix k v = (ix', Some e) \<Longrightarrow> ix' = ix"
    and delete: "ready ix \<Longrightarrow> cs_Delete cs ix k = (ix', None) \<Longrightarrow> ready ix' \<and> sums ix' = (sums ix)(k := None)"
    and delete_error: "ready ix \<Longrightarrow> cs_Delete cs ix k = (ix', Some e) \<Longrightarrow> ix' = ix"
    and get_all: "ready ix \<Longrightarrow> \<exists>ks. cs_GetAll cs ix = Inr ks \<and> distinct ks \<and> set ks = dom (sums ix)"

text \<open>The index over a database, as a method table, with the map it stands for.\<close>

definition bolt_index :: "'db bbolt \<Rightarrow> ('db, bytes) BoltChecksumIndex ChecksumIndexStore" where
  "bolt_index api =
     \<lparr>cs_Put = ci_Put api, cs_Get = ci_Get api, cs_GetAll = ci_GetAll api, cs_Delete = ci_Delete api\<rparr>"

definition ci_view :: "'db bbolt \<Rightarrow> ('db, 't) BoltChecksumIndex \<Rightarrow> string \<rightharpoonup> 't" where
  "ci_view api c key =
     (case ci_db c of
        None \<Rightarrow> None
      | Some db \<Rightarrow>
          (case tx_Get api db (ci_bucket c) key of
             None \<Rightarrow> None
           | Some data \<Rightarrow> (case Unmarshal (ci_codec c) data of Inl e \<Rightarrow> None | Inr v \<Rightarrow> Some v)))"

definition ci_ready :: "'db bbolt \<Rightarrow> ('db, 't) BoltChecksumIndex \<Rightarrow> bool" where
  "ci_ready api c \<longleftrightarrow>
     (\<exists>db. ci_db c = Some db \<and> tx_Bucket api db (ci_bucket c) \<and>
       (\<forall>k b. tx_Get api db (ci_bucket c) k = Some b \<longrightarrow> (\<exists>v. Unmarshal (ci_codec c) b = Inr v)))"

section \<open>The index implements a map\<close>

lemma ci_Get_view:
  "ci_ready api c \<Longrightarrow>
     ci_Get api c k = (case ci_view api c k of None \<Rightarrow> Inl ErrKeyNotFound | Some v \<Rightarrow> Inr v)"
  by (auto simp: ci_ready_def ci_Get_def ci_view_def split: option.splits sum.splits) force

lemma ci_Put_error: "ci_Put api c k v = (c', Some e) \<Longrightarrow> c' = c"
  by (auto simp: ci_Put_def split: if_splits option.splits sum.splits)

lemma ci_Delete_error: "ci_Delete api c k = (c', Some e) \<Longrightarrow> c' = c"
  by (auto simp: ci_Delete_def split: if_splits option.splits sum.splits)

lemma ci_Put_frame: "ci_Put api c k v = (c', err) \<Longrightarrow> ci_codec c' = ci_codec c \<and> ci_bucket c' = ci_bucket c"
  by (auto simp: ci_Put_def split: if_splits option.splits sum.splits)

text \<open>The abstract counterpart of \<open>PutAll\<close>.\<close>

fun put_entries :: "(string \<times> 't) list \<Rightarrow> (string \<rightharpoonup> 't) \<Rightarrow> (string \<rightharpoonup> 't)" where
  "put_entries [] m = m"
| "put_entries ((k, v) # kvs) m = put_entries kvs (m(k \<mapsto> v))"

context bolt_db
begin

lemma ci_Put_view:
  assumes ready: "ci_ready api c" and stored: "Marshal (ci_codec c) v = Inr b" "Unmarshal (ci_codec c) b = Inr v"
    and put: "ci_Put api c k v = (c', None)"
  shows "ci_ready api c' \<and> ci_view api c' = (ci_view api c)(k \<mapsto> v)"
proof -
  obtain db where db: "ci_db c = Some db" "tx_Bucket api db (ci_bucket c)"
    and dec: "\<And>k b. tx_Get api db (ci_bucket c) k = Some b \<Longrightarrow> \<exists>v. Unmarshal (ci_codec c) b = Inr v"
    using ready unfolding ci_ready_def by blast
  then obtain db' where db': "tx_Put api db (ci_bucket c) k b = Inr db'" "c' = c\<lparr>ci_db := Some db'\<rparr>"
    using put stored by (auto simp: ci_Put_def split: if_splits sum.splits)
  note law = put_get [OF db(2) db'(1)] put_bucket [OF db'(1)]
  have "ci_view api c' = (ci_view api c)(k \<mapsto> v)"
    using db db' stored law by (simp add: ci_view_def fun_eq_iff split: option.split)
  moreover have "ci_ready api c'"
    using db db' stored law dec by (auto simp: ci_ready_def split: if_splits)
  ultimately show ?thesis by simp
qed

lemma ci_Delete_view:
  assumes ready: "ci_ready api c" and del: "ci_Delete api c k = (c', None)"
  shows "ci_ready api c' \<and> ci_view api c' = (ci_view api c)(k := None)"
proof -
  obtain db where db: "ci_db c = Some db" "tx_Bucket api db (ci_bucket c)"
    and dec: "\<And>k b. tx_Get api db (ci_bucket c) k = Some b \<Longrightarrow> \<exists>v. Unmarshal (ci_codec c) b = Inr v"
    using ready unfolding ci_ready_def by blast
  then obtain db' where db': "tx_Delete api db (ci_bucket c) k = Inr db'" "c' = c\<lparr>ci_db := Some db'\<rparr>"
    using del by (auto simp: ci_Delete_def split: if_splits sum.splits)
  note law = delete_get [OF db(2) db'(1)] delete_bucket [OF db'(1)]
  have "ci_view api c' = (ci_view api c)(k := None)"
    using db db' law by (simp add: ci_view_def fun_eq_iff split: option.split)
  moreover have "ci_ready api c'"
    using db db' law dec by (auto simp: ci_ready_def split: if_splits)
  ultimately show ?thesis by simp
qed

lemma ci_GetAll_view:
  assumes "ci_ready api c"
  shows "\<exists>ks. ci_GetAll api c = Inr ks \<and> distinct ks \<and> set ks = dom (ci_view api c)"
proof -
  obtain db where db: "ci_db c = Some db" "tx_Bucket api db (ci_bucket c)"
    and dec: "\<And>k b. tx_Get api db (ci_bucket c) k = Some b \<Longrightarrow> \<exists>v. Unmarshal (ci_codec c) b = Inr v"
    using assms unfolding ci_ready_def by blast
  have "dom (ci_view api c) = dom (tx_Get api db (ci_bucket c))"
    using db dec by (fastforce simp: ci_view_def dom_def split: option.splits sum.splits)
  with for_each [OF db(2)] db show ?thesis by (simp add: ci_GetAll_def)
qed

text \<open>
  \<open>PutAll\<close> stores the pairs in order; when it stops with an error, exactly a
  proper prefix of them is in the index.
\<close>

lemma ci_PutAll_loop_view:
  assumes "codec (ci_codec c) storable"
  shows "ci_ready api c \<Longrightarrow> (\<forall>(k, v) \<in> set kvs. storable v) \<Longrightarrow> ci_PutAll_loop api c kvs = (c', err)
   \<Longrightarrow> ci_ready api c' \<and> (\<exists>n \<le> length kvs. ci_view api c' = put_entries (take n kvs) (ci_view api c)
         \<and> (err = None \<longleftrightarrow> n = length kvs))"
  using assms
proof (induction kvs arbitrary: c)
  case Nil
  then show ?case by simp
next
  case (Cons kv kvs)
  obtain k v where kv: "kv = (k, v)" by (cases kv)
  obtain c1 e1 where put: "ci_Put api c k v = (c1, e1)" by (cases "ci_Put api c k v")
  show ?case
  proof (cases e1)
    case (Some e)
    with put ci_Put_error have "c1 = c" by fast
    with put Some kv Cons.prems show ?thesis by (auto intro!: exI [of _ 0])
  next
    case None
    obtain b where "Marshal (ci_codec c) v = Inr b" "Unmarshal (ci_codec c) b = Inr v"
      using codec.round_trip [OF Cons.prems(4), of v] Cons.prems(2) kv by auto
    then have c1: "ci_ready api c1" "ci_view api c1 = (ci_view api c)(k \<mapsto> v)"
      using ci_Put_view [OF Cons.prems(1) _ _ put [unfolded None]] by auto
    have "codec (ci_codec c1) storable" using ci_Put_frame [OF put] Cons.prems(4) by simp
    then have "ci_ready api c' \<and> (\<exists>n \<le> length kvs. ci_view api c' =
        put_entries (take n kvs) (ci_view api c1) \<and> (err = None \<longleftrightarrow> n = length kvs))"
      using Cons.IH [OF c1(1) _ _ \<open>codec (ci_codec c1) storable\<close>] Cons.prems(2,3) kv put None by simp
    then obtain n where "ci_ready api c'" "n \<le> length kvs" "err = None \<longleftrightarrow> n = length kvs"
      "ci_view api c' = put_entries (take n kvs) (ci_view api c1)" by blast
    then show ?thesis using kv c1(2) by (intro conjI exI [of _ "Suc n"]) auto
  qed
qed

lemma is_checksum_index:
  "checksum_index (bolt_index api) (ci_view api) (\<lambda>c. ci_ready api c \<and> ci_codec c = ByteCodec)"
proof
  fix c c' :: "('db, bytes) BoltChecksumIndex" and k v
  assume c: "ci_ready api c \<and> ci_codec c = ByteCodec" and put: "cs_Put (bolt_index api) c k v = (c', None)"
  then show "(ci_ready api c' \<and> ci_codec c' = ByteCodec) \<and> ci_view api c' = (ci_view api c)(k \<mapsto> v)"
    using ci_Put_view [of c v v k c'] ci_Put_frame [of api c k v c']
    by (simp add: bolt_index_def ByteCodec_def)
next
  fix c c' :: "('db, bytes) BoltChecksumIndex" and k
  assume c: "ci_ready api c \<and> ci_codec c = ByteCodec" and del: "cs_Delete (bolt_index api) c k = (c', None)"
  moreover from this have "ci_codec c' = ci_codec c"
    by (auto simp: bolt_index_def ci_Delete_def split: if_splits option.splits sum.splits)
  ultimately show "(ci_ready api c' \<and> ci_codec c' = ByteCodec) \<and> ci_view api c' = (ci_view api c)(k := None)"
    using ci_Delete_view [of c k c'] by (simp add: bolt_index_def)
qed (auto simp: bolt_index_def ci_Get_view ci_GetAll_view dest: ci_Put_error ci_Delete_error)

end

section \<open>A database in memory\<close>

text \<open>
  An instance of the contract, on which concrete runs are evaluated: buckets of
  association lists, with the newest entry of a key first.
\<close>

type_synonym memdb = "string \<rightharpoonup> (string \<times> bytes) list"

definition mem_bolt :: "memdb bbolt" where
  "mem_bolt =
     \<lparr>bbolt_Open = (\<lambda>p. Inr Map.empty),
      tx_CreateBucketIfNotExists = (\<lambda>db b. Inr (case db b of None \<Rightarrow> db(b \<mapsto> []) | Some _ \<Rightarrow> db)),
      tx_Bucket = (\<lambda>db b. db b \<noteq> None),
      tx_Get = (\<lambda>db b k. case db b of None \<Rightarrow> None | Some al \<Rightarrow> map_of al k),
      tx_Put = (\<lambda>db b k v. case db b of
          None \<Rightarrow> Inl ErrBucketNotFound
        | Some al \<Rightarrow> if k = '''' then Inl ErrEmptyKey else Inr (db(b \<mapsto> (k, v) # al))),
      tx_Delete = (\<lambda>db b k. case db b of
          None \<Rightarrow> Inl ErrBucketNotFound
        | Some al \<Rightarrow> Inr (db(b \<mapsto> filter (\<lambda>kv. fst kv \<noteq> k) al))),
      tx_ForEach = (\<lambda>db b. case db b of None \<Rightarrow> [] | Some al \<Rightarrow> remdups (map fst al))\<rparr>"

lemma map_of_filter_neq: "map_of (filter (\<lambda>kv. fst kv \<noteq> k) al) = (map_of al)(k := None)"
  by (induction al) (auto simp: fun_eq_iff)

interpretation mem: bolt_db mem_bolt
proof
  fix db db' :: memdb and b k v
  assume "tx_Bucket mem_bolt db b" "tx_Put mem_bolt db b k v = Inr db'"
  then show "tx_Get mem_bolt db' b = (tx_Get mem_bolt db b)(k \<mapsto> v)"
    by (cases "db b") (auto simp: mem_bolt_def intro!: ext split: if_splits)
next
  fix db db' :: memdb and b k v
  assume "tx_Put mem_bolt db b k v = Inr db'"
  then show "tx_Bucket mem_bolt db' b = tx_Bucket mem_bolt db b"
    by (auto simp: mem_bolt_def split: if_splits option.splits)
next
  fix db db' :: memdb and b k
  assume "tx_Bucket mem_bolt db b" "tx_Delete mem_bolt db b k = Inr db'"
  then show "tx_Get mem_bolt db' b = (tx_Get mem_bolt db b)(k := None)"
    by (cases "db b") (auto simp: mem_bolt_def map_of_filter_neq intro!: ext)
next
  fix db db' :: memdb and b k
  assume "tx_Delete mem_bolt db b k = Inr db'"
  then show "tx_Bucket mem_bolt db' b = tx_Bucket mem_bolt db b"
    by (auto simp: mem_bolt_def split: option.splits)
next
  fix db db' :: memdb and b
  assume "tx_CreateBucketIfNotExists mem_bolt db b = Inr db'"
  then show "tx_Bucket mem_bolt db' b"
    "tx_Get mem_bolt db' b = (if tx_Bucket mem_bolt db b then tx_Get mem_bolt db b else Map.empty)"
    by (cases "db b"; auto simp: mem_bolt_def intro!: ext)+
next
  fix db :: memdb and b
  assume "tx_Bucket mem_bolt db b"
  then show "distinct (tx_ForEach mem_bolt db b) \<and> set (tx_ForEach mem_bolt db b) = dom (tx_Get mem_bolt db b)"
    using dom_map_of_conv_image_fst [of "the (db b)"] by (cases "db b") (auto simp: mem_bolt_def)
qed

interpretation mem_index: checksum_index "bolt_index mem_bolt" "ci_view mem_bolt"
  "\<lambda>c. ci_ready mem_bolt c \<and> ci_codec c = ByteCodec"
  by (rule mem.is_checksum_index)

text \<open>An index opened on a new database file.\<close>

definition mem_ix :: "(memdb, bytes) BoltChecksumIndex" where
  "mem_ix = \<lparr>ci_db = Some [''checksums'' \<mapsto> []], ci_path = ''/data'', ci_bucket = ''checksums'',
     ci_codec = ByteCodec\<rparr>"

lemma mem_ix_ready [simp]: "ci_ready mem_bolt mem_ix" "ci_codec mem_ix = ByteCodec"
  "ci_view mem_bolt mem_ix = Map.empty"
proof -
  show "ci_ready mem_bolt mem_ix" "ci_codec mem_ix = ByteCodec"
    by (simp_all add: ci_ready_def mem_ix_def mem_bolt_def)
  show "ci_view mem_bolt mem_ix = Map.empty"
    by (rule ext) (simp add: mem_ix_def mem_bolt_def ci_view_def)
qed

lemma mem_ix_opened:
  "NewChecksumIndexBoltDB (Some ByteCodec) [WithDbPath ''/data''] = Inr (mem_ix\<lparr>ci_db := None\<rparr>)"
  "ci_Open mem_bolt reliable_os (Inr ''/'') (mem_ix\<lparr>ci_db := None\<rparr>) fs =
     (fs\<lparr>fs_dirs := ''/data'' # fs_dirs fs\<rparr>, mem_ix, None)"
proof -
  show "NewChecksumIndexBoltDB (Some ByteCodec) [WithDbPath ''/data''] = Inr (mem_ix\<lparr>ci_db := None\<rparr>)"
    by (simp add: NewChecksumIndexBoltDB_def WithDefaultPath_def WithDbPath_def mem_ix_def)
  have "filepath_Abs (Inr ''/'') (filepath_Join [''/data'', ''checksum.db'']) = Inr ''/data/checksum.db''"
    by code_simp
  moreover have "filepath_Dir ''/data/checksum.db'' = ''/data''" "filepath_Clean ''/data'' = ''/data''"
    by code_simp+
  ultimately show "ci_Open mem_bolt reliable_os (Inr ''/'') (mem_ix\<lparr>ci_db := None\<rparr>) fs =
     (fs\<lparr>fs_dirs := ''/data'' # fs_dirs fs\<rparr>, mem_ix, None)"
    by (simp add: ci_Open_def mem_ix_def os_MkdirAll_def reliable_os_def mem_bolt_def)
qed

text \<open>
  The checksum index is a map. On every bbolt database and for every codec
  that reads back what it writes, \<open>Get\<close> is the lookup and \<open>GetAll\<close> lists every key once;
  a successful \<open>Put\<close> stores exactly the one key, a successful \<open>Delete\<close> removes exactly
  it, a failed one changes nothing; \<open>PutAll\<close> stores the pairs in order, all of them
  when it succeeds and a proper prefix when it reports an error.
\<close>

theorem checksum_index_is_map:
  assumes db: "bolt_db api" and cdc: "codec (ci_codec c) storable" and ready: "ci_ready api c"
    and v: "storable v" and kvs: "\<forall>(k, v) \<in> set kvs. storable v"
  shows "ci_Get api c k = (case ci_view api c k of None \<Rightarrow> Inl ErrKeyNotFound | Some v \<Rightarrow> Inr v)
    \<and> (\<exists>ks. ci_GetAll api c = Inr ks \<and> distinct ks \<and> set ks = dom (ci_view api c))
    \<and> (case ci_Put api c k v of
         (c', None) \<Rightarrow> ci_ready api c' \<and> ci_view api c' = (ci_view api c)(k \<mapsto> v)
       | (c', Some e) \<Rightarrow> c' = c)
    \<and> (case ci_Delete api c k of
         (c', None) \<Rightarrow> ci_ready api c' \<and> ci_view api c' = (ci_view api c)(k := None)
       | (c', Some e) \<Rightarrow> c' = c)
    \<and> (case ci_PutAll api c kvs of
         (c', None) \<Rightarrow> ci_view api c' = put_entries kvs (ci_view api c)
       | (c', Some e) \<Rightarrow> \<exists>n < length kvs. ci_view api c' = put_entries (take n kvs) (ci_view api c))"
proof (intro conjI)
  obtain b where b: "Marshal (ci_codec c) v = Inr b" "Unmarshal (ci_codec c) b = Inr v"
    using codec.round_trip [OF cdc v] by blast
  show "ci_Get api c k = (case ci_view api c k of None \<Rightarrow> Inl ErrKeyNotFound | Some v \<Rightarrow> Inr v)"
    by (rule ci_Get_view [OF ready])
  show "\<exists>ks. ci_GetAll api c = Inr ks \<and> distinct ks \<and> set ks = dom (ci_view api c)"
    by (rule bolt_db.ci_GetAll_view [OF db ready])
  show "case ci_Put api c k v of
         (c', None) \<Rightarrow> ci_ready api c' \<and> ci_view api c' = (ci_view api c)(k \<mapsto> v)
       | (c', Some e) \<Rightarrow> c' = c"
    using bolt_db.ci_Put_view [OF db ready b, of k] ci_Put_error [of api c k v]
    by (auto split: prod.split option.split)
  show "case ci_Delete api c k of
         (c', None) \<Rightarrow> ci_ready api c' \<and> ci_view api c' = (ci_view api c)(k := None)
       | (c', Some e) \<Rightarrow> c' = c"
    using bolt_db.ci_Delete_view [OF db ready, of k] ci_Delete_error [of api c k]
    by (auto split: prod.split option.split)
  obtain c' err where put: "ci_PutAll api c kvs = (c', err)" by (cases "ci_PutAll api c kvs")
  moreover from this have "ci_PutAll_loop api c kvs = (c', err)"
    using ready by (auto simp: ci_PutAll_def ci_ready_def)
  from bolt_db.ci_PutAll_loop_view [OF db cdc ready kvs this]
  obtain n where "n \<le> length kvs" "ci_view api c' = put_entries (take n kvs) (ci_view api c)"
    "err = None \<longleftrightarrow> n = length kvs" by blast
  ultimately show "case ci_PutAll api c kvs of
         (c', None) \<Rightarrow> ci_view api c' = put_entries kvs (ci_view api c)
       | (c', Some e) \<Rightarrow> \<exists>n < length kvs. ci_view api c' = put_entries (take n kvs) (ci_view api c)"
    by (cases err) (auto simp: le_less)
qed

theorem checksum_index_is_map_witness:
  "(case ci_Put mem_bolt mem_ix ''c1'' [7] of
      (c', err) \<Rightarrow> err = None \<and> ci_Get mem_bolt c' ''c1'' = Inr [7] \<and> ci_Get mem_bolt c' ''c2'' = Inl ErrKeyNotFound)
   \<and> (case ci_PutAll mem_bolt mem_ix [(''c1'', [7]), ('''', [8])] of (c', err) \<Rightarrow>
        err = Some ErrEmptyKey \<and> (\<exists>n < 2. ci_view mem_bolt c' = put_entries (take n [(''c1'', [7]), ('''', [8])]) Map.empty))"
proof -
  have put: "ci_Put mem_bolt mem_ix ''c1'' [7] = (mem_ix\<lparr>ci_db := Some [''checksums'' \<mapsto> [(''c1'', [7])]]\<rparr>, None)"
    by (simp add: ci_Put_def mem_ix_def mem_bolt_def ByteCodec_def)
  have all: "snd (ci_PutAll mem_bolt mem_ix [(''c1'', [7]), ('''', [8])]) = Some ErrEmptyKey"
    by (simp add: ci_PutAll_def put) (simp add: ci_Put_def mem_ix_def)
  note at = checksum_index_is_map [OF mem.bolt_db_axioms, of mem_ix "\<lambda>_. True" "[7]"
      "[(''c1'', [7]), ('''', [8])]" "''c1''"]
  have "codec (ci_codec mem_ix) (\<lambda>_. True)" using raw.codec_axioms by simp
  with at put all show ?thesis
    by (cases "ci_PutAll mem_bolt mem_ix [(''c1'', [7]), ('''', [8])]")
       (auto simp: ci_Get_view numeral_2_eq_2 split: option.splits)
qed

end
