(* ===== verification/Sha256.thy ===== *)
theory Sha256
  imports Prelude
begin

text \<open>
  Package \<open>crypto/sha256\<close>, which the storage nodes use to fingerprint chunks:
  \<open>Sum256\<close> is computed from the standard's padding, message schedule and
  compression function, so that a digest of the model is the digest of the
  program. The theories that use it rely on two facts only: it is a function of
  the bytes, and a digest has 32 bytes. The streaming \<open>hash.Hash\<close> interface
  (\<open>Write\<close>, \<open>Sum\<close>) digests the concatenation of what was written.
\<close>

unbundle bit_operations_syntax

section \<open>Compression\<close>

definition rotr :: "nat \<Rightarrow> uint32 \<Rightarrow> uint32" where
  "rotr n w = drop_bit n w OR push_bit (32 - n) w"

text \<open>
  The constants are computed from what they denote: the leading 32 bits of the
  fractional part of the cube root (for the rounds) and of the square root (for the
  initial state) of the first primes. \<open>root_bits e b n acc\<close> settles the bits below \<open>b\<close> of the
  integer root of order \<open>e\<close> of \<open>n\<close>; the roots of the primes used are below \<open>2 ^ 5\<close>. Divisors
  up to 17 decide primality below \<open>361 = 19 ^ 2\<close>.
\<close>

fun root_bits :: "nat \<Rightarrow> nat \<Rightarrow> int \<Rightarrow> int \<Rightarrow> int" where
  "root_bits e 0 n acc = acc"
| "root_bits e (Suc b) n acc = root_bits e b n (if (acc + 2 ^ b) ^ e \<le> n then acc + 2 ^ b else acc)"

definition root_fraction :: "nat \<Rightarrow> int \<Rightarrow> uint32" where
  "root_fraction e p = word_of_int (root_bits e 37 (p * 2 ^ (32 * e)) 0)"

definition primes_to :: "int \<Rightarrow> int list" where
  "primes_to m = filter (\<lambda>p. list_all (\<lambda>d. p mod d \<noteq> 0 \<or> p = d) [2..17]) [2..m]"

definition round_constants :: "uint32 list" where
  "round_constants = map (root_fraction 3) (primes_to 311)"

record sha_state =
  sa :: uint32 sb :: uint32 sc :: uint32 sd :: uint32
  se :: uint32 sf :: uint32 sg :: uint32 sh :: uint32

definition init_state :: sha_state where
  "init_state =
    \<lparr>sa = root_fraction 2 2, sb = root_fraction 2 3, sc = root_fraction 2 5, sd = root_fraction 2 7,
     se = root_fraction 2 11, sf = root_fraction 2 13, sg = root_fraction 2 17, sh = root_fraction 2 19\<rparr>"

text \<open>
  The schedule is extended while the rounds run: the window holds the sixteen
  words from the current one on, and every round appends one.
\<close>

fun next_word :: "uint32 list \<Rightarrow> uint32" where
  "next_word ws =
     (let w1 = ws ! 1; w14 = ws ! 14;
          s0 = rotr 7 w1 XOR rotr 18 w1 XOR drop_bit 3 w1;
          s1 = rotr 17 w14 XOR rotr 19 w14 XOR drop_bit 10 w14
      in ws ! 0 + s0 + ws ! 9 + s1)"

definition sha_round :: "uint32 \<Rightarrow> uint32 \<Rightarrow> sha_state \<Rightarrow> sha_state" where
  "sha_round k w s =
     (let s1 = rotr 6 (se s) XOR rotr 11 (se s) XOR rotr 25 (se s);
          ch = (se s AND sf s) XOR (NOT (se s) AND sg s);
          t1 = sh s + s1 + ch + k + w;
          s0 = rotr 2 (sa s) XOR rotr 13 (sa s) XOR rotr 22 (sa s);
          mj = (sa s AND sb s) XOR (sa s AND sc s) XOR (sb s AND sc s)
      in \<lparr>sa = t1 + (s0 + mj), sb = sa s, sc = sb s, sd = sc s,
          se = sd s + t1, sf = se s, sg = sf s, sh = sg s\<rparr>)"

fun sha_rounds :: "uint32 list \<Rightarrow> uint32 list \<Rightarrow> sha_state \<Rightarrow> sha_state" where
  "sha_rounds [] ws s = s"
| "sha_rounds (k # ks) ws s = sha_rounds ks (tl ws @ [next_word ws]) (sha_round k (hd ws) s)"

definition sha_block :: "uint32 list \<Rightarrow> sha_state \<Rightarrow> sha_state" where
  "sha_block ws s =
     (let r = sha_rounds round_constants ws s
      in \<lparr>sa = sa s + sa r, sb = sb s + sb r, sc = sc s + sc r, sd = sd s + sd r,
          se = se s + se r, sf = sf s + sf r, sg = sg s + sg r, sh = sh s + sh r\<rparr>)"

section \<open>Padding and the digest\<close>

fun be_words :: "bytes \<Rightarrow> uint32 list" where
  "be_words (a # b # c # d # rest) =
     (push_bit 24 (ucast a) OR push_bit 16 (ucast b) OR push_bit 8 (ucast c) OR ucast d) # be_words rest"
| "be_words _ = []"

definition be_bytes :: "uint32 \<Rightarrow> bytes" where
  "be_bytes w = [ucast (drop_bit 24 w), ucast (drop_bit 16 w), ucast (drop_bit 8 w), ucast w]"

definition be_bytes64 :: "uint64 \<Rightarrow> bytes" where
  "be_bytes64 w = be_bytes (ucast (drop_bit 32 w)) @ be_bytes (ucast w)"

definition sha_pad :: "bytes \<Rightarrow> bytes" where
  "sha_pad m =
     m @ [0x80] @ replicate ((119 - length m mod 64) mod 64) 0 @ be_bytes64 (8 * of_nat (length m))"

fun sha_blocks :: "uint32 list \<Rightarrow> sha_state \<Rightarrow> sha_state" where
  "sha_blocks ws s = (if length ws < 16 then s else sha_blocks (drop 16 ws) (sha_block (take 16 ws) s))"

declare sha_blocks.simps [simp del]

definition sha256_Sum256 :: "bytes \<Rightarrow> bytes" where
  "sha256_Sum256 m =
     (let s = sha_blocks (be_words (sha_pad m)) init_state
      in be_bytes (sa s) @ be_bytes (sb s) @ be_bytes (sc s) @ be_bytes (sd s) @
         be_bytes (se s) @ be_bytes (sf s) @ be_bytes (sg s) @ be_bytes (sh s))"

lemma length_Sum256 [simp]: "length (sha256_Sum256 m) = 32"
  by (simp add: sha256_Sum256_def Let_def be_bytes_def)

text \<open>The padded message is a whole number of 64-byte blocks.\<close>

lemma length_sha_pad: "length (sha_pad m) mod 64 = 0"
proof -
  define r where "r = length m mod 64"
  have "r < 64" by (simp add: r_def)
  then have "(r + 1 + (119 - r) mod 64 + 8) mod 64 = 0"
    by (cases "r \<le> 55") (auto simp: mod_if)
  moreover have "length (sha_pad m) = length m + (1 + (119 - r) mod 64 + 8)"
    by (simp add: sha_pad_def r_def be_bytes64_def be_bytes_def)
  ultimately show ?thesis
    by (metis (no_types, lifting) add.assoc mod_add_left_eq r_def)
qed

text \<open>The standard's test vector \<open>abc\<close>.\<close>

lemma Sum256_abc:
  "sha256_Sum256 [0x61, 0x62, 0x63] =
    [0xba, 0x78, 0x16, 0xbf, 0x8f, 0x01, 0xcf, 0xea, 0x41, 0x41, 0x40, 0xde, 0x5d, 0xae, 0x22, 0x23,
     0xb0, 0x03, 0x61, 0xa3, 0x96, 0x17, 0x7a, 0x9c, 0xb4, 0x10, 0xff, 0x61, 0xf2, 0x00, 0x15, 0xad]"
  by code_simp

end
