(* ===== verification/Disk_Store.thy ===== *)
theory Disk_Store
  imports Checksum_Index Sha256
begin

text \<open>
  The chunk store of a storage node (\<^verbatim>\<open>src/storage/store/disk.go\<close>): chunk files in
  sharded directories, a checksum per chunk in the index, and the used space as
  an unsigned 64-bit counter. The operations thread the file system and the store
  together (\<open>disk\<close>); the index is reached through its method table. The lemmas
  lead to the refinement of a map from chunk ids to contents with a capacity.
\<close>

section \<open>State and construction\<close>

record 'ix DiskStore =
  rootDir :: string
  tempDir :: string
  splitLevel :: uint16
  checksumStore :: 'ix
  totalSpace :: uint64
  usedSpace :: uint64

record 'ix disk =
  d_fs :: filesystem
  d_store :: "'ix DiskStore"

datatype 'ix DiskStoreOptions =
    WithRootDir string
  | WithTempDir string
  | WithSplitLevel uint16
  | WithTotalSpace uint64
  | WithChecksumStore 'ix

fun apply_option :: "'ix DiskStoreOptions \<Rightarrow> 'ix option DiskStore \<Rightarrow> 'ix option DiskStore" where
  "apply_option (WithRootDir dir) ds = ds\<lparr>rootDir := dir\<rparr>"
| "apply_option (WithTempDir dir) ds = ds\<lparr>tempDir := dir\<rparr>"
| "apply_option (WithSplitLevel level) ds = ds\<lparr>splitLevel := level\<rparr>"
| "apply_option (WithTotalSpace n) ds = ds\<lparr>totalSpace := n\<rparr>"
| "apply_option (WithChecksumStore ix) ds = ds\<lparr>checksumStore := Some ix\<rparr>"

definition DEFAULT_STORE_SIZE :: uint64 where
  "DEFAULT_STORE_SIZE = 4 * 2 ^ 30"

definition DIR_SHARD_LEVEL :: uint16 where
  "DIR_SHARD_LEVEL = 2"

definition NewDiskStore ::
  "os_env \<Rightarrow> 'ix DiskStoreOptions list \<Rightarrow> filesystem \<Rightarrow> filesystem \<times> 'ix DiskStore result" where
  "NewDiskStore os opts fs =
     (let ds = fold apply_option opts
        \<lparr>rootDir = ''.'', tempDir = ''.'', splitLevel = DIR_SHARD_LEVEL, checksumStore = None,
         totalSpace = DEFAULT_STORE_SIZE, usedSpace = 0\<rparr>
      in case os_MkdirAll os (rootDir ds) fs of
        (fs1, Some e) \<Rightarrow> (fs1, Inl e)
      | (fs1, None) \<Rightarrow>
          (case os_MkdirAll os (tempDir ds) fs1 of
             (fs2, Some e) \<Rightarrow> (fs2, Inl e)
           | (fs2, None) \<Rightarrow>
               (case checksumStore ds of
                  None \<Rightarrow> (fs2, Inl (NewError ''DiskStore: checksumStore is required''))
                | Some ix \<Rightarrow>
                    (fs2, Inr \<lparr>rootDir = rootDir ds, tempDir = tempDir ds, splitLevel = splitLevel ds,
                       checksumStore = ix, totalSpace = totalSpace ds, usedSpace = usedSpace ds\<rparr>))))"

section \<open>Chunk ids and paths\<close>

fun strings_Contains :: "string \<Rightarrow> string \<Rightarrow> bool" where
  "strings_Contains [] sub \<longleftrightarrow> sub = []"
| "strings_Contains (c # s) sub \<longleftrightarrow> take (length sub) (c # s) = sub \<or> strings_Contains s sub"

definition strings_ContainsAny :: "string \<Rightarrow> string \<Rightarrow> bool" where
  "strings_ContainsAny s chars \<longleftrightarrow> list_ex (\<lambda>c. c \<in> set chars) s"

definition backslash :: char where
  "backslash = CHR 0x5C"

definition validateChunkId :: "'ix DiskStore \<Rightarrow> string \<Rightarrow> goerror option" where
  "validateChunkId ds chunkId =
     (if chunkId = '''' then Some DfsErrInvalidChunkId
      else if length chunkId < unat (2 * splitLevel ds) then Some DfsErrInvalidChunkId
      else if strings_ContainsAny chunkId [slash, backslash] \<or> strings_Contains chunkId ''..''
      then Some DfsErrInvalidChunkId
      else None)"

text \<open>A slice expression \<open>xs[lo:hi]\<close> panics when the bounds are out of range.\<close>

definition go_slice :: "nat \<Rightarrow> nat \<Rightarrow> 'a list \<Rightarrow> 'a list result" where
  "go_slice lo hi xs =
     (if lo \<le> hi \<and> hi \<le> length xs then Inr (take (hi - lo) (drop lo xs))
      else Inl (Panic ''slice bounds out of range''))"

fun shard_loop :: "string \<Rightarrow> nat list \<Rightarrow> string result" where
  "shard_loop cid [] = Inr ''''"
| "shard_loop cid (i # is) =
     (let i16 = word_of_nat i :: uint16
      in case go_slice (unat (i16 * 2)) (unat (i16 * 2 + 2)) cid of
        Inl e \<Rightarrow> Inl e
      | Inr s \<Rightarrow>
          (case shard_loop cid is of
             Inl e \<Rightarrow> Inl e
           | Inr rest \<Rightarrow> Inr (s @ slash # rest)))"

definition getDirForChunkId :: "string \<Rightarrow> uint16 \<Rightarrow> string result" where
  "getDirForChunkId chunkId shardLvl =
     (if chunkId = '''' then Inl DfsErrInvalidChunkId
      else if length chunkId < unat (2 * shardLvl) then Inl DfsErrInvalidChunkId
      else shard_loop chunkId [0..<unat shardLvl])"

definition chunk_file :: "string \<Rightarrow> string" where
  "chunk_file chunkId = chunkId @ ''.chunk''"

definition PathForChunk :: "'ix DiskStore \<Rightarrow> string \<Rightarrow> string result" where
  "PathForChunk ds chunkId =
     (case validateChunkId ds chunkId of
        Some e \<Rightarrow> Inl e
      | None \<Rightarrow>
          (case getDirForChunkId chunkId (splitLevel ds) of
             Inl e \<Rightarrow> Inl e
           | Inr shardDir \<Rightarrow> Inr (filepath_Join [rootDir ds, shardDir, chunk_file chunkId])))"

definition TempDir :: "'ix DiskStore \<Rightarrow> string \<Rightarrow> string result" where
  "TempDir ds chunkId =
     (case validateChunkId ds chunkId of
        Some e \<Rightarrow> Inl e
      | None \<Rightarrow> Inr (filepath_Join [tempDir ds, chunkId @ ''.'' @ ''.tmp'']))"

section \<open>Operations\<close>

definition ds_Exists :: "'ix ChecksumIndexStore \<Rightarrow> 'ix DiskStore \<Rightarrow> string \<Rightarrow> bool" where
  "ds_Exists cs ds chunkId =
     (case validateChunkId ds chunkId of
        Some e \<Rightarrow> False
      | None \<Rightarrow> (case cs_Get cs (checksumStore ds) chunkId of Inl e \<Rightarrow> False | Inr v \<Rightarrow> True))"

definition ds_List :: "'ix ChecksumIndexStore \<Rightarrow> 'ix DiskStore \<Rightarrow> string list result" where
  "ds_List cs ds = cs_GetAll cs (checksumStore ds)"

definition ds_Delete ::
  "os_env \<Rightarrow> 'ix ChecksumIndexStore \<Rightarrow> 'ix disk \<Rightarrow> string \<Rightarrow> 'ix disk \<times> goerror option" where
  "ds_Delete os cs d chunkId =
     (let ds = d_store d in
      case validateChunkId ds chunkId of
        Some e \<Rightarrow> (d, Some e)
      | None \<Rightarrow>
          if \<not> ds_Exists cs ds chunkId then (d, Some DfsErrChunkNotFound)
          else (case PathForChunk ds chunkId of
            Inl e \<Rightarrow> (d, Some e)
          | Inr chunkPath \<Rightarrow>
              (case os_Stat OsStat os chunkPath (d_fs d) of
                 Inl e \<Rightarrow> (d, Some (if os_IsNotExist e then DfsErrChunkNotFound else e))
               | Inr n \<Rightarrow>
                   (let fileSize = word_of_nat n :: uint64 in
                    case os_Remove os chunkPath (d_fs d) of
                      (fs1, Some e) \<Rightarrow> (d\<lparr>d_fs := fs1\<rparr>, Some (Wrap ''delete'' DfsErrFailedToDelete))
                    | (fs1, None) \<Rightarrow>
                        (let ix = fst (cs_Delete cs (checksumStore ds) chunkId);
                             used = (if fileSize \<le> usedSpace ds then usedSpace ds - fileSize else 0)
                         in (d\<lparr>d_fs := fs1, d_store := ds\<lparr>checksumStore := ix, usedSpace := used\<rparr>\<rparr>, None))))))"

text \<open>
  The accounting shared by \<open>Write\<close> and \<open>Rename\<close>: the net bytes needed, checked
  against the free space, and the counter moved by the difference. All of it is
  unsigned arithmetic.
\<close>

definition netDelta :: "uint64 \<Rightarrow> uint64 \<Rightarrow> uint64" where
  "netDelta newSize existingSize = (if existingSize < newSize then newSize - existingSize else 0)"

definition adjust_used :: "uint64 \<Rightarrow> uint64 \<Rightarrow> uint64 \<Rightarrow> uint64" where
  "adjust_used used newSize existingSize =
     (if existingSize \<le> newSize then used + (newSize - existingSize) else used - (existingSize - newSize))"

definition ds_Write ::
  "os_env \<Rightarrow> 'ix ChecksumIndexStore \<Rightarrow> 'ix disk \<Rightarrow> string \<Rightarrow> bytes \<Rightarrow> 'ix disk \<times> goerror option" where
  "ds_Write os cs d chunkId v =
     (let ds = d_store d in
      case validateChunkId ds chunkId of
        Some e \<Rightarrow> (d, Some e)
      | None \<Rightarrow>
          (case (if ds_Exists cs ds chunkId
                 then (case PathForChunk ds chunkId of
                         Inl e \<Rightarrow> Inl e
                       | Inr absPath \<Rightarrow>
                           (case os_Stat OsStat os absPath (d_fs d) of Inl e \<Rightarrow> Inr 0 | Inr n \<Rightarrow> Inr (word_of_nat n)))
                 else Inr 0) of
             Inl e \<Rightarrow> (d, Some e)
           | Inr existingSize \<Rightarrow>
               (let newSize = word_of_nat (length v) :: uint64;
                    freeSpace = totalSpace ds - usedSpace ds
                in
                if freeSpace < netDelta newSize existingSize then (d, Some DfsErrInsufficientSpace)
                else case getDirForChunkId chunkId (splitLevel ds) of
                  Inl e \<Rightarrow> (d, Some e)
                | Inr dirPath \<Rightarrow>
                    (let fullDirPath = filepath_Join [rootDir ds, dirPath] in
                     case os_MkdirAll os fullDirPath (d_fs d) of
                       (fs1, Some e) \<Rightarrow> (d\<lparr>d_fs := fs1\<rparr>, Some e)
                     | (fs1, None) \<Rightarrow>
                         (case os_WriteFile os (filepath_Join [fullDirPath, chunk_file chunkId]) v fs1 of
                            (fs2, Some e) \<Rightarrow> (d\<lparr>d_fs := fs2\<rparr>, Some e)
                          | (fs2, None) \<Rightarrow>
                              (case cs_Put cs (checksumStore ds) chunkId (sha256_Sum256 v) of
                                 (ix, Some e) \<Rightarrow>
                                   (d\<lparr>d_fs := fs2, d_store := ds\<lparr>checksumStore := ix\<rparr>\<rparr>, Some e)
                               | (ix, None) \<Rightarrow>
                                   (d\<lparr>d_fs := fs2, d_store := ds\<lparr>checksumStore := ix,
                                      usedSpace := adjust_used (usedSpace ds) newSize existingSize\<rparr>\<rparr>,
                                    None)))))))"

definition ds_Rename ::
  "os_env \<Rightarrow> 'ix ChecksumIndexStore \<Rightarrow> 'ix disk \<Rightarrow> string \<Rightarrow> string \<Rightarrow> 'ix disk \<times> goerror option" where
  "ds_Rename os cs d source chunkId =
     (let ds = d_store d in
      case validateChunkId ds chunkId of
        Some e \<Rightarrow> (d, Some e)
      | None \<Rightarrow>
      case os_Stat OsStat os source (d_fs d) of
        Inl e \<Rightarrow> (d, Some e)
      | Inr _ \<Rightarrow>
      case PathForChunk ds chunkId of
        Inl e \<Rightarrow> (d, Some e)
      | Inr dest \<Rightarrow>
      case os_MkdirAll os (filepath_Dir dest) (d_fs d) of
        (fs1, Some e) \<Rightarrow> (d\<lparr>d_fs := fs1\<rparr>, Some e)
      | (fs1, None) \<Rightarrow>
          (let existingDestSize =
                 (if ds_Exists cs ds chunkId
                  then (case os_Stat OsStat os dest fs1 of Inl e \<Rightarrow> 0 | Inr n \<Rightarrow> word_of_nat n)
                  else 0) :: uint64
           in case os_Stat OsRestat os source fs1 of
                Inl e \<Rightarrow> (d\<lparr>d_fs := fs1\<rparr>, Some e)
              | Inr n \<Rightarrow>
                  (let srcSize = word_of_nat n :: uint64;
                       freeSpace = totalSpace ds - usedSpace ds
                   in if freeSpace < netDelta srcSize existingDestSize
                      then (d\<lparr>d_fs := fs1\<rparr>, Some DfsErrInsufficientSpace)
                      else case os_Open os source fs1 of
                        Inl e \<Rightarrow> (d\<lparr>d_fs := fs1\<rparr>, Some e)
                      | Inr f \<Rightarrow>
                      case os_fault os OsSync source of
                        Some e \<Rightarrow> (d\<lparr>d_fs := fs1\<rparr>, Some e)
                      | None \<Rightarrow>
                      case os_fault os OsClose source of
                        Some e \<Rightarrow> (d\<lparr>d_fs := fs1\<rparr>, Some e)
                      | None \<Rightarrow>
                      case os_Rename os source dest fs1 of
                        (fs2, Some e) \<Rightarrow> (d\<lparr>d_fs := fs2\<rparr>, Some e)
                      | (fs2, None) \<Rightarrow>
                      case os_ReadFile os dest fs2 of
                        Inl e \<Rightarrow> (d\<lparr>d_fs := fs2\<rparr>, Some e)
                      | Inr data \<Rightarrow>
                          (case cs_Put cs (checksumStore ds) chunkId (sha256_Sum256 data) of
                             (ix, Some e) \<Rightarrow> (d\<lparr>d_fs := fs2, d_store := ds\<lparr>checksumStore := ix\<rparr>\<rparr>, Some e)
                           | (ix, None) \<Rightarrow>
                               (d\<lparr>d_fs := fs2, d_store := ds\<lparr>checksumStore := ix,
                                  usedSpace := adjust_used (usedSpace ds) srcSize existingDestSize\<rparr>\<rparr>,
                                None)))))"

definition ds_Read :: "os_env \<Rightarrow> 'ix ChecksumIndexStore \<Rightarrow> 'ix disk \<Rightarrow> string \<Rightarrow> bytes result" where
  "ds_Read os cs d chunkId =
     (case validateChunkId (d_store d) chunkId of
        Some e \<Rightarrow> Inl DfsErrChunkNotFound
      | None \<Rightarrow>
          if \<not> ds_Exists cs (d_store d) chunkId then Inl DfsErrChunkNotFound
          else (case PathForChunk (d_store d) chunkId of
            Inl e \<Rightarrow> Inl e
          | Inr chunkPath \<Rightarrow> os_ReadFile os chunkPath (d_fs d)))"

definition ds_Verify :: "os_env \<Rightarrow> 'ix ChecksumIndexStore \<Rightarrow> 'ix disk \<Rightarrow> string \<Rightarrow> bytes result" where
  "ds_Verify os cs d chunkId =
     (case validateChunkId (d_store d) chunkId of
        Some e \<Rightarrow> Inl e
      | None \<Rightarrow>
          (case cs_Get cs (checksumStore (d_store d)) chunkId of
             Inl e \<Rightarrow> Inl e
           | Inr v \<Rightarrow>
               (case ds_Read os cs d chunkId of
                  Inl e \<Rightarrow> Inl e
                | Inr data \<Rightarrow> if sha256_Sum256 data \<noteq> v then Inl DfsErrVerifyFailed else Inr v)))"

definition ds_FreeSpace :: "'ix DiskStore \<Rightarrow> uint64" where
  "ds_FreeSpace ds = (if totalSpace ds < usedSpace ds then 0 else totalSpace ds - usedSpace ds)"

definition ds_Size :: "'ix DiskStore \<Rightarrow> uint64" where
  "ds_Size ds = usedSpace ds"

section \<open>Where a chunk is stored\<close>

text \<open>
  The shards of a chunk id: its first \<open>splitLevel\<close> pairs of bytes. For a store
  whose shard level is below \<open>2 ^ 15\<close> the unsigned 16-bit arithmetic of the code
  does not wrap, and no slice is out of range.
\<close>

definition shard :: "string \<Rightarrow> nat \<Rightarrow> string" where
  "shard chunkId i = take 2 (drop (2 * i) chunkId)"

definition shards :: "'ix DiskStore \<Rightarrow> string \<Rightarrow> string list" where
  "shards ds chunkId = map (shard chunkId) [0..<unat (splitLevel ds)]"

definition store_wf :: "'ix DiskStore \<Rightarrow> bool" where
  "store_wf ds \<longleftrightarrow> rootDir ds \<noteq> '''' \<and> tempDir ds \<noteq> '''' \<and> splitLevel ds < 2 ^ 15"

definition valid_id :: "'ix DiskStore \<Rightarrow> string \<Rightarrow> bool" where
  "valid_id ds chunkId \<longleftrightarrow> validateChunkId ds chunkId = None"

lemma valid_idD: "valid_id ds chunkId \<Longrightarrow> validateChunkId ds chunkId = None"
  by (simp add: valid_id_def)

lemma invalid_idD: "\<not> valid_id ds chunkId \<Longrightarrow> validateChunkId ds chunkId = Some DfsErrInvalidChunkId"
  by (auto simp: valid_id_def validateChunkId_def split: if_splits)

lemma unat_level:
  assumes "(lvl :: uint16) < 2 ^ 15" and "i < unat lvl"
  shows "unat (word_of_nat i * 2 :: uint16) = 2 * i" "unat (word_of_nat i * 2 + 2 :: uint16) = 2 * i + 2"
    "unat (2 * lvl) = 2 * unat lvl"
proof -
  have lvl: "unat lvl < 2 ^ 15"
    using assms(1) by (simp add: word_less_nat_alt)
  have small: "unat (word_of_nat n :: uint16) = n" if "n < 2 ^ 16" for n
    using that by (simp add: unat_of_nat)
  have eqs: "word_of_nat i * 2 = (word_of_nat (2 * i) :: uint16)"
    "word_of_nat i * 2 + 2 = (word_of_nat (2 * i + 2) :: uint16)"
    "2 * lvl = (word_of_nat (2 * unat lvl) :: uint16)"
    by simp_all
  show "unat (word_of_nat i * 2 :: uint16) = 2 * i"
    "unat (word_of_nat i * 2 + 2 :: uint16) = 2 * i + 2" "unat (2 * lvl) = 2 * unat lvl"
    using small [of "2 * i"] small [of "2 * i + 2"] small [of "2 * unat lvl"] lvl assms(2)
    unfolding eqs(1) eqs(3) by (simp_all add: add.commute flip: eqs(2))
qed

lemma unat_double_level: "(lvl :: uint16) < 2 ^ 15 \<Longrightarrow> unat (2 * lvl) = 2 * unat lvl"
  using unat_level(3) [of lvl 0] by (cases "unat lvl = 0") (simp_all add: unat_eq_0)

lemma shard_loop_ok:
  assumes lvl: "(lvl :: uint16) < 2 ^ 15" and len: "2 * unat lvl \<le> length cid"
  shows "(\<forall>i \<in> set is. i < unat lvl) \<Longrightarrow>
     shard_loop cid is = Inr (concat (map (\<lambda>i. shard cid i @ [slash]) is))"
proof (induction "is")
  case Nil
  then show ?case by simp
next
  case (Cons i "is")
  then have i: "i < unat lvl" by simp
  have "go_slice (2 * i) (2 * i + 2) cid = Inr (shard cid i)"
    using i len by (simp add: go_slice_def shard_def)
  then show ?case using Cons unat_level(1,2) [OF lvl i] by (simp add: Let_def)
qed

lemma valid_id_facts:
  assumes "store_wf ds" "valid_id ds chunkId"
  shows "chunkId \<noteq> ''''" "2 * unat (splitLevel ds) \<le> length chunkId" "slash \<notin> set chunkId"
    "\<not> strings_Contains chunkId ''..''"
  using assms unat_double_level [of "splitLevel ds"]
  by (auto simp: valid_id_def validateChunkId_def store_wf_def strings_ContainsAny_def list_ex_iff
      split: if_splits)

lemma getDir_shards:
  assumes wf: "store_wf ds" and id: "valid_id ds chunkId"
  shows "getDirForChunkId chunkId (splitLevel ds) = Inr (concat (map (\<lambda>w. w @ [slash]) (shards ds chunkId)))"
proof -
  have lvl: "splitLevel ds < 2 ^ 15" using wf by (simp add: store_wf_def)
  note f = valid_id_facts [OF wf id]
  have "shard_loop chunkId [0..<unat (splitLevel ds)] =
      Inr (concat (map (\<lambda>i. shard chunkId i @ [slash]) [0..<unat (splitLevel ds)]))"
    using f(2) by (intro shard_loop_ok [OF lvl]) auto
  then show ?thesis
    using f unat_double_level [OF lvl] by (simp add: getDirForChunkId_def shards_def comp_def)
qed

lemma strings_Contains_sub: "strings_Contains (a @ sub @ b) sub"
proof (induction a)
  case Nil
  have "take (length sub) s = sub \<Longrightarrow> strings_Contains s sub" for s by (cases s) simp_all
  then show ?case by simp
next
  case (Cons c a)
  then show ?case by simp
qed

lemma plain_shards:
  assumes wf: "store_wf ds" and id: "valid_id ds chunkId"
  shows "\<forall>w \<in> set (shards ds chunkId). plain_name w"
proof
  fix w
  assume "w \<in> set (shards ds chunkId)"
  then obtain i where i: "i < unat (splitLevel ds)" "w = take 2 (drop (2 * i) chunkId)"
    by (auto simp: shards_def shard_def)
  note f = valid_id_facts [OF wf id]
  have split: "chunkId = take (2 * i) chunkId @ w @ drop 2 (drop (2 * i) chunkId)"
    by (simp only: i append_take_drop_id)
  have "length w = 2" using i f(2) by simp
  moreover have "slash \<notin> set w" using f(3) i by (meson in_set_dropD in_set_takeD)
  moreover have "w \<noteq> ''..''" using f(4) strings_Contains_sub split by metis
  ultimately show "plain_name w" by (auto simp: plain_name_def)
qed

lemma plain_chunk_file: "slash \<notin> set chunkId \<Longrightarrow> plain_name (chunk_file chunkId)"
proof -
  assume "slash \<notin> set chunkId"
  moreover have "slash \<notin> set ''.chunk''" by (simp add: slash_def)
  moreover have "length (chunk_file chunkId) \<noteq> length w" if "length w \<le> 2" for w :: string
    using that by (simp add: chunk_file_def)
  from this [of "''''"] this [of "''.''"] this [of "''..''"]
  have "chunk_file chunkId \<noteq> ''''" "chunk_file chunkId \<noteq> ''.''" "chunk_file chunkId \<noteq> ''..''"
    by auto
  ultimately show ?thesis by (simp add: plain_name_def) (simp add: chunk_file_def)
qed

text \<open>
  The path of a chunk is the cleaned root directory, the shards and the file
  name; the path of its temporary file is the cleaned temporary directory and a
  file name. Nothing in a valid chunk id leads out of those directories.
\<close>

definition chunk_path :: "'ix DiskStore \<Rightarrow> string \<Rightarrow> string" where
  "chunk_path ds chunkId =
     render_path (is_rooted (rootDir ds)) (base_elems (rootDir ds) @ shards ds chunkId @ [chunk_file chunkId])"

definition chunk_dir :: "'ix DiskStore \<Rightarrow> string \<Rightarrow> string" where
  "chunk_dir ds chunkId =
     render_path (is_rooted (rootDir ds)) (base_elems (rootDir ds) @ shards ds chunkId)"

definition temp_path :: "'ix DiskStore \<Rightarrow> string \<Rightarrow> string" where
  "temp_path ds chunkId =
     render_path (is_rooted (tempDir ds)) (base_elems (tempDir ds) @ [chunkId @ ''..tmp''])"

lemma split_shard_dir:
  assumes "\<forall>w \<in> set ws. slash \<notin> set w"
  shows "split_slash (concat (map (\<lambda>w. w @ [slash]) ws)) = ws @ ['''']"
  using assms by (induction ws) (simp_all add: split_slash_append split_slash_plain)

lemma plain_slash_free: "plain_name w \<Longrightarrow> slash \<notin> set w"
  by (simp add: plain_name_def)

lemma filter_plain: "(\<forall>w \<in> set ws. plain_name w) \<Longrightarrow> filter (\<lambda>w. w \<noteq> '''') ws = ws"
  by (simp add: filter_id_conv plain_name_def)

lemma Join_shards:
  assumes "base \<noteq> ''''" and ws: "\<forall>w \<in> set ws. plain_name w" and vs: "\<forall>w \<in> set vs. plain_name w"
  shows "filepath_Join (base # concat (map (\<lambda>w. w @ [slash]) ws) # vs) =
     render_path (is_rooted base) (base_elems base @ ws @ vs)"
proof -
  have "split_slash (concat (map (\<lambda>w. w @ [slash]) ws)) = ws @ ['''']"
    using ws plain_slash_free by (intro split_shard_dir) blast
  moreover have "concat (map split_slash vs) = vs"
    using vs by (induction vs) (simp_all add: split_slash_plain plain_slash_free)
  ultimately show ?thesis
    using assms Join_under [OF assms(1), of "concat (map (\<lambda>w. w @ [slash]) ws) # vs"]
    by (auto simp: filter_plain)
qed

lemma PathForChunk_path:
  assumes wf: "store_wf ds" and id: "valid_id ds chunkId"
  shows "PathForChunk ds chunkId = Inr (chunk_path ds chunkId)"
proof -
  have "\<forall>w \<in> set [chunk_file chunkId]. plain_name w"
    using plain_chunk_file [OF valid_id_facts(3) [OF wf id]] by simp
  from Join_shards [OF _ plain_shards [OF wf id] this, of "rootDir ds"] wf id show ?thesis
    by (simp add: PathForChunk_def getDir_shards chunk_path_def valid_id_def store_wf_def)
qed

lemma shard_dir_path:
  assumes wf: "store_wf ds" and id: "valid_id ds chunkId"
  shows "filepath_Join [rootDir ds, concat (map (\<lambda>w. w @ [slash]) (shards ds chunkId))] = chunk_dir ds chunkId"
  using Join_shards [OF _ plain_shards [OF wf id], of "rootDir ds" "[]"] wf
  by (simp add: chunk_dir_def store_wf_def)

lemma clean_form_chunk_dir:
  assumes "store_wf ds" "valid_id ds chunkId"
  shows "clean_form (is_rooted (rootDir ds)) (base_elems (rootDir ds) @ shards ds chunkId)"
  by (rule clean_form_append [OF clean_form_base plain_shards [OF assms]])

lemma Dir_chunk_path:
  assumes "store_wf ds" "valid_id ds chunkId"
  shows "filepath_Dir (chunk_path ds chunkId) = chunk_dir ds chunkId"
  using Dir_render [OF clean_form_chunk_dir [OF assms], of "chunk_file chunkId"]
    plain_slash_free [OF plain_chunk_file [OF valid_id_facts(3) [OF assms]]]
  by (simp add: chunk_path_def chunk_dir_def)

lemma Clean_chunk_dir:
  "store_wf ds \<Longrightarrow> valid_id ds chunkId \<Longrightarrow> filepath_Clean (chunk_dir ds chunkId) = chunk_dir ds chunkId"
  by (simp add: chunk_dir_def Clean_render clean_form_chunk_dir)

lemma chunk_dir_ne:
  assumes "store_wf ds" "valid_id ds chunkId"
  shows "chunk_dir ds chunkId \<noteq> ''''"
  unfolding chunk_dir_def render_path_def
  using clean_form_slash_free [OF clean_form_chunk_dir [OF assms], of "hd (base_elems (rootDir ds) @ shards ds chunkId)"]
  by (cases "base_elems (rootDir ds) @ shards ds chunkId") (auto simp: join_slash_Cons)

text \<open>\<open>Write\<close> builds the path in two joins, and gets the same path.\<close>

lemma Write_path:
  assumes wf: "store_wf ds" and id: "valid_id ds chunkId"
  shows "filepath_Join [chunk_dir ds chunkId, chunk_file chunkId] = chunk_path ds chunkId"
proof -
  note form = clean_form_chunk_dir [OF wf id]
  have plain: "plain_name (chunk_file chunkId)" by (rule plain_chunk_file [OF valid_id_facts(3) [OF wf id]])
  from Join_under [OF chunk_dir_ne [OF wf id], of "[chunk_file chunkId]"] plain
  have "filepath_Join [chunk_dir ds chunkId, chunk_file chunkId] =
      render_path (is_rooted (chunk_dir ds chunkId)) (base_elems (chunk_dir ds chunkId) @ [chunk_file chunkId])"
    by (simp add: split_slash_plain plain_slash_free) (simp add: plain_name_def)
  then show ?thesis
    using is_rooted_render [OF form] base_elems_render [OF form] by (simp add: chunk_path_def chunk_dir_def)
qed

lemma plain_temp_name:
  assumes "slash \<notin> set chunkId"
  shows "plain_name (chunkId @ ''..tmp'')"
proof -
  have "length (chunkId @ ''..tmp'') \<noteq> length w" if "length w \<le> 2" for w :: string
    using that by simp
  from this [of "''''"] this [of "''.''"] this [of "''..''"] assms show ?thesis
    unfolding plain_name_def by (auto simp: slash_def)
qed

lemma TempDir_path:
  assumes wf: "store_wf ds" and id: "valid_id ds chunkId"
  shows "TempDir ds chunkId = Inr (temp_path ds chunkId)"
proof -
  have plain: "plain_name (chunkId @ ''..tmp'')" by (rule plain_temp_name [OF valid_id_facts(3) [OF wf id]])
  from wf have "tempDir ds \<noteq> ''''" by (simp add: store_wf_def)
  from Join_under [OF this, of "[chunkId @ ''..tmp'']"] plain
    split_slash_plain [OF plain_slash_free [OF plain]]
  have "filepath_Join [tempDir ds, chunkId @ ''..tmp''] = temp_path ds chunkId"
    by (simp add: temp_path_def)
  then show ?thesis using id by (simp add: TempDir_def valid_id_def)
qed

lemma base_name_chunk_path:
  assumes "store_wf ds" "valid_id ds chunkId"
  shows "base_name (chunk_path ds chunkId) = chunk_file chunkId"
  using base_name_render [OF plain_slash_free [OF plain_chunk_file [OF valid_id_facts(3) [OF assms]]],
      of _ "base_elems (rootDir ds) @ shards ds chunkId"]
  by (simp add: chunk_path_def)

lemma base_name_temp_path:
  assumes "store_wf ds" "valid_id ds chunkId"
  shows "base_name (temp_path ds chunkId) = chunkId @ ''..tmp''"
  unfolding temp_path_def
  by (rule base_name_render [OF plain_slash_free [OF plain_temp_name [OF valid_id_facts(3) [OF assms]]]])

text \<open>Different chunks have different files, and no chunk file is a temporary file.\<close>

lemma chunk_path_inj:
  assumes "store_wf ds" "valid_id ds a" "valid_id ds b"
  shows "chunk_path ds a = chunk_path ds b \<longleftrightarrow> a = b"
proof
  assume "chunk_path ds a = chunk_path ds b"
  then have "chunk_file a = chunk_file b" using base_name_chunk_path assms by metis
  then show "a = b" by (simp add: chunk_file_def)
qed simp

lemma temp_path_inj:
  assumes "store_wf ds" "valid_id ds a" "valid_id ds b"
  shows "temp_path ds a = temp_path ds b \<longleftrightarrow> a = b"
proof
  assume "temp_path ds a = temp_path ds b"
  then have "a @ ''..tmp'' = b @ ''..tmp''" using base_name_temp_path assms by metis
  then show "a = b" by simp
qed simp

lemma chunk_path_not_temp:
  assumes "store_wf ds" "valid_id ds a" "valid_id ds b"
  shows "chunk_path ds a \<noteq> temp_path ds b"
proof
  assume "chunk_path ds a = temp_path ds b"
  then have "chunk_file a = b @ ''..tmp''" using base_name_chunk_path base_name_temp_path assms by metis
  then have "last (chunk_file a) = last (b @ ''..tmp'')" by (rule arg_cong)
  then show False by (simp add: chunk_file_def)
qed


definition demo_store :: "uint64 \<Rightarrow> (memdb, bytes) BoltChecksumIndex DiskStore" where
  "demo_store cap = \<lparr>rootDir = ''/data/../srv'', tempDir = ''/tmp/'', splitLevel = 2,
     checksumStore = mem_ix, totalSpace = cap, usedSpace = 0\<rparr>"


end
