(* ===== verification/Disk_Refinement.thy ===== *)
theory Disk_Refinement
  imports Disk_Store
begin

text \<open>
  What the disk store promises. Its abstract state is a map from chunk ids to
  contents with a capacity in bytes; \<open>chunks\<close> reads it off the index and the file
  system, and \<open>store_inv\<close> says that the index, the files and the counter agree.
  On a file system and an index that do not fail, every operation is the
  operation of the abstract store; under failures an operation that reports an
  error leaves the index, the counter and all other chunks alone.
\<close>

section \<open>The abstract store\<close>

definition chunk_bytes :: "(string \<rightharpoonup> bytes) \<Rightarrow> nat" where
  "chunk_bytes m = (\<Sum>c \<in> dom m. length (the (m c)))"

definition old_bytes :: "(string \<rightharpoonup> bytes) \<Rightarrow> string \<Rightarrow> nat" where
  "old_bytes m c = (case m c of None \<Rightarrow> 0 | Some v \<Rightarrow> length v)"

lemma chunk_bytes_upd:
  assumes "finite (dom m)"
  shows "chunk_bytes (m(c \<mapsto> v)) = chunk_bytes m - old_bytes m c + length v"
    and "chunk_bytes (m(c := None)) = chunk_bytes m - old_bytes m c"
    and "old_bytes m c \<le> chunk_bytes m"
proof -
  have rest: "(\<Sum>x \<in> dom m - {c}. length (the ((m(c \<mapsto> v)) x))) = (\<Sum>x \<in> dom m - {c}. length (the (m x)))"
    "(\<Sum>x \<in> dom m - {c}. length (the ((m(c := None)) x))) = (\<Sum>x \<in> dom m - {c}. length (the (m x)))"
    by (auto intro: sum.cong)
  have split: "chunk_bytes m = old_bytes m c + (\<Sum>x \<in> dom m - {c}. length (the (m x)))"
    using assms sum.remove [OF assms, of c "\<lambda>x. length (the (m x))"]
    by (cases "m c") (auto simp: chunk_bytes_def old_bytes_def domIff)
  have "chunk_bytes (m(c \<mapsto> v)) = length v + (\<Sum>x \<in> dom m - {c}. length (the (m x)))"
    using assms rest(1) by (simp add: chunk_bytes_def sum.insert_remove)
  moreover have "chunk_bytes (m(c := None)) = (\<Sum>x \<in> dom m - {c}. length (the (m x)))"
    using rest(2) by (simp add: chunk_bytes_def)
  ultimately show "chunk_bytes (m(c \<mapsto> v)) = chunk_bytes m - old_bytes m c + length v"
    "chunk_bytes (m(c := None)) = chunk_bytes m - old_bytes m c" "old_bytes m c \<le> chunk_bytes m"
    using split by simp_all
qed

definition spec_put ::
  "(string \<Rightarrow> bool) \<Rightarrow> nat \<Rightarrow> (string \<rightharpoonup> bytes) \<Rightarrow> string \<Rightarrow> bytes \<Rightarrow> (string \<rightharpoonup> bytes) \<times> goerror option" where
  "spec_put valid capacity m c v =
     (if \<not> valid c then (m, Some DfsErrInvalidChunkId)
      else if capacity < chunk_bytes (m(c \<mapsto> v)) then (m, Some DfsErrInsufficientSpace)
      else (m(c \<mapsto> v), None))"

definition spec_delete ::
  "(string \<Rightarrow> bool) \<Rightarrow> (string \<rightharpoonup> bytes) \<Rightarrow> string \<Rightarrow> (string \<rightharpoonup> bytes) \<times> goerror option" where
  "spec_delete valid m c =
     (if \<not> valid c then (m, Some DfsErrInvalidChunkId)
      else if m c = None then (m, Some DfsErrChunkNotFound)
      else (m(c := None), None))"

section \<open>The counter does not wrap\<close>

lemma unat_word_of_nat64: "n < 2 ^ 64 \<Longrightarrow> unat (word_of_nat n :: uint64) = n"
  by (simp add: unat_of_nat)

lemma counter_arith:
  fixes used cap new old :: uint64
  assumes "used \<le> cap" and "unat old \<le> unat used"
  shows "cap - used < netDelta new old \<longleftrightarrow> unat cap < unat used - unat old + unat new"
    and "\<not> cap - used < netDelta new old \<Longrightarrow>
       unat (adjust_used used new old) = unat used - unat old + unat new \<and> adjust_used used new old \<le> cap"
proof -
  have cap: "unat (cap - used) = unat cap - unat used" "unat used \<le> unat cap"
    using assms(1) by (simp_all add: unat_sub word_le_nat_alt)
  have delta: "unat (netDelta new old) = unat new - unat old"
    by (simp add: netDelta_def unat_sub word_le_nat_alt word_less_nat_alt)
  show fits: "cap - used < netDelta new old \<longleftrightarrow> unat cap < unat used - unat old + unat new"
    using cap delta assms(2) by (simp add: word_less_nat_alt) arith
  assume ok: "\<not> cap - used < netDelta new old"
  have lim: "unat cap < 2 ^ 64" using unsigned_less [of cap] by simp
  have "unat (adjust_used used new old) = unat used - unat old + unat new"
  proof (cases "old \<le> new")
    case True
    then have "unat (new - old) = unat new - unat old" "unat old \<le> unat new"
      by (simp_all add: unat_sub word_le_nat_alt)
    moreover from this have "unat used + unat (new - old) < 2 ^ 64"
      using ok fits lim assms(2) by simp
    ultimately show ?thesis
      using True assms(2) by (simp add: adjust_used_def unat_add_lem [THEN iffD1])
  next
    case False
    then have "unat (old - new) = unat old - unat new" "unat new < unat old"
      by (simp_all add: unat_sub word_le_nat_alt)
    moreover from this have "old - new \<le> used"
      using assms(2) by (simp add: word_le_nat_alt)
    ultimately show ?thesis
      using False assms(2) by (simp add: adjust_used_def unat_sub)
  qed
  with ok fits show "unat (adjust_used used new old) = unat used - unat old + unat new \<and> adjust_used used new old \<le> cap"
    by (simp add: word_le_nat_alt)
qed

section \<open>Invariant\<close>

definition chunks :: "('ix \<Rightarrow> string \<rightharpoonup> bytes) \<Rightarrow> 'ix disk \<Rightarrow> string \<rightharpoonup> bytes" where
  "chunks sums d c =
     (case sums (checksumStore (d_store d)) c of
        None \<Rightarrow> None
      | Some _ \<Rightarrow> fs_content (d_fs d) (chunk_path (d_store d) c))"

definition store_inv :: "('ix \<Rightarrow> string \<rightharpoonup> bytes) \<Rightarrow> ('ix \<Rightarrow> bool) \<Rightarrow> 'ix disk \<Rightarrow> bool" where
  "store_inv sums ready d \<longleftrightarrow>
     store_wf (d_store d) \<and> fs_wf (d_fs d) \<and> ready (checksumStore (d_store d))
     \<and> (\<forall>c s. sums (checksumStore (d_store d)) c = Some s \<longrightarrow>
          valid_id (d_store d) c
          \<and> (\<exists>v. fs_content (d_fs d) (chunk_path (d_store d) c) = Some v \<and> s = sha256_Sum256 v))
     \<and> unat (usedSpace (d_store d)) = chunk_bytes (chunks sums d)
     \<and> usedSpace (d_store d) \<le> totalSpace (d_store d)"

definition same_config :: "'ix DiskStore \<Rightarrow> 'ix DiskStore \<Rightarrow> bool" where
  "same_config ds ds' \<longleftrightarrow>
     rootDir ds' = rootDir ds \<and> tempDir ds' = tempDir ds \<and> splitLevel ds' = splitLevel ds
     \<and> totalSpace ds' = totalSpace ds"

lemma same_config_simps:
  assumes "same_config ds ds'"
  shows "valid_id ds' = valid_id ds" "chunk_path ds' = chunk_path ds" "temp_path ds' = temp_path ds"
    "store_wf ds' = store_wf ds" "totalSpace ds' = totalSpace ds" "validateChunkId ds' = validateChunkId ds"
  using assms
  by (auto simp: same_config_def valid_id_def validateChunkId_def chunk_path_def temp_path_def
      store_wf_def shards_def fun_eq_iff)

lemma same_config_refl [simp]: "same_config ds ds"
  "same_config ds (ds\<lparr>checksumStore := ix, usedSpace := u\<rparr>)"
  by (simp_all add: same_config_def)

text \<open>An index that does not fail on a valid key.\<close>

locale reliable_index = checksum_index +
  assumes put_ok: "ready ix \<Longrightarrow> k \<noteq> '''' \<Longrightarrow> snd (cs_Put cs ix k v) = None"
    and delete_ok: "ready ix \<Longrightarrow> k \<noteq> '''' \<Longrightarrow> sums ix k \<noteq> None \<Longrightarrow> snd (cs_Delete cs ix k) = None"

interpretation mem_reliable: reliable_index "bolt_index mem_bolt" "ci_view mem_bolt"
  "\<lambda>c. ci_ready mem_bolt c \<and> ci_codec c = ByteCodec"
proof
  fix c :: "(memdb, bytes) BoltChecksumIndex" and k :: string and v
  assume "ci_ready mem_bolt c \<and> ci_codec c = ByteCodec" "k \<noteq> ''''"
  then show "snd (cs_Put (bolt_index mem_bolt) c k v) = None"
    by (auto simp: bolt_index_def ci_Put_def ci_ready_def mem_bolt_def ByteCodec_def)
next
  fix c :: "(memdb, bytes) BoltChecksumIndex" and k :: string
  assume "ci_ready mem_bolt c \<and> ci_codec c = ByteCodec" "k \<noteq> ''''" "ci_view mem_bolt c k \<noteq> None"
  then show "snd (cs_Delete (bolt_index mem_bolt) c k) = None"
    by (auto simp: bolt_index_def ci_Delete_def ci_ready_def ci_view_def mem_bolt_def ByteCodec_def
        split: option.splits)
qed

section \<open>Operations under the invariant\<close>

lemma store_invD:
  assumes "store_inv sums ready d"
  shows "store_wf (d_store d)" "fs_wf (d_fs d)" "ready (checksumStore (d_store d))"
    "\<And>c s. sums (checksumStore (d_store d)) c = Some s \<Longrightarrow> valid_id (d_store d) c"
    "\<And>c s. sums (checksumStore (d_store d)) c = Some s
       \<Longrightarrow> \<exists>v. fs_content (d_fs d) (chunk_path (d_store d) c) = Some v \<and> s = sha256_Sum256 v"
    "unat (usedSpace (d_store d)) = chunk_bytes (chunks sums d)"
    "usedSpace (d_store d) \<le> totalSpace (d_store d)"
  using assms by (auto simp: store_inv_def)

lemma chunks_None_iff:
  assumes "store_inv sums ready d"
  shows "chunks sums d c = None \<longleftrightarrow> sums (checksumStore (d_store d)) c = None"
  using store_invD(5) [OF assms, of c]
  by (cases "sums (checksumStore (d_store d)) c") (auto simp: chunks_def)

lemma chunks_Some:
  assumes "store_inv sums ready d" and "chunks sums d c = Some v"
  shows "valid_id (d_store d) c" "fs_content (d_fs d) (chunk_path (d_store d) c) = Some v"
    "sums (checksumStore (d_store d)) c = Some (sha256_Sum256 v)"
  using assms store_invD(4,5) [OF assms(1), of c]
  by (auto simp: chunks_def split: option.splits)

context checksum_index
begin

lemma finite_chunks: "store_inv sums ready d \<Longrightarrow> finite (dom (chunks sums d))"
proof -
  assume inv: "store_inv sums ready d"
  obtain ks where "set ks = dom (sums (checksumStore (d_store d)))"
    using get_all [OF store_invD(3) [OF inv]] by blast
  then have "finite (dom (sums (checksumStore (d_store d))))" by (metis List.finite_set)
  moreover have "dom (chunks sums d) = dom (sums (checksumStore (d_store d)))"
    using chunks_None_iff [OF inv] by (auto simp: dom_def)
  ultimately show ?thesis by simp
qed

lemma Exists_chunks:
  assumes "store_inv sums ready d"
  shows "ds_Exists cs (d_store d) c \<longleftrightarrow> chunks sums d c \<noteq> None"
proof -
  have "ds_Exists cs (d_store d) c \<longleftrightarrow> valid_id (d_store d) c \<and> sums (checksumStore (d_store d)) c \<noteq> None"
    using get [OF store_invD(3) [OF assms], of c]
    by (auto simp: ds_Exists_def valid_id_def split: option.splits)
  then show ?thesis using store_invD(4) [OF assms, of c] chunks_None_iff [OF assms, of c] by auto
qed

text \<open>The size the code reads for an existing chunk is the size of the stored content.\<close>

lemma existing_size:
  assumes inv: "store_inv sums ready d" and fs: "fs_content fs = fs_content (d_fs d)"
  shows "(if ds_Exists cs (d_store d) c
          then (case os_Stat OsStat reliable_os (chunk_path (d_store d) c) fs of Inl e \<Rightarrow> 0 | Inr n \<Rightarrow> word_of_nat n)
          else 0) = (word_of_nat (old_bytes (chunks sums d) c) :: uint64)"
  using chunks_Some [OF inv, of c]
  by (cases "chunks sums d c")
     (auto simp: Exists_chunks [OF inv] old_bytes_def os_Stat_def fs)

lemma unat_old_bytes:
  assumes "store_inv sums ready d"
  shows "unat (word_of_nat (old_bytes (chunks sums d) c) :: uint64) = old_bytes (chunks sums d) c"
    "old_bytes (chunks sums d) c \<le> unat (usedSpace (d_store d))"
proof -
  show le: "old_bytes (chunks sums d) c \<le> unat (usedSpace (d_store d))"
    using chunk_bytes_upd(3) [OF finite_chunks [OF assms]] store_invD(6) [OF assms] by simp
  also have "\<dots> < 2 ^ 64" using unsigned_less [of "usedSpace (d_store d)"] by simp
  finally show "unat (word_of_nat (old_bytes (chunks sums d) c) :: uint64) = old_bytes (chunks sums d) c"
    by (rule unat_word_of_nat64)
qed

text \<open>The space check of \<open>Write\<close> and \<open>Rename\<close> and the counter they leave.\<close>

lemma space_check:
  assumes inv: "store_inv sums ready d" and len: "length v < 2 ^ 64"
  shows "totalSpace (d_store d) - usedSpace (d_store d)
           < netDelta (word_of_nat (length v)) (word_of_nat (old_bytes (chunks sums d) c))
         \<longleftrightarrow> unat (totalSpace (d_store d)) < chunk_bytes ((chunks sums d)(c \<mapsto> v))"
    and "\<not> unat (totalSpace (d_store d)) < chunk_bytes ((chunks sums d)(c \<mapsto> v)) \<Longrightarrow>
       unat (adjust_used (usedSpace (d_store d)) (word_of_nat (length v)) (word_of_nat (old_bytes (chunks sums d) c)))
         = chunk_bytes ((chunks sums d)(c \<mapsto> v))
       \<and> adjust_used (usedSpace (d_store d)) (word_of_nat (length v)) (word_of_nat (old_bytes (chunks sums d) c))
         \<le> totalSpace (d_store d)"
proof -
  note old = unat_old_bytes [OF inv, of c] and new = unat_word_of_nat64 [OF len]
  have le: "unat (word_of_nat (old_bytes (chunks sums d) c) :: uint64) \<le> unat (usedSpace (d_store d))"
    using old by simp
  note ca = counter_arith [OF store_invD(7) [OF inv] le, of "word_of_nat (length v)", unfolded old(1) new]
  have sum: "chunk_bytes ((chunks sums d)(c \<mapsto> v)) = unat (usedSpace (d_store d)) - old_bytes (chunks sums d) c + length v"
    using chunk_bytes_upd(1) [OF finite_chunks [OF inv]] store_invD(6) [OF inv] by simp
  show "totalSpace (d_store d) - usedSpace (d_store d)
           < netDelta (word_of_nat (length v)) (word_of_nat (old_bytes (chunks sums d) c))
         \<longleftrightarrow> unat (totalSpace (d_store d)) < chunk_bytes ((chunks sums d)(c \<mapsto> v))"
    using ca(1) sum by simp
  with ca(2) sum show "\<not> unat (totalSpace (d_store d)) < chunk_bytes ((chunks sums d)(c \<mapsto> v)) \<Longrightarrow>
       unat (adjust_used (usedSpace (d_store d)) (word_of_nat (length v)) (word_of_nat (old_bytes (chunks sums d) c)))
         = chunk_bytes ((chunks sums d)(c \<mapsto> v))
       \<and> adjust_used (usedSpace (d_store d)) (word_of_nat (length v)) (word_of_nat (old_bytes (chunks sums d) c))
         \<le> totalSpace (d_store d)"
    by simp
qed

text \<open>Placing a file and its checksum stores the chunk.\<close>

lemma inv_put:
  assumes inv: "store_inv sums ready d" and c: "valid_id (d_store d) c"
    and d': "same_config (d_store d) (d_store d')" "fs_wf (d_fs d')"
    and ix: "ready (checksumStore (d_store d'))"
      "sums (checksumStore (d_store d')) = (sums (checksumStore (d_store d)))(c \<mapsto> sha256_Sum256 v)"
    and new: "fs_content (d_fs d') (chunk_path (d_store d) c) = Some v"
    and others: "\<And>b. valid_id (d_store d) b \<Longrightarrow> b \<noteq> c \<Longrightarrow>
       fs_content (d_fs d') (chunk_path (d_store d) b) = fs_content (d_fs d) (chunk_path (d_store d) b)"
    and used: "unat (usedSpace (d_store d')) = chunk_bytes ((chunks sums d)(c \<mapsto> v))"
      "usedSpace (d_store d') \<le> totalSpace (d_store d)"
  shows "store_inv sums ready d' \<and> chunks sums d' = (chunks sums d)(c \<mapsto> v)"
proof -
  note cfg = same_config_simps [OF d'(1)]
  have chunks: "chunks sums d' = (chunks sums d)(c \<mapsto> v)"
  proof
    fix b
    show "chunks sums d' b = ((chunks sums d)(c \<mapsto> v)) b"
      using new others [of b] store_invD(4) [OF inv, of b]
      by (cases "b = c") (auto simp: chunks_def ix cfg split: option.splits)
  qed
  have "valid_id (d_store d) b \<and> (\<exists>v. fs_content (d_fs d') (chunk_path (d_store d) b) = Some v \<and> s = sha256_Sum256 v)"
    if "sums (checksumStore (d_store d')) b = Some s" for b s
    using that c new others [of b] store_invD(4,5) [OF inv, of b]
    by (cases "b = c") (auto simp: ix)
  then show ?thesis
    using d' ix used chunks store_invD(1) [OF inv] by (auto simp: store_inv_def cfg)
qed

lemma inv_remove:
  assumes inv: "store_inv sums ready d" and c: "valid_id (d_store d) c"
    and d': "same_config (d_store d) (d_store d')" "fs_wf (d_fs d')"
    and ix: "ready (checksumStore (d_store d'))"
      "sums (checksumStore (d_store d')) = (sums (checksumStore (d_store d)))(c := None)"
    and others: "\<And>b. valid_id (d_store d) b \<Longrightarrow> b \<noteq> c \<Longrightarrow>
       fs_content (d_fs d') (chunk_path (d_store d) b) = fs_content (d_fs d) (chunk_path (d_store d) b)"
    and used: "unat (usedSpace (d_store d')) = chunk_bytes ((chunks sums d)(c := None))"
      "usedSpace (d_store d') \<le> totalSpace (d_store d)"
  shows "store_inv sums ready d' \<and> chunks sums d' = (chunks sums d)(c := None)"
proof -
  note cfg = same_config_simps [OF d'(1)]
  have chunks: "chunks sums d' = (chunks sums d)(c := None)"
  proof
    fix b
    show "chunks sums d' b = ((chunks sums d)(c := None)) b"
      using others [of b] store_invD(4) [OF inv, of b]
      by (cases "b = c") (auto simp: chunks_def ix cfg split: option.splits)
  qed
  have "valid_id (d_store d) b \<and> (\<exists>v. fs_content (d_fs d') (chunk_path (d_store d) b) = Some v \<and> s = sha256_Sum256 v)"
    if "sums (checksumStore (d_store d')) b = Some s" for b s
    using that others [of b] store_invD(4,5) [OF inv, of b] by (cases "b = c") (auto simp: ix)
  then show ?thesis
    using d' ix used chunks store_invD(1) [OF inv] by (auto simp: store_inv_def cfg)
qed

end

context reliable_index
begin

lemma reliable_MkdirAll:
  "p \<noteq> '''' \<Longrightarrow> os_MkdirAll reliable_os p fs = (fs\<lparr>fs_dirs := filepath_Clean p # fs_dirs fs\<rparr>, None)"
  by (simp add: os_MkdirAll_def)

lemma reliable_WriteFile:
  assumes "filepath_Dir p \<in> set (fs_dirs fs)"
  shows "\<exists>fs'. os_WriteFile reliable_os p v fs = (fs', None)"
  using assms by (cases "open_trunc p fs") (simp add: os_WriteFile_def)

lemma put_index:
  assumes "ready ix" "k \<noteq> ''''"
  obtains ix' where "cs_Put cs ix k v = (ix', None)" "ready ix'" "sums ix' = (sums ix)(k \<mapsto> v)"
  using put_ok [OF assms, of v] put [OF assms(1), of k v] by (metis prod.collapse)

lemma Write_refines:
  assumes inv: "store_inv sums ready d" and len: "length v < 2 ^ 64"
    and w: "ds_Write reliable_os cs d c v = (d', err)"
  shows "store_inv sums ready d'
    \<and> (chunks sums d', err) = spec_put (valid_id (d_store d)) (unat (totalSpace (d_store d))) (chunks sums d) c v
    \<and> same_config (d_store d) (d_store d')
    \<and> fs_content (d_fs d') =
        (if err = None then (fs_content (d_fs d))(chunk_path (d_store d) c \<mapsto> v) else fs_content (d_fs d))"
proof (cases "valid_id (d_store d) c")
  case False
  with w have "d' = d" "err = Some DfsErrInvalidChunkId"
    by (simp_all add: ds_Write_def invalid_idD)
  with False inv show ?thesis by (simp add: spec_put_def)
next
  case c: True
  note wf = store_invD(1) [OF inv]
  let ?m = "chunks sums d" and ?p = "chunk_path (d_store d) c"
  have existing: "(if ds_Exists cs (d_store d) c
       then (case PathForChunk (d_store d) c of
               Inl e \<Rightarrow> Inl e
             | Inr absPath \<Rightarrow>
                 (case os_Stat OsStat reliable_os absPath (d_fs d) of Inl e \<Rightarrow> Inr 0 | Inr n \<Rightarrow> Inr (word_of_nat n)))
       else Inr 0) = (Inr (word_of_nat (old_bytes ?m c)) :: goerror + uint64)"
    using existing_size [OF inv refl, of c] by (auto simp: PathForChunk_path [OF wf c] split: sum.splits)
  show ?thesis
  proof (cases "unat (totalSpace (d_store d)) < chunk_bytes (?m(c \<mapsto> v))")
    case True
    with w c existing space_check(1) [OF inv len, of c] have "d' = d" "err = Some DfsErrInsufficientSpace"
      by (simp_all add: ds_Write_def valid_idD PathForChunk_path [OF wf c] Let_def)
    with True c inv show ?thesis by (simp add: spec_put_def)
  next
    case fits: False
    define fs1 where "fs1 = (d_fs d)\<lparr>fs_dirs := chunk_dir (d_store d) c # fs_dirs (d_fs d)\<rparr>"
    have mk: "os_MkdirAll reliable_os (chunk_dir (d_store d) c) (d_fs d) = (fs1, None)"
      using reliable_MkdirAll [OF chunk_dir_ne [OF wf c]] Clean_chunk_dir [OF wf c] by (simp add: fs1_def)
    have fs1: "fs_wf fs1" "fs_content fs1 = fs_content (d_fs d)"
      using MkdirAll_simps [OF mk] store_invD(2) [OF inv] by simp_all
    obtain fs2 where wr: "os_WriteFile reliable_os ?p v fs1 = (fs2, None)"
      using reliable_WriteFile [of ?p fs1 v] Dir_chunk_path [OF wf c] by (auto simp: fs1_def)
    note fs2 = WriteFile_content [OF fs1(1) wr]
    obtain ix where ix: "cs_Put cs (checksumStore (d_store d)) c (sha256_Sum256 v) = (ix, None)" "ready ix"
      "sums ix = (sums (checksumStore (d_store d)))(c \<mapsto> sha256_Sum256 v)"
      using put_index [OF store_invD(3) [OF inv] valid_id_facts(1) [OF wf c]] .
    define u where "u = adjust_used (usedSpace (d_store d)) (word_of_nat (length v)) (word_of_nat (old_bytes ?m c))"
    have d': "d' = d\<lparr>d_fs := fs2, d_store := (d_store d)\<lparr>checksumStore := ix, usedSpace := u\<rparr>\<rparr>" "err = None"
      using w c existing space_check(1) [OF inv len, of c] fits mk wr ix(1)
      by (simp_all add: ds_Write_def valid_idD PathForChunk_path [OF wf c] getDir_shards [OF wf c]
          shard_dir_path [OF wf c] Write_path [OF wf c] Let_def u_def)
    have "store_inv sums ready d' \<and> chunks sums d' = ?m(c \<mapsto> v)"
      by (rule inv_put [OF inv c])
         (use fs2 fs1 ix space_check(2) [OF inv len fits] chunk_path_inj [OF wf _ c] in \<open>auto simp: d' u_def\<close>)
    then show ?thesis using c fits fs2(3) fs1(2) by (simp add: spec_put_def d')
  qed
qed

end

context reliable_index
begin

lemma Rename_refines:
  assumes inv: "store_inv sums ready d" and src: "fs_content (d_fs d) source = Some v" and len: "length v < 2 ^ 64"
    and temp: "\<And>b. valid_id (d_store d) b \<Longrightarrow> chunk_path (d_store d) b \<noteq> source"
    and r: "ds_Rename reliable_os cs d source c = (d', err)"
  shows "store_inv sums ready d'
    \<and> (chunks sums d', err) = spec_put (valid_id (d_store d)) (unat (totalSpace (d_store d))) (chunks sums d) c v
    \<and> same_config (d_store d) (d_store d')
    \<and> fs_content (d_fs d') =
        (if err = None then (fs_content (d_fs d))(source := None, chunk_path (d_store d) c \<mapsto> v)
         else fs_content (d_fs d))"
proof (cases "valid_id (d_store d) c")
  case False
  with r have "d' = d" "err = Some DfsErrInvalidChunkId"
    by (simp_all add: ds_Rename_def invalid_idD)
  with False inv show ?thesis by (simp add: spec_put_def)
next
  case c: True
  note wf = store_invD(1) [OF inv]
  let ?m = "chunks sums d" and ?p = "chunk_path (d_store d) c"
  define fs1 where "fs1 = (d_fs d)\<lparr>fs_dirs := chunk_dir (d_store d) c # fs_dirs (d_fs d)\<rparr>"
  have mk: "os_MkdirAll reliable_os (chunk_dir (d_store d) c) (d_fs d) = (fs1, None)"
    using reliable_MkdirAll [OF chunk_dir_ne [OF wf c]] Clean_chunk_dir [OF wf c] by (simp add: fs1_def)
  have fs1: "fs_wf fs1" "fs_content fs1 = fs_content (d_fs d)"
    using MkdirAll_simps [OF mk] store_invD(2) [OF inv] by simp_all
  have stat: "os_Stat site reliable_os source fs1 = Inr (length v)"
    "os_Stat site reliable_os source (d_fs d) = Inr (length v)" for site
    using src by (simp_all add: os_Stat_def fs1(2))
  note existing = existing_size [OF inv fs1(2), of c]
  show ?thesis
  proof (cases "unat (totalSpace (d_store d)) < chunk_bytes (?m(c \<mapsto> v))")
    case True
    with r c existing space_check(1) [OF inv len, of c] mk stat have "d' = d\<lparr>d_fs := fs1\<rparr>" "err = Some DfsErrInsufficientSpace"
      by (simp_all add: ds_Rename_def valid_idD PathForChunk_path [OF wf c] Dir_chunk_path [OF wf c] Let_def)
    moreover have m: "chunks sums (d\<lparr>d_fs := fs1\<rparr>) = ?m"
      using fs1 by (simp add: chunks_def fun_eq_iff split: option.split)
    moreover have "store_inv sums ready (d\<lparr>d_fs := fs1\<rparr>)"
      using inv fs1 m by (simp add: store_inv_def)
    ultimately show ?thesis using True c fs1(2) by (simp add: spec_put_def)
  next
    case fits: False
    obtain i where i: "fs_names fs1 source = Some i"
      using src fs1(2) by (metis fs_content_def map_option_eq_Some)
    have open_src: "os_Open reliable_os source fs1 = Inr \<lparr>f_inode = i, f_pos = 0, f_name = source\<rparr>"
      using i by (simp add: os_Open_def)
    obtain fs2 where mv: "os_Rename reliable_os source ?p fs1 = (fs2, None)"
      using i Dir_chunk_path [OF wf c] by (simp add: os_Rename_def fs1_def)
    note fs2 = Rename_content [OF fs1(1) mv]
    have content: "fs_content fs2 = (fs_content (d_fs d))(source := None, ?p \<mapsto> v)"
      using fs2(4) src fs1(2) by auto
    have read: "os_ReadFile reliable_os ?p fs2 = Inr v"
      using content by (simp add: os_ReadFile_def)
    obtain ix where ix: "cs_Put cs (checksumStore (d_store d)) c (sha256_Sum256 v) = (ix, None)" "ready ix"
      "sums ix = (sums (checksumStore (d_store d)))(c \<mapsto> sha256_Sum256 v)"
      using put_index [OF store_invD(3) [OF inv] valid_id_facts(1) [OF wf c]] .
    define u where "u = adjust_used (usedSpace (d_store d)) (word_of_nat (length v)) (word_of_nat (old_bytes ?m c))"
    have d': "d' = d\<lparr>d_fs := fs2, d_store := (d_store d)\<lparr>checksumStore := ix, usedSpace := u\<rparr>\<rparr>" "err = None"
      using r c existing space_check(1) [OF inv len, of c] fits mk stat mv open_src read ix(1)
      by (simp_all add: ds_Rename_def valid_idD PathForChunk_path [OF wf c] Dir_chunk_path [OF wf c] Let_def
          u_def)
    have "store_inv sums ready d' \<and> chunks sums d' = ?m(c \<mapsto> v)"
      by (rule inv_put [OF inv c])
         (use fs2 content ix space_check(2) [OF inv len fits] chunk_path_inj [OF wf _ c] temp in \<open>auto simp: d' u_def\<close>)
    then show ?thesis using c fits content by (simp add: spec_put_def d')
  qed
qed

lemma Delete_refines:
  assumes inv: "store_inv sums ready d" and del: "ds_Delete reliable_os cs d c = (d', err)"
  shows "store_inv sums ready d'
    \<and> (chunks sums d', err) = spec_delete (valid_id (d_store d)) (chunks sums d) c
    \<and> same_config (d_store d) (d_store d')
    \<and> fs_content (d_fs d') =
        (if err = None then (fs_content (d_fs d))(chunk_path (d_store d) c := None) else fs_content (d_fs d))"
proof (cases "valid_id (d_store d) c \<and> chunks sums d c \<noteq> None")
  case False
  with del have "d' = d" "err = Some (if valid_id (d_store d) c then DfsErrChunkNotFound else DfsErrInvalidChunkId)"
    by (cases "valid_id (d_store d) c";
        simp add: ds_Delete_def invalid_idD valid_idD Exists_chunks [OF inv] Let_def)+
  with False inv show ?thesis by (auto simp: spec_delete_def)
next
  case True
  then obtain v where c: "valid_id (d_store d) c" and v: "chunks sums d c = Some v" by auto
  note wf = store_invD(1) [OF inv]
  let ?m = "chunks sums d" and ?p = "chunk_path (d_store d) c"
  note fl = chunks_Some [OF inv v]
  have stat: "os_Stat OsStat reliable_os ?p (d_fs d) = Inr (length v)"
    using fl(2) by (simp add: os_Stat_def)
  obtain fs1 where rm: "os_Remove reliable_os ?p (d_fs d) = (fs1, None)"
    using fl(2) by (auto simp: os_Remove_def fs_content_def)
  note fs1 = Remove_content [OF store_invD(2) [OF inv] rm]
  have old: "old_bytes ?m c = length v" using v by (simp add: old_bytes_def)
  obtain ix where ix: "cs_Delete cs (checksumStore (d_store d)) c = (ix, None)" "ready ix"
    "sums ix = (sums (checksumStore (d_store d)))(c := None)"
    using delete_ok [OF store_invD(3) [OF inv] valid_id_facts(1) [OF wf c]] fl(3)
      delete [OF store_invD(3) [OF inv], of c] by (metis option.distinct(1) prod.collapse)
  define u where "u = usedSpace (d_store d) - word_of_nat (length v)"
  note sz = unat_old_bytes [OF inv, of c, unfolded old]
  have le: "word_of_nat (length v) \<le> usedSpace (d_store d)"
    using sz by (simp add: word_le_nat_alt)
  have u: "unat u = chunk_bytes (?m(c := None))" "u \<le> totalSpace (d_store d)"
    using chunk_bytes_upd(2) [OF finite_chunks [OF inv], of c] sz le store_invD(6,7) [OF inv]
    by (simp_all add: u_def unat_sub old word_le_nat_alt)
  have d': "d' = d\<lparr>d_fs := fs1, d_store := (d_store d)\<lparr>checksumStore := ix, usedSpace := u\<rparr>\<rparr>" "err = None"
    using del stat rm ix(1) le v
    by (simp_all add: ds_Delete_def valid_idD [OF c] PathForChunk_path [OF wf c] Exists_chunks [OF inv] Let_def u_def)
  have "store_inv sums ready d' \<and> chunks sums d' = ?m(c := None)"
    by (rule inv_remove [OF inv c]) (use fs1 ix u chunk_path_inj [OF wf _ c] in \<open>auto simp: d'\<close>)
  then show ?thesis using c v fs1(4) by (simp add: spec_delete_def d')
qed

end

context checksum_index
begin

lemma Read_refines:
  assumes inv: "store_inv sums ready d"
  shows "ds_Read reliable_os cs d c = (case chunks sums d c of None \<Rightarrow> Inl DfsErrChunkNotFound | Some v \<Rightarrow> Inr v)"
proof (cases "chunks sums d c")
  case None
  then show ?thesis
    by (cases "valid_id (d_store d) c") (simp_all add: ds_Read_def invalid_idD valid_idD Exists_chunks [OF inv])
next
  case (Some v)
  note f = chunks_Some [OF inv Some]
  then show ?thesis
    using Some by (simp add: ds_Read_def valid_idD Exists_chunks [OF inv] os_ReadFile_def
        PathForChunk_path [OF store_invD(1) [OF inv]])
qed

lemma Verify_refines:
  assumes inv: "store_inv sums ready d"
  shows "ds_Verify reliable_os cs d c =
    (if \<not> valid_id (d_store d) c then Inl DfsErrInvalidChunkId
     else case chunks sums d c of None \<Rightarrow> Inl ErrKeyNotFound | Some v \<Rightarrow> Inr (sha256_Sum256 v))"
proof (cases "chunks sums d c")
  case None
  then show ?thesis
    using chunks_None_iff [OF inv, of c] get [OF store_invD(3) [OF inv], of c]
    by (simp add: ds_Verify_def invalid_idD valid_idD)
next
  case (Some v)
  note f = chunks_Some [OF inv Some]
  then show ?thesis
    using Some get [OF store_invD(3) [OF inv], of c] Read_refines [OF inv, of c]
    by (simp add: ds_Verify_def valid_idD)
qed

lemma List_refines:
  assumes inv: "store_inv sums ready d"
  shows "\<exists>ks. ds_List cs (d_store d) = Inr ks \<and> distinct ks \<and> set ks = dom (chunks sums d)"
  using get_all [OF store_invD(3) [OF inv]] chunks_None_iff [OF inv]
  by (fastforce simp: ds_List_def dom_def)

lemma FreeSpace_refines:
  assumes inv: "store_inv sums ready d"
  shows "unat (ds_FreeSpace (d_store d)) = unat (totalSpace (d_store d)) - chunk_bytes (chunks sums d)"
    "unat (ds_Size (d_store d)) = chunk_bytes (chunks sums d)"
  using store_invD(6,7) [OF inv] by (auto simp: ds_FreeSpace_def ds_Size_def unat_sub)

end

section \<open>Runs of the store\<close>

lemma NewDiskStore_ok:
  assumes "NewDiskStore os opts fs = (fs', Inr ds)"
  shows "usedSpace ds = 0" "rootDir ds \<noteq> ''''" "tempDir ds \<noteq> ''''" "fs_content fs' = fs_content fs"
    "fs_wf fs' = fs_wf fs" "filepath_Clean (tempDir ds) \<in> set (fs_dirs fs')"
proof -
  have used: "usedSpace (fold apply_option opts ds0) = usedSpace ds0" for ds0 :: "'a option DiskStore"
  proof (induction opts arbitrary: ds0)
    case Nil
    then show ?case by simp
  next
    case (Cons p opts)
    then show ?case by (cases p) simp_all
  qed
  define b where "b = fold apply_option opts
     \<lparr>rootDir = ''.'', tempDir = ''.'', splitLevel = DIR_SHARD_LEVEL, checksumStore = None,
      totalSpace = DEFAULT_STORE_SIZE, usedSpace = 0\<rparr>"
  obtain fs1 e1 where m1: "os_MkdirAll os (rootDir b) fs = (fs1, e1)" by (cases "os_MkdirAll os (rootDir b) fs")
  obtain fs2 e2 where m2: "os_MkdirAll os (tempDir b) fs1 = (fs2, e2)" by (cases "os_MkdirAll os (tempDir b) fs1")
  have "e1 = None" "e2 = None" "fs' = fs2" "usedSpace ds = usedSpace b" "rootDir ds = rootDir b" "tempDir ds = tempDir b"
    using assms m1 m2 unfolding NewDiskStore_def b_def [symmetric] Let_def
    by (auto split: option.splits)
  moreover from this have "rootDir b \<noteq> ''''" "tempDir b \<noteq> ''''"
    using m1 m2 by (auto simp: os_MkdirAll_def)
  ultimately show "usedSpace ds = 0" "rootDir ds \<noteq> ''''" "tempDir ds \<noteq> ''''" "fs_content fs' = fs_content fs"
    "fs_wf fs' = fs_wf fs" "filepath_Clean (tempDir ds) \<in> set (fs_dirs fs')"
    using MkdirAll_simps [OF m1] MkdirAll_simps [OF m2] used by (auto simp: b_def)
qed

text \<open>
  One step of a running node: an operation of the store, or a change of files that
  are not chunk files (a temporary file being written).
\<close>

inductive store_step :: "'ix ChecksumIndexStore \<Rightarrow> 'ix disk \<Rightarrow> 'ix disk \<Rightarrow> bool" for cs where
  StepWrite: "ds_Write reliable_os cs d c v = (d', err) \<Longrightarrow> length v < 2 ^ 64 \<Longrightarrow> store_step cs d d'"
| StepRename: "ds_Rename reliable_os cs d source c = (d', err) \<Longrightarrow> fs_content (d_fs d) source = Some v
    \<Longrightarrow> length v < 2 ^ 64 \<Longrightarrow> (\<And>b. valid_id (d_store d) b \<Longrightarrow> chunk_path (d_store d) b \<noteq> source) \<Longrightarrow> store_step cs d d'"
| StepDelete: "ds_Delete reliable_os cs d c = (d', err) \<Longrightarrow> store_step cs d d'"
| StepOther: "fs_wf fs' \<Longrightarrow> (\<And>b. valid_id (d_store d) b \<Longrightarrow>
      fs_content fs' (chunk_path (d_store d) b) = fs_content (d_fs d) (chunk_path (d_store d) b))
    \<Longrightarrow> store_step cs d (d\<lparr>d_fs := fs'\<rparr>)"

lemma store_inv_other_files:
  assumes inv: "store_inv sums ready d" and fs: "fs_wf fs'"
    and same: "\<And>b. valid_id (d_store d) b \<Longrightarrow>
      fs_content fs' (chunk_path (d_store d) b) = fs_content (d_fs d) (chunk_path (d_store d) b)"
  shows "store_inv sums ready (d\<lparr>d_fs := fs'\<rparr>)" "chunks sums (d\<lparr>d_fs := fs'\<rparr>) = chunks sums d"
proof -
  show chunks: "chunks sums (d\<lparr>d_fs := fs'\<rparr>) = chunks sums d"
    using same store_invD(4) [OF inv] by (auto simp: chunks_def fun_eq_iff split: option.splits)
  show "store_inv sums ready (d\<lparr>d_fs := fs'\<rparr>)"
    using inv fs same chunks unfolding store_inv_def by simp
qed

context reliable_index
begin

lemma store_step_inv: "store_step cs d d' \<Longrightarrow> store_inv sums ready d \<Longrightarrow> store_inv sums ready d'"
proof (induction rule: store_step.induct)
  case (StepWrite d c v d' err)
  then show ?case using Write_refines by blast
next
  case (StepRename d source c d' err v)
  then show ?case using Rename_refines by blast
next
  case (StepDelete d c d' err)
  then show ?case using Delete_refines by blast
next
  case (StepOther fs' d)
  then show ?case using store_inv_other_files by blast
qed

lemma store_run_inv: "(store_step cs)\<^sup>*\<^sup>* d d' \<Longrightarrow> store_inv sums ready d \<Longrightarrow> store_inv sums ready d'"
  by (induction rule: rtranclp_induct) (auto intro: store_step_inv)

lemma new_store_inv:
  assumes "NewDiskStore os opts fs = (fs', Inr ds)" "fs_wf fs" "splitLevel ds < 2 ^ 15"
    "ready (checksumStore ds)" "sums (checksumStore ds) = Map.empty"
  shows "store_inv sums ready \<lparr>d_fs = fs', d_store = ds\<rparr>" "chunks sums \<lparr>d_fs = fs', d_store = ds\<rparr> = Map.empty"
proof -
  note new = NewDiskStore_ok [OF assms(1)]
  show chunks: "chunks sums \<lparr>d_fs = fs', d_store = ds\<rparr> = Map.empty"
    by (rule ext) (simp add: chunks_def assms(5))
  show "store_inv sums ready \<lparr>d_fs = fs', d_store = ds\<rparr>"
    using new assms chunks by (simp add: store_inv_def store_wf_def chunk_bytes_def)
qed

end



text \<open>A new store of 100 bytes, and the store after one chunk of three bytes.\<close>

definition demo_opts :: "(memdb, bytes) BoltChecksumIndex DiskStoreOptions list" where
  "demo_opts = [WithRootDir ''/srv'', WithTempDir ''/tmp'', WithTotalSpace 100, WithChecksumStore mem_ix]"

definition demo_fs :: filesystem where
  "demo_fs = fs_empty\<lparr>fs_dirs := [''/tmp'', ''/srv'']\<rparr>"

definition demo_ds :: "(memdb, bytes) BoltChecksumIndex DiskStore" where
  "demo_ds = \<lparr>rootDir = ''/srv'', tempDir = ''/tmp'', splitLevel = 2, checksumStore = mem_ix,
     totalSpace = 100, usedSpace = 0\<rparr>"

abbreviation mem_cs :: "(memdb, bytes) BoltChecksumIndex ChecksumIndexStore" where
  "mem_cs \<equiv> bolt_index mem_bolt"

abbreviation mem_ready :: "(memdb, bytes) BoltChecksumIndex \<Rightarrow> bool" where
  "mem_ready \<equiv> \<lambda>c. ci_ready mem_bolt c \<and> ci_codec c = ByteCodec"

definition demo_disk :: "(memdb, bytes) BoltChecksumIndex disk" where
  "demo_disk = \<lparr>d_fs = demo_fs, d_store = demo_ds\<rparr>"

definition demo_disk1 :: "(memdb, bytes) BoltChecksumIndex disk" where
  "demo_disk1 = fst (ds_Write reliable_os mem_cs demo_disk ''abcdef'' [1, 2, 3])"

lemma demo_new: "NewDiskStore reliable_os demo_opts fs_empty = (demo_fs, Inr demo_ds)"
proof -
  have "filepath_Clean ''/srv'' = ''/srv''" "filepath_Clean ''/tmp'' = ''/tmp''" by code_simp+
  then show ?thesis
    by (simp add: NewDiskStore_def demo_opts_def demo_fs_def demo_ds_def os_MkdirAll_def Let_def
        DIR_SHARD_LEVEL_def fs_empty_def)
qed

lemma demo_disk_inv: "store_inv (ci_view mem_bolt) mem_ready demo_disk" "chunks (ci_view mem_bolt) demo_disk = Map.empty"
  using mem_reliable.new_store_inv [OF demo_new] by (simp_all add: demo_ds_def demo_disk_def)

lemma demo_valid: "valid_id demo_ds ''abcdef''" "valid_id demo_ds ''abcdeg''"
  unfolding valid_id_def by code_simp+

lemma demo_disk1:
  "store_inv (ci_view mem_bolt) mem_ready demo_disk1" "chunks (ci_view mem_bolt) demo_disk1 = [''abcdef'' \<mapsto> [1, 2, 3]]"
  "same_config demo_ds (d_store demo_disk1)"
  "snd (ds_Write reliable_os mem_cs demo_disk ''abcdef'' [1, 2, 3]) = None"
proof -
  have ds: "d_store demo_disk = demo_ds" "unat (totalSpace demo_ds) = 100"
    by (simp_all add: demo_disk_def demo_ds_def)
  obtain d' err where w: "ds_Write reliable_os mem_cs demo_disk ''abcdef'' [1, 2, 3] = (d', err)"
    by (cases "ds_Write reliable_os mem_cs demo_disk ''abcdef'' [1, 2, 3]")
  note r = mem_reliable.Write_refines [OF demo_disk_inv(1) _ w, unfolded ds demo_disk_inv(2)]
  have "spec_put (valid_id demo_ds) 100 Map.empty ''abcdef'' [1, 2, 3] = ([''abcdef'' \<mapsto> [1, 2, 3]], None)"
    using demo_valid by (simp add: spec_put_def chunk_bytes_def)
  with r have "store_inv (ci_view mem_bolt) mem_ready d'" "chunks (ci_view mem_bolt) d' = [''abcdef'' \<mapsto> [1, 2, 3]]"
    "same_config demo_ds d'0" if "d'0 = d_store d'" "err = None" for d'0
    using that by auto
  moreover have "err = None"
    using r \<open>spec_put (valid_id demo_ds) 100 Map.empty ''abcdef'' [1, 2, 3] = ([''abcdef'' \<mapsto> [1, 2, 3]], None)\<close> by simp
  ultimately show "store_inv (ci_view mem_bolt) mem_ready demo_disk1"
    "chunks (ci_view mem_bolt) demo_disk1 = [''abcdef'' \<mapsto> [1, 2, 3]]" "same_config demo_ds (d_store demo_disk1)"
    "snd (ds_Write reliable_os mem_cs demo_disk ''abcdef'' [1, 2, 3]) = None"
    by (simp_all add: demo_disk1_def w)
qed

lemma demo_step: "(store_step mem_cs)\<^sup>*\<^sup>* \<lparr>d_fs = demo_fs, d_store = demo_ds\<rparr> demo_disk1"
  by (rule r_into_rtranclp, rule StepWrite [of mem_cs _ "''abcdef''" "[1, 2, 3]" _ None])
     (use demo_disk1(4) in \<open>simp_all add: demo_disk1_def demo_disk_def prod_eq_iff\<close>)


definition demo_temp :: "(memdb, bytes) BoltChecksumIndex disk" where
  "demo_temp = demo_disk\<lparr>d_fs := fst (os_WriteFile reliable_os (temp_path demo_ds ''abcdef'') [1, 2, 3] demo_fs)\<rparr>"


section \<open>Failures\<close>


context checksum_index
begin

lemma Write_error:
  assumes wf: "store_wf (d_store d)" "fs_wf (d_fs d)" "ready (checksumStore (d_store d))"
    and w: "ds_Write os cs d c v = (d', Some e)"
  shows "d_store d' = d_store d \<and> (fs_content (d_fs d') = fs_content (d_fs d)
    \<or> (\<exists>n. fs_content (d_fs d') = (fs_content (d_fs d))(chunk_path (d_store d) c \<mapsto> take n v)))"
proof (cases "valid_id (d_store d) c")
  case False
  with w show ?thesis by (simp add: ds_Write_def invalid_idD)
next
  case c: True
  let ?p = "chunk_path (d_store d) c"
  obtain fs1 e1 where mk: "os_MkdirAll os (chunk_dir (d_store d) c) (d_fs d) = (fs1, e1)"
    by (cases "os_MkdirAll os (chunk_dir (d_store d) c) (d_fs d)")
  note fs1 = MkdirAll_simps [OF mk]
  obtain fs2 e2 where wr: "os_WriteFile os ?p v fs1 = (fs2, e2)" by (cases "os_WriteFile os ?p v fs1")
  have fs1_wf: "fs_wf fs1" using fs1(2) wf(2) by simp
  have fs2: "fs_content fs2 = fs_content (d_fs d) \<or> (\<exists>n. fs_content fs2 = (fs_content (d_fs d))(?p \<mapsto> take n v))"
    using WriteFile_content(4) [OF fs1_wf wr] fs1(1) by simp
  obtain ix e3 where ix: "cs_Put cs (checksumStore (d_store d)) c (sha256_Sum256 v) = (ix, e3)"
    by (cases "cs_Put cs (checksumStore (d_store d)) c (sha256_Sum256 v)")
  have "e3 \<noteq> None \<Longrightarrow> ix = checksumStore (d_store d)"
    using ix put_error [OF wf(3)] by auto
  then have "d_store d' = d_store d \<and> (d_fs d' = d_fs d \<or> d_fs d' = fs1 \<or> d_fs d' = fs2)"
    using w mk wr ix
    by (cases e1; cases e2; cases e3)
       (auto simp: ds_Write_def valid_idD [OF c] PathForChunk_path [OF wf(1) c] getDir_shards [OF wf(1) c]
          shard_dir_path [OF wf(1) c] Write_path [OF wf(1) c] Let_def split: sum.splits if_splits)
  then show ?thesis using fs1(1) fs2 by auto
qed

lemma Rename_error:
  assumes wf: "store_wf (d_store d)" "fs_wf (d_fs d)" "ready (checksumStore (d_store d))"
    and r: "ds_Rename os cs d source c = (d', Some e)"
  shows "d_store d' = d_store d \<and> (fs_content (d_fs d') = fs_content (d_fs d)
    \<or> (\<exists>u. fs_content (d_fs d) source = Some u
         \<and> fs_content (d_fs d') = (fs_content (d_fs d))(source := None, chunk_path (d_store d) c \<mapsto> u)))"
proof (cases "valid_id (d_store d) c")
  case False
  with r show ?thesis by (simp add: ds_Rename_def invalid_idD)
next
  case c: True
  let ?p = "chunk_path (d_store d) c"
  obtain fs1 e1 where mk: "os_MkdirAll os (chunk_dir (d_store d) c) (d_fs d) = (fs1, e1)"
    by (cases "os_MkdirAll os (chunk_dir (d_store d) c) (d_fs d)")
  note fs1 = MkdirAll_simps [OF mk]
  obtain fs2 e2 where mv: "os_Rename os source ?p fs1 = (fs2, e2)" by (cases "os_Rename os source ?p fs1")
  have fs1_wf: "fs_wf fs1" using fs1(2) wf(2) by simp
  have fs2: "fs_content fs2 = fs_content (d_fs d) \<or> (\<exists>u. fs_content (d_fs d) source = Some u
         \<and> fs_content fs2 = (fs_content (d_fs d))(source := None, ?p \<mapsto> u))"
    using Rename_content(3,4) [OF fs1_wf mv] fs1(1) by (cases e2) auto
  have "d_store d' = d_store d \<and> (d_fs d' = d_fs d \<or> d_fs d' = fs1 \<or> d_fs d' = fs2)"
    using r mk mv
    by (cases e1; cases e2)
       (auto simp: ds_Rename_def valid_idD [OF c] PathForChunk_path [OF wf(1) c] Dir_chunk_path [OF wf(1) c] Let_def
          split: sum.splits if_splits option.splits prod.splits dest: put_error [OF wf(3)])
  then show ?thesis using fs1(1) fs2 by auto
qed

lemma Delete_error:
  assumes wf: "store_wf (d_store d)" "fs_wf (d_fs d)"
    and del: "ds_Delete os cs d c = (d', Some e)"
  shows "d_store d' = d_store d \<and> fs_content (d_fs d') = fs_content (d_fs d)"
proof (cases "valid_id (d_store d) c")
  case False
  with del show ?thesis by (simp add: ds_Delete_def invalid_idD)
next
  case c: True
  obtain fs1 e1 where rm: "os_Remove os (chunk_path (d_store d) c) (d_fs d) = (fs1, e1)"
    by (cases "os_Remove os (chunk_path (d_store d) c) (d_fs d)")
  with Remove_content(3) [OF wf(2) rm] del show ?thesis
    by (auto simp: ds_Delete_def valid_idD [OF c] PathForChunk_path [OF wf(1) c] Let_def
        split: sum.splits if_splits option.splits)
qed

end


definition torn_os :: os_env where
  "torn_os = \<lparr>os_fault = (\<lambda>call p. if call = OsWriteData then Some (Foreign 28) else None), os_short = (\<lambda>_. 1)\<rparr>"


text \<open>
  A restarted store does not know what it holds: a new \<open>DiskStore\<close> over existing files
  and an existing index starts with a used-space counter of zero. Overwriting a
  stored chunk with a shorter one then makes the unsigned counter wrap below zero,
  to \<open>2 ^ 64\<close> minus the difference, and \<open>FreeSpace\<close> reports nothing left.
\<close>

theorem restart_loses_accounting:
  assumes index: "reliable_index cs sums ready"
    and new: "NewDiskStore os opts fs0 = (fs, Inr ds)" "fs_wf fs0" "splitLevel ds < 2 ^ 15"
    and old: "ready (checksumStore ds)" "sums (checksumStore ds) c \<noteq> None" "validateChunkId ds c = None"
      "fs_content fs0 (chunk_path ds c) = Some oldv"
    and len: "length v < length oldv" "length oldv < 2 ^ 64"
  shows "ds_Size ds = 0 \<and> (case ds_Write reliable_os cs \<lparr>d_fs = fs, d_store = ds\<rparr> c v of (d', err) \<Rightarrow>
     err = None \<and> unat (ds_Size (d_store d')) = 2 ^ 64 - (length oldv - length v)
     \<and> (unat (totalSpace ds) + (length oldv - length v) < 2 ^ 64 \<longrightarrow> ds_FreeSpace (d_store d') = 0))"
proof -
  note n = NewDiskStore_ok [OF new(1)]
  have wf: "store_wf ds" using n new by (simp add: store_wf_def)
  have c: "valid_id ds c" using old by (simp add: valid_id_def)
  have content: "fs_content fs (chunk_path ds c) = Some oldv" "fs_wf fs" using n old new by simp_all
  have exists: "ds_Exists cs ds c"
    using checksum_index.get [OF reliable_index.axioms(1) [OF index] old(1), of c] old
    by (auto simp: ds_Exists_def)
  define fs1 where "fs1 = fs\<lparr>fs_dirs := chunk_dir ds c # fs_dirs fs\<rparr>"
  have mk: "os_MkdirAll reliable_os (chunk_dir ds c) fs = (fs1, None)"
    using reliable_index.reliable_MkdirAll [OF index chunk_dir_ne [OF wf c]] Clean_chunk_dir [OF wf c]
    by (simp add: fs1_def)
  obtain fs2 where wr: "os_WriteFile reliable_os (chunk_path ds c) v fs1 = (fs2, None)"
    using reliable_index.reliable_WriteFile [OF index, of "chunk_path ds c" fs1 v] Dir_chunk_path [OF wf c]
    by (auto simp: fs1_def)
  obtain ix where ix: "cs_Put cs (checksumStore ds) c (sha256_Sum256 v) = (ix, None)"
    using reliable_index.put_index [OF index old(1) valid_id_facts(1) [OF wf c]] by metis
  have sz: "unat (word_of_nat (length v) :: uint64) = length v" "unat (word_of_nat (length oldv) :: uint64) = length oldv"
    using len unat_word_of_nat64 by simp_all
  have lt: "word_of_nat (length v) < (word_of_nat (length oldv) :: uint64)" using sz len by (simp add: word_less_nat_alt)
  have nlt: "\<not> word_of_nat (length oldv) < (word_of_nat (length v) :: uint64)" using lt by simp
  have w: "ds_Write reliable_os cs \<lparr>d_fs = fs, d_store = ds\<rparr> c v =
     (\<lparr>d_fs = fs2, d_store = ds\<lparr>checksumStore := ix,
        usedSpace := 0 - (word_of_nat (length oldv) - word_of_nat (length v))\<rparr>\<rparr>, None)"
    using exists content mk wr ix n(1) lt nlt
    by (simp add: ds_Write_def valid_idD [OF c] PathForChunk_path [OF wf c] getDir_shards [OF wf c] os_Stat_def
        shard_dir_path [OF wf c] Write_path [OF wf c] Let_def netDelta_def adjust_used_def)
  define \<delta> where "\<delta> = (word_of_nat (length oldv) - word_of_nat (length v) :: uint64)"
  have \<delta>: "unat \<delta> = length oldv - length v" using sz lt by (simp add: \<delta>_def unat_sub)
  have "unat (0 - \<delta>) = 2 ^ 64 - (length oldv - length v)"
    using \<delta> len unat_sub_if_size [of 0 \<delta>] by (simp add: word_size)
  then show ?thesis
    using w n(1) by (auto simp: ds_Size_def ds_FreeSpace_def \<delta>_def word_le_nat_alt word_less_nat_alt)
qed

definition old_ix :: "(memdb, bytes) BoltChecksumIndex" where
  "old_ix = mem_ix\<lparr>ci_db := Some [''checksums'' \<mapsto> [(''abcdef'', sha256_Sum256 [1, 2, 3, 4])]]\<rparr>"

definition old_fs :: filesystem where
  "old_fs = \<lparr>fs_names = [''/srv/ab/cd/abcdef.chunk'' \<mapsto> 0], fs_data = (\<lambda>_. [1, 2, 3, 4]), fs_next = 1, fs_dirs = []\<rparr>"

theorem restart_loses_accounting_witness:
  "\<exists>fs ds. NewDiskStore reliable_os [WithRootDir ''/srv'', WithTempDir ''/tmp'', WithTotalSpace 100,
        WithChecksumStore old_ix] old_fs = (fs, Inr ds)
     \<and> ds_Read reliable_os mem_cs \<lparr>d_fs = fs, d_store = ds\<rparr> ''abcdef'' = Inr [1, 2, 3, 4] \<and> ds_Size ds = 0
     \<and> (case ds_Write reliable_os mem_cs \<lparr>d_fs = fs, d_store = ds\<rparr> ''abcdef'' [1, 2] of (d', err) \<Rightarrow>
          err = None \<and> unat (ds_Size (d_store d')) = 2 ^ 64 - 2 \<and> ds_FreeSpace (d_store d') = 0)"
proof -
  define fs where "fs = old_fs\<lparr>fs_dirs := [''/tmp'', ''/srv'']\<rparr>"
  define ds where "ds = demo_ds\<lparr>checksumStore := old_ix\<rparr>"
  have "filepath_Clean ''/srv'' = ''/srv''" "filepath_Clean ''/tmp'' = ''/tmp''" by code_simp+
  then have new: "NewDiskStore reliable_os [WithRootDir ''/srv'', WithTempDir ''/tmp'', WithTotalSpace 100,
        WithChecksumStore old_ix] old_fs = (fs, Inr ds)"
    by (simp add: NewDiskStore_def fs_def ds_def demo_ds_def os_MkdirAll_def Let_def DIR_SHARD_LEVEL_def old_fs_def)
  have ready: "mem_ready old_ix" "ci_view mem_bolt old_ix ''abcdef'' = Some (sha256_Sum256 [1, 2, 3, 4])"
    by (auto simp: old_ix_def mem_ix_def ci_ready_def ci_view_def mem_bolt_def ByteCodec_def)
  have "chunk_path demo_ds ''abcdef'' = ''/srv/ab/cd/abcdef.chunk''" "validateChunkId demo_ds ''abcdef'' = None"
    by code_simp+
  then have path: "chunk_path ds ''abcdef'' = ''/srv/ab/cd/abcdef.chunk''" "validateChunkId ds ''abcdef'' = None"
    by (simp_all add: ds_def chunk_path_def shards_def validateChunkId_def)
  have wf: "fs_wf old_fs" by (simp add: old_fs_def fs_wf_def)
  have content: "fs_content old_fs (chunk_path ds ''abcdef'') = Some [1, 2, 3, 4]"
    by (simp add: path old_fs_def fs_content_def)
  have ds: "checksumStore ds = old_ix" "splitLevel ds < 2 ^ 15" "unat (totalSpace ds) = 100" "store_wf ds"
    by (simp_all add: ds_def demo_ds_def store_wf_def)
  have "ds_Read reliable_os mem_cs \<lparr>d_fs = fs, d_store = ds\<rparr> ''abcdef'' = Inr [1, 2, 3, 4]"
    using content ready path PathForChunk_path [OF ds(4), of "''abcdef''"] mem_index.get [OF ready(1), of "''abcdef''"]
    by (auto simp: ds_Read_def ds_Exists_def os_ReadFile_def valid_id_def ds fs_def fs_content_def)
  moreover note restart_loses_accounting [OF mem_reliable.reliable_index_axioms new wf ds(2), of "''abcdef''" "[1, 2, 3, 4]" "[1, 2]"]
  ultimately show ?thesis
    using new ready path content ds by (intro exI [of _ fs] exI [of _ ds]) (auto split: prod.splits)
qed

end
