(* ===== verification/Chunk_IO.thy ===== *)
theory Chunk_IO
  imports Disk_Refinement
begin

text \<open>
  Streaming a chunk into and out of the store (\<^verbatim>\<open>src/storage/chunk/writer.go\<close> and
  \<^verbatim>\<open>src/storage/chunk/reader.go\<close>). The writer appends frames to a temporary file
  while it hashes them and commits the file with \<open>Rename\<close> when the final checksum
  matches; the reader cuts a chunk file into frames, looking one byte ahead to know
  the last one. A \<open>hash.Hash\<close> is represented by the bytes written to it.
\<close>

section \<open>Writer\<close>

record ChunkWriter =
  cw_filepath :: string
  cw_file :: os_File
  cw_chunkId :: string
  cw_isDone :: bool
  cw_hasher :: bytes
  cw_written :: int

definition NewChunkWriter ::
  "os_env \<Rightarrow> string \<Rightarrow> 'ix disk \<Rightarrow> ('ix disk \<times> ChunkWriter) result" where
  "NewChunkWriter os chunkId d =
     (if chunkId = '''' then Inl DfsErrInvalidChunkId
      else case TempDir (d_store d) chunkId of
        Inl e \<Rightarrow> Inl e
      | Inr tmpPath \<Rightarrow>
          (case os_Create os tmpPath (d_fs d) of
             Inl e \<Rightarrow> Inl e
           | Inr (fs1, f) \<Rightarrow>
               Inr (d\<lparr>d_fs := fs1\<rparr>,
                    \<lparr>cw_filepath = tmpPath, cw_file = f, cw_chunkId = chunkId, cw_isDone = False,
                     cw_hasher = [], cw_written = 0\<rparr>)))"

definition cw_Write ::
  "os_env \<Rightarrow> ChunkWriter \<Rightarrow> 'ix disk \<Rightarrow> bytes \<Rightarrow> 'ix disk \<times> ChunkWriter \<times> goerror option" where
  "cw_Write os cw d data =
     (if cw_isDone cw then (d, cw, Some ErrWriterClosed)
      else case file_Write os data (cw_file cw) (d_fs d) of
        (fs1, f, n, Some e) \<Rightarrow> (d\<lparr>d_fs := fs1\<rparr>, cw\<lparr>cw_file := f\<rparr>, Some e)
      | (fs1, f, n, None) \<Rightarrow>
          (d\<lparr>d_fs := fs1\<rparr>,
           cw\<lparr>cw_file := f, cw_hasher := cw_hasher cw @ take n data, cw_written := cw_written cw + int n\<rparr>,
           os_fault os OsSync (cw_filepath cw)))"

definition ComputedChecksum :: "ChunkWriter \<Rightarrow> bytes" where
  "ComputedChecksum cw = sha256_Sum256 (cw_hasher cw)"

definition cw_Abort :: "os_env \<Rightarrow> ChunkWriter \<Rightarrow> 'ix disk \<Rightarrow> 'ix disk \<times> ChunkWriter" where
  "cw_Abort os cw d = (d\<lparr>d_fs := fst (os_Remove os (cw_filepath cw) (d_fs d))\<rparr>, cw\<lparr>cw_isDone := True\<rparr>)"

definition cw_Finalize ::
  "os_env \<Rightarrow> 'ix ChecksumIndexStore \<Rightarrow> ChunkWriter \<Rightarrow> 'ix disk \<Rightarrow> bytes
   \<Rightarrow> 'ix disk \<times> ChunkWriter \<times> goerror option" where
  "cw_Finalize os cs cw d expectedChecksum =
     (if cw_isDone cw then (d, cw, Some ErrOperationAborted)
      else if ComputedChecksum cw \<noteq> expectedChecksum then
        (case cw_Abort os cw d of (d', cw') \<Rightarrow> (d', cw', Some DfsErrChecksumMismatch))
      else (case ds_Rename os cs d (cw_filepath cw) (cw_chunkId cw) of
          (d1, Some e) \<Rightarrow> (case cw_Abort os (cw\<lparr>cw_isDone := True\<rparr>) d1 of (d', cw') \<Rightarrow> (d', cw', Some e))
        | (d1, None) \<Rightarrow> (d1, cw\<lparr>cw_isDone := True\<rparr>, None)))"

section \<open>Reader\<close>

definition DefaultFrameSize :: int where
  "DefaultFrameSize = 32 * 1024"

record Frame =
  Data :: bytes
  Checksum :: bytes
  IsLast :: bool

record ChunkReader =
  cr_chunkId :: string
  cr_file :: "os_File option"
  cr_frameSize :: int

definition NewChunkReader ::
  "os_env \<Rightarrow> 'ix ChecksumIndexStore \<Rightarrow> 'ix disk \<Rightarrow> string \<Rightarrow> int \<Rightarrow> ChunkReader result" where
  "NewChunkReader os cs d chunkId frameSize =
     (if chunkId = '''' then Inl DfsErrInvalidChunkId
      else if \<not> ds_Exists cs (d_store d) chunkId then Inl DfsErrChunkNotFound
      else case PathForChunk (d_store d) chunkId of
        Inl e \<Rightarrow> Inl e
      | Inr absChunkPath \<Rightarrow>
          (case os_Open os absChunkPath (d_fs d) of
             Inl e \<Rightarrow> Inl e
           | Inr f \<Rightarrow>
               Inr \<lparr>cr_chunkId = chunkId, cr_file = Some f,
                    cr_frameSize = (if frameSize \<le> 0 then DefaultFrameSize else frameSize)\<rparr>))"

definition cr_Close :: "ChunkReader \<Rightarrow> ChunkReader" where
  "cr_Close cr = cr\<lparr>cr_file := None\<rparr>"

text \<open>A closed reader has no file; reading from it is an error of package \<open>os\<close>.\<close>

definition ErrInvalid :: goerror where
  "ErrInvalid = Foreign 22"

definition cr_Next :: "os_env \<Rightarrow> filesystem \<Rightarrow> ChunkReader \<Rightarrow> ChunkReader \<times> Frame result" where
  "cr_Next os fs cr =
     (case cr_file cr of
        None \<Rightarrow> (cr, Inl ErrInvalid)
      | Some f \<Rightarrow>
          (case file_Read os (nat (cr_frameSize cr + 1)) f fs of
             (f1, buf, err) \<Rightarrow>
               if err \<noteq> None \<and> err \<noteq> Some EOF then (cr\<lparr>cr_file := Some f1\<rparr>, Inl (the err))
               else if buf = [] then
                 (cr\<lparr>cr_file := Some f1\<rparr>,
                  (case err of Some e \<Rightarrow> Inl e | None \<Rightarrow> Inr \<lparr>Data = [], Checksum = [], IsLast = False\<rparr>))
               else
                 (let isLast = int (length buf) \<le> cr_frameSize cr;
                      data = take (nat (min (int (length buf)) (cr_frameSize cr))) buf
                  in if \<not> isLast \<and> os_fault os OsSeek (f_name f) \<noteq> None
                     then (cr_Close cr, Inl (the (os_fault os OsSeek (f_name f))))
                     else (cr\<lparr>cr_file := Some (if isLast then f1 else f1\<lparr>f_pos := f_pos f1 - 1\<rparr>)\<rparr>,
                           Inr \<lparr>Data = data, Checksum = sha256_Sum256 data, IsLast = isLast\<rparr>))))"

section \<open>What a writer holds\<close>

text \<open>
  Between its calls an open writer owns the temporary file of its chunk: the file
  holds exactly the bytes hashed so far, and the offset is at its end.
\<close>

definition writer_inv :: "'ix disk \<Rightarrow> ChunkWriter \<Rightarrow> bool" where
  "writer_inv d cw \<longleftrightarrow>
     \<not> cw_isDone cw \<and> valid_id (d_store d) (cw_chunkId cw)
     \<and> cw_filepath cw = temp_path (d_store d) (cw_chunkId cw)
     \<and> fs_names (d_fs d) (cw_filepath cw) = Some (f_inode (cw_file cw))
     \<and> fs_data (d_fs d) (f_inode (cw_file cw)) = cw_hasher cw
     \<and> f_pos (cw_file cw) = length (cw_hasher cw)"

definition temp_ready :: "'ix disk \<Rightarrow> bool" where
  "temp_ready d \<longleftrightarrow> filepath_Clean (tempDir (d_store d)) \<in> set (fs_dirs (d_fs d))"

lemma writer_content:
  "writer_inv d cw \<Longrightarrow> fs_content (d_fs d) (cw_filepath cw) = Some (cw_hasher cw)"
  by (auto simp: writer_inv_def fs_content_def)

lemma Dir_temp_path:
  assumes "store_wf ds" "valid_id ds c"
  shows "filepath_Dir (temp_path ds c) = filepath_Clean (tempDir ds)"
  unfolding temp_path_def Clean_render_base
  by (rule Dir_render [OF clean_form_base plain_slash_free [OF plain_temp_name [OF valid_id_facts(3) [OF assms]]]])

text \<open>A change of a temporary file is a change of a file that is no chunk file.\<close>

lemma temp_change:
  assumes inv: "store_inv sums ready d" and c: "valid_id (d_store d) c" and fs: "fs_wf fs'"
    and content: "fs_content fs' = (fs_content (d_fs d))(temp_path (d_store d) c := x)"
  shows "store_inv sums ready (d\<lparr>d_fs := fs'\<rparr>)" "chunks sums (d\<lparr>d_fs := fs'\<rparr>) = chunks sums d"
proof -
  have "fs_content fs' (chunk_path (d_store d) b) = fs_content (d_fs d) (chunk_path (d_store d) b)"
    if "valid_id (d_store d) b" for b
    using chunk_path_not_temp [OF store_invD(1) [OF inv] that c] content by simp
  then show "store_inv sums ready (d\<lparr>d_fs := fs'\<rparr>)" "chunks sums (d\<lparr>d_fs := fs'\<rparr>) = chunks sums d"
    using store_inv_other_files [OF inv fs] by auto
qed

lemma NewChunkWriter_ok:
  assumes inv: "store_inv sums ready d" and temp: "temp_ready d" and c: "valid_id (d_store d) c"
  obtains d1 cw where "NewChunkWriter reliable_os c d = Inr (d1, cw)" "store_inv sums ready d1"
    "chunks sums d1 = chunks sums d" "d_store d1 = d_store d" "writer_inv d1 cw" "cw_chunkId cw = c"
    "cw_hasher cw = []" "temp_ready d1" "fs_content (d_fs d1) = (fs_content (d_fs d))(temp_path (d_store d) c \<mapsto> [])"
proof -
  note wf = store_invD(1) [OF inv]
  let ?p = "temp_path (d_store d) c"
  have "filepath_Dir ?p \<in> set (fs_dirs (d_fs d))"
    using temp Dir_temp_path [OF wf c] by (simp add: temp_ready_def)
  then obtain fs1 f where cr: "os_Create reliable_os ?p (d_fs d) = Inr (fs1, f)"
    by (cases "open_trunc ?p (d_fs d)") (auto simp: os_Create_def)
  note o = Create_content [OF store_invD(2) [OF inv] cr]
  let ?cw = "\<lparr>cw_filepath = ?p, cw_file = f, cw_chunkId = c, cw_isDone = False, cw_hasher = [], cw_written = 0\<rparr>"
  have "NewChunkWriter reliable_os c d = Inr (d\<lparr>d_fs := fs1\<rparr>, ?cw)"
    using cr valid_id_facts(1) [OF wf c] by (simp add: NewChunkWriter_def TempDir_path [OF wf c])
  moreover have "writer_inv (d\<lparr>d_fs := fs1\<rparr>) ?cw" using o c by (simp add: writer_inv_def)
  moreover note temp_change [OF inv c o(1,3)]
  moreover have "temp_ready (d\<lparr>d_fs := fs1\<rparr>)" using temp o(2) by (simp add: temp_ready_def)
  ultimately show ?thesis using that [of "d\<lparr>d_fs := fs1\<rparr>" ?cw] o(3) by simp
qed

lemma cw_Write_ok:
  assumes inv: "store_inv sums ready d" and w: "writer_inv d cw"
  obtains d1 cw1 where "cw_Write reliable_os cw d data = (d1, cw1, None)" "store_inv sums ready d1"
    "chunks sums d1 = chunks sums d" "d_store d1 = d_store d" "writer_inv d1 cw1" "cw_chunkId cw1 = cw_chunkId cw"
    "cw_hasher cw1 = cw_hasher cw @ data" "fs_dirs (d_fs d1) = fs_dirs (d_fs d)"
    "fs_content (d_fs d1) = (fs_content (d_fs d))(cw_filepath cw \<mapsto> cw_hasher cw @ data)"
proof -
  let ?p = "cw_filepath cw" and ?f = "cw_file cw"
  have h: "fs_names (d_fs d) ?p = Some (f_inode ?f)" "fs_data (d_fs d) (f_inode ?f) = cw_hasher cw"
    "f_pos ?f = length (cw_hasher cw)" "?p = temp_path (d_store d) (cw_chunkId cw)" "valid_id (d_store d) (cw_chunkId cw)"
    "\<not> cw_isDone cw"
    using w by (auto simp: writer_inv_def)
  obtain fs1 f n err where fw: "file_Write reliable_os data ?f (d_fs d) = (fs1, f, n, err)"
    by (cases "file_Write reliable_os data ?f (d_fs d)")
  have err: "err = None" using fw by (auto simp: file_Write_def Let_def)
  note o = file_Write_content [OF store_invD(2) [OF inv] h(1) fw]
  have n: "n = length data" using o(10) err by simp
  have content: "fs_content fs1 = (fs_content (d_fs d))(?p \<mapsto> cw_hasher cw @ data)"
    "fs_data fs1 (f_inode ?f) = cw_hasher cw @ data"
    using o(8,9) by (simp_all add: n h write_at_end)
  let ?cw = "cw\<lparr>cw_file := f, cw_hasher := cw_hasher cw @ data, cw_written := cw_written cw + int n\<rparr>"
  have "cw_Write reliable_os cw d data = (d\<lparr>d_fs := fs1\<rparr>, ?cw, None)"
    using fw err n h(6) by (simp add: cw_Write_def)
  moreover have "writer_inv (d\<lparr>d_fs := fs1\<rparr>) ?cw"
    using o(2,4,6) h content n by (simp add: writer_inv_def)
  moreover note temp_change [OF inv h(5) o(1) content(1) [unfolded h(4)]]
  ultimately show ?thesis using that [of "d\<lparr>d_fs := fs1\<rparr>" ?cw] content(1) o(3) by simp
qed

lemma cw_Abort_ok:
  assumes inv: "store_inv sums ready d" and c: "valid_id (d_store d) (cw_chunkId cw)"
    and p: "cw_filepath cw = temp_path (d_store d) (cw_chunkId cw)"
    and a: "cw_Abort reliable_os cw d = (d1, cw1)"
  shows "store_inv sums ready d1 \<and> chunks sums d1 = chunks sums d \<and> d_store d1 = d_store d \<and> cw_isDone cw1
    \<and> fs_content (d_fs d1) = (fs_content (d_fs d))(temp_path (d_store d) (cw_chunkId cw) := None)
    \<and> fs_dirs (d_fs d1) = fs_dirs (d_fs d)"
proof -
  let ?p = "temp_path (d_store d) (cw_chunkId cw)"
  obtain fs1 err where rm: "os_Remove reliable_os ?p (d_fs d) = (fs1, err)" by (cases "os_Remove reliable_os ?p (d_fs d)")
  note o = Remove_content [OF store_invD(2) [OF inv] rm]
  have "err \<noteq> None \<Longrightarrow> fs_content (d_fs d) ?p = None"
    using rm by (auto simp: os_Remove_def fs_content_def split: option.splits)
  then have "fs_content fs1 = (fs_content (d_fs d))(?p := None)"
    using o(3,4) by (cases err) auto
  with temp_change [OF inv c o(1)] a rm p o(2) show ?thesis by (auto simp: cw_Abort_def)
qed

context reliable_index
begin

lemma cw_Finalize_ok:
  assumes inv: "store_inv sums ready d" and w: "writer_inv d cw" and len: "length (cw_hasher cw) < 2 ^ 64"
    and fin: "cw_Finalize reliable_os cs cw d digest = (d1, cw1, err)"
  shows "store_inv sums ready d1 \<and> cw_isDone cw1 \<and> same_config (d_store d) (d_store d1)
    \<and> (chunks sums d1, err) =
        (if sha256_Sum256 (cw_hasher cw) \<noteq> digest then (chunks sums d, Some DfsErrChecksumMismatch)
         else spec_put (valid_id (d_store d)) (unat (totalSpace (d_store d))) (chunks sums d) (cw_chunkId cw) (cw_hasher cw))
    \<and> fs_content (d_fs d1) (cw_filepath cw) = None"
proof -
  have h: "cw_filepath cw = temp_path (d_store d) (cw_chunkId cw)" "valid_id (d_store d) (cw_chunkId cw)" "\<not> cw_isDone cw"
    using w by (simp_all add: writer_inv_def)
  show ?thesis
  proof (cases "sha256_Sum256 (cw_hasher cw) = digest")
    case False
    obtain d' cw' where "cw_Abort reliable_os cw d = (d', cw')" by (cases "cw_Abort reliable_os cw d")
    with cw_Abort_ok [OF inv h(2,1) this] False fin h show ?thesis
      by (auto simp: cw_Finalize_def ComputedChecksum_def)
  next
    case True
    obtain d' e where r: "ds_Rename reliable_os cs d (cw_filepath cw) (cw_chunkId cw) = (d', e)"
      by (cases "ds_Rename reliable_os cs d (cw_filepath cw) (cw_chunkId cw)")
    have temp: "chunk_path (d_store d) b \<noteq> cw_filepath cw" if "valid_id (d_store d) b" for b
      using chunk_path_not_temp [OF store_invD(1) [OF inv] that h(2)] h(1) by simp
    note ren = Rename_refines [OF inv writer_content [OF w] len temp r]
    show ?thesis
    proof (cases e)
      case None
      with True fin r h have "d1 = d'" "err = None" "cw_isDone cw1"
        by (auto simp: cw_Finalize_def ComputedChecksum_def)
      with ren None True temp [OF h(2)] show ?thesis by auto
    next
      case (Some x)
      obtain d2 cw2 where ab: "cw_Abort reliable_os (cw\<lparr>cw_isDone := True\<rparr>) d' = (d2, cw2)"
        by (cases "cw_Abort reliable_os (cw\<lparr>cw_isDone := True\<rparr>) d'")
      with True fin r h Some have eqs: "d1 = d2" "err = Some x" "cw1 = cw2"
        by (auto simp: cw_Finalize_def ComputedChecksum_def)
      have cfg: "valid_id (d_store d') = valid_id (d_store d)" "temp_path (d_store d') = temp_path (d_store d)"
        using ren same_config_simps by blast+
      have inv': "store_inv sums ready d'" using ren by blast
      have "valid_id (d_store d') (cw_chunkId (cw\<lparr>cw_isDone := True\<rparr>))"
        "cw_filepath (cw\<lparr>cw_isDone := True\<rparr>) = temp_path (d_store d') (cw_chunkId (cw\<lparr>cw_isDone := True\<rparr>))"
        using h cfg by simp_all
      from cw_Abort_ok [OF inv' this ab] ren Some True eqs h cfg show ?thesis by simp
    qed
  qed
qed

end

section \<open>Cutting a chunk into frames\<close>

text \<open>The frames of a chunk: full frames, and a last frame that is not empty.\<close>

function chunk_frames :: "nat \<Rightarrow> bytes \<Rightarrow> Frame list" where
  "chunk_frames n v =
     (if v = [] \<or> n = 0 then []
      else if length v \<le> n then [\<lparr>Data = v, Checksum = sha256_Sum256 v, IsLast = True\<rparr>]
      else \<lparr>Data = take n v, Checksum = sha256_Sum256 (take n v), IsLast = False\<rparr> # chunk_frames n (drop n v))"
  by pat_completeness auto

termination
  by (relation "measure (\<lambda>(n, v). length v)") auto

declare chunk_frames.simps [simp del]

lemma chunk_frames_data: "0 < n \<Longrightarrow> concat (map Data (chunk_frames n v)) = v"
  by (induction n v rule: chunk_frames.induct) (subst chunk_frames.simps, auto)

lemma chunk_frames_shape:
  "0 < n \<Longrightarrow> v \<noteq> [] \<Longrightarrow> \<exists>fs f. chunk_frames n v = fs @ [f] \<and> IsLast f \<and> 0 < length (Data f) \<and> length (Data f) \<le> n
     \<and> (\<forall>g \<in> set fs. \<not> IsLast g \<and> length (Data g) = n)"
proof (induction n v rule: chunk_frames.induct)
  case (1 n v)
  show ?case
  proof (cases "length v \<le> n")
    case True
    with 1 have "chunk_frames n v = [] @ [\<lparr>Data = v, Checksum = sha256_Sum256 v, IsLast = True\<rparr>]"
      by (simp add: chunk_frames.simps [of n v])
    with True "1.prems" show ?thesis by (intro exI conjI) auto
  next
    case False
    with 1 obtain fs f where "chunk_frames n (drop n v) = fs @ [f]" "IsLast f" "0 < length (Data f)" "length (Data f) \<le> n"
      "\<forall>g \<in> set fs. \<not> IsLast g \<and> length (Data g) = n"
      by auto
    moreover have "chunk_frames n v =
        \<lparr>Data = take n v, Checksum = sha256_Sum256 (take n v), IsLast = False\<rparr> # chunk_frames n (drop n v)"
      using False "1.prems" by (subst chunk_frames.simps) auto
    ultimately show ?thesis
      using False by (intro exI [of _ "\<lparr>Data = take n v, Checksum = sha256_Sum256 (take n v), IsLast = False\<rparr> # fs"]
          exI [of _ f]) auto
  qed
qed

lemma chunk_frames_checksum: "f \<in> set (chunk_frames n v) \<Longrightarrow> Checksum f = sha256_Sum256 (Data f)"
  by (induction n v rule: chunk_frames.induct) (subst (asm) chunk_frames.simps, auto split: if_splits)

text \<open>One call of \<open>Next\<close> on a file that does not fail.\<close>

lemma cr_Next_reliable:
  assumes f: "cr_file cr = Some f" and n: "0 < cr_frameSize cr"
    and rest: "rest = drop (f_pos f) (fs_data fs (f_inode f))"
  shows "rest = [] \<Longrightarrow> snd (cr_Next reliable_os fs cr) = Inl EOF"
    and "rest \<noteq> [] \<Longrightarrow> length rest \<le> nat (cr_frameSize cr) \<Longrightarrow>
      snd (cr_Next reliable_os fs cr) = Inr \<lparr>Data = rest, Checksum = sha256_Sum256 rest, IsLast = True\<rparr>"
    and "nat (cr_frameSize cr) < length rest \<Longrightarrow>
      cr_Next reliable_os fs cr =
        (cr\<lparr>cr_file := Some (f\<lparr>f_pos := f_pos f + nat (cr_frameSize cr)\<rparr>)\<rparr>,
         Inr \<lparr>Data = take (nat (cr_frameSize cr)) rest, Checksum = sha256_Sum256 (take (nat (cr_frameSize cr)) rest),
              IsLast = False\<rparr>)"
proof -
  obtain k where k: "cr_frameSize cr = int k" "0 < k" using n by (metis pos_int_cases)
  have suc: "nat (int k + 1) = Suc k" by simp
  have read: "file_Read reliable_os (Suc k) f fs =
      (f\<lparr>f_pos := f_pos f + length (take (Suc k) rest)\<rparr>, take (Suc k) rest, if rest = [] then Some EOF else None)"
    by (simp add: file_Read_def rest Let_def take_eq_Nil)
  show "rest = [] \<Longrightarrow> snd (cr_Next reliable_os fs cr) = Inl EOF"
    using read by (simp add: cr_Next_def f k suc)
  show "rest \<noteq> [] \<Longrightarrow> length rest \<le> nat (cr_frameSize cr) \<Longrightarrow>
      snd (cr_Next reliable_os fs cr) = Inr \<lparr>Data = rest, Checksum = sha256_Sum256 rest, IsLast = True\<rparr>"
    using read by (simp add: cr_Next_def f k suc Let_def)
  show "nat (cr_frameSize cr) < length rest \<Longrightarrow>
      cr_Next reliable_os fs cr =
        (cr\<lparr>cr_file := Some (f\<lparr>f_pos := f_pos f + nat (cr_frameSize cr)\<rparr>)\<rparr>,
         Inr \<lparr>Data = take (nat (cr_frameSize cr)) rest, Checksum = sha256_Sum256 (take (nat (cr_frameSize cr)) rest),
              IsLast = False\<rparr>)"
    using read k(2) by (auto simp: cr_Next_def f k suc Let_def min_def)
qed

section \<open>Two writers of one chunk\<close>

lemma os_Create_same_inode:
  assumes "os_Create os p fs = Inr (fs1, f)" "fs_names fs p = Some i"
  shows "f_inode f = i \<and> fs1 = set_data i [] fs"
  using assms by (auto simp: os_Create_def open_trunc_def split: option.splits if_splits)

text \<open>
  The second writer opens the temporary file of the first one and empties it; what
  the first writer appends afterwards lands behind a gap of zeros.
\<close>

lemma overtaken_write:
  assumes inv: "store_inv sums ready d" and w: "writer_inv d cw" and temp: "temp_ready d"
  obtains d1 cw1 d2 cw2 where "NewChunkWriter reliable_os (cw_chunkId cw) d = Inr (d1, cw1)"
    "cw_Write reliable_os cw d1 data = (d2, cw2, None)" "store_inv sums ready d2" "chunks sums d2 = chunks sums d"
    "d_store d2 = d_store d" "cw_hasher cw2 = cw_hasher cw @ data" "\<not> cw_isDone cw2" "cw_filepath cw2 = cw_filepath cw"
    "cw_chunkId cw2 = cw_chunkId cw"
    "fs_content (d_fs d2) (cw_filepath cw) = Some (replicate (length (cw_hasher cw)) 0 @ data)"
proof -
  let ?c = "cw_chunkId cw" and ?p = "cw_filepath cw" and ?i = "f_inode (cw_file cw)"
  have h: "fs_names (d_fs d) ?p = Some ?i" "f_pos (cw_file cw) = length (cw_hasher cw)"
    "?p = temp_path (d_store d) ?c" "valid_id (d_store d) ?c" "\<not> cw_isDone cw"
    using w by (auto simp: writer_inv_def)
  obtain d1 cw1 where new: "NewChunkWriter reliable_os ?c d = Inr (d1, cw1)" "store_inv sums ready d1"
    "chunks sums d1 = chunks sums d" "d_store d1 = d_store d"
    using NewChunkWriter_ok [OF inv temp h(4)] by metis
  from new(1) obtain f where "os_Create reliable_os ?p (d_fs d) = Inr (d_fs d1, f)"
    using TempDir_path [OF store_invD(1) [OF inv] h(4)] h(3)
    by (auto simp: NewChunkWriter_def split: if_splits sum.splits prod.splits)
  then have "d_fs d1 = set_data ?i [] (d_fs d)" using os_Create_same_inode h(1) by blast
  then have fs1: "fs_names (d_fs d1) ?p = Some ?i" "fs_data (d_fs d1) ?i = []" using h(1) by simp_all
  obtain fs2 f2 n err where fw: "file_Write reliable_os data (cw_file cw) (d_fs d1) = (fs2, f2, n, err)"
    by (cases "file_Write reliable_os data (cw_file cw) (d_fs d1)")
  have err: "err = None" using fw by (auto simp: file_Write_def Let_def)
  note o = file_Write_content [OF store_invD(2) [OF new(2)] fs1(1) fw]
  have n: "n = length data" using o(10) err by simp
  have content: "fs_content fs2 = (fs_content (d_fs d1))(temp_path (d_store d1) ?c \<mapsto> replicate (length (cw_hasher cw)) 0 @ data)"
    using o(8) fs1(2) h(2,3) new(4) by (simp add: write_at_def n)
  have c1: "valid_id (d_store d1) ?c" using h(4) new(4) by simp
  note ch = temp_change [OF new(2) c1 o(1) content]
  have "cw_Write reliable_os cw d1 data =
      (d1\<lparr>d_fs := fs2\<rparr>, cw\<lparr>cw_file := f2, cw_hasher := cw_hasher cw @ data, cw_written := cw_written cw + int n\<rparr>, None)"
    using fw err n h(5) by (simp add: cw_Write_def)
  then show ?thesis
    using that [OF new(1)] ch content new(3,4) h(3,5) by simp
qed

text \<open>
  Two uploads of the same chunk share one temporary file, and the checksum of an
  upload does not protect what is committed. If a second \<open>NewChunkWriter\<close> for the
  chunk is opened after the first writer has written \<open>a\<close>, and the first one goes on
  with \<open>b\<close> and finalizes with the correct SHA-256 of \<open>a @ b\<close>, then the upload succeeds
  (space permitting) but the store holds zeros in place of \<open>a\<close>, under a checksum
  that \<open>Verify\<close> accepts.
\<close>

theorem concurrent_uploads_corrupt:
  assumes index: "reliable_index cs sums ready" and inv: "store_inv sums ready d"
    and w: "writer_inv d cw" "cw_hasher cw = a" and temp: "temp_ready d"
    and room: "length a + length b < 2 ^ 64"
      "chunk_bytes ((chunks sums d)(cw_chunkId cw \<mapsto> replicate (length a) 0 @ b)) \<le> unat (totalSpace (d_store d))"
  shows "\<exists>d1 cwB d2 cw2 d3 cw3.
      NewChunkWriter reliable_os (cw_chunkId cw) d = Inr (d1, cwB)
      \<and> cw_Write reliable_os cw d1 b = (d2, cw2, None)
      \<and> cw_Finalize reliable_os cs cw2 d2 (sha256_Sum256 (a @ b)) = (d3, cw3, None)
      \<and> ds_Read reliable_os cs d3 (cw_chunkId cw) = Inr (replicate (length a) 0 @ b)
      \<and> ds_Verify reliable_os cs d3 (cw_chunkId cw) = Inr (sha256_Sum256 (replicate (length a) 0 @ b))"
proof -
  let ?c = "cw_chunkId cw" and ?v = "replicate (length a) 0 @ b"
  obtain d1 cwB d2 cw2 where o: "NewChunkWriter reliable_os ?c d = Inr (d1, cwB)"
    "cw_Write reliable_os cw d1 b = (d2, cw2, None)" "store_inv sums ready d2" "chunks sums d2 = chunks sums d"
    "d_store d2 = d_store d" "cw_hasher cw2 = a @ b" "\<not> cw_isDone cw2" "cw_filepath cw2 = cw_filepath cw"
    "cw_chunkId cw2 = ?c" "fs_content (d_fs d2) (cw_filepath cw) = Some ?v"
    using overtaken_write [OF inv w(1) temp, of b] w(2) by metis
  have h: "valid_id (d_store d) ?c" "cw_filepath cw = temp_path (d_store d) ?c"
    using w(1) by (auto simp: writer_inv_def)
  obtain d3 e where r: "ds_Rename reliable_os cs d2 (cw_filepath cw) ?c = (d3, e)"
    by (cases "ds_Rename reliable_os cs d2 (cw_filepath cw) ?c")
  have not_temp: "chunk_path (d_store d2) x \<noteq> cw_filepath cw" if "valid_id (d_store d2) x" for x
    using chunk_path_not_temp [OF store_invD(1) [OF inv] _ h(1)] that h(2) o(5) by simp
  have "length ?v < 2 ^ 64" using room(1) by simp
  note ren = reliable_index.Rename_refines [OF index o(3) o(10) this not_temp r]
  have e: "e = None" "chunks sums d3 = (chunks sums d)(?c \<mapsto> ?v)"
    using ren room(2) h(1) by (simp_all add: spec_put_def o(4,5))
  have "cw_Finalize reliable_os cs cw2 d2 (sha256_Sum256 (a @ b)) = (d3, cw2\<lparr>cw_isDone := True\<rparr>, None)"
    using o(6-9) r e(1) by (simp add: cw_Finalize_def ComputedChecksum_def)
  moreover have inv3: "store_inv sums ready d3" and "valid_id (d_store d3) ?c"
    using ren h(1) o(5) same_config_simps(1) [of "d_store d2" "d_store d3"] by auto
  ultimately show ?thesis
    using o(1,2) e(2) checksum_index.Read_refines [OF reliable_index.axioms(1) [OF index] inv3, of ?c]
      checksum_index.Verify_refines [OF reliable_index.axioms(1) [OF index] inv3, of ?c]
    by (intro exI conjI) auto
qed

lemma demo_temp_ready: "temp_ready demo_disk"
proof -
  have "filepath_Clean ''/tmp'' = ''/tmp''" by code_simp
  then show ?thesis by (simp add: temp_ready_def demo_disk_def demo_ds_def demo_fs_def)
qed

text \<open>A writer on the demonstration store that has written two bytes.\<close>

lemma demo_writer:
  obtains d cw where "store_inv (ci_view mem_bolt) mem_ready d" "writer_inv d cw" "cw_hasher cw = [1, 2]"
    "cw_chunkId cw = ''abcdef''" "temp_ready d" "chunks (ci_view mem_bolt) d = Map.empty" "d_store d = demo_ds"
proof -
  have ds: "d_store demo_disk = demo_ds" by (simp add: demo_disk_def)
  obtain d cw where o: "store_inv (ci_view mem_bolt) mem_ready d" "chunks (ci_view mem_bolt) d = Map.empty"
    "d_store d = demo_ds" "writer_inv d cw" "cw_chunkId cw = ''abcdef''" "cw_hasher cw = []" "temp_ready d"
    by (rule NewChunkWriter_ok [OF demo_disk_inv(1) demo_temp_ready, of "''abcdef''"])
       (use demo_valid(1) demo_disk_inv(2) ds in \<open>simp_all\<close>)
  obtain d1 cw1 where "store_inv (ci_view mem_bolt) mem_ready d1" "chunks (ci_view mem_bolt) d1 = Map.empty"
    "d_store d1 = demo_ds" "writer_inv d1 cw1" "cw_chunkId cw1 = ''abcdef''" "cw_hasher cw1 = [1, 2]"
    "fs_dirs (d_fs d1) = fs_dirs (d_fs d)"
    by (rule cw_Write_ok [OF o(1,4), of "[1, 2]"]) (use o in \<open>simp_all\<close>)
  with that [of d1 cw1] o show ?thesis by (simp add: temp_ready_def)
qed

theorem concurrent_uploads_corrupt_witness:
  "\<exists>(d :: (memdb, bytes) BoltChecksumIndex disk) cw d1 cwB d2 cw2 d3 cw3.
      writer_inv d cw \<and> cw_hasher cw = [1, 2]
      \<and> NewChunkWriter reliable_os (cw_chunkId cw) d = Inr (d1, cwB)
      \<and> cw_Write reliable_os cw d1 [3] = (d2, cw2, None)
      \<and> cw_Finalize reliable_os mem_cs cw2 d2 (sha256_Sum256 [1, 2, 3]) = (d3, cw3, None)
      \<and> ds_Read reliable_os mem_cs d3 (cw_chunkId cw) = Inr [0, 0, 3]"
proof -
  obtain d cw where o: "store_inv (ci_view mem_bolt) mem_ready d" "writer_inv d cw" "cw_hasher cw = [1, 2]"
    "cw_chunkId cw = ''abcdef''" "temp_ready d" "chunks (ci_view mem_bolt) d = Map.empty" "d_store d = demo_ds"
    by (rule demo_writer)
  have "chunk_bytes ((chunks (ci_view mem_bolt) d)(cw_chunkId cw \<mapsto> replicate (length [1 :: byte, 2]) 0 @ [3])) \<le> unat (totalSpace (d_store d))"
    by (simp add: o chunk_bytes_def demo_ds_def)
  from concurrent_uploads_corrupt [OF mem_reliable.reliable_index_axioms o(1,2,3,5) _ this]
  obtain d1 cwB d2 cw2 d3 cw3 where
    "NewChunkWriter reliable_os (cw_chunkId cw) d = Inr (d1, cwB)" "cw_Write reliable_os cw d1 [3] = (d2, cw2, None)"
    "cw_Finalize reliable_os mem_cs cw2 d2 (sha256_Sum256 ([1, 2] @ [3])) = (d3, cw3, None)"
    "ds_Read reliable_os mem_cs d3 (cw_chunkId cw) = Inr (replicate (length [1 :: byte, 2]) 0 @ [3])"
    by auto
  then show ?thesis using o(2,3) by (intro exI conjI) simp_all
qed

end
