(* ===== verification/Storage_Server.thy ===== *)
theory Storage_Server
  imports Chunk_IO
begin

text \<open>
  The RPC handlers of a storage node (\<^verbatim>\<open>src/storage/server/storage_handler.go\<close> and
  \<^verbatim>\<open>src/storage/server/replication_handler.go\<close>). A client stream is the list of the
  frames it delivers and how it ends: \<open>None\<close> for a closed stream (\<open>io.EOF\<close>), \<open>Some e\<close> for a
  transport error. The operating system may behave differently at every frame,
  so its environment is indexed by the frame number. The replicator and the
  metadata client are the interfaces of the same name: functions, or absent; the
  requests made to the metadata service are part of the outcome.
\<close>

section \<open>Messages and handlers\<close>

record PutChunkRequest =
  pcq_ChunkId :: string
  pcq_Data :: bytes
  pcq_Checksum :: bytes
  pcq_IsLast :: bool
  pcq_ReplicateTo :: "string option list"

record PutChunkResponse =
  pcr_Code :: int
  pcr_Msg :: string
  pcr_ChunkId :: string
  pcr_Checksum :: bytes

record CommitChunkRequest =
  ccq_ChunkId :: string
  ccq_ConfirmedNodes :: "string list"
  ccq_Checksum :: bytes

record GetChunkResponse =
  gcr_ChunkId :: string
  gcr_Data :: bytes
  gcr_Checksum :: bytes
  gcr_IsLast :: bool

record StorageServerHandler =
  sh_NodeID :: string
  sh_Replicator :: "(string \<Rightarrow> string list \<Rightarrow> bool \<Rightarrow> string list \<times> goerror option) option"
  sh_MetaClient :: "(CommitChunkRequest \<Rightarrow> goerror option) option"

definition NewStorageServerHandler ::
  "'s option \<Rightarrow> (CommitChunkRequest \<Rightarrow> goerror option) option \<Rightarrow> string
   \<Rightarrow> (string \<Rightarrow> string list \<Rightarrow> bool \<Rightarrow> string list \<times> goerror option) list \<Rightarrow> StorageServerHandler result" where
  "NewStorageServerHandler s metaClient nodeID r =
     (case s of
        None \<Rightarrow> Inl (NewError ''StorageServer: Store must not be nil'')
      | Some _ \<Rightarrow>
          Inr \<lparr>sh_NodeID = nodeID, sh_Replicator = (case r of [] \<Rightarrow> None | x # _ \<Rightarrow> Some x),
               sh_MetaClient = metaClient\<rparr>)"

section \<open>PutChunk\<close>

record put_state =
  ps_writer :: "ChunkWriter option"
  ps_registered :: string
  ps_replicateTo :: "string list"
  ps_last :: "PutChunkRequest option"

definition put_init :: put_state where
  "put_init = \<lparr>ps_writer = None, ps_registered = '''', ps_replicateTo = [], ps_last = None\<rparr>"

definition targets :: "string option list \<Rightarrow> string list" where
  "targets nis = [a. Some a \<leftarrow> nis, a \<noteq> '''']"

text \<open>The first frame opens the writer and fixes the chunk id and the replica targets.\<close>

definition put_open :: "os_env \<Rightarrow> 'ix disk \<Rightarrow> put_state \<Rightarrow> PutChunkRequest \<Rightarrow> ('ix disk \<times> ChunkWriter \<times> put_state) result" where
  "put_open os d st frame =
     (case ps_writer st of
        Some w \<Rightarrow> Inr (d, w, st)
      | None \<Rightarrow>
          (case NewChunkWriter os (pcq_ChunkId frame) d of
             Inl e \<Rightarrow> Inl (Status Internal ''failed to initialise chunk writer'')
           | Inr (d', w) \<Rightarrow>
               Inr (d', w, st\<lparr>ps_writer := Some w, ps_registered := pcq_ChunkId frame,
                              ps_replicateTo := targets (pcq_ReplicateTo frame)\<rparr>)))"

definition put_frame :: "os_env \<Rightarrow> 'ix disk \<Rightarrow> put_state \<Rightarrow> PutChunkRequest \<Rightarrow> 'ix disk \<times> put_state result" where
  "put_frame os d st frame =
     (case put_open os d st frame of
        Inl e \<Rightarrow> (d, Inl e)
      | Inr (d1, w, st1) \<Rightarrow>
          if ps_registered st1 \<noteq> pcq_ChunkId frame
          then (fst (cw_Abort os w d1), Inl (Status InvalidArgument ''chunk-id mismatch across frames''))
          else (case cw_Write os w d1 (pcq_Data frame) of
              (d2, w2, Some e) \<Rightarrow> (fst (cw_Abort os w2 d2), Inl (Status Internal ''failed to write chunk frame''))
            | (d2, w2, None) \<Rightarrow> (d2, Inr (st1\<lparr>ps_writer := Some w2, ps_last := Some frame\<rparr>))))"

text \<open>After the chunk is stored: replicate, commit to the metadata service, respond.\<close>

definition put_committed ::
  "StorageServerHandler \<Rightarrow> goerror option \<Rightarrow> string list \<Rightarrow> PutChunkRequest
   \<Rightarrow> CommitChunkRequest list \<times> PutChunkResponse result" where
  "put_committed h sendErr replicateTo lastFrame =
     (let replicas =
            (case sh_Replicator h of
               None \<Rightarrow> []
             | Some repl \<Rightarrow>
                 if replicateTo = [] then [] else fst (repl (pcq_ChunkId lastFrame) replicateTo False));
          req = \<lparr>ccq_ChunkId = pcq_ChunkId lastFrame, ccq_ConfirmedNodes = sh_NodeID h # replicas,
                 ccq_Checksum = pcq_Checksum lastFrame\<rparr>;
          resp = (case sendErr of
              Some e \<Rightarrow> Inl e
            | None \<Rightarrow> Inr \<lparr>pcr_Code = 200, pcr_Msg = ''Chunk Stored'',
                          pcr_ChunkId = pcq_ChunkId lastFrame, pcr_Checksum = pcq_Checksum lastFrame\<rparr>)
      in case sh_MetaClient h of
           None \<Rightarrow> ([], resp)
         | Some commit \<Rightarrow>
             (case commit req of
                Some e \<Rightarrow> ([req], Inl (Status Internal ''metadata commit failed''))
              | None \<Rightarrow> ([req], resp)))"

definition put_eof ::
  "os_env \<Rightarrow> 'ix ChecksumIndexStore \<Rightarrow> StorageServerHandler \<Rightarrow> goerror option \<Rightarrow> 'ix disk \<Rightarrow> put_state
   \<Rightarrow> 'ix disk \<times> CommitChunkRequest list \<times> PutChunkResponse result" where
  "put_eof os cs h sendErr d st =
     (case ps_writer st of
        None \<Rightarrow> (d, [], Inl (Status InvalidArgument ''no data received''))
      | Some w \<Rightarrow>
          (case ps_last st of
             None \<Rightarrow> (fst (cw_Abort os w d), [], Inl (Status InvalidArgument ''stream closed before final frame''))
           | Some lastFrame \<Rightarrow>
               if \<not> pcq_IsLast lastFrame
               then (fst (cw_Abort os w d), [], Inl (Status InvalidArgument ''stream closed before final frame''))
               else (case cw_Finalize os cs w d (pcq_Checksum lastFrame) of
                   (d1, w1, Some e) \<Rightarrow> (d1, [], Inl (Status Internal ''failed to finalize chunk''))
                 | (d1, w1, None) \<Rightarrow> (d1, put_committed h sendErr (ps_replicateTo st) lastFrame))))"

fun put_loop ::
  "(nat \<Rightarrow> os_env) \<Rightarrow> 'ix ChecksumIndexStore \<Rightarrow> StorageServerHandler \<Rightarrow> goerror option \<Rightarrow> nat \<Rightarrow> 'ix disk \<Rightarrow> put_state
   \<Rightarrow> PutChunkRequest list \<Rightarrow> goerror option \<Rightarrow> 'ix disk \<times> CommitChunkRequest list \<times> PutChunkResponse result" where
  "put_loop os cs h sendErr k d st [] None = put_eof (os k) cs h sendErr d st"
| "put_loop os cs h sendErr k d st [] (Some e) =
     ((case ps_writer st of None \<Rightarrow> d | Some w \<Rightarrow> fst (cw_Abort (os k) w d)), [],
      Inl (Status Internal ''stream error''))"
| "put_loop os cs h sendErr k d st (frame # frames) fin =
     (case put_frame (os k) d st frame of
        (d', Inl e) \<Rightarrow> (d', [], Inl e)
      | (d', Inr st') \<Rightarrow> put_loop os cs h sendErr (Suc k) d' st' frames fin)"

definition PutChunk ::
  "(nat \<Rightarrow> os_env) \<Rightarrow> 'ix ChecksumIndexStore \<Rightarrow> StorageServerHandler \<Rightarrow> goerror option \<Rightarrow> 'ix disk
   \<Rightarrow> PutChunkRequest list \<Rightarrow> goerror option \<Rightarrow> 'ix disk \<times> CommitChunkRequest list \<times> PutChunkResponse result" where
  "PutChunk os cs h sendErr d frames fin = put_loop os cs h sendErr 0 d put_init frames fin"

section \<open>GetChunk\<close>

text \<open>
  The loop of \<open>GetChunk\<close> sends frames until the reader is done; \<open>send k\<close> is the outcome of
  the \<open>k\<close>-th \<open>stream.Send\<close>. The value \<open>None\<close> stands for a loop that does not end.
\<close>

partial_function (option) get_loop ::
  "os_env \<Rightarrow> filesystem \<Rightarrow> (nat \<Rightarrow> goerror option) \<Rightarrow> string \<Rightarrow> nat \<Rightarrow> ChunkReader \<Rightarrow> GetChunkResponse list
   \<Rightarrow> (GetChunkResponse list \<times> goerror option) option" where
  "get_loop os fs send chunkId k reader sent =
     (case cr_Next os fs reader of
        (reader', Inl e) \<Rightarrow>
          if e = EOF then Some (sent, None)
          else Some (sent, Some (Status Internal ''error reading chunk data''))
      | (reader', Inr frame) \<Rightarrow>
          (case send k of
             Some e \<Rightarrow> Some (sent, Some (Status Internal ''failed to send chunk frame''))
           | None \<Rightarrow>
               (let sent' = sent @ [\<lparr>gcr_ChunkId = chunkId, gcr_Data = Data frame, gcr_Checksum = Checksum frame,
                                    gcr_IsLast = IsLast frame\<rparr>]
                in if IsLast frame then Some (sent', None)
                   else get_loop os fs send chunkId (Suc k) reader' sent')))"

definition GetChunk ::
  "os_env \<Rightarrow> 'ix ChecksumIndexStore \<Rightarrow> (nat \<Rightarrow> goerror option) \<Rightarrow> 'ix disk \<Rightarrow> string
   \<Rightarrow> (GetChunkResponse list \<times> goerror option) option" where
  "GetChunk os cs send d chunkId =
     (if chunkId = '''' then Some ([], Some (Status InvalidArgument ''chunk_id must not be empty''))
      else if \<not> ds_Exists cs (d_store d) chunkId then Some ([], Some (Status NotFound ''chunk not found''))
      else case NewChunkReader os cs d chunkId 0 of
        Inl e \<Rightarrow>
          Some ([], Some (if errors_Is e DfsErrChunkNotFound then Status NotFound ''chunk not found''
                          else Status Internal ''failed to open chunk for reading''))
      | Inr reader \<Rightarrow> get_loop os (d_fs d) send chunkId 0 reader [])"

section \<open>DeleteChunk and VerifyChunk\<close>

definition DeleteChunk ::
  "os_env \<Rightarrow> 'ix ChecksumIndexStore \<Rightarrow> goerror option \<Rightarrow> 'ix disk \<Rightarrow> string \<Rightarrow> 'ix disk \<times> bool result" where
  "DeleteChunk os cs sendErr d chunkId =
     (if chunkId = '''' then (d, Inl (Status InvalidArgument ''chunk_id must not be empty''))
      else case ds_Delete os cs d chunkId of
        (d', err) \<Rightarrow>
          if err \<noteq> None \<and> \<not> errors_Is (the err) DfsErrChunkNotFound
          then (d', Inl (Status Internal ''failed to delete chunk''))
          else (d', (case sendErr of Some e \<Rightarrow> Inl e | None \<Rightarrow> Inr True)))"

definition VerifyChunk ::
  "os_env \<Rightarrow> 'ix ChecksumIndexStore \<Rightarrow> 'ix disk \<Rightarrow> string \<Rightarrow> bytes \<Rightarrow> bool result" where
  "VerifyChunk os cs d chunkId reqChecksum =
     (if chunkId = '''' then Inl (Status InvalidArgument ''chunk_id must not be empty'')
      else if \<not> ds_Exists cs (d_store d) chunkId then Inl (Status NotFound ''chunk not found'')
      else case ds_Verify os cs d chunkId of
        Inl e \<Rightarrow> if errors_Is e DfsErrVerifyFailed then Inr False else Inl (Status Internal ''verification failed'')
      | Inr computed \<Rightarrow> if reqChecksum \<noteq> [] \<and> computed \<noteq> reqChecksum then Inr False else Inr True)"

section \<open>ReplicateChunk\<close>

record ReplicateChunkRequest =
  rcq_ChunkId :: string
  rcq_Data :: bytes
  rcq_IsFirst :: bool
  rcq_IsLast :: bool

record ReplicateChunkResponse =
  rcr_Ok :: bool
  rcr_IsFinal :: bool
  rcr_ChunkId :: string
  rcr_Checksum :: bytes

definition NewReplicationServerHandler :: "'s option \<Rightarrow> 's result" where
  "NewReplicationServerHandler s = (case s of None \<Rightarrow> Inl DfsErrInvalidChunkId | Some x \<Rightarrow> Inr x)"

text \<open>
  One round of the receive loop: the frame either ends the call (with an error, or
  with the final response of the last frame) or is acknowledged.
\<close>

datatype rc_round = RcReturn "goerror option" | RcContinue

definition rc_open :: "os_env \<Rightarrow> 'ix disk \<Rightarrow> ChunkWriter option \<Rightarrow> string \<Rightarrow> ReplicateChunkRequest
   \<Rightarrow> ('ix disk \<times> ChunkWriter \<times> string) result" where
  "rc_open os d writer registered frame =
     (if rcq_IsFirst frame then
        (if rcq_ChunkId frame = '''' then Inl (Status InvalidArgument ''chunk_id must not be empty on first frame'')
         else case NewChunkWriter os (rcq_ChunkId frame) d of
           Inl e \<Rightarrow> Inl (Status Internal ''failed to initialise chunk writer'')
         | Inr (d', w) \<Rightarrow> Inr (d', w, rcq_ChunkId frame))
      else case writer of
        None \<Rightarrow> Inl (Status InvalidArgument ''first frame must have is_first=true'')
      | Some w \<Rightarrow> Inr (d, w, registered))"

definition rc_frame ::
  "os_env \<Rightarrow> 'ix ChecksumIndexStore \<Rightarrow> goerror option \<Rightarrow> 'ix disk \<Rightarrow> ChunkWriter option \<Rightarrow> string \<Rightarrow> ReplicateChunkRequest
   \<Rightarrow> 'ix disk \<times> ChunkWriter option \<times> string \<times> ReplicateChunkResponse option \<times> rc_round" where
  "rc_frame os cs sendErr d writer registered frame =
     (case rc_open os d writer registered frame of
        Inl e \<Rightarrow> (d, writer, registered, None, RcReturn (Some e))
      | Inr (d1, w, reg) \<Rightarrow>
          if rcq_ChunkId frame \<noteq> '''' \<and> rcq_ChunkId frame \<noteq> reg
          then (fst (cw_Abort os w d1), Some w, reg, None,
                RcReturn (Some (Status InvalidArgument ''chunk_id mismatch mid-stream'')))
          else (case (if rcq_Data frame \<noteq> [] then cw_Write os w d1 (rcq_Data frame) else (d1, w, None)) of
              (d2, w2, Some e) \<Rightarrow>
                (fst (cw_Abort os w2 d2), Some w2, reg, None, RcReturn (Some (Status Internal ''failed to write frame'')))
            | (d2, w2, None) \<Rightarrow>
                if rcq_IsLast frame then
                  (case cw_Finalize os cs w2 d2 (ComputedChecksum w2) of
                     (d3, w3, Some e) \<Rightarrow>
                       (d3, Some w3, reg, None, RcReturn (Some (Status Internal ''failed to finalise chunk'')))
                   | (d3, w3, None) \<Rightarrow>
                       (d3, Some w3, reg,
                        (case sendErr of
                           Some e \<Rightarrow> None
                         | None \<Rightarrow> Some \<lparr>rcr_Ok = True, rcr_IsFinal = True, rcr_ChunkId = reg,
                                         rcr_Checksum = ComputedChecksum w2\<rparr>),
                        RcReturn sendErr))
                else (case sendErr of
                    Some e \<Rightarrow>
                      (fst (cw_Abort os w2 d2), Some w2, reg, None, RcReturn (Some (Status Internal ''failed to send frame ack'')))
                  | None \<Rightarrow>
                      (d2, Some w2, reg, Some \<lparr>rcr_Ok = True, rcr_IsFinal = False, rcr_ChunkId = '''', rcr_Checksum = []\<rparr>,
                       RcContinue))))"

fun rc_loop ::
  "(nat \<Rightarrow> os_env) \<Rightarrow> 'ix ChecksumIndexStore \<Rightarrow> (nat \<Rightarrow> goerror option) \<Rightarrow> nat \<Rightarrow> 'ix disk \<Rightarrow> ChunkWriter option \<Rightarrow> string
   \<Rightarrow> ReplicateChunkRequest list \<Rightarrow> goerror option \<Rightarrow> 'ix disk \<times> ReplicateChunkResponse list \<times> goerror option" where
  "rc_loop os cs send k d writer registered [] None =
     (d, [], (case writer of None \<Rightarrow> Some (Status InvalidArgument ''no frames received'') | Some w \<Rightarrow> None))"
| "rc_loop os cs send k d writer registered [] (Some e) =
     ((case writer of None \<Rightarrow> d | Some w \<Rightarrow> fst (cw_Abort (os k) w d)), [],
      Some (Status Internal ''stream recv error''))"
| "rc_loop os cs send k d writer registered (frame # frames) fin =
     (case rc_frame (os k) cs (send k) d writer registered frame of
        (d', w', reg', resp, RcReturn err) \<Rightarrow> (d', (case resp of None \<Rightarrow> [] | Some r \<Rightarrow> [r]), err)
      | (d', w', reg', resp, RcContinue) \<Rightarrow>
          (case rc_loop os cs send (Suc k) d' w' reg' frames fin of
             (d'', rs, err) \<Rightarrow> (d'', (case resp of None \<Rightarrow> [] | Some r \<Rightarrow> [r]) @ rs, err)))"

definition ReplicateChunk ::
  "(nat \<Rightarrow> os_env) \<Rightarrow> 'ix ChecksumIndexStore \<Rightarrow> (nat \<Rightarrow> goerror option) \<Rightarrow> 'ix disk
   \<Rightarrow> ReplicateChunkRequest list \<Rightarrow> goerror option \<Rightarrow> 'ix disk \<times> ReplicateChunkResponse list \<times> goerror option" where
  "ReplicateChunk os cs send d frames fin = rc_loop os cs send 0 d None '''' frames fin"

section \<open>What PutChunk promises\<close>

text \<open>
  The abstract handler: what a stream of frames does to the map of chunks. The
  first frame fixes the chunk id; the stream must keep it, end properly and with a
  final frame, carry the digest of all data in that frame, and fit the capacity.
\<close>

definition spec_end ::
  "(string \<Rightarrow> bool) \<Rightarrow> nat \<Rightarrow> StorageServerHandler \<Rightarrow> goerror option \<Rightarrow> string list \<Rightarrow> (string \<rightharpoonup> bytes)
   \<Rightarrow> string \<Rightarrow> PutChunkRequest \<Rightarrow> bytes \<Rightarrow> goerror option
   \<Rightarrow> (string \<rightharpoonup> bytes) \<times> CommitChunkRequest list \<times> PutChunkResponse result" where
  "spec_end valid capacity h sendErr rt m c lastFrame v fin =
     (if fin \<noteq> None then (m, [], Inl (Status Internal ''stream error''))
      else if \<not> pcq_IsLast lastFrame then (m, [], Inl (Status InvalidArgument ''stream closed before final frame''))
      else if sha256_Sum256 v \<noteq> pcq_Checksum lastFrame \<or> capacity < chunk_bytes (m(c \<mapsto> v))
      then (m, [], Inl (Status Internal ''failed to finalize chunk''))
      else (m(c \<mapsto> v), put_committed h sendErr rt lastFrame))"

definition spec_PutChunk ::
  "(string \<Rightarrow> bool) \<Rightarrow> nat \<Rightarrow> StorageServerHandler \<Rightarrow> goerror option \<Rightarrow> (string \<rightharpoonup> bytes) \<Rightarrow> PutChunkRequest list
   \<Rightarrow> goerror option \<Rightarrow> (string \<rightharpoonup> bytes) \<times> CommitChunkRequest list \<times> PutChunkResponse result" where
  "spec_PutChunk valid capacity h sendErr m frames fin =
     (case frames of
        [] \<Rightarrow> (m, [], Inl (if fin = None then Status InvalidArgument ''no data received''
                           else Status Internal ''stream error''))
      | f # _ \<Rightarrow>
          if \<not> valid (pcq_ChunkId f) then (m, [], Inl (Status Internal ''failed to initialise chunk writer''))
          else if list_ex (\<lambda>g. pcq_ChunkId g \<noteq> pcq_ChunkId f) frames
          then (m, [], Inl (Status InvalidArgument ''chunk-id mismatch across frames''))
          else spec_end valid capacity h sendErr (targets (pcq_ReplicateTo f)) m (pcq_ChunkId f)
                 (last frames) (concat (map pcq_Data frames)) fin)"

lemma NewChunkWriter_invalid:
  "\<not> valid_id (d_store d) c \<Longrightarrow> \<exists>e. NewChunkWriter os c d = Inl e"
  by (simp add: NewChunkWriter_def TempDir_def invalid_idD)

context reliable_index
begin

lemma put_eof_refines:
  assumes inv: "store_inv sums ready d" and w: "writer_inv d w" and len: "length (cw_hasher w) < 2 ^ 64"
    and st: "ps_writer st = Some w" "ps_last st = Some lf"
    and eof: "put_eof reliable_os cs h sendErr d st = (d', out)"
  shows "store_inv sums ready d' \<and> fs_content (d_fs d') (cw_filepath w) = None
    \<and> (chunks sums d', out) = spec_end (valid_id (d_store d)) (unat (totalSpace (d_store d))) h sendErr
        (ps_replicateTo st) (chunks sums d) (cw_chunkId w) lf (cw_hasher w) None"
proof -
  have h: "cw_filepath w = temp_path (d_store d) (cw_chunkId w)" "valid_id (d_store d) (cw_chunkId w)"
    using w by (auto simp: writer_inv_def)
  show ?thesis
  proof (cases "pcq_IsLast lf")
    case False
    obtain d1 w1 where "cw_Abort reliable_os w d = (d1, w1)" by (cases "cw_Abort reliable_os w d")
    with cw_Abort_ok [OF inv h(2,1) this] eof st False h show ?thesis
      by (auto simp: put_eof_def spec_end_def)
  next
    case True
    obtain d1 w1 e where fin: "cw_Finalize reliable_os cs w d (pcq_Checksum lf) = (d1, w1, e)"
      by (cases "cw_Finalize reliable_os cs w d (pcq_Checksum lf)")
    note f = cw_Finalize_ok [OF inv w len fin]
    have "d' = d1" using eof st True fin by (cases e) (auto simp: put_eof_def)
    moreover have "(chunks sums d1, out) = spec_end (valid_id (d_store d)) (unat (totalSpace (d_store d))) h sendErr
        (ps_replicateTo st) (chunks sums d) (cw_chunkId w) lf (cw_hasher w) None"
      using eof st True fin f h(2)
      by (cases e) (auto simp: put_eof_def spec_end_def spec_put_def split: if_splits)
    ultimately show ?thesis using f by (elim conjE, intro conjI) simp_all
  qed
qed

lemma put_loop_refines:
  assumes "store_inv sums ready d" "writer_inv d w" "length (cw_hasher w @ concat (map pcq_Data frames)) < 2 ^ 64"
    "ps_writer st = Some w" "ps_last st = Some lf" "ps_registered st = cw_chunkId w"
    "put_loop (\<lambda>_. reliable_os) cs h sendErr k d st frames fin = (d', out)"
  shows "store_inv sums ready d' \<and> fs_content (d_fs d') (cw_filepath w) = None
    \<and> (chunks sums d', out) =
       (if list_ex (\<lambda>g. pcq_ChunkId g \<noteq> cw_chunkId w) frames
        then (chunks sums d, [], Inl (Status InvalidArgument ''chunk-id mismatch across frames''))
        else spec_end (valid_id (d_store d)) (unat (totalSpace (d_store d))) h sendErr
          (ps_replicateTo st) (chunks sums d) (cw_chunkId w) (last (lf # frames))
          (cw_hasher w @ concat (map pcq_Data frames)) fin)"
  using assms
proof (induction frames arbitrary: d w st lf k)
  case Nil
  have h: "cw_filepath w = temp_path (d_store d) (cw_chunkId w)" "valid_id (d_store d) (cw_chunkId w)"
    using Nil.prems(2) by (auto simp: writer_inv_def)
  show ?case
  proof (cases fin)
    case None
    with Nil put_eof_refines [OF Nil.prems(1,2) _ Nil.prems(4,5)] show ?thesis by simp
  next
    case (Some e)
    obtain d1 w1 where "cw_Abort reliable_os w d = (d1, w1)" by (cases "cw_Abort reliable_os w d")
    with cw_Abort_ok [OF Nil.prems(1) h(2,1) this] Nil Some h show ?thesis by (auto simp: spec_end_def)
  qed
next
  case (Cons f frames)
  have h: "cw_filepath w = temp_path (d_store d) (cw_chunkId w)" "valid_id (d_store d) (cw_chunkId w)"
    using Cons.prems(2) by (auto simp: writer_inv_def)
  have open_eq: "put_open reliable_os d st f = Inr (d, w, st)" by (simp add: put_open_def Cons.prems(4))
  show ?case
  proof (cases "pcq_ChunkId f = cw_chunkId w")
    case False
    obtain d1 w1 where "cw_Abort reliable_os w d = (d1, w1)" by (cases "cw_Abort reliable_os w d")
    with cw_Abort_ok [OF Cons.prems(1) h(2,1) this] Cons.prems False h show ?thesis
      by (auto simp: put_frame_def open_eq)
  next
    case True
    obtain d1 w1 where o: "cw_Write reliable_os w d (pcq_Data f) = (d1, w1, None)" "store_inv sums ready d1"
      "chunks sums d1 = chunks sums d" "d_store d1 = d_store d" "writer_inv d1 w1" "cw_chunkId w1 = cw_chunkId w"
      "cw_hasher w1 = cw_hasher w @ pcq_Data f"
      by (rule cw_Write_ok [OF Cons.prems(1,2), of "pcq_Data f"])
    have path: "cw_filepath w1 = cw_filepath w"
      using o(4-6) h(1) by (auto simp: writer_inv_def)
    have "put_loop (\<lambda>_. reliable_os) cs h sendErr (Suc k) d1 (st\<lparr>ps_writer := Some w1, ps_last := Some f\<rparr>) frames fin = (d', out)"
      using Cons.prems(6,7) True o(1) by (simp add: put_frame_def open_eq)
    from Cons.IH [OF o(2,5) _ _ _ _ this] Cons.prems(3,6) True o show ?thesis
      by (simp add: path)
  qed
qed

end

lemma PutChunk_refines:
  assumes index: "reliable_index cs sums ready" and inv: "store_inv sums ready d" and temp: "temp_ready d"
    and len: "length (concat (map pcq_Data frames)) < 2 ^ 64"
  shows "case PutChunk (\<lambda>_. reliable_os) cs h sendErr d frames fin of (d', out) \<Rightarrow>
     store_inv sums ready d'
     \<and> (chunks sums d', out) =
         spec_PutChunk (valid_id (d_store d)) (unat (totalSpace (d_store d))) h sendErr (chunks sums d) frames fin
     \<and> (frames \<noteq> [] \<and> valid_id (d_store d) (pcq_ChunkId (hd frames)) \<longrightarrow>
          fs_content (d_fs d') (temp_path (d_store d) (pcq_ChunkId (hd frames))) = None)"
proof (cases frames)
  case Nil
  with inv show ?thesis
    by (cases fin) (simp_all add: PutChunk_def put_eof_def put_init_def spec_PutChunk_def)
next
  case (Cons f rest)
  let ?c = "pcq_ChunkId f"
  show ?thesis
  proof (cases "valid_id (d_store d) ?c")
    case False
    with NewChunkWriter_invalid [OF False, of reliable_os] Cons inv show ?thesis
      by (auto simp: PutChunk_def put_frame_def put_open_def put_init_def spec_PutChunk_def)
  next
    case True
    obtain d1 w1 where n: "NewChunkWriter reliable_os ?c d = Inr (d1, w1)" "store_inv sums ready d1"
      "chunks sums d1 = chunks sums d" "d_store d1 = d_store d" "writer_inv d1 w1" "cw_chunkId w1 = ?c" "cw_hasher w1 = []"
      by (rule NewChunkWriter_ok [OF inv temp True])
    obtain d2 w2 where o: "cw_Write reliable_os w1 d1 (pcq_Data f) = (d2, w2, None)" "store_inv sums ready d2"
      "chunks sums d2 = chunks sums d1" "d_store d2 = d_store d1" "writer_inv d2 w2" "cw_chunkId w2 = cw_chunkId w1"
      "cw_hasher w2 = cw_hasher w1 @ pcq_Data f"
      by (rule cw_Write_ok [OF n(2,5), of "pcq_Data f"])
    define st where "st = \<lparr>ps_writer = Some w2, ps_registered = ?c, ps_replicateTo = targets (pcq_ReplicateTo f),
      ps_last = Some f\<rparr>"
    obtain d' out where loop: "put_loop (\<lambda>_. reliable_os) cs h sendErr (Suc 0) d2 st rest fin = (d', out)"
      by (cases "put_loop (\<lambda>_. reliable_os) cs h sendErr (Suc 0) d2 st rest fin")
    have put: "PutChunk (\<lambda>_. reliable_os) cs h sendErr d frames fin = (d', out)"
      using loop n(1) o(1) by (simp add: Cons PutChunk_def put_frame_def put_open_def put_init_def st_def)
    have path: "cw_filepath w2 = temp_path (d_store d) ?c"
      using o(4-6) n(4,6) by (auto simp: writer_inv_def)
    have "length (cw_hasher w2 @ concat (map pcq_Data rest)) < 2 ^ 64"
      using len by (simp add: Cons o(7) n(7))
    from reliable_index.put_loop_refines [OF index o(2,5) this _ _ _ loop] n o path
    have "store_inv sums ready d' \<and> fs_content (d_fs d') (temp_path (d_store d) ?c) = None
      \<and> (chunks sums d', out) =
       (if list_ex (\<lambda>g. pcq_ChunkId g \<noteq> ?c) rest
        then (chunks sums d, [], Inl (Status InvalidArgument ''chunk-id mismatch across frames''))
        else spec_end (valid_id (d_store d)) (unat (totalSpace (d_store d))) h sendErr
          (targets (pcq_ReplicateTo f)) (chunks sums d) ?c (last (f # rest)) (pcq_Data f @ concat (map pcq_Data rest)) fin)"
      by (simp add: st_def)
    then show ?thesis
      using True unfolding put by (auto simp: spec_PutChunk_def Cons)
  qed
qed


definition demo_handler :: StorageServerHandler where
  "demo_handler = \<lparr>sh_NodeID = ''n1'', sh_Replicator = Some (\<lambda>c ts async. (take 1 ts, None)), sh_MetaClient = Some (\<lambda>req. None)\<rparr>"

definition demo_frames :: "PutChunkRequest list" where
  "demo_frames =
     [\<lparr>pcq_ChunkId = ''abcdef'', pcq_Data = [1, 2], pcq_Checksum = [], pcq_IsLast = False,
       pcq_ReplicateTo = [Some ''10.0.0.2:9'', None, Some ''10.0.0.3:9'']\<rparr>,
      \<lparr>pcq_ChunkId = ''abcdef'', pcq_Data = [3], pcq_Checksum = sha256_Sum256 [1, 2, 3], pcq_IsLast = True,
       pcq_ReplicateTo = []\<rparr>]"


section \<open>What GetChunk promises\<close>

definition get_response :: "string \<Rightarrow> Frame \<Rightarrow> GetChunkResponse" where
  "get_response c f = \<lparr>gcr_ChunkId = c, gcr_Data = Data f, gcr_Checksum = Checksum f, gcr_IsLast = IsLast f\<rparr>"

text \<open>End of file is not an error of a disk.\<close>

definition no_eof_faults :: "os_env \<Rightarrow> bool" where
  "no_eof_faults os \<longleftrightarrow> (\<forall>call p. os_fault os call p \<noteq> Some EOF)"

lemma cr_Next_faulty:
  assumes f: "cr_file cr = Some f" and os: "no_eof_faults os"
  shows "cr_Next os fs cr = cr_Next reliable_os fs cr \<or> (\<exists>e. snd (cr_Next os fs cr) = Inl e \<and> e \<noteq> EOF)"
proof (cases "os_fault os OsFileRead (f_name f)")
  case (Some e)
  with f os show ?thesis by (auto simp: cr_Next_def file_Read_def no_eof_faults_def)
next
  case None
  then have read: "file_Read os n f fs = file_Read reliable_os n f fs" for n by (simp add: file_Read_def)
  obtain f1 buf err where r: "file_Read reliable_os (nat (cr_frameSize cr + 1)) f fs = (f1, buf, err)"
    by (cases "file_Read reliable_os (nat (cr_frameSize cr + 1)) f fs")
  show ?thesis
  proof (cases "os_fault os OsSeek (f_name f)")
    case None
    then show ?thesis by (simp add: cr_Next_def f read r Let_def)
  next
    case (Some e)
    then have "e \<noteq> EOF" using os by (auto simp: no_eof_faults_def)
    with Some show ?thesis by (auto simp: cr_Next_def f read r Let_def)
  qed
qed

lemma get_loop_prefix:
  assumes os: "no_eof_faults os" and "0 < n" "cr_frameSize reader = int n" "cr_file reader = Some f"
    "drop (f_pos f) (fs_data fs (f_inode f)) = rest"
  shows "\<exists>j err. get_loop os fs send c k reader sent =
      Some (sent @ map (get_response c) (take j (chunk_frames n rest)), err)
    \<and> (err = None \<longrightarrow> length (chunk_frames n rest) \<le> j)
    \<and> (os = reliable_os \<and> send = (\<lambda>_. None) \<longrightarrow> err = None)"
  using assms(2-)
proof (induction n rest arbitrary: reader f sent k rule: chunk_frames.induct)
  case (1 n rest)
  have pos: "0 < cr_frameSize reader" using "1.prems" by simp
  note nx = cr_Next_reliable [OF "1.prems"(3) pos "1.prems"(4) [symmetric]]
  consider (fault) e where "snd (cr_Next os fs reader) = Inl e" "e \<noteq> EOF" "os \<noteq> reliable_os"
    | (ok) "cr_Next os fs reader = cr_Next reliable_os fs reader"
    using cr_Next_faulty [OF "1.prems"(3) os, of fs] by blast
  then show ?case
  proof cases
    case fault
    then show ?thesis
      by (cases "cr_Next os fs reader")
         (auto simp: get_loop.simps [of os fs send c k reader sent] intro!: exI [of _ 0] exI [of _ "Some (Status Internal ''error reading chunk data'')"])
  next
    case ok
    show ?thesis
    proof (cases "rest = []")
      case True
      with nx(1) ok show ?thesis
        by (cases "cr_Next reliable_os fs reader")
           (auto simp: get_loop.simps [of os fs send c k reader sent] chunk_frames.simps [of n "[]"]
             intro!: exI [of _ 0] exI [of _ None])
    next
      case ne: False
      show ?thesis
      proof (cases "length rest \<le> n")
        case True
        then have fr: "chunk_frames n rest = [\<lparr>Data = rest, Checksum = sha256_Sum256 rest, IsLast = True\<rparr>]"
          using ne "1.prems"(1) by (simp add: chunk_frames.simps [of n rest])
        have "snd (cr_Next reliable_os fs reader) = Inr \<lparr>Data = rest, Checksum = sha256_Sum256 rest, IsLast = True\<rparr>"
          using nx(2) True ne "1.prems"(2) by simp
        then show ?thesis
          by (cases "cr_Next reliable_os fs reader"; cases "send k")
             (auto simp: get_loop.simps [of os fs send c k reader sent] ok fr get_response_def
               intro!: exI [of _ "if send k = None then 1 else 0 :: nat"])
      next
        case long: False
        let ?fr = "\<lparr>Data = take n rest, Checksum = sha256_Sum256 (take n rest), IsLast = False\<rparr>"
        let ?reader = "reader\<lparr>cr_file := Some (f\<lparr>f_pos := f_pos f + n\<rparr>)\<rparr>"
        have fr: "chunk_frames n rest = ?fr # chunk_frames n (drop n rest)"
          using ne long "1.prems"(1) by (subst chunk_frames.simps) auto
        have next_eq: "cr_Next os fs reader = (?reader, Inr ?fr)"
          using nx(3) long "1.prems"(2) ok by simp
        show ?thesis
        proof (cases "send k")
          case (Some e)
          then show ?thesis
            by (auto simp: get_loop.simps [of os fs send c k reader sent] next_eq
                intro!: exI [of _ 0] exI [of _ "Some (Status Internal ''failed to send chunk frame'')"])
        next
          case None
          have "drop (f_pos (f\<lparr>f_pos := f_pos f + n\<rparr>)) (fs_data fs (f_inode (f\<lparr>f_pos := f_pos f + n\<rparr>))) = drop n rest"
            using "1.prems"(4) by (simp add: add.commute flip: drop_drop)
          from "1.IH" [OF _ _ "1.prems"(1) _ _ this, of ?reader "Suc k" "sent @ [get_response c ?fr]"]
          obtain j err where ih: "get_loop os fs send c (Suc k) ?reader (sent @ [get_response c ?fr]) =
              Some ((sent @ [get_response c ?fr]) @ map (get_response c) (take j (chunk_frames n (drop n rest))), err)"
            "err = None \<longrightarrow> length (chunk_frames n (drop n rest)) \<le> j"
            "os = reliable_os \<and> send = (\<lambda>_. None) \<longrightarrow> err = None"
            using ne long "1.prems"(1,2) by auto
          have "get_loop os fs send c k reader sent = get_loop os fs send c (Suc k) ?reader (sent @ [get_response c ?fr])"
            using None by (simp add: get_loop.simps [of os fs send c k reader sent] next_eq get_response_def)
          with ih show ?thesis
            by (intro exI [of _ "Suc j"] exI [of _ err]) (simp add: fr)
        qed
      qed
    qed
  qed
qed

lemma GetChunk_stored:
  assumes ci: "checksum_index cs sums ready" and inv: "store_inv sums ready d" and os: "no_eof_faults os"
    and v: "chunks sums d c = Some v"
  shows "\<exists>j err. GetChunk os cs send d c = Some (map (get_response c) (take j (chunk_frames 32768 v)), err)
    \<and> (err = None \<longrightarrow> length (chunk_frames 32768 v) \<le> j)
    \<and> (os = reliable_os \<and> send = (\<lambda>_. None) \<longrightarrow> err = None)"
proof -
  note wf = store_invD(1) [OF inv] and s = chunks_Some [OF inv v]
  have c: "c \<noteq> ''''" by (rule valid_id_facts(1) [OF wf s(1)])
  have ex: "ds_Exists cs (d_store d) c" using checksum_index.Exists_chunks [OF ci inv] v by simp
  obtain i where i: "fs_names (d_fs d) (chunk_path (d_store d) c) = Some i" "fs_data (d_fs d) i = v"
    using s(2) by (auto simp: fs_content_def)
  show ?thesis
  proof (cases "os_fault os OsOpen (chunk_path (d_store d) c)")
    case (Some e)
    then have "os \<noteq> reliable_os" by auto
    moreover have "NewChunkReader os cs d c 0 = Inl e"
      using c ex Some by (simp add: NewChunkReader_def PathForChunk_path [OF wf s(1)] os_Open_def)
    ultimately show ?thesis using c ex by (intro exI [of _ 0]) (simp add: GetChunk_def)
  next
    case None
    let ?f = "\<lparr>f_inode = i, f_pos = 0, f_name = chunk_path (d_store d) c\<rparr>"
    let ?reader = "\<lparr>cr_chunkId = c, cr_file = Some ?f, cr_frameSize = DefaultFrameSize\<rparr>"
    have new: "NewChunkReader os cs d c 0 = Inr ?reader"
      using c ex None i(1) by (simp add: NewChunkReader_def PathForChunk_path [OF wf s(1)] os_Open_def)
    have "\<exists>j err. get_loop os (d_fs d) send c 0 ?reader [] =
        Some ([] @ map (get_response c) (take j (chunk_frames 32768 v)), err)
      \<and> (err = None \<longrightarrow> length (chunk_frames 32768 v) \<le> j)
      \<and> (os = reliable_os \<and> send = (\<lambda>_. None) \<longrightarrow> err = None)"
      by (rule get_loop_prefix [OF os, where f = ?f]) (simp_all add: DefaultFrameSize_def i)
    then show ?thesis using c ex new by (simp add: GetChunk_def)
  qed
qed



end
