(* ===== verification/Replication.thy ===== *)
theory Replication
  imports Storage_Server Retry
begin

text \<open>
  Replication between storage nodes (\<^verbatim>\<open>src/storage/replication/manager.go\<close>): the
  repair queue with its set of jobs in flight and its workers, the fan-out of a new
  chunk to its replicas with a quorum, and the transfer of one chunk over a
  bidirectional stream. The stream to the peer is a table of its three operations
  over a peer state; \<open>receiver\<close> is the stream whose other end is the handler
  \<open>ReplicateChunk\<close> of the theory \<open>Storage_Server\<close>, with every message delivered in order.
\<close>

section \<open>The repair queue\<close>

record RepairJob =
  rq_JobID :: string
  rq_ChunkID :: string
  rq_Source :: string
  rq_Target :: string

definition repairQueueCap :: nat where "repairQueueCap = 256"
definition numRepairWorkers :: nat where "numRepairWorkers = 4"

record ReplicationManager =
  rm_policy :: Policy
  rm_nodeID :: string
  rm_repairQ :: "RepairJob list"
  rm_inflight :: "string set"
  rm_cancelled :: bool

definition NewReplicationManager :: "string \<Rightarrow> ReplicationManager" where
  "NewReplicationManager nodeID =
     \<lparr>rm_policy = DefaultRetryPolicy, rm_nodeID = nodeID, rm_repairQ = [], rm_inflight = {}, rm_cancelled = False\<rparr>"

definition job_key :: "RepairJob \<Rightarrow> string" where
  "job_key job = rq_ChunkID job @ '':'' @ rq_Target job"

text \<open>
  \<open>EnqueueRepair\<close> holds the lock while it reserves the key, and sends to the channel
  after it has released it.
\<close>

definition enqueue_reserve :: "'a ReplicationManager_scheme \<Rightarrow> RepairJob \<Rightarrow> 'a ReplicationManager_scheme option" where
  "enqueue_reserve m job =
     (if job_key job \<in> rm_inflight m then None
      else Some (m\<lparr>rm_inflight := insert (job_key job) (rm_inflight m)\<rparr>))"

definition enqueue_send :: "'a ReplicationManager_scheme \<Rightarrow> RepairJob \<Rightarrow> 'a ReplicationManager_scheme \<times> bool" where
  "enqueue_send m job =
     (if length (rm_repairQ m) < repairQueueCap then (m\<lparr>rm_repairQ := rm_repairQ m @ [job]\<rparr>, True)
      else (m\<lparr>rm_inflight := rm_inflight m - {job_key job}\<rparr>, False))"

definition EnqueueRepair :: "'a ReplicationManager_scheme \<Rightarrow> RepairJob \<Rightarrow> 'a ReplicationManager_scheme \<times> bool" where
  "EnqueueRepair m job =
     (case enqueue_reserve m job of None \<Rightarrow> (m, True) | Some m1 \<Rightarrow> enqueue_send m1 job)"

record ReportRepairResultRequest =
  rrq_JobId :: string
  rrq_JobSucceed :: bool
  rrq_Error :: "goerror option"
  rrq_NodeId :: string

text \<open>
  A worker takes the next job, replicates the chunk with retries, reports the
  outcome to the metadata cluster, and releases the key.
\<close>

definition worker_pick :: "'a ReplicationManager_scheme \<Rightarrow> ('a ReplicationManager_scheme \<times> RepairJob) option" where
  "worker_pick m = (case rm_repairQ m of [] \<Rightarrow> None | job # q \<Rightarrow> Some (m\<lparr>rm_repairQ := q\<rparr>, job))"

definition worker_replicate ::
  "retry_env \<Rightarrow> ('w \<Rightarrow> string \<Rightarrow> string \<Rightarrow> 'w \<times> goerror option) \<Rightarrow> 'a ReplicationManager_scheme \<Rightarrow> RepairJob \<Rightarrow> 'w
   \<Rightarrow> 'w \<times> ReportRepairResultRequest" where
  "worker_replicate env replicate1 m job w =
     (let r = Do (rm_policy m) env (\<lambda>w. replicate1 w (rq_ChunkID job) (rq_Target job)) w
      in (ro_world r,
          \<lparr>rrq_JobId = rq_JobID job, rrq_JobSucceed = (ro_err r = None), rrq_Error = ro_err r, rrq_NodeId = rm_nodeID m\<rparr>))"

definition worker_release :: "'a ReplicationManager_scheme \<Rightarrow> RepairJob \<Rightarrow> 'a ReplicationManager_scheme" where
  "worker_release m job = m\<lparr>rm_inflight := rm_inflight m - {job_key job}\<rparr>"

definition rm_Stop :: "'a ReplicationManager_scheme \<Rightarrow> 'a ReplicationManager_scheme" where
  "rm_Stop m = m\<lparr>rm_cancelled := True\<rparr>"

text \<open>
  The goroutines around a manager: the callers between reserving and sending, the
  jobs the workers hold, and the number of idle workers.
\<close>

record repair_pool = ReplicationManager +
  pl_sending :: "RepairJob list"
  pl_active :: "RepairJob list"
  pl_idle :: nat

definition rm_Start :: "ReplicationManager \<Rightarrow> repair_pool" where
  "rm_Start m = ReplicationManager.extend m \<lparr>pl_sending = [], pl_active = [], pl_idle = numRepairWorkers\<rparr>"

inductive pool_step :: "repair_pool \<Rightarrow> repair_pool \<Rightarrow> bool" where
  Reserve: "enqueue_reserve p job = Some p' \<Longrightarrow> pool_step p (p'\<lparr>pl_sending := job # pl_sending p\<rparr>)"
| Send: "job \<in> set (pl_sending p) \<Longrightarrow>
    pool_step p ((fst (enqueue_send p job))\<lparr>pl_sending := remove1 job (pl_sending p)\<rparr>)"
| Pick: "worker_pick p = Some (p', job) \<Longrightarrow> pl_idle p = Suc n \<Longrightarrow>
    pool_step p (p'\<lparr>pl_active := job # pl_active p, pl_idle := n\<rparr>)"
| Finish: "job \<in> set (pl_active p) \<Longrightarrow>
    pool_step p ((worker_release p job)\<lparr>pl_active := remove1 job (pl_active p), pl_idle := Suc (pl_idle p)\<rparr>)"
| Stop: "pool_step p (rm_Stop p)"
| Exit: "rm_cancelled p \<Longrightarrow> pl_idle p = Suc n \<Longrightarrow> pool_step p (p\<lparr>pl_idle := n\<rparr>)"

inductive pool_reach :: "string \<Rightarrow> repair_pool \<Rightarrow> bool" for nodeID where
  Begin: "pool_reach nodeID (rm_Start (NewReplicationManager nodeID))"
| Then: "pool_reach nodeID p \<Longrightarrow> pool_step p p' \<Longrightarrow> pool_reach nodeID p'"

text \<open>
  The keys of the jobs that are queued, held by a worker or about to be sent. The
  set of keys in flight is exactly this collection, in which no key occurs twice.
\<close>

definition pool_keys :: "repair_pool \<Rightarrow> string list" where
  "pool_keys p = map job_key (rm_repairQ p @ pl_active p @ pl_sending p)"

definition keys_ok :: "string set \<Rightarrow> string list \<Rightarrow> bool" where
  "keys_ok I ks \<longleftrightarrow> distinct ks \<and> I = set ks"

definition pool_inv :: "repair_pool \<Rightarrow> bool" where
  "pool_inv p \<longleftrightarrow>
     keys_ok (rm_inflight p) (pool_keys p)
     \<and> length (rm_repairQ p) \<le> repairQueueCap \<and> length (pl_active p) + pl_idle p \<le> numRepairWorkers"

lemma keys_ok_perm: "mset ks' = mset ks \<Longrightarrow> keys_ok I ks \<Longrightarrow> keys_ok I ks'"
  by (auto simp: keys_ok_def dest: mset_eq_setD mset_eq_imp_distinct_iff)

lemma keys_ok_add: "mset ks' = add_mset k (mset ks) \<Longrightarrow> k \<notin> I \<Longrightarrow> keys_ok I ks \<Longrightarrow> keys_ok (insert k I) ks'"
  using keys_ok_perm [of ks' "k # ks" "insert k I"] by (simp add: keys_ok_def)

lemma keys_ok_del: "mset ks = add_mset k (mset ks') \<Longrightarrow> keys_ok I ks \<Longrightarrow> keys_ok (I - {k}) ks'"
  using keys_ok_perm [of "k # ks'" ks I] by (auto simp: keys_ok_def)

lemma mset_keys_remove1:
  "x \<in> set xs \<Longrightarrow> image_mset f (mset xs) = add_mset (f x) (image_mset f (mset (remove1 x xs)))"
  by (induction xs) auto

lemma pool_inv_step: "pool_step p p' \<Longrightarrow> pool_inv p \<Longrightarrow> pool_inv p'"
proof (induction rule: pool_step.induct)
  case (Reserve p job p')
  then have new: "job_key job \<notin> rm_inflight p" "p' = p\<lparr>rm_inflight := insert (job_key job) (rm_inflight p)\<rparr>"
    by (auto simp: enqueue_reserve_def split: if_splits)
  have "mset (pool_keys (p'\<lparr>pl_sending := job # pl_sending p\<rparr>)) = add_mset (job_key job) (mset (pool_keys p))"
    by (simp add: pool_keys_def new)
  from keys_ok_add [OF this new(1)] Reserve new show ?case by (simp add: pool_inv_def)
next
  case (Send job p)
  let ?p = "(fst (enqueue_send p job))\<lparr>pl_sending := remove1 job (pl_sending p)\<rparr>"
  note r = mset_keys_remove1 [OF Send(1), of job_key]
  show ?case
  proof (cases "length (rm_repairQ p) < repairQueueCap")
    case True
    then have "mset (pool_keys ?p) = mset (pool_keys p)" using r by (simp add: pool_keys_def enqueue_send_def)
    from keys_ok_perm [OF this] Send True show ?thesis by (simp add: pool_inv_def enqueue_send_def)
  next
    case False
    then have "mset (pool_keys p) = add_mset (job_key job) (mset (pool_keys ?p))"
      using r by (simp add: pool_keys_def enqueue_send_def)
    from keys_ok_del [OF this] Send False show ?thesis by (simp add: pool_inv_def enqueue_send_def)
  qed
next
  case (Pick p p' job n)
  then obtain q where q: "rm_repairQ p = job # q" "p' = p\<lparr>rm_repairQ := q\<rparr>"
    by (auto simp: worker_pick_def split: list.splits)
  have "mset (pool_keys (p'\<lparr>pl_active := job # pl_active p, pl_idle := n\<rparr>)) = mset (pool_keys p)"
    by (simp add: pool_keys_def q)
  from keys_ok_perm [OF this] Pick q show ?case by (simp add: pool_inv_def)
next
  case (Finish job p)
  let ?p = "(worker_release p job)\<lparr>pl_active := remove1 job (pl_active p), pl_idle := Suc (pl_idle p)\<rparr>"
  have "mset (pool_keys p) = add_mset (job_key job) (mset (pool_keys ?p))"
    using mset_keys_remove1 [OF Finish(1), of job_key] by (simp add: pool_keys_def worker_release_def)
  moreover have "Suc (length (remove1 job (pl_active p))) = length (pl_active p)"
    using Finish(1) length_pos_if_in_set [OF Finish(1)] by (simp add: length_remove1)
  ultimately show ?case using keys_ok_del [of "pool_keys p" "job_key job" "pool_keys ?p"] Finish
    by (simp add: pool_inv_def worker_release_def)
next
  case (Stop p)
  then show ?case by (simp add: pool_inv_def pool_keys_def rm_Stop_def)
next
  case (Exit p n)
  then show ?case by (simp add: pool_inv_def pool_keys_def)
qed

lemma pool_reach_inv: "pool_reach nodeID p \<Longrightarrow> pool_inv p"
proof (induction rule: pool_reach.induct)
  case Begin
  then show ?case
    by (simp add: pool_inv_def pool_keys_def keys_ok_def rm_Start_def NewReplicationManager_def
        ReplicationManager.extend_def)
qed (rule pool_inv_step)

text \<open>
  C29: The repair queue deduplicates and stays bounded, whatever the interleaving of
  callers and workers. In every reachable state the keys in flight are exactly
  those of the jobs queued, held by a worker or about to be queued, and no
  (chunk, target) pair occurs twice; at most 256 jobs wait and at most four are
  worked on. \<open>EnqueueRepair\<close> answers true exactly for a pair in flight or when there is
  room; a fresh job is appended, and in every other case nothing changes.
\<close>

theorem repair_queue_dedup:
  assumes "pool_reach nodeID p"
  shows "distinct (pool_keys p) \<and> rm_inflight p = set (pool_keys p)
    \<and> length (rm_repairQ p) \<le> 256 \<and> length (pl_active p) \<le> 4
    \<and> EnqueueRepair p job =
        (let room = length (rm_repairQ p) < 256; dup = job_key job \<in> rm_inflight p
         in (if \<not> dup \<and> room
             then p\<lparr>rm_repairQ := rm_repairQ p @ [job], rm_inflight := insert (job_key job) (rm_inflight p)\<rparr>
             else p,
             dup \<or> room))"
proof -
  note inv = pool_reach_inv [OF assms]
  have "insert (job_key job) (rm_inflight p) - {job_key job} = rm_inflight p" if "job_key job \<notin> rm_inflight p"
    using that by auto
  then have "EnqueueRepair p job =
        (let room = length (rm_repairQ p) < 256; dup = job_key job \<in> rm_inflight p
         in (if \<not> dup \<and> room
             then p\<lparr>rm_repairQ := rm_repairQ p @ [job], rm_inflight := insert (job_key job) (rm_inflight p)\<rparr>
             else p,
             dup \<or> room))"
    by (simp add: EnqueueRepair_def enqueue_reserve_def enqueue_send_def repairQueueCap_def Let_def)
  with inv show ?thesis by (simp add: pool_inv_def keys_ok_def repairQueueCap_def numRepairWorkers_def)
qed

definition demo_job :: RepairJob where
  "demo_job = \<lparr>rq_JobID = ''j1'', rq_ChunkID = ''abcdef'', rq_Source = ''10.0.0.1:9'', rq_Target = ''10.0.0.2:9''\<rparr>"

theorem repair_queue_dedup_witness:
  "EnqueueRepair (rm_Start (NewReplicationManager ''n1'')) demo_job =
     ((rm_Start (NewReplicationManager ''n1''))\<lparr>rm_repairQ := [demo_job], rm_inflight := {''abcdef:10.0.0.2:9''}\<rparr>, True)"
  using repair_queue_dedup [OF pool_reach.Begin, of "''n1''" demo_job]
  by (simp add: rm_Start_def NewReplicationManager_def ReplicationManager.extend_def job_key_def demo_job_def Let_def)

text \<open>
  A duplicate can be accepted and lost: between reserving and sending, a second
  caller is told that the job is in flight, and then the send finds the queue full.
\<close>

lemma duplicate_accepted_then_dropped:
  assumes "job_key job \<notin> rm_inflight p" "\<not> length (rm_repairQ p) < repairQueueCap"
    "enqueue_reserve p job = Some p1"
  shows "EnqueueRepair p1 job = (p1, True)" "enqueue_send p1 job = (p, False)"
proof -
  have p1: "p1 = p\<lparr>rm_inflight := insert (job_key job) (rm_inflight p)\<rparr>"
    using assms(1,3) by (simp add: enqueue_reserve_def)
  show "EnqueueRepair p1 job = (p1, True)" by (simp add: p1 EnqueueRepair_def enqueue_reserve_def)
  have "insert (job_key job) (rm_inflight p) - {job_key job} = rm_inflight p" using assms(1) by auto
  then show "enqueue_send p1 job = (p, False)" using assms(2) by (simp add: p1 enqueue_send_def)
qed

section \<open>Fan-out\<close>

text \<open>
  What the collecting loop receives: the result for a target, the fan-out timer, or
  the cancelled context. The timer bounds the wait, so the end of the list of
  events is the timer.
\<close>

datatype fan_event = FanResult string "goerror option" | FanTimeout | FanCancelled goerror

definition join_errors :: "goerror list \<Rightarrow> goerror" where
  "join_errors es = foldr Join es (NewError '''')"

fun fan_collect :: "nat \<Rightarrow> nat \<Rightarrow> fan_event list \<Rightarrow> string list \<Rightarrow> goerror list \<Rightarrow> string list \<times> goerror option" where
  "fan_collect 0 t events ok errs =
     (if length ok < t div 2 + 1 then (ok, Some (Wrap ''replication quorum not met'' (join_errors errs)))
      else (ok, None))"
| "fan_collect (Suc n) t (FanResult addr None # events) ok errs = fan_collect n t events (ok @ [addr]) errs"
| "fan_collect (Suc n) t (FanResult addr (Some e) # events) ok errs =
     fan_collect n t events ok (errs @ [Wrap addr e])"
| "fan_collect (Suc n) t (FanCancelled e # events) ok errs = (ok, Some e)"
| "fan_collect (Suc n) t _ ok errs = (ok, Some (NewError ''replication fan-out timed out''))"

definition ReplicateToNodesWithResult :: "string list \<Rightarrow> bool \<Rightarrow> fan_event list \<Rightarrow> string list \<times> goerror option" where
  "ReplicateToNodesWithResult ts async events =
     (if ts = [] then ([], None)
      else if async then ([], None)
      else fan_collect (length ts) (length ts) events [] [])"

definition ReplicateToNodes :: "string list \<Rightarrow> bool \<Rightarrow> fan_event list \<Rightarrow> goerror option" where
  "ReplicateToNodes ts async events = snd (ReplicateToNodesWithResult ts async events)"

definition is_result :: "fan_event \<Rightarrow> bool" where
  "is_result e = (case e of FanResult _ _ \<Rightarrow> True | _ \<Rightarrow> False)"

definition succeeded :: "fan_event list \<Rightarrow> string list" where
  "succeeded es = concat (map (\<lambda>e. case e of FanResult a None \<Rightarrow> [a] | _ \<Rightarrow> []) (takeWhile is_result es))"

lemma fan_collect_spec:
  "case fan_collect n t events ok errs of (ok', err) \<Rightarrow>
     ok' = ok @ succeeded (take n events)
     \<and> (err = None \<longleftrightarrow> n \<le> length events \<and> list_all is_result (take n events)
          \<and> t div 2 + 1 \<le> length ok + length (succeeded (take n events)))"
proof (induction n t events ok errs rule: fan_collect.induct)
  case (2 n t addr events ok errs)
  then show ?case by (auto simp: succeeded_def is_result_def)
next
  case (3 n t addr e events ok errs)
  then show ?case by (auto simp: succeeded_def is_result_def)
qed (auto simp: succeeded_def is_result_def)

text \<open>
  The synchronous fan-out reports the truth about its replicas. The nodes it
  returns are exactly those whose success arrived before the timer or a
  cancellation, in order of arrival; it succeeds exactly if there was nothing to do,
  or the results of all targets arrived and a strict majority of them succeeded.
  The asynchronous fan-out returns no node and no error.
\<close>

theorem fan_out_quorum:
  "fst (ReplicateToNodesWithResult ts False events) = succeeded (take (length ts) events)
   \<and> (ReplicateToNodes ts False events = None \<longleftrightarrow>
        ts = [] \<or> (length ts \<le> length events \<and> list_all is_result (take (length ts) events)
                    \<and> length ts < 2 * length (succeeded (take (length ts) events))))
   \<and> ReplicateToNodesWithResult ts True events = ([], None)"
proof -
  have half: "t div 2 + 1 \<le> k \<longleftrightarrow> t < 2 * k" for t k :: nat by linarith
  have "succeeded [] = []" by (simp add: succeeded_def)
  then show ?thesis
    using fan_collect_spec [where n = "length ts" and t = "length ts" and events = events and ok = "[]" and errs = "[]"]
    by (cases "fan_collect (length ts) (length ts) events [] []")
       (auto simp: ReplicateToNodesWithResult_def ReplicateToNodes_def half)
qed

section \<open>The transfer of one chunk\<close>

record 'p peer_stream =
  st_Send :: "'p \<Rightarrow> ReplicateChunkRequest \<Rightarrow> 'p \<times> goerror option"
  st_Recv :: "'p \<Rightarrow> 'p \<times> ReplicateChunkResponse result"
  st_CloseSend :: "'p \<Rightarrow> 'p \<times> goerror option"

text \<open>
  The loop that sends the frames and waits for the acknowledgement of each. It
  leaves with no error where the program breaks out of the loop.
\<close>

partial_function (option) send_loop ::
  "os_env \<Rightarrow> filesystem \<Rightarrow> 'p peer_stream \<Rightarrow> string \<Rightarrow> bool \<Rightarrow> ChunkReader \<Rightarrow> 'p \<Rightarrow> ('p \<times> goerror option) option" where
  "send_loop os fs strm chunkId isFirst reader p =
     (case cr_Next os fs reader of
        (reader', Inl e) \<Rightarrow>
          if e = EOF then Some (p, None) else Some (p, Some (Wrap ''read frame'' e))
      | (reader', Inr frame) \<Rightarrow>
          (case st_Send strm p \<lparr>rcq_ChunkId = chunkId, rcq_Data = Data frame, rcq_IsFirst = isFirst, rcq_IsLast = IsLast frame\<rparr> of
             (p1, Some e) \<Rightarrow> Some (p1, Some (Wrap ''send frame'' e))
           | (p1, None) \<Rightarrow>
               (case st_Recv strm p1 of
                  (p2, Inl e) \<Rightarrow> Some (p2, Some (Wrap ''recv ack'' e))
                | (p2, Inr ack) \<Rightarrow>
                    if \<not> rcr_Ok ack then Some (p2, Some (NewError ''negative ack''))
                    else if IsLast frame then Some (p2, None)
                    else send_loop os fs strm chunkId False reader' p2)))"

text \<open>
  \<open>ctxDone\<close>, \<open>dialErr\<close> and \<open>openErr\<close> are the failures before the first frame: the context is
  cancelled before a slot of the semaphore is free, the dialer has no connection,
  the call cannot be opened.
\<close>

definition replicateToSingleNode ::
  "os_env \<Rightarrow> 'ix ChecksumIndexStore \<Rightarrow> 'ix disk \<Rightarrow> 'p peer_stream \<Rightarrow> goerror option \<Rightarrow> goerror option \<Rightarrow> goerror option
   \<Rightarrow> string \<Rightarrow> 'p \<Rightarrow> ('p \<times> goerror option) option" where
  "replicateToSingleNode os cs d strm ctxDone dialErr openErr chunkId p =
     (case ctxDone of
        Some e \<Rightarrow> Some (p, Some e)
      | None \<Rightarrow>
     (case dialErr of
        Some e \<Rightarrow> Some (p, Some (Wrap ''dial'' e))
      | None \<Rightarrow>
     (case openErr of
        Some e \<Rightarrow> Some (p, Some (Wrap ''open ReplicateChunk stream'' e))
      | None \<Rightarrow>
     (case NewChunkReader os cs d chunkId 0 of
        Inl e \<Rightarrow> Some (p, Some (Wrap ''open ChunkReader'' e))
      | Inr reader \<Rightarrow>
     (case send_loop os (d_fs d) strm chunkId True reader p of
        None \<Rightarrow> None
      | Some (p1, Some e) \<Rightarrow> Some (p1, Some e)
      | Some (p1, None) \<Rightarrow>
          (case st_CloseSend strm p1 of
             (p2, Some e) \<Rightarrow> Some (p2, Some (Wrap ''close send'' e))
           | (p2, None) \<Rightarrow>
               (case st_Recv strm p2 of
                  (p3, Inr _) \<Rightarrow> Some (p3, None)
                | (p3, Inl e) \<Rightarrow>
                    Some (p3, if e = EOF then None else Some (Wrap ''recv final response'' e)))))))))"

text \<open>
  The receiving end: the variables of one running \<open>ReplicateChunk\<close> call, the responses it
  has sent and the sender has not received, and its result once it has returned.
  A sender that waits for a response of a call that neither answers nor returns
  waits until its deadline.
\<close>

record 'ix rc_call =
  rp_disk :: "'ix disk"
  rp_writer :: "ChunkWriter option"
  rp_registered :: string
  rp_out :: "ReplicateChunkResponse list"
  rp_result :: "goerror option option"

definition new_call :: "'ix disk \<Rightarrow> 'ix rc_call" where
  "new_call d = \<lparr>rp_disk = d, rp_writer = None, rp_registered = '''', rp_out = [], rp_result = None\<rparr>"

definition receiver :: "os_env \<Rightarrow> 'ix ChecksumIndexStore \<Rightarrow> 'ix rc_call peer_stream" where
  "receiver os cs =
     \<lparr>st_Send = (\<lambda>p req.
        case rp_result p of
          Some _ \<Rightarrow> (p, Some EOF)
        | None \<Rightarrow>
            (case rc_frame os cs None (rp_disk p) (rp_writer p) (rp_registered p) req of
               (d, w, reg, resp, round) \<Rightarrow>
                 (\<lparr>rp_disk = d, rp_writer = w, rp_registered = reg,
                   rp_out = rp_out p @ (case resp of None \<Rightarrow> [] | Some r \<Rightarrow> [r]),
                   rp_result = (case round of RcReturn e \<Rightarrow> Some e | RcContinue \<Rightarrow> None)\<rparr>, None))),
      st_Recv = (\<lambda>p.
        case rp_out p of
          r # rs \<Rightarrow> (p\<lparr>rp_out := rs\<rparr>, Inr r)
        | [] \<Rightarrow> (p, Inl (case rp_result p of
              Some None \<Rightarrow> EOF
            | Some (Some e) \<Rightarrow> e
            | None \<Rightarrow> Status DeadlineExceeded ''context deadline exceeded''))),
      st_CloseSend = (\<lambda>p.
        (case rp_result p of
           Some _ \<Rightarrow> p
         | None \<Rightarrow> p\<lparr>rp_result := Some (case rp_writer p of
               None \<Rightarrow> Some (Status InvalidArgument ''no frames received'') | Some _ \<Rightarrow> None)\<rparr>, None))\<rparr>"

text \<open>Sending all frames of a stream and closing it is one run of the handler.\<close>

fun send_all :: "'p peer_stream \<Rightarrow> 'p \<Rightarrow> ReplicateChunkRequest list \<Rightarrow> 'p" where
  "send_all strm p [] = fst (st_CloseSend strm p)"
| "send_all strm p (f # fs) = send_all strm (fst (st_Send strm p f)) fs"

lemma send_all_returned:
  "rp_result p = Some e \<Longrightarrow> send_all (receiver os cs) p frames = p"
  by (induction frames) (auto simp: receiver_def)

lemma receiver_runs_handler:
  assumes "rp_result p = None"
  shows "case rc_loop (\<lambda>_. os) cs (\<lambda>_. None) k (rp_disk p) (rp_writer p) (rp_registered p) frames None of
      (d', rs, err) \<Rightarrow> rp_disk (send_all (receiver os cs) p frames) = d'
        \<and> rp_out (send_all (receiver os cs) p frames) = rp_out p @ rs
        \<and> rp_result (send_all (receiver os cs) p frames) = Some err"
  using assms
proof (induction frames arbitrary: p k)
  case Nil
  then show ?case by (simp add: receiver_def)
next
  case (Cons f frames)
  obtain d w reg resp round where f: "rc_frame os cs None (rp_disk p) (rp_writer p) (rp_registered p) f = (d, w, reg, resp, round)"
    by (cases "rc_frame os cs None (rp_disk p) (rp_writer p) (rp_registered p) f")
  define p1 where "p1 = fst (st_Send (receiver os cs) p f)"
  have p1: "p1 = \<lparr>rp_disk = d, rp_writer = w, rp_registered = reg,
      rp_out = rp_out p @ (case resp of None \<Rightarrow> [] | Some r \<Rightarrow> [r]),
      rp_result = (case round of RcReturn e \<Rightarrow> Some e | RcContinue \<Rightarrow> None)\<rparr>"
    using Cons.prems f by (simp add: p1_def receiver_def)
  show ?case
  proof (cases round)
    case (RcReturn e)
    then show ?thesis using send_all_returned [of p1 e os cs frames] f
      by (simp add: p1_def [symmetric]) (simp add: p1)
  next
    case RcContinue
    then have "rp_result p1 = None" by (simp add: p1)
    from Cons.IH [OF this, of "Suc k"] show ?thesis
      using RcContinue f by (simp add: p1_def [symmetric] split: prod.splits) (simp add: p1)
  qed
qed

section \<open>A transfer copies the chunk\<close>

text \<open>The state of the receiving call before a frame: \<open>pre\<close> is what it has received of chunk \<open>c\<close>.\<close>

definition receiving ::
  "('ix \<Rightarrow> string \<rightharpoonup> bytes) \<Rightarrow> ('ix \<Rightarrow> bool) \<Rightarrow> 'ix disk \<Rightarrow> string \<Rightarrow> bool \<Rightarrow> bytes \<Rightarrow> 'ix rc_call \<Rightarrow> bool" where
  "receiving sums ready d0 c first pre p \<longleftrightarrow>
     rp_out p = [] \<and> rp_result p = None \<and> store_inv sums ready (rp_disk p)
     \<and> chunks sums (rp_disk p) = chunks sums d0 \<and> d_store (rp_disk p) = d_store d0
     \<and> (if first then pre = [] \<and> rp_writer p = None \<and> temp_ready (rp_disk p)
        else rp_registered p = c
          \<and> (\<exists>w. rp_writer p = Some w \<and> writer_inv (rp_disk p) w \<and> cw_hasher w = pre \<and> cw_chunkId w = c))"

lemma rc_open_receiving:
  assumes p: "receiving sums ready d0 c first pre p" and c: "valid_id (d_store d0) c"
    and r: "rcq_IsFirst r = first" "rcq_ChunkId r = c"
  obtains d1 w where "rc_open reliable_os (rp_disk p) (rp_writer p) (rp_registered p) r = Inr (d1, w, c)"
    "store_inv sums ready d1" "chunks sums d1 = chunks sums d0" "d_store d1 = d_store d0" "writer_inv d1 w"
    "cw_hasher w = pre" "cw_chunkId w = c"
proof (cases first)
  case True
  with p have i: "store_inv sums ready (rp_disk p)" "temp_ready (rp_disk p)" "valid_id (d_store (rp_disk p)) c"
    using c by (simp_all add: receiving_def)
  have "c \<noteq> ''''" by (rule valid_id_facts(1) [OF store_invD(1) [OF i(1)] i(3)])
  moreover obtain d1 w where n: "NewChunkWriter reliable_os c (rp_disk p) = Inr (d1, w)" "store_inv sums ready d1"
    "chunks sums d1 = chunks sums (rp_disk p)" "d_store d1 = d_store (rp_disk p)" "writer_inv d1 w" "cw_chunkId w = c"
    "cw_hasher w = []"
    by (rule NewChunkWriter_ok [OF i])
  ultimately have "rc_open reliable_os (rp_disk p) (rp_writer p) (rp_registered p) r = Inr (d1, w, c)"
    using True r by (simp add: rc_open_def)
  with n p True show thesis by (intro that) (simp_all add: receiving_def)
next
  case False
  with p obtain w where w: "rp_writer p = Some w" "writer_inv (rp_disk p) w" "cw_hasher w = pre" "cw_chunkId w = c"
    "rp_registered p = c" by (auto simp: receiving_def)
  then have "rc_open reliable_os (rp_disk p) (rp_writer p) (rp_registered p) r = Inr (rp_disk p, w, c)"
    using False r by (simp add: rc_open_def)
  with w p show thesis by (intro that) (simp_all add: receiving_def)
qed

text \<open>What one frame does to the call, for a frame in the middle and for the last frame.\<close>

lemma send_middle_frame:
  assumes p: "receiving sums ready d0 c first pre p" and c: "valid_id (d_store d0) c" and data: "data \<noteq> []"
  obtains p1 p2 where
    "st_Send (receiver reliable_os cs) p \<lparr>rcq_ChunkId = c, rcq_Data = data, rcq_IsFirst = first, rcq_IsLast = False\<rparr> = (p1, None)"
    "st_Recv (receiver reliable_os cs) p1 = (p2, Inr \<lparr>rcr_Ok = True, rcr_IsFinal = False, rcr_ChunkId = '''', rcr_Checksum = []\<rparr>)"
    "receiving sums ready d0 c False (pre @ data) p2"
proof -
  let ?r = "\<lparr>rcq_ChunkId = c, rcq_Data = data, rcq_IsFirst = first, rcq_IsLast = False\<rparr>"
  obtain d1 w where o: "rc_open reliable_os (rp_disk p) (rp_writer p) (rp_registered p) ?r = Inr (d1, w, c)"
    "store_inv sums ready d1" "chunks sums d1 = chunks sums d0" "d_store d1 = d_store d0" "writer_inv d1 w"
    "cw_hasher w = pre" "cw_chunkId w = c"
    by (rule rc_open_receiving [OF p c, of ?r]) simp_all
  obtain d2 w2 where wr: "cw_Write reliable_os w d1 data = (d2, w2, None)" "store_inv sums ready d2"
    "chunks sums d2 = chunks sums d1" "d_store d2 = d_store d1" "writer_inv d2 w2" "cw_chunkId w2 = cw_chunkId w"
    "cw_hasher w2 = cw_hasher w @ data"
    by (rule cw_Write_ok [OF o(2,5)])
  let ?p2 = "\<lparr>rp_disk = d2, rp_writer = Some w2, rp_registered = c, rp_out = [], rp_result = None\<rparr>"
  let ?ack = "\<lparr>rcr_Ok = True, rcr_IsFinal = False, rcr_ChunkId = '''', rcr_Checksum = []\<rparr>"
  have "st_Send (receiver reliable_os cs) p ?r = (?p2\<lparr>rp_out := [?ack]\<rparr>, None)"
    using p o(1) wr(1) data by (simp add: receiver_def receiving_def rc_frame_def)
  moreover have "st_Recv (receiver reliable_os cs) (?p2\<lparr>rp_out := [?ack]\<rparr>) = (?p2, Inr ?ack)"
    by (simp add: receiver_def)
  moreover have "receiving sums ready d0 c False (pre @ data) ?p2"
    using wr o by (simp add: receiving_def)
  ultimately show thesis using that by blast
qed

context reliable_index
begin

lemma send_last_frame:
  assumes p: "receiving sums ready d0 c first pre p" and c: "valid_id (d_store d0) c" and data: "data \<noteq> []"
    and len: "length (pre @ data) < 2 ^ 64"
  obtains p1 e where
    "st_Send (receiver reliable_os cs) p \<lparr>rcq_ChunkId = c, rcq_Data = data, rcq_IsFirst = first, rcq_IsLast = True\<rparr> = (p1, None)"
    "store_inv sums ready (rp_disk p1)"
    "(chunks sums (rp_disk p1), e) =
       spec_put (valid_id (d_store d0)) (unat (totalSpace (d_store d0))) (chunks sums d0) c (pre @ data)"
    "e = None \<longrightarrow> rp_result p1 = Some None \<and> (\<exists>r. rp_out p1 = [r] \<and> rcr_Ok r)"
    "e \<noteq> None \<longrightarrow> rp_result p1 = Some (Some (Status Internal ''failed to finalise chunk'')) \<and> rp_out p1 = []"
proof -
  let ?r = "\<lparr>rcq_ChunkId = c, rcq_Data = data, rcq_IsFirst = first, rcq_IsLast = True\<rparr>"
  obtain d1 w where o: "rc_open reliable_os (rp_disk p) (rp_writer p) (rp_registered p) ?r = Inr (d1, w, c)"
    "store_inv sums ready d1" "chunks sums d1 = chunks sums d0" "d_store d1 = d_store d0" "writer_inv d1 w"
    "cw_hasher w = pre" "cw_chunkId w = c"
    by (rule rc_open_receiving [OF p c, of ?r]) simp_all
  obtain d2 w2 where wr: "cw_Write reliable_os w d1 data = (d2, w2, None)" "store_inv sums ready d2"
    "chunks sums d2 = chunks sums d1" "d_store d2 = d_store d1" "writer_inv d2 w2" "cw_chunkId w2 = cw_chunkId w"
    "cw_hasher w2 = cw_hasher w @ data"
    by (rule cw_Write_ok [OF o(2,5)])
  obtain d3 w3 e where fin: "cw_Finalize reliable_os cs w2 d2 (ComputedChecksum w2) = (d3, w3, e)"
    by (cases "cw_Finalize reliable_os cs w2 d2 (ComputedChecksum w2)")
  have "length (cw_hasher w2) < 2 ^ 64" using len wr(7) o(6) by simp
  from cw_Finalize_ok [OF wr(2,5) this fin] wr o
  have f: "store_inv sums ready d3" "(chunks sums d3, e) =
      spec_put (valid_id (d_store d0)) (unat (totalSpace (d_store d0))) (chunks sums d0) c (pre @ data)"
    by (simp_all add: ComputedChecksum_def)
  define p1 where "p1 = fst (st_Send (receiver reliable_os cs) p ?r)"
  have p1: "st_Send (receiver reliable_os cs) p ?r = (p1, None)" "rp_disk p1 = d3"
    "e = None \<longrightarrow> rp_result p1 = Some None \<and> (\<exists>r. rp_out p1 = [r] \<and> rcr_Ok r)"
    "e \<noteq> None \<longrightarrow> rp_result p1 = Some (Some (Status Internal ''failed to finalise chunk'')) \<and> rp_out p1 = []"
    using p o(1) wr(1) fin data by (cases e; simp add: p1_def receiver_def receiving_def rc_frame_def)+
  show thesis by (rule that [OF p1(1) _ _ p1(3,4)]) (simp_all add: p1(2) f)
qed

lemma send_loop_copies:
  assumes c: "valid_id (d_store d0) c"
    and "0 < n" "rest \<noteq> []" "cr_frameSize reader = int n" "cr_file reader = Some f"
    "drop (f_pos f) (fs_data fs (f_inode f)) = rest" "receiving sums ready d0 c first pre p"
    "length (pre @ rest) < 2 ^ 64"
  shows "\<exists>p1 err e. send_loop reliable_os fs (receiver reliable_os cs) c first reader p = Some (p1, err)
    \<and> store_inv sums ready (rp_disk p1) \<and> rp_out p1 = []
    \<and> (chunks sums (rp_disk p1), e) =
        spec_put (valid_id (d_store d0)) (unat (totalSpace (d_store d0))) (chunks sums d0) c (pre @ rest)
    \<and> (err = None \<longleftrightarrow> e = None) \<and> (e = None \<longrightarrow> rp_result p1 = Some None) \<and> rp_result p1 \<noteq> None"
  using assms(2-)
proof (induction n rest arbitrary: reader f first pre p rule: chunk_frames.induct)
  case (1 n rest)
  have pos: "0 < cr_frameSize reader" using "1.prems" by simp
  note nx = cr_Next_reliable [OF "1.prems"(4) pos "1.prems"(5) [symmetric]]
  show ?case
  proof (cases "length rest \<le> n")
    case True
    then obtain reader' where next_eq: "cr_Next reliable_os fs reader = (reader', Inr \<lparr>Data = rest, Checksum = sha256_Sum256 rest, IsLast = True\<rparr>)"
      using nx(2) "1.prems"(2,3) by (cases "cr_Next reliable_os fs reader") simp
    obtain p1 e where l: "st_Send (receiver reliable_os cs) p \<lparr>rcq_ChunkId = c, rcq_Data = rest, rcq_IsFirst = first, rcq_IsLast = True\<rparr> = (p1, None)"
      "store_inv sums ready (rp_disk p1)"
      "(chunks sums (rp_disk p1), e) =
         spec_put (valid_id (d_store d0)) (unat (totalSpace (d_store d0))) (chunks sums d0) c (pre @ rest)"
      "e = None \<longrightarrow> rp_result p1 = Some None \<and> (\<exists>r. rp_out p1 = [r] \<and> rcr_Ok r)"
      "e \<noteq> None \<longrightarrow> rp_result p1 = Some (Some (Status Internal ''failed to finalise chunk'')) \<and> rp_out p1 = []"
      by (rule send_last_frame [OF "1.prems"(6) c "1.prems"(2,7)])
    show ?thesis
    proof (cases e)
      case None
      with l(4) obtain r where r: "rp_result p1 = Some None" "rp_out p1 = [r]" "rcr_Ok r" by blast
      have "send_loop reliable_os fs (receiver reliable_os cs) c first reader p = Some (p1\<lparr>rp_out := []\<rparr>, None)"
        using l(1) r(2,3) by (subst send_loop.simps) (simp add: next_eq, simp add: receiver_def)
      with None l(2,3) r show ?thesis by (intro exI [of _ "p1\<lparr>rp_out := []\<rparr>"] exI [of _ None]) simp
    next
      case (Some x)
      with l(5) have r: "rp_result p1 = Some (Some (Status Internal ''failed to finalise chunk''))" "rp_out p1 = []" by simp_all
      have "send_loop reliable_os fs (receiver reliable_os cs) c first reader p =
          Some (p1, Some (Wrap ''recv ack'' (Status Internal ''failed to finalise chunk'')))"
        using l(1) r by (subst send_loop.simps) (simp add: next_eq, simp add: receiver_def)
      with Some l(2,3) r show ?thesis
        by (intro exI [of _ p1] exI [of _ "Some (Wrap ''recv ack'' (Status Internal ''failed to finalise chunk''))"] exI [of _ e]) simp
    qed
  next
    case long: False
    let ?data = "take n rest"
    let ?reader = "reader\<lparr>cr_file := Some (f\<lparr>f_pos := f_pos f + n\<rparr>)\<rparr>"
    have next_eq: "cr_Next reliable_os fs reader =
        (?reader, Inr \<lparr>Data = ?data, Checksum = sha256_Sum256 ?data, IsLast = False\<rparr>)"
      using nx(3) long "1.prems"(3) by simp
    have "?data \<noteq> []" using "1.prems"(1,2) by simp
    from send_middle_frame [OF "1.prems"(6) c this, of cs] obtain p1 p2 where m:
      "st_Send (receiver reliable_os cs) p \<lparr>rcq_ChunkId = c, rcq_Data = ?data, rcq_IsFirst = first, rcq_IsLast = False\<rparr> = (p1, None)"
      "st_Recv (receiver reliable_os cs) p1 = (p2, Inr \<lparr>rcr_Ok = True, rcr_IsFinal = False, rcr_ChunkId = '''', rcr_Checksum = []\<rparr>)"
      "receiving sums ready d0 c False (pre @ ?data) p2" by blast
    have step: "send_loop reliable_os fs (receiver reliable_os cs) c first reader p =
        send_loop reliable_os fs (receiver reliable_os cs) c False ?reader p2"
      using m(1,2) by (subst send_loop.simps) (simp add: next_eq)
    have "drop (f_pos (f\<lparr>f_pos := f_pos f + n\<rparr>)) (fs_data fs (f_inode (f\<lparr>f_pos := f_pos f + n\<rparr>))) = drop n rest"
      using "1.prems"(5) by (simp add: add.commute flip: drop_drop)
    note rest = this
    have "\<not> (rest = [] \<or> n = 0)" "drop n rest \<noteq> []" "cr_frameSize ?reader = int n"
      "length ((pre @ ?data) @ drop n rest) < 2 ^ 64" and cut: "(pre @ ?data) @ drop n rest = pre @ rest"
      using long "1.prems"(1,2,3,7) by simp_all
    from "1.IH" [OF this(1) long "1.prems"(1) this(2,3) _ rest m(3) this(4)] show ?thesis
      unfolding step cut by simp
  qed
qed

end

text \<open>Opening a stored chunk, and the length of stored chunks.\<close>

context checksum_index
begin

lemma NewChunkReader_stored:
  assumes inv: "store_inv sums ready d" and v: "chunks sums d c = Some v"
  obtains reader f where "NewChunkReader reliable_os cs d c 0 = Inr reader" "cr_frameSize reader = int 32768"
    "cr_file reader = Some f" "drop (f_pos f) (fs_data (d_fs d) (f_inode f)) = v"
proof -
  note wf = store_invD(1) [OF inv] and s = chunks_Some [OF inv v]
  have c: "c \<noteq> ''''" by (rule valid_id_facts(1) [OF wf s(1)])
  have ex: "ds_Exists cs (d_store d) c" using Exists_chunks [OF inv] v by simp
  obtain i where i: "fs_names (d_fs d) (chunk_path (d_store d) c) = Some i" "fs_data (d_fs d) i = v"
    using s(2) by (auto simp: fs_content_def)
  let ?f = "\<lparr>f_inode = i, f_pos = 0, f_name = chunk_path (d_store d) c\<rparr>"
  have "NewChunkReader reliable_os cs d c 0 =
      Inr \<lparr>cr_chunkId = c, cr_file = Some ?f, cr_frameSize = DefaultFrameSize\<rparr>"
    using c ex i(1) by (simp add: NewChunkReader_def PathForChunk_path [OF wf s(1)] os_Open_def)
  then show thesis using that i(2) by (simp add: DefaultFrameSize_def)
qed

lemma stored_length:
  assumes inv: "store_inv sums ready d" and v: "chunks sums d c = Some v"
  shows "length v < 2 ^ 64"
proof -
  have "length v \<le> chunk_bytes (chunks sums d)"
    using chunk_bytes_upd(3) [OF finite_chunks [OF inv], of c] v by (simp add: old_bytes_def)
  also have "\<dots> = unat (usedSpace (d_store d))" using store_invD(6) [OF inv] by simp
  also have "\<dots> < 2 ^ 64" using unsigned_less [of "usedSpace (d_store d)"] by simp
  finally show ?thesis .
qed

end

lemma send_loop_invalid:
  assumes c: "\<not> valid_id (d_store d0) c" and "v \<noteq> []" "cr_frameSize reader = int 32768" "cr_file reader = Some f"
    "drop (f_pos f) (fs_data fs (f_inode f)) = v"
  shows "\<exists>e x. send_loop reliable_os fs (receiver reliable_os cs) c True reader (new_call d0) =
      Some ((new_call d0)\<lparr>rp_result := Some (Some x)\<rparr>, Some e)"
proof -
  have pos: "0 < cr_frameSize reader" using assms(3) by simp
  obtain reader' fr where nx: "cr_Next reliable_os fs reader = (reader', Inr fr)"
    using cr_Next_reliable(2,3) [OF assms(4) pos assms(5) [symmetric]] assms(2)
    by (cases "cr_Next reliable_os fs reader"; cases "length v \<le> nat (cr_frameSize reader)") auto
  define x where "x = (if c = '''' then Status InvalidArgument ''chunk_id must not be empty on first frame''
    else Status Internal ''failed to initialise chunk writer'')"
  have op: "rc_open reliable_os d0 None '''' r = Inl x" if "rcq_IsFirst r" "rcq_ChunkId r = c" for r
    using NewChunkWriter_invalid [OF c, of reliable_os] that by (auto simp: rc_open_def x_def)
  let ?p = "(new_call d0)\<lparr>rp_result := Some (Some x)\<rparr>"
  have "st_Send (receiver reliable_os cs) (new_call d0) r = (?p, None)" if "rcq_IsFirst r" "rcq_ChunkId r = c" for r
    using op [OF that] by (simp add: receiver_def new_call_def rc_frame_def)
  moreover have "st_Recv (receiver reliable_os cs) ?p = (?p, Inl x)" by (simp add: receiver_def new_call_def)
  ultimately show ?thesis by (subst send_loop.simps) (auto simp: nx)
qed

text \<open>
  A sender that closes the stream before its last frame is told of success: the
  handler returns no error although the chunk is not stored, and the temporary
  file of the unfinished chunk stays behind.
\<close>

lemma truncated_transfer_accepted:
  assumes inv: "store_inv sums ready d0" and temp: "temp_ready d0" and c: "valid_id (d_store d0) c" and data: "data \<noteq> []"
  shows "\<exists>p. send_all (receiver reliable_os cs) (new_call d0)
        [\<lparr>rcq_ChunkId = c, rcq_Data = data, rcq_IsFirst = True, rcq_IsLast = False\<rparr>] = p
      \<and> rp_result p = Some None \<and> chunks sums (rp_disk p) = chunks sums d0
      \<and> fs_content (d_fs (rp_disk p)) (temp_path (d_store d0) c) = Some data"
proof -
  have "receiving sums ready d0 c True [] (new_call d0)" using inv temp by (simp add: receiving_def new_call_def)
  from send_middle_frame [OF this c data, of cs] obtain p1 p2 where
    m: "st_Send (receiver reliable_os cs) (new_call d0) \<lparr>rcq_ChunkId = c, rcq_Data = data, rcq_IsFirst = True, rcq_IsLast = False\<rparr> = (p1, None)"
    "st_Recv (receiver reliable_os cs) p1 = (p2, Inr \<lparr>rcr_Ok = True, rcr_IsFinal = False, rcr_ChunkId = [], rcr_Checksum = []\<rparr>)"
    "receiving sums ready d0 c False ([] @ data) p2" by blast
  from m(3) obtain w where w: "rp_writer p2 = Some w" "writer_inv (rp_disk p2) w" "cw_hasher w = data" "cw_chunkId w = c"
    "d_store (rp_disk p2) = d_store d0" "chunks sums (rp_disk p2) = chunks sums d0" "rp_result p2 = None"
    by (auto simp: receiving_def)
  have "\<exists>rs. p1 = p2\<lparr>rp_out := rs\<rparr>" using m(2) by (cases "rp_out p1") (auto simp: receiver_def intro!: exI [of _ "rp_out p1"])
  then obtain rs where "p1 = p2\<lparr>rp_out := rs\<rparr>" by blast
  moreover have "cw_filepath w = temp_path (d_store d0) c" using w by (simp add: writer_inv_def)
  ultimately show ?thesis using m(1) w writer_content [OF w(2)] by (simp, simp add: receiver_def)
qed

lemma replication_copies:
  assumes index: "reliable_index cs sums ready" and snd_inv: "store_inv sums ready d"
    and rcv_inv: "store_inv sums ready d0" and temp: "temp_ready d0"
  shows "\<exists>p err. replicateToSingleNode reliable_os cs d (receiver reliable_os cs) None None None c (new_call d0) = Some (p, err)
    \<and> store_inv sums ready (rp_disk p)
    \<and> (case chunks sums d c of
         None \<Rightarrow> p = new_call d0 \<and> err \<noteq> None
       | Some v \<Rightarrow> rp_result p \<noteq> None \<and>
           (if v = [] then chunks sums (rp_disk p) = chunks sums d0 \<and> err \<noteq> None
            else \<exists>e. (chunks sums (rp_disk p), e) =
                   spec_put (valid_id (d_store d0)) (unat (totalSpace (d_store d0))) (chunks sums d0) c v
                 \<and> (err = None \<longleftrightarrow> e = None)))"
proof (cases "chunks sums d c")
  case None
  then have "\<exists>e. NewChunkReader reliable_os cs d c 0 = Inl e"
    using checksum_index.Exists_chunks [OF reliable_index.axioms(1) [OF index] snd_inv, of c]
    by (simp add: NewChunkReader_def)
  then show ?thesis using None rcv_inv by (auto simp: replicateToSingleNode_def new_call_def)
next
  case (Some v)
  note ci = reliable_index.axioms(1) [OF index]
  obtain reader f where rd: "NewChunkReader reliable_os cs d c 0 = Inr reader" "cr_frameSize reader = int 32768"
    "cr_file reader = Some f" "drop (f_pos f) (fs_data (d_fs d) (f_inode f)) = v"
    by (rule checksum_index.NewChunkReader_stored [OF ci snd_inv Some])
  consider (empty) "v = []" | (invalid) "v \<noteq> []" "\<not> valid_id (d_store d0) c" | (valid) "v \<noteq> []" "valid_id (d_store d0) c"
    by blast
  then show ?thesis
  proof cases
    case empty
    then have "snd (cr_Next reliable_os (d_fs d) reader) = Inl EOF"
      using cr_Next_reliable(1) [OF rd(3) _ rd(4) [symmetric]] rd(2) by simp
    then have "send_loop reliable_os (d_fs d) (receiver reliable_os cs) c True reader (new_call d0) = Some (new_call d0, None)"
      by (subst send_loop.simps) (cases "cr_Next reliable_os (d_fs d) reader", simp)
    with Some empty rcv_inv rd(1) show ?thesis by (simp add: replicateToSingleNode_def receiver_def new_call_def)
  next
    case invalid
    then show ?thesis using send_loop_invalid [OF invalid(2,1) rd(2-4), of cs] Some rcv_inv rd(1)
      by (auto simp: replicateToSingleNode_def new_call_def spec_put_def)
  next
    case valid
    have "receiving sums ready d0 c True [] (new_call d0)" using rcv_inv temp by (simp add: receiving_def new_call_def)
    from reliable_index.send_loop_copies [OF index valid(2) _ valid(1) rd(2-4) this]
      checksum_index.stored_length [OF ci snd_inv Some]
    obtain p1 err e where l: "send_loop reliable_os (d_fs d) (receiver reliable_os cs) c True reader (new_call d0) = Some (p1, err)"
      "store_inv sums ready (rp_disk p1)" "rp_out p1 = []"
      "(chunks sums (rp_disk p1), e) =
        spec_put (valid_id (d_store d0)) (unat (totalSpace (d_store d0))) (chunks sums d0) c v"
      "err = None \<longleftrightarrow> e = None" "e = None \<longrightarrow> rp_result p1 = Some None" "rp_result p1 \<noteq> None"
      by auto
    have "replicateToSingleNode reliable_os cs d (receiver reliable_os cs) None None None c (new_call d0) = Some (p1, err)"
      using l rd(1) by (cases err) (auto simp: replicateToSingleNode_def receiver_def)
    with l Some valid(1) show ?thesis by (intro exI [of _ p1] exI [of _ err]) auto
  qed
qed

text \<open>
  C11: A transfer copies the chunk. With reliable disks, sending a stored chunk to a
  peer ends; the peer's handler has returned, its store is sound, and it holds what
  storing the sender's content under that id makes of it: the chunk if it is valid
  there and fits, and otherwise everything as before. The sender is told of success
  exactly in the first case. An empty chunk, which has no frame, is never
  transferred: the peer refuses the stream and the sender gets the error. For a chunk
  that the sender does not store it fails and leaves the peer's call waiting.
\<close>

theorem replication_copies_chunk:
  assumes index: "reliable_index cs sums ready" and snd_inv: "store_inv sums ready d"
    and rcv_inv: "store_inv sums ready d0" and temp: "temp_ready d0"
  shows "\<exists>p err. replicateToSingleNode reliable_os cs d (receiver reliable_os cs) None None None c (new_call d0) = Some (p, err)
    \<and> store_inv sums ready (rp_disk p)
    \<and> (case chunks sums d c of
         None \<Rightarrow> p = new_call d0 \<and> err \<noteq> None
       | Some v \<Rightarrow> rp_result p \<noteq> None \<and>
           (if v = [] then chunks sums (rp_disk p) = chunks sums d0 \<and> err \<noteq> None
            else \<exists>e. (chunks sums (rp_disk p), e) =
                   spec_put (valid_id (d_store d0)) (unat (totalSpace (d_store d0))) (chunks sums d0) c v
                 \<and> (err = None \<longleftrightarrow> e = None)))"
  by (rule replication_copies [OF assms])

theorem replication_copies_chunk_witness:
  "\<exists>p. replicateToSingleNode reliable_os mem_cs demo_disk1 (receiver reliable_os mem_cs) None None None ''abcdef'' (new_call demo_disk)
       = Some (p, None)
     \<and> chunks (ci_view mem_bolt) (rp_disk p) = [''abcdef'' \<mapsto> [1, 2, 3]]"
proof -
  have "spec_put (valid_id (d_store demo_disk)) (unat (totalSpace (d_store demo_disk))) Map.empty ''abcdef'' [1, 2, 3] =
      ([''abcdef'' \<mapsto> [1, 2, 3]], None)"
    using demo_valid(1) by (simp add: demo_disk_def demo_ds_def spec_put_def chunk_bytes_def)
  with replication_copies_chunk [OF mem_reliable.reliable_index_axioms demo_disk1(1) demo_disk_inv(1) demo_temp_ready, of "''abcdef''"]
  show ?thesis by (auto simp: demo_disk1(2) demo_disk_inv(2))
qed

end
