(* ===== verification/Storage_Config.thy ===== *)
theory Storage_Config
  imports Config_Steps Os_Files Retry
begin

text \<open>
  The configuration of a storage node (\<^verbatim>\<open>src/storage/config.go\<close>) and its identity: the
  node id is kept in a file of the data directory, so that a restarted node is known
  to the metadata service under the same name.
\<close>

record StorageNodeConfig =
  sc_NodeID :: string
  sc_GRPCAddr :: string
  sc_AdvertiseAddr :: string
  sc_MetadataAddrs :: "string list"
  sc_Timeout :: duration
  sc_HeartbeatInterval :: duration
  sc_DataDir :: string
  sc_ReplicationFactor :: int
  sc_RPCTimeout :: duration
  sc_RetryMaxAttempts :: int
  sc_RetryBaseBackoff :: duration
  sc_RetryMaxBackoff :: duration

section \<open>Defaults\<close>

definition sc_Default :: "StorageNodeConfig \<Rightarrow> StorageNodeConfig" where
  "sc_Default c =
     (let pos = (\<lambda>n d. if n \<le> (0 :: int) then d else n) in
      c\<lparr>sc_GRPCAddr := (if sc_GRPCAddr c = '''' then '':4000'' else sc_GRPCAddr c),
        sc_MetadataAddrs := (if sc_MetadataAddrs c = [] then ['':3000''] else sc_MetadataAddrs c),
        sc_Timeout := pos (sc_Timeout c) (120 * Second),
        sc_HeartbeatInterval := pos (sc_HeartbeatInterval c) (3 * Second),
        sc_DataDir := (if sc_DataDir c = '''' then ''./data'' else sc_DataDir c),
        sc_ReplicationFactor := pos (sc_ReplicationFactor c) 3,
        sc_RPCTimeout := pos (sc_RPCTimeout c) (10 * Second),
        sc_RetryMaxAttempts := pos (sc_RetryMaxAttempts c) 5,
        sc_RetryBaseBackoff := pos (sc_RetryBaseBackoff c) (100 * Millisecond),
        sc_RetryMaxBackoff := pos (sc_RetryMaxBackoff c) (5 * Second)\<rparr>)"

definition DefaultStorageNodeConfig :: StorageNodeConfig where
  "DefaultStorageNodeConfig =
     sc_Default \<lparr>sc_NodeID = '''', sc_GRPCAddr = '''', sc_AdvertiseAddr = '''', sc_MetadataAddrs = [], sc_Timeout = 0,
       sc_HeartbeatInterval = 0, sc_DataDir = '''', sc_ReplicationFactor = 0, sc_RPCTimeout = 0, sc_RetryMaxAttempts = 0,
       sc_RetryBaseBackoff = 0, sc_RetryMaxBackoff = 0\<rparr>"

section \<open>The file and the environment\<close>

text \<open>The types of all fields are checked before a duration is parsed.\<close>

definition sc_json_steps :: "fields \<Rightarrow> StorageNodeConfig step list" where
  "sc_json_steps fs =
     map (\<lambda>k. type_check fs k dec_string)
       [''timeout'', ''heartbeat_interval'', ''rpc_timeout'', ''retry_base_backoff'', ''retry_max_backoff''] @
     [json_step fs ''node_id'' dec_string (\<lambda>v c. c\<lparr>sc_NodeID := v\<rparr>),
      json_step fs ''grpc_addr'' dec_string (\<lambda>v c. c\<lparr>sc_GRPCAddr := v\<rparr>),
      json_step fs ''advertise_addr'' dec_string (\<lambda>v c. c\<lparr>sc_AdvertiseAddr := v\<rparr>),
      json_step fs ''metadata_addrs'' dec_string_list (\<lambda>v c. c\<lparr>sc_MetadataAddrs := v\<rparr>),
      json_step fs ''data_dir'' dec_string (\<lambda>v c. c\<lparr>sc_DataDir := v\<rparr>),
      json_step fs ''replication_factor'' dec_int64 (\<lambda>v c. c\<lparr>sc_ReplicationFactor := v\<rparr>),
      json_step fs ''retry_max_attempts'' dec_int64 (\<lambda>v c. c\<lparr>sc_RetryMaxAttempts := v\<rparr>),
      json_text_duration_step fs ''timeout'' (\<lambda>v c. c\<lparr>sc_Timeout := v\<rparr>),
      json_text_duration_step fs ''heartbeat_interval'' (\<lambda>v c. c\<lparr>sc_HeartbeatInterval := v\<rparr>),
      json_text_duration_step fs ''rpc_timeout'' (\<lambda>v c. c\<lparr>sc_RPCTimeout := v\<rparr>),
      json_text_duration_step fs ''retry_base_backoff'' (\<lambda>v c. c\<lparr>sc_RetryBaseBackoff := v\<rparr>),
      json_text_duration_step fs ''retry_max_backoff'' (\<lambda>v c. c\<lparr>sc_RetryMaxBackoff := v\<rparr>)]"

definition sc_ApplyJSON :: "(string \<Rightarrow> json result) \<Rightarrow> string \<Rightarrow> StorageNodeConfig step" where
  "sc_ApplyJSON files path c =
     (case files path of
        Inl e \<Rightarrow> Inl e
      | Inr doc \<Rightarrow>
          (case json_object doc of
             None \<Rightarrow> Inl (NewError ''json: cannot unmarshal'')
           | Some fs \<Rightarrow> run_steps (sc_json_steps fs) c))"

definition sc_LoadFromJSON :: "(string \<Rightarrow> json result) \<Rightarrow> string \<Rightarrow> StorageNodeConfig result" where
  "sc_LoadFromJSON files path = sc_ApplyJSON files path DefaultStorageNodeConfig"

definition sc_env_steps :: "environ \<Rightarrow> StorageNodeConfig step list" where
  "sc_env_steps env =
     [env_step env ''STORAGE_NODE_ID'' Some (\<lambda>v c. c\<lparr>sc_NodeID := v\<rparr>),
      env_step env ''STORAGE_GRPC_ADDR'' Some (\<lambda>v c. c\<lparr>sc_GRPCAddr := v\<rparr>),
      env_step env ''STORAGE_ADVERTISE_ADDR'' Some (\<lambda>v c. c\<lparr>sc_AdvertiseAddr := v\<rparr>),
      env_step env ''STORAGE_METADATA_ADDRS'' (\<lambda>s. Some (strings_Split CHR '','' s)) (\<lambda>v c. c\<lparr>sc_MetadataAddrs := v\<rparr>),
      env_step env ''STORAGE_DATA_DIR'' Some (\<lambda>v c. c\<lparr>sc_DataDir := v\<rparr>),
      env_step env ''STORAGE_REPLICATION_FACTOR'' strconv_Atoi (\<lambda>v c. c\<lparr>sc_ReplicationFactor := v\<rparr>),
      env_step env ''STORAGE_RETRY_MAX_ATTEMPTS'' strconv_Atoi (\<lambda>v c. c\<lparr>sc_RetryMaxAttempts := v\<rparr>),
      env_step env ''STORAGE_TIMEOUT'' time_ParseDuration (\<lambda>v c. c\<lparr>sc_Timeout := v\<rparr>),
      env_step env ''STORAGE_HEARTBEAT_INTERVAL'' time_ParseDuration (\<lambda>v c. c\<lparr>sc_HeartbeatInterval := v\<rparr>),
      env_step env ''STORAGE_RPC_TIMEOUT'' time_ParseDuration (\<lambda>v c. c\<lparr>sc_RPCTimeout := v\<rparr>),
      env_step env ''STORAGE_RETRY_BASE_BACKOFF'' time_ParseDuration (\<lambda>v c. c\<lparr>sc_RetryBaseBackoff := v\<rparr>),
      env_step env ''STORAGE_RETRY_MAX_BACKOFF'' time_ParseDuration (\<lambda>v c. c\<lparr>sc_RetryMaxBackoff := v\<rparr>)]"

definition sc_ApplyEnv :: "environ \<Rightarrow> StorageNodeConfig step" where
  "sc_ApplyEnv env = run_steps (sc_env_steps env)"

section \<open>Loading\<close>

definition sc_Validate :: "StorageNodeConfig \<Rightarrow> goerror option" where
  "sc_Validate c =
     (if sc_GRPCAddr c = '''' then Some (NewError ''StorageNodeConfig: GRPCAddr must not be empty'')
      else if sc_MetadataAddrs c = [] then Some (NewError ''StorageNodeConfig: MetadataAddrs must not be empty'')
      else if sc_DataDir c = '''' then Some (NewError ''StorageNodeConfig: DataDir must not be empty'')
      else if sc_ReplicationFactor c < 1 then Some (NewError ''StorageNodeConfig: ReplicationFactor must be at least 1'')
      else if sc_RetryMaxAttempts c < 1 then Some (NewError ''StorageNodeConfig: RetryMaxAttempts must be >= 1'')
      else if sc_RetryBaseBackoff c \<le> 0 then Some (NewError ''StorageNodeConfig: RetryBaseBackoff must be > 0'')
      else if sc_RetryMaxBackoff c < sc_RetryBaseBackoff c
           then Some (NewError ''StorageNodeConfig: RetryMaxBackoff must be >= RetryBaseBackoff'')
      else if sc_RPCTimeout c \<le> 0 then Some (NewError ''StorageNodeConfig: RPCTimeout must be > 0'')
      else None)"

definition sc_LoadConfigDefaultFlow :: "environ \<Rightarrow> (string \<Rightarrow> json result) \<Rightarrow> StorageNodeConfig result" where
  "sc_LoadConfigDefaultFlow env files =
     (let path = env ''STORAGE_CONFIG'';
          base = (if path = '''' then Inr DefaultStorageNodeConfig else sc_ApplyJSON files path DefaultStorageNodeConfig)
      in case base of
           Inl e \<Rightarrow> Inl (Wrap ''failed to load config'' e)
         | Inr c \<Rightarrow>
             (case sc_ApplyEnv env c of
                Inl e \<Rightarrow> Inl (Wrap ''failed to load config'' e)
              | Inr c1 \<Rightarrow>
                  (case sc_Validate c1 of
                     Some e \<Rightarrow> Inl (Wrap ''failed to load config'' e)
                   | None \<Rightarrow> Inr c1)))"

section \<open>What is loaded\<close>

definition sc_policy :: "StorageNodeConfig \<Rightarrow> Policy" where
  "sc_policy c = \<lparr>p_MaxAttempts = sc_RetryMaxAttempts c, p_Base = sc_RetryBaseBackoff c, p_Max = sc_RetryMaxBackoff c,
     p_Multiplier = (\<lambda>d. 2 * d)\<rparr>"

definition storage_config_wf :: "StorageNodeConfig \<Rightarrow> bool" where
  "storage_config_wf c \<longleftrightarrow> sc_GRPCAddr c \<noteq> '''' \<and> sc_MetadataAddrs c \<noteq> [] \<and> sc_DataDir c \<noteq> ''''
     \<and> 1 \<le> sc_ReplicationFactor c \<and> 1 \<le> sc_RetryMaxAttempts c \<and> 0 < sc_RetryBaseBackoff c
     \<and> sc_RetryBaseBackoff c \<le> sc_RetryMaxBackoff c \<and> 0 < sc_RPCTimeout c"

lemma sc_Validate_iff: "sc_Validate c = None \<longleftrightarrow> storage_config_wf c"
  by (simp add: sc_Validate_def storage_config_wf_def not_less not_le)

lemma sc_loaded_valid:
  assumes "sc_LoadConfigDefaultFlow env files = Inr c"
  shows "sc_Validate c = None"
proof -
  define base where "base = (if env ''STORAGE_CONFIG'' = '''' then Inr DefaultStorageNodeConfig
    else sc_ApplyJSON files (env ''STORAGE_CONFIG'') DefaultStorageNodeConfig)"
  from assms show ?thesis
    unfolding sc_LoadConfigDefaultFlow_def Let_def base_def [symmetric] by (auto split: sum.splits option.splits)
qed

lemma storage_config_wf_policy: "storage_config_wf c \<Longrightarrow> delay_wf (sc_policy c) \<and> 1 \<le> p_MaxAttempts (sc_policy c)"
  by (simp add: storage_config_wf_def delay_wf_def sc_policy_def)

lemma default_storage_config_valid: "storage_config_wf DefaultStorageNodeConfig"
  by (simp add: storage_config_wf_def DefaultStorageNodeConfig_def sc_Default_def Let_def Second_def Millisecond_def)

text \<open>The interval of the heartbeats is not validated.\<close>

lemma zero_heartbeat_interval_accepted:
  "\<exists>c. sc_LoadConfigDefaultFlow (\<lambda>k. if k = ''STORAGE_HEARTBEAT_INTERVAL'' then ''0s'' else '''') files = Inr c
     \<and> sc_HeartbeatInterval c = 0"
proof -
  have "time_ParseDuration ''0s'' = Some 0" by (simp add: duration_eval)
  then show ?thesis
    by (simp add: sc_LoadConfigDefaultFlow_def Let_def sc_ApplyEnv_def sc_env_steps_def env_step_def sc_Validate_def
        DefaultStorageNodeConfig_def sc_Default_def Second_def Millisecond_def)
qed

section \<open>The node's identity\<close>

text \<open>\<open>FatalError\<close> ends the process: no result.\<close>

definition LoadOrGenerateNodeID :: "os_env \<Rightarrow> string \<Rightarrow> string \<Rightarrow> filesystem \<Rightarrow> filesystem \<times> string option" where
  "LoadOrGenerateNodeID os uuid dataDir fs =
     (let path = filepath_Join [dataDir, ''node_id''];
          generate =
            (case os_MkdirAll os dataDir fs of
               (fs1, Some e) \<Rightarrow> (fs1, None)
             | (fs1, None) \<Rightarrow>
                 (case os_WriteFile os path (string_bytes uuid) fs1 of
                    (fs2, Some e) \<Rightarrow> (fs2, None)
                  | (fs2, None) \<Rightarrow> (fs2, Some uuid)))
      in case os_ReadFile os path fs of
           Inr d \<Rightarrow> if d \<noteq> [] then (fs, Some (bytes_string d)) else generate
         | Inl e \<Rightarrow> generate)"

text \<open>The identity the program uses: the configured one, or the one in the data directory.\<close>

definition node_identity :: "os_env \<Rightarrow> string \<Rightarrow> StorageNodeConfig \<Rightarrow> filesystem \<Rightarrow> filesystem \<times> string option" where
  "node_identity os uuid c fs =
     (if sc_NodeID c = '''' then LoadOrGenerateNodeID os uuid (sc_DataDir c) fs else (fs, Some (sc_NodeID c)))"

lemma mkdir_write:
  assumes "fs_wf fs" "os_MkdirAll os dir fs = (fs1, None)" "os_WriteFile os p v fs1 = (fs2, None)"
  shows "fs_content fs2 p = Some v"
  using WriteFile_content(3) [OF _ assms(3)] MkdirAll_simps(2) [OF assms(2)] assms(1) by simp


text \<open>An identity file that cannot be read once is replaced: the node comes back as another one.\<close>

lemma unreadable_identity_replaced:
  assumes "fs_wf fs" "sc_NodeID c = ''''" "os_fault os OsReadFile (filepath_Join [sc_DataDir c, ''node_id'']) = Some e"
    and "node_identity os uuid c fs = (fs1, Some i)"
  shows "i = uuid \<and> fs_content fs1 (filepath_Join [sc_DataDir c, ''node_id'']) = Some (string_bytes uuid)"
  using assms(2-)
  by (auto simp: node_identity_def LoadOrGenerateNodeID_def Let_def os_ReadFile_def split: prod.splits option.splits
      dest: mkdir_write [OF assms(1)])


end
