(* ===== verification/Storage_Service.thy ===== *)
theory Storage_Service
  imports Metadata_Cluster Replication Peer_Dialer Storage_Config
begin

text \<open>
  A storage node as a member of the cluster: registration, heartbeats and their repair
  instructions (\<^verbatim>\<open>src/storage/service\<close>), and the node that composes the store, the
  replication manager and the metadata client (\<^verbatim>\<open>src/storage/node.go\<close>). The metadata
  client is a table of its operations over the state of the metadata service;
  \<open>leader_client\<close> is the client that is connected to the leading server.
\<close>

section \<open>Interfaces\<close>

text \<open>\<open>StorageMetadataClientInterface\<close>, and the interface \<open>NodeInfo\<close> of the service package.\<close>

record 'm meta_client =
  mc_RegisterNode :: "'m \<Rightarrow> RegisterNodeRequest \<Rightarrow> 'm \<times> string result"
  mc_DeregisterNode :: "'m \<Rightarrow> string \<Rightarrow> 'm \<times> goerror option"
  mc_Heartbeat :: "'m \<Rightarrow> HeartbeatRequest \<Rightarrow> 'm \<times> RepairInstruction list result"
  mc_ReportRepairResult :: "'m \<Rightarrow> ReportRepairResultRequest \<Rightarrow> 'm \<times> goerror option"

record NodeView =
  GetNodeID :: string
  GetGrpcAddr :: string
  GetFreeSpace :: uint64
  GetChunkCount :: uint32
  GetChunkList :: "string list result"

section \<open>Registration\<close>

definition RegisterWithMetadata :: "'m meta_client \<Rightarrow> NodeView \<Rightarrow> 'm \<Rightarrow> 'm \<times> goerror option" where
  "RegisterWithMetadata mc ni m =
     (case GetChunkList ni of
        Inl e \<Rightarrow> (m, Some e)
      | Inr chunkIDs \<Rightarrow>
          (case mc_RegisterNode mc m \<lparr>rnq_NodeId = GetNodeID ni, rnq_Address = GetGrpcAddr ni,
                   rnq_FreeSpace = int64_of (GetFreeSpace ni), rnq_ChunkIds = chunkIDs\<rparr> of
             (m', Inl e) \<Rightarrow> (m', Some e)
           | (m', Inr resp) \<Rightarrow> (m', None)))"

lemma RegisterWithMetadata_state:
  "GetChunkList ni = Inr ids \<Longrightarrow>
     fst (RegisterWithMetadata mc ni m) = fst (mc_RegisterNode mc m \<lparr>rnq_NodeId = GetNodeID ni, rnq_Address = GetGrpcAddr ni,
       rnq_FreeSpace = int64_of (GetFreeSpace ni), rnq_ChunkIds = ids\<rparr>)"
  by (simp add: RegisterWithMetadata_def split: prod.split sum.split)

definition DeregisterFromMetadata :: "'m meta_client \<Rightarrow> NodeView \<Rightarrow> 'm \<Rightarrow> 'm \<times> goerror option" where
  "DeregisterFromMetadata mc ni m = mc_DeregisterNode mc m (GetNodeID ni)"

section \<open>Heartbeats\<close>

definition sendBeat :: "'m meta_client \<Rightarrow> NodeView \<Rightarrow> 'm \<Rightarrow> 'm \<times> RepairInstruction list result" where
  "sendBeat mc ni m =
     mc_Heartbeat mc m \<lparr>hbq_NodeId = GetNodeID ni, hbq_FreeSpace = int64_of (GetFreeSpace ni),
       hbq_ChunkCount = sint (GetChunkCount ni)\<rparr>"

definition repair_job_of :: "RepairInstruction \<Rightarrow> Replication.RepairJob" where
  "repair_job_of val = \<lparr>rq_JobID = ri_JobId val, rq_ChunkID = ri_ChunkId val, rq_Source = ri_SourceAddr val, rq_Target = ri_TargetAddr val\<rparr>"

text \<open>
  The instructions of a response are queued one by one, unless the context ends; the
  result is the manager and the instructions that were refused. Every refused one is
  reported by a goroutine of its own, so the reports are sent in any order.
\<close>

fun enqueue_jobs ::
  "(nat \<Rightarrow> bool) \<Rightarrow> nat \<Rightarrow> 'a ReplicationManager_scheme \<Rightarrow> RepairInstruction list
   \<Rightarrow> 'a ReplicationManager_scheme \<times> RepairInstruction list" where
  "enqueue_jobs ended k rm [] = (rm, [])"
| "enqueue_jobs ended k rm (val # vals) =
     (if ended k then (rm, [])
      else case EnqueueRepair rm (repair_job_of val) of
        (rm1, enqueued) \<Rightarrow>
          (case enqueue_jobs ended (Suc k) rm1 vals of
             (rm2, dropped) \<Rightarrow> (rm2, if enqueued then dropped else val # dropped)))"

definition drop_report :: "string \<Rightarrow> RepairInstruction \<Rightarrow> ReportRepairResultRequest" where
  "drop_report nodeID val =
     \<lparr>rrq_JobId = ri_JobId val, rrq_JobSucceed = False, rrq_Error = Some (NewError ''job dropped: job queue is full''),
      rrq_NodeId = nodeID\<rparr>"

definition send_reports ::
  "'m meta_client \<Rightarrow> string \<Rightarrow> (RepairInstruction \<Rightarrow> bool) \<Rightarrow> RepairInstruction list \<Rightarrow> 'm \<Rightarrow> 'm" where
  "send_reports mc nodeID gone vals m =
     fold (\<lambda>val m. if gone val then m else fst (mc_ReportRepairResult mc m (drop_report nodeID val))) vals m"

text \<open>
  What a tick of the heartbeat meets: when the context ends during the loop and in the
  goroutines, and the order in which the goroutines run.
\<close>

record tick_env =
  te_ended :: "nat \<Rightarrow> bool"
  te_gone :: "RepairInstruction \<Rightarrow> bool"
  te_order :: "RepairInstruction list \<Rightarrow> RepairInstruction list"

definition processHeartbeatResponse ::
  "tick_env \<Rightarrow> 'm meta_client \<Rightarrow> NodeView \<Rightarrow> RepairInstruction list \<Rightarrow> 'a ReplicationManager_scheme \<Rightarrow> 'm
   \<Rightarrow> 'a ReplicationManager_scheme \<times> 'm" where
  "processHeartbeatResponse te mc ni jobs rm m =
     (case enqueue_jobs (te_ended te) 0 rm jobs of
        (rm', dropped) \<Rightarrow> (rm', send_reports mc (GetNodeID ni) (te_gone te) (te_order te dropped) m))"

definition heartbeat_tick ::
  "tick_env \<Rightarrow> 'm meta_client \<Rightarrow> ('m \<Rightarrow> 'm \<times> goerror option) option \<Rightarrow> NodeView \<Rightarrow> 'a ReplicationManager_scheme \<times> 'm
   \<Rightarrow> 'a ReplicationManager_scheme \<times> 'm" where
  "heartbeat_tick te mc registerer ni s =
     (case s of
        (rm, m) \<Rightarrow>
          (case sendBeat mc ni m of
             (m1, Inl e) \<Rightarrow>
               if status_code e = Some NotFound then
                 (case registerer of None \<Rightarrow> (rm, m1) | Some register \<Rightarrow> (rm, fst (register m1)))
               else (rm, m1)
           | (m1, Inr res) \<Rightarrow> processHeartbeatResponse te mc ni res rm m1))"

text \<open>
  \<open>heartbeatTicker\<close>: a tick for every element of a run, on the node as it is at that
  time. A ticker whose interval is not positive panics.
\<close>

definition time_NewTicker :: "duration \<Rightarrow> duration option" where
  "time_NewTicker d = (if d \<le> 0 then None else Some d)"

definition heartbeatTicker ::
  "duration \<Rightarrow> 'm meta_client \<Rightarrow> (tick_env \<times> NodeView) list \<Rightarrow> 'a ReplicationManager_scheme \<times> 'm
   \<Rightarrow> ('a ReplicationManager_scheme \<times> 'm) option" where
  "heartbeatTicker gap mc ticks s =
     (case time_NewTicker gap of
        None \<Rightarrow> None
      | Some _ \<Rightarrow> Some (fold (\<lambda>(te, ni). heartbeat_tick te mc (Some (RegisterWithMetadata mc ni)) ni) ticks s))"

section \<open>The storage node\<close>

record 'ix StorageNode =
  sn_config :: StorageNodeConfig
  sn_disk :: "'ix disk"
  sn_listener :: "string option"
  sn_manager :: repair_pool
  sn_beating :: bool
  sn_dialer :: PeerDialer

definition node_view :: "'ix ChecksumIndexStore \<Rightarrow> 'ix StorageNode \<Rightarrow> NodeView" where
  "node_view cs n =
     \<lparr>GetNodeID = sc_NodeID (sn_config n),
      GetGrpcAddr = (if sc_AdvertiseAddr (sn_config n) \<noteq> '''' then sc_AdvertiseAddr (sn_config n)
                     else case sn_listener n of Some a \<Rightarrow> a | None \<Rightarrow> sc_GRPCAddr (sn_config n)),
      GetFreeSpace = ds_FreeSpace (d_store (sn_disk n)),
      GetChunkCount = (case ds_List cs (d_store (sn_disk n)) of Inl e \<Rightarrow> 0 | Inr ids \<Rightarrow> word_of_nat (length ids)),
      GetChunkList = ds_List cs (d_store (sn_disk n))\<rparr>"

definition NewStorageNode ::
  "StorageNodeConfig \<Rightarrow> bool \<Rightarrow> 'ix disk option \<Rightarrow> bool \<Rightarrow> 'ix StorageNode result" where
  "NewStorageNode cfg hasLogger st hasClient =
     (case st of
        None \<Rightarrow> Inl (NewError ''StorageNode: store must not be nil'')
      | Some d \<Rightarrow>
          if \<not> hasLogger then Inl (NewError ''StorageNode: logger must not be nil'')
          else if \<not> hasClient then Inl (NewError ''StorageNode: metaClient must not be nil'')
          else Inr \<lparr>sn_config = cfg, sn_disk = d, sn_listener = None,
                    sn_manager = (rm_Start (NewReplicationManager (sc_NodeID cfg)))\<lparr>pl_idle := 0\<rparr>,
                    sn_beating = False, sn_dialer = NewPeerDialer\<rparr>)"

text \<open>\<open>listen\<close> is \<open>net.Listen\<close> with the address it is bound to. A failed registration is left to the heartbeats.\<close>

definition sn_Start ::
  "(string \<Rightarrow> string result) \<Rightarrow> 'ix ChecksumIndexStore \<Rightarrow> 'm meta_client \<Rightarrow> 'ix StorageNode \<Rightarrow> 'm
   \<Rightarrow> 'ix StorageNode \<times> 'm \<times> goerror option" where
  "sn_Start listen cs mc n m =
     (case sc_Validate (sn_config n) of
        Some e \<Rightarrow> (n, m, Some e)
      | None \<Rightarrow>
     (case listen (sc_GRPCAddr (sn_config n)) of
        Inl e \<Rightarrow> (n, m, Some e)
      | Inr addr \<Rightarrow>
          (let n1 = n\<lparr>sn_listener := Some addr, sn_manager := (sn_manager n)\<lparr>pl_idle := numRepairWorkers\<rparr>\<rparr>;
               (m1, err) = RegisterWithMetadata mc (node_view cs n1) m
           in (n1\<lparr>sn_beating := True\<rparr>, m1, None))))"

definition sn_Stop ::
  "string list \<Rightarrow> 'ix ChecksumIndexStore \<Rightarrow> 'm meta_client \<Rightarrow> 'ix StorageNode \<Rightarrow> 'm \<Rightarrow> 'ix StorageNode \<times> 'm" where
  "sn_Stop peers cs mc n m =
     (if sn_listener n = None then (n, m)
      else let m1 = (if sn_beating n then fst (DeregisterFromMetadata mc (node_view cs n) m) else m)
           in (n\<lparr>sn_beating := False, sn_manager := rm_Stop (sn_manager n), sn_dialer := pd_CloseAll (sn_dialer n) peers\<rparr>, m1))"

section \<open>The client of a leading server\<close>

definition error_of :: "'r reply \<Rightarrow> goerror option" where
  "error_of reply = (case reply of Inr _ \<Rightarrow> None | Inl (e, t) \<Rightarrow> Some e)"

definition report_text :: "ReportRepairResultRequest \<Rightarrow> string" where
  "report_text r = (case rrq_Error r of None \<Rightarrow> '''' | Some e \<Rightarrow> ''failed'')"

definition leader_client :: "server_env \<Rightarrow> string list \<Rightarrow> (string \<Rightarrow> string list) \<Rightarrow> MetadataServiceHandler meta_client" where
  "leader_client e ord ords =
     \<lparr>mc_RegisterNode = (\<lambda>h req. apsnd plain_reply (RegisterNode e h req)),
      mc_DeregisterNode = (\<lambda>h nodeId. apsnd error_of (DeregisterNode e ord ords h nodeId)),
      mc_Heartbeat = (\<lambda>h req. apsnd plain_reply (Heartbeat e h req)),
      mc_ReportRepairResult = (\<lambda>h r. apsnd error_of
         (ReportRepairResult e h (rrq_NodeId r) (rrq_JobId r) (rrq_JobSucceed r) (report_text r)))\<rparr>"

section \<open>No repair is lost\<close>

lemma EnqueueRepair_inflight:
  "EnqueueRepair rm job = (rm', ok) \<Longrightarrow>
     rm_inflight rm \<subseteq> rm_inflight rm' \<and> (ok \<longrightarrow> job_key job \<in> rm_inflight rm') \<and> (\<not> ok \<longrightarrow> rm' = rm)"
  by (auto simp: EnqueueRepair_def enqueue_reserve_def enqueue_send_def insert_absorb split: if_splits)

lemma enqueue_jobs_inflight:
  assumes "enqueue_jobs ended k rm vals = (rm', dropped)" "\<And>j. \<not> ended j"
  shows "rm_inflight rm \<subseteq> rm_inflight rm' \<and> set dropped \<subseteq> set vals
    \<and> (\<forall>val \<in> set vals. val \<in> set dropped \<or> job_key (repair_job_of val) \<in> rm_inflight rm')"
  using assms(1)
proof (induction vals arbitrary: k rm rm' dropped)
  case (Cons val vals)
  obtain rm1 ok where e: "EnqueueRepair rm (repair_job_of val) = (rm1, ok)" by fastforce
  obtain rm2 ds where r: "enqueue_jobs ended (Suc k) rm1 vals = (rm2, ds)" by fastforce
  have "enqueue_jobs ended k rm (val # vals) = (rm2, if ok then ds else val # ds)"
    using assms(2) [of k] by (simp add: e r)
  with Cons.prems have "rm' = rm2" "dropped = (if ok then ds else val # ds)" by simp_all
  with Cons.IH [OF r] EnqueueRepair_inflight [OF e] show ?case by auto
qed simp


section \<open>A node that is not known registers itself\<close>

text \<open>What the heartbeats rely on: a registered node stays known, and an unknown one is told so.\<close>

locale node_registry =
  fixes mc :: "'m meta_client" and ok :: "'m \<Rightarrow> bool" and known :: "'m \<Rightarrow> string \<Rightarrow> bool"
  assumes registers: "ok m \<Longrightarrow> mc_RegisterNode mc m req = (m', r) \<Longrightarrow> ok m' \<and> known m' (rnq_NodeId req)"
    and answers: "ok m \<Longrightarrow> known m (hbq_NodeId hb) \<Longrightarrow> mc_Heartbeat mc m hb = (m', r') \<Longrightarrow>
      ok m' \<and> known m' (hbq_NodeId hb) \<and> (\<exists>x. r' = Inr x)"
    and refuses: "ok m \<Longrightarrow> \<not> known m (hbq_NodeId hb) \<Longrightarrow> \<exists>msg. mc_Heartbeat mc m hb = (m, Inl (Status NotFound msg))"
    and reports: "ok m \<Longrightarrow> mc_ReportRepairResult mc m rep = (m', e) \<Longrightarrow> ok m' \<and> (known m nd \<longrightarrow> known m' nd)"
begin

lemma reports_keep: "ok m \<Longrightarrow> ok (send_reports mc nd gone vals m) \<and> (known m n1 \<longrightarrow> known (send_reports mc nd gone vals m) n1)"
  unfolding send_reports_def
proof (induction vals arbitrary: m)
  case (Cons val vals)
  obtain m' e where r: "mc_ReportRepairResult mc m (drop_report nd val) = (m', e)" by fastforce
  from Cons.IH [of m] Cons.IH [of m'] reports [OF Cons.prems r] Cons.prems r show ?case by auto
qed simp

lemma tick_unknown:
  assumes "ok m" "\<not> known m (GetNodeID ni)"
  shows "heartbeat_tick te mc (Some (RegisterWithMetadata mc ni)) ni (rm, m) = (rm, fst (RegisterWithMetadata mc ni m))"
proof -
  obtain msg where "sendBeat mc ni m = (m, Inl (Status NotFound msg))"
    unfolding sendBeat_def using refuses [OF assms(1)] assms(2) by (metis HeartbeatRequest.select_convs(1))
  then show ?thesis by (simp add: heartbeat_tick_def)
qed

lemma tick_known:
  assumes "ok m" "GetChunkList ni = Inr ids"
    and "heartbeat_tick te mc (Some (RegisterWithMetadata mc ni)) ni (rm, m) = (rm', m')"
  shows "ok m' \<and> known m' (GetNodeID ni)"
proof (cases "known m (GetNodeID ni)")
  case True
  obtain m1 r where b: "sendBeat mc ni m = (m1, r)" by fastforce
  with answers [OF assms(1)] True have a: "ok m1 \<and> known m1 (GetNodeID ni) \<and> (\<exists>x. r = Inr x)"
    unfolding sendBeat_def by (metis HeartbeatRequest.select_convs(1))
  then obtain x where "r = Inr x" by blast
  with assms(3) b show ?thesis
    using reports_keep a by (auto simp: heartbeat_tick_def processHeartbeatResponse_def split: prod.splits)
next
  case False
  let ?req = "\<lparr>rnq_NodeId = GetNodeID ni, rnq_Address = GetGrpcAddr ni, rnq_FreeSpace = int64_of (GetFreeSpace ni), rnq_ChunkIds = ids\<rparr>"
  obtain m1 r where q: "mc_RegisterNode mc m ?req = (m1, r)" by fastforce
  with assms(3) tick_unknown [OF assms(1) False, where te = te and rm = rm] RegisterWithMetadata_state [OF assms(2), of mc m] have "m' = m1"
    by simp
  with registers [OF assms(1) q] show ?thesis by simp
qed

lemma ticks_known:
  assumes "ok m" "\<forall>(te, ni) \<in> set ticks. GetNodeID ni = nd \<and> (\<exists>ids. GetChunkList ni = Inr ids)"
    and "fold (\<lambda>(te, ni). heartbeat_tick te mc (Some (RegisterWithMetadata mc ni)) ni) ticks (rm, m) = (rm', m')"
  shows "ok m' \<and> (ticks \<noteq> [] \<or> known m nd \<longrightarrow> known m' nd)"
  using assms
proof (induction ticks arbitrary: rm m)
  case (Cons t ticks)
  obtain te ni where t: "t = (te, ni)" by fastforce
  obtain rm1 m1 where one: "heartbeat_tick te mc (Some (RegisterWithMetadata mc ni)) ni (rm, m) = (rm1, m1)" by fastforce
  from Cons.prems(2) t obtain ids where ni: "GetNodeID ni = nd" "GetChunkList ni = Inr ids" by auto
  from tick_known [OF Cons.prems(1) ni(2) one] ni(1) have m1: "ok m1" "known m1 nd" by simp_all
  have "fold (\<lambda>(te, ni). heartbeat_tick te mc (Some (RegisterWithMetadata mc ni)) ni) ticks (rm1, m1) = (rm', m')"
    using Cons.prems(3) by (simp add: t one)
  from Cons.IH [OF m1(1) _ this] Cons.prems(2) m1(2) show ?case by simp
qed simp

end

text \<open>The metadata server keeps these promises: no command removes a node.\<close>

lemma OnJobComplete_fsm:
  "w_fsm (fst (OnJobComplete env w nd j ok msg)) = w_fsm w
   \<or> (\<exists>cmd. w_fsm (fst (OnJobComplete env w nd j ok msg)) = fst (re_propose env (w_fsm w) cmd))"
  by (auto simp: OnJobComplete_def Let_def proposeEvictChunk_def proposeAddReplica_def split: sum.split)

lemma ReportRepairResult_extends:
  assumes "server_inv h"
  shows "fsm_extends (w_fsm (sv_world h)) (w_fsm (sv_world (fst (ReportRepairResult (leader_env ords uuid now ps rf) h nd j ok msg))))"
proof -
  let ?e = "leader_env ords uuid now ps rf"
  let ?s = "w_fsm (sv_world h)"
  have inv: "fsm_inv ?s" using assms reachable_fsm_inv by (simp add: server_inv_def world_inv_def)
  obtain s1 err where upd: "UpdateRepairJobStatus (leader_raft ords) (now (w_tick (sv_world h))) ?s j
      (if ok then RepairStatusDone else RepairStatusFailed) = (s1, err)" by fastforce
  then have one: "fsm_extends ?s s1" "fsm_inv s1"
    unfolding UpdateRepairJobStatus_def using leader.propose_extends [OF inv] leader.propose_inv [OF inv] by (metis fst_conv)+
  have two: "fsm_extends s1 (w_fsm (fst (OnJobComplete (env_of ?e) ((sv_world h)\<lparr>w_fsm := s1\<rparr>) nd j ok msg)))"
    using OnJobComplete_fsm [of "env_of ?e" "(sv_world h)\<lparr>w_fsm := s1\<rparr>" nd j ok msg] leader.propose_extends [OF one(2)]
    by (auto simp: env_of_def raft_env_def leader_env_def)
  have "w_fsm (sv_world (fst (ReportRepairResult ?e h nd j ok msg))) \<in>
      {s1, w_fsm (fst (OnJobComplete (env_of ?e) ((sv_world h)\<lparr>w_fsm := s1\<rparr>) nd j ok msg))}"
    using upd by (auto simp: ReportRepairResult_def on_leader_def set_world_def leader_env_def Let_def split: prod.split option.split)
  with one two show ?thesis by (auto intro: fsm_extends_trans)
qed

definition known_node :: "MetadataServiceHandler \<Rightarrow> string \<Rightarrow> bool" where
  "known_node h nodeID \<longleftrightarrow> nodeRegistry (w_fsm (sv_world h)) nodeID \<noteq> None"

lemma Heartbeat_known:
  assumes "Heartbeat (leader_env ords uuid now ps rf) h req = (h', r)"
  shows "known_node h (hbq_NodeId req) \<Longrightarrow> known_node h' (hbq_NodeId req) \<and> (\<exists>x. r = Inr x)"
    and "\<not> known_node h (hbq_NodeId req) \<Longrightarrow> h' = h \<and> r = fail_with NotFound ''node not registered''"
proof -
  show "known_node h (hbq_NodeId req) \<Longrightarrow> known_node h' (hbq_NodeId req) \<and> (\<exists>x. r = Inr x)"
    using assms
    by (auto simp: Heartbeat_def leader_env_def on_leader_def Let_def GetNode_def nw_UpdateLastSeen_def UpdateLastSeen_def
        ProposeUpdateNodeSpace_def leader_simps handleCmdUpdateNodeSpace_def set_world_def set_node_def touch_node_def
        known_node_def split: if_splits)
  show "\<not> known_node h (hbq_NodeId req) \<Longrightarrow> h' = h \<and> r = fail_with NotFound ''node not registered''"
    using assms by (auto simp: Heartbeat_def leader_env_def on_leader_def GetNode_def known_node_def)
qed

interpretation leader_registry: node_registry "leader_client (leader_env ords uuid now ps rf) ord1 ords1" server_inv known_node
  for ords uuid now ps rf ord1 ords1
proof
  let ?e = "leader_env ords uuid now ps rf"
  fix m m' :: MetadataServiceHandler and req :: RegisterNodeRequest and hb :: HeartbeatRequest
    and rep :: ReportRepairResultRequest and r r' err nd
  assume inv: "server_inv m"
  show "server_inv m' \<and> known_node m' (rnq_NodeId req)"
    if "mc_RegisterNode (leader_client ?e ord1 ords1) m req = (m', r)"
  proof -
    obtain h' rr where reg: "RegisterNode ?e m req = (h', rr)" by fastforce
    then have "m' = h'" using that by (simp add: leader_client_def)
    with reg show ?thesis
      using register_node_effect [OF inv reg] leader_server.RegisterNode_inv [OF inv, of ords uuid now ps rf req]
      by (auto simp: known_node_def)
  qed
  show "server_inv m' \<and> known_node m' (hbq_NodeId hb) \<and> (\<exists>x. r' = Inr x)"
    if "known_node m (hbq_NodeId hb)" "mc_Heartbeat (leader_client ?e ord1 ords1) m hb = (m', r')"
  proof -
    obtain h' rr where beat: "Heartbeat ?e m hb = (h', rr)" by fastforce
    then have "m' = h'" "r' = plain_reply rr" using that(2) by (simp_all add: leader_client_def)
    with beat show ?thesis
      using Heartbeat_known(1) [OF beat that(1)] leader_server.Heartbeat_inv [OF inv, of ords uuid now ps rf hb]
      by (auto simp: plain_reply_def)
  qed
  show "\<exists>msg. mc_Heartbeat (leader_client ?e ord1 ords1) m hb = (m, Inl (Status NotFound msg))"
    if "\<not> known_node m (hbq_NodeId hb)"
  proof -
    obtain h' rr where beat: "Heartbeat ?e m hb = (h', rr)" by fastforce
    with Heartbeat_known(2) [OF beat that] show ?thesis by (simp add: leader_client_def plain_reply_def fail_with_def)
  qed
  show "server_inv m' \<and> (known_node m nd \<longrightarrow> known_node m' nd)"
    if "mc_ReportRepairResult (leader_client ?e ord1 ords1) m rep = (m', err)"
  proof -
    obtain h' rr where rep: "ReportRepairResult ?e m (rrq_NodeId rep) (rrq_JobId rep) (rrq_JobSucceed rep) (report_text rep) = (h', rr)"
      by fastforce
    then have "m' = h'" using that by (simp add: leader_client_def)
    with rep show ?thesis
      using ReportRepairResult_extends [OF inv, of ords uuid now ps rf "rrq_NodeId rep" "rrq_JobId rep" "rrq_JobSucceed rep" "report_text rep"]
        leader_server.ReportRepairResult_inv [OF inv, of ords uuid now ps rf "rrq_NodeId rep" "rrq_JobId rep" "rrq_JobSucceed rep" "report_text rep"]
      by (fastforce simp: known_node_def fsm_extends_def)
  qed
qed

text \<open>
  C35: Heartbeats keep a node registered. Whatever the leading metadata server knew of a
  node (it may have been started anew with an older state), after the first
  heartbeat and after every later one the node is in the registry, and the server's
  invariant holds. The first heartbeat of an unknown node makes it alive at the
  address it can be reached at and schedules a reconciliation with exactly the chunks
  in its store, without touching its repair queue.
\<close>

theorem heartbeats_keep_registered:
  assumes inv: "server_inv h" and gap: "0 < gap" and first: "ticks = (te, ni) # later"
    and node: "\<forall>(te, ni) \<in> set ticks. GetNodeID ni = nodeID \<and> (\<exists>ids. GetChunkList ni = Inr ids)"
    and mc: "mc = leader_client (leader_env ords uuid now ps rf) ord1 ords1"
  shows "(\<exists>rm' h'. heartbeatTicker gap mc ticks (rm, h) = Some (rm', h') \<and> server_inv h' \<and> known_node h' nodeID)
    \<and> (\<not> known_node h nodeID \<longrightarrow> (\<exists>h1 n1. heartbeatTicker gap mc [(te, ni)] (rm, h) = Some (rm, h1)
          \<and> nodeRegistry (w_fsm (sv_world h1)) nodeID = Some n1 \<and> ne_Status n1 = NodeStatusAlive
          \<and> ne_Address n1 = GetGrpcAddr ni \<and> armed_for (sv_reconciler h1) nodeID = [projr (GetChunkList ni)]))"
proof
  obtain rm' h' where run: "fold (\<lambda>(te, ni). heartbeat_tick te mc (Some (RegisterWithMetadata mc ni)) ni) ticks (rm, h) = (rm', h')"
    by fastforce
  from leader_registry.ticks_known [OF inv node run [unfolded mc]] first gap run
  show "\<exists>rm' h'. heartbeatTicker gap mc ticks (rm, h) = Some (rm', h') \<and> server_inv h' \<and> known_node h' nodeID"
    by (simp add: heartbeatTicker_def time_NewTicker_def)
next
  show "\<not> known_node h nodeID \<longrightarrow> (\<exists>h1 n1. heartbeatTicker gap mc [(te, ni)] (rm, h) = Some (rm, h1)
          \<and> nodeRegistry (w_fsm (sv_world h1)) nodeID = Some n1 \<and> ne_Status n1 = NodeStatusAlive
          \<and> ne_Address n1 = GetGrpcAddr ni \<and> armed_for (sv_reconciler h1) nodeID = [projr (GetChunkList ni)])"
  proof
    assume new: "\<not> known_node h nodeID"
    obtain ids where ni: "GetNodeID ni = nodeID" "GetChunkList ni = Inr ids" using node first by auto
    let ?req = "\<lparr>rnq_NodeId = nodeID, rnq_Address = GetGrpcAddr ni, rnq_FreeSpace = int64_of (GetFreeSpace ni), rnq_ChunkIds = ids\<rparr>"
    obtain h1 r where reg: "RegisterNode (leader_env ords uuid now ps rf) h ?req = (h1, r)" by fastforce
    have "fst (RegisterWithMetadata mc ni h) = h1"
      using RegisterWithMetadata_state [OF ni(2), of mc h] ni(1) reg by (simp add: mc leader_client_def)
    then have "heartbeatTicker gap mc [(te, ni)] (rm, h) = Some (rm, h1)"
      using leader_registry.tick_unknown [OF inv, where ni = ni and te = te and rm = rm and ords = ords and uuid = uuid and now = now
          and ps = ps and rf = rf and ?ord1.0 = ord1 and ?ords1.0 = ords1, folded mc] new ni(1) gap
      by (simp add: heartbeatTicker_def time_NewTicker_def)
    with register_node_effect [OF inv reg] ni
    show "\<exists>h1 n1. heartbeatTicker gap mc [(te, ni)] (rm, h) = Some (rm, h1)
          \<and> nodeRegistry (w_fsm (sv_world h1)) nodeID = Some n1 \<and> ne_Status n1 = NodeStatusAlive
          \<and> ne_Address n1 = GetGrpcAddr ni \<and> armed_for (sv_reconciler h1) nodeID = [projr (GetChunkList ni)]" by auto
  qed
qed

text \<open>An interval that is not positive, which validation accepts, ends the process.\<close>

lemma zero_interval_panics: "gap \<le> 0 \<Longrightarrow> heartbeatTicker gap mc ticks s = None"
  by (simp add: heartbeatTicker_def time_NewTicker_def)

text \<open>
  A node that starts registers the address it was really bound to, or the advertised
  one, with the chunks found in its store; one that stops is drained.
\<close>

lemma start_registers:
  assumes inv: "server_inv h" and valid: "sc_Validate (sn_config n) = None" and bound: "listen (sc_GRPCAddr (sn_config n)) = Inr addr"
    and ids: "ds_List cs (d_store (sn_disk n)) = Inr ids"
    and start: "sn_Start listen cs (leader_client (leader_env ords uuid now ps rf) ord1 ords1) n h = (n', h', err)"
  shows "err = None \<and> sn_beating n' \<and> pl_idle (sn_manager n') = numRepairWorkers \<and>
    map_option (\<lambda>e. (ne_Status e, ne_Address e)) (nodeRegistry (w_fsm (sv_world h')) (sc_NodeID (sn_config n))) =
      Some (NodeStatusAlive, if sc_AdvertiseAddr (sn_config n) \<noteq> '''' then sc_AdvertiseAddr (sn_config n) else addr) \<and>
    armed_for (sv_reconciler h') (sc_NodeID (sn_config n)) = [ids]"
proof -
  let ?ni = "node_view cs (n\<lparr>sn_listener := Some addr, sn_manager := (sn_manager n)\<lparr>pl_idle := numRepairWorkers\<rparr>\<rparr>)"
  let ?req = "\<lparr>rnq_NodeId = GetNodeID ?ni, rnq_Address = GetGrpcAddr ?ni, rnq_FreeSpace = int64_of (GetFreeSpace ?ni), rnq_ChunkIds = ids\<rparr>"
  obtain h1 r where reg: "RegisterNode (leader_env ords uuid now ps rf) h ?req = (h1, r)" by fastforce
  have list: "GetChunkList ?ni = Inr ids" using ids by (simp add: node_view_def)
  have "fst (RegisterWithMetadata (leader_client (leader_env ords uuid now ps rf) ord1 ords1) ?ni h) = h1"
    using reg RegisterWithMetadata_state [OF list, of "leader_client (leader_env ords uuid now ps rf) ord1 ords1" h]
    by (simp add: leader_client_def)
  then have "h' = h1" "err = None" "n' = n\<lparr>sn_listener := Some addr, sn_manager := (sn_manager n)\<lparr>pl_idle := numRepairWorkers\<rparr>,
      sn_beating := True\<rparr>"
    using start valid bound by (simp_all add: sn_Start_def Let_def split: prod.splits)
  moreover have "GetNodeID ?ni = sc_NodeID (sn_config n)"
    "GetGrpcAddr ?ni = (if sc_AdvertiseAddr (sn_config n) \<noteq> '''' then sc_AdvertiseAddr (sn_config n) else addr)"
    by (cases "sc_AdvertiseAddr (sn_config n) = ''''"; simp add: node_view_def)+
  ultimately show ?thesis using register_node_effect [OF inv reg] by auto
qed

definition demo_view :: NodeView where
  "demo_view = \<lparr>GetNodeID = ''n7'', GetGrpcAddr = ''10.0.0.7:4000'', GetFreeSpace = 1000, GetChunkCount = 1, GetChunkList = Inr [''c0'']\<rparr>"

definition demo_tick :: tick_env where
  "demo_tick = \<lparr>te_ended = (\<lambda>_. False), te_gone = (\<lambda>_. False), te_order = (\<lambda>vs. vs)\<rparr>"

theorem heartbeats_keep_registered_witness:
  "\<exists>h1 n1. heartbeatTicker (3 * Second) (leader_client demo_leader [] (\<lambda>_. [])) [(demo_tick, demo_view)] (NewReplicationManager ''n7'', demo_server)
      = Some (NewReplicationManager ''n7'', h1)
    \<and> nodeRegistry (w_fsm (sv_world h1)) ''n7'' = Some n1 \<and> ne_Address n1 = ''10.0.0.7:4000''
    \<and> armed_for (sv_reconciler h1) ''n7'' = [[''c0'']]"
proof -
  have "\<not> known_node demo_server ''n7''" by (simp add: known_node_def demo_server_fsm demo_state_eq)
  with heartbeats_keep_registered [OF demo_server_inv, where gap = "3 * Second" and te = demo_tick and ni = demo_view and later = "[]"
      and rm = "NewReplicationManager ''n7''" and nodeID = "''n7''", OF _ refl _ refl]
  show ?thesis unfolding demo_leader_def by (fastforce simp: demo_view_def Second_def)
qed

definition demo_instruction :: RepairInstruction where
  "demo_instruction = \<lparr>ri_JobId = ''j1'', ri_ChunkId = ''c0'', ri_SourceNodeId = ''n7'', ri_SourceAddr = ''10.0.0.7:4000'',
     ri_TargetNodeId = ''n8'', ri_TargetAddr = ''10.0.0.8:4000'', ri_DeleteSource = False\<rparr>"

definition demo_meta :: "string list meta_client" where
  "demo_meta = \<lparr>mc_RegisterNode = (\<lambda>m req. (m, Inr (rnq_NodeId req))), mc_DeregisterNode = (\<lambda>m nd. (m, None)),
     mc_Heartbeat = (\<lambda>m req. (m, Inr [demo_instruction])), mc_ReportRepairResult = (\<lambda>m r. (rrq_JobId r # m, None))\<rparr>"


end
