(* ===== verification/Client_Chunks.thy ===== *)
theory Client_Chunks
  imports Go_Parsing Sha256 Disk_Store
begin

text \<open>
  How a client cuts a file into chunks (\<^verbatim>\<open>src/client/internal/chunker/chunker.go\<close>) and
  names them (\<^verbatim>\<open>src/internal/checksum/checksum.go\<close>). The number of chunks is computed in
  \<open>float64\<close>, so the two conversions and the division are modelled with their rounding to
  53 bits, to nearest with ties to even.
\<close>

section \<open>Checksums and names\<close>

definition hextable :: string where
  "hextable = ''0123456789abcdef''"

definition hex_digit :: "nat \<Rightarrow> char" where
  "hex_digit n = hextable ! n"

definition hex_EncodeToString :: "bytes \<Rightarrow> string" where
  "hex_EncodeToString b = concat (map (\<lambda>w. [hex_digit (unat w div 16), hex_digit (unat w mod 16)]) b)"

definition checksum_Compute :: "bytes \<Rightarrow> bytes" where
  "checksum_Compute data = sha256_Sum256 data"

definition chunk_id_input :: "string \<Rightarrow> nat \<Rightarrow> bytes" where
  "chunk_id_input fileID i = string_bytes (fileID @ show_nat i)"

definition ComputeChunkID :: "string \<Rightarrow> nat \<Rightarrow> string" where
  "ComputeChunkID fileID i = hex_EncodeToString (sha256_Sum256 (chunk_id_input fileID i))"

lemma length_hextable [simp]: "length hextable = 16" and distinct_hextable: "distinct hextable"
  by (simp_all add: hextable_def)

lemma hex_digit_cases: "n < 16 \<Longrightarrow> hex_digit n \<in> set hextable"
  unfolding hex_digit_def by (rule nth_mem) simp

lemma hex_digit_inj: "m < 16 \<Longrightarrow> n < 16 \<Longrightarrow> hex_digit m = hex_digit n \<Longrightarrow> m = n"
  unfolding hex_digit_def by (simp add: nth_eq_iff_index_eq [OF distinct_hextable])

lemma length_hex: "length (hex_EncodeToString b) = 2 * length b"
  by (induction b) (simp_all add: hex_EncodeToString_def)

lemma byte_high: "unat w div 16 < 16" for w :: byte
proof -
  have "unat w < 256" using unsigned_less [of w] by simp
  then show ?thesis by simp
qed

lemma hex_chars: "set (hex_EncodeToString b) \<subseteq> set hextable"
  using byte_high by (auto simp: hex_EncodeToString_def intro: hex_digit_cases)

lemma hex_inj: "hex_EncodeToString a = hex_EncodeToString b \<Longrightarrow> a = b"
proof (induction a arbitrary: b)
  case Nil
  then show ?case by (cases b) (simp_all add: hex_EncodeToString_def)
next
  case (Cons x a)
  then obtain y c where b: "b = y # c" by (cases b) (auto simp: hex_EncodeToString_def)
  note lt = byte_high
  have "unat x div 16 = unat y div 16" "unat x mod 16 = unat y mod 16"
    using Cons.prems lt by (auto simp: hex_EncodeToString_def b intro: hex_digit_inj)
  then have "unat x = unat y" by (metis div_mult_mod_eq)
  then have "x = y" by (simp add: word_unat_eq_iff)
  with Cons b show ?case by (simp add: hex_EncodeToString_def)
qed

text \<open>
  Names of different chunks differ, unless SHA-256 collides: the input determines the
  index within a file, and the file among ids of one length, such as UUIDs.
\<close>

lemma string_bytes_inj: "string_bytes s = string_bytes t \<Longrightarrow> s = t"
  by (metis bytes_string_inverse)

lemma ComputeChunkID_inj:
  assumes "ComputeChunkID f i = ComputeChunkID g j" "length f = length g"
    and "\<And>x y. sha256_Sum256 x = sha256_Sum256 y \<Longrightarrow> x \<in> {chunk_id_input f i, chunk_id_input g j}
      \<Longrightarrow> y \<in> {chunk_id_input f i, chunk_id_input g j} \<Longrightarrow> x = y"
  shows "f = g \<and> i = j"
proof -
  have "chunk_id_input f i = chunk_id_input g j"
    using hex_inj [OF assms(1) [unfolded ComputeChunkID_def]] by (rule assms(3)) simp_all
  then have "f @ show_nat i = g @ show_nat j" unfolding chunk_id_input_def by (rule string_bytes_inj)
  with assms(2) have "f = g" "show_nat i = show_nat j" by simp_all
  then show ?thesis by (metis show_nat_inj)
qed

text \<open>Ids of different lengths can share the name of a chunk.\<close>

lemma ComputeChunkID_ambiguous: "ComputeChunkID ''a1'' 2 = ComputeChunkID ''a'' 12"
proof -
  have "''a1'' @ show_nat 2 = ''a'' @ show_nat 12" by code_simp
  then show ?thesis unfolding ComputeChunkID_def chunk_id_input_def by simp
qed

section \<open>Floating point\<close>

definition round_even :: "nat \<Rightarrow> nat \<Rightarrow> nat" where
  "round_even n d =
     (let q = n div d; r = n mod d
      in if 2 * r < d then q else if d < 2 * r then q + 1 else if even q then q else q + 1)"

fun bits :: "nat \<Rightarrow> nat" where
  "bits n = (if n = 0 then 0 else Suc (bits (n div 2)))"

declare bits.simps [simp del]

definition float64 :: "nat \<Rightarrow> nat" where
  "float64 n = (if bits n \<le> 53 then n else let u = 2 ^ (bits n - 53) in round_even n u * u)"

text \<open>
  \<open>math.Ceil(n / d)\<close> for positive floats that are integers. A quotient in
  \<open>[2 ^ e, 2 ^ (e + 1))\<close> is rounded to a multiple of \<open>2 ^ (e - 52)\<close>; one below 1 is rounded
  to a positive float that is at most 1.
\<close>

definition nat_ceil :: "nat \<Rightarrow> nat \<Rightarrow> nat" where
  "nat_ceil n d = (n + d - 1) div d"

definition float_div_ceil :: "nat \<Rightarrow> nat \<Rightarrow> nat" where
  "float_div_ceil n d =
     (if n = 0 then 0
      else if n < d then 1
      else let e = bits (n div d) - 1 in
        if e \<le> 52 then nat_ceil (round_even (n * 2 ^ (52 - e)) d) (2 ^ (52 - e))
        else round_even n (d * 2 ^ (e - 52)) * 2 ^ (e - 52))"

lemma round_even_mono_int: "0 < d \<Longrightarrow> k * d \<le> n \<Longrightarrow> k \<le> round_even n d"
proof -
  assume d: "0 < d" and le: "k * d \<le> n"
  then have "k \<le> n div d" by (simp add: less_eq_div_iff_mult_less_eq)
  then show "k \<le> round_even n d" by (simp add: round_even_def Let_def)
qed

lemma round_even_le: "0 < d \<Longrightarrow> n \<le> k * d \<Longrightarrow> round_even n d \<le> k"
proof -
  assume d: "0 < d" and le: "n \<le> k * d"
  show "round_even n d \<le> k"
  proof (cases "n mod d = 0")
    case True
    then have "round_even n d = n div d" using d by (simp add: round_even_def Let_def)
    also have "\<dots> \<le> k" using le d by (metis div_le_mono nonzero_mult_div_cancel_right less_irrefl)
    finally show ?thesis .
  next
    case False
    have "n div d < k"
    proof (rule ccontr)
      assume "\<not> n div d < k"
      then have "k * d \<le> n div d * d" by (metis mult_le_mono1 not_less)
      moreover have "n div d * d < n" using False div_mult_mod_eq [of n d] by linarith
      ultimately show False using le by linarith
    qed
    moreover have "round_even n d \<le> n div d + 1" by (simp add: round_even_def Let_def)
    ultimately show ?thesis by simp
  qed
qed

lemma bits_bounds: "0 < n \<Longrightarrow> 2 ^ (bits n - 1) \<le> n \<and> n < 2 ^ bits n"
proof (induction n rule: bits.induct)
  case (1 n)
  then have b: "bits n = Suc (bits (n div 2))" by (simp add: bits.simps [of n])
  show ?case
  proof (cases "n div 2 = 0")
    case True
    with 1(2) have "n = 1" by linarith
    moreover have "bits n = 1" using b True by (simp add: bits.simps [of 0])
    ultimately show ?thesis by simp
  next
    case False
    with 1 have ih: "2 ^ (bits (n div 2) - 1) \<le> n div 2" "n div 2 < 2 ^ bits (n div 2)" by simp_all
    obtain k where k: "bits (n div 2) = Suc k" using False bits.simps [of "n div 2"] by simp
    have "2 * (n div 2) \<le> n" "n < 2 * (n div 2) + 2" by simp_all
    with ih show ?thesis unfolding b k by simp
  qed
qed

lemma bits_unique: "2 ^ k \<le> n \<Longrightarrow> n < 2 ^ (k + 1) \<Longrightarrow> bits n = k + 1"
proof -
  assume n: "2 ^ k \<le> n" "n < 2 ^ (k + 1)"
  have "0 < (2 :: nat) ^ k" by simp
  then have "0 < n" using n(1) by linarith
  note b = bits_bounds [OF this]
  have "(2 :: nat) ^ k < 2 ^ bits n" using b n(1) by linarith
  then have "k < bits n" by (rule power_less_imp_less_exp [rotated]) simp
  have "(2 :: nat) ^ (bits n - 1) < 2 ^ (k + 1)" using b n(2) by linarith
  then have "bits n - 1 < k + 1" by (rule power_less_imp_less_exp [rotated]) simp
  with \<open>k < bits n\<close> show "bits n = k + 1" by linarith
qed

lemma nat_ceil_bounds: "0 < d \<Longrightarrow> n \<le> nat_ceil n d * d \<and> nat_ceil n d * d < n + d"
proof -
  assume d: "0 < d"
  have "(n + d - 1) div d * d \<le> n + d - 1" by simp
  moreover have "n + d - 1 < (n + d - 1) div d * d + d"
    using d by (metis add.commute add_strict_left_mono div_mult_mod_eq mod_less_divisor)
  ultimately show ?thesis using d unfolding nat_ceil_def by linarith
qed

lemma nat_ceil_unique: "0 < d \<Longrightarrow> n \<le> k * d \<Longrightarrow> k * d < n + d \<Longrightarrow> nat_ceil n d = k"
proof -
  assume d: "0 < d" and k: "n \<le> k * d" "k * d < n + d"
  note b = nat_ceil_bounds [OF d, of n]
  have "nat_ceil n d * d < k * d + d" "k * d < nat_ceil n d * d + d" using k b by linarith+
  then have "nat_ceil n d * d < Suc k * d" "k * d < Suc (nat_ceil n d) * d" by simp_all
  then have "nat_ceil n d < Suc k" "k < Suc (nat_ceil n d)" using d by (metis mult_less_cancel2)+
  then show "nat_ceil n d = k" by simp
qed

text \<open>
  The division is exact enough for files of less than \<open>2 ^ 53\<close> bytes: with \<open>k\<close> the
  rounded-up quotient, the float lies in \<open>(k - 1, k]\<close>, because the distance of the true
  quotient from \<open>k - 1\<close> is at least \<open>1 / d\<close>, more than half a unit in the last place.
\<close>

lemma round_even_above:
  assumes d: "0 < d" "d < 2 * s" and gap: "j * d < n"
  shows "j * s < round_even (n * s) d"
proof -
  let ?q = "n * s div d" and ?r = "n * s mod d"
  have "(j * d + 1) * s \<le> n * s" using gap by (metis Suc_eq_plus1 Suc_leI mult_le_mono1)
  then have one: "j * s * d + s \<le> n * s" by (simp add: algebra_simps)
  then have "j * s * d \<le> n * s" by linarith
  then have "j * s \<le> ?q" unfolding less_eq_div_iff_mult_less_eq [OF d(1)] .
  moreover have "?q \<le> round_even (n * s) d" by (simp add: round_even_def Let_def)
  moreover have "?q < round_even (n * s) d" if "j * s = ?q"
  proof -
    have "j * s * d + ?r = n * s" unfolding that by simp
    then have "s \<le> ?r" using one by linarith
    then have "d < 2 * ?r" using d by linarith
    then show ?thesis by (simp add: round_even_def Let_def)
  qed
  ultimately show ?thesis by linarith
qed

lemma float_div_ceil_exact:
  assumes d: "0 < d" and n: "n < 2 ^ 53"
  shows "float_div_ceil n d = nat_ceil n d"
proof (cases "n < d")
  case True
  then show ?thesis
    using d nat_ceil_unique [OF d, of n 1] by (cases "n = 0") (simp_all add: float_div_ceil_def nat_ceil_def)
next
  case False
  define e where "e = bits (n div d) - 1"
  define k where "k = nat_ceil n d"
  define s where "s = (2 :: nat) ^ (52 - e)"
  have "0 < n div d" using False d by (simp add: div_greater_zero_iff)
  then have "2 ^ e \<le> n div d" using bits_bounds by (simp add: e_def)
  then have en: "2 ^ e * d \<le> n" using d by (simp add: less_eq_div_iff_mult_less_eq)
  moreover have "2 ^ e * 1 \<le> 2 ^ e * d" using d by (intro mult_le_mono2) simp
  ultimately have "(2 :: nat) ^ e < 2 ^ 53" using n by linarith
  then have "e < 53" by (rule power_less_imp_less_exp [rotated]) simp
  then have e: "e \<le> 52" by simp
  have "(2 :: nat) ^ 53 = 2 ^ (e + (52 - e)) * 2" using e by simp
  then have "(2 :: nat) ^ 53 = 2 ^ e * (2 * s)" unfolding s_def power_add by (simp only: mult_ac)
  then have "2 ^ e * d < 2 ^ e * (2 * s)" using en n by linarith
  then have ds: "d < 2 * s" by (metis mult_less_cancel1)
  note kb = nat_ceil_bounds [OF d, of n, folded k_def]
  obtain j where k: "k = Suc j" using kb False d by (cases k) auto
  have "n * s \<le> k * d * s" using kb mult_le_mono1 by blast
  then have "round_even (n * s) d \<le> k * s" by (intro round_even_le [OF d]) (simp only: mult_ac)
  moreover have "j * s < round_even (n * s) d"
    by (rule round_even_above [OF d ds]) (use kb k in simp)
  ultimately have "nat_ceil (round_even (n * s) d) s = k"
    by (intro nat_ceil_unique) (simp_all add: s_def k)
  with False e d show ?thesis
    unfolding float_div_ceil_def Let_def e_def [symmetric] s_def [symmetric] k_def by simp
qed

section \<open>Chunks\<close>

record ChunkDescriptor =
  cd_ChunkID :: string
  cd_FileID :: string
  cd_ChunkIndex :: nat
  cd_Offset :: int
  cd_Size :: int

definition numChunks :: "nat \<Rightarrow> nat \<Rightarrow> nat" where
  "numChunks totalSize chunkSize = float_div_ceil (float64 totalSize) (float64 chunkSize)"

definition descriptor :: "string \<Rightarrow> nat \<Rightarrow> nat \<Rightarrow> nat \<Rightarrow> ChunkDescriptor" where
  "descriptor fileID totalSize chunkSize i =
     (let offset = int i * int chunkSize;
          sz = (if offset + int chunkSize > int totalSize then int totalSize - offset else int chunkSize)
      in \<lparr>cd_ChunkID = ComputeChunkID fileID i, cd_FileID = fileID, cd_ChunkIndex = i, cd_Offset = offset, cd_Size = sz\<rparr>)"

definition GenerateDescriptors :: "os_env \<Rightarrow> string \<Rightarrow> string \<Rightarrow> nat \<Rightarrow> filesystem \<Rightarrow> ChunkDescriptor list result" where
  "GenerateDescriptors os fileID filePath chunkSize fs =
     (case os_Stat OsStat os filePath fs of
        Inl e \<Rightarrow> Inl e
      | Inr totalSize \<Rightarrow> Inr (map (descriptor fileID totalSize chunkSize) [0..<numChunks totalSize chunkSize]))"

text \<open>The bytes of the file that a descriptor stands for.\<close>

definition chunk_slice :: "bytes \<Rightarrow> ChunkDescriptor \<Rightarrow> bytes" where
  "chunk_slice data d = take (nat (cd_Size d)) (drop (nat (cd_Offset d)) data)"

lemma float64_exact: "n < 2 ^ 53 \<Longrightarrow> float64 n = n"
proof (cases "n = 0")
  case False
  assume "n < 2 ^ 53"
  moreover have "2 ^ (bits n - 1) \<le> n" using bits_bounds [of n] False by simp
  ultimately have "(2 :: nat) ^ (bits n - 1) < 2 ^ 53" by (rule le_less_trans [rotated])
  then have "bits n - 1 < 53" by (rule power_less_imp_less_exp [rotated]) simp
  then have "bits n \<le> 53" by linarith
  then show ?thesis by (simp add: float64_def)
qed (simp add: float64_def bits.simps)

lemma numChunks_exact: "n < 2 ^ 53 \<Longrightarrow> 0 < c \<Longrightarrow> c < 2 ^ 53 \<Longrightarrow> numChunks n c = nat_ceil n c"
  by (simp only: numChunks_def float64_exact float_div_ceil_exact)

lemma chunk_slice_descriptor:
  assumes "i * c \<le> length data"
  shows "chunk_slice data (descriptor f (length data) c i) = take c (drop (i * c) data)"
proof -
  let ?d = "descriptor f (length data) c i"
  define k where "k = i * c"
  have k: "int i * int c = int k" by (simp add: k_def)
  have "cd_Offset ?d = int k" "cd_Size ?d = (if int k + int c > int (length data) then int (length data) - int k else int c)"
    unfolding descriptor_def Let_def k by simp_all
  moreover have "k \<le> length data" using assms by (simp add: k_def)
  ultimately have "nat (cd_Offset ?d) = k" "nat (cd_Size ?d) = min c (length data - k)" by auto
  then show ?thesis by (simp add: chunk_slice_def k_def min_def)
qed

lemma concat_slices:
  "n * c \<le> length data + c \<Longrightarrow> concat (map (\<lambda>i. take c (drop (i * c) data)) [0..<n]) = take (n * c) data"
proof (induction n)
  case (Suc n)
  then have "concat (map (\<lambda>i. take c (drop (i * c) data)) [0..<n]) = take (n * c) data" by simp
  moreover have "take (Suc n * c) data = take (n * c) data @ take c (drop (n * c) data)"
    by (simp add: take_add [symmetric] add.commute)
  ultimately show ?case by simp
qed simp

lemma descriptor_bounds:
  assumes "0 < c" "i < nat_ceil n c"
  shows "i * c < n" "0 < cd_Size (descriptor f n c i)" "cd_Size (descriptor f n c i) \<le> int c"
    "cd_Offset (descriptor f n c i) + cd_Size (descriptor f n c i) \<le> int n"
proof -
  have "Suc i * c \<le> nat_ceil n c * c" using assms(2) by (intro mult_le_mono1) simp
  then show lt: "i * c < n" using nat_ceil_bounds [OF assms(1), of n] by simp
  then have "int i * int c < int n" by (simp flip: of_nat_mult)
  then show "0 < cd_Size (descriptor f n c i)" "cd_Size (descriptor f n c i) \<le> int c"
    "cd_Offset (descriptor f n c i) + cd_Size (descriptor f n c i) \<le> int n"
    using assms(1) by (auto simp: descriptor_def Let_def)
qed

lemma descriptors_concat:
  assumes "0 < c"
  shows "concat (map (chunk_slice data) (map (descriptor f (length data) c) [0..<nat_ceil (length data) c])) = data"
proof -
  let ?n = "nat_ceil (length data) c"
  note b = nat_ceil_bounds [OF assms, of "length data"]
  have "map (chunk_slice data) (map (descriptor f (length data) c) [0..<?n]) = map (\<lambda>i. take c (drop (i * c) data)) [0..<?n]"
    using descriptor_bounds(1) [OF assms] by (auto intro!: chunk_slice_descriptor less_imp_le)
  then have "concat (map (chunk_slice data) (map (descriptor f (length data) c) [0..<?n])) = take (?n * c) data"
    using concat_slices [of ?n c data] b by (simp only: less_imp_le)
  also have "\<dots> = data" using b by simp
  finally show ?thesis .
qed

text \<open>
  C33: A file is cut into chunks without loss. For a file of less than \<open>2 ^ 53\<close> bytes the
  chunks, in order, make up exactly its contents; there are as many as the size divided
  by the chunk size, rounded up (none for an empty file); each has between one byte and
  the chunk size, lies inside the file and starts at its index times the chunk size.
\<close>

theorem chunker_partitions_file:
  assumes "fs_content fs path = Some data" "os_fault os OsStat path = None"
    and "length data < 2 ^ 53" "0 < c" "c < 2 ^ 53"
  shows "\<exists>ds. GenerateDescriptors os fileID path c fs = Inr ds \<and> concat (map (chunk_slice data) ds) = data
    \<and> length ds = nat_ceil (length data) c \<and> map cd_ChunkIndex ds = [0..<length ds]
    \<and> list_all (\<lambda>d. cd_FileID d = fileID \<and> 0 < cd_Size d \<and> cd_Size d \<le> int c
        \<and> cd_Offset d = int (cd_ChunkIndex d) * int c \<and> cd_Offset d + cd_Size d \<le> int (length data)) ds"
proof -
  let ?n = "nat_ceil (length data) c"
  let ?ds = "map (descriptor fileID (length data) c) [0..<?n]"
  have gen: "GenerateDescriptors os fileID path c fs = Inr ?ds"
    using assms by (simp add: GenerateDescriptors_def os_Stat_def numChunks_exact)
  have cat: "concat (map (chunk_slice data) ?ds) = data" by (rule descriptors_concat [OF assms(4)])
  have fields: "cd_ChunkIndex (descriptor fileID n c i) = i" "cd_FileID (descriptor fileID n c i) = fileID"
    "cd_Offset (descriptor fileID n c i) = int i * int c" for n i
    by (simp_all add: descriptor_def Let_def)
  have "map cd_ChunkIndex ?ds = [0..<length ?ds]" by (simp add: comp_def fields)
  moreover have "list_all (\<lambda>d. cd_FileID d = fileID \<and> 0 < cd_Size d \<and> cd_Size d \<le> int c
      \<and> cd_Offset d = int (cd_ChunkIndex d) * int c \<and> cd_Offset d + cd_Size d \<le> int (length data)) ?ds"
    using descriptor_bounds(2-) [OF assms(4), of _ "length data" fileID] by (simp add: list_all_iff fields)
  ultimately show ?thesis using gen cat by (intro exI [of _ ?ds]) (simp only: length_map length_upt diff_zero simp_thms)
qed

text \<open>Beyond that size the conversion to \<open>float64\<close> can drop the last byte, and with it a chunk.\<close>

lemma last_chunk_lost: "numChunks (2 ^ 53 + 1) (4 * 1024 * 1024) * (4 * 1024 * 1024) = 2 ^ 53"
proof -
  have b: "bits (2 ^ 53 + 1) = 54" "bits (2 ^ 31) = 32" "bits (4 * 1024 * 1024) = 23"
    using bits_unique [of 53 "2 ^ 53 + 1"] bits_unique [of 31 "2 ^ 31"] bits_unique [of 22 "4 * 1024 * 1024"] by simp_all
  have "float64 (2 ^ 53 + 1) = 2 ^ 53" unfolding float64_def b by (simp add: round_even_def)
  moreover have "float64 (4 * 1024 * 1024) = 4 * 1024 * 1024" unfolding float64_def b by simp
  moreover have e: "bits (2 ^ 53 div (4 * 1024 * 1024)) - 1 = 31" using b(2) by simp
  have "float_div_ceil (2 ^ 53) (4 * 1024 * 1024) = nat_ceil (round_even (2 ^ 53 * 2 ^ 21) (4 * 1024 * 1024)) (2 ^ 21)"
    unfolding float_div_ceil_def Let_def e by simp
  moreover have "round_even (2 ^ 53 * 2 ^ 21) (4 * 1024 * 1024) = 2 ^ 52" by (simp add: round_even_def)
  moreover have "nat_ceil (2 ^ 52) (2 ^ 21) = 2 ^ 31" by (simp add: nat_ceil_def)
  ultimately show ?thesis unfolding numChunks_def by simp
qed

lemma chunk_id_accepted:
  assumes "splitLevel ds \<le> 32"
  shows "length (ComputeChunkID fileID i) = 64 \<and> set (ComputeChunkID fileID i) \<subseteq> set ''0123456789abcdef''
    \<and> validateChunkId ds (ComputeChunkID fileID i) = None"
proof -
  have len: "length (ComputeChunkID fileID i) = 64" by (simp add: ComputeChunkID_def length_hex)
  have chars: "set (ComputeChunkID fileID i) \<subseteq> set ''0123456789abcdef''"
    using hex_chars [of "sha256_Sum256 (chunk_id_input fileID i)"] unfolding ComputeChunkID_def hextable_def .
  have "unat (splitLevel ds) \<le> 32" using assms by (simp add: word_le_nat_alt)
  then have "unat (2 * splitLevel ds) \<le> 64" by (simp add: unat_word_ariths)
  moreover have "slash \<notin> set (ComputeChunkID fileID i)" "backslash \<notin> set (ComputeChunkID fileID i)"
    "CHR ''.'' \<notin> set (ComputeChunkID fileID i)"
    using chars by (auto simp: slash_def backslash_def)
  moreover have "\<not> strings_Contains s ''..''" if "CHR ''.'' \<notin> set s" for s
    using that by (induction s) (auto simp: take_Cons')
  moreover have "ComputeChunkID fileID i \<noteq> ''''" using len by auto
  ultimately have "validateChunkId ds (ComputeChunkID fileID i) = None"
    using len by (simp add: validateChunkId_def strings_ContainsAny_def list_ex_iff) (metis (full_types))
  with len chars show ?thesis by blast
qed

text \<open>
  C34: Every name that a client gives to a chunk is one that every storage node accepts, at any
  split level up to 32: it has 64 characters, all hexadecimal digits, so it cannot
  leave the data directory.
\<close>

theorem chunk_ids_accepted:
  assumes "splitLevel ds \<le> 32"
  shows "length (ComputeChunkID fileID i) = 64 \<and> set (ComputeChunkID fileID i) \<subseteq> set ''0123456789abcdef''
    \<and> validateChunkId ds (ComputeChunkID fileID i) = None"
  using assms by (rule chunk_id_accepted)

theorem chunk_ids_accepted_witness:
  "validateChunkId \<lparr>rootDir = ''.'', tempDir = ''.'', splitLevel = 2, checksumStore = (), totalSpace = 9, usedSpace = 0\<rparr>
     (ComputeChunkID ''a1b2'' 0) = None"
  using chunk_ids_accepted [of "\<lparr>rootDir = ''.'', tempDir = ''.'', splitLevel = 2, checksumStore = (), totalSpace = 9, usedSpace = 0\<rparr>"
    "''a1b2''" 0] by simp

definition demo_files :: filesystem where
  "demo_files = \<lparr>fs_names = [''f'' \<mapsto> 0], fs_data = (\<lambda>_. [1, 2, 3, 4, 5]), fs_next = 1, fs_dirs = [''.'']\<rparr>"

theorem chunker_partitions_file_witness:
  "\<exists>ds. GenerateDescriptors reliable_os ''a1b2'' ''f'' 2 demo_files = Inr ds \<and> length ds = 3
     \<and> concat (map (chunk_slice [1, 2, 3, 4, 5]) ds) = [1, 2, 3, 4, 5]"
proof -
  have "fs_content demo_files ''f'' = Some [1, 2, 3, 4, 5]" by (simp add: demo_files_def fs_content_def)
  from chunker_partitions_file [OF this, of reliable_os 2 "''a1b2''"] show ?thesis
    by (auto simp: nat_ceil_def)
qed

end
