(* ===== verification/Client_Manifest.thy ===== *)
theory Client_Manifest
  imports File_Paths
begin

text \<open>
  The record of an upload in progress (\<^verbatim>\<open>src/client/internal/manifest/manifest.go\<close>).
  A manifest directory maps paths to what a file there parses to: a manifest, or
  nothing for a file that a failed write has left truncated (a proper prefix of the text
  of a JSON object is no JSON text). Reading back what was written gives the same
  manifest, for names that are valid UTF-8. The mutex makes every operation atomic.
\<close>

record UploadManifest =
  um_FileID :: string
  um_Filename :: string
  um_TotalSize :: int
  um_ChunkSize :: int
  um_ChunkStatus :: "(string \<rightharpoonup> bool) option"

datatype manifest_file = Parsed UploadManifest | Torn

type_synonym manifest_dir = "string \<rightharpoonup> manifest_file"

record Manager =
  mg_manifestDir :: string

text \<open>The faults of one operation; \<open>mf_torn\<close> says that a failing write has truncated the file.\<close>

record manifest_faults =
  mf_mkdir :: "goerror option"
  mf_read :: "goerror option"
  mf_write :: "goerror option"
  mf_torn :: bool
  mf_remove :: "goerror option"

definition mf_none :: manifest_faults where
  "mf_none = \<lparr>mf_mkdir = None, mf_read = None, mf_write = None, mf_torn = False, mf_remove = None\<rparr>"

definition NewManager :: "string \<Rightarrow> Manager" where
  "NewManager dir = \<lparr>mg_manifestDir = dir\<rparr>"

definition manifestPath :: "Manager \<Rightarrow> string \<Rightarrow> string" where
  "manifestPath mg fileID = filepath_Join [mg_manifestDir mg, fileID @ ''.json'']"

definition writeLocked :: "manifest_faults \<Rightarrow> Manager \<Rightarrow> UploadManifest \<Rightarrow> manifest_dir \<Rightarrow> manifest_dir \<times> goerror option" where
  "writeLocked mf mg m d =
     (let path = manifestPath mg (um_FileID m) in
      case mf_write mf of
        Some e \<Rightarrow> (if mf_torn mf then d(path \<mapsto> Torn) else d, Some (Wrap ''manifest: failed to write'' e))
      | None \<Rightarrow> (d(path \<mapsto> Parsed m), None))"

definition mm_Create :: "manifest_faults \<Rightarrow> Manager \<Rightarrow> UploadManifest \<Rightarrow> manifest_dir \<Rightarrow> manifest_dir \<times> goerror option" where
  "mm_Create mf mg m d =
     (case mf_mkdir mf of
        Some e \<Rightarrow> (d, Some (Wrap ''manifest: failed to create directory'' e))
      | None \<Rightarrow> writeLocked mf mg m d)"

definition read_manifest :: "manifest_faults \<Rightarrow> string \<Rightarrow> manifest_dir \<Rightarrow> UploadManifest result" where
  "read_manifest mf path d =
     (case mf_read mf of
        Some e \<Rightarrow> Inl (Wrap ''manifest: failed to read'' e)
      | None \<Rightarrow>
          (case d path of
             None \<Rightarrow> Inl (Wrap ''manifest: failed to read'' (Foreign 2))
           | Some Torn \<Rightarrow> Inl (Wrap ''manifest: failed to parse'' (NewError ''unexpected end of JSON input''))
           | Some (Parsed m) \<Rightarrow> Inr m))"

definition mm_Load :: "manifest_faults \<Rightarrow> Manager \<Rightarrow> string \<Rightarrow> manifest_dir \<Rightarrow> UploadManifest result" where
  "mm_Load mf mg fileID d = read_manifest mf (manifestPath mg fileID) d"

definition mm_Exists :: "Manager \<Rightarrow> string \<Rightarrow> manifest_dir \<Rightarrow> bool" where
  "mm_Exists mg fileID d \<longleftrightarrow> d (manifestPath mg fileID) \<noteq> None"

text \<open>Marking a chunk in a manifest without a status map writes to a nil map, which panics.\<close>

definition mm_MarkChunkDone :: "manifest_faults \<Rightarrow> Manager \<Rightarrow> string \<Rightarrow> string \<Rightarrow> manifest_dir \<Rightarrow> manifest_dir \<times> goerror option" where
  "mm_MarkChunkDone mf mg fileID chunkID d =
     (case read_manifest mf (manifestPath mg fileID) d of
        Inl e \<Rightarrow> (d, Some e)
      | Inr m \<Rightarrow>
          (case um_ChunkStatus m of
             None \<Rightarrow> (d, Some (Panic ''assignment to entry in nil map''))
           | Some status \<Rightarrow> writeLocked mf mg (m\<lparr>um_ChunkStatus := Some (status(chunkID \<mapsto> True))\<rparr>) d))"

definition mm_Delete :: "manifest_faults \<Rightarrow> Manager \<Rightarrow> string \<Rightarrow> manifest_dir \<Rightarrow> manifest_dir \<times> goerror option" where
  "mm_Delete mf mg fileID d =
     (if d (manifestPath mg fileID) = None then (d, None)
      else case mf_remove mf of
        Some e \<Rightarrow> (d, Some (Wrap ''manifest: failed to delete'' e))
      | None \<Rightarrow> (d(manifestPath mg fileID := None), None))"

text \<open>\<open>ord\<close> is the order in which the map is traversed.\<close>

definition mm_GetPendingChunks :: "manifest_faults \<Rightarrow> string list \<Rightarrow> Manager \<Rightarrow> string \<Rightarrow> manifest_dir \<Rightarrow> string list result" where
  "mm_GetPendingChunks mf ord mg fileID d =
     (case mm_Load mf mg fileID d of
        Inl e \<Rightarrow> Inl e
      | Inr m \<Rightarrow>
          Inr (case um_ChunkStatus m of
                 None \<Rightarrow> []
               | Some status \<Rightarrow> filter (\<lambda>c. status c = Some False) ord))"

section \<open>What a manifest records\<close>

definition mark_all :: "Manager \<Rightarrow> string \<Rightarrow> string list \<Rightarrow> manifest_dir \<Rightarrow> manifest_dir" where
  "mark_all mg fileID cs d = fold (\<lambda>c d. fst (mm_MarkChunkDone mf_none mg fileID c d)) cs d"

lemma mark_all_status:
  assumes "d (manifestPath mg f) = Some (Parsed m)" "um_FileID m = f" "um_ChunkStatus m = Some st"
  shows "mark_all mg f cs d (manifestPath mg f) = Some (Parsed (m\<lparr>um_ChunkStatus := Some (fold (\<lambda>c s. s(c \<mapsto> True)) cs st)\<rparr>))"
  using assms
proof (induction cs arbitrary: d m st)
  case Nil
  then show ?case by (cases m) (simp add: mark_all_def)
next
  case (Cons c cs)
  let ?m = "m\<lparr>um_ChunkStatus := Some (st(c \<mapsto> True))\<rparr>"
  have "fst (mm_MarkChunkDone mf_none mg f c d) = d(manifestPath mg f \<mapsto> Parsed ?m)"
    using Cons.prems by (simp add: mm_MarkChunkDone_def read_manifest_def mf_none_def writeLocked_def)
  then have "mark_all mg f (c # cs) d = mark_all mg f cs (d(manifestPath mg f \<mapsto> Parsed ?m))" by (simp add: mark_all_def)
  moreover have "mark_all mg f cs (d(manifestPath mg f \<mapsto> Parsed ?m)) (manifestPath mg f) =
      Some (Parsed (?m\<lparr>um_ChunkStatus := Some (fold (\<lambda>c s. s(c \<mapsto> True)) cs (st(c \<mapsto> True)))\<rparr>))"
    by (rule Cons.IH) (use Cons.prems in \<open>simp_all add: fun_eq_iff\<close>)
  moreover have "fold (\<lambda>c s. s(c \<mapsto> True)) (c # cs) st = fold (\<lambda>c s. s(c \<mapsto> True)) cs (st(c \<mapsto> True))" by simp
  moreover have "?m\<lparr>um_ChunkStatus := x\<rparr> = m\<lparr>um_ChunkStatus := x\<rparr>" for x by simp
  ultimately show ?case by metis
qed

lemma fold_marks: "fold (\<lambda>c s. s(c \<mapsto> True)) cs st = (\<lambda>c. if c \<in> set cs then Some True else st c)"
  by (induction cs arbitrary: st) (auto simp: fun_eq_iff)

text \<open>
  A manifest tells which chunks are still to be sent. After an upload has been recorded
  with all its chunks pending and any of them have been marked done, in any order
  and any number of times, the pending chunks are exactly those that were not
  marked; deleting the manifest forgets it, and nothing else.
\<close>

theorem manifest_tracks_pending:
  assumes "mm_Create mf_none mg m d = (d1, err)" and "um_ChunkStatus m = Some (map_of (map (\<lambda>c. (c, False)) cs))"
    and "distinct ord" "set ord = set cs" and "d2 = mark_all mg (um_FileID m) marked d1"
  shows "err = None \<and> mm_GetPendingChunks mf_none ord mg (um_FileID m) d2 = Inr (filter (\<lambda>c. c \<notin> set marked) ord)
    \<and> mm_Delete mf_none mg (um_FileID m) d2 = (d2(manifestPath mg (um_FileID m) := None), None)"
proof -
  let ?st = "map_of (map (\<lambda>c. (c, False)) cs)"
  have d1: "err = None" "d1 (manifestPath mg (um_FileID m)) = Some (Parsed m)"
    using assms(1) by (auto simp: mm_Create_def mf_none_def writeLocked_def)
  from mark_all_status [of d1 mg "um_FileID m" m ?st marked] d1(2) assms(2,5)
  have d2: "d2 (manifestPath mg (um_FileID m)) =
      Some (Parsed (m\<lparr>um_ChunkStatus := Some (\<lambda>c. if c \<in> set marked then Some True else ?st c)\<rparr>))"
    by (simp add: fold_marks)
  have "?st c = Some False" if "c \<in> set cs" for c
    using that by (induction cs) auto
  then have "filter (\<lambda>c. (if c \<in> set marked then Some True else ?st c) = Some False) ord = filter (\<lambda>c. c \<notin> set marked) ord"
    using assms(4) by (intro filter_cong) auto
  then show ?thesis
    using d1(1) d2 by (simp add: mm_GetPendingChunks_def mm_Load_def read_manifest_def mf_none_def mm_Delete_def)
qed

text \<open>A write that is cut short loses the whole manifest: the update is not atomic.\<close>

lemma torn_update_loses_manifest:
  assumes "d (manifestPath mg f) = Some (Parsed m)" "um_ChunkStatus m = Some st" "um_FileID m = f"
    and "mm_MarkChunkDone (mf_none\<lparr>mf_write := Some e, mf_torn := True\<rparr>) mg f c d = (d', err)"
  shows "err \<noteq> None \<and> (\<exists>e'. mm_Load mf_none mg f d' = Inl e')"
  using assms by (auto simp: mm_MarkChunkDone_def read_manifest_def mf_none_def writeLocked_def mm_Load_def Let_def)

definition demo_manifest :: UploadManifest where
  "demo_manifest = \<lparr>um_FileID = ''f'', um_Filename = ''a.bin'', um_TotalSize = 5, um_ChunkSize = 2,
     um_ChunkStatus = Some (map_of (map (\<lambda>c. (c, False)) [''c0'', ''c1'', ''c2'']))\<rparr>"

theorem manifest_tracks_pending_witness:
  "mm_GetPendingChunks mf_none [''c2'', ''c0'', ''c1''] (NewManager ''m'') ''f''
     (mark_all (NewManager ''m'') ''f'' [''c1'', ''c1''] (fst (mm_Create mf_none (NewManager ''m'') demo_manifest Map.empty)))
   = Inr [''c2'', ''c0'']"
proof -
  obtain d1 err where c: "mm_Create mf_none (NewManager ''m'') demo_manifest Map.empty = (d1, err)" by fastforce
  from manifest_tracks_pending [OF c, of "[''c0'', ''c1'', ''c2'']" "[''c2'', ''c0'', ''c1'']" _ "[''c1'', ''c1'']", OF _ _ _ refl]
  have "mm_GetPendingChunks mf_none [''c2'', ''c0'', ''c1''] (NewManager ''m'') (um_FileID demo_manifest)
     (mark_all (NewManager ''m'') (um_FileID demo_manifest) [''c1'', ''c1''] d1) = Inr (filter (\<lambda>c. c \<notin> set [''c1'', ''c1'']) [''c2'', ''c0'', ''c1''])"
    by (auto simp: demo_manifest_def)
  then show ?thesis using c by (simp add: demo_manifest_def)
qed

end
