(* ===== verification/Client_Config.thy ===== *)
theory Client_Config
  imports Config_Steps Retry
begin

text \<open>The configuration of a client (\<^verbatim>\<open>src/client/internal/dfsclientconfig/config.go\<close>).\<close>

definition MinChunkSize :: int where "MinChunkSize = 64 * 1024"
definition MaxChunkSize :: int where "MaxChunkSize = 64 * 1024 * 1024"
definition MinFrameSize :: int where "MinFrameSize = 4 * 1024"
definition MaxFrameSize :: int where "MaxFrameSize = 4 * 1024 * 1024"

record Config =
  cc_MetadataAddrs :: "string list"
  cc_ChunkSize :: int
  cc_MaxParallelUploads :: int
  cc_MaxParallelDownloads :: int
  cc_ManifestDir :: string
  cc_OutputDir :: string
  cc_RetryAttempts :: int
  cc_FrameSize :: int
  cc_RetryBaseBackoff :: duration
  cc_RetryMaxBackoff :: duration
  cc_RPCTimeout :: duration

definition DefaultConfig :: Config where
  "DefaultConfig =
     \<lparr>cc_MetadataAddrs = [''localhost:50050''], cc_ChunkSize = 4 * 1024 * 1024, cc_MaxParallelUploads = 4,
      cc_MaxParallelDownloads = 4, cc_ManifestDir = ''./manifests_logs'', cc_OutputDir = ''./downloads_logs'',
      cc_RetryAttempts = 5, cc_FrameSize = 32 * 1024, cc_RetryBaseBackoff = 100 * Millisecond,
      cc_RetryMaxBackoff = 5 * Second, cc_RPCTimeout = 10 * Second\<rparr>"

definition RetryPolicy :: "Config \<Rightarrow> Policy" where
  "RetryPolicy c = \<lparr>p_MaxAttempts = cc_RetryAttempts c, p_Base = cc_RetryBaseBackoff c, p_Max = cc_RetryMaxBackoff c,
     p_Multiplier = (\<lambda>d. 2 * d)\<rparr>"

definition cc_Validate :: "Config \<Rightarrow> goerror option" where
  "cc_Validate c =
     (if cc_ChunkSize c < MinChunkSize \<or> cc_ChunkSize c > MaxChunkSize
      then Some (NewError ''dfsclientconfig: chunk_size out of range'')
      else if cc_FrameSize c < MinFrameSize \<or> cc_FrameSize c > MaxFrameSize
      then Some (NewError ''dfsclientconfig: frame_size out of range'')
      else if cc_RetryAttempts c < 1 then Some (NewError ''dfsclientconfig: RetryAttempts must be >= 1'')
      else if cc_RetryBaseBackoff c \<le> 0 then Some (NewError ''dfsclientconfig: RetryBaseBackoff must be > 0'')
      else if cc_RetryMaxBackoff c < cc_RetryBaseBackoff c
      then Some (NewError ''dfsclientconfig: RetryMaxBackoff must be >= RetryBaseBackoff'')
      else if cc_RPCTimeout c \<le> 0 then Some (NewError ''dfsclientconfig: RPCTimeout must be > 0'')
      else None)"

text \<open>A variable that does not parse keeps the default.\<close>

definition LoadFromEnv :: "environ \<Rightarrow> Config" where
  "LoadFromEnv env =
     fold (\<lambda>step. step)
       [lenient_env_step env ''METADATA_ADDRS'' (\<lambda>s. Some (strings_Split CHR '','' s)) (\<lambda>v c. c\<lparr>cc_MetadataAddrs := v\<rparr>),
        lenient_env_step env ''CHUNK_SIZE'' strconv_ParseInt (\<lambda>v c. c\<lparr>cc_ChunkSize := v\<rparr>),
        lenient_env_step env ''MAX_PARALLEL_UPLOADS'' strconv_Atoi (\<lambda>v c. c\<lparr>cc_MaxParallelUploads := v\<rparr>),
        lenient_env_step env ''MAX_PARALLEL_DOWNLOADS'' strconv_Atoi (\<lambda>v c. c\<lparr>cc_MaxParallelDownloads := v\<rparr>),
        lenient_env_step env ''MANIFEST_DIR'' Some (\<lambda>v c. c\<lparr>cc_ManifestDir := v\<rparr>),
        lenient_env_step env ''OUTPUT_DIR'' Some (\<lambda>v c. c\<lparr>cc_OutputDir := v\<rparr>),
        lenient_env_step env ''RETRY_ATTEMPTS'' strconv_Atoi (\<lambda>v c. c\<lparr>cc_RetryAttempts := v\<rparr>),
        lenient_env_step env ''FRAME_SIZE'' strconv_Atoi (\<lambda>v c. c\<lparr>cc_FrameSize := v\<rparr>),
        lenient_env_step env ''RETRY_BASE_BACKOFF'' time_ParseDuration (\<lambda>v c. c\<lparr>cc_RetryBaseBackoff := v\<rparr>),
        lenient_env_step env ''RETRY_MAX_BACKOFF'' time_ParseDuration (\<lambda>v c. c\<lparr>cc_RetryMaxBackoff := v\<rparr>),
        lenient_env_step env ''RPC_TIMEOUT'' time_ParseDuration (\<lambda>v c. c\<lparr>cc_RPCTimeout := v\<rparr>)]
       DefaultConfig"

section \<open>What validation ensures\<close>

lemmas client_bounds = MinChunkSize_def MaxChunkSize_def MinFrameSize_def MaxFrameSize_def

lemma default_client_config_valid: "cc_Validate DefaultConfig = None"
  by (simp add: cc_Validate_def DefaultConfig_def client_bounds Second_def Millisecond_def)

lemma valid_client_config:
  assumes "cc_Validate c = None"
  shows "delay_wf (RetryPolicy c)" "1 \<le> p_MaxAttempts (RetryPolicy c)" "0 < cc_ChunkSize c" "0 < cc_FrameSize c"
    "cc_ChunkSize c < 2 ^ 31" "0 < cc_RPCTimeout c"
  using assms by (auto simp: cc_Validate_def RetryPolicy_def delay_wf_def client_bounds split: if_splits)

text \<open>The numbers of parallel transfers are not validated: with none allowed, no transfer ever starts.\<close>

lemma no_parallel_uploads_accepted:
  "cc_Validate (LoadFromEnv (\<lambda>k. if k = ''MAX_PARALLEL_UPLOADS'' then ''0'' else '''')) = None
   \<and> cc_MaxParallelUploads (LoadFromEnv (\<lambda>k. if k = ''MAX_PARALLEL_UPLOADS'' then ''0'' else '''')) = 0"
proof -
  have "show_nat 0 = ''0''" by code_simp
  then have "strconv_Atoi ''0'' = Some 0" using Atoi_show [of 0] by simp
  then show ?thesis
    by (simp add: LoadFromEnv_def lenient_env_step_def cc_Validate_def DefaultConfig_def client_bounds Second_def Millisecond_def)
qed

end
