(* ===== verification/Client_Metadata.thy ===== *)
theory Client_Metadata
  imports Metadata_Cluster Go_Parsing
begin

text \<open>
  The client's view of the metadata service (\<^verbatim>\<open>src/client/internal/metadataclient\<close>). The
  generated stub is a table of remote calls over the state of the service;
  \<open>leader_stub\<close> is the stub that talks to the leading server. Timeouts are errors of a call.
\<close>

section \<open>Messages of the client\<close>

record Placement =
  plc_ChunkID :: string
  plc_Primary :: string
  plc_Replicas :: "string list"

record ClientFile =
  cf_FileID :: string
  cf_FileName :: string
  cf_FileSize :: int
  cf_ChunkSize :: int
  cf_ChunkIDs :: "string list"
  cf_Status :: string
  cf_CreatedAt :: int

record ClientChunk =
  ck_ChunkID :: string
  ck_FileID :: string
  ck_ChunkIndex :: int
  ck_Size :: int
  ck_Checksum :: bytes
  ck_Replicas :: "string list"

definition protoToFileInfo :: "FileInfo \<Rightarrow> ClientFile" where
  "protoToFileInfo f =
     \<lparr>cf_FileID = fi_FileId f, cf_FileName = fi_FileName f, cf_FileSize = fi_FileSize f, cf_ChunkSize = fi_ChunkSize f,
      cf_ChunkIDs = fi_ChunkIds f, cf_Status = fi_Status f, cf_CreatedAt = fi_CreatedAt f\<rparr>"

definition protoToChunkInfo :: "ChunkInfo \<Rightarrow> ClientChunk" where
  "protoToChunkInfo c =
     \<lparr>ck_ChunkID = ci_ChunkId c, ck_FileID = ci_FileId c, ck_ChunkIndex = ci_ChunkIndex c, ck_Size = ci_Size c,
      ck_Checksum = ci_Checksum c, ck_Replicas = ci_Replicas c\<rparr>"

definition to_placement :: "ChunkPlacement \<Rightarrow> Placement" where
  "to_placement p =
     \<lparr>plc_ChunkID = cp_ChunkId p, plc_Primary = ni_Address (cp_Primary p), plc_Replicas = map ni_Address (cp_Replicas p)\<rparr>"

section \<open>Calls\<close>

record 'm metadata_stub =
  ms_CreateFile :: "'m \<Rightarrow> CreateFileRequest \<Rightarrow> 'm \<times> (string \<times> ChunkPlacement list) result"
  ms_CommitChunk :: "'m \<Rightarrow> string \<Rightarrow> string list \<Rightarrow> bytes \<Rightarrow> 'm \<times> bool result"
  ms_GetFile :: "'m \<Rightarrow> string \<Rightarrow> 'm \<times> (FileInfo \<times> ChunkInfo list) result"
  ms_ListFiles :: "'m \<Rightarrow> 'm \<times> FileInfo list result"
  ms_DeleteFile :: "'m \<Rightarrow> string \<Rightarrow> 'm \<times> bool result"
  ms_GetChunkLocations :: "'m \<Rightarrow> string \<Rightarrow> 'm \<times> NodeInfo list result"
  ms_CommitFile :: "'m \<Rightarrow> string \<Rightarrow> int \<Rightarrow> bytes \<Rightarrow> 'm \<times> bool result"

definition map_reply :: "('a \<Rightarrow> 'b) \<Rightarrow> string \<Rightarrow> 'm \<times> 'a result \<Rightarrow> 'm \<times> 'b result" where
  "map_reply f msg r = (case r of (m, Inl e) \<Rightarrow> (m, Inl (Wrap msg e)) | (m, Inr x) \<Rightarrow> (m, Inr (f x)))"

definition mdc_CreateFile ::
  "'m metadata_stub \<Rightarrow> 'm \<Rightarrow> string \<Rightarrow> string \<Rightarrow> int \<Rightarrow> int \<Rightarrow> string list \<Rightarrow> 'm \<times> (string \<times> Placement list) result" where
  "mdc_CreateFile st m fileID fileName fileSize chunkSize chunkIDs =
     map_reply (\<lambda>(fid, ps). (fid, map to_placement ps)) ''metadataclient: CreateFile RPC failed''
       (ms_CreateFile st m \<lparr>cfq_FileId = fileID, cfq_FileName = fileName, cfq_FileSize = fileSize, cfq_ChunkSize = chunkSize,
          cfq_ChunkIds = chunkIDs\<rparr>)"

definition mdc_CommitChunk :: "'m metadata_stub \<Rightarrow> 'm \<Rightarrow> string \<Rightarrow> string list \<Rightarrow> bytes \<Rightarrow> 'm \<times> unit result" where
  "mdc_CommitChunk st m chunkID confirmedNodes checksum =
     map_reply (\<lambda>_. ()) ''metadataclient: CommitChunk RPC failed'' (ms_CommitChunk st m chunkID confirmedNodes checksum)"

definition mdc_GetFile :: "'m metadata_stub \<Rightarrow> 'm \<Rightarrow> string \<Rightarrow> 'm \<times> (ClientFile \<times> ClientChunk list) result" where
  "mdc_GetFile st m fileID =
     map_reply (\<lambda>(f, cs). (protoToFileInfo f, map protoToChunkInfo cs)) ''metadataclient: GetFile RPC failed'' (ms_GetFile st m fileID)"

definition mdc_ListFiles :: "'m metadata_stub \<Rightarrow> 'm \<Rightarrow> string \<Rightarrow> 'm \<times> ClientFile list result" where
  "mdc_ListFiles st m prefx =
     map_reply (\<lambda>fs. map protoToFileInfo (filter (\<lambda>f. prefx = '''' \<or> strings_HasPrefix (fi_FileName f) prefx) fs))
       ''metadataclient: ListFiles RPC failed'' (ms_ListFiles st m)"

definition mdc_GetFileByName :: "'m metadata_stub \<Rightarrow> 'm \<Rightarrow> string \<Rightarrow> 'm \<times> (ClientFile \<times> ClientChunk list) result" where
  "mdc_GetFileByName st m fileName =
     (case mdc_ListFiles st m '''' of
        (m1, Inl e) \<Rightarrow> (m1, Inl e)
      | (m1, Inr files) \<Rightarrow>
          (case find (\<lambda>f. cf_FileName f = fileName) files of
             Some f \<Rightarrow> mdc_GetFile st m1 (cf_FileID f)
           | None \<Rightarrow> (m1, Inl (NewError ''metadataclient: file not found''))))"

definition mdc_DeleteFile :: "'m metadata_stub \<Rightarrow> 'm \<Rightarrow> string \<Rightarrow> 'm \<times> unit result" where
  "mdc_DeleteFile st m fileID = map_reply (\<lambda>_. ()) ''metadataclient: DeleteFile RPC failed'' (ms_DeleteFile st m fileID)"

definition mdc_GetChunkLocations :: "'m metadata_stub \<Rightarrow> 'm \<Rightarrow> string \<Rightarrow> 'm \<times> string list result" where
  "mdc_GetChunkLocations st m chunkID =
     map_reply (map ni_Address) ''metadataclient: GetChunkLocations RPC failed'' (ms_GetChunkLocations st m chunkID)"

definition mdc_CommitFile :: "'m metadata_stub \<Rightarrow> 'm \<Rightarrow> string \<Rightarrow> int \<Rightarrow> bytes \<Rightarrow> 'm \<times> unit result" where
  "mdc_CommitFile st m fileID fileSize checksum =
     map_reply (\<lambda>_. ()) ''metadataclient: CommitFile RPC failed'' (ms_CommitFile st m fileID fileSize checksum)"

section \<open>Listing and deleting\<close>

text \<open>The list service (\<^verbatim>\<open>src/client/internal/service/list.go\<close>).\<close>

definition ls_ListFiles :: "'m metadata_stub \<Rightarrow> 'm \<Rightarrow> string \<Rightarrow> 'm \<times> ClientFile list result" where
  "ls_ListFiles st m prefx = map_reply (\<lambda>fs. fs) ''list: failed to list files'' (mdc_ListFiles st m prefx)"

definition ls_DeleteFile :: "'m metadata_stub \<Rightarrow> 'm \<Rightarrow> string \<Rightarrow> 'm \<times> unit result" where
  "ls_DeleteFile st m fileID = map_reply (\<lambda>u. u) ''delete: failed to delete file'' (mdc_DeleteFile st m fileID)"

section \<open>The leading server behind the stub\<close>

text \<open>\<open>ord\<close> and \<open>ford\<close> are the orders in which the server ranges over its nodes and its files.\<close>

definition leader_stub :: "FileRecord sorter \<Rightarrow> server_env \<Rightarrow> string list \<Rightarrow> string list \<Rightarrow> MetadataServiceHandler metadata_stub" where
  "leader_stub srt e ord ford =
     \<lparr>ms_CreateFile = (\<lambda>h req. apsnd plain_reply (srv_CreateFile e ord h req)),
      ms_CommitChunk = (\<lambda>h c ns cs. apsnd plain_reply (srv_CommitChunk e ord h c ns cs)),
      ms_GetFile = (\<lambda>h f. apsnd plain_reply (srv_GetFile e h f)),
      ms_ListFiles = (\<lambda>h. apsnd plain_reply (srv_ListFiles srt e ford h '''')),
      ms_DeleteFile = (\<lambda>h f. apsnd plain_reply (srv_DeleteFile e h f)),
      ms_GetChunkLocations = (\<lambda>h c. apsnd plain_reply (srv_GetChunkLocations e h c)),
      ms_CommitFile = (\<lambda>h f sz cs. apsnd plain_reply (srv_CommitFile e h f sz cs))\<rparr>"

end
