(* ===== verification/Client_Upload.thy ===== *)
theory Client_Upload
  imports Client_Chunks Client_Manifest Client_Config Client_Metadata
begin

text \<open>
  Uploading a file (\<^verbatim>\<open>src/client/internal/service/upload.go\<close>). The metadata and storage
  clients are a table of operations over one state of the whole system. The chunks
  are uploaded by goroutines, bounded by a semaphore: each upload, with its retries, is one
  step, and they happen in any order.
\<close>

section \<open>Operations of the system\<close>

record 'w dfs_ops =
  op_CreateFile :: "'w \<Rightarrow> string \<Rightarrow> string \<Rightarrow> int \<Rightarrow> int \<Rightarrow> string list \<Rightarrow> 'w \<times> (string \<times> Placement list) result"
  op_CommitFile :: "'w \<Rightarrow> string \<Rightarrow> int \<Rightarrow> 'w \<times> unit result"
  op_GetFileByName :: "'w \<Rightarrow> string \<Rightarrow> 'w \<times> (ClientFile \<times> ClientChunk list) result"
  op_PutChunk :: "'w \<Rightarrow> string \<Rightarrow> string \<Rightarrow> bytes \<Rightarrow> bytes \<Rightarrow> string list \<Rightarrow> 'w \<times> goerror option"
  op_GetChunk :: "'w \<Rightarrow> string \<Rightarrow> string \<Rightarrow> 'w \<times> bytes result"

text \<open>
  A call returns, or waits forever, or panics: a semaphore with no slot admits nobody,
  and a channel cannot be made with a negative size.
\<close>

datatype 'a run = Returns 'a | Blocks | Panics

definition with_semaphore :: "int \<Rightarrow> 'a \<Rightarrow> 'a run" where
  "with_semaphore slots x = (if slots < 0 then Panics else if slots = 0 then Blocks else Returns x)"

section \<open>One chunk\<close>

definition uploadChunkWithRetry ::
  "Config \<Rightarrow> retry_env \<Rightarrow> 'w dfs_ops \<Rightarrow> bytes \<Rightarrow> ChunkDescriptor \<Rightarrow> Placement \<Rightarrow> 'w \<Rightarrow> 'w \<times> goerror option" where
  "uploadChunkWithRetry cfg renv ops contents desc plc w =
     (if cd_Offset desc < 0 \<or> int (length contents) < cd_Offset desc + cd_Size desc
      then (w, Some (Wrap ''failed to read chunk data'' EOF))
      else
        (let buffer = chunk_slice contents desc;
             dataChecksum = checksum_Compute buffer;
             r = Do (RetryPolicy cfg) renv
               (\<lambda>w. op_PutChunk ops w (plc_Primary plc) (cd_ChunkID desc) buffer dataChecksum (plc_Replicas plc)) w
         in (ro_world r, map_option (Wrap ''uploadChunkWithRetry'') (ro_err r))))"

section \<open>The upload\<close>

record UploadResult =
  ur_FileID :: string
  ur_FileName :: string
  ur_TotalSize :: int
  ur_ChunksTotal :: nat
  ur_ChunksDone :: nat
  ur_ChunksFailed :: nat

record upload_env =
  ue_os :: os_env
  ue_uuid :: string
  ue_retry :: "string \<Rightarrow> retry_env"
  ue_create :: manifest_faults
  ue_mark :: "string \<Rightarrow> manifest_faults"
  ue_delete :: manifest_faults
  ue_order :: "ChunkDescriptor list \<Rightarrow> ChunkDescriptor list"

definition no_placement :: Placement where
  "no_placement = \<lparr>plc_ChunkID = '''', plc_Primary = '''', plc_Replicas = []\<rparr>"

definition placement_of :: "Placement list \<Rightarrow> string \<Rightarrow> Placement" where
  "placement_of ps c = (case map_of (map (\<lambda>p. (plc_ChunkID p, p)) (rev ps)) c of Some p \<Rightarrow> p | None \<Rightarrow> no_placement)"

record 'w upload_state =
  us_world :: 'w
  us_manifests :: manifest_dir
  us_done :: nat
  us_failed :: nat

definition upload_one ::
  "Config \<Rightarrow> upload_env \<Rightarrow> 'w dfs_ops \<Rightarrow> Manager \<Rightarrow> bytes \<Rightarrow> string \<Rightarrow> Placement list \<Rightarrow> ChunkDescriptor
   \<Rightarrow> 'w upload_state \<Rightarrow> 'w upload_state" where
  "upload_one cfg ue ops mg contents fileID ps d s =
     (case uploadChunkWithRetry cfg (ue_retry ue (cd_ChunkID d)) ops contents d (placement_of ps (cd_ChunkID d)) (us_world s) of
        (w', Some e) \<Rightarrow> s\<lparr>us_world := w', us_failed := us_failed s + 1\<rparr>
      | (w', None) \<Rightarrow>
          s\<lparr>us_world := w', us_done := us_done s + 1,
            us_manifests := fst (mm_MarkChunkDone (ue_mark ue (cd_ChunkID d)) mg fileID (cd_ChunkID d) (us_manifests s))\<rparr>)"

definition upload_manifest :: "string \<Rightarrow> string \<Rightarrow> nat \<Rightarrow> int \<Rightarrow> ChunkDescriptor list \<Rightarrow> UploadManifest" where
  "upload_manifest fileID fileName totalSize chunkSize ds =
     \<lparr>um_FileID = fileID, um_Filename = fileName, um_TotalSize = int totalSize, um_ChunkSize = chunkSize,
      um_ChunkStatus = Some (map_of (map (\<lambda>c. (c, False)) (map cd_ChunkID ds)))\<rparr>"

text \<open>After all goroutines have ended.\<close>

definition finish_upload ::
  "upload_env \<Rightarrow> 'w dfs_ops \<Rightarrow> Manager \<Rightarrow> string \<Rightarrow> UploadResult \<Rightarrow> 'w upload_state
   \<Rightarrow> 'w \<times> manifest_dir \<times> UploadResult option \<times> goerror option" where
  "finish_upload ue ops mg fileID r s =
     (let res = r\<lparr>ur_ChunksDone := us_done s, ur_ChunksFailed := us_failed s\<rparr> in
      if us_failed s > 0 then (us_world s, us_manifests s, Some res, Some (NewError ''upload: chunks failed''))
      else case op_CommitFile ops (us_world s) (ur_FileID r) (ur_TotalSize r) of
        (w', Inl e) \<Rightarrow> (w', us_manifests s, Some res, Some (Wrap ''upload: CommitFile failed'' e))
      | (w', Inr _) \<Rightarrow> (w', fst (mm_Delete (ue_delete ue) mg fileID (us_manifests s)), Some res, None))"

definition Upload ::
  "Config \<Rightarrow> upload_env \<Rightarrow> 'w dfs_ops \<Rightarrow> Manager \<Rightarrow> filesystem \<Rightarrow> string \<Rightarrow> string \<Rightarrow> 'w \<Rightarrow> manifest_dir
   \<Rightarrow> ('w \<times> manifest_dir \<times> UploadResult option \<times> goerror option) run" where
  "Upload cfg ue ops mg fs filePath fileName w md =
     (case os_Stat OsStat (ue_os ue) filePath fs of
        Inl e \<Rightarrow> Returns (w, md, None, Some (Wrap ''upload: failed to stat file'' e))
      | Inr totalSize \<Rightarrow>
     (case GenerateDescriptors (ue_os ue) (ue_uuid ue) filePath (nat (cc_ChunkSize cfg)) fs of
        Inl e \<Rightarrow> Returns (w, md, None, Some (Wrap ''upload: failed to chunk file'' e))
      | Inr [] \<Rightarrow> Returns (w, md, None, Some (NewError ''upload: file is empty''))
      | Inr ds \<Rightarrow>
     (let fileID = cd_FileID (hd ds) in
      case mm_Create (ue_create ue) mg (upload_manifest fileID fileName totalSize (cc_ChunkSize cfg) ds) md of
        (md1, Some e) \<Rightarrow> Returns (w, md1, None, Some (Wrap ''upload: failed to create manifest'' e))
      | (md1, None) \<Rightarrow>
     (case op_CreateFile ops w fileID fileName (int totalSize) (cc_ChunkSize cfg) (map cd_ChunkID ds) of
        (w1, Inl e) \<Rightarrow> Returns (w1, md1, None, Some (Wrap ''upload: CreateFile failed'' e))
      | (w1, Inr (serverFileID, placements)) \<Rightarrow>
     (case os_Open (ue_os ue) filePath fs of
        Inl e \<Rightarrow> Returns (w1, md1, None, Some (Wrap ''upload: failed to open file'' e))
      | Inr f \<Rightarrow>
          with_semaphore (cc_MaxParallelUploads cfg)
            (finish_upload ue ops mg fileID
               \<lparr>ur_FileID = serverFileID, ur_FileName = fileName, ur_TotalSize = int totalSize,
                ur_ChunksTotal = length ds, ur_ChunksDone = 0, ur_ChunksFailed = 0\<rparr>
               (fold (upload_one cfg ue ops mg (fs_data fs (f_inode f)) fileID placements) (ue_order ue ds)
                  \<lparr>us_world = w1, us_manifests = md1, us_done = 0, us_failed = 0\<rparr>)))))))"

section \<open>Counting\<close>

lemma upload_counts:
  "us_done (fold (upload_one cfg ue ops mg contents fileID ps) ds s) + us_failed (fold (upload_one cfg ue ops mg contents fileID ps) ds s)
     = us_done s + us_failed s + length ds"
proof (induction ds arbitrary: s)
  case (Cons d ds)
  have "us_done (upload_one cfg ue ops mg contents fileID ps d s) + us_failed (upload_one cfg ue ops mg contents fileID ps d s)
      = us_done s + us_failed s + 1"
    by (simp add: upload_one_def split: prod.split option.split)
  with Cons [of "upload_one cfg ue ops mg contents fileID ps d s"] show ?case by simp
qed simp

lemma failed_mono: "us_failed s \<le> us_failed (fold (upload_one cfg ue ops mg contents fileID ps) ds s)"
proof (induction ds arbitrary: s)
  case (Cons d ds)
  have "us_failed s \<le> us_failed (upload_one cfg ue ops mg contents fileID ps d s)"
    by (simp add: upload_one_def split: prod.split option.split)
  with Cons [of "upload_one cfg ue ops mg contents fileID ps d s"] show ?case by (simp add: le_trans)
qed simp

section \<open>The course of a successful upload\<close>

lemma Upload_success:
  assumes up: "Upload cfg ue ops mg fs path name w md = Returns (w', md', Some r, None)"
    and gen: "GenerateDescriptors (ue_os ue) (ue_uuid ue) path (nat (cc_ChunkSize cfg)) fs = Inr ds"
    and contents: "fs_content fs path = Some contents"
  obtains w0 ps s0 s u where "ds \<noteq> []"
    "op_CreateFile ops w (cd_FileID (hd ds)) name (int (length contents)) (cc_ChunkSize cfg) (map cd_ChunkID ds)
      = (w0, Inr (ur_FileID r, ps))"
    "us_world s0 = w0" "us_done s0 = 0" "us_failed s0 = 0"
    "s = fold (upload_one cfg ue ops mg contents (cd_FileID (hd ds)) ps) (ue_order ue ds) s0" "us_failed s = 0"
    "op_CommitFile ops (us_world s) (ur_FileID r) (int (length contents)) = (w', Inr u)"
    "ur_ChunksTotal r = length ds" "ur_ChunksDone r = us_done s" "ur_ChunksFailed r = us_failed s"
proof -
  from up gen obtain n md1 w0 fid ps f where ne: "ds \<noteq> []" and n: "os_Stat OsStat (ue_os ue) path fs = Inr n"
    and cr: "op_CreateFile ops w (cd_FileID (hd ds)) name (int n) (cc_ChunkSize cfg) (map cd_ChunkID ds) = (w0, Inr (fid, ps))"
    and f: "os_Open (ue_os ue) path fs = Inr f"
    and fin: "finish_upload ue ops mg (cd_FileID (hd ds))
        \<lparr>ur_FileID = fid, ur_FileName = name, ur_TotalSize = int n, ur_ChunksTotal = length ds, ur_ChunksDone = 0, ur_ChunksFailed = 0\<rparr>
        (fold (upload_one cfg ue ops mg (fs_data fs (f_inode f)) (cd_FileID (hd ds)) ps) (ue_order ue ds)
           \<lparr>us_world = w0, us_manifests = md1, us_done = 0, us_failed = 0\<rparr>) = (w', md', Some r, None)"
    by (auto simp: Upload_def Let_def with_semaphore_def split: sum.splits list.splits prod.splits option.splits if_splits)
  have len: "n = length contents" "fs_data fs (f_inode f) = contents"
    using n f contents by (auto simp: os_Stat_def os_Open_def fs_content_def split: option.splits)
  define s where "s = fold (upload_one cfg ue ops mg contents (cd_FileID (hd ds)) ps) (ue_order ue ds)
    \<lparr>us_world = w0, us_manifests = md1, us_done = 0, us_failed = 0\<rparr>"
  have "us_failed s = 0" "\<exists>u. op_CommitFile ops (us_world s) fid (int n) = (w', Inr u)" "ur_ChunksDone r = us_done s"
    "ur_ChunksFailed r = us_failed s" "ur_ChunksTotal r = length ds" "ur_FileID r = fid"
    using fin unfolding len(2) s_def [symmetric]
    by (auto simp: finish_upload_def Let_def split: if_splits prod.splits sum.splits)
  with that [OF ne _ _ _ _ s_def] cr len(1) show ?thesis by auto
qed

text \<open>What every put keeps, whatever its outcome, the uploads of all chunks keep.\<close>

lemma fails_for_preserves:
  assumes step: "\<forall>w w' e. P w \<and> fn w = (w', e) \<longrightarrow> P w'"
  shows "fails_for fn n w w' \<Longrightarrow> P w \<Longrightarrow> P w'"
proof (induction n arbitrary: w)
  case (Suc n)
  then obtain w1 e where "fn w = (w1, Some e)" "fails_for fn n w1 w'" by auto
  with Suc.IH [of w1] Suc.prems(2) step show ?case by blast
qed simp

lemma uploads_preserve:
  assumes put: "\<And>w w' a c v rt e. P w \<Longrightarrow> length v \<le> length contents \<Longrightarrow>
      op_PutChunk ops w a c v (sha256_Sum256 v) rt = (w', e) \<Longrightarrow> P w'"
  shows "P (us_world s) \<Longrightarrow> P (us_world (fold (upload_one cfg ue ops mg contents fileID ps) ds s))"
proof (induction ds arbitrary: s)
  case (Cons d ds)
  let ?plc = "placement_of ps (cd_ChunkID d)" and ?v = "chunk_slice contents d"
  let ?fn = "\<lambda>w. op_PutChunk ops w (plc_Primary ?plc) (cd_ChunkID d) ?v (sha256_Sum256 ?v) (plc_Replicas ?plc)"
  define r where "r = Do (RetryPolicy cfg) (ue_retry ue (cd_ChunkID d)) ?fn (us_world s)"
  have "length ?v \<le> length contents" by (simp add: chunk_slice_def)
  then have step: "\<forall>w w' e. P w \<and> ?fn w = (w', e) \<longrightarrow> P w'" using put by blast
  note run = do_loop_result [where p = "RetryPolicy cfg" and env = "ue_retry ue (cd_ChunkID d)" and fn = ?fn
      and left = "nat (p_MaxAttempts (RetryPolicy cfg))" and k = 0 and d = "p_Base (RetryPolicy cfg)" and le = None
      and w = "us_world s", folded Do_def, folded r_def]
  have "P (ro_world r)"
  proof (cases "ro_err r")
    case None
    with run obtain n w1 where "fails_for ?fn n (us_world s) w1" "?fn w1 = (ro_world r, None)" by auto
    then show ?thesis using fails_for_preserves [where P = P and fn = ?fn, OF step] Cons.prems step by blast
  next
    case (Some e)
    with run have "fails_for ?fn (ro_calls r - 0) (us_world s) (ro_world r)" by simp
    then show ?thesis using fails_for_preserves [where P = P and fn = ?fn, OF step] Cons.prems by blast
  qed
  then have "P (us_world (upload_one cfg ue ops mg contents fileID ps d s))"
    using Cons.prems
    by (auto simp: upload_one_def uploadChunkWithRetry_def checksum_Compute_def Let_def r_def [symmetric] split: option.split)
  from Cons.IH [OF this] show ?case by simp
qed simp

section \<open>What a successful upload has stored\<close>

text \<open>
  What the upload relies on: a chunk that was put without error is held by the node,
  and putting a chunk, whatever the outcome, takes no other chunk away. Creating and committing
  a file does not touch the chunks.
\<close>

locale chunk_service =
  fixes ops :: "'w dfs_ops" and ok :: "'w \<Rightarrow> bool" and holds :: "'w \<Rightarrow> string \<Rightarrow> string \<Rightarrow> bytes \<Rightarrow> bool"
  assumes put_stores: "ok w \<Longrightarrow> length v < 2 ^ 64 \<Longrightarrow>
      op_PutChunk ops w a c v (sha256_Sum256 v) rt = (w', None) \<Longrightarrow> holds w' a c v"
    and put_keeps: "ok w \<Longrightarrow> length v < 2 ^ 64 \<Longrightarrow> op_PutChunk ops w a c v (sha256_Sum256 v) rt = (w', err) \<Longrightarrow>
      ok w' \<and> (\<forall>a' c' v'. holds w a' c' v' \<and> c' \<noteq> c \<longrightarrow> holds w' a' c' v')"
    and create_keeps: "ok w \<Longrightarrow> op_CreateFile ops w f n sz csz cs = (w', r) \<Longrightarrow> ok w'"
    and commit_keeps: "ok w \<Longrightarrow> op_CommitFile ops w f sz = (w', r') \<Longrightarrow> ok w' \<and> (\<forall>a c v. holds w a c v \<longrightarrow> holds w' a c v)"
begin

lemma fails_for_keeps:
  assumes "ok w" "length v < 2 ^ 64" "fails_for (\<lambda>w. op_PutChunk ops w a c v (sha256_Sum256 v) rt) n w w'"
  shows "ok w' \<and> (\<forall>a' c' v'. holds w a' c' v' \<and> c' \<noteq> c \<longrightarrow> holds w' a' c' v')"
  using assms
proof (induction n arbitrary: w)
  case (Suc n)
  then obtain w1 e where "op_PutChunk ops w a c v (sha256_Sum256 v) rt = (w1, Some e)"
    "fails_for (\<lambda>w. op_PutChunk ops w a c v (sha256_Sum256 v) rt) n w1 w'" by auto
  with Suc.IH [of w1] put_keeps [OF Suc.prems(1,2)] Suc.prems(2) show ?case by blast
qed simp

lemma retried_put:
  assumes "ok w" "length v < 2 ^ 64"
    and "r = Do p env (\<lambda>w. op_PutChunk ops w a c v (sha256_Sum256 v) rt) w"
  shows "ok (ro_world r) \<and> (\<forall>a' c' v'. holds w a' c' v' \<and> c' \<noteq> c \<longrightarrow> holds (ro_world r) a' c' v')
    \<and> (ro_err r = None \<longrightarrow> holds (ro_world r) a c v)"
proof -
  let ?fn = "\<lambda>w. op_PutChunk ops w a c v (sha256_Sum256 v) rt"
  note run = do_loop_result [where p = p and env = env and fn = ?fn and left = "nat (p_MaxAttempts p)" and k = 0
      and d = "p_Base p" and le = None and w = w, folded Do_def, folded assms(3)]
  show ?thesis
  proof (cases "ro_err r")
    case None
    with run obtain n w1 where n: "fails_for ?fn n w w1" "?fn w1 = (ro_world r, None)" by auto
    from fails_for_keeps [OF assms(1,2) n(1)] put_keeps [OF _ assms(2) n(2)] put_stores [OF _ assms(2) n(2)]
    show ?thesis by blast
  next
    case (Some e)
    with run have "fails_for ?fn (ro_calls r - 0) w (ro_world r)" by simp
    from fails_for_keeps [OF assms(1,2) this] Some show ?thesis by simp
  qed
qed

lemma upload_one_effect:
  assumes "ok (us_world s)" "length contents < 2 ^ 64" and s': "s' = upload_one cfg ue ops mg contents fileID ps d s"
  shows "ok (us_world s') \<and> (\<forall>a' c' v'. holds (us_world s) a' c' v' \<and> c' \<noteq> cd_ChunkID d \<longrightarrow> holds (us_world s') a' c' v')
    \<and> (us_failed s' = us_failed s \<longrightarrow>
         holds (us_world s') (plc_Primary (placement_of ps (cd_ChunkID d))) (cd_ChunkID d) (chunk_slice contents d))"
proof (cases "cd_Offset d < 0 \<or> int (length contents) < cd_Offset d + cd_Size d")
  case True
  with assms(1) show ?thesis by (simp add: s' upload_one_def uploadChunkWithRetry_def)
next
  case False
  let ?plc = "placement_of ps (cd_ChunkID d)" and ?v = "chunk_slice contents d"
  define r where "r = Do (RetryPolicy cfg) (ue_retry ue (cd_ChunkID d))
    (\<lambda>w. op_PutChunk ops w (plc_Primary ?plc) (cd_ChunkID d) ?v (sha256_Sum256 ?v) (plc_Replicas ?plc)) (us_world s)"
  have "length ?v < 2 ^ 64" using assms(2) by (simp add: chunk_slice_def)
  from retried_put [OF assms(1) this r_def] have r: "ok (ro_world r)"
    "\<forall>a' c' v'. holds (us_world s) a' c' v' \<and> c' \<noteq> cd_ChunkID d \<longrightarrow> holds (ro_world r) a' c' v'"
    "ro_err r = None \<longrightarrow> holds (ro_world r) (plc_Primary ?plc) (cd_ChunkID d) ?v" by blast+
  have "uploadChunkWithRetry cfg (ue_retry ue (cd_ChunkID d)) ops contents d ?plc (us_world s) =
      (ro_world r, map_option (Wrap ''uploadChunkWithRetry'') (ro_err r))"
    using False by (simp add: uploadChunkWithRetry_def checksum_Compute_def r_def Let_def)
  then have "us_world s' = ro_world r" "us_failed s' = us_failed s \<longleftrightarrow> ro_err r = None"
    by (simp_all add: s' upload_one_def split: option.split)
  with r show ?thesis by simp
qed

lemma uploads_effect:
  assumes "ok (us_world s)" "length contents < 2 ^ 64" "distinct (map cd_ChunkID ds)"
    and "s' = fold (upload_one cfg ue ops mg contents fileID ps) ds s"
  shows "ok (us_world s') \<and> (\<forall>a' c' v'. holds (us_world s) a' c' v' \<and> c' \<notin> cd_ChunkID ` set ds \<longrightarrow> holds (us_world s') a' c' v')
    \<and> (us_failed s' = us_failed s \<longrightarrow> (\<forall>d \<in> set ds.
         holds (us_world s') (plc_Primary (placement_of ps (cd_ChunkID d))) (cd_ChunkID d) (chunk_slice contents d)))"
  using assms
proof (induction ds arbitrary: s)
  case (Cons d ds)
  let ?s1 = "upload_one cfg ue ops mg contents fileID ps d s"
  note one = upload_one_effect [OF Cons.prems(1,2) refl, of cfg ue mg fileID ps d]
  have s': "s' = fold (upload_one cfg ue ops mg contents fileID ps) ds ?s1" using Cons.prems(4) by simp
  have le: "us_failed s \<le> us_failed ?s1" "us_failed ?s1 \<le> us_failed s'"
    using failed_mono [of s cfg ue ops mg contents fileID ps "[d]"] failed_mono [of ?s1 cfg ue ops mg contents fileID ps ds] s' by simp_all
  have IH: "ok (us_world s')" "\<forall>a' c' v'. holds (us_world ?s1) a' c' v' \<and> c' \<notin> cd_ChunkID ` set ds \<longrightarrow> holds (us_world s') a' c' v'"
    "us_failed s' = us_failed ?s1 \<longrightarrow> (\<forall>d \<in> set ds.
         holds (us_world s') (plc_Primary (placement_of ps (cd_ChunkID d))) (cd_ChunkID d) (chunk_slice contents d))"
    using Cons.IH [OF _ Cons.prems(2) _ s'] one Cons.prems(3) by simp_all
  have "cd_ChunkID d \<notin> cd_ChunkID ` set ds" using Cons.prems(3) by simp
  with IH one le show ?case by auto
qed simp

lemma upload_stores:
  assumes up: "Upload cfg ue ops mg fs path name w md = Returns (w', md', Some r, None)" and "ok w"
    and gen: "GenerateDescriptors (ue_os ue) (ue_uuid ue) path (nat (cc_ChunkSize cfg)) fs = Inr ds"
    and contents: "fs_content fs path = Some contents" "length contents < 2 ^ 64"
    and ids: "distinct (map cd_ChunkID ds)" and order: "mset (ue_order ue ds) = mset ds"
  shows "\<exists>ps. ok w' \<and> ur_ChunksTotal r = length ds \<and> ur_ChunksDone r = length ds \<and> ur_ChunksFailed r = 0
    \<and> (\<exists>w0. op_CreateFile ops w (cd_FileID (hd ds)) name (int (length contents)) (cc_ChunkSize cfg) (map cd_ChunkID ds) = (w0, Inr (ur_FileID r, ps)))
    \<and> (\<forall>d \<in> set ds. holds w' (plc_Primary (placement_of ps (cd_ChunkID d))) (cd_ChunkID d) (chunk_slice contents d))"
proof -
  from Upload_success [OF up gen contents(1)] obtain w0 ps s0 s u where
    cr: "op_CreateFile ops w (cd_FileID (hd ds)) name (int (length contents)) (cc_ChunkSize cfg) (map cd_ChunkID ds)
      = (w0, Inr (ur_FileID r, ps))"
    and s0: "us_world s0 = w0" "us_done s0 = 0" "us_failed s0 = 0"
    and s: "s = fold (upload_one cfg ue ops mg contents (cd_FileID (hd ds)) ps) (ue_order ue ds) s0" "us_failed s = 0"
    and fin: "op_CommitFile ops (us_world s) (ur_FileID r) (int (length contents)) = (w', Inr u)"
    "ur_ChunksTotal r = length ds" "ur_ChunksDone r = us_done s" "ur_ChunksFailed r = us_failed s" .
  have "mset (map cd_ChunkID (ue_order ue ds)) = mset (map cd_ChunkID ds)" using order by simp
  then have "distinct (map cd_ChunkID (ue_order ue ds))" using ids mset_eq_imp_distinct_iff by blast
  then have perm: "length (ue_order ue ds) = length ds" "set (ue_order ue ds) = set ds" "distinct (map cd_ChunkID (ue_order ue ds))"
    using mset_eq_length [OF order] mset_eq_setD [OF order] by simp_all
  have "ok w0" by (rule create_keeps [OF assms(2) cr])
  with uploads_effect [OF _ contents(2) perm(3) s(1)] s(2) s0 perm(2) have "ok (us_world s)"
    "\<forall>d \<in> set ds. holds (us_world s) (plc_Primary (placement_of ps (cd_ChunkID d))) (cd_ChunkID d) (chunk_slice contents d)" by auto
  with commit_keeps [OF _ fin(1)] have
    "ok w'" "\<forall>d \<in> set ds. holds w' (plc_Primary (placement_of ps (cd_ChunkID d))) (cd_ChunkID d) (chunk_slice contents d)" by blast+
  moreover have "us_done s = length ds"
    using upload_counts [of cfg ue ops mg contents "cd_FileID (hd ds)" ps "ue_order ue ds" s0] s s0 perm(1) by simp
  ultimately show ?thesis using fin s(2) cr by (intro exI [of _ ps]) auto
qed

end

end
