(* ===== verification/Client_Download.thy ===== *)
theory Client_Download
  imports Client_Upload
begin

text \<open>
  Downloading a file (\<^verbatim>\<open>src/client/internal/service/download.go\<close>): the chunks are fetched
  by goroutines in any order, each from the first replica that answers with data of the
  recorded checksum, and written at their offsets into a preallocated file.
\<close>

section \<open>One chunk\<close>

text \<open>\<open>ctxErr k\<close> is the state of the context before the \<open>k\<close>-th replica, \<open>writeErr\<close> a failing \<open>WriteAt\<close>.\<close>

fun try_replicas ::
  "(nat \<Rightarrow> goerror option) \<Rightarrow> goerror option \<Rightarrow> 'w dfs_ops \<Rightarrow> ClientChunk \<Rightarrow> int \<Rightarrow> nat \<Rightarrow> goerror \<Rightarrow> string list
   \<Rightarrow> 'w \<Rightarrow> bytes \<Rightarrow> 'w \<times> bytes \<times> goerror option" where
  "try_replicas ctxErr writeErr ops chunk chunkSize k lastErr [] w out = (w, out, Some (Wrap ''all replicas failed'' lastErr))"
| "try_replicas ctxErr writeErr ops chunk chunkSize k lastErr (addr # addrs) w out =
     (case ctxErr k of
        Some e \<Rightarrow> (w, out, Some e)
      | None \<Rightarrow>
          (case op_GetChunk ops w addr (ck_ChunkID chunk) of
             (w', Inl e) \<Rightarrow> try_replicas ctxErr writeErr ops chunk chunkSize (Suc k) e addrs w' out
           | (w', Inr data) \<Rightarrow>
               if ck_Checksum chunk \<noteq> [] \<and> checksum_Compute data \<noteq> ck_Checksum chunk
               then try_replicas ctxErr writeErr ops chunk chunkSize (Suc k) (NewError ''checksum mismatch'') addrs w' out
               else if ck_ChunkIndex chunk * chunkSize < 0
               then (w', out, Some (Wrap ''failed to write chunk'' (NewError ''negative offset'')))
               else (case writeErr of
                   Some e \<Rightarrow> (w', out, Some (Wrap ''failed to write chunk'' e))
                 | None \<Rightarrow> (w', write_at (nat (ck_ChunkIndex chunk * chunkSize)) data out, None))))"

definition downloadChunkWithFailover ::
  "(nat \<Rightarrow> goerror option) \<Rightarrow> goerror option \<Rightarrow> 'w dfs_ops \<Rightarrow> ClientChunk \<Rightarrow> int \<Rightarrow> 'w \<Rightarrow> bytes \<Rightarrow> 'w \<times> bytes \<times> goerror option" where
  "downloadChunkWithFailover ctxErr writeErr ops chunk chunkSize w out =
     (if ck_Replicas chunk = [] then (w, out, Some (NewError ''no replicas available''))
      else try_replicas ctxErr writeErr ops chunk chunkSize 0 (NewError '''') (ck_Replicas chunk) w out)"

section \<open>The download\<close>

record DownloadResult =
  dr_FileID :: string
  dr_FileName :: string
  dr_TotalSize :: int
  dr_OutputPath :: string

record download_env =
  de_create :: "goerror option"
  de_truncate :: "goerror option"
  de_ctx :: "string \<Rightarrow> nat \<Rightarrow> goerror option"
  de_write :: "string \<Rightarrow> goerror option"
  de_removeFails :: bool
  de_sort :: "ClientChunk sorter"
  de_order :: "ClientChunk list \<Rightarrow> ClientChunk list"

record 'w download_state =
  dl_world :: 'w
  dl_out :: bytes
  dl_failed :: nat
  dl_firstErr :: "goerror option"

definition download_one ::
  "download_env \<Rightarrow> 'w dfs_ops \<Rightarrow> int \<Rightarrow> ClientChunk \<Rightarrow> 'w download_state \<Rightarrow> 'w download_state" where
  "download_one de ops chunkSize c s =
     (case downloadChunkWithFailover (de_ctx de (ck_ChunkID c)) (de_write de (ck_ChunkID c)) ops c chunkSize (dl_world s) (dl_out s) of
        (w', out', Some e) \<Rightarrow>
          s\<lparr>dl_world := w', dl_out := out', dl_failed := dl_failed s + 1,
            dl_firstErr := (if dl_firstErr s = None then Some e else dl_firstErr s)\<rparr>
      | (w', out', None) \<Rightarrow> s\<lparr>dl_world := w', dl_out := out'\<rparr>)"

definition Download ::
  "Config \<Rightarrow> download_env \<Rightarrow> 'w dfs_ops \<Rightarrow> string \<Rightarrow> string \<Rightarrow> 'w \<Rightarrow> (string \<rightharpoonup> bytes)
   \<Rightarrow> ('w \<times> (string \<rightharpoonup> bytes) \<times> DownloadResult option \<times> goerror option) run" where
  "Download cfg de ops fileName outputPath w files =
     (case op_GetFileByName ops w fileName of
        (w1, Inl e) \<Rightarrow> Returns (w1, files, None, Some (Wrap ''download: failed to get file metadata'' e))
      | (w1, Inr (info, chunks)) \<Rightarrow>
     (if chunks = [] then Returns (w1, files, None, Some (NewError ''download: file has no chunks''))
      else
     (let sorted = de_sort de (\<lambda>a b. ck_ChunkIndex a < ck_ChunkIndex b) chunks in
      case de_create de of
        Some e \<Rightarrow> Returns (w1, files, None, Some (Wrap ''download: failed to create output file'' e))
      | None \<Rightarrow>
     (case (if cf_FileSize info < 0 then Some (NewError ''invalid argument'') else de_truncate de) of
        Some e \<Rightarrow> Returns (w1, files(outputPath \<mapsto> []), None, Some (Wrap ''download: failed to pre-allocate file'' e))
      | None \<Rightarrow>
          with_semaphore (cc_MaxParallelDownloads cfg)
            (let s = fold (download_one de ops (cf_ChunkSize info)) (de_order de sorted)
                   \<lparr>dl_world = w1, dl_out = replicate (nat (cf_FileSize info)) 0, dl_failed = 0, dl_firstErr = None\<rparr>;
                 res = \<lparr>dr_FileID = cf_FileID info, dr_FileName = cf_FileName info, dr_TotalSize = cf_FileSize info,
                        dr_OutputPath = outputPath\<rparr>
             in if dl_failed s > 0
                then (dl_world s, (if de_removeFails de then files(outputPath \<mapsto> dl_out s) else files(outputPath := None)),
                      Some res, Some (Wrap ''download: chunks failed'' (the (dl_firstErr s))))
                else (dl_world s, files(outputPath \<mapsto> dl_out s), Some res, None))))))"

section \<open>Writing at offsets\<close>

lemma write_at_inside:
  assumes "p + length d \<le> length old"
  shows "length (write_at p d old) = length old"
    "j < length old \<Longrightarrow> write_at p d old ! j = (if p \<le> j \<and> j < p + length d then d ! (j - p) else old ! j)"
  using assms by (auto simp: write_at_def nth_append min_def not_less)

text \<open>The bytes of a file that belong to the chunk of an index.\<close>

definition chunk_at :: "nat \<Rightarrow> bytes \<Rightarrow> nat \<Rightarrow> bytes" where
  "chunk_at c v i = take c (drop (i * c) v)"

definition filled :: "nat \<Rightarrow> bytes \<Rightarrow> nat set \<Rightarrow> bytes \<Rightarrow> bool" where
  "filled c v I out \<longleftrightarrow> length out = length v \<and> (\<forall>j < length v. j div c \<in> I \<longrightarrow> out ! j = v ! j)"

lemma filled_write:
  assumes "filled c v I out" "0 < c" "i * c \<le> length v"
  shows "filled c v (insert i I) (write_at (i * c) (chunk_at c v i) out)"
proof -
  have len: "length (chunk_at c v i) = min c (length v - i * c)" by (simp add: chunk_at_def min.commute)
  then have in1: "i * c + length (chunk_at c v i) \<le> length out" using assms by (simp add: filled_def)
  have "write_at (i * c) (chunk_at c v i) out ! j = v ! j" if j: "j < length v" "j div c \<in> insert i I" for j
  proof (cases "i * c \<le> j \<and> j < i * c + length (chunk_at c v i)")
    case True
    then have "j - i * c < c" using len by linarith
    then have "chunk_at c v i ! (j - i * c) = v ! j" using True assms(3) by (simp add: chunk_at_def)
    with True show ?thesis using write_at_inside(2) [OF in1, of j] assms(1) j by (simp add: filled_def)
  next
    case False
    have "j div c \<noteq> i"
    proof
      assume "j div c = i"
      then have "i * c \<le> j" "j < i * c + c" using dividend_less_div_times [OF assms(2), of j] by auto
      with False j(1) show False by (simp add: len)
    qed
    with False j show ?thesis using write_at_inside(2) [OF in1, of j] assms(1) by (auto simp: filled_def)
  qed
  with write_at_inside(1) [OF in1] assms(1) show ?thesis by (simp add: filled_def)
qed

lemma filled_all: "filled c v I out \<Longrightarrow> (\<forall>j < length v. j div c \<in> I) \<Longrightarrow> out = v"
  by (auto simp: filled_def intro: nth_equalityI)

section \<open>Integrity\<close>

text \<open>
  Digests are finite, so different contents with one digest exist; what integrity relies on is
  that no storage node ever answers with such a content for a chunk of the file.
\<close>

definition no_forgery :: "'w dfs_ops \<Rightarrow> nat \<Rightarrow> bytes \<Rightarrow> ClientChunk \<Rightarrow> bool" where
  "no_forgery ops c v k \<longleftrightarrow>
     (\<forall>w a data. snd (op_GetChunk ops w a (ck_ChunkID k)) = Inr data
        \<and> sha256_Sum256 data = sha256_Sum256 (chunk_at c v (nat (ck_ChunkIndex k)))
        \<longrightarrow> data = chunk_at c v (nat (ck_ChunkIndex k)))"

text \<open>A successful fetch has written data of the recorded checksum at the chunk's offset.\<close>

lemma try_replicas_written:
  assumes "try_replicas ctxErr writeErr ops chunk cs k le addrs w out = (w', out', None)"
  shows "\<exists>data. (\<exists>w a. snd (op_GetChunk ops w a (ck_ChunkID chunk)) = Inr data)
    \<and> (ck_Checksum chunk = [] \<or> sha256_Sum256 data = ck_Checksum chunk) \<and> 0 \<le> ck_ChunkIndex chunk * cs
    \<and> out' = write_at (nat (ck_ChunkIndex chunk * cs)) data out"
  using assms
proof (induction addrs arbitrary: k le w)
  case (Cons a addrs)
  obtain w1 r where g: "op_GetChunk ops w a (ck_ChunkID chunk) = (w1, r)" by fastforce
  note IH = Cons.IH [where w = w1]
  show ?case
  proof (cases "\<exists>data. r = Inr data \<and> (ck_Checksum chunk = [] \<or> sha256_Sum256 data = ck_Checksum chunk)")
    case True
    then obtain data where data: "r = Inr data" "ck_Checksum chunk = [] \<or> sha256_Sum256 data = ck_Checksum chunk" by blast
    then have "0 \<le> ck_ChunkIndex chunk * cs" "out' = write_at (nat (ck_ChunkIndex chunk * cs)) data out"
      using Cons.prems g by (auto simp: checksum_Compute_def not_less split: if_splits option.splits)
    moreover have "snd (op_GetChunk ops w a (ck_ChunkID chunk)) = Inr data" using g data(1) by simp
    ultimately show ?thesis using data(2) by blast
  next
    case False
    then have "\<exists>le'. try_replicas ctxErr writeErr ops chunk cs (Suc k) le' addrs w1 out = (w', out', None)"
      using Cons.prems g by (auto simp: checksum_Compute_def split: sum.splits if_splits option.splits)
    then show ?thesis using IH by blast
  qed
qed simp

lemma download_one_written:
  assumes "s' = download_one de ops cs chunk s" "dl_failed s' = dl_failed s"
  shows "\<exists>data. (\<exists>w a. snd (op_GetChunk ops w a (ck_ChunkID chunk)) = Inr data)
    \<and> (ck_Checksum chunk = [] \<or> sha256_Sum256 data = ck_Checksum chunk) \<and> 0 \<le> ck_ChunkIndex chunk * cs
    \<and> dl_out s' = write_at (nat (ck_ChunkIndex chunk * cs)) data (dl_out s)"
proof -
  obtain w1 out1 e where d: "downloadChunkWithFailover (de_ctx de (ck_ChunkID chunk)) (de_write de (ck_ChunkID chunk)) ops chunk cs
      (dl_world s) (dl_out s) = (w1, out1, e)" by (metis prod_cases3)
  then have "e = None" "dl_out s' = out1" using assms by (auto simp: download_one_def split: option.splits)
  with d show ?thesis
    by (auto simp: downloadChunkWithFailover_def dest: try_replicas_written split: if_splits)
qed

lemma download_failed_mono: "dl_failed s \<le> dl_failed (fold (download_one de ops cs) chunks s)"
proof (induction chunks arbitrary: s)
  case (Cons c chunks)
  have "dl_failed s \<le> dl_failed (download_one de ops cs c s)"
    by (simp add: download_one_def split: prod.split option.split)
  with Cons [of "download_one de ops cs c s"] show ?case by (simp add: le_trans)
qed simp

text \<open>What the metadata must say about the file: the size, and for each chunk its place and its checksum.\<close>

definition describes :: "nat \<Rightarrow> bytes \<Rightarrow> ClientFile \<Rightarrow> ClientChunk list \<Rightarrow> bool" where
  "describes c v info chunks \<longleftrightarrow>
     0 < c \<and> cf_FileSize info = int (length v) \<and> cf_ChunkSize info = int c
     \<and> ck_ChunkIndex ` set chunks = int ` {..<nat_ceil (length v) c}
     \<and> (\<forall>k \<in> set chunks. ck_Checksum k = sha256_Sum256 (chunk_at c v (nat (ck_ChunkIndex k))))"

lemma downloads_fill:
  assumes "\<forall>k \<in> set chunks. no_forgery ops c v k" "0 < c" "filled c v I (dl_out s)"
    and "s' = fold (download_one de ops (int c)) chunks s" "dl_failed s' = dl_failed s"
    and "\<forall>k \<in> set chunks. 0 \<le> ck_ChunkIndex k \<and> nat (ck_ChunkIndex k) * c \<le> length v
        \<and> ck_Checksum k = sha256_Sum256 (chunk_at c v (nat (ck_ChunkIndex k)))"
  shows "filled c v (I \<union> (\<lambda>k. nat (ck_ChunkIndex k)) ` set chunks) (dl_out s')"
  using assms(1,3-)
proof (induction chunks arbitrary: s I)
  case (Cons k chunks)
  note nf = Cons.prems(1)
  let ?s1 = "download_one de ops (int c) k s" and ?i = "nat (ck_ChunkIndex k)"
  have s': "s' = fold (download_one de ops (int c)) chunks ?s1" using Cons.prems(3) by simp
  have "dl_failed s \<le> dl_failed ?s1" "dl_failed ?s1 \<le> dl_failed s'"
    using download_failed_mono [of s de ops "int c" "[k]"] download_failed_mono [of ?s1 de ops "int c" chunks] s' by simp_all
  then have same: "dl_failed ?s1 = dl_failed s" "dl_failed s' = dl_failed ?s1" using Cons.prems(4) by simp_all
  have k: "0 \<le> ck_ChunkIndex k" "?i * c \<le> length v" "ck_Checksum k = sha256_Sum256 (chunk_at c v ?i)" using Cons.prems(5) by simp_all
  have off: "nat (ck_ChunkIndex k * int c) = ?i * c" using k(1) by (simp add: nat_mult_distrib)
  obtain data where d: "\<exists>w a. snd (op_GetChunk ops w a (ck_ChunkID k)) = Inr data"
    "sha256_Sum256 data = sha256_Sum256 (chunk_at c v ?i)" "dl_out ?s1 = write_at (?i * c) data (dl_out s)"
  proof -
    from download_one_written [OF refl same(1)] obtain data where
      "\<exists>w a. snd (op_GetChunk ops w a (ck_ChunkID k)) = Inr data" "ck_Checksum k = [] \<or> sha256_Sum256 data = ck_Checksum k" "dl_out ?s1 = write_at (?i * c) data (dl_out s)"
      unfolding off by blast
    moreover have "length (ck_Checksum k) = 32" by (simp add: k(3))
    then have "ck_Checksum k \<noteq> []" by auto
    ultimately show ?thesis using that k(3) by auto
  qed
  have "data = chunk_at c v ?i" using nf d(1,2) unfolding no_forgery_def by (metis list.set_intros(1))
  with d(3) filled_write [OF Cons.prems(2) assms(2) k(2)] have "filled c v (insert ?i I) (dl_out ?s1)" by simp
  from Cons.IH [OF _ this s' same(2)] nf Cons.prems(5) show ?case by simp
qed simp


definition demo_info :: ClientFile where
  "demo_info = \<lparr>cf_FileID = ''f'', cf_FileName = ''a'', cf_FileSize = 3, cf_ChunkSize = 4, cf_ChunkIDs = [''c0''],
     cf_Status = ''complete'', cf_CreatedAt = 0\<rparr>"

definition demo_chunk :: ClientChunk where
  "demo_chunk = \<lparr>ck_ChunkID = ''c0'', ck_FileID = ''f'', ck_ChunkIndex = 0, ck_Size = 0, ck_Checksum = sha256_Sum256 [1, 2, 3],
     ck_Replicas = [''n1:9'', ''n2:9'']\<rparr>"

text \<open>The first replica of the chunk cannot be reached.\<close>

definition demo_ops :: "unit dfs_ops" where
  "demo_ops =
     \<lparr>op_CreateFile = (\<lambda>w f n sz csz ids. (w, Inl EOF)), op_CommitFile = (\<lambda>w f sz. (w, Inl EOF)),
      op_GetFileByName = (\<lambda>w n. (w, Inr (demo_info, [demo_chunk]))),
      op_PutChunk = (\<lambda>w a c v s rt. (w, Some EOF)),
      op_GetChunk = (\<lambda>w a c. (w, if a = ''n1:9'' then Inl (Status Unavailable ''connection refused'') else Inr [1, 2, 3]))\<rparr>"

definition demo_download_env :: download_env where
  "demo_download_env =
     \<lparr>de_create = None, de_truncate = None, de_ctx = (\<lambda>_ _. None), de_write = (\<lambda>_. None), de_removeFails = False,
      de_sort = insertionSort, de_order = (\<lambda>ks. ks)\<rparr>"


section \<open>Availability\<close>

text \<open>A download in which nothing fails locally.\<close>

definition clean_download :: "Config \<Rightarrow> download_env \<Rightarrow> bool" where
  "clean_download cfg de \<longleftrightarrow> 0 < cc_MaxParallelDownloads cfg \<and> de_create de = None \<and> de_truncate de = None
     \<and> (\<forall>x j. de_ctx de x j = None) \<and> (\<forall>x. de_write de x = None) \<and> sort_spec (de_sort de)
     \<and> (\<forall>ks. mset (de_order de ks) = mset ks)"

text \<open>The first replica of a chunk holds the bytes that belong to it.\<close>

definition available ::
  "('w \<Rightarrow> string \<Rightarrow> string \<Rightarrow> bytes \<Rightarrow> bool) \<Rightarrow> nat \<Rightarrow> bytes \<Rightarrow> 'w \<Rightarrow> ClientChunk \<Rightarrow> bool" where
  "available holds c v w k \<longleftrightarrow> 0 \<le> ck_ChunkIndex k \<and> nat (ck_ChunkIndex k) * c \<le> length v
     \<and> (\<exists>a as. ck_Replicas k = a # as \<and> holds w a (ck_ChunkID k) (chunk_at c v (nat (ck_ChunkIndex k))))
     \<and> ck_Checksum k \<in> {[], sha256_Sum256 (chunk_at c v (nat (ck_ChunkIndex k)))}"

text \<open>In addition, a chunk that is held can be fetched, and reading changes nothing.\<close>

locale dfs_service = chunk_service ops ok holds
  for ops :: "'w dfs_ops" and ok :: "'w \<Rightarrow> bool" and holds :: "'w \<Rightarrow> string \<Rightarrow> string \<Rightarrow> bytes \<Rightarrow> bool" +
  assumes get_held: "ok w \<Longrightarrow> holds w a c v \<Longrightarrow>
      \<exists>w'. op_GetChunk ops w a c = (w', Inr v) \<and> ok w' \<and> (\<forall>a' c' v'. holds w a' c' v' \<longrightarrow> holds w' a' c' v')"
    and lookup_keeps: "ok w \<Longrightarrow> op_GetFileByName ops w n = (w', r) \<Longrightarrow> ok w' \<and> (\<forall>a c v. holds w a c v \<longrightarrow> holds w' a c v)"
begin

lemma fetch_available:
  assumes "ok (dl_world s)" "available holds c v (dl_world s) k" "\<And>x j. de_ctx de x j = None" "\<And>x. de_write de x = None"
    and s': "s' = download_one de ops (int c) k s"
  shows "dl_out s' = write_at (nat (ck_ChunkIndex k) * c) (chunk_at c v (nat (ck_ChunkIndex k))) (dl_out s)
    \<and> dl_failed s' = dl_failed s \<and> ok (dl_world s') \<and> (\<forall>k'. available holds c v (dl_world s) k' \<longrightarrow> available holds c v (dl_world s') k')"
proof -
  let ?d = "chunk_at c v (nat (ck_ChunkIndex k))"
  from assms(2) obtain a as where a: "ck_Replicas k = a # as" "holds (dl_world s) a (ck_ChunkID k) ?d"
    by (auto simp: available_def)
  from get_held [OF assms(1) a(2)] obtain w' where g: "op_GetChunk ops (dl_world s) a (ck_ChunkID k) = (w', Inr ?d)" "ok w'"
    "\<forall>a' c' v'. holds (dl_world s) a' c' v' \<longrightarrow> holds w' a' c' v'" by blast
  have i: "0 \<le> ck_ChunkIndex k" "ck_Checksum k = [] \<or> ck_Checksum k = sha256_Sum256 ?d" using assms(2) by (auto simp: available_def)
  have off: "nat (ck_ChunkIndex k * int c) = nat (ck_ChunkIndex k) * c" "\<not> ck_ChunkIndex k * int c < 0"
    using i(1) by (simp_all add: nat_mult_distrib not_less)
  have "downloadChunkWithFailover (de_ctx de (ck_ChunkID k)) (de_write de (ck_ChunkID k)) ops k (int c) (dl_world s) (dl_out s)
      = (w', write_at (nat (ck_ChunkIndex k) * c) ?d (dl_out s), None)"
    using a(1) g(1) i(2) off assms(3,4) by (auto simp: downloadChunkWithFailover_def checksum_Compute_def)
  then have "s' = s\<lparr>dl_world := w', dl_out := write_at (nat (ck_ChunkIndex k) * c) ?d (dl_out s)\<rparr>"
    by (simp add: s' download_one_def)
  with g(2,3) show ?thesis unfolding available_def by auto
qed

lemma fetch_all:
  assumes "0 < c" "\<And>x j. de_ctx de x j = None" "\<And>x. de_write de x = None"
    and "ok (dl_world s)" "\<forall>k \<in> set ks. available holds c v (dl_world s) k" "filled c v I (dl_out s)"
    and "s' = fold (download_one de ops (int c)) ks s"
  shows "dl_failed s' = dl_failed s \<and> filled c v (I \<union> (\<lambda>k. nat (ck_ChunkIndex k)) ` set ks) (dl_out s')"
  using assms(4-)
proof (induction ks arbitrary: s I)
  case (Cons k ks)
  let ?s1 = "download_one de ops (int c) k s" and ?i = "nat (ck_ChunkIndex k)"
  have k: "available holds c v (dl_world s) k" using Cons.prems(2) by simp
  note one = fetch_available [OF Cons.prems(1) k assms(2,3) refl]
  have "?i * c \<le> length v" using k by (simp add: available_def)
  from filled_write [OF Cons.prems(3) assms(1) this] one have "filled c v (insert ?i I) (dl_out ?s1)" by simp
  moreover have "s' = fold (download_one de ops (int c)) ks ?s1" using Cons.prems(4) by simp
  moreover have "\<forall>k \<in> set ks. available holds c v (dl_world ?s1) k" using one Cons.prems(2) by auto
  ultimately show ?case using Cons.IH [of ?s1 "insert ?i I"] one by simp
qed simp

lemma download_available:
  assumes "clean_download cfg de" "ok w" "op_GetFileByName ops w name = (w1, Inr (info, chunks))" "describes c v info chunks"
    and "v \<noteq> []" "\<forall>k \<in> set chunks. available holds c v w k"
  shows "\<exists>w' r. Download cfg de ops name path w files = Returns (w', files(path \<mapsto> v), Some r, None)"
proof -
  let ?sorted = "de_sort de (\<lambda>a b. ck_ChunkIndex a < ck_ChunkIndex b) chunks"
  let ?s0 = "\<lparr>dl_world = w1, dl_out = replicate (length v) 0, dl_failed = 0, dl_firstErr = None\<rparr>"
  define s where "s = fold (download_one de ops (int c)) (de_order de ?sorted) ?s0"
  note de = assms(1) [unfolded clean_download_def]
  have c: "0 < c" "cf_FileSize info = int (length v)" "cf_ChunkSize info = int c"
    "ck_ChunkIndex ` set chunks = int ` {..<nat_ceil (length v) c}" using assms(4) by (simp_all add: describes_def)
  have set: "set (de_order de ?sorted) = set chunks"
    using de sort_spec_set by (metis set_mset_mset)
  have "ok w1" "\<forall>k \<in> set chunks. available holds c v w1 k"
    using lookup_keeps [OF assms(2,3)] assms(6) by (auto simp: available_def)
  then have s: "dl_failed s = 0" "filled c v ((\<lambda>k. nat (ck_ChunkIndex k)) ` set chunks) (dl_out s)"
    using fetch_all [OF c(1), of de ?s0 "de_order de ?sorted" v "{}" s] de by (simp_all add: set s_def filled_def)
  have all: "j div c \<in> (\<lambda>k. nat (ck_ChunkIndex k)) ` set chunks" if "j < length v" for j
  proof -
    have "j div c < nat_ceil (length v) c"
      using that nat_ceil_bounds [OF c(1), of "length v"] by (simp add: less_mult_imp_div_less)
    then have "int (j div c) \<in> ck_ChunkIndex ` set chunks" unfolding c(4) by simp
    then obtain k where "k \<in> set chunks" "ck_ChunkIndex k = int (j div c)" by auto
    then show ?thesis by (intro image_eqI [of _ _ k]) simp_all
  qed
  then have "dl_out s = v" using filled_all [OF s(2)] by blast
  moreover have "chunks \<noteq> []" using all [of 0] assms(5) by auto
  ultimately show ?thesis
    using s(1) de assms(3) c(2,3) unfolding Download_def Let_def s_def by (simp add: with_semaphore_def)
qed

end

end
