(* ===== verification/Storage_Client.thy ===== *)
theory Storage_Client
  imports Storage_Server Client_Chunks
begin

text \<open>
  The client's side of the storage protocol
  (\<^verbatim>\<open>src/client/internal/storageclient/grpc.go\<close>): pooled connections, the framing of an
  upload and the collection of a download. The server's end of a stream is a
  function from the frames it receives, and from the error the stream breaks with;
  \<open>node_put\<close> and \<open>node_get\<close> are the storage nodes of the theory \<open>Storage_Server\<close>.
\<close>

record GRPCClient =
  gc_conns :: "string set"
  gc_frameSize :: nat

definition NewGRPCClient :: "int \<Rightarrow> GRPCClient" where
  "NewGRPCClient frameSize = \<lparr>gc_conns = {}, gc_frameSize = (if frameSize \<le> 0 then 32 * 1024 else nat frameSize)\<rparr>"

definition getOrDial :: "(string \<Rightarrow> goerror option) \<Rightarrow> GRPCClient \<Rightarrow> string \<Rightarrow> GRPCClient \<times> goerror option" where
  "getOrDial dial g addr =
     (if addr \<in> gc_conns g then (g, None)
      else case dial addr of
        Some e \<Rightarrow> (g, Some (Wrap ''storageclient: failed to connect'' e))
      | None \<Rightarrow> (g\<lparr>gc_conns := insert addr (gc_conns g)\<rparr>, None))"

text \<open>The loop over the data, and the single empty frame of an empty chunk.\<close>

function frame_loop :: "(bytes \<Rightarrow> bool \<Rightarrow> 'f) \<Rightarrow> nat \<Rightarrow> bytes \<Rightarrow> 'f list" where
  "frame_loop mk n data =
     (if data = [] then []
      else if n = 0 \<or> length data \<le> n then [mk data True]
      else mk (take n data) False # frame_loop mk n (drop n data))"
  by pat_completeness auto

termination
  by (relation "measure (\<lambda>(mk, n, data). length data)") auto

declare frame_loop.simps [simp del]

definition put_request :: "string \<Rightarrow> bytes \<Rightarrow> string list \<Rightarrow> bytes \<Rightarrow> bool \<Rightarrow> PutChunkRequest" where
  "put_request chunkID checksum replicateTo d isLast =
     \<lparr>pcq_ChunkId = chunkID, pcq_Data = d, pcq_Checksum = checksum, pcq_IsLast = isLast, pcq_ReplicateTo = map Some replicateTo\<rparr>"

definition put_frames :: "GRPCClient \<Rightarrow> string \<Rightarrow> bytes \<Rightarrow> bytes \<Rightarrow> string list \<Rightarrow> PutChunkRequest list" where
  "put_frames g chunkID data checksum replicateTo =
     (let mk = put_request chunkID checksum replicateTo
      in frame_loop mk (gc_frameSize g) data @ (if data = [] then [mk [] True] else []))"

text \<open>What can go wrong on a stream: opening it, or the send of some frame.\<close>

record stream_faults =
  sf_open :: "goerror option"
  sf_send :: "nat \<Rightarrow> goerror option"

definition no_faults :: stream_faults where
  "no_faults = \<lparr>sf_open = None, sf_send = (\<lambda>_. None)\<rparr>"

text \<open>The first failing send, if any, among \<open>n\<close> frames.\<close>

fun first_fault :: "(nat \<Rightarrow> goerror option) \<Rightarrow> nat \<Rightarrow> (nat \<times> goerror) option" where
  "first_fault send 0 = None"
| "first_fault send (Suc n) =
     (case first_fault send n of
        Some x \<Rightarrow> Some x
      | None \<Rightarrow> (case send n of None \<Rightarrow> None | Some e \<Rightarrow> Some (n, e)))"

type_synonym 'w put_server = "'w \<Rightarrow> string \<Rightarrow> PutChunkRequest list \<Rightarrow> goerror option \<Rightarrow> 'w \<times> PutChunkResponse result"
type_synonym 'w get_server = "'w \<Rightarrow> string \<Rightarrow> string \<Rightarrow> (GetChunkResponse list \<times> goerror option) option"

definition sc_PutChunk ::
  "(string \<Rightarrow> goerror option) \<Rightarrow> stream_faults \<Rightarrow> 'w put_server \<Rightarrow> GRPCClient \<Rightarrow> 'w \<Rightarrow> string \<Rightarrow> string \<Rightarrow> bytes \<Rightarrow> bytes \<Rightarrow> string list
   \<Rightarrow> GRPCClient \<times> 'w \<times> goerror option" where
  "sc_PutChunk dial flt server g w addr chunkID data checksum replicateTo =
     (case getOrDial dial g addr of
        (g1, Some e) \<Rightarrow> (g1, w, Some e)
      | (g1, None) \<Rightarrow>
     (case sf_open flt of
        Some e \<Rightarrow> (g1, w, Some (Wrap ''storageclient: PutChunk stream open failed'' e))
      | None \<Rightarrow>
          (let frames = put_frames g chunkID data checksum replicateTo in
           case first_fault (sf_send flt) (length frames) of
             Some (k, e) \<Rightarrow> (g1, fst (server w addr (take k frames) (Some e)),
               Some (Wrap (if data = [] then ''storageclient: PutChunk send empty frame failed''
                           else ''storageclient: PutChunk send frame failed'') e))
           | None \<Rightarrow>
               (case server w addr frames None of
                  (w', Inl e) \<Rightarrow> (g1, w', Some (Wrap ''storageclient: PutChunk close failed'' e))
                | (w', Inr resp) \<Rightarrow> (g1, w', None)))))"

text \<open>Receiving ends with the server's frames and its status; no result if the server never ends.\<close>

definition sc_GetChunk ::
  "(string \<Rightarrow> goerror option) \<Rightarrow> stream_faults \<Rightarrow> 'w get_server \<Rightarrow> GRPCClient \<Rightarrow> 'w \<Rightarrow> string \<Rightarrow> string
   \<Rightarrow> GRPCClient \<times> bytes result option" where
  "sc_GetChunk dial flt server g w addr chunkID =
     (case getOrDial dial g addr of
        (g1, Some e) \<Rightarrow> (g1, Some (Inl e))
      | (g1, None) \<Rightarrow>
     (case sf_open flt of
        Some e \<Rightarrow> (g1, Some (Inl (Wrap ''storageclient: GetChunk stream open failed'' e)))
      | None \<Rightarrow>
          (case server w addr chunkID of
             None \<Rightarrow> (g1, None)
           | Some (resps, Some e) \<Rightarrow> (g1, Some (Inl (Wrap ''storageclient: GetChunk recv failed'' e)))
           | Some (resps, None) \<Rightarrow> (g1, Some (Inr (concat (map gcr_Data resps)))))))"

text \<open>\<open>errs\<close> are the connections that fail to close, in the order they are visited.\<close>

definition sc_Close :: "(string \<times> goerror) list \<Rightarrow> GRPCClient \<Rightarrow> GRPCClient \<times> goerror option" where
  "sc_Close errs g =
     (g\<lparr>gc_conns := {}\<rparr>,
      case filter (\<lambda>(a, e). a \<in> gc_conns g) errs of
        [] \<Rightarrow> None
      | (a, e) # _ \<Rightarrow> Some (Wrap ''storageclient: failed to close connection'' e))"

section \<open>The frames of an upload\<close>

lemma frame_loop_shape:
  "data \<noteq> [] \<Longrightarrow> \<exists>ds d. frame_loop mk n data = map (\<lambda>x. mk x False) ds @ [mk d True] \<and> concat ds @ d = data"
proof (induction mk n data rule: frame_loop.induct)
  case (1 mk n data)
  show ?case
  proof (cases "n = 0 \<or> length data \<le> n")
    case True
    with 1(2) show ?thesis by (intro exI [of _ "[]"] exI [of _ data]) (simp add: frame_loop.simps [of mk n data])
  next
    case False
    then have "drop n data \<noteq> []" by simp
    from "1.IH" [OF 1(2) False this] obtain ds d where
      "frame_loop mk n (drop n data) = map (\<lambda>x. mk x False) ds @ [mk d True]" "concat ds @ d = drop n data" by blast
    with False 1(2) show ?thesis
      by (intro exI [of _ "take n data # ds"] exI [of _ d]) (simp add: frame_loop.simps [of mk n data])
  qed
qed

lemma put_frames_shape:
  obtains ds d where "put_frames g c data cs rt = map (\<lambda>x. put_request c cs rt x False) ds @ [put_request c cs rt d True]"
    "concat ds @ d = data"
proof (cases "data = []")
  case True
  then show ?thesis by (intro that [of "[]" "[]"]) (simp_all add: put_frames_def Let_def frame_loop.simps)
next
  case False
  from frame_loop_shape [OF this, of "put_request c cs rt" "gc_frameSize g"] that show ?thesis
    by (auto simp: put_frames_def Let_def False)
qed

lemma first_fault_none: "(\<forall>k < n. send k = None) \<Longrightarrow> first_fault send n = None"
  by (induction n) simp_all

section \<open>What a stream of frames leaves alone\<close>

text \<open>
  Whatever fails, storing a chunk removes no directory and keeps the configuration of the store.
\<close>

definition keeps :: "'ix disk \<Rightarrow> 'ix disk \<Rightarrow> bool" where
  "keeps d d' \<longleftrightarrow> set (fs_dirs (d_fs d)) \<subseteq> set (fs_dirs (d_fs d')) \<and> same_config (d_store d) (d_store d')"

lemma keeps_refl [simp]: "keeps d d"
  by (simp add: keeps_def)

lemma keeps_trans: "keeps a b \<Longrightarrow> keeps b c \<Longrightarrow> keeps a c"
  by (auto simp: keeps_def same_config_def)

lemma keeps_fs: "set (fs_dirs (d_fs d)) \<subseteq> set (fs_dirs fs) \<Longrightarrow> keeps d (d\<lparr>d_fs := fs\<rparr>)"
  by (simp add: keeps_def)

lemma keeps_store: "set (fs_dirs (d_fs d)) \<subseteq> set (fs_dirs fs) \<Longrightarrow>
    keeps d (d\<lparr>d_fs := fs, d_store := (d_store d)\<lparr>checksumStore := ix\<rparr>\<rparr>)
  \<and> keeps d (d\<lparr>d_fs := fs, d_store := (d_store d)\<lparr>checksumStore := ix, usedSpace := u\<rparr>\<rparr>)"
  by (simp add: keeps_def same_config_def)

lemma dirs_open_trunc: "open_trunc p fs = (i, fs1) \<Longrightarrow> fs_dirs fs1 = fs_dirs fs"
  by (auto simp: open_trunc_def split: option.splits)

lemma dirs_Create: "os_Create os p fs = Inr (fs1, f) \<Longrightarrow> fs_dirs fs1 = fs_dirs fs"
  by (auto simp: os_Create_def dest: dirs_open_trunc split: option.splits if_splits prod.splits)

lemma dirs_Rename: "os_Rename os src dst fs = (fs1, e) \<Longrightarrow> fs_dirs fs1 = fs_dirs fs"
  by (auto simp: os_Rename_def split: option.splits if_splits)

lemma dirs_Remove: "fs_dirs (fst (os_Remove os p fs)) = fs_dirs fs"
  by (simp add: os_Remove_def split: option.split)

lemma dirs_Write: "file_Write os data f fs = (fs1, f1, n, e) \<Longrightarrow> fs_dirs fs1 = fs_dirs fs"
  by (auto simp: file_Write_def Let_def)

lemma NewChunkWriter_keeps: "NewChunkWriter os c d = Inr (d', w) \<Longrightarrow> keeps d d'"
  by (auto simp: NewChunkWriter_def intro!: keeps_fs dest!: dirs_Create split: if_splits sum.splits)

lemma cw_Write_keeps: "cw_Write os w d data = (d', w', e) \<Longrightarrow> keeps d d'"
  by (auto simp: cw_Write_def intro!: keeps_fs dest!: dirs_Write split: if_splits prod.splits option.splits)

lemma cw_Abort_keeps: "keeps d (fst (cw_Abort os w d))"
  by (simp add: cw_Abort_def keeps_fs dirs_Remove)

lemma ds_Rename_keeps:
  assumes "ds_Rename os cs d src c = (d', e)"
  shows "keeps d d'"
proof -
  have mk: "set (fs_dirs (d_fs d)) \<subseteq> set (fs_dirs fs1)" if "os_MkdirAll os p (d_fs d) = (fs1, err)" for p fs1 err
    using MkdirAll_simps(5) [OF that] .
  have rn: "set (fs_dirs (d_fs d)) \<subseteq> set (fs_dirs fs2)"
    if "os_MkdirAll os p (d_fs d) = (fs1, err)" "os_Rename os src dst fs1 = (fs2, err2)" for p fs1 err dst fs2 err2
    using mk [OF that(1)] dirs_Rename [OF that(2)] by simp
  show ?thesis
    using assms unfolding ds_Rename_def Let_def
    by (auto dest: mk rn intro!: keeps_fs conjunct1 [OF keeps_store] conjunct2 [OF keeps_store]
        split: option.splits sum.splits prod.splits if_splits)
qed

lemma cw_Abort_keeps_eq: "cw_Abort os w d = (d', w') \<Longrightarrow> keeps d d'"
  by (metis cw_Abort_keeps fst_conv)

lemma cw_Finalize_keeps: "cw_Finalize os cs w d k = (d', w', e) \<Longrightarrow> keeps d d'"
  by (auto simp: cw_Finalize_def dest!: ds_Rename_keeps cw_Abort_keeps_eq intro: keeps_trans
      split: if_splits prod.splits option.splits)

lemma put_open_keeps: "put_open os d st f = Inr (d1, w, st1) \<Longrightarrow> keeps d d1"
  by (auto simp: put_open_def dest: NewChunkWriter_keeps split: option.splits sum.splits prod.splits)

lemma put_frame_keeps:
  assumes "put_frame os d st f = (d', r)"
  shows "keeps d d'"
proof (cases "put_open os d st f")
  case (Inl e)
  with assms show ?thesis by (simp add: put_frame_def)
next
  case (Inr x)
  obtain d1 w st1 where x: "x = (d1, w, st1)" by (cases x)
  obtain d2 w2 e where wr: "cw_Write os w d1 (pcq_Data f) = (d2, w2, e)" by (cases "cw_Write os w d1 (pcq_Data f)")
  have "keeps d1 d2" using wr by (rule cw_Write_keeps)
  then have "keeps d1 d'"
    using assms Inr x wr cw_Abort_keeps keeps_trans
    by (fastforce simp: put_frame_def split: if_splits option.splits)
  with put_open_keeps [OF Inr [unfolded x]] show ?thesis by (rule keeps_trans)
qed

lemma put_eof_keeps: "put_eof os cs h sendErr d st = (d', r) \<Longrightarrow> keeps d d'"
  using cw_Abort_keeps
  by (auto simp: put_eof_def dest: cw_Finalize_keeps split: option.splits if_splits prod.splits)

lemma put_loop_keeps: "put_loop os cs h sendErr k d st frames fin = (d', r) \<Longrightarrow> keeps d d'"
proof (induction os cs h sendErr k d st frames fin rule: put_loop.induct)
  case (2 os cs h sendErr k d st e)
  then show ?case using cw_Abort_keeps by (auto split: option.splits)
next
  case (3 os cs h sendErr k d st f frames fin)
  obtain d1 r1 where f: "put_frame (os k) d st f = (d1, r1)" by fastforce
  from 3 f put_frame_keeps [OF f] show ?case by (cases r1) (auto intro: keeps_trans)
qed (auto dest: put_eof_keeps)

lemma PutChunk_keeps: "PutChunk os cs h sendErr d frames fin = (d', r) \<Longrightarrow> keeps d d'"
  unfolding PutChunk_def by (rule put_loop_keeps)

section \<open>Storage nodes behind the client\<close>

record 'ix storage_world =
  sw_nodes :: "string \<rightharpoonup> 'ix disk"
  sw_commits :: "CommitChunkRequest list"

definition node_put :: "'ix ChecksumIndexStore \<Rightarrow> (string \<Rightarrow> StorageServerHandler) \<Rightarrow> 'ix storage_world put_server" where
  "node_put cs H w addr frames fin =
     (case sw_nodes w addr of
        None \<Rightarrow> (w, Inl (Status Unavailable ''connection refused''))
      | Some d \<Rightarrow>
          (case PutChunk (\<lambda>_. reliable_os) cs (H addr) None d frames fin of
             (d', reqs, resp) \<Rightarrow> (w\<lparr>sw_nodes := (sw_nodes w)(addr \<mapsto> d'), sw_commits := sw_commits w @ reqs\<rparr>, resp)))"

definition node_get :: "os_env \<Rightarrow> 'ix ChecksumIndexStore \<Rightarrow> 'ix storage_world get_server" where
  "node_get os cs w addr chunkID =
     (case sw_nodes w addr of
        None \<Rightarrow> Some ([], Some (Status Unavailable ''connection refused''))
      | Some d \<Rightarrow> GetChunk os cs (\<lambda>_. None) d chunkID)"

lemma spec_PutChunk_frames:
  assumes "valid c"
  shows "spec_PutChunk valid cap h None m (put_frames g c data checksum rt) None =
    (if sha256_Sum256 data \<noteq> checksum \<or> cap < chunk_bytes (m(c \<mapsto> data))
     then (m, [], Inl (Status Internal ''failed to finalize chunk''))
     else (m(c \<mapsto> data), put_committed h None (targets (map Some rt)) (put_request c checksum rt
            (pcq_Data (last (put_frames g c data checksum rt))) True)))"
proof -
  obtain ds d where f: "put_frames g c data checksum rt =
      map (\<lambda>x. put_request c checksum rt x False) ds @ [put_request c checksum rt d True]" "concat ds @ d = data"
    by (rule put_frames_shape)
  have ids: "pcq_ChunkId f = c" "pcq_ReplicateTo f = map Some rt" if "f \<in> set (put_frames g c data checksum rt)" for f
    using that by (auto simp: f(1) put_request_def)
  obtain f1 fs where hd: "put_frames g c data checksum rt = f1 # fs" by (cases "put_frames g c data checksum rt") (auto simp: f(1))
  have "concat (map pcq_Data (put_frames g c data checksum rt)) = data"
    using f(2) by (simp add: f(1) put_request_def comp_def)
  moreover have "last (put_frames g c data checksum rt) = put_request c checksum rt d True" by (simp add: f(1))
  moreover have "\<not> list_ex (\<lambda>g. pcq_ChunkId g \<noteq> pcq_ChunkId f1) (f1 # fs)"
    using ids(1) unfolding hd by (auto simp: list_ex_iff)
  moreover have "pcq_ChunkId f1 = c" "pcq_ReplicateTo f1 = map Some rt" using ids unfolding hd by simp_all
  ultimately show ?thesis
    using assms unfolding spec_PutChunk_def hd list.case spec_end_def by (simp add: put_request_def)
qed

lemma put_committed_ok:
  assumes "sh_MetaClient h = Some accept" "accept = (\<lambda>req. None)"
  shows "\<exists>replicas resp. put_committed h None ts (put_request c checksum rt x True) =
    ([\<lparr>ccq_ChunkId = c, ccq_ConfirmedNodes = sh_NodeID h # replicas, ccq_Checksum = checksum\<rparr>], Inr resp)"
  using assms by (simp add: put_committed_def Let_def put_request_def)

lemma client_get:
  assumes ci: "checksum_index cs sums ready" and inv: "store_inv sums ready d" and node: "sw_nodes w addr = Some d"
    and v: "chunks sums d c = Some data"
  shows "snd (sc_GetChunk (\<lambda>_. None) no_faults (node_get reliable_os cs) g w addr c) = Some (Inr data)"
proof -
  obtain j err where "GetChunk reliable_os cs (\<lambda>_. None) d c = Some (map (get_response c) (take j (chunk_frames 32768 data)), err)"
    "err = None \<longrightarrow> length (chunk_frames 32768 data) \<le> j" "err = None"
    using GetChunk_stored [OF ci inv _ v, of reliable_os "\<lambda>_. None"] by (auto simp: no_eof_faults_def)
  moreover have "concat (map Data (chunk_frames 32768 data)) = data" by (rule chunk_frames_data) simp
  ultimately show ?thesis
    using node by (simp add: sc_GetChunk_def getOrDial_def no_faults_def node_get_def get_response_def comp_def)
qed

text \<open>
  C32: A chunk sent through the client is stored by the node exactly as it was, and
  comes back so. If the data fits the free capacity and the metadata service accepts
  the commit, \<open>PutChunk\<close> of the client returns no error, the node's chunks gain the
  data under the id and nothing else changes, and exactly one commit is sent, with
  the digest of the data, the node itself and the replicas that confirmed. After that
  \<open>GetChunk\<close> of a client returns exactly the data. A wrong digest is refused without any change.
\<close>

theorem client_put_get:
  assumes index: "reliable_index cs sums ready" and inv: "store_inv sums ready d" and temp: "temp_ready d"
    and node: "sw_nodes w addr = Some d" and valid: "valid_id (d_store d) c" and len: "length data < 2 ^ 64"
    and space: "chunk_bytes ((chunks sums d)(c \<mapsto> data)) \<le> unat (totalSpace (d_store d))"
    and commit: "sh_MetaClient (H addr) = Some accept" "\<forall>req. accept req = None"
    and put: "sc_PutChunk (\<lambda>_. None) no_faults (node_put cs H) g w addr c data checksum rt = (g', w', err)"
  shows "if checksum = sha256_Sum256 data
    then err = None
      \<and> (\<exists>d'. sw_nodes w' = (sw_nodes w)(addr \<mapsto> d') \<and> store_inv sums ready d' \<and> chunks sums d' = (chunks sums d)(c \<mapsto> data))
      \<and> (\<exists>replicas. sw_commits w' = sw_commits w @
           [\<lparr>ccq_ChunkId = c, ccq_ConfirmedNodes = sh_NodeID (H addr) # replicas, ccq_Checksum = sha256_Sum256 data\<rparr>])
      \<and> snd (sc_GetChunk (\<lambda>_. None) no_faults (node_get reliable_os cs) g' w' addr c) = Some (Inr data)
    else err \<noteq> None \<and> sw_commits w' = sw_commits w
      \<and> (\<exists>d'. sw_nodes w' = (sw_nodes w)(addr \<mapsto> d') \<and> store_inv sums ready d' \<and> chunks sums d' = chunks sums d)"
proof -
  let ?frames = "put_frames g c data checksum rt"
  obtain d' reqs resp where p: "PutChunk (\<lambda>_. reliable_os) cs (H addr) None d ?frames None = (d', reqs, resp)"
    by (cases "PutChunk (\<lambda>_. reliable_os) cs (H addr) None d ?frames None") auto
  obtain ds x where f: "?frames = map (\<lambda>x. put_request c checksum rt x False) ds @ [put_request c checksum rt x True]" "concat ds @ x = data"
    by (rule put_frames_shape)
  then have "concat (map pcq_Data ?frames) = data" by (simp add: put_request_def comp_def)
  with PutChunk_refines [OF index inv temp, of ?frames "H addr" None None] len
  have d': "store_inv sums ready d'" and spec: "(chunks sums d', reqs, resp) =
      spec_PutChunk (valid_id (d_store d)) (unat (totalSpace (d_store d))) (H addr) None (chunks sums d) ?frames None"
    by (simp_all add: p)
  obtain g1 where dial: "getOrDial (\<lambda>_. None) g addr = (g1, None)" by (cases "addr \<in> gc_conns g") (simp_all add: getOrDial_def)
  have w': "w' = w\<lparr>sw_nodes := (sw_nodes w)(addr \<mapsto> d'), sw_commits := sw_commits w @ reqs\<rparr>"
    and err: "err = (case resp of Inl e \<Rightarrow> Some (Wrap ''storageclient: PutChunk close failed'' e) | Inr _ \<Rightarrow> None)"
    using put dial by (auto simp: sc_PutChunk_def no_faults_def first_fault_none node_put_def node p Let_def split: sum.splits)
  have acc: "accept = (\<lambda>req. None)" using commit(2) by auto
  show ?thesis
  proof (cases "checksum = sha256_Sum256 data")
    case True
    obtain replicas r where c: "put_committed (H addr) None (targets (map Some rt)) (put_request c checksum rt (pcq_Data (last ?frames)) True)
        = ([\<lparr>ccq_ChunkId = c, ccq_ConfirmedNodes = sh_NodeID (H addr) # replicas, ccq_Checksum = checksum\<rparr>], Inr r)"
      using put_committed_ok [OF commit(1) acc] by blast
    have out: "chunks sums d' = (chunks sums d)(c \<mapsto> data)" "resp = Inr r"
      "reqs = [\<lparr>ccq_ChunkId = c, ccq_ConfirmedNodes = sh_NodeID (H addr) # replicas, ccq_Checksum = checksum\<rparr>]"
      using spec space True unfolding spec_PutChunk_frames [where valid = "valid_id (d_store d)", OF valid] c by simp_all
    moreover have "snd (sc_GetChunk (\<lambda>_. None) no_faults (node_get reliable_os cs) g' w' addr c) = Some (Inr data)"
      by (rule client_get [OF reliable_index.axioms(1) [OF index] d']) (simp_all add: w' out(1))
    ultimately show ?thesis using True d' err by (simp add: w') blast
  next
    case False
    then have "chunks sums d' = chunks sums d" "reqs = []" "resp = Inl (Status Internal ''failed to finalize chunk'')"
      using spec unfolding spec_PutChunk_frames [where valid = "valid_id (d_store d)", OF valid] by auto
    with False d' err show ?thesis by (simp add: w') blast
  qed
qed

definition demo_storage :: "(memdb, bytes) BoltChecksumIndex storage_world" where
  "demo_storage = \<lparr>sw_nodes = [''n1:9'' \<mapsto> demo_disk], sw_commits = []\<rparr>"

theorem client_put_get_witness:
  "\<exists>g' w'. sc_PutChunk (\<lambda>_. None) no_faults (node_put mem_cs (\<lambda>_. demo_handler)) (NewGRPCClient 0) demo_storage ''n1:9'' ''abcdef''
       [1, 2, 3] (sha256_Sum256 [1, 2, 3]) [''n2:9''] = (g', w', None)
     \<and> snd (sc_GetChunk (\<lambda>_. None) no_faults (node_get reliable_os mem_cs) g' w' ''n1:9'' ''abcdef'') = Some (Inr [1, 2, 3])"
proof -
  obtain g' w' err where p: "sc_PutChunk (\<lambda>_. None) no_faults (node_put mem_cs (\<lambda>_. demo_handler)) (NewGRPCClient 0) demo_storage ''n1:9'' ''abcdef''
       [1, 2, 3] (sha256_Sum256 [1, 2, 3]) [''n2:9''] = (g', w', err)" by (metis prod_cases3)
  have "chunk_bytes ((chunks (ci_view mem_bolt) demo_disk)(''abcdef'' \<mapsto> [1, 2, 3])) \<le> unat (totalSpace (d_store demo_disk))"
    unfolding demo_disk_inv(2) by (simp add: chunk_bytes_def demo_disk_def demo_ds_def)
  from client_put_get [OF mem_reliable.reliable_index_axioms demo_disk_inv(1) demo_temp_ready _ _ _ this, where H = "\<lambda>_. demo_handler"
      and accept = "\<lambda>_. None" and addr = "''n1:9''", OF _ _ _ _ _ p] demo_valid(1)
  show ?thesis using p by (simp add: demo_storage_def demo_handler_def demo_disk_def)
qed

end
