(* ===== verification/Dfs_System.thy ===== *)
theory Dfs_System
  imports Client_Download Storage_Client Replication
begin

text \<open>
  The whole system in one state: the client's connections, the disks of the storage
  nodes by address, and the leading metadata server. A chunk put by the client is framed
  by the client's stub, stored by the node's handler, fanned out to the replicas and
  committed to the metadata server; the operations of this theory are the ones that
  uploads and downloads call. Disks are reliable here; connections, streams, fan-outs and
  the metadata server may fail differently at every call.
\<close>

section \<open>The state and its environment\<close>

record 'ix dfs_world =
  dw_client :: GRPCClient
  dw_nodes :: "string \<rightharpoonup> 'ix disk"
  dw_meta :: MetadataServiceHandler
  dw_calls :: nat

text \<open>
  What a call may meet, by the number of the call: \<open>sy_fanOrder\<close> is the order in which
  replicas finish and \<open>sy_fanSeen\<close> how many finish before the fan-out times out.
\<close>

record system_env =
  sy_nodeID :: "string \<Rightarrow> string"
  sy_dial :: "nat \<Rightarrow> string \<Rightarrow> goerror option"
  sy_faults :: "nat \<Rightarrow> stream_faults"
  sy_fanOrder :: "nat \<Rightarrow> string list \<Rightarrow> string list"
  sy_fanSeen :: "nat \<Rightarrow> nat"
  sy_fanRetry :: "nat \<Rightarrow> string \<Rightarrow> retry_env"
  sy_meta :: "nat \<Rightarrow> server_env"
  sy_ord :: "nat \<Rightarrow> string list"
  sy_fileOrd :: "nat \<Rightarrow> string list"
  sy_sort :: "FileRecord sorter"

section \<open>The fan-out to the replicas\<close>

definition replicate_to ::
  "'ix ChecksumIndexStore \<Rightarrow> 'ix disk \<Rightarrow> string \<Rightarrow> string \<Rightarrow> (string \<rightharpoonup> 'ix disk) \<Rightarrow> (string \<rightharpoonup> 'ix disk) \<times> goerror option" where
  "replicate_to cs d c addr nodes =
     (case nodes addr of
        None \<Rightarrow> (nodes, Some (Wrap ''open ReplicateChunk stream'' (Status Unavailable ''connection refused'')))
      | Some d0 \<Rightarrow>
          (case replicateToSingleNode reliable_os cs d (receiver reliable_os cs) None None None c (new_call d0) of
             None \<Rightarrow> (nodes, Some (Status DeadlineExceeded ''context deadline exceeded''))
           | Some (p, e) \<Rightarrow> (nodes(addr \<mapsto> rp_disk p), e)))"

fun fan_out ::
  "'ix ChecksumIndexStore \<Rightarrow> (string \<Rightarrow> retry_env) \<Rightarrow> 'ix disk \<Rightarrow> string \<Rightarrow> string list \<Rightarrow> (string \<rightharpoonup> 'ix disk)
   \<Rightarrow> (string \<rightharpoonup> 'ix disk) \<times> fan_event list" where
  "fan_out cs renv d c [] nodes = (nodes, [])"
| "fan_out cs renv d c (addr # addrs) nodes =
     (let r = Do DefaultRetryPolicy (renv addr) (replicate_to cs d c addr) nodes in
      case fan_out cs renv d c addrs (ro_world r) of (nodes', es) \<Rightarrow> (nodes', FanResult addr (ro_err r) # es))"

definition fan_seen :: "nat \<Rightarrow> fan_event list \<Rightarrow> fan_event list" where
  "fan_seen n es = (if n < length es then take n es @ [FanTimeout] else es)"

section \<open>A storage node\<close>

definition meta_commit ::
  "system_env \<Rightarrow> nat \<Rightarrow> CommitChunkRequest \<Rightarrow> MetadataServiceHandler \<Rightarrow> MetadataServiceHandler \<times> goerror option" where
  "meta_commit env t req m =
     (case srv_CommitChunk (sy_meta env t) (sy_ord env t) m (ccq_ChunkId req) (ccq_ConfirmedNodes req) (ccq_Checksum req) of
        (m', reply) \<Rightarrow> (m', (case plain_reply reply of Inl e \<Rightarrow> Some e | Inr _ \<Rightarrow> None)))"

definition stream_targets :: "PutChunkRequest list \<Rightarrow> string list" where
  "stream_targets frames = (case frames of [] \<Rightarrow> [] | f # _ \<Rightarrow> targets (pcq_ReplicateTo f))"

text \<open>
  The handler stores the chunk before it replicates and commits it: with the outcome of the
  fan-out from the stored chunk, its answer is that of a handler with this replicator.
\<close>

definition storing_handler :: "system_env \<Rightarrow> string \<Rightarrow> StorageServerHandler" where
  "storing_handler env addr = \<lparr>sh_NodeID = sy_nodeID env addr, sh_Replicator = None, sh_MetaClient = Some (\<lambda>_. None)\<rparr>"

definition node_handler ::
  "system_env \<Rightarrow> nat \<Rightarrow> string \<Rightarrow> fan_event list \<Rightarrow> MetadataServiceHandler \<Rightarrow> StorageServerHandler" where
  "node_handler env t addr events m =
     \<lparr>sh_NodeID = sy_nodeID env addr,
      sh_Replicator = Some (\<lambda>c ts async. ReplicateToNodesWithResult ts async events),
      sh_MetaClient = Some (\<lambda>req. snd (meta_commit env t req m))\<rparr>"

definition dfs_server :: "'ix ChecksumIndexStore \<Rightarrow> system_env \<Rightarrow> 'ix dfs_world put_server" where
  "dfs_server cs env w addr frames fin =
     (case dw_nodes w addr of
        None \<Rightarrow> (w, Inl (Status Unavailable ''connection refused''))
      | Some d \<Rightarrow>
          (let t = dw_calls w in
           case PutChunk (\<lambda>_. reliable_os) cs (storing_handler env addr) None d frames fin of
             (d1, stored, _) \<Rightarrow>
           (case (if stored = [] then ((dw_nodes w)(addr \<mapsto> d1), [])
                  else fan_out cs (sy_fanRetry env t) d1 (pcq_ChunkId (hd frames)) (sy_fanOrder env t (stream_targets frames))
                         ((dw_nodes w)(addr \<mapsto> d1))) of
              (nodes, events) \<Rightarrow>
           (case PutChunk (\<lambda>_. reliable_os) cs (node_handler env t addr (fan_seen (sy_fanSeen env t) events) (dw_meta w)) None d frames fin of
              (_, reqs, resp) \<Rightarrow>
                (w\<lparr>dw_nodes := nodes, dw_meta := fold (\<lambda>req m. fst (meta_commit env t req m)) reqs (dw_meta w)\<rparr>, resp)))))"

section \<open>The operations of the client\<close>

definition dfs_put ::
  "'ix ChecksumIndexStore \<Rightarrow> system_env \<Rightarrow> 'ix dfs_world \<Rightarrow> string \<Rightarrow> string \<Rightarrow> bytes \<Rightarrow> bytes \<Rightarrow> string list
   \<Rightarrow> 'ix dfs_world \<times> goerror option" where
  "dfs_put cs env w addr c data checksum rt =
     (let t = dw_calls w in
      case sc_PutChunk (sy_dial env t) (sy_faults env t) (dfs_server cs env) (dw_client w) w addr c data checksum rt of
        (g, w', err) \<Rightarrow> (w'\<lparr>dw_client := g, dw_calls := Suc t\<rparr>, err))"

definition dfs_get :: "'ix ChecksumIndexStore \<Rightarrow> system_env \<Rightarrow> 'ix dfs_world \<Rightarrow> string \<Rightarrow> string \<Rightarrow> 'ix dfs_world \<times> bytes result" where
  "dfs_get cs env w addr c =
     (let t = dw_calls w in
      case sc_GetChunk (sy_dial env t) (sy_faults env t) (node_get reliable_os cs) (dw_client w)
             \<lparr>sw_nodes = dw_nodes w, sw_commits = []\<rparr> addr c of
        (g, r) \<Rightarrow> (w\<lparr>dw_client := g, dw_calls := Suc t\<rparr>,
                   case r of None \<Rightarrow> Inl (Status DeadlineExceeded ''context deadline exceeded'') | Some x \<Rightarrow> x))"

definition at_meta :: "system_env \<Rightarrow> (MetadataServiceHandler metadata_stub \<Rightarrow> MetadataServiceHandler \<Rightarrow> MetadataServiceHandler \<times> 'r)
   \<Rightarrow> 'ix dfs_world \<Rightarrow> 'ix dfs_world \<times> 'r" where
  "at_meta env call w =
     (let t = dw_calls w in
      case call (leader_stub (sy_sort env) (sy_meta env t) (sy_ord env t) (sy_fileOrd env t)) (dw_meta w) of
        (m, r) \<Rightarrow> (w\<lparr>dw_meta := m, dw_calls := Suc t\<rparr>, r))"

definition system_ops :: "'ix ChecksumIndexStore \<Rightarrow> system_env \<Rightarrow> 'ix dfs_world dfs_ops" where
  "system_ops cs env =
     \<lparr>op_CreateFile = (\<lambda>w f n sz csz ids. at_meta env (\<lambda>st m. mdc_CreateFile st m f n sz csz ids) w),
      op_CommitFile = (\<lambda>w f sz. at_meta env (\<lambda>st m. mdc_CommitFile st m f sz []) w),
      op_GetFileByName = (\<lambda>w n. at_meta env (\<lambda>st m. mdc_GetFileByName st m n) w),
      op_PutChunk = (\<lambda>w addr c data checksum rt. dfs_put cs env w addr c data checksum rt),
      op_GetChunk = (\<lambda>w addr c. dfs_get cs env w addr c)\<rparr>"

section \<open>Sound nodes\<close>

definition nodes_ok :: "('ix \<Rightarrow> string \<rightharpoonup> bytes) \<Rightarrow> ('ix \<Rightarrow> bool) \<Rightarrow> (string \<rightharpoonup> 'ix disk) \<Rightarrow> bool" where
  "nodes_ok sums ready nodes \<longleftrightarrow> (\<forall>a d. nodes a = Some d \<longrightarrow> store_inv sums ready d \<and> temp_ready d)"

definition system_ok :: "('ix \<Rightarrow> string \<rightharpoonup> bytes) \<Rightarrow> ('ix \<Rightarrow> bool) \<Rightarrow> 'ix dfs_world \<Rightarrow> bool" where
  "system_ok sums ready w \<longleftrightarrow> nodes_ok sums ready (dw_nodes w)"

definition node_chunks :: "('ix \<Rightarrow> string \<rightharpoonup> bytes) \<Rightarrow> (string \<rightharpoonup> 'ix disk) \<Rightarrow> string \<Rightarrow> string \<rightharpoonup> bytes" where
  "node_chunks sums nodes a = (case nodes a of None \<Rightarrow> Map.empty | Some d \<Rightarrow> chunks sums d)"

definition holds_chunk :: "('ix \<Rightarrow> string \<rightharpoonup> bytes) \<Rightarrow> 'ix dfs_world \<Rightarrow> string \<Rightarrow> string \<Rightarrow> bytes \<Rightarrow> bool" where
  "holds_chunk sums w a c v \<longleftrightarrow> node_chunks sums (dw_nodes w) a c = Some v"

text \<open>The chunk of one id spreads: every node keeps what it has, except that it may gain this chunk.\<close>

definition spread ::
  "('ix \<Rightarrow> string \<rightharpoonup> bytes) \<Rightarrow> string \<Rightarrow> bytes \<Rightarrow> (string \<rightharpoonup> 'ix disk) \<Rightarrow> (string \<rightharpoonup> 'ix disk) \<Rightarrow> bool" where
  "spread sums c v nodes nodes' \<longleftrightarrow>
     (\<forall>a. rel_option (\<lambda>d d'. same_config (d_store d) (d_store d')) (nodes a) (nodes' a)) \<and>
     (\<forall>a. node_chunks sums nodes' a = node_chunks sums nodes a \<or> node_chunks sums nodes' a = (node_chunks sums nodes a)(c \<mapsto> v))"

lemma spread_refl [simp]: "spread sums c v nodes nodes"
  by (simp add: spread_def option.rel_refl same_config_def)

lemma spread_dom: "spread sums c v nodes nodes' \<Longrightarrow> dom nodes' = dom nodes"
  unfolding spread_def by (auto simp: option_rel_Some1 option_rel_Some2) (metis option_rel_Some1 option_rel_Some2)+

lemma spread_trans:
  assumes "spread sums c v x y" "spread sums c v y z"
  shows "spread sums c v x z"
proof -
  have "rel_option (\<lambda>d d'. same_config (d_store d) (d_store d')) (x a) (z a)" for a
    using assms [unfolded spread_def, THEN conjunct1, THEN spec, of a] by (cases "x a"; cases "y a"; cases "z a") (auto simp: same_config_def)
  moreover have "node_chunks sums z a = node_chunks sums x a \<or> node_chunks sums z a = (node_chunks sums x a)(c \<mapsto> v)" for a
    using assms [unfolded spread_def, THEN conjunct2, THEN spec, of a] by auto
  ultimately show ?thesis unfolding spread_def by simp
qed

lemma spread_keeps: "spread sums c v nodes nodes' \<Longrightarrow> node_chunks sums nodes a c' = Some v' \<Longrightarrow> c' \<noteq> c \<or> v' = v
    \<Longrightarrow> node_chunks sums nodes' a c' = Some v'"
  unfolding spread_def by (metis fun_upd_other fun_upd_same)

lemma spread_upd:
  assumes "nodes a = Some d" "chunks sums d' = chunks sums d \<or> chunks sums d' = (chunks sums d)(c \<mapsto> v)" "keeps d d'"
  shows "spread sums c v nodes (nodes(a \<mapsto> d'))"
  using assms by (auto simp: spread_def node_chunks_def keeps_def option.rel_refl same_config_def)

lemma nodes_ok_upd: "nodes_ok sums ready nodes \<Longrightarrow> store_inv sums ready d \<Longrightarrow> temp_ready d \<Longrightarrow> nodes_ok sums ready (nodes(a \<mapsto> d))"
  by (simp add: nodes_ok_def)

lemma temp_ready_keeps: "temp_ready d \<Longrightarrow> keeps d d' \<Longrightarrow> temp_ready d'"
  by (auto simp: temp_ready_def keeps_def same_config_def)

section \<open>What the handlers leave alone\<close>

lemma put_loop_disk:
  "fst (put_loop os cs h sendErr k d st frames fin) = fst (put_loop os cs h' sendErr' k d st frames fin)"
proof (induction os cs h sendErr k d st frames fin rule: put_loop.induct)
  case (1 os cs h sendErr k d st)
  show ?case by (simp add: put_eof_def split: option.split prod.split)
qed (simp_all split: prod.split sum.split)

lemma PutChunk_disk: "fst (PutChunk os cs h sendErr d frames fin) = fst (PutChunk os cs h' sendErr' d frames fin)"
  unfolding PutChunk_def by (rule put_loop_disk)

lemma rc_open_keeps: "rc_open os d w reg f = Inr (d1, w1, reg1) \<Longrightarrow> keeps d d1"
  by (auto simp: rc_open_def dest: NewChunkWriter_keeps split: if_splits sum.splits option.splits)

lemma rc_frame_keeps:
  assumes "rc_frame os cs sendErr d w reg f = (d', out)"
  shows "keeps d d'"
proof (cases "rc_open os d w reg f")
  case (Inl e)
  with assms show ?thesis by (simp add: rc_frame_def)
next
  case (Inr x)
  obtain d1 w1 reg1 where x: "x = (d1, w1, reg1)" by (cases x)
  obtain d2 w2 e2 where wr: "(if rcq_Data f \<noteq> [] then cw_Write os w1 d1 (rcq_Data f) else (d1, w1, None)) = (d2, w2, e2)"
    by (metis prod_cases3)
  obtain d3 w3 e3 where fz: "cw_Finalize os cs w2 d2 (ComputedChecksum w2) = (d3, w3, e3)" by (metis prod_cases3)
  have "keeps d1 d2" using wr by (auto dest: cw_Write_keeps split: if_splits)
  moreover have "keeps d2 d3" using fz by (rule cw_Finalize_keeps)
  moreover have "d' = d3 \<or> d' = d2 \<or> d' = fst (cw_Abort os w1 d1) \<or> d' = fst (cw_Abort os w2 d2)"
    using assms wr fz by (auto simp: rc_frame_def Inr x split: if_splits option.splits)
  ultimately have "keeps d1 d'" using cw_Abort_keeps keeps_trans by metis
  with rc_open_keeps [OF Inr [unfolded x]] show ?thesis by (rule keeps_trans)
qed

lemma receiver_keeps:
  "keeps (rp_disk p) (rp_disk (fst (st_Send (receiver os cs) p req)))"
  "rp_disk (fst (st_Recv (receiver os cs) p)) = rp_disk p"
  "rp_disk (fst (st_CloseSend (receiver os cs) p)) = rp_disk p"
  by (auto simp: receiver_def dest: rc_frame_keeps split: option.split prod.split list.split)

lemma send_loop_keeps:
  "send_loop os fs strm c isFirst reader p = Some r \<Longrightarrow> strm = receiver os' cs \<Longrightarrow> keeps (rp_disk p) (rp_disk (fst r))"
proof (induction os fs strm c isFirst reader p r rule: send_loop.raw_induct [rotated, consumes 1, case_names 1])
  case (1 send_loop os fs strm c isFirst reader p r)
  obtain reader' fr where nx: "cr_Next os fs reader = (reader', fr)" by fastforce
  show ?case
  proof (cases fr)
    case (Inl e)
    with 1(2) nx show ?thesis by (auto split: if_splits)
  next
    case (Inr frame)
    obtain p1 e1 where s: "st_Send strm p \<lparr>rcq_ChunkId = c, rcq_Data = Data frame, rcq_IsFirst = isFirst, rcq_IsLast = IsLast frame\<rparr> = (p1, e1)"
      by fastforce
    obtain p2 a where rv: "st_Recv strm p1 = (p2, a)" by fastforce
    have k: "keeps (rp_disk p) (rp_disk p1)" "rp_disk p2 = rp_disk p1"
      using receiver_keeps(1) [of p os' cs "\<lparr>rcq_ChunkId = c, rcq_Data = Data frame, rcq_IsFirst = isFirst, rcq_IsLast = IsLast frame\<rparr>"]
        receiver_keeps(2) [of os' cs p1] s rv 1(3) by simp_all
    have "fst r = p1 \<or> fst r = p2 \<or> send_loop os fs strm c False reader' p2 = Some r"
      using 1(2) nx Inr s rv by (auto split: option.splits sum.splits if_splits)
    then show ?thesis
    proof (elim disjE)
      assume "send_loop os fs strm c False reader' p2 = Some r"
      from 1(1) [OF this 1(3)] k show ?thesis using keeps_trans by (metis (no_types))
    qed (use k in simp_all)
  qed
qed

lemma replicateToSingleNode_keeps:
  assumes "replicateToSingleNode os cs d (receiver os' cs') x y z c p = Some (p', e)"
  shows "keeps (rp_disk p) (rp_disk p')"
proof -
  have closing: "rp_disk q' = rp_disk q" if "st_CloseSend (receiver os' cs') q = (q', b)" for q q' b
    using receiver_keeps(3) [of os' cs' q] that by simp
  have receiving: "rp_disk q' = rp_disk q" if "st_Recv (receiver os' cs') q = (q', b)" for q q' b
    using receiver_keeps(2) [of os' cs' q] that by simp
  consider "p' = p" | reader p1 b where "send_loop os (d_fs d) (receiver os' cs') c True reader p = Some (p1, b)" "rp_disk p' = rp_disk p1"
    using assms unfolding replicateToSingleNode_def
    by (auto split: option.splits sum.splits prod.splits) (metis closing receiving)+
  then show ?thesis using send_loop_keeps [OF _ refl] by cases force+
qed

section \<open>The fan-out\<close>

context reliable_index
begin

lemma replicate_to_spread:
  assumes "nodes_ok sums ready nodes" "store_inv sums ready d" "chunks sums d c = Some v" "replicate_to cs d c a nodes = (nodes', err)"
  shows "nodes_ok sums ready nodes' \<and> spread sums c v nodes nodes' \<and> (err = None \<longrightarrow> node_chunks sums nodes' a c = Some v)"
proof (cases "nodes a")
  case None
  with assms show ?thesis by (auto simp: replicate_to_def)
next
  case (Some d0)
  with assms(1) have d0: "store_inv sums ready d0" "temp_ready d0" by (auto simp: nodes_ok_def)
  from replication_copies [OF reliable_index_axioms assms(2) d0, of c] obtain p e where
    p: "replicateToSingleNode reliable_os cs d (receiver reliable_os cs) None None None c (new_call d0) = Some (p, e)"
    "store_inv sums ready (rp_disk p)"
    "if v = [] then chunks sums (rp_disk p) = chunks sums d0 \<and> e \<noteq> None
     else \<exists>e'. (chunks sums (rp_disk p), e') = spec_put (valid_id (d_store d0)) (unat (totalSpace (d_store d0))) (chunks sums d0) c v
            \<and> (e = None \<longleftrightarrow> e' = None)" by (auto simp: assms(3))
  from p(3) have c: "chunks sums (rp_disk p) = chunks sums d0 \<or> chunks sums (rp_disk p) = (chunks sums d0)(c \<mapsto> v)"
    "e = None \<Longrightarrow> chunks sums (rp_disk p) c = Some v" by (auto simp: spec_put_def split: if_splits)
  have keep: "keeps d0 (rp_disk p)" using replicateToSingleNode_keeps [OF p(1)] by (simp add: new_call_def)
  then have "nodes_ok sums ready (nodes(a \<mapsto> rp_disk p))"
    using nodes_ok_upd [OF assms(1) p(2)] temp_ready_keeps [OF d0(2)] by blast
  moreover have "nodes' = nodes(a \<mapsto> rp_disk p)" "err = e" using assms(4) Some p(1) by (simp_all add: replicate_to_def)
  ultimately show ?thesis using spread_upd [where nodes = nodes, OF Some c(1) keep] c(2) by (simp add: node_chunks_def)
qed

lemma replicate_tries_spread:
  assumes "nodes_ok sums ready nodes" "store_inv sums ready d" "chunks sums d c = Some v" "fails_for (replicate_to cs d c a) n nodes nodes'"
  shows "nodes_ok sums ready nodes' \<and> spread sums c v nodes nodes'"
  using assms(1,4)
proof (induction n arbitrary: nodes)
  case (Suc n)
  then obtain x e where "replicate_to cs d c a nodes = (x, Some e)" "fails_for (replicate_to cs d c a) n x nodes'" by auto
  with Suc.IH [of x] replicate_to_spread [OF Suc.prems(1) assms(2,3)] show ?case using spread_trans by blast
qed simp

lemma replicate_do_spread:
  assumes "nodes_ok sums ready nodes" "store_inv sums ready d" "chunks sums d c = Some v" "r = Do p env (replicate_to cs d c a) nodes"
  shows "nodes_ok sums ready (ro_world r) \<and> spread sums c v nodes (ro_world r)
    \<and> (ro_err r = None \<longrightarrow> node_chunks sums (ro_world r) a c = Some v)"
proof -
  note run = do_loop_result [where p = p and env = env and fn = "replicate_to cs d c a" and left = "nat (p_MaxAttempts p)" and k = 0
      and d = "p_Base p" and le = None and w = nodes, folded Do_def, folded assms(4)]
  show ?thesis
  proof (cases "ro_err r")
    case None
    with run obtain n x where n: "fails_for (replicate_to cs d c a) n nodes x" "replicate_to cs d c a x = (ro_world r, None)" by auto
    from replicate_tries_spread [OF assms(1-3) n(1)] replicate_to_spread [OF _ assms(2,3) n(2)]
    show ?thesis using spread_trans by blast
  next
    case (Some e)
    with run have "fails_for (replicate_to cs d c a) (ro_calls r - 0) nodes (ro_world r)" by simp
    from replicate_tries_spread [OF assms(1-3) this] Some show ?thesis by simp
  qed
qed

lemma fan_out_spread:
  assumes "nodes_ok sums ready nodes" "store_inv sums ready d" "chunks sums d c = Some v" "fan_out cs renv d c as nodes = (nodes', events)"
  shows "nodes_ok sums ready nodes' \<and> spread sums c v nodes nodes'
    \<and> (\<forall>a. FanResult a None \<in> set events \<longrightarrow> a \<in> set as \<and> node_chunks sums nodes' a c = Some v)"
  using assms(1,4)
proof (induction as arbitrary: nodes events)
  case (Cons a as)
  define r where "r = Do DefaultRetryPolicy (renv a) (replicate_to cs d c a) nodes"
  obtain events' where f: "fan_out cs renv d c as (ro_world r) = (nodes', events')" "events = FanResult a (ro_err r) # events'"
    using Cons.prems(2) by (auto simp: r_def Let_def split: prod.splits)
  have one: "nodes_ok sums ready (ro_world r)" "spread sums c v nodes (ro_world r)" "ro_err r = None \<Longrightarrow> node_chunks sums (ro_world r) a c = Some v"
    using replicate_do_spread [OF Cons.prems(1) assms(2,3) r_def] by simp_all
  note IH = Cons.IH [OF one(1) f(1)]
  have "ro_err r = None \<Longrightarrow> node_chunks sums nodes' a c = Some v" using IH one(3) spread_keeps by blast
  with IH one(2) f(2) show ?case using spread_trans by auto
qed simp

end

section \<open>A put as a whole\<close>

lemma confirmed_replicas:
  "a \<in> set (fst (ReplicateToNodesWithResult ts async (fan_seen n events))) \<Longrightarrow> FanResult a None \<in> set events"
proof -
  have *: "FanResult a None \<in> set es" if "a \<in> set (succeeded es)" for es
    using that by (auto simp: succeeded_def dest: set_takeWhileD split: fan_event.splits option.splits)
  assume "a \<in> set (fst (ReplicateToNodesWithResult ts async (fan_seen n events)))"
  then have "a \<in> set (succeeded (take (length ts) (fan_seen n events)))"
    using fan_collect_spec [where n = "length ts" and t = "length ts" and events = "fan_seen n events" and ok = "[]" and errs = "[]"]
    by (cases "fan_collect (length ts) (length ts) (fan_seen n events) [] []")
       (auto simp: ReplicateToNodesWithResult_def split: if_splits)
  from in_set_takeD [OF * [OF this]] show ?thesis by (auto simp: fan_seen_def dest: in_set_takeD split: if_splits)
qed

lemma spec_PutChunk_cases:
  assumes "spec_PutChunk valid cap h sendErr m frames fin = (m', reqs, resp)" "\<forall>f \<in> set frames. pcq_ChunkId f = c"
  obtains (refused) e where "m' = m" "reqs = []" "resp = Inl e"
  | (stored) "frames \<noteq> []" "m' = m(c \<mapsto> concat (map pcq_Data frames))"
      "(reqs, resp) = put_committed h sendErr (stream_targets frames) (last frames)"
      "sha256_Sum256 (concat (map pcq_Data frames)) = pcq_Checksum (last frames)"
  using assms by (cases frames) (auto simp: spec_PutChunk_def spec_end_def stream_targets_def split: if_splits)

lemma node_handler_commits:
  assumes "(reqs, resp) = put_committed (node_handler env t a (fan_seen n events) m) None ts lf"
  shows "\<exists>reps. reqs = [\<lparr>ccq_ChunkId = pcq_ChunkId lf, ccq_ConfirmedNodes = sy_nodeID env a # reps, ccq_Checksum = pcq_Checksum lf\<rparr>]
    \<and> (\<forall>r \<in> set reps. FanResult r None \<in> set events) \<and> ((\<exists>x. resp = Inr x) \<longleftrightarrow> snd (meta_commit env t (hd reqs) m) = None)"
proof -
  define reps where "reps = (if ts = [] then [] else fst (ReplicateToNodesWithResult ts False (fan_seen n events)))"
  have "\<forall>r \<in> set reps. FanResult r None \<in> set events" using confirmed_replicas by (auto simp: reps_def)
  moreover define req where "req = \<lparr>ccq_ChunkId = pcq_ChunkId lf, ccq_ConfirmedNodes = sy_nodeID env a # reps, ccq_Checksum = pcq_Checksum lf\<rparr>"
  moreover have "reqs = [req]" "(\<exists>x. resp = Inr x) \<longleftrightarrow> snd (meta_commit env t req m) = None"
    using assms
    by (cases "ts = []"; cases "snd (meta_commit env t req m)"; simp add: put_committed_def node_handler_def Let_def req_def reps_def)+
  ultimately show ?thesis by auto
qed

text \<open>What the metadata server gets to see of a put: commits of this chunk.\<close>

definition commits :: "system_env \<Rightarrow> nat \<Rightarrow> string \<Rightarrow> MetadataServiceHandler \<Rightarrow> MetadataServiceHandler \<Rightarrow> bool" where
  "commits env t c m m' \<longleftrightarrow>
     (\<exists>reqs. m' = fold (\<lambda>req m. fst (meta_commit env t req m)) reqs m \<and> (\<forall>req \<in> set reqs. ccq_ChunkId req = c))"

lemma commits_refl [simp]: "commits env t c m m"
  unfolding commits_def by (intro exI [of _ "[]"]) simp

context reliable_index
begin

text \<open>
  Whatever becomes of a stream for a chunk, no other chunk of any node changes. If the
  node answers without error, it holds the data, and so does every replica that it has
  confirmed to the metadata server.
\<close>

lemma dfs_server_effect:
  assumes ok: "nodes_ok sums ready (dw_nodes w)" and len: "length (concat (map pcq_Data frames)) < 2 ^ 64"
    and ids: "\<forall>f \<in> set frames. pcq_ChunkId f = c" and run: "dfs_server cs env w a frames fin = (w', resp)"
    and v: "v = concat (map pcq_Data frames)"
  shows "nodes_ok sums ready (dw_nodes w') \<and> spread sums c v (dw_nodes w) (dw_nodes w')
    \<and> commits env (dw_calls w) c (dw_meta w) (dw_meta w')
    \<and> (\<forall>x. resp = Inr x \<longrightarrow> node_chunks sums (dw_nodes w') a c = Some v
        \<and> (\<exists>reps. (\<forall>r \<in> set reps. node_chunks sums (dw_nodes w') r c = Some v)
             \<and> (dw_meta w', None) = meta_commit env (dw_calls w)
                 \<lparr>ccq_ChunkId = c, ccq_ConfirmedNodes = sy_nodeID env a # reps, ccq_Checksum = sha256_Sum256 v\<rparr> (dw_meta w)))"
proof (cases "dw_nodes w a")
  case None
  with run ok show ?thesis by (auto simp: dfs_server_def)
next
  case (Some d)
  then have d: "store_inv sums ready d" "temp_ready d" using ok by (auto simp: nodes_ok_def)
  let ?t = "dw_calls w" and ?V = "valid_id (d_store d)" and ?T = "unat (totalSpace (d_store d))"
  obtain d1 st rs where p: "PutChunk (\<lambda>_. reliable_os) cs (storing_handler env a) None d frames fin = (d1, st, rs)"
    by (metis prod_cases3)
  obtain nodes events where f: "(if st = [] then ((dw_nodes w)(a \<mapsto> d1), [])
      else fan_out cs (sy_fanRetry env ?t) d1 (pcq_ChunkId (hd frames)) (sy_fanOrder env ?t (stream_targets frames))
             ((dw_nodes w)(a \<mapsto> d1))) = (nodes, events)" by fastforce
  let ?h = "node_handler env ?t a (fan_seen (sy_fanSeen env ?t) events) (dw_meta w)"
  obtain reqs where h: "PutChunk (\<lambda>_. reliable_os) cs ?h None d frames fin = (d1, reqs, resp)"
    and w': "dw_nodes w' = nodes" "dw_meta w' = fold (\<lambda>req m. fst (meta_commit env ?t req m)) reqs (dw_meta w)"
  proof -
    obtain d2 reqs resp' where h2: "PutChunk (\<lambda>_. reliable_os) cs ?h None d frames fin = (d2, reqs, resp')" by (metis prod_cases3)
    have "d2 = d1" using PutChunk_disk [of "\<lambda>_. reliable_os" cs ?h None d frames fin "storing_handler env a" None] h2 p by simp
    have "w' = w\<lparr>dw_nodes := nodes, dw_meta := fold (\<lambda>req m. fst (meta_commit env ?t req m)) reqs (dw_meta w)\<rparr> \<and> resp' = resp"
      using run unfolding dfs_server_def Some option.case Let_def p prod.case f h2 by auto
    with h2 \<open>d2 = d1\<close> show ?thesis by (intro that [of reqs]) simp_all
  qed
  note ref = PutChunk_refines [OF reliable_index_axioms d len]
  have d1: "store_inv sums ready d1" "temp_ready d1"
    using ref [of "storing_handler env a" None fin] p temp_ready_keeps [OF d(2) PutChunk_keeps [OF p]] by simp_all
  have s1: "spec_PutChunk ?V ?T (storing_handler env a) None (chunks sums d) frames fin = (chunks sums d1, st, rs)"
    using ref [of "storing_handler env a" None fin] p by simp
  have s2: "spec_PutChunk ?V ?T ?h None (chunks sums d) frames fin = (chunks sums d1, reqs, resp)"
    using ref [of ?h None fin] h by simp
  have upd: "chunks sums d1 = chunks sums d \<or> chunks sums d1 = (chunks sums d)(c \<mapsto> v)"
    using s2 ids by (rule spec_PutChunk_cases) (auto simp: v)
  note ok1 = nodes_ok_upd [OF ok d1, of a] and sp1 = spread_upd [where nodes = "dw_nodes w", OF Some upd PutChunk_keeps [OF p]]
  have fan: "nodes_ok sums ready nodes \<and> spread sums c v ((dw_nodes w)(a \<mapsto> d1)) nodes
      \<and> (\<forall>r. FanResult r None \<in> set events \<longrightarrow> node_chunks sums nodes r c = Some v)"
  proof (cases "st = []")
    case True
    with f ok1 show ?thesis by auto
  next
    case False
    from s1 ids have "chunks sums d1 c = Some v \<and> pcq_ChunkId (hd frames) = c"
    proof (cases rule: spec_PutChunk_cases)
      case stored
      with ids show ?thesis by (simp add: v)
    qed (simp add: False)
    moreover from this False f have "fan_out cs (sy_fanRetry env ?t) d1 c (sy_fanOrder env ?t (stream_targets frames))
        ((dw_nodes w)(a \<mapsto> d1)) = (nodes, events)" by simp
    ultimately show ?thesis using fan_out_spread [OF ok1 d1(1)] by blast
  qed
  have sp: "spread sums c v (dw_nodes w) nodes" using fan sp1 spread_trans by blast
  from s2 ids show ?thesis
  proof (cases rule: spec_PutChunk_cases)
    case (refused e)
    with fan sp w' show ?thesis by simp
  next
    case stored
    then have "chunks sums d1 c = Some v" by (simp add: v)
    then have "node_chunks sums nodes a c = Some v" using fan spread_keeps [of sums c v "(dw_nodes w)(a \<mapsto> d1)" nodes a c v]
      by (simp add: node_chunks_def)
    moreover have "pcq_ChunkId (last frames) = c" using ids stored(1) by simp
    moreover obtain reps where r: "reqs = [\<lparr>ccq_ChunkId = c, ccq_ConfirmedNodes = sy_nodeID env a # reps, ccq_Checksum = sha256_Sum256 v\<rparr>]"
      "\<forall>r \<in> set reps. FanResult r None \<in> set events" "(\<exists>x. resp = Inr x) \<longrightarrow> snd (meta_commit env ?t (hd reqs) (dw_meta w)) = None"
      using node_handler_commits [OF stored(3)] stored(4) calculation by (auto simp: v)
    moreover have "dw_meta w' = fst (meta_commit env ?t (hd reqs) (dw_meta w))" by (simp add: w'(2) r(1))
    moreover have "commits env ?t c (dw_meta w) (dw_meta w')"
      unfolding commits_def w'(2) by (intro exI [of _ reqs]) (simp add: r(1))
    ultimately show ?thesis
      using fan sp unfolding w'(1) by (metis list.sel(1) prod.collapse)
  qed
qed

end

lemma put_frames_ids: "\<forall>f \<in> set (put_frames g c data s rt). pcq_ChunkId f = c"
proof -
  obtain ds d where "put_frames g c data s rt = map (\<lambda>x. put_request c s rt x False) ds @ [put_request c s rt d True]"
    by (rule put_frames_shape)
  then show ?thesis by (auto simp: put_request_def)
qed

lemma put_frames_data: "concat (map pcq_Data (put_frames g c data s rt)) = data"
proof -
  obtain ds d where "put_frames g c data s rt = map (\<lambda>x. put_request c s rt x False) ds @ [put_request c s rt d True]"
    "concat ds @ d = data" by (rule put_frames_shape)
  then show ?thesis by (simp add: put_request_def comp_def)
qed

lemma length_concat_take: "length (concat (map f (take k xs))) \<le> length (concat (map f xs))"
  using append_take_drop_id [of k xs] by (metis concat_append length_append le_add1 map_append)

context reliable_index
begin

lemma dfs_put_effect:
  assumes "system_ok sums ready w" "length v < 2 ^ 64" "dfs_put cs env w a c v s rt = (w', err)"
  shows "system_ok sums ready w' \<and> (\<exists>x. spread sums c x (dw_nodes w) (dw_nodes w')) \<and> dw_calls w' = Suc (dw_calls w)
    \<and> commits env (dw_calls w) c (dw_meta w) (dw_meta w')
    \<and> (err = None \<longrightarrow> spread sums c v (dw_nodes w) (dw_nodes w') \<and> holds_chunk sums w' a c v
        \<and> (\<exists>reps. (\<forall>r \<in> set reps. holds_chunk sums w' r c v)
             \<and> (dw_meta w', None) = meta_commit env (dw_calls w)
                 \<lparr>ccq_ChunkId = c, ccq_ConfirmedNodes = sy_nodeID env a # reps, ccq_Checksum = sha256_Sum256 v\<rparr> (dw_meta w)))"
proof -
  let ?frames = "put_frames (dw_client w) c v s rt" and ?t = "dw_calls w"
  obtain g w1 where p: "sc_PutChunk (sy_dial env ?t) (sy_faults env ?t) (dfs_server cs env) (dw_client w) w a c v s rt = (g, w1, err)"
    "w' = w1\<lparr>dw_client := g, dw_calls := Suc ?t\<rparr>"
    using assms(3) by (auto simp: dfs_put_def Let_def split: prod.splits)
  have ok: "nodes_ok sums ready (dw_nodes w)" using assms(1) by (simp add: system_ok_def)
  consider "w1 = w" "err \<noteq> None"
    | k e where "w1 = fst (dfs_server cs env w a (take k ?frames) (Some e))" "err \<noteq> None"
    | resp where "dfs_server cs env w a ?frames None = (w1, resp)" "err = None \<longrightarrow> (\<exists>x. resp = Inr x)"
    using p(1) by (auto simp: sc_PutChunk_def Let_def split: prod.splits option.splits sum.splits)
  then show ?thesis
  proof cases
    case 1
    then show ?thesis using ok p(2) by (auto simp: system_ok_def intro!: exI [of _ v])
  next
    case (2 k e)
    have "length (concat (map pcq_Data (take k ?frames))) < 2 ^ 64"
      using length_concat_take [of pcq_Data k ?frames] assms(2) by (simp add: put_frames_data)
    moreover have "\<forall>f \<in> set (take k ?frames). pcq_ChunkId f = c" using put_frames_ids by (metis in_set_takeD)
    moreover obtain resp where "dfs_server cs env w a (take k ?frames) (Some e) = (w1, resp)" using 2(1) by (metis prod.collapse)
    ultimately show ?thesis using dfs_server_effect [OF ok _ _ _ refl] 2(2) p(2) by (simp add: system_ok_def) blast
  next
    case (3 resp)
    from dfs_server_effect [OF ok _ put_frames_ids 3(1) refl] assms(2) 3(2) p(2) show ?thesis
      by (simp add: put_frames_data system_ok_def holds_chunk_def) blast
  qed
qed

lemma dfs_get_effect: "dfs_get cs env w a c = (w', r) \<Longrightarrow> dw_nodes w' = dw_nodes w \<and> dw_meta w' = dw_meta w"
  by (auto simp: dfs_get_def Let_def split: prod.splits)

lemma dfs_get_held:
  assumes "system_ok sums ready w" "holds_chunk sums w a c v" "\<forall>t a. sy_dial env t a = None" "\<forall>t. sy_faults env t = no_faults"
  shows "snd (dfs_get cs env w a c) = Inr v"
proof -
  obtain d where d: "dw_nodes w a = Some d" "chunks sums d c = Some v"
    using assms(2) by (auto simp: holds_chunk_def node_chunks_def split: option.splits)
  have "store_inv sums ready d" using assms(1) d(1) by (auto simp: system_ok_def nodes_ok_def)
  from client_get [OF checksum_index_axioms this, where w = "\<lparr>sw_nodes = dw_nodes w, sw_commits = []\<rparr>", OF _ d(2)] d(1)
  have "snd (sc_GetChunk (\<lambda>_. None) no_faults (node_get reliable_os cs) (dw_client w) \<lparr>sw_nodes = dw_nodes w, sw_commits = []\<rparr> a c) = Some (Inr v)"
    by simp
  moreover have "sy_dial env (dw_calls w) = (\<lambda>_. None)" using assms(3) by auto
  ultimately show ?thesis using assms(4) by (auto simp: dfs_get_def Let_def split: prod.split)
qed

end

lemma at_meta_nodes: "at_meta env call w = (w', r) \<Longrightarrow> dw_nodes w' = dw_nodes w \<and> dw_calls w' = Suc (dw_calls w)
    \<and> (dw_meta w', r) = call (leader_stub (sy_sort env) (sy_meta env (dw_calls w)) (sy_ord env (dw_calls w)) (sy_fileOrd env (dw_calls w))) (dw_meta w)"
  by (auto simp: at_meta_def Let_def split: prod.splits)

sublocale reliable_index \<subseteq> up: chunk_service "system_ops cs env" "system_ok sums ready" "holds_chunk sums" for env
proof
  fix w w' :: "'a dfs_world" and v :: bytes and a c rt err
  assume *: "system_ok sums ready w" "length v < 2 ^ 64"
  show "op_PutChunk (system_ops cs env) w a c v (sha256_Sum256 v) rt = (w', None) \<Longrightarrow> holds_chunk sums w' a c v"
    using dfs_put_effect [OF *] by (simp add: system_ops_def)
  assume "op_PutChunk (system_ops cs env) w a c v (sha256_Sum256 v) rt = (w', err)"
  then have "system_ok sums ready w'" "\<exists>x. spread sums c x (dw_nodes w) (dw_nodes w')"
    using dfs_put_effect [OF *] by (simp_all add: system_ops_def)
  then show "system_ok sums ready w' \<and> (\<forall>a' c' v'. holds_chunk sums w a' c' v' \<and> c' \<noteq> c \<longrightarrow> holds_chunk sums w' a' c' v')"
    unfolding holds_chunk_def using spread_keeps by blast
qed (auto simp: system_ops_def system_ok_def holds_chunk_def dest: at_meta_nodes)

text \<open>With connections that work, what is held can be read.\<close>

definition steady :: "system_env \<Rightarrow> system_env" where
  "steady env = env\<lparr>sy_dial := (\<lambda>_ _. None), sy_faults := (\<lambda>_. no_faults)\<rparr>"

sublocale reliable_index \<subseteq> down: dfs_service "system_ops cs (steady env)" "system_ok sums ready" "holds_chunk sums" for env
proof
  fix w :: "'a dfs_world" and a c v
  assume *: "system_ok sums ready w" "holds_chunk sums w a c v"
  obtain w' r where g: "dfs_get cs (steady env) w a c = (w', r)" by fastforce
  have "r = Inr v" using dfs_get_held [OF *, of "steady env"] g by (simp add: steady_def)
  with dfs_get_effect [OF g] g *(1)
  show "\<exists>w'. op_GetChunk (system_ops cs (steady env)) w a c = (w', Inr v) \<and> system_ok sums ready w'
      \<and> (\<forall>a' c' v'. holds_chunk sums w a' c' v' \<longrightarrow> holds_chunk sums w' a' c' v')"
    by (simp add: system_ops_def system_ok_def holds_chunk_def)
qed (auto simp: system_ops_def system_ok_def holds_chunk_def dest: at_meta_nodes)

end
