(* ===== verification/Dfs_Round_Trip.thy ===== *)
theory Dfs_Round_Trip
  imports Dfs_System
begin

text \<open>
  From the upload of a file to its download. While a file is uploaded, the metadata server
  records the file, then each chunk with its digest and the nodes that confirmed it,
  and at last marks the file complete. This theory follows these records through the calls
  of an upload, with a committing leader, and shows that a later download finds the
  file and gets its bytes back.
\<close>

section \<open>The metadata server during an upload\<close>

definition meta_fsm :: "MetadataServiceHandler \<Rightarrow> MetadataFSM" where
  "meta_fsm m = w_fsm (sv_world m)"

definition dfs_fsm :: "'ix dfs_world \<Rightarrow> MetadataFSM" where
  "dfs_fsm w = meta_fsm (dw_meta w)"

text \<open>At every call there is a leader that commits.\<close>

definition leading :: "system_env \<Rightarrow> bool" where
  "leading env \<longleftrightarrow> (\<forall>t. \<exists>ords uuid now ps rf. sy_meta env t = leader_env ords uuid now ps (int rf) \<and> placement ps \<and> 0 < rf)"

lemma leadingE:
  assumes "leading env"
  obtains ords uuid now ps rf where "sy_meta env t = leader_env ords uuid now ps (int rf)" "placement ps" "0 < rf"
  using assms unfolding leading_def by blast

lemma server_inv_fsm: "server_inv m \<Longrightarrow> fsm_inv (meta_fsm m)"
  using reachable_fsm_inv by (simp add: server_inv_def world_inv_def meta_fsm_def)

lemma repair_frame:
  assumes "world_inv w"
  shows "chunkRegistry (w_fsm (ScheduleRepairForChunk (env_of (leader_env ords uuid now ps rf)) ord w c)) = chunkRegistry (w_fsm w)"
    "nodeRegistry (w_fsm (ScheduleRepairForChunk (env_of (leader_env ords uuid now ps rf)) ord w c)) = nodeRegistry (w_fsm w)"
    "fileIndex (w_fsm (ScheduleRepairForChunk (env_of (leader_env ords uuid now ps rf)) ord w c)) = fileIndex (w_fsm w)"
proof -
  have "\<exists>P. adds_jobs P (w_fsm w) (w_fsm (ScheduleRepairForChunk (env_of (leader_env ords uuid now ps rf)) ord w c))"
  proof (cases "GetChunkLocations (w_fsm w) c")
    case (Inl x)
    then show ?thesis by (simp add: ScheduleRepairForChunk_def)
  next
    case (Inr live)
    have jobs: "0 < deficit \<Longrightarrow> \<exists>P. adds_jobs P (w_fsm w)
        (w_fsm (scheduleRepairJobs (env_of (leader_env ords uuid now ps rf)) ord w c live deficit))" for deficit
      using scheduleRepairJobs_jobs [OF leader_server.env_world reachable_fsm_inv] assms unfolding world_inv_def by blast
    show ?thesis
      by (cases "rs_replicationFactor (w_sched w) - int (length live) \<le> 0")
         (use jobs Inr in \<open>auto simp: ScheduleRepairForChunk_def\<close>)
  qed
  then show "chunkRegistry (w_fsm (ScheduleRepairForChunk (env_of (leader_env ords uuid now ps rf)) ord w c)) = chunkRegistry (w_fsm w)"
    "nodeRegistry (w_fsm (ScheduleRepairForChunk (env_of (leader_env ords uuid now ps rf)) ord w c)) = nodeRegistry (w_fsm w)"
    "fileIndex (w_fsm (ScheduleRepairForChunk (env_of (leader_env ords uuid now ps rf)) ord w c)) = fileIndex (w_fsm w)"
    using adds_jobs_frame by blast+
qed

text \<open>The commit of a chunk writes the record of this chunk only.\<close>

lemma meta_commit_effect:
  assumes inv: "server_inv m" and lead: "leading env" and run: "meta_commit env t req m = (m', err)"
  shows "server_inv m' \<and> nodeRegistry (meta_fsm m') = nodeRegistry (meta_fsm m) \<and> fileIndex (meta_fsm m') = fileIndex (meta_fsm m)
    \<and> (\<forall>c. c \<noteq> ccq_ChunkId req \<longrightarrow> chunkRegistry (meta_fsm m') c = chunkRegistry (meta_fsm m) c)
    \<and> (err = None \<longrightarrow> (\<exists>ords ck. chunkRegistry (meta_fsm m') (ccq_ChunkId req) = Some ck \<and> cr_Checksum ck = ccq_Checksum req
         \<and> cr_Status ck = ChunkStatusComplete
         \<and> cr_Replicas ck = normalizeReplicaNodeIDs ords (meta_fsm m) (ccq_ConfirmedNodes req)))"
proof -
  obtain ords uuid now ps rf where e: "sy_meta env t = leader_env ords uuid now ps (int rf)" by (rule leadingE [OF lead])
  let ?e = "leader_env ords uuid now ps (int rf)" and ?w = "sv_world m"
  let ?cmd = "\<lparr>cmc_ChunkID = ccq_ChunkId req, cmc_NodeIDs = ccq_ConfirmedNodes req, cmc_Checksum = ccq_Checksum req\<rparr>"
  obtain s' err' where h: "handleCmdCommitChunk ords (w_fsm ?w) ?cmd = (s', err')" by fastforce
  let ?w1 = "?w\<lparr>w_fsm := s', w_tick := w_tick ?w + 1\<rparr>"
  have p: "propose_in (env_of ?e) ?w (newCommand CmdCommitChunk (enc_CommandCommitChunk ?cmd)) = (?w1, err')"
    by (simp add: propose_in_def env_of_def raft_env_def leader_env_def leader_simps h)
  have w1: "world_inv ?w1" using leader_server.propose_inv' [OF leader_server.server_inv_worldD [OF inv], of ords uuid now ps "int rf" "newCommand CmdCommitChunk (enc_CommandCommitChunk ?cmd)"]
    by (simp add: p)
  have srv: "server_inv m'"
    using run leader_server.srv_CommitChunk_inv [OF inv] e by (auto simp: meta_commit_def split: prod.splits) (metis fst_conv)
  have fsm: "(err = None \<longleftrightarrow> err' = None) \<and> chunkRegistry (meta_fsm m') = chunkRegistry s'
      \<and> nodeRegistry (meta_fsm m') = nodeRegistry s' \<and> fileIndex (meta_fsm m') = fileIndex s'"
    using run repair_frame [OF w1] p
    by (cases err') (auto simp: meta_commit_def e srv_CommitChunk_def on_leader_def leader_env_def fail_with_def plain_reply_def
        set_world_def meta_fsm_def split: sum.splits if_splits)
  have cmd: "nodeRegistry s' = nodeRegistry (meta_fsm m)" "fileIndex s' = fileIndex (meta_fsm m)"
    "\<forall>c. c \<noteq> ccq_ChunkId req \<longrightarrow> chunkRegistry s' c = chunkRegistry (meta_fsm m) c"
    "err' = None \<longrightarrow> (\<exists>ck. chunkRegistry s' (ccq_ChunkId req) = Some ck \<and> cr_Checksum ck = ccq_Checksum req
         \<and> cr_Status ck = ChunkStatusComplete
         \<and> cr_Replicas ck = normalizeReplicaNodeIDs ords (meta_fsm m) (ccq_ConfirmedNodes req))"
    using h by (auto simp: handleCmdCommitChunk_def set_chunk_def meta_fsm_def split: sum.splits if_splits)
  show ?thesis using srv fsm cmd by (auto intro: exI [of _ ords])
qed

lemma commits_effect:
  assumes "server_inv m" "leading env" "commits env t c m m'"
  shows "server_inv m' \<and> nodeRegistry (meta_fsm m') = nodeRegistry (meta_fsm m) \<and> fileIndex (meta_fsm m') = fileIndex (meta_fsm m)
    \<and> (\<forall>c'. c' \<noteq> c \<longrightarrow> chunkRegistry (meta_fsm m') c' = chunkRegistry (meta_fsm m) c')"
proof -
  obtain reqs where r: "m' = fold (\<lambda>req m. fst (meta_commit env t req m)) reqs m" "\<forall>req \<in> set reqs. ccq_ChunkId req = c"
    using assms(3) by (auto simp: commits_def)
  show ?thesis
    using r assms(1)
  proof (induction reqs arbitrary: m)
    case (Cons req reqs)
    let ?m1 = "fst (meta_commit env t req m)"
    have one: "server_inv ?m1" "nodeRegistry (meta_fsm ?m1) = nodeRegistry (meta_fsm m)" "fileIndex (meta_fsm ?m1) = fileIndex (meta_fsm m)"
      "\<forall>c'. c' \<noteq> c \<longrightarrow> chunkRegistry (meta_fsm ?m1) c' = chunkRegistry (meta_fsm m) c'"
      using meta_commit_effect [OF Cons.prems(3) assms(2), of t req ?m1 "snd (meta_commit env t req m)"] Cons.prems(2) by simp_all
    from Cons.IH [of ?m1] Cons.prems(1,2) one show ?case by simp
  qed simp
qed

section \<open>The names of confirmed replicas\<close>

lemma resolve_address_node:
  assumes "resolve_address ord reg x \<noteq> ''''"
  obtains k n where "reg k = Some n" "ne_Address n = x" "resolve_address ord reg x = ne_NodeID n"
proof -
  from assms obtain n where n: "find (\<lambda>n. ne_Address n = x) (range_values ord reg) = Some n"
    by (auto simp: resolve_address_def split: option.splits)
  then have "n \<in> set (range_values ord reg)" "ne_Address n = x" by (auto simp: find_Some_iff)
  moreover from this(1) obtain k where "reg k = Some n" by (auto simp: set_range_values)
  ultimately show ?thesis using that n by (simp add: resolve_address_def)
qed

text \<open>Every entry is one of the reported names, or the id of a node registered at a reported address.\<close>

definition stands_for :: "MetadataFSM \<Rightarrow> string \<Rightarrow> string \<Rightarrow> bool" where
  "stands_for s x y \<longleftrightarrow> y = x \<or> (\<exists>k n. nodeRegistry s k = Some n \<and> ne_Address n = x \<and> y = ne_NodeID n)"

lemma normalize_step:
  obtains (skip) "normalize_loop ords s i (x # raw) normalized seen = normalize_loop ords s (Suc i) raw normalized seen"
  | (add) y seen' where "normalize_loop ords s i (x # raw) normalized seen = normalize_loop ords s (Suc i) raw (normalized @ [y]) seen'"
      "stands_for s x y"
proof (cases "x \<in> seen")
  case True
  then show ?thesis using skip by simp
next
  case False
  let ?r = "resolve_address (ords i) (nodeRegistry s) x"
  consider "\<exists>n. GetNode s x = Inr n" | e where "GetNode s x = Inl e" "?r = ''''" | e where "GetNode s x = Inl e" "?r \<noteq> ''''" "?r \<in> seen"
    | e where "GetNode s x = Inl e" "?r \<noteq> ''''" "?r \<notin> seen" by (cases "GetNode s x") auto
  then show ?thesis
  proof cases
    case (4 e)
    then have "stands_for s x ?r" using resolve_address_node by (metis stands_for_def)
    with 4 False show ?thesis by (intro add [of ?r "insert ?r seen"]) (simp_all add: Let_def)
  qed (use False skip add [of x "insert x seen"] in \<open>auto simp: stands_for_def Let_def\<close>)
qed

lemma normalize_prefix: "\<exists>rest. normalize_loop ords s i raw normalized seen = normalized @ rest"
proof (induction raw arbitrary: i normalized seen)
  case (Cons x raw)
  show ?case
  proof (cases rule: normalize_step [of ords s i x raw normalized seen])
    case (add y seen')
    with Cons.IH [of "Suc i" "normalized @ [y]" seen'] show ?thesis by auto
  qed (use Cons.IH in simp)
qed simp

lemma normalize_first:
  assumes "nodeRegistry s x \<noteq> None"
  shows "\<exists>rest. normalizeReplicaNodeIDs ords s (x # xs) = x # rest"
  using assms normalize_prefix [of ords s "Suc 0" xs "[x]" "{x}"] by (auto simp: normalizeReplicaNodeIDs_def GetNode_def)

lemma normalize_members:
  "y \<in> set (normalize_loop ords s i raw normalized seen) \<Longrightarrow> y \<in> set normalized \<or> (\<exists>x \<in> set raw. stands_for s x y)"
proof (induction raw arbitrary: i normalized seen)
  case (Cons x raw)
  show ?case
  proof (cases rule: normalize_step [of ords s i x raw normalized seen])
    case (add z seen')
    with Cons.IH [of "Suc i" "normalized @ [z]" seen'] Cons.prems show ?thesis by auto
  qed (use Cons.IH [of "Suc i" normalized seen] Cons.prems in auto)
qed simp

text \<open>
  Storage nodes are registered under their id with the address they run at, and ids and
  addresses of different nodes differ.
\<close>

definition names_ok :: "(string \<Rightarrow> string) \<Rightarrow> string set \<Rightarrow> NodeEntry gomap \<Rightarrow> bool" where
  "names_ok nid addrs reg \<longleftrightarrow>
     (\<forall>a \<in> addrs. \<forall>n. reg (nid a) = Some n \<or> reg a = Some n \<longrightarrow> ne_Address n = a)
     \<and> (\<forall>a \<in> addrs. \<forall>k n. reg k = Some n \<and> ne_Address n = nid a \<longrightarrow> nid a = a)
     \<and> (\<forall>a \<in> addrs. \<forall>k n. reg k = Some n \<and> ne_Address n = a \<longrightarrow> nid a = k)"

lemma names_okD:
  assumes "names_ok nid addrs reg" "a \<in> addrs"
  shows "reg (nid a) = Some n \<Longrightarrow> ne_Address n = a" "reg a = Some n \<Longrightarrow> ne_Address n = a"
    "reg k = Some n \<Longrightarrow> ne_Address n = nid a \<Longrightarrow> nid a = a" "reg k = Some n \<Longrightarrow> ne_Address n = a \<Longrightarrow> nid a = k"
proof -
  note n = assms(1) [unfolded names_ok_def]
  note bspec [OF conjunct1 [OF n] assms(2), THEN spec, THEN mp]
    bspec [OF conjunct1 [OF conjunct2 [OF n]] assms(2), THEN spec, THEN spec, THEN mp]
    bspec [OF conjunct2 [OF conjunct2 [OF n]] assms(2), THEN spec, THEN spec, THEN mp]
  then show "reg (nid a) = Some n \<Longrightarrow> ne_Address n = a" "reg a = Some n \<Longrightarrow> ne_Address n = a"
    "reg k = Some n \<Longrightarrow> ne_Address n = nid a \<Longrightarrow> nid a = a" "reg k = Some n \<Longrightarrow> ne_Address n = a \<Longrightarrow> nid a = k"
    by iprover+
qed

lemma resolved_replicas_confirmed:
  assumes "fsm_inv s" "names_ok nid addrs (nodeRegistry s)" "set (a # reps) \<subseteq> addrs"
    and "b \<in> set (resolve_replicas s (normalizeReplicaNodeIDs ords s (nid a # reps)))"
  shows "b \<in> set (a # reps)"
proof -
  from assms(4) obtain y n where y: "y \<in> set (normalizeReplicaNodeIDs ords s (nid a # reps))" "nodeRegistry s y = Some n" "b = ne_Address n"
    by (auto simp: resolve_replicas_set)
  from normalize_members [OF y(1) [unfolded normalizeReplicaNodeIDs_def]] obtain x where
    x: "x \<in> set (nid a # reps)" "stands_for s x y" by auto
  show ?thesis
  proof (cases "y = x")
    case True
    from x(1) consider "x = nid a" | "x \<in> set reps" by auto
    then show ?thesis
    proof cases
      case 1
      then have "ne_Address n = a" using names_okD(1) [OF assms(2), of a n] assms(3) y(2) True by simp
      with y(3) show ?thesis by simp
    next
      case 2
      then have "ne_Address n = x" using names_okD(2) [OF assms(2), of x n] assms(3) y(2) True by auto
      with y(3) 2 show ?thesis by simp
    qed
  next
    case False
    with x(2) obtain k n' where "nodeRegistry s k = Some n'" "ne_Address n' = x" "y = ne_NodeID n'" by (auto simp: stands_for_def)
    with y(2,3) fsm_inv_node [OF assms(1)] have b: "b = x" "nodeRegistry s k = Some n" "ne_Address n = x" by auto
    from x(1) consider "x = nid a" | "x \<in> set reps" by auto
    then show ?thesis
    proof cases
      case 1
      then have "nid a = a" using names_okD(3) [OF assms(2) _ b(2), of a] assms(3) b(3) by simp
      with b(1) 1 show ?thesis by simp
    qed (simp add: b(1))
  qed
qed

section \<open>What a successful put has recorded\<close>

text \<open>
  The node holds the chunk; the metadata server knows its digest, lists the node first
  if it is registered, and every address it will give to a reader holds the chunk.
\<close>

definition recorded :: "('ix \<Rightarrow> string \<rightharpoonup> bytes) \<Rightarrow> system_env \<Rightarrow> 'ix dfs_world \<Rightarrow> string \<Rightarrow> string \<Rightarrow> bytes \<Rightarrow> bool" where
  "recorded sums env w a c v \<longleftrightarrow> holds_chunk sums w a c v
     \<and> (\<exists>ck. chunkRegistry (dfs_fsm w) c = Some ck \<and> cr_Checksum ck = sha256_Sum256 v
          \<and> (nodeRegistry (dfs_fsm w) (sy_nodeID env a) \<noteq> None \<longrightarrow> (\<exists>rest. cr_Replicas ck = sy_nodeID env a # rest))
          \<and> (\<forall>b \<in> set (resolve_replicas (dfs_fsm w) (cr_Replicas ck)). holds_chunk sums w b c v))"

definition cluster_ok :: "('ix \<Rightarrow> string \<rightharpoonup> bytes) \<Rightarrow> ('ix \<Rightarrow> bool) \<Rightarrow> system_env \<Rightarrow> 'ix dfs_world \<Rightarrow> bool" where
  "cluster_ok sums ready env w \<longleftrightarrow> system_ok sums ready w \<and> server_inv (dw_meta w) \<and> '''' \<notin> dom (dw_nodes w)
     \<and> names_ok (sy_nodeID env) (dom (dw_nodes w)) (nodeRegistry (dfs_fsm w))"

lemma resolve_replicas_nodes: "nodeRegistry s' = nodeRegistry s \<Longrightarrow> resolve_replicas s' reps = resolve_replicas s reps"
  by (induction reps) (simp_all add: GetNode_def split: option.split)

lemma recorded_keeps:
  assumes "recorded sums env w a c v" "\<forall>b. holds_chunk sums w b c v \<longrightarrow> holds_chunk sums w' b c v"
    and "chunkRegistry (dfs_fsm w') c = chunkRegistry (dfs_fsm w) c" "nodeRegistry (dfs_fsm w') = nodeRegistry (dfs_fsm w)"
  shows "recorded sums env w' a c v"
  using assms resolve_replicas_nodes [OF assms(4)] unfolding recorded_def by auto

locale led_system = reliable_index cs sums ready
  for cs :: "'ix ChecksumIndexStore" and sums :: "'ix \<Rightarrow> string \<rightharpoonup> bytes" and ready :: "'ix \<Rightarrow> bool" +
  fixes env :: system_env
  assumes lead: "leading env"
begin

lemma put_cluster:
  assumes "cluster_ok sums ready env w" "length v < 2 ^ 64" "dfs_put cs env w a c v s rt = (w', err)"
  shows "cluster_ok sums ready env w' \<and> nodeRegistry (dfs_fsm w') = nodeRegistry (dfs_fsm w) \<and> fileIndex (dfs_fsm w') = fileIndex (dfs_fsm w)
    \<and> (\<forall>a' c' v'. recorded sums env w a' c' v' \<and> c' \<noteq> c \<longrightarrow> recorded sums env w' a' c' v')"
proof -
  have ok: "system_ok sums ready w" "server_inv (dw_meta w)"
    "names_ok (sy_nodeID env) (dom (dw_nodes w)) (nodeRegistry (dfs_fsm w))" using assms(1) by (simp_all add: cluster_ok_def)
  note eff = dfs_put_effect [OF ok(1) assms(2,3)]
  then obtain x where x: "spread sums c x (dw_nodes w) (dw_nodes w')" by blast
  note meta = commits_effect [OF ok(2) lead] eff
  have m: "server_inv (dw_meta w')" "nodeRegistry (dfs_fsm w') = nodeRegistry (dfs_fsm w)" "fileIndex (dfs_fsm w') = fileIndex (dfs_fsm w)"
    "\<forall>c'. c' \<noteq> c \<longrightarrow> chunkRegistry (dfs_fsm w') c' = chunkRegistry (dfs_fsm w) c'"
    using meta unfolding dfs_fsm_def by blast+
  have "recorded sums env w' a' c' v'" if "recorded sums env w a' c' v'" "c' \<noteq> c" for a' c' v'
    using recorded_keeps [OF that(1)] m(2,4) that(2) spread_keeps [OF x] unfolding holds_chunk_def by metis
  moreover have "cluster_ok sums ready env w'"
    using eff spread_dom [OF x] m(1,2) ok(3) assms(1) by (simp add: cluster_ok_def)
  ultimately show ?thesis using m by blast
qed

lemma put_recorded:
  assumes "cluster_ok sums ready env w" "length v < 2 ^ 64" "dfs_put cs env w a c v s rt = (w', None)"
  shows "recorded sums env w' a c v"
proof -
  have ok: "system_ok sums ready w" "server_inv (dw_meta w)"
    "names_ok (sy_nodeID env) (dom (dw_nodes w)) (nodeRegistry (dfs_fsm w))" using assms(1) by (simp_all add: cluster_ok_def)
  from dfs_put_effect [OF ok(1) assms(2,3)] obtain reps where
    h: "holds_chunk sums w' a c v" "\<forall>r \<in> set reps. holds_chunk sums w' r c v" "dom (dw_nodes w') = dom (dw_nodes w)"
    and m: "meta_commit env (dw_calls w) \<lparr>ccq_ChunkId = c, ccq_ConfirmedNodes = sy_nodeID env a # reps, ccq_Checksum = sha256_Sum256 v\<rparr> (dw_meta w)
      = (dw_meta w', None)" by (auto dest: spread_dom)
  have addrs: "set (a # reps) \<subseteq> dom (dw_nodes w)"
    using h unfolding holds_chunk_def node_chunks_def by (auto split: option.splits)
  from meta_commit_effect [OF ok(2) lead m] obtain ords ck where
    reg: "nodeRegistry (dfs_fsm w') = nodeRegistry (dfs_fsm w)" and ck: "chunkRegistry (dfs_fsm w') c = Some ck"
      "cr_Checksum ck = sha256_Sum256 v" "cr_Replicas ck = normalizeReplicaNodeIDs ords (dfs_fsm w) (sy_nodeID env a # reps)"
    by (auto simp: dfs_fsm_def)
  have inv: "fsm_inv (dfs_fsm w)" using server_inv_fsm [OF ok(2)] by (simp add: dfs_fsm_def)
  have "\<forall>b \<in> set (resolve_replicas (dfs_fsm w') (cr_Replicas ck)). holds_chunk sums w' b c v"
    using resolved_replicas_confirmed [OF inv ok(3) addrs] h(1,2) unfolding ck(3) resolve_replicas_nodes [OF reg] by auto
  moreover have "nodeRegistry (dfs_fsm w') (sy_nodeID env a) \<noteq> None \<longrightarrow> (\<exists>rest. cr_Replicas ck = sy_nodeID env a # rest)"
    unfolding reg ck(3) using normalize_first by blast
  ultimately show ?thesis using h(1) ck(1,2) by (auto simp: recorded_def)
qed

end

section \<open>Creating and committing the file\<close>

lemma placement_of_mem:
  assumes "c \<in> plc_ChunkID ` set ps"
  shows "placement_of ps c \<in> set ps"
proof -
  obtain p where "map_of (map (\<lambda>p. (plc_ChunkID p, p)) (rev ps)) c = Some p"
    using assms weak_map_of_SomeI [of c _ "map (\<lambda>p. (plc_ChunkID p, p)) (rev ps)"] by fastforce
  with map_of_SomeD [OF this] show ?thesis by (auto simp: placement_of_def)
qed

lemma placed_on_alive:
  assumes "placement ps" "0 < rf" "fsm_inv s" "place_chunks ps (GetLiveNodes ord s) sz rf ids = Some pls" "c \<in> set ids"
  shows "\<exists>n. nodeRegistry s (ne_NodeID n) = Some n \<and> ne_Status n = NodeStatusAlive
    \<and> plc_Primary (placement_of (map to_placement pls) c) = ne_Address n"
proof -
  have res: "map cp_ChunkId pls = ids" "list_all (\<lambda>pl. \<exists>ns. map node_info ns = cp_Primary pl # cp_Replicas pl \<and> length ns = rf \<and>
      mset ns \<subseteq># mset (eligible (GetLiveNodes ord s) sz [])) pls"
    using place_chunks_result [OF assms(1,4,2)] by simp_all
  have "c \<in> plc_ChunkID ` set (map to_placement pls)" using assms(5) by (auto simp: res(1) [symmetric] to_placement_def image_image)
  from placement_of_mem [OF this] obtain pl where pl: "pl \<in> set pls" "placement_of (map to_placement pls) c = to_placement pl" by auto
  have "\<exists>ns. map node_info ns = cp_Primary pl # cp_Replicas pl \<and> length ns = rf \<and> mset ns \<subseteq># mset (eligible (GetLiveNodes ord s) sz [])"
    using res(2) pl(1) by (simp only: list_all_iff)
  then obtain ns where ns: "map node_info ns = cp_Primary pl # cp_Replicas pl" "mset ns \<subseteq># mset (eligible (GetLiveNodes ord s) sz [])" by metis
  then obtain n ns' where n: "ns = n # ns'" "cp_Primary pl = node_info n" by auto
  have "n \<in> set (eligible (GetLiveNodes ord s) sz [])" using set_mset_mono [OF ns(2)] n(1) by auto
  then have "n \<in> set (GetLiveNodes ord s)" by (auto simp: eligible_def split: if_splits)
  then obtain k where "nodeRegistry s k = Some n" "ne_Status n = NodeStatusAlive" by (auto simp: GetLiveNodes_def set_range_values)
  moreover from fsm_inv_node [OF assms(3) this(1)] have "ne_NodeID n = k" by simp
  ultimately show ?thesis using pl(2) n(2) by (intro exI [of _ n]) (simp add: to_placement_def node_info_def)
qed

definition new_file :: "string \<Rightarrow> string \<Rightarrow> int \<Rightarrow> int \<Rightarrow> string list \<Rightarrow> gotime \<Rightarrow> FileRecord" where
  "new_file f n sz csz ids t =
     \<lparr>fr_FileID = f, fr_Filename = n, fr_FileSize = uint64_of sz, fr_ChunkSize = uint64_of csz, fr_CheckSum = [], fr_ChunkIDs = ids,
      fr_Status = FileStatusCreating, fr_CreatedAt = t, fr_UpdatedAt = zero_time\<rparr>"

lemma create_effect:
  assumes inv: "server_inv m" and ps: "placement ps" "0 < rf"
    and run: "srv_CreateFile (leader_env ords uuid now ps (int rf)) ord m
      \<lparr>cfq_FileId = f, cfq_FileName = n, cfq_FileSize = sz, cfq_ChunkSize = csz, cfq_ChunkIds = ids\<rparr> = (m', reply)"
  shows "server_inv m' \<and> nodeRegistry (meta_fsm m') = nodeRegistry (meta_fsm m)
    \<and> (\<forall>fid pls. reply = Inr (fid, pls) \<longrightarrow> (f \<noteq> '''' \<longrightarrow> fid = f) \<and> fileIndex (meta_fsm m) fid = None \<and> 64 * 1024 \<le> csz \<and> csz \<le> 64 * 1024 * 1024
        \<and> (\<exists>t. fileIndex (meta_fsm m') = (fileIndex (meta_fsm m))(fid \<mapsto> new_file fid n sz csz ids t))
        \<and> (\<forall>c \<in> set ids. \<exists>nd. nodeRegistry (meta_fsm m) (ne_NodeID nd) = Some nd \<and> ne_Status nd = NodeStatusAlive
             \<and> plc_Primary (placement_of (map to_placement pls) c) = ne_Address nd))"
proof -
  let ?e = "leader_env ords uuid now ps (int rf)" and ?w = "sv_world m"
  let ?s = "w_fsm ?w" and ?f = "if f = '''' then uuid (w_tick ?w) else f"
  let ?cmd = "\<lparr>ccf_FileID = ?f, ccf_FileName = n, ccf_ChunkIDs = ids, ccf_FileSize = uint64_of sz, ccf_ChunkSize = uint64_of csz,
      ccf_Checksum = [], ccf_CreatedAt = now (w_tick ?w)\<rparr>"
  have srv: "server_inv m'" using leader_server.srv_CreateFile_inv [OF inv] run by (metis fst_conv)
  have fsm: "w_fsm (sv_world m') = ?s \<or> w_fsm (sv_world m') = fst (handleCmdCreateFile ?s ?cmd)"
    using run by (auto simp: srv_CreateFile_def leader_env_def on_leader_def Let_def env_of_def raft_env_def propose_in_def
        leader_simps set_world_def split: sum.splits if_splits option.splits prod.splits)
  have nodes: "nodeRegistry (fst (handleCmdCreateFile ?s ?cmd)) = nodeRegistry ?s"
    by (simp add: handleCmdCreateFile_def Let_def split: sum.split)
  have "fid = ?f \<and> fileIndex ?s fid = None \<and> 64 * 1024 \<le> csz \<and> csz \<le> 64 * 1024 * 1024
        \<and> (\<exists>t. fileIndex (w_fsm (sv_world m')) = (fileIndex ?s)(fid \<mapsto> new_file fid n sz csz ids t))
        \<and> (\<forall>c \<in> set ids. \<exists>nd. nodeRegistry ?s (ne_NodeID nd) = Some nd \<and> ne_Status nd = NodeStatusAlive
             \<and> plc_Primary (placement_of (map to_placement pls) c) = ne_Address nd)" if "reply = Inr (fid, pls)" for fid pls
  proof -
    have bounds: "minChunkSize \<le> csz" "csz \<le> maxChunkSize"
      and placed: "place_chunks ps (GetLiveNodes ord ?s) csz rf ids = Some pls"
      and made: "snd (handleCmdCreateFile ?s ?cmd) = None" "fid = ?f" "w_fsm (sv_world m') = fst (handleCmdCreateFile ?s ?cmd)"
      using run unfolding that
      by (auto simp: srv_CreateFile_def leader_env_def on_leader_def Let_def fail_with_def env_of_def raft_env_def propose_in_def
          leader_simps set_world_def split: sum.splits if_splits option.splits prod.splits)
    have "fileIndex ?s fid = None" "fileIndex (w_fsm (sv_world m')) = (fileIndex ?s)(fid \<mapsto> new_file fid n sz csz ids (now (w_tick ?w)))"
      using made(1) unfolding made(2,3)
      by (auto simp: handleCmdCreateFile_def GetFile_def Let_def new_file_def split: option.splits if_splits)
    moreover have "fsm_inv ?s" using server_inv_fsm [OF inv] by (simp add: meta_fsm_def)
    ultimately show ?thesis
      using bounds made(2) placed_on_alive [OF ps _ placed] by (auto simp: minChunkSize_def maxChunkSize_def)
  qed
  with srv fsm nodes show ?thesis by (auto simp: meta_fsm_def)
qed

lemma commit_file_effect:
  assumes inv: "server_inv m" and run: "srv_CommitFile (leader_env ords uuid now ps rf) m f sz [] = (m', reply)"
  shows "server_inv m' \<and> nodeRegistry (meta_fsm m') = nodeRegistry (meta_fsm m) \<and> chunkRegistry (meta_fsm m') = chunkRegistry (meta_fsm m)
    \<and> (\<forall>x. reply = Inr x \<longrightarrow> (\<exists>fl. fileIndex (meta_fsm m) f = Some fl
        \<and> fileIndex (meta_fsm m') = (fileIndex (meta_fsm m))(f \<mapsto> fl\<lparr>fr_CheckSum := [], fr_Status := FileStatusComplete\<rparr>)))"
proof -
  let ?s = "w_fsm (sv_world m)" and ?cmd = "\<lparr>cmf_FileID = f, cmf_FileSize = uint64_of sz, cmf_Checksum = []\<rparr>"
  have srv: "server_inv m'" using leader_server.srv_CommitFile_inv [OF inv] run by (metis fst_conv)
  have fsm: "w_fsm (sv_world m') = fst (handleCmdCommitFile ?s ?cmd)" "(\<exists>x. reply = Inr x) \<longrightarrow> snd (handleCmdCommitFile ?s ?cmd) = None"
    using run by (auto simp: srv_CommitFile_def leader_env_def on_leader_def Let_def fail_with_def env_of_def raft_env_def propose_in_def
        leader_simps set_world_def split: option.splits prod.splits)
  have "nodeRegistry (fst (handleCmdCommitFile ?s ?cmd)) = nodeRegistry ?s" "chunkRegistry (fst (handleCmdCommitFile ?s ?cmd)) = chunkRegistry ?s"
    "snd (handleCmdCommitFile ?s ?cmd) = None \<Longrightarrow> \<exists>fl. fileIndex ?s f = Some fl
        \<and> fileIndex (fst (handleCmdCommitFile ?s ?cmd)) = (fileIndex ?s)(f \<mapsto> fl\<lparr>fr_CheckSum := [], fr_Status := FileStatusComplete\<rparr>)"
    by (auto simp: handleCmdCommitFile_def GetFile_def split: sum.splits option.splits if_splits)
  with srv fsm show ?thesis by (auto simp: meta_fsm_def)
qed

lemma create_op:
  assumes "server_inv (dw_meta w)" "leading env" "op_CreateFile (system_ops cs env) w f n sz csz ids = (w', r)"
  shows "dw_nodes w' = dw_nodes w \<and> server_inv (dw_meta w') \<and> nodeRegistry (dfs_fsm w') = nodeRegistry (dfs_fsm w)
    \<and> (\<forall>fid ps. r = Inr (fid, ps) \<longrightarrow> (f \<noteq> '''' \<longrightarrow> fid = f) \<and> fileIndex (dfs_fsm w) fid = None \<and> 64 * 1024 \<le> csz \<and> csz \<le> 64 * 1024 * 1024
        \<and> (\<exists>t. fileIndex (dfs_fsm w') = (fileIndex (dfs_fsm w))(fid \<mapsto> new_file fid n sz csz ids t))
        \<and> (\<forall>c \<in> set ids. \<exists>nd. nodeRegistry (dfs_fsm w) (ne_NodeID nd) = Some nd \<and> ne_Status nd = NodeStatusAlive
             \<and> plc_Primary (placement_of ps c) = ne_Address nd))"
proof -
  let ?t = "dw_calls w"
  obtain ords uuid now ps rf where e: "sy_meta env ?t = leader_env ords uuid now ps (int rf)" "placement ps" "0 < rf"
    by (rule leadingE [OF assms(2)])
  obtain m' reply where s: "srv_CreateFile (leader_env ords uuid now ps (int rf)) (sy_ord env ?t) (dw_meta w)
      \<lparr>cfq_FileId = f, cfq_FileName = n, cfq_FileSize = sz, cfq_ChunkSize = csz, cfq_ChunkIds = ids\<rparr> = (m', reply)" by fastforce
  have at: "at_meta env (\<lambda>st m. mdc_CreateFile st m f n sz csz ids) w = (w', r)" using assms(3) by (simp add: system_ops_def)
  have "(dw_meta w', r) = map_reply (\<lambda>(fid, ps). (fid, map to_placement ps)) ''metadataclient: CreateFile RPC failed'' (m', plain_reply reply)"
    using at_meta_nodes [OF at] by (simp add: mdc_CreateFile_def leader_stub_def e(1) s)
  then have w': "dw_meta w' = m'" "\<And>fid ps. r = Inr (fid, ps) \<Longrightarrow> \<exists>pls. reply = Inr (fid, pls) \<and> ps = map to_placement pls"
    by (auto simp: map_reply_def plain_reply_def split: sum.splits prod.splits)
  note eff = create_effect [OF assms(1) e(2,3) s]
  show ?thesis
    unfolding dfs_fsm_def w'(1)
  proof (intro conjI allI impI conjunct1 [OF at_meta_nodes [OF at]] conjunct1 [OF eff] conjunct1 [OF conjunct2 [OF eff]])
    fix fid ps assume "r = Inr (fid, ps)"
    then obtain pls where p: "reply = Inr (fid, pls)" "ps = map to_placement pls" using w'(2) by blast
    note res = eff [THEN conjunct2, THEN conjunct2, rule_format, OF p(1), folded p(2)]
    from res show "f \<noteq> [] \<Longrightarrow> fid = f" "fileIndex (meta_fsm (dw_meta w)) fid = None" "64 * 1024 \<le> csz" "csz \<le> 64 * 1024 * 1024"
      "\<exists>t. fileIndex (meta_fsm m') = (fileIndex (meta_fsm (dw_meta w)))(fid \<mapsto> new_file fid n sz csz ids t)" by simp_all
    from res show "\<forall>c \<in> set ids. \<exists>nd. nodeRegistry (meta_fsm (dw_meta w)) (ne_NodeID nd) = Some nd \<and> ne_Status nd = NodeStatusAlive
        \<and> plc_Primary (placement_of ps c) = ne_Address nd" by simp
  qed
qed

lemma commit_file_op:
  assumes "server_inv (dw_meta w)" "leading env" "op_CommitFile (system_ops cs env) w f sz = (w', r)"
  shows "dw_nodes w' = dw_nodes w \<and> server_inv (dw_meta w') \<and> nodeRegistry (dfs_fsm w') = nodeRegistry (dfs_fsm w)
    \<and> chunkRegistry (dfs_fsm w') = chunkRegistry (dfs_fsm w)
    \<and> (\<forall>x. r = Inr x \<longrightarrow> (\<exists>fl. fileIndex (dfs_fsm w) f = Some fl
        \<and> fileIndex (dfs_fsm w') = (fileIndex (dfs_fsm w))(f \<mapsto> fl\<lparr>fr_CheckSum := [], fr_Status := FileStatusComplete\<rparr>)))"
proof -
  let ?t = "dw_calls w"
  obtain ords uuid now ps rf where e: "sy_meta env ?t = leader_env ords uuid now ps (int rf)" by (rule leadingE [OF assms(2)])
  obtain m' reply where s: "srv_CommitFile (leader_env ords uuid now ps (int rf)) (dw_meta w) f sz [] = (m', reply)" by fastforce
  have at: "at_meta env (\<lambda>st m. mdc_CommitFile st m f sz []) w = (w', r)" using assms(3) by (simp add: system_ops_def)
  have "(dw_meta w', r) = map_reply (\<lambda>_. ()) ''metadataclient: CommitFile RPC failed'' (m', plain_reply reply)"
    using at_meta_nodes [OF at] by (simp add: mdc_CommitFile_def leader_stub_def e s)
  then have w': "dw_meta w' = m'" "\<And>x. r = Inr x \<Longrightarrow> \<exists>y. reply = Inr y"
    by (auto simp: map_reply_def plain_reply_def split: sum.splits prod.splits)
  from commit_file_effect [OF assms(1) s] w'(2) at_meta_nodes [OF at] show ?thesis unfolding dfs_fsm_def w'(1) by auto
qed

sublocale led_system \<subseteq> rec: chunk_service "system_ops cs env" "cluster_ok sums ready env" "recorded sums env"
proof
  fix w w' :: "'ix dfs_world" and v :: bytes and a c rt err
  assume *: "cluster_ok sums ready env w" "length v < 2 ^ 64"
  show "op_PutChunk (system_ops cs env) w a c v (sha256_Sum256 v) rt = (w', None) \<Longrightarrow> recorded sums env w' a c v"
    using put_recorded [OF *] by (simp add: system_ops_def)
  assume "op_PutChunk (system_ops cs env) w a c v (sha256_Sum256 v) rt = (w', err)"
  then show "cluster_ok sums ready env w' \<and> (\<forall>a' c' v'. recorded sums env w a' c' v' \<and> c' \<noteq> c \<longrightarrow> recorded sums env w' a' c' v')"
    using put_cluster [OF *] by (simp add: system_ops_def)
next
  fix w w' :: "'ix dfs_world" and f n sz csz ids r
  assume "cluster_ok sums ready env w" "op_CreateFile (system_ops cs env) w f n sz csz ids = (w', r)"
  with create_op [OF _ lead, of w cs f n sz csz ids w' r] show "cluster_ok sums ready env w'"
    unfolding cluster_ok_def system_ok_def by metis
next
  fix w w' :: "'ix dfs_world" and f sz r
  assume *: "cluster_ok sums ready env w" "op_CommitFile (system_ops cs env) w f sz = (w', r)"
  then have "dw_nodes w' = dw_nodes w" "server_inv (dw_meta w')" "nodeRegistry (dfs_fsm w') = nodeRegistry (dfs_fsm w)"
    "chunkRegistry (dfs_fsm w') = chunkRegistry (dfs_fsm w)"
    using commit_file_op [OF _ lead *(2)] by (auto simp: cluster_ok_def)
  with *(1) show "cluster_ok sums ready env w' \<and> (\<forall>a c v. recorded sums env w a c v \<longrightarrow> recorded sums env w' a c v)"
    using recorded_keeps [of sums env w] by (auto simp: cluster_ok_def system_ok_def holds_chunk_def)
qed

section \<open>Looking the file up\<close>

lemma lookup_effect:
  assumes inv: "server_inv m" and e: "se_isLeader e" and srt: "sort_spec srt" and ord: "range_order ford (fileIndex (meta_fsm m))"
    and fl: "fileIndex (meta_fsm m) fid = Some fl" "fr_Status fl = FileStatusComplete" "fr_Filename fl = name"
    and unique: "\<And>k f. fileIndex (meta_fsm m) k = Some f \<Longrightarrow> fr_Status f = FileStatusComplete \<Longrightarrow> fr_Filename f = name \<Longrightarrow> k = fid"
  shows "mdc_GetFileByName (leader_stub srt e nord ford) m name =
    (m, Inr (protoToFileInfo (file_info fl),
       map (\<lambda>cid. protoToChunkInfo (chunk_info (meta_fsm m) (the (chunkRegistry (meta_fsm m) cid)))) (fr_ChunkIDs fl)))"
proof -
  let ?s = "meta_fsm m"
  note fi = server_inv_fsm [OF inv]
  obtain fs where fs: "srv_ListFiles srt e ford m '''' = (m, Inr (map file_info fs))"
    "set fs = {f. \<exists>k. fileIndex ?s k = Some f \<and> fr_Status f = FileStatusComplete}"
    using list_files_complete_sorted [OF srt inv e ord [unfolded meta_fsm_def], of "''''"] by (auto simp: meta_fsm_def)
  have list: "mdc_ListFiles (leader_stub srt e nord ford) m '''' = (m, Inr (map (protoToFileInfo \<circ> file_info) fs))"
    by (simp add: mdc_ListFiles_def leader_stub_def fs(1) map_reply_def plain_reply_def)
  have name: "cf_FileName (protoToFileInfo (file_info f)) = fr_Filename f" "cf_FileID (protoToFileInfo (file_info f)) = fr_FileID f" for f
    by (simp_all add: protoToFileInfo_def file_info_def)
  have key: "fileIndex ?s k = Some f \<Longrightarrow> fr_FileID f = k" for k f using fi by (simp add: fsm_inv_defs)
  have "\<exists>x. find (\<lambda>f. cf_FileName f = name) (map (protoToFileInfo \<circ> file_info) fs) = Some x \<and> cf_FileID x = fid"
  proof -
    have "find (\<lambda>f. cf_FileName f = name) (map (protoToFileInfo \<circ> file_info) fs) \<noteq> None"
      using fl fs(2) by (auto simp: find_None_iff name)
    then obtain x where x: "find (\<lambda>f. cf_FileName f = name) (map (protoToFileInfo \<circ> file_info) fs) = Some x" by blast
    then have "x \<in> (protoToFileInfo \<circ> file_info) ` set fs" "cf_FileName x = name"
      by (auto simp: find_Some_iff)
    then obtain f where "f \<in> set fs" "x = protoToFileInfo (file_info f)" "fr_Filename f = name" by (auto simp: name)
    with fs(2) unique key have "cf_FileID x = fid" by (auto simp: name)
    with x show ?thesis by blast
  qed
  moreover have "GetFileChunks ?s fid = Inr (map (\<lambda>cid. the (chunkRegistry ?s cid)) (fr_ChunkIDs fl))"
  proof -
    have "\<forall>cid \<in> set (fr_ChunkIDs fl). chunkRegistry ?s cid = Some (the (chunkRegistry ?s cid))" using fsm_inv_file [OF fi fl(1)] by fastforce
    then show ?thesis using fl(1) by (simp add: GetFileChunks_def GetFile_def collect_chunks_known)
  qed
  then have "mdc_GetFile (leader_stub srt e nord ford) m fid = (m, Inr (protoToFileInfo (file_info fl),
       map (\<lambda>cid. protoToChunkInfo (chunk_info ?s (the (chunkRegistry ?s cid)))) (fr_ChunkIDs fl)))"
    using e fl(1,2) by (simp add: mdc_GetFile_def leader_stub_def srv_GetFile_def on_leader_def Let_def GetFile_def map_reply_def
        plain_reply_def comp_def flip: meta_fsm_def)
  ultimately show ?thesis by (auto simp: mdc_GetFileByName_def list)
qed

section \<open>After a successful upload\<close>

lemma Upload_generated:
  assumes "Upload cfg ue ops mg fs path name w md = Returns (w', md', Some r, None)"
  obtains ds where "GenerateDescriptors (ue_os ue) (ue_uuid ue) path (nat (cc_ChunkSize cfg)) fs = Inr ds" "ds \<noteq> []"
  using assms by (auto simp: Upload_def split: sum.splits list.splits)

lemma descriptor_fields:
  "cd_ChunkID (descriptor f n c i) = ComputeChunkID f i" "cd_FileID (descriptor f n c i) = f" "cd_ChunkIndex (descriptor f n c i) = i"
  by (simp_all add: descriptor_def Let_def)

definition chunk_ids :: "string \<Rightarrow> nat \<Rightarrow> string list" where
  "chunk_ids f n = map (ComputeChunkID f) [0..<n]"

text \<open>What an upload needs of the file, its fresh id and its name.\<close>

definition sendable :: "Config \<Rightarrow> upload_env \<Rightarrow> string \<Rightarrow> bytes \<Rightarrow> MetadataFSM \<Rightarrow> bool" where
  "sendable cfg ue name v s \<longleftrightarrow>
     length v < 2 ^ 53 \<and> nat_ceil (length v) (nat (cc_ChunkSize cfg)) \<le> 2 ^ 31
     \<and> ue_uuid ue \<noteq> '''' \<and> distinct (chunk_ids (ue_uuid ue) (nat_ceil (length v) (nat (cc_ChunkSize cfg))))
     \<and> (\<forall>ds. mset (ue_order ue ds) = mset ds)
     \<and> (\<forall>k f. fileIndex s k = Some f \<and> fr_Filename f = name \<longrightarrow> fr_Status f \<noteq> FileStatusComplete)"

definition uploadable :: "Config \<Rightarrow> upload_env \<Rightarrow> filesystem \<Rightarrow> string \<Rightarrow> string \<Rightarrow> bytes \<Rightarrow> MetadataFSM \<Rightarrow> bool" where
  "uploadable cfg ue fs path name v s \<longleftrightarrow> fs_content fs path = Some v \<and> sendable cfg ue name v s"

context led_system
begin

lemma uploaded:
  assumes ok: "cluster_ok sums ready env w" and fil: "uploadable cfg ue fs path name v (dfs_fsm w)"
    and up: "Upload cfg ue (system_ops cs env) mg fs path name w md = Returns (w', md', Some r, None)"
    and c: "c = nat (cc_ChunkSize cfg)" "n = nat_ceil (length v) c" "f = ue_uuid ue"
  obtains t where "cluster_ok sums ready env w'" "0 < c" "int c = cc_ChunkSize cfg" "c < 2 ^ 53" "v \<noteq> []"
    "fileIndex (dfs_fsm w') = (fileIndex (dfs_fsm w))
       (f \<mapsto> (new_file f name (int (length v)) (int c) (chunk_ids f n) t)\<lparr>fr_Status := FileStatusComplete\<rparr>)"
    "\<forall>i < n. \<exists>nd. recorded sums env w' (ne_Address nd) (ComputeChunkID f i) (chunk_at c v i)
        \<and> nodeRegistry (dfs_fsm w') (ne_NodeID nd) = Some nd \<and> ne_Status nd = NodeStatusAlive"
proof -
  have v: "fs_content fs path = Some v" "length v < 2 ^ 53" "f \<noteq> ''''" "distinct (chunk_ids f n)" "\<forall>ds. mset (ue_order ue ds) = mset ds"
    using fil by (simp_all add: uploadable_def sendable_def c)
  then have v64: "length v < 2 ^ 64" by simp
  obtain ds where gen: "GenerateDescriptors (ue_os ue) (ue_uuid ue) path (nat (cc_ChunkSize cfg)) fs = Inr ds" "ds \<noteq> []"
    by (rule Upload_generated [OF up])
  have stat: "os_Stat OsStat (ue_os ue) path fs = Inr (length v)" "ds = map (descriptor f (length v) c) [0..<numChunks (length v) c]"
    using gen(1) v(1) by (auto simp: GenerateDescriptors_def os_Stat_def c split: option.splits sum.splits)
  from Upload_success [OF up gen(1) v(1)] obtain w0 ps s0 s u where
    cr: "op_CreateFile (system_ops cs env) w (cd_FileID (hd ds)) name (int (length v)) (cc_ChunkSize cfg) (map cd_ChunkID ds)
      = (w0, Inr (ur_FileID r, ps))"
    and s0: "us_world s0 = w0" and s: "s = fold (upload_one cfg ue (system_ops cs env) mg v (cd_FileID (hd ds)) ps) (ue_order ue ds) s0"
    and fin: "op_CommitFile (system_ops cs env) (us_world s) (ur_FileID r) (int (length v)) = (w', Inr u)" .
  have hd: "cd_FileID (hd ds) = f" using gen(2) by (simp add: stat(2) hd_map descriptor_fields)
  have srv: "server_inv (dw_meta w)" using ok by (simp add: cluster_ok_def)
  note create = create_op [OF srv lead cr [unfolded hd], THEN conjunct2, THEN conjunct2, THEN conjunct2, rule_format, OF refl]
  have fid: "ur_FileID r = f" and bounds: "64 * 1024 \<le> cc_ChunkSize cfg" "cc_ChunkSize cfg \<le> 64 * 1024 * 1024" using create v(3) by simp_all
  then have cpos: "0 < c" "c < 2 ^ 53" "int c = cc_ChunkSize cfg" by (simp_all add: c(1))
  have ds: "ds = map (descriptor f (length v) c) [0..<n]" using stat(2) numChunks_exact [OF v(2) cpos(1,2)] by (simp add: c(2))
  then have ids: "map cd_ChunkID ds = chunk_ids f n" by (simp add: chunk_ids_def descriptor_fields comp_def)
  obtain t where t: "fileIndex (dfs_fsm w0) = (fileIndex (dfs_fsm w))(f \<mapsto> new_file f name (int (length v)) (int c) (chunk_ids f n) t)"
    using create unfolding fid ids cpos(3) by blast
  define P where "P x \<longleftrightarrow> cluster_ok sums ready env x \<and> nodeRegistry (dfs_fsm x) = nodeRegistry (dfs_fsm w0)
    \<and> fileIndex (dfs_fsm x) = fileIndex (dfs_fsm w0)" for x
  have P0: "P (us_world s0)" using rec.create_keeps [OF ok cr] by (simp add: P_def s0)
  have step: "P y" if "P x" "length d \<le> length v" "op_PutChunk (system_ops cs env) x a b d (sha256_Sum256 d) rt = (y, e)" for x y a b d rt e
    using put_cluster [of x d a b "sha256_Sum256 d" rt y e] that v64 by (simp add: system_ops_def P_def)
  have "P (us_world s)" unfolding s by (rule uploads_preserve [where P = P, OF step P0])
  then have files: "fileIndex (dfs_fsm (us_world s)) = fileIndex (dfs_fsm w0)" and nodes1: "nodeRegistry (dfs_fsm (us_world s)) = nodeRegistry (dfs_fsm w0)"
    and srv1: "server_inv (dw_meta (us_world s))" by (simp_all add: P_def cluster_ok_def)
  note commit = commit_file_op [OF srv1 lead fin]
  have complete: "fileIndex (dfs_fsm w') = (fileIndex (dfs_fsm w))
       (f \<mapsto> (new_file f name (int (length v)) (int c) (chunk_ids f n) t)\<lparr>fr_Status := FileStatusComplete\<rparr>)"
    using commit by (auto simp: files t fid new_file_def)
  have nodes: "nodeRegistry (dfs_fsm w') = nodeRegistry (dfs_fsm w)" using commit nodes1 create_op [OF srv lead cr] by simp
  have dist: "distinct (map cd_ChunkID ds)" using v(4) ids by simp
  from rec.upload_stores [OF up ok gen(1) v(1) v64 dist v(5) [rule_format]] cr have
    w': "cluster_ok sums ready env w'" "\<forall>d \<in> set ds. recorded sums env w' (plc_Primary (placement_of ps (cd_ChunkID d))) (cd_ChunkID d) (chunk_slice v d)"
    by auto
  have "\<exists>nd. recorded sums env w' (ne_Address nd) (ComputeChunkID f i) (chunk_at c v i)
        \<and> nodeRegistry (dfs_fsm w') (ne_NodeID nd) = Some nd \<and> ne_Status nd = NodeStatusAlive" if i: "i < n" for i
  proof -
    have mem: "descriptor f (length v) c i \<in> set ds" "ComputeChunkID f i \<in> set (map cd_ChunkID ds)" using i by (auto simp: ds descriptor_fields)
    then obtain nd where nd: "nodeRegistry (dfs_fsm w) (ne_NodeID nd) = Some nd" "ne_Status nd = NodeStatusAlive"
      "plc_Primary (placement_of ps (ComputeChunkID f i)) = ne_Address nd" using create by blast
    have "chunk_slice v (descriptor f (length v) c i) = chunk_at c v i"
      using descriptor_bounds(1) [OF cpos(1) i [unfolded c(2)]] chunk_slice_descriptor [of i c v f] by (simp add: chunk_at_def)
    with w'(2) mem(1) nd show ?thesis unfolding nodes by (intro exI [of _ nd]) (auto simp: descriptor_fields)
  qed
  moreover have "v \<noteq> []" using gen(2) ds cpos(1) by (auto simp: c(2) nat_ceil_def)
  ultimately show ?thesis using that w'(1) cpos complete by blast
qed

end

text \<open>
  What a reader is told about the file: any later lookup, at a leader that ranges over all
  its files, describes it.
\<close>

definition reading :: "system_env \<Rightarrow> MetadataFSM \<Rightarrow> bool" where
  "reading env s \<longleftrightarrow> sort_spec (sy_sort env) \<and> (\<forall>t. se_isLeader (sy_meta env t) \<and> range_order (sy_fileOrd env t) (fileIndex s))"

lemma int64_small: "k < 2 ^ 63 \<Longrightarrow> int64_of (uint64_of (int k)) = int k"
  by (simp add: int64_of_def uint64_of_def signed_of_nat signed_take_bit_int_eq_self)

lemma int32_small: "k < 2 ^ 31 \<Longrightarrow> int32_of (int k) = int k"
  by (simp add: int32_of_def)

definition client_chunk :: "MetadataFSM \<Rightarrow> string \<Rightarrow> ClientChunk" where
  "client_chunk s cid = protoToChunkInfo (chunk_info s (the (chunkRegistry s cid)))"

lemma chunk_index_of:
  assumes inv: "fsm_inv s" and fl: "fileIndex s f = Some fl" "fr_ChunkIDs fl = chunk_ids f n" "distinct (chunk_ids f n)"
    and i: "i < n" and ck: "chunkRegistry s (ComputeChunkID f i) = Some ck"
  shows "cr_ChunkIndex ck = int i"
proof -
  have ids: "length (chunk_ids f n) = n" "chunk_ids f n ! i = ComputeChunkID f i" using i by (simp_all add: chunk_ids_def)
  then have "ComputeChunkID f i \<in> set (fr_ChunkIDs fl)" using i fl(2) nth_mem [of i "chunk_ids f n"] by simp
  then have "cr_FileID ck = f" using fsm_inv_file [OF inv fl(1), of "ComputeChunkID f i"] ck by auto
  then have "nat (cr_ChunkIndex ck) < n" "chunk_ids f n ! nat (cr_ChunkIndex ck) = ComputeChunkID f i"
    using inv [unfolded fsm_inv_def chunks_owned_def, THEN conjunct2, THEN conjunct2, THEN conjunct1, rule_format, OF ck] fl(1,2) ids(1) by auto
  then have "nat (cr_ChunkIndex ck) = i" using nth_eq_iff_index_eq [OF fl(3), of "nat (cr_ChunkIndex ck)" i] ids i by simp
  moreover have "0 \<le> cr_ChunkIndex ck" using fsm_inv_chunk [OF inv ck] by (simp add: chunk_wf_def)
  ultimately show ?thesis by simp
qed

lemma recorded_view:
  assumes ok: "cluster_ok sums ready env w"
    and rc: "recorded sums env w (ne_Address nd) cid d"
    and nd: "nodeRegistry (dfs_fsm w) (ne_NodeID nd) = Some nd" "ne_Status nd = NodeStatusAlive"
  obtains ck bs where "chunkRegistry (dfs_fsm w) cid = Some ck" "cr_Checksum ck = sha256_Sum256 d" "holds_chunk sums w (ne_Address nd) cid d"
    "resolve_replicas (dfs_fsm w) (cr_Replicas ck) = ne_Address nd # bs" "\<forall>b \<in> set bs. holds_chunk sums w b cid d"
proof -
  let ?s = "dfs_fsm w"
  from rc [unfolded recorded_def] obtain ck where ck: "chunkRegistry ?s cid = Some ck" "cr_Checksum ck = sha256_Sum256 d"
      "nodeRegistry ?s (sy_nodeID env (ne_Address nd)) \<noteq> None \<longrightarrow> (\<exists>rest. cr_Replicas ck = sy_nodeID env (ne_Address nd) # rest)"
      "\<forall>b \<in> set (resolve_replicas ?s (cr_Replicas ck)). holds_chunk sums w b cid d"
    and hold: "holds_chunk sums w (ne_Address nd) cid d" by blast
  from hold have dom: "ne_Address nd \<in> dom (dw_nodes w)" by (auto simp: holds_chunk_def node_chunks_def split: option.splits)
  have names: "names_ok (sy_nodeID env) (dom (dw_nodes w)) (nodeRegistry ?s)" and addr: "'''' \<notin> dom (dw_nodes w)" using ok by (simp_all add: cluster_ok_def)
  have "sy_nodeID env (ne_Address nd) = ne_NodeID nd" by (rule names_okD(4) [OF names dom nd(1) refl])
  with ck(3) nd(1) obtain rest where "cr_Replicas ck = ne_NodeID nd # rest" by auto
  moreover have "ne_Address nd \<noteq> ''''" using dom addr by metis
  ultimately have res: "resolve_replicas ?s (cr_Replicas ck) = ne_Address nd # resolve_replicas ?s rest"
    using nd by (simp add: GetNode_def)
  show ?thesis by (rule that [OF ck(1,2) hold res]) (use ck(4) res in simp)
qed

lemma lookup_op:
  assumes ok: "cluster_ok sums ready env w" and rd: "reading env' (dfs_fsm w)"
    and fl: "fileIndex (dfs_fsm w) f = Some fl" "fr_Status fl = FileStatusComplete" "fr_Filename fl = name"
    and unique: "\<And>k g. fileIndex (dfs_fsm w) k = Some g \<Longrightarrow> fr_Status g = FileStatusComplete \<Longrightarrow> fr_Filename g = name \<Longrightarrow> k = f"
  shows "op_GetFileByName (system_ops cs env') w name
    = (w\<lparr>dw_meta := dw_meta w, dw_calls := Suc (dw_calls w)\<rparr>,
       Inr (protoToFileInfo (file_info fl), map (client_chunk (dfs_fsm w)) (fr_ChunkIDs fl)))"
proof -
  let ?t = "dw_calls w"
  have srv: "server_inv (dw_meta w)" using ok by (simp add: cluster_ok_def)
  have rd': "se_isLeader (sy_meta env' ?t)" "sort_spec (sy_sort env')" "range_order (sy_fileOrd env' ?t) (fileIndex (dfs_fsm w))"
    using rd by (simp_all add: reading_def)
  have "mdc_GetFileByName (leader_stub (sy_sort env') (sy_meta env' ?t) (sy_ord env' ?t) (sy_fileOrd env' ?t)) (dw_meta w) name
     = (dw_meta w, Inr (protoToFileInfo (file_info fl), map (client_chunk (dfs_fsm w)) (fr_ChunkIDs fl)))"
    using lookup_effect [OF srv rd'(1,2) rd'(3) [unfolded dfs_fsm_def] fl(1) [unfolded dfs_fsm_def] fl(2,3)] unique
    by (simp add: dfs_fsm_def client_chunk_def [abs_def])
  then show ?thesis by (simp add: system_ops_def at_meta_def Let_def)
qed

context led_system
begin

lemma uploaded_chunk:
  assumes ok: "cluster_ok sums ready env w"
    and fl: "fileIndex (dfs_fsm w) f = Some fl" "fr_ChunkIDs fl = chunk_ids f n" "distinct (chunk_ids f n)" and i: "i < n" "n \<le> 2 ^ 31"
    and rc: "recorded sums env w (ne_Address nd) (ComputeChunkID f i) d"
    and nd: "nodeRegistry (dfs_fsm w) (ne_NodeID nd) = Some nd" "ne_Status nd = NodeStatusAlive"
    and k: "k = client_chunk (dfs_fsm w) (ComputeChunkID f i)"
  shows "ck_ChunkIndex k = int i \<and> ck_Checksum k = sha256_Sum256 d
    \<and> (\<exists>a bs. ck_Replicas k = a # bs \<and> holds_chunk sums w a (ck_ChunkID k) d \<and> (\<forall>b \<in> set bs. holds_chunk sums w b (ck_ChunkID k) d))"
proof -
  obtain ck bs where ck: "chunkRegistry (dfs_fsm w) (ComputeChunkID f i) = Some ck" "cr_Checksum ck = sha256_Sum256 d"
    "holds_chunk sums w (ne_Address nd) (ComputeChunkID f i) d"
    "resolve_replicas (dfs_fsm w) (cr_Replicas ck) = ne_Address nd # bs" "\<forall>b \<in> set bs. holds_chunk sums w b (ComputeChunkID f i) d"
    by (rule recorded_view [OF ok rc nd])
  have inv: "fsm_inv (dfs_fsm w)" using server_inv_fsm ok by (simp add: dfs_fsm_def cluster_ok_def)
  have "cr_ChunkIndex ck = int i" by (rule chunk_index_of [OF inv fl i(1) ck(1)])
  moreover have "cr_ChunkID ck = ComputeChunkID f i" using fsm_inv_chunk [OF inv ck(1)] ..
  ultimately show ?thesis using ck int32_small [of i] i by (simp add: k client_chunk_def protoToChunkInfo_def chunk_info_def)
qed

lemma uploaded_lookup:
  assumes ok: "cluster_ok sums ready env w" and fil: "uploadable cfg ue fs path name v (dfs_fsm w)"
    and up: "Upload cfg ue (system_ops cs env) mg fs path name w md = Returns (w', md', Some r, None)"
    and rd: "reading env' (dfs_fsm w')"
    and c: "c = nat (cc_ChunkSize cfg)"
  obtains w1 info chunks where "cluster_ok sums ready env w'" "op_GetFileByName (system_ops cs env') w' name = (w1, Inr (info, chunks))"
    "describes c v info chunks" "v \<noteq> []"
    "\<And>k. k \<in> set chunks \<Longrightarrow> available (holds_chunk sums) c v w' k"
    "\<And>k b. k \<in> set chunks \<Longrightarrow> b \<in> set (ck_Replicas k) \<Longrightarrow> holds_chunk sums w' b (ck_ChunkID k) (chunk_at c v (nat (ck_ChunkIndex k)))"
proof -
  define n where "n = nat_ceil (length v) c"
  define f where "f = ue_uuid ue"
  obtain t where ok': "cluster_ok sums ready env w'" and cpos: "0 < c" "int c = cc_ChunkSize cfg" "c < 2 ^ 53" and ne: "v \<noteq> []"
    and files: "fileIndex (dfs_fsm w') = (fileIndex (dfs_fsm w))
       (f \<mapsto> (new_file f name (int (length v)) (int c) (chunk_ids f n) t)\<lparr>fr_Status := FileStatusComplete\<rparr>)"
    and stored: "\<forall>i < n. \<exists>nd. recorded sums env w' (ne_Address nd) (ComputeChunkID f i) (chunk_at c v i)
        \<and> nodeRegistry (dfs_fsm w') (ne_NodeID nd) = Some nd \<and> ne_Status nd = NodeStatusAlive"
    by (rule uploaded [OF ok fil up c n_def f_def])
  define fl where "fl = (new_file f name (int (length v)) (int c) (chunk_ids f n) t)\<lparr>fr_Status := FileStatusComplete\<rparr>"
  define chunks where "chunks = map (client_chunk (dfs_fsm w')) (chunk_ids f n)"
  have small: "length v < 2 ^ 53" "n \<le> 2 ^ 31" "distinct (chunk_ids f n)"
    using fil by (simp_all add: uploadable_def sendable_def n_def f_def c)
  have fl: "fileIndex (dfs_fsm w') f = Some fl" "fr_ChunkIDs fl = chunk_ids f n" "fr_Status fl = FileStatusComplete" "fr_Filename fl = name"
    by (simp_all add: files fl_def new_file_def)
  have view: "ck_ChunkIndex k = int i \<and> ck_Checksum k = sha256_Sum256 (chunk_at c v i)
    \<and> (\<exists>a bs. ck_Replicas k = a # bs \<and> holds_chunk sums w' a (ck_ChunkID k) (chunk_at c v i)
         \<and> (\<forall>b \<in> set bs. holds_chunk sums w' b (ck_ChunkID k) (chunk_at c v i)))"
    if i: "i < n" "k = client_chunk (dfs_fsm w') (ComputeChunkID f i)" for i k
  proof -
    from stored i(1) obtain nd where "recorded sums env w' (ne_Address nd) (ComputeChunkID f i) (chunk_at c v i)"
      "nodeRegistry (dfs_fsm w') (ne_NodeID nd) = Some nd" "ne_Status nd = NodeStatusAlive" by blast
    then show ?thesis by (rule uploaded_chunk [OF ok' fl(1,2) small(3) i(1) small(2) _ _ _ i(2)])
  qed
  have mem: "\<exists>i < n. k = client_chunk (dfs_fsm w') (ComputeChunkID f i)" if "k \<in> set chunks" for k
    using that by (auto simp: chunks_def chunk_ids_def)
  show ?thesis
  proof (rule that [OF ok' lookup_op [OF ok' rd fl(1,3,4), unfolded fl(2), folded chunks_def] _ ne])
    show "k = f" if "fileIndex (dfs_fsm w') k = Some g" "fr_Status g = FileStatusComplete" "fr_Filename g = name" for k g
      using fil that by (auto simp: files uploadable_def sendable_def split: if_splits)
    have "cf_FileSize (protoToFileInfo (file_info fl)) = int (length v)" "cf_ChunkSize (protoToFileInfo (file_info fl)) = int c"
      using int64_small [of "length v"] int64_small [of c] small(1) cpos(3) by (simp_all add: fl_def protoToFileInfo_def file_info_def new_file_def)
    moreover have "ck_ChunkIndex ` set chunks = int ` {..<n}"
      using view by (force simp: chunks_def chunk_ids_def image_iff)
    moreover have "\<forall>k \<in> set chunks. ck_Checksum k = sha256_Sum256 (chunk_at c v (nat (ck_ChunkIndex k)))"
    proof
      fix k assume "k \<in> set chunks"
      then obtain i where "i < n" "k = client_chunk (dfs_fsm w') (ComputeChunkID f i)" using mem by blast
      from view [OF this] show "ck_Checksum k = sha256_Sum256 (chunk_at c v (nat (ck_ChunkIndex k)))" by simp
    qed
    ultimately show "describes c v (protoToFileInfo (file_info fl)) chunks" using cpos(1) by (simp add: describes_def n_def)
  next
    fix k assume "k \<in> set chunks"
    then obtain i where i: "i < n" "k = client_chunk (dfs_fsm w') (ComputeChunkID f i)" using mem by blast
    note k = view [OF this]
    have "i * c \<le> length v" using descriptor_bounds(1) [OF cpos(1) i(1) [unfolded n_def]] by simp
    with k show "available (holds_chunk sums) c v w' k" unfolding available_def by auto
    show "holds_chunk sums w' b (ck_ChunkID k) (chunk_at c v (nat (ck_ChunkIndex k)))" if "b \<in> set (ck_Replicas k)" for b
      using k that by auto
  qed
qed

end

end
