(* ===== verification/Dfs_Completion.thy ===== *)
theory Dfs_Completion
  imports Dfs_Round_Trip
begin

text \<open>
  Uploads that complete. When connections work, a leader commits, enough live nodes are
  registered and every node has room for the file, \<open>Upload\<close> of \<open>service/upload.go\<close> returns
  without error: \<open>CreateFile\<close> places the chunks, each node accepts its chunk, the metadata
  server accepts each \<open>CommitChunk\<close> and at the end \<open>CommitFile\<close>.
\<close>

section \<open>A chunk that has been announced is accepted\<close>

definition pending :: "'ix dfs_world \<Rightarrow> string \<Rightarrow> bool" where
  "pending w c \<longleftrightarrow> (\<exists>ck. chunkRegistry (dfs_fsm w) c = Some ck \<and> cr_Checksum ck = [] \<and> cr_Status ck = ChunkStatusAllocated)"

definition committed_chunk :: "'ix dfs_world \<Rightarrow> string \<Rightarrow> bool" where
  "committed_chunk w c \<longleftrightarrow> (\<exists>ck. chunkRegistry (dfs_fsm w) c = Some ck \<and> cr_Status ck = ChunkStatusComplete)"

lemma meta_commit_accepts:
  assumes lead: "leading env" and ck: "chunkRegistry (meta_fsm m) (ccq_ChunkId req) = Some ck" "cr_Checksum ck = []"
    "cr_Status ck = ChunkStatusAllocated"
  shows "snd (meta_commit env t req m) = None"
proof -
  obtain ords uuid now ps rf where e: "sy_meta env t = leader_env ords uuid now ps (int rf)" by (rule leadingE [OF lead])
  let ?e = "leader_env ords uuid now ps (int rf)" and ?w = "sv_world m"
  let ?cmd = "\<lparr>cmc_ChunkID = ccq_ChunkId req, cmc_NodeIDs = ccq_ConfirmedNodes req, cmc_Checksum = ccq_Checksum req\<rparr>"
  obtain s' where h: "handleCmdCommitChunk ords (w_fsm ?w) ?cmd = (s', None)"
    using ck by (simp add: handleCmdCommitChunk_def Metadata_Fsm.GetChunk_def meta_fsm_def)
  have p: "propose_in (env_of ?e) ?w (newCommand CmdCommitChunk (enc_CommandCommitChunk ?cmd)) = (?w\<lparr>w_fsm := s', w_tick := w_tick ?w + 1\<rparr>, None)"
    by (simp add: propose_in_def env_of_def raft_env_def leader_env_def leader_simps h)
  then show ?thesis
    by (simp add: meta_commit_def e srv_CommitChunk_def on_leader_def plain_reply_def leader_env_def split: prod.split sum.split)
qed

context reliable_index
begin

lemma dfs_server_accepts:
  assumes ok: "nodes_ok sums ready (dw_nodes w)" and d: "dw_nodes w a = Some d" and len: "length v < 2 ^ 64"
    and valid: "valid_id (d_store d) c" and fits: "chunk_bytes ((chunks sums d)(c \<mapsto> v)) \<le> unat (totalSpace (d_store d))"
    and accept: "\<And>req. ccq_ChunkId req = c \<Longrightarrow> snd (meta_commit env (dw_calls w) req (dw_meta w)) = None"
  shows "\<exists>w' x. dfs_server cs env w a (put_frames g c v (sha256_Sum256 v) rt) None = (w', Inr x)"
proof -
  let ?fr = "put_frames g c v (sha256_Sum256 v) rt" and ?t = "dw_calls w"
  have inv: "store_inv sums ready d" "temp_ready d" using ok d by (auto simp: nodes_ok_def)
  have put: "\<exists>d' reqs x. PutChunk (\<lambda>_. reliable_os) cs (node_handler env ?t a (fan_seen n es) (dw_meta w)) None d ?fr None = (d', reqs, Inr x)"
    for n es
  proof -
    let ?h = "node_handler env ?t a (fan_seen n es) (dw_meta w)"
    obtain d' reqs resp where p: "PutChunk (\<lambda>_. reliable_os) cs ?h None d ?fr None = (d', reqs, resp)" by (metis prod_cases3)
    have "spec_PutChunk (valid_id (d_store d)) (unat (totalSpace (d_store d))) ?h None (chunks sums d) ?fr None = (chunks sums d', reqs, resp)"
      using PutChunk_refines [OF reliable_index_axioms inv, of ?fr ?h None None] len p by (simp add: put_frames_data)
    then have "(reqs, resp) = put_committed ?h None (targets (map Some rt)) (put_request c (sha256_Sum256 v) rt (pcq_Data (last ?fr)) True)"
      using spec_PutChunk_frames [of "valid_id (d_store d)" c "unat (totalSpace (d_store d))" ?h "chunks sums d" g v "sha256_Sum256 v" rt]
        valid fits by simp
    from node_handler_commits [OF this] accept have "\<exists>x. resp = Inr x" by (auto simp: put_request_def)
    with p show ?thesis by blast
  qed
  show ?thesis using put unfolding dfs_server_def by (simp add: d Let_def split: prod.split) (metis Pair_inject)
qed

end

section \<open>A chunk with room for it\<close>

definition calm :: "system_env \<Rightarrow> bool" where
  "calm env \<longleftrightarrow> (\<forall>t a. sy_dial env t a = None) \<and> (\<forall>t. sy_faults env t = no_faults)"

text \<open>Every node has room for \<open>k\<close> more bytes.\<close>

definition room :: "('ix \<Rightarrow> string \<rightharpoonup> bytes) \<Rightarrow> nat \<Rightarrow> 'ix dfs_world \<Rightarrow> bool" where
  "room sums k w \<longleftrightarrow> (\<forall>a d. dw_nodes w a = Some d \<longrightarrow>
     chunk_bytes (chunks sums d) + k \<le> unat (totalSpace (d_store d)) \<and> splitLevel (d_store d) \<le> 32)"

lemma chunk_bytes_add: "finite (dom m) \<Longrightarrow> chunk_bytes (m(c \<mapsto> v)) \<le> chunk_bytes m + length v"
  using chunk_bytes_upd(1) [of m c v] by simp

context checksum_index
begin

lemma room_spread:
  assumes "nodes_ok sums ready (dw_nodes w)" "room sums (k + length v) w" "spread sums c v (dw_nodes w) (dw_nodes w')"
  shows "room sums k w'"
  unfolding room_def
proof (intro allI impI)
  fix a d' assume d': "dw_nodes w' a = Some d'"
  from assms(3) have rel: "rel_option (\<lambda>d d'. same_config (d_store d) (d_store d')) (dw_nodes w a) (Some d')"
    and ch: "node_chunks sums (dw_nodes w') a = node_chunks sums (dw_nodes w) a
      \<or> node_chunks sums (dw_nodes w') a = (node_chunks sums (dw_nodes w) a)(c \<mapsto> v)"
    unfolding spread_def d' [symmetric] by simp_all
  from rel obtain d where d: "dw_nodes w a = Some d" "same_config (d_store d) (d_store d')" by (cases "dw_nodes w a") auto
  have "store_inv sums ready d" using assms(1) d(1) by (auto simp: nodes_ok_def)
  then have "chunk_bytes ((chunks sums d)(c \<mapsto> v)) \<le> chunk_bytes (chunks sums d) + length v"
    by (intro chunk_bytes_add finite_chunks)
  moreover have "chunks sums d' = chunks sums d \<or> chunks sums d' = (chunks sums d)(c \<mapsto> v)" using ch d(1) d' by (simp add: node_chunks_def)
  moreover have "chunk_bytes (chunks sums d) + (k + length v) \<le> unat (totalSpace (d_store d))" "splitLevel (d_store d) \<le> 32"
    using assms(2) d(1) by (auto simp: room_def)
  ultimately show "chunk_bytes (chunks sums d') + k \<le> unat (totalSpace (d_store d')) \<and> splitLevel (d_store d') \<le> 32"
    using d(2) by (auto simp: same_config_def)
qed

end

context led_system
begin

text \<open>Storing one announced chunk: it succeeds, and the others stay announced or committed.\<close>

lemma put_accepts:
  assumes ok: "cluster_ok sums ready env w" and calm: "calm env" and a: "a \<in> dom (dw_nodes w)" and len: "length v < 2 ^ 64"
    and c: "c = ComputeChunkID f i" "pending w c" and rm: "room sums (k + length v) w"
  obtains w' where "op_PutChunk (system_ops cs env) w a c v (sha256_Sum256 v) rt = (w', None)"
    "cluster_ok sums ready env w'" "room sums k w'" "committed_chunk w' c" "dom (dw_nodes w') = dom (dw_nodes w)"
    "fileIndex (dfs_fsm w') = fileIndex (dfs_fsm w)" "\<And>c'. c' \<noteq> c \<Longrightarrow> chunkRegistry (dfs_fsm w') c' = chunkRegistry (dfs_fsm w) c'"
proof -
  from a obtain d where d: "dw_nodes w a = Some d" by blast
  have nok: "nodes_ok sums ready (dw_nodes w)" "system_ok sums ready w" "server_inv (dw_meta w)" using ok by (simp_all add: cluster_ok_def system_ok_def)
  have fits: "chunk_bytes (chunks sums d) + (k + length v) \<le> unat (totalSpace (d_store d))" "splitLevel (d_store d) \<le> 32"
    using rm d by (auto simp: room_def)
  have "store_inv sums ready d" using nok(1) d by (auto simp: nodes_ok_def)
  then have cap: "chunk_bytes ((chunks sums d)(c \<mapsto> v)) \<le> unat (totalSpace (d_store d))"
    using chunk_bytes_add [OF finite_chunks, of d c v] fits(1) by simp
  have valid: "valid_id (d_store d) c" using chunk_id_accepted [OF fits(2)] by (simp add: valid_id_def c(1))
  have accept: "snd (meta_commit env (dw_calls w) req (dw_meta w)) = None" if "ccq_ChunkId req = c" for req
    using meta_commit_accepts [OF lead] c(2) that unfolding pending_def dfs_fsm_def by blast
  obtain w1 x where s: "dfs_server cs env w a (put_frames (dw_client w) c v (sha256_Sum256 v) rt) None = (w1, Inr x)"
    using dfs_server_accepts [OF nok(1) d len valid cap accept, of "dw_client w" rt] by blast
  have "\<exists>w'. dfs_put cs env w a c v (sha256_Sum256 v) rt = (w', None)"
    using calm by (simp add: dfs_put_def sc_PutChunk_def getOrDial_def calm_def no_faults_def first_fault_none s Let_def split: prod.split)
  then obtain w' where put: "dfs_put cs env w a c v (sha256_Sum256 v) rt = (w', None)" by blast
  note eff = dfs_put_effect [OF nok(2) len put] and cl = put_cluster [OF ok len put]
  from eff obtain reps where sp: "spread sums c v (dw_nodes w) (dw_nodes w')"
    and m: "meta_commit env (dw_calls w) \<lparr>ccq_ChunkId = c, ccq_ConfirmedNodes = sy_nodeID env a # reps, ccq_Checksum = sha256_Sum256 v\<rparr> (dw_meta w)
      = (dw_meta w', None)" by auto
  have com: "committed_chunk w' c" using meta_commit_effect [OF nok(3) lead m] by (auto simp: committed_chunk_def dfs_fsm_def)
  have other: "chunkRegistry (dfs_fsm w') c' = chunkRegistry (dfs_fsm w) c'" if "c' \<noteq> c" for c'
    using meta_commit_effect [OF nok(3) lead m] that by (simp add: dfs_fsm_def)
  show ?thesis
    by (rule that [OF _ _ room_spread [OF nok(1) rm sp] com spread_dom [OF sp] _ other]) (use put cl in \<open>simp_all add: system_ops_def\<close>)
qed

end

section \<open>All chunks of a file\<close>

lemma Do_first: "0 < p_MaxAttempts p \<Longrightarrow> re_ctxErr renv 0 = None \<Longrightarrow> fn w = (w', None) \<Longrightarrow> ro_world (Do p renv fn w) = w' \<and> ro_err (Do p renv fn w) = None"
  by (cases "nat (p_MaxAttempts p)") (simp_all add: Do_def)

text \<open>What the client needs: attempts, slots, and calls on its own machine that work.\<close>

definition patient :: "Config \<Rightarrow> upload_env \<Rightarrow> bool" where
  "patient cfg ue \<longleftrightarrow> 0 < cc_RetryAttempts cfg \<and> 0 < cc_MaxParallelUploads cfg \<and> (\<forall>c. re_ctxErr (ue_retry ue c) 0 = None)
     \<and> ue_os ue = reliable_os \<and> mf_mkdir (ue_create ue) = None \<and> mf_write (ue_create ue) = None"

definition cut_from :: "bytes \<Rightarrow> ChunkDescriptor \<Rightarrow> bool" where
  "cut_from v d \<longleftrightarrow> 0 \<le> cd_Offset d \<and> cd_Offset d + cd_Size d \<le> int (length v) \<and> (\<exists>f i. cd_ChunkID d = ComputeChunkID f i)"

context led_system
begin

lemma upload_one_accepts:
  assumes ok: "cluster_ok sums ready env (us_world s)" and calm: "calm env" and p: "patient cfg ue"
    and a: "plc_Primary (placement_of ps (cd_ChunkID d)) \<in> dom (dw_nodes (us_world s))" and len: "length v < 2 ^ 64" and d: "cut_from v d"
    and pend: "pending (us_world s) (cd_ChunkID d)" and rm: "room sums (k + length (chunk_slice v d)) (us_world s)"
    and s': "s' = upload_one cfg ue (system_ops cs env) mg v fid ps d s"
  shows "us_failed s' = us_failed s \<and> cluster_ok sums ready env (us_world s') \<and> room sums k (us_world s')
    \<and> committed_chunk (us_world s') (cd_ChunkID d) \<and> dom (dw_nodes (us_world s')) = dom (dw_nodes (us_world s))
    \<and> fileIndex (dfs_fsm (us_world s')) = fileIndex (dfs_fsm (us_world s))
    \<and> (\<forall>c'. c' \<noteq> cd_ChunkID d \<longrightarrow> chunkRegistry (dfs_fsm (us_world s')) c' = chunkRegistry (dfs_fsm (us_world s)) c')"
proof -
  let ?plc = "placement_of ps (cd_ChunkID d)" and ?v = "chunk_slice v d"
  from d obtain f i where id: "cd_ChunkID d = ComputeChunkID f i" by (auto simp: cut_from_def)
  have "length ?v < 2 ^ 64" using len by (simp add: chunk_slice_def)
  from put_accepts [OF ok calm a this id pend rm, of "plc_Replicas ?plc"] obtain w' where
    w': "op_PutChunk (system_ops cs env) (us_world s) (plc_Primary ?plc) (cd_ChunkID d) ?v (sha256_Sum256 ?v) (plc_Replicas ?plc) = (w', None)"
    "cluster_ok sums ready env w'" "room sums k w'" "committed_chunk w' (cd_ChunkID d)" "dom (dw_nodes w') = dom (dw_nodes (us_world s))"
    "fileIndex (dfs_fsm w') = fileIndex (dfs_fsm (us_world s))"
    "\<forall>c'. c' \<noteq> cd_ChunkID d \<longrightarrow> chunkRegistry (dfs_fsm w') c' = chunkRegistry (dfs_fsm (us_world s)) c'" by metis
  have "uploadChunkWithRetry cfg (ue_retry ue (cd_ChunkID d)) (system_ops cs env) v d ?plc (us_world s) = (w', None)"
    using d p Do_first [of "RetryPolicy cfg" "ue_retry ue (cd_ChunkID d)"
        "\<lambda>w. op_PutChunk (system_ops cs env) w (plc_Primary ?plc) (cd_ChunkID d) ?v (sha256_Sum256 ?v) (plc_Replicas ?plc)", OF _ _ w'(1)]
    by (simp add: uploadChunkWithRetry_def cut_from_def patient_def RetryPolicy_def checksum_Compute_def Let_def)
  then have "us_world s' = w'" "us_failed s' = us_failed s" by (simp_all add: s' upload_one_def)
  with w' show ?thesis by simp
qed

lemma uploads_accept:
  assumes "cluster_ok sums ready env (us_world s)" "calm env" "patient cfg ue" "length v < 2 ^ 64" "distinct (map cd_ChunkID ds)"
    and "\<forall>d \<in> set ds. cut_from v d \<and> pending (us_world s) (cd_ChunkID d) \<and> plc_Primary (placement_of ps (cd_ChunkID d)) \<in> dom (dw_nodes (us_world s))"
    and "room sums (sum_list (map (\<lambda>d. length (chunk_slice v d)) ds)) (us_world s)"
    and "s' = fold (upload_one cfg ue (system_ops cs env) mg v fid ps) ds s"
  shows "us_failed s' = us_failed s \<and> cluster_ok sums ready env (us_world s')
    \<and> (\<forall>d \<in> set ds. committed_chunk (us_world s') (cd_ChunkID d))
    \<and> fileIndex (dfs_fsm (us_world s')) = fileIndex (dfs_fsm (us_world s))
    \<and> (\<forall>c'. c' \<notin> cd_ChunkID ` set ds \<longrightarrow> chunkRegistry (dfs_fsm (us_world s')) c' = chunkRegistry (dfs_fsm (us_world s)) c')"
  using assms(1,5-)
proof (induction ds arbitrary: s)
  case (Cons d ds)
  define s1 where "s1 = upload_one cfg ue (system_ops cs env) mg v fid ps d s"
  have rm: "room sums (sum_list (map (\<lambda>d. length (chunk_slice v d)) ds) + length (chunk_slice v d)) (us_world s)"
    using Cons.prems(4) by (simp add: add.commute)
  have d: "plc_Primary (placement_of ps (cd_ChunkID d)) \<in> dom (dw_nodes (us_world s))" "cut_from v d" "pending (us_world s) (cd_ChunkID d)"
    using Cons.prems(3) by simp_all
  note one = upload_one_accepts [OF Cons.prems(1) assms(2,3) d(1) assms(4) d(2,3) rm s1_def]
  have rest: "\<forall>x \<in> set ds. cut_from v x \<and> pending (us_world s1) (cd_ChunkID x) \<and> plc_Primary (placement_of ps (cd_ChunkID x)) \<in> dom (dw_nodes (us_world s1))"
  proof
    fix x assume x: "x \<in> set ds"
    then have "cd_ChunkID x \<noteq> cd_ChunkID d" using Cons.prems(2) by (simp add: image_iff) metis
    then show "cut_from v x \<and> pending (us_world s1) (cd_ChunkID x) \<and> plc_Primary (placement_of ps (cd_ChunkID x)) \<in> dom (dw_nodes (us_world s1))"
      using one Cons.prems(3) x by (simp add: pending_def)
  qed
  have IH: "us_failed s' = us_failed s1 \<and> cluster_ok sums ready env (us_world s')
    \<and> (\<forall>d \<in> set ds. committed_chunk (us_world s') (cd_ChunkID d))
    \<and> fileIndex (dfs_fsm (us_world s')) = fileIndex (dfs_fsm (us_world s1))
    \<and> (\<forall>c'. c' \<notin> cd_ChunkID ` set ds \<longrightarrow> chunkRegistry (dfs_fsm (us_world s')) c' = chunkRegistry (dfs_fsm (us_world s1)) c')"
    by (rule Cons.IH) (use one rest Cons.prems(2,5) in \<open>simp_all add: s1_def\<close>)
  moreover have "cd_ChunkID d \<notin> cd_ChunkID ` set ds" using Cons.prems(2) by simp
  ultimately have "committed_chunk (us_world s') (cd_ChunkID d)" using one by (simp add: committed_chunk_def)
  with IH one show ?case by simp
qed simp

end

section \<open>Announcing and closing the file\<close>

lemma place_chunks_some:
  assumes "placement ps" "0 < rf" "rf \<le> length (eligible live csz [])"
  shows "\<exists>pls. place_chunks ps live csz rf ids = Some pls"
proof (induction ids)
  case (Cons c ids)
  then obtain pls where "place_chunks ps live csz rf ids = Some pls" by blast
  moreover have "snd (SelectNodes ps live c csz rf []) = None" "length (fst (SelectNodes ps live c csz rf [])) = rf"
    using placement.select_error [OF assms(1)] placement.select_length [OF assms(1)] assms(3) by simp_all
  ultimately show ?case using assms(2) by (cases "SelectNodes ps live c csz rf []") (auto simp: Let_def)
qed simp

text \<open>Every placement finds as many eligible nodes as it needs.\<close>

definition staffed :: "system_env \<Rightarrow> int \<Rightarrow> MetadataFSM \<Rightarrow> bool" where
  "staffed env csz s \<longleftrightarrow> (\<forall>t. se_ReplicationFactor (sy_meta env t) \<le> int (length (eligible (GetLiveNodes (sy_ord env t) s) csz [])))"

lemma create_accepts:
  assumes lead: "leading env" and staff: "staffed env csz (dfs_fsm w)" and f: "f \<noteq> ''''" "fileIndex (dfs_fsm w) f = None"
    and csz: "64 * 1024 \<le> csz" "csz \<le> 64 * 1024 * 1024" and ids: "\<forall>c \<in> set ids. chunkRegistry (dfs_fsm w) c = None"
  shows "\<exists>w' ps. op_CreateFile (system_ops cs env) w f n sz csz ids = (w', Inr (f, ps)) \<and> (\<forall>c \<in> set ids. pending w' c)"
proof -
  let ?t = "dw_calls w" and ?m = "dw_meta w" and ?s = "dfs_fsm w"
  obtain ords uuid now ps rf where e: "sy_meta env ?t = leader_env ords uuid now ps (int rf)" "placement ps" "0 < rf"
    by (rule leadingE [OF lead])
  have "rf \<le> length (eligible (GetLiveNodes (sy_ord env ?t) ?s) csz [])"
    using staff [unfolded staffed_def, THEN spec, of ?t] by (simp add: e(1) leader_env_def)
  then obtain pls where pls: "place_chunks ps (GetLiveNodes (sy_ord env ?t) ?s) csz rf ids = Some pls" using place_chunks_some [OF e(2,3)] by blast
  let ?cmd = "\<lparr>ccf_FileID = f, ccf_FileName = n, ccf_ChunkIDs = ids, ccf_FileSize = uint64_of sz, ccf_ChunkSize = uint64_of csz,
      ccf_Checksum = [], ccf_CreatedAt = now (w_tick (sv_world ?m))\<rparr>"
  obtain s' where h: "handleCmdCreateFile ?s ?cmd = (s', None)" "chunkRegistry s' = insert_chunks (chunkRegistry ?s) (chunk_stubs f 0 ids)"
    using ids f(2) by (auto simp: handleCmdCreateFile_def GetFile_def Let_def any_chunk_known_stubs)
  let ?w1 = "(sv_world ?m)\<lparr>w_fsm := s', w_tick := w_tick (sv_world ?m) + 1\<rparr>"
  have "srv_CreateFile (leader_env ords uuid now ps (int rf)) (sy_ord env ?t) ?m
      \<lparr>cfq_FileId = f, cfq_FileName = n, cfq_FileSize = sz, cfq_ChunkSize = csz, cfq_ChunkIds = ids\<rparr> = (set_world ?m ?w1, Inr (f, pls))"
    using f csz pls h(1)
    by (simp add: srv_CreateFile_def on_leader_def Let_def GetFile_def leader_env_def env_of_def raft_env_def propose_in_def leader_simps
        minChunkSize_def maxChunkSize_def dfs_fsm_def meta_fsm_def)
  then have "op_CreateFile (system_ops cs env) w f n sz csz ids = (w\<lparr>dw_meta := set_world ?m ?w1, dw_calls := Suc ?t\<rparr>, Inr (f, map to_placement pls))"
    by (simp add: system_ops_def at_meta_def mdc_CreateFile_def leader_stub_def e(1) map_reply_def plain_reply_def Let_def)
  moreover have "\<exists>ck. insert_chunks (chunkRegistry ?s) (chunk_stubs f 0 ids) c = Some ck \<and> cr_Checksum ck = [] \<and> cr_Status ck = ChunkStatusAllocated"
    if c: "c \<in> set ids" for c
  proof -
    obtain ck where ck: "insert_chunks (chunkRegistry ?s) (chunk_stubs f 0 ids) c = Some ck" using insert_chunks_known [OF c] by fastforce
    with insert_chunks_stubs [OF ck] c show ?thesis by (auto simp: chunk_stub_def)
  qed
  ultimately show ?thesis by (auto simp: pending_def dfs_fsm_def meta_fsm_def set_world_def h(2) [unfolded dfs_fsm_def meta_fsm_def])
qed

lemma close_accepts:
  assumes lead: "leading env" and fl: "fileIndex (dfs_fsm w) f = Some fl" "fr_FileSize fl = uint64_of sz" "\<forall>c \<in> set (fr_ChunkIDs fl). committed_chunk w c"
  shows "\<exists>w' u. op_CommitFile (system_ops cs env) w f sz = (w', Inr u)"
proof -
  let ?t = "dw_calls w" and ?m = "dw_meta w"
  obtain ords uuid now ps rf where e: "sy_meta env ?t = leader_env ords uuid now ps (int rf)" by (rule leadingE [OF lead])
  have "validate_chunks (chunkRegistry (dfs_fsm w)) (fr_ChunkIDs fl) = None" using fl(3) by (simp add: validate_chunks_None committed_chunk_def)
  then have h: "snd (handleCmdCommitFile (w_fsm (sv_world ?m)) \<lparr>cmf_FileID = f, cmf_FileSize = uint64_of sz, cmf_Checksum = []\<rparr>) = None"
    using fl(1,2) by (simp add: handleCmdCommitFile_def GetFile_def dfs_fsm_def meta_fsm_def)
  have "\<exists>m'. srv_CommitFile (leader_env ords uuid now ps (int rf)) ?m f sz [] = (m', Inr True)"
    using h by (cases "handleCmdCommitFile (w_fsm (sv_world ?m)) \<lparr>cmf_FileID = f, cmf_FileSize = uint64_of sz, cmf_Checksum = []\<rparr>")
      (simp add: srv_CommitFile_def on_leader_def leader_env_def env_of_def raft_env_def propose_in_def leader_simps)
  then show ?thesis
    by (auto simp: system_ops_def at_meta_def mdc_CommitFile_def leader_stub_def e map_reply_def plain_reply_def Let_def)
qed

section \<open>The upload as a whole\<close>

text \<open>
  What the cluster must offer: the file and its chunks are new, every node has room for the
  whole file, the live nodes can be reached at their addresses and are enough for each chunk.
\<close>

definition offers :: "('ix \<Rightarrow> string \<rightharpoonup> bytes) \<Rightarrow> system_env \<Rightarrow> int \<Rightarrow> string \<Rightarrow> bytes \<Rightarrow> 'ix dfs_world \<Rightarrow> bool" where
  "offers sums env csz f v w \<longleftrightarrow>
     fileIndex (dfs_fsm w) f = None \<and> (\<forall>c \<in> set (chunk_ids f (nat_ceil (length v) (nat csz))). chunkRegistry (dfs_fsm w) c = None)
     \<and> room sums (length v) w \<and> staffed env csz (dfs_fsm w)
     \<and> (\<forall>k nd. nodeRegistry (dfs_fsm w) k = Some nd \<and> ne_Status nd = NodeStatusAlive \<longrightarrow> ne_Address nd \<in> dom (dw_nodes w))"

context led_system
begin

lemma announced:
  assumes ok: "cluster_ok sums ready env w" and fil: "f \<noteq> ''''" "0 < c" "int c = csz" and csz: "64 * 1024 \<le> csz" "csz \<le> 64 * 1024 * 1024"
    and off: "offers sums env csz f v w" and ds: "ds = map (descriptor f (length v) c) [0..<nat_ceil (length v) c]"
  obtains w0 ps t where "op_CreateFile (system_ops cs env) w f name (int (length v)) csz (map cd_ChunkID ds) = (w0, Inr (f, ps))"
    "cluster_ok sums ready env w0" "room sums (length v) w0"
    "fileIndex (dfs_fsm w0) f = Some (new_file f name (int (length v)) csz (map cd_ChunkID ds) t)"
    "\<forall>d \<in> set ds. cut_from v d \<and> pending w0 (cd_ChunkID d) \<and> plc_Primary (placement_of ps (cd_ChunkID d)) \<in> dom (dw_nodes w0)"
proof -
  define n where "n = nat_ceil (length v) c"
  have ids: "map cd_ChunkID ds = chunk_ids f n" by (simp add: ds chunk_ids_def descriptor_fields comp_def n_def)
  have srv: "server_inv (dw_meta w)" using ok by (simp add: cluster_ok_def)
  have "nat csz = c" using fil(3) by simp
  note off' = off [unfolded offers_def this, folded n_def]
  obtain w0 ps where cr: "op_CreateFile (system_ops cs env) w f name (int (length v)) csz (map cd_ChunkID ds) = (w0, Inr (f, ps))"
    and pend: "\<forall>x \<in> set (map cd_ChunkID ds). pending w0 x"
    using create_accepts [OF lead _ fil(1) _ csz, of w "chunk_ids f n" cs name "int (length v)"] off' by (auto simp: ids)
  note cr' = create_op [OF srv lead cr]
  have nodes: "dw_nodes w0 = dw_nodes w" using cr' by blast
  obtain t where fl: "fileIndex (dfs_fsm w0) f = Some (new_file f name (int (length v)) csz (map cd_ChunkID ds) t)"
    using cr' by auto
  show ?thesis
  proof (rule that [OF cr rec.create_keeps [OF ok cr] _ fl])
    show "room sums (length v) w0" using off' nodes by (simp add: room_def)
    show "\<forall>d \<in> set ds. cut_from v d \<and> pending w0 (cd_ChunkID d) \<and> plc_Primary (placement_of ps (cd_ChunkID d)) \<in> dom (dw_nodes w0)"
    proof
      fix d assume d: "d \<in> set ds"
      then obtain i where i: "i < nat_ceil (length v) c" "d = descriptor f (length v) c i" by (auto simp: ds)
      have "cut_from v d" using descriptor_bounds(4) [OF fil(2) i(1), of f]
        by (auto simp: cut_from_def i(2) descriptor_fields) (simp add: descriptor_def Let_def)
      moreover obtain nd where "nodeRegistry (dfs_fsm w) (ne_NodeID nd) = Some nd" "ne_Status nd = NodeStatusAlive"
        "plc_Primary (placement_of ps (cd_ChunkID d)) = ne_Address nd" using cr' d by auto
      ultimately show "cut_from v d \<and> pending w0 (cd_ChunkID d) \<and> plc_Primary (placement_of ps (cd_ChunkID d)) \<in> dom (dw_nodes w0)"
        using pend d off' nodes by simp
    qed
  qed
qed

lemma upload_completes:
  assumes ok: "cluster_ok sums ready env w" and calm: "calm env" and p: "patient cfg ue"
    and fil: "uploadable cfg ue fs path name v (dfs_fsm w)" and ne: "v \<noteq> []"
    and csz: "64 * 1024 \<le> cc_ChunkSize cfg" "cc_ChunkSize cfg \<le> 64 * 1024 * 1024"
    and off: "offers sums env (cc_ChunkSize cfg) (ue_uuid ue) v w"
  shows "\<exists>w' md' r. Upload cfg ue (system_ops cs env) mg fs path name w md = Returns (w', md', Some r, None)"
proof -
  define f c where "f = ue_uuid ue" and "c = nat (cc_ChunkSize cfg)"
  define ds where "ds = map (descriptor f (length v) c) [0..<nat_ceil (length v) c]"
  have c: "0 < c" "c < 2 ^ 53" "int c = cc_ChunkSize cfg" using csz by (simp_all add: c_def)
  have v: "fs_content fs path = Some v" "length v < 2 ^ 53" "f \<noteq> ''''" "distinct (map cd_ChunkID ds)" "mset (ue_order ue ds) = mset ds"
    using fil by (simp_all add: uploadable_def sendable_def f_def c_def ds_def chunk_ids_def descriptor_fields comp_def)
  have gen: "GenerateDescriptors (ue_os ue) (ue_uuid ue) path (nat (cc_ChunkSize cfg)) fs = Inr ds"
    using p v(1,2) c numChunks_exact [OF v(2) c(1,2)]
    by (simp add: GenerateDescriptors_def os_Stat_def patient_def reliable_os_def ds_def flip: c_def f_def)
  have cat: "concat (map (chunk_slice v) ds) = v" unfolding ds_def by (rule descriptors_concat [OF c(1)])
  then have dne: "ds \<noteq> []" using ne by auto
  have len: "sum_list (map (\<lambda>d. length (chunk_slice v d)) ds) = length v"
    using length_concat [of "map (chunk_slice v) ds"] unfolding cat by (simp add: comp_def)
  have hd: "cd_FileID (hd ds) = f" using dne by (simp add: ds_def hd_map descriptor_fields)
  have perm: "set (ue_order ue ds) = set ds" "distinct (map cd_ChunkID (ue_order ue ds))"
    "sum_list (map (\<lambda>d. length (chunk_slice v d)) (ue_order ue ds)) = length v"
    using v(4,5) len by (metis set_mset_mset, metis mset_map mset_eq_imp_distinct_iff, metis mset_map sum_mset_sum_list)
  obtain w0 ps t where cr: "op_CreateFile (system_ops cs env) w f name (int (length v)) (cc_ChunkSize cfg) (map cd_ChunkID ds) = (w0, Inr (f, ps))"
    and w0: "cluster_ok sums ready env w0" "room sums (length v) w0"
    "fileIndex (dfs_fsm w0) f = Some (new_file f name (int (length v)) (cc_ChunkSize cfg) (map cd_ChunkID ds) t)"
    "\<forall>d \<in> set ds. cut_from v d \<and> pending w0 (cd_ChunkID d) \<and> plc_Primary (placement_of ps (cd_ChunkID d)) \<in> dom (dw_nodes w0)"
    by (rule announced [OF ok v(3) c(1,3) csz off [folded f_def] ds_def])
  obtain md1 where mk: "mm_Create (ue_create ue) mg (upload_manifest f name (length v) (cc_ChunkSize cfg) ds) md = (md1, None)"
    using p by (auto simp: patient_def mm_Create_def writeLocked_def Let_def)
  define s where "s = fold (upload_one cfg ue (system_ops cs env) mg v f ps) (ue_order ue ds) \<lparr>us_world = w0, us_manifests = md1, us_done = 0, us_failed = 0\<rparr>"
  have up: "us_failed s = 0 \<and> (\<forall>d \<in> set ds. committed_chunk (us_world s) (cd_ChunkID d)) \<and> fileIndex (dfs_fsm (us_world s)) = fileIndex (dfs_fsm w0)"
    using uploads_accept [OF _ calm p _ perm(2) _ _ s_def] w0 v(2) by (simp add: perm)
  obtain w' u where fin: "op_CommitFile (system_ops cs env) (us_world s) f (int (length v)) = (w', Inr u)"
    using close_accepts [OF lead, of "us_world s" f "new_file f name (int (length v)) (cc_ChunkSize cfg) (map cd_ChunkID ds) t" "int (length v)" cs]
      up w0(3) by (auto simp: new_file_def)
  obtain i where i: "fs_names fs path = Some i" "fs_data fs i = v" using v(1) by (auto simp: fs_content_def split: option.splits)
  show ?thesis
    using p gen dne mk cr fin up i v(1) hd
    unfolding Upload_def os_Stat_def os_Open_def patient_def reliable_os_def
    by (cases ds) (simp_all add: with_semaphore_def finish_upload_def Let_def s_def)
qed

end

context led_system
begin

lemma round_trip:
  assumes "cluster_ok sums ready env w" "uploadable cfg ue fs path name v (dfs_fsm w)"
    and "Upload cfg ue (system_ops cs env) mg fs path name w md = Returns (w', md', Some r, None)"
    and "reading (steady env') (dfs_fsm w')" "clean_download cfg' de"
  shows "\<exists>w'' r'. Download cfg' de (system_ops cs (steady env')) name out w' files = Returns (w'', files(out \<mapsto> v), Some r', None)"
proof -
  obtain w1 info chunks where lk: "cluster_ok sums ready env w'" "op_GetFileByName (system_ops cs (steady env')) w' name = (w1, Inr (info, chunks))"
    "describes (nat (cc_ChunkSize cfg)) v info chunks" "v \<noteq> []" "\<And>k. k \<in> set chunks \<Longrightarrow> available (holds_chunk sums) (nat (cc_ChunkSize cfg)) v w' k"
    by (rule uploaded_lookup [OF assms(1-4) refl]) blast
  from lk(1) have "system_ok sums ready w'" by (simp add: cluster_ok_def)
  from down.download_available [OF assms(5) this lk(2,3,4)] lk(5) show ?thesis by blast
qed

end

section \<open>Properties of the whole system\<close>


text \<open>
  C2: After a successful \<open>Upload\<close> the metadata tells the truth about the file. A lookup by name
  describes it: its size, and for each chunk its place and its digest. Each chunk has at least
  one replica, and every replica that is listed holds exactly the bytes of its chunk.
\<close>

theorem listed_replicas_hold_file:
  assumes "reliable_index cs sums ready" "leading env" "cluster_ok sums ready env w" "uploadable cfg ue fs path name v (dfs_fsm w)"
    and "Upload cfg ue (system_ops cs env) mg fs path name w md = Returns (w', md', Some r, None)"
    and "reading env' (dfs_fsm w')" "c = nat (cc_ChunkSize cfg)"
  shows "\<exists>w1 info chunks. op_GetFileByName (system_ops cs env') w' name = (w1, Inr (info, chunks)) \<and> describes c v info chunks
    \<and> list_all (\<lambda>k. ck_Replicas k \<noteq> []
        \<and> list_all (\<lambda>b. holds_chunk sums w' b (ck_ChunkID k) (chunk_at c v (nat (ck_ChunkIndex k)))) (ck_Replicas k)) chunks"
proof -
  have led: "led_system cs sums ready env" using assms(1,2) by (simp add: led_system_def led_system_axioms_def)
  obtain w1 info chunks where lk: "op_GetFileByName (system_ops cs env') w' name = (w1, Inr (info, chunks))" "describes c v info chunks"
    "\<And>k. k \<in> set chunks \<Longrightarrow> available (holds_chunk sums) c v w' k"
    "\<And>k b. k \<in> set chunks \<Longrightarrow> b \<in> set (ck_Replicas k) \<Longrightarrow> holds_chunk sums w' b (ck_ChunkID k) (chunk_at c v (nat (ck_ChunkIndex k)))"
    by (rule led_system.uploaded_lookup [OF led assms(3-7)]) blast
  have "ck_Replicas k \<noteq> []" if "k \<in> set chunks" for k using lk(3) [OF that] by (auto simp: available_def)
  with lk show ?thesis by (auto simp: list_all_iff)
qed


section \<open>A cluster of two nodes\<close>

definition demo_env :: system_env where
  "demo_env = \<lparr>sy_nodeID = (\<lambda>a. if a = ''10.0.0.1:9000'' then ''n1'' else ''n2''), sy_dial = (\<lambda>_ _. None), sy_faults = (\<lambda>_. no_faults),
     sy_fanOrder = (\<lambda>_ ts. ts), sy_fanSeen = (\<lambda>_. 9),
     sy_fanRetry = (\<lambda>_ _. \<lparr>re_ctxErr = (\<lambda>_. None), re_ctxDone = (\<lambda>_. None), re_rand = (\<lambda>_ _. 0)\<rparr>),
     sy_meta = (\<lambda>_. demo_leader), sy_ord = (\<lambda>_. [''n1'', ''n2'']), sy_fileOrd = (\<lambda>_. [''f'', ''u1'']), sy_sort = insertionSort\<rparr>"

definition demo_dfs :: "(memdb, bytes) BoltChecksumIndex dfs_world" where
  "demo_dfs = \<lparr>dw_client = NewGRPCClient 32768, dw_nodes = [''10.0.0.1:9000'' \<mapsto> demo_disk, ''10.0.0.2:9000'' \<mapsto> demo_disk],
     dw_meta = demo_server, dw_calls = 0\<rparr>"

definition demo_config :: Config where
  "demo_config = DefaultConfig\<lparr>cc_ChunkSize := 65536\<rparr>"

definition demo_upload_env :: upload_env where
  "demo_upload_env = \<lparr>ue_os = reliable_os, ue_uuid = ''u1'', ue_retry = (\<lambda>_. \<lparr>re_ctxErr = (\<lambda>_. None), re_ctxDone = (\<lambda>_. None), re_rand = (\<lambda>_ _. 0)\<rparr>),
     ue_create = mf_none, ue_mark = (\<lambda>_. mf_none), ue_delete = mf_none, ue_order = (\<lambda>ds. ds)\<rparr>"

lemma demo_leading: "leading demo_env"
  unfolding leading_def demo_env_def demo_leader_def
  by (auto intro!: exI [of _ "\<lambda>_. [''n1'', ''n2'']"] exI [of _ "\<lambda>_. ''u''"] exI [of _ "\<lambda>_. 9"] exI [of _ "MostFreeSpaceStrategy insertionSort"]
      exI [of _ 2] mfs.placement_axioms)

interpretation demo_led: led_system mem_cs "ci_view mem_bolt" mem_ready demo_env
  by unfold_locales (rule demo_leading)

lemma demo_fsm: "dfs_fsm demo_dfs = demo_state"
  by (simp add: dfs_fsm_def meta_fsm_def demo_dfs_def demo_server_fsm)

lemma demo_steady: "steady demo_env = demo_env"
  by (simp add: steady_def demo_env_def)

lemma demo_cluster_ok: "cluster_ok (ci_view mem_bolt) mem_ready demo_env demo_dfs"
proof -
  have "nodes_ok (ci_view mem_bolt) mem_ready (dw_nodes demo_dfs)"
    using demo_disk_inv(1) demo_temp_ready by (auto simp: nodes_ok_def demo_dfs_def split: if_splits)
  moreover have "names_ok (sy_nodeID demo_env) (dom (dw_nodes demo_dfs)) (nodeRegistry (dfs_fsm demo_dfs))"
    unfolding demo_fsm by (auto simp: names_ok_def demo_dfs_def demo_env_def demo_state_eq split: if_splits)
  ultimately show ?thesis by (simp add: cluster_ok_def system_ok_def demo_server_inv) (simp add: demo_dfs_def demo_server_inv)
qed

lemma demo_one_chunk: "nat_ceil (Suc (Suc (Suc (Suc (Suc 0))))) (nat (cc_ChunkSize demo_config)) = 1"
  by (simp add: nat_ceil_def demo_config_def)

lemma demo_sendable: "sendable demo_config demo_upload_env ''g.txt'' [1, 2, 3, 4, 5] (dfs_fsm demo_dfs)"
  by (auto simp: sendable_def demo_one_chunk demo_upload_env_def chunk_ids_def demo_fsm demo_state_eq split: if_splits)

lemma demo_file: "fs_content demo_files ''f'' = Some [1, 2, 3, 4, 5]"
  by (simp add: demo_files_def fs_content_def)

lemma demo_uploadable: "uploadable demo_config demo_upload_env demo_files ''f'' ''g.txt'' [1, 2, 3, 4, 5] (dfs_fsm demo_dfs)"
  using demo_sendable demo_file by (simp add: uploadable_def)

lemma demo_patient: "patient demo_config demo_upload_env"
  by (simp add: patient_def demo_config_def DefaultConfig_def demo_upload_env_def mf_none_def)

lemma demo_offers: "offers (ci_view mem_bolt) demo_env (cc_ChunkSize demo_config) (ue_uuid demo_upload_env) [1, 2, 3, 4, 5] demo_dfs"
proof -
  have "length (ComputeChunkID ''u1'' 0) = 64" using chunk_id_accepted [of demo_ds] by (simp add: demo_ds_def)
  then have "ComputeChunkID ''u1'' 0 \<noteq> ''c0''" "ComputeChunkID ''u1'' 0 \<noteq> ''c1''" by auto
  moreover have "room (ci_view mem_bolt) (length [1, 2, 3, 4, 5 :: byte]) demo_dfs"
  proof -
    have "chunk_bytes (chunks (ci_view mem_bolt) demo_disk) = 0" by (simp add: demo_disk_inv(2) chunk_bytes_def)
    moreover have "totalSpace (d_store demo_disk) = 100" "splitLevel (d_store demo_disk) = 2" by (simp_all add: demo_disk_def demo_ds_def)
    ultimately show ?thesis by (simp add: room_def demo_dfs_def)
  qed
  moreover have "staffed demo_env 65536 demo_state"
    by (simp add: staffed_def demo_env_def demo_leader_def leader_env_def eligible_def GetLiveNodes_def demo_state_eq range_values_def uint64_of_def)
  ultimately show ?thesis
    by (auto simp: offers_def demo_upload_env_def demo_one_chunk chunk_ids_def demo_fsm)
      (auto simp: demo_state_eq demo_config_def demo_dfs_def split: if_splits)
qed

lemma demo_upload:
  assumes "fs_content fs path = Some [1, 2, 3, 4, 5]"
  obtains w' md' r where "Upload demo_config demo_upload_env (system_ops mem_cs demo_env) mg fs path ''g.txt'' demo_dfs Map.empty
      = Returns (w', md', Some r, None)" "reading demo_env (dfs_fsm w')"
proof -
  have ul: "uploadable demo_config demo_upload_env fs path ''g.txt'' [1, 2, 3, 4, 5] (dfs_fsm demo_dfs)"
    using assms demo_sendable by (simp add: uploadable_def)
  have "calm demo_env" using demo_steady unfolding calm_def by (simp add: demo_env_def)
  then obtain w' md' r where up: "Upload demo_config demo_upload_env (system_ops mem_cs demo_env) mg fs path ''g.txt'' demo_dfs Map.empty
      = Returns (w', md', Some r, None)"
    using demo_led.upload_completes [OF demo_cluster_ok _ demo_patient ul _ _ _ demo_offers, of mg Map.empty]
    by (auto simp: demo_config_def)
  obtain fl where "fileIndex (dfs_fsm w') = (fileIndex demo_state)(''u1'' \<mapsto> fl)"
    by (rule demo_led.uploaded [OF demo_cluster_ok ul up refl refl refl]) (auto simp: demo_fsm demo_upload_env_def)
  then have "reading demo_env (dfs_fsm w')"
    by (auto simp: reading_def demo_env_def demo_leader_def leader_env_def range_order_def demo_state_eq insertionSort_spec)
  with up show ?thesis by (rule that)
qed

definition demo_reader :: download_env where
  "demo_reader = \<lparr>de_create = None, de_truncate = None, de_ctx = (\<lambda>_ _. None), de_write = (\<lambda>_. None), de_removeFails = False,
     de_sort = insertionSort, de_order = (\<lambda>ks. ks)\<rparr>"

lemma demo_clean: "clean_download demo_config demo_reader"
  by (simp add: clean_download_def demo_config_def DefaultConfig_def demo_reader_def insertionSort_spec)


theorem listed_replicas_hold_file_witness:
  "\<exists>w' md' r w1 info chunks. Upload demo_config demo_upload_env (system_ops mem_cs demo_env) (NewManager ''m'') demo_files ''f'' ''g.txt'' demo_dfs Map.empty
      = Returns (w', md', Some r, None)
    \<and> op_GetFileByName (system_ops mem_cs demo_env) w' ''g.txt'' = (w1, Inr (info, chunks)) \<and> describes 65536 [1, 2, 3, 4, 5] info chunks
    \<and> list_all (\<lambda>k. ck_Replicas k \<noteq> []
        \<and> list_all (\<lambda>b. holds_chunk (ci_view mem_bolt) w' b (ck_ChunkID k) (chunk_at 65536 [1, 2, 3, 4, 5] (nat (ck_ChunkIndex k)))) (ck_Replicas k)) chunks"
proof -
  have c: "65536 = nat (cc_ChunkSize demo_config)" by (simp add: demo_config_def)
  show ?thesis
    by (rule demo_upload [OF demo_file, where mg = "NewManager ''m''"])
      (use listed_replicas_hold_file [OF mem_reliable.reliable_index_axioms demo_leading demo_cluster_ok demo_uploadable _ _ c] in blast)
qed


end
