(* ===== verification/Dfs_Client.thy ===== *)
theory Dfs_Client
  imports Dfs_Completion
begin

text \<open>
  The public client (\<^verbatim>\<open>src/client/dfsclient\<close>): its options, \<open>New\<close>, the operations that wrap
  the upload, download and list services, and the progress callbacks, which several
  goroutines run at once. \<open>Percent\<close> (a floating-point quotient for display) is left out.
\<close>

section \<open>Options\<close>

datatype ClientOption =
    WithMetadataAddrs "string list"
  | WithChunkSize int
  | WithMaxParallelUploads int
  | WithMaxParallelDownloads int
  | WithManifestDir string
  | WithOutputDir string
  | WithRetryAttempts int
  | WithFrameSize int
  | WithConfig Config

fun apply_client_option :: "ClientOption \<Rightarrow> Config \<Rightarrow> Config" where
  "apply_client_option (WithMetadataAddrs addrs) cfg = cfg\<lparr>cc_MetadataAddrs := addrs\<rparr>"
| "apply_client_option (WithChunkSize n) cfg = cfg\<lparr>cc_ChunkSize := n\<rparr>"
| "apply_client_option (WithMaxParallelUploads n) cfg = cfg\<lparr>cc_MaxParallelUploads := n\<rparr>"
| "apply_client_option (WithMaxParallelDownloads n) cfg = cfg\<lparr>cc_MaxParallelDownloads := n\<rparr>"
| "apply_client_option (WithManifestDir dir) cfg = cfg\<lparr>cc_ManifestDir := dir\<rparr>"
| "apply_client_option (WithOutputDir dir) cfg = cfg\<lparr>cc_OutputDir := dir\<rparr>"
| "apply_client_option (WithRetryAttempts n) cfg = cfg\<lparr>cc_RetryAttempts := n\<rparr>"
| "apply_client_option (WithFrameSize n) cfg = cfg\<lparr>cc_FrameSize := n\<rparr>"
| "apply_client_option (WithConfig b) cfg = b"

section \<open>A client\<close>

record MetadataClient =
  mdc_lc :: LeaderAwareClient
  mdc_rpcTimeout :: duration

definition NewMetadataClient ::
  "(string \<Rightarrow> goerror option) \<Rightarrow> string list \<Rightarrow> Policy \<Rightarrow> duration \<Rightarrow> MetadataClient result" where
  "NewMetadataClient dial seedAddrs rp rpcTimeout =
     (case NewLeaderAwareClient dial seedAddrs rp of
        Inl e \<Rightarrow> Inl (Wrap ''metadataclient'' e)
      | Inr lc \<Rightarrow> Inr \<lparr>mdc_lc = lc, mdc_rpcTimeout = rpcTimeout\<rparr>)"

text \<open>\<open>LeaderCache.Close\<close>: \<open>fails\<close> is the error of closing the connection, if there is one.\<close>

definition mdc_Close :: "goerror option \<Rightarrow> MetadataClient \<Rightarrow> goerror option" where
  "mdc_Close fails mc = (if lc_conn (la_cache (mdc_lc mc)) = None then None else fails)"

record Client =
  cl_cfg :: Config
  cl_metadata :: MetadataClient
  cl_storage :: GRPCClient
  cl_manifests :: Manager

definition dfs_New :: "(string \<Rightarrow> goerror option) \<Rightarrow> ClientOption list \<Rightarrow> Client result" where
  "dfs_New dial opts =
     (let cfg = fold apply_client_option opts DefaultConfig in
      if cc_MetadataAddrs cfg = [] then Inl (NewError ''dfsclient: at least one metadata address is required'')
      else case cc_Validate cfg of
        Some e \<Rightarrow> Inl (Wrap ''dfsclient'' e)
      | None \<Rightarrow>
          (case NewMetadataClient dial (cc_MetadataAddrs cfg) (RetryPolicy cfg) (cc_RPCTimeout cfg) of
             Inl e \<Rightarrow> Inl (Wrap ''dfsclient: failed to connect to metadata service'' e)
           | Inr meta \<Rightarrow>
               Inr \<lparr>cl_cfg = cfg, cl_metadata = meta, cl_storage = NewGRPCClient (cc_FrameSize cfg),
                    cl_manifests = NewManager (cc_ManifestDir cfg)\<rparr>))"

definition dfs_Close :: "goerror option \<Rightarrow> (string \<times> goerror) list \<Rightarrow> Client \<Rightarrow> Client \<times> goerror option" where
  "dfs_Close metaErr storageErrs c =
     (let firstErr = map_option (Wrap ''dfsclient: failed to close metadata connection'') (mdc_Close metaErr (cl_metadata c)) in
      case sc_Close storageErrs (cl_storage c) of
        (g, err) \<Rightarrow>
          (c\<lparr>cl_storage := g\<rparr>,
           if err \<noteq> None \<and> firstErr = None then map_option (Wrap ''dfsclient: failed to close storage connections'') err else firstErr))"

section \<open>Upload\<close>

record UploadSummary =
  up_FileID :: string
  up_FileName :: string
  up_TotalSize :: int
  up_ChunksTotal :: nat
  up_ChunksDone :: nat
  up_ChunksFailed :: nat

definition upload_summary :: "UploadResult \<Rightarrow> UploadSummary" where
  "upload_summary r =
     \<lparr>up_FileID = ur_FileID r, up_FileName = ur_FileName r, up_TotalSize = ur_TotalSize r, up_ChunksTotal = ur_ChunksTotal r,
      up_ChunksDone = ur_ChunksDone r, up_ChunksFailed = ur_ChunksFailed r\<rparr>"

definition dfs_Upload ::
  "Client \<Rightarrow> os_env \<Rightarrow> upload_env \<Rightarrow> 'w dfs_ops \<Rightarrow> filesystem \<Rightarrow> string \<Rightarrow> string \<Rightarrow> 'w \<Rightarrow> manifest_dir
   \<Rightarrow> ('w \<times> manifest_dir \<times> UploadSummary option \<times> goerror option) run" where
  "dfs_Upload c os ue ops fs filePath remoteName w md =
     (case os_Stat OsStat os filePath fs of
        Inl e \<Rightarrow> Returns (w, md, None, Some (Wrap ''dfsclient: failed to stat file'' e))
      | Inr totalBytes \<Rightarrow>
          (case Upload (cl_cfg c) ue ops (cl_manifests c) fs filePath remoteName w md of
             Returns (w', md', r, e) \<Rightarrow> Returns (w', md', map_option upload_summary r, e)
           | Blocks \<Rightarrow> Blocks
           | Panics \<Rightarrow> Panics))"

text \<open>
  \<open>UploadReader\<close>. A reader delivers some bytes and then ends, or fails. \<open>os.CreateTemp\<close>
  chooses the name of a file that does not exist; \<open>tmp\<close> is its choice. \<open>io.Copy\<close> writes all
  the bytes that were read before it reports the error of the reader.
\<close>

definition os_CreateTemp :: "os_env \<Rightarrow> string \<Rightarrow> string \<Rightarrow> filesystem \<Rightarrow> (filesystem \<times> os_File) result" where
  "os_CreateTemp os dir tmp fs =
     (let path = filepath_Join [dir, tmp] in
      if fs_names fs path \<noteq> None then Inl (NewError ''file exists'') else os_Create os path fs)"

definition dfs_UploadReader ::
  "Client \<Rightarrow> os_env \<Rightarrow> upload_env \<Rightarrow> 'w dfs_ops \<Rightarrow> string \<Rightarrow> bytes \<Rightarrow> goerror option \<Rightarrow> string \<Rightarrow> 'w \<Rightarrow> manifest_dir \<Rightarrow> filesystem
   \<Rightarrow> filesystem \<times> ('w \<times> manifest_dir \<times> UploadSummary option \<times> goerror option) run" where
  "dfs_UploadReader c os ue ops tmp data readErr remoteName w md fs =
     (let tmpDir = filepath_Join [cc_ManifestDir (cl_cfg c), ''.tmp''] in
      case os_MkdirAll os tmpDir fs of
        (fs1, Some e) \<Rightarrow> (fs1, Returns (w, md, None, Some (Wrap ''dfsclient: failed to create temp dir'' e)))
      | (fs1, None) \<Rightarrow>
     (case os_CreateTemp os tmpDir tmp fs1 of
        Inl e \<Rightarrow> (fs1, Returns (w, md, None, Some (Wrap ''dfsclient: failed to create temp file'' e)))
      | Inr (fs2, f) \<Rightarrow>
     (case file_Write os data f fs2 of
        (fs3, _, _, writeErr) \<Rightarrow>
          (let run =
             (case (if writeErr \<noteq> None then writeErr else readErr) of
                Some e \<Rightarrow> Returns (w, md, None, Some (Wrap ''dfsclient: failed to buffer upload data'' e))
              | None \<Rightarrow> dfs_Upload c os ue ops fs3 (f_name f) remoteName w md)
           in (case run of Blocks \<Rightarrow> fs3 | _ \<Rightarrow> fst (os_Remove os (f_name f) fs3), run)))))"

section \<open>Download, list, delete\<close>

record DownloadSummary =
  dw_FileID :: string
  dw_FileName :: string
  dw_TotalSize :: int
  dw_OutputPath :: string

definition download_summary :: "DownloadResult \<Rightarrow> DownloadSummary" where
  "download_summary r =
     \<lparr>dw_FileID = dr_FileID r, dw_FileName = dr_FileName r, dw_TotalSize = dr_TotalSize r, dw_OutputPath = dr_OutputPath r\<rparr>"

definition dfs_Download ::
  "Client \<Rightarrow> download_env \<Rightarrow> 'w dfs_ops \<Rightarrow> string \<Rightarrow> string \<Rightarrow> 'w \<Rightarrow> (string \<rightharpoonup> bytes)
   \<Rightarrow> ('w \<times> (string \<rightharpoonup> bytes) \<times> DownloadSummary option \<times> goerror option) run" where
  "dfs_Download c de ops remoteName outputPath w files =
     (case Download (cl_cfg c) de ops remoteName outputPath w files of
        Returns (w', files', r, e) \<Rightarrow> Returns (w', files', map_option download_summary r, e)
      | Blocks \<Rightarrow> Blocks
      | Panics \<Rightarrow> Panics)"

record SdkFileInfo =
  sf_FileID :: string
  sf_FileName :: string
  sf_FileSize :: int
  sf_ChunkSize :: int
  sf_ChunkCount :: nat
  sf_Status :: string
  sf_CreatedAt :: int

definition sdk_file :: "ClientFile \<Rightarrow> SdkFileInfo" where
  "sdk_file f =
     \<lparr>sf_FileID = cf_FileID f, sf_FileName = cf_FileName f, sf_FileSize = cf_FileSize f, sf_ChunkSize = cf_ChunkSize f,
      sf_ChunkCount = length (cf_ChunkIDs f), sf_Status = cf_Status f, sf_CreatedAt = cf_CreatedAt f\<rparr>"

definition dfs_List :: "'m metadata_stub \<Rightarrow> 'm \<Rightarrow> string \<Rightarrow> 'm \<times> SdkFileInfo list result" where
  "dfs_List st m prefx = map_reply (map sdk_file) ''dfsclient'' (ls_ListFiles st m prefx)"

definition dfs_Delete :: "'m metadata_stub \<Rightarrow> 'm \<Rightarrow> string \<Rightarrow> 'm \<times> unit result" where
  "dfs_Delete st m fileID = map_reply (\<lambda>u. u) ''dfsclient'' (ls_DeleteFile st m fileID)"

section \<open>A streamed upload\<close>

lemma Clean_nonempty: "filepath_Clean p \<noteq> ''''"
proof -
  have "w \<noteq> ''''" if "w \<in> set (base_elems p)" for w using clean_form_slash_free [OF clean_form_base that] by simp
  then show ?thesis
    unfolding Clean_render_base render_path_def by (cases "base_elems p") (auto simp: join_slash_Cons)
qed

lemma Join_nonempty: "w \<noteq> '''' \<Longrightarrow> filepath_Join [base, w] \<noteq> ''''"
  by (cases "base = ''''") (simp_all add: filepath_Join_def Clean_nonempty)

lemma Dir_Join_plain:
  assumes "base \<noteq> ''''" "plain_name w"
  shows "filepath_Dir (filepath_Join [base, w]) = filepath_Clean base"
proof -
  have w: "slash \<notin> set w" "w \<noteq> ''''" using assms(2) by (auto simp: plain_name_def)
  have "filepath_Join [base, w] = render_path (is_rooted base) (base_elems base @ [w])"
    using Join_under [OF assms(1), of "[w]"] assms(2) w by (simp add: split_slash_plain)
  then show ?thesis using Dir_render [OF clean_form_base w(1)] by (simp add: Clean_render_base)
qed

abbreviation temp_file :: "Client \<Rightarrow> string \<Rightarrow> string" where
  "temp_file c tmp \<equiv> filepath_Join [filepath_Join [cc_ManifestDir (cl_cfg c), ''.tmp''], tmp]"

text \<open>
  Buffering the reader: the upload sees a file with the bytes of the reader, and the file is
  gone afterwards.
\<close>

lemma UploadReader_buffers:
  assumes wf: "fs_wf fs" and tmp: "plain_name tmp" "fs_content fs (temp_file c tmp) = None"
    and run: "dfs_UploadReader c reliable_os ue ops tmp v readErr name w md fs = (fs', out)"
  shows "\<exists>fs3. fs_wf fs3 \<and> fs_content fs3 = (fs_content fs)(temp_file c tmp \<mapsto> v)
    \<and> out = (case readErr of Some e \<Rightarrow> Returns (w, md, None, Some (Wrap ''dfsclient: failed to buffer upload data'' e))
             | None \<Rightarrow> dfs_Upload c reliable_os ue ops fs3 (temp_file c tmp) name w md)
    \<and> fs_content fs' = (if out = Blocks then fs_content fs3 else fs_content fs)"
proof -
  let ?dir = "filepath_Join [cc_ManifestDir (cl_cfg c), ''.tmp'']" and ?p = "temp_file c tmp"
  have dir: "?dir \<noteq> ''''" by (rule Join_nonempty) simp
  obtain fs1 where mk: "os_MkdirAll reliable_os ?dir fs = (fs1, None)" using dir by (simp add: os_MkdirAll_def)
  note mk1 = MkdirAll_simps [OF mk]
  have free: "fs_names fs1 ?p = None" using tmp(2) mk1(3) by (simp add: fs_content_def)
  have wf1: "fs_wf fs1" using wf mk1(2) by simp
  obtain fs2 f where cr: "os_Create reliable_os ?p fs1 = Inr (fs2, f)"
    using mk1(6) Dir_Join_plain [OF dir tmp(1)] by (cases "open_trunc ?p fs1") (simp add: os_Create_def)
  note cr1 = Create_content [OF wf1 cr]
  obtain fs3 f' n where wr: "file_Write reliable_os v f fs2 = (fs3, f', n, None)" "n = length v" by (simp add: file_Write_def Let_def)
  note wr1 = file_Write_content [OF cr1(1,4) wr(1)]
  have c3: "fs_content fs3 = (fs_content fs)(?p \<mapsto> v)" using wr1(8) cr1(3,5,7) wr(2) mk1(1) by (simp add: write_at_def)
  obtain fs4 e4 where rm: "os_Remove reliable_os ?p fs3 = (fs4, e4)" by fastforce
  have "fs_names fs3 ?p \<noteq> None" using fun_cong [OF c3, of ?p] by (auto simp: fs_content_def)
  then have "e4 = None" using rm by (auto simp: os_Remove_def)
  then have c4: "fs_content fs4 = fs_content fs" using Remove_content(4) [OF wr1(1) rm] c3 tmp(2) by (simp add: fun_upd_idem)
  have "out = (case readErr of Some e \<Rightarrow> Returns (w, md, None, Some (Wrap ''dfsclient: failed to buffer upload data'' e))
             | None \<Rightarrow> dfs_Upload c reliable_os ue ops fs3 ?p name w md) \<and> fs' = (if out = Blocks then fs3 else fs4)"
    using run mk free cr wr(1) cr1(6) rm
    by (auto simp: dfs_UploadReader_def os_CreateTemp_def Let_def split: option.splits run.splits)
  with c3 c4 wr1(1) show ?thesis by auto
qed


section \<open>Listing and deleting files\<close>

definition listed :: "MetadataServiceHandler \<Rightarrow> string \<Rightarrow> string set" where
  "listed m prefx = {k. \<exists>f. fileIndex (meta_fsm m) k = Some f \<and> fr_Status f = FileStatusComplete \<and> strings_HasPrefix (fr_Filename f) prefx}"

lemma HasPrefix_empty: "strings_HasPrefix s ''''"
  by (simp add: strings_HasPrefix_def)

lemma list_effect:
  assumes "sort_spec srt" "server_inv m" "se_isLeader e" "range_order ford (fileIndex (meta_fsm m))"
  shows "\<exists>fs. dfs_List (leader_stub srt e nord ford) m prefx = (m, Inr fs) \<and> sf_FileID ` set fs = listed m prefx
    \<and> distinct (map sf_FileID fs) \<and> sorted (map sf_FileName fs)"
proof -
  obtain fs where fs: "srv_ListFiles srt e ford m '''' = (m, Inr (map file_info fs))"
    "set fs = {f. \<exists>k. fileIndex (meta_fsm m) k = Some f \<and> fr_Status f = FileStatusComplete}"
    "distinct (map fr_FileID fs)" "sorted (map fr_Filename fs)"
    using list_files_complete_sorted [OF assms(1,2,3), of ford "''''"] assms(4) by (auto simp: meta_fsm_def)
  define gs where "gs = filter (\<lambda>f. strings_HasPrefix (fr_Filename f) prefx) fs"
  have "filter (\<lambda>f. prefx = '''' \<or> strings_HasPrefix (fi_FileName f) prefx) (map file_info fs) = map file_info gs"
    by (auto simp: gs_def filter_map file_info_def comp_def HasPrefix_empty intro!: arg_cong [where f = "map _"] filter_cong)
  then have "dfs_List (leader_stub srt e nord ford) m prefx = (m, Inr (map (sdk_file \<circ> protoToFileInfo \<circ> file_info) gs))"
    by (simp add: dfs_List_def ls_ListFiles_def mdc_ListFiles_def leader_stub_def fs(1) map_reply_def plain_reply_def comp_def)
  moreover have key: "fileIndex (meta_fsm m) k = Some f \<Longrightarrow> fr_FileID f = k" for k f
    using server_inv_fsm [OF assms(2)] by (simp add: fsm_inv_defs)
  have "fr_FileID ` set gs = listed m prefx" unfolding gs_def listed_def using fs(2) key by (auto simp: image_iff)
  moreover have "distinct (map fr_FileID gs)" "sorted (map fr_Filename gs)" using fs(3,4) unfolding gs_def by (auto simp: distinct_map_filter sorted_filter)
  ultimately show ?thesis
    by (intro exI [of _ "map (sdk_file \<circ> protoToFileInfo \<circ> file_info) gs"])
      (simp add: image_image comp_def sdk_file_def protoToFileInfo_def file_info_def)
qed

lemma delete_effect:
  assumes inv: "server_inv m" and e: "e = leader_env ords uuid now ps rf" and st: "st = leader_stub srt e nord ford"
    and run: "dfs_Delete st m k = (m', r)"
  shows "server_inv m' \<and> ((\<exists>u. r = Inr u) \<longleftrightarrow> fileIndex (meta_fsm m) k \<noteq> None) \<and> dom (fileIndex (meta_fsm m')) = dom (fileIndex (meta_fsm m))
    \<and> listed m' prefx = (if fileIndex (meta_fsm m) k = None then listed m prefx else listed m prefx - {k})"
proof -
  let ?s = "w_fsm (sv_world m)"
  obtain m1 reply where s: "srv_DeleteFile e m k = (m1, reply)" by fastforce
  have m': "m' = m1" "(\<exists>u. r = Inr u) \<longleftrightarrow> (\<exists>b. reply = Inr b)"
    using run s by (auto simp: st dfs_Delete_def ls_DeleteFile_def mdc_DeleteFile_def leader_stub_def map_reply_def plain_reply_def split: sum.splits prod.splits)
  have srv: "server_inv m1" using leader_server.srv_DeleteFile_inv [OF inv] s e by (metis fst_conv)
  show ?thesis
  proof (cases "fileIndex ?s k")
    case None
    then have "m1 = m" "\<nexists>b. reply = Inr b" using s e by (auto simp: srv_DeleteFile_def on_leader_def leader_env_def GetFile_def fail_with_def Let_def)
    with None m' inv show ?thesis by (auto simp: meta_fsm_def)
  next
    case (Some f)
    then have "fileIndex (meta_fsm m1) = (fileIndex ?s)(k \<mapsto> f\<lparr>fr_Status := FileStatusDeleted\<rparr>)" "\<exists>b. reply = Inr b"
      using s e by (auto simp: srv_DeleteFile_def on_leader_def leader_env_def GetFile_def Let_def env_of_def raft_env_def propose_in_def
          leader_simps handleCmdDeleteFile_def set_world_def meta_fsm_def)
    with Some m' srv show ?thesis by (auto simp: meta_fsm_def listed_def)
  qed
qed


section \<open>Progress\<close>

text \<open>
  The progress callback of \<open>Upload\<close> runs in the goroutine of each chunk. It adds the chunk size
  to a shared counter, stores the sum again, cut at the size of the file, and loads the
  counter for its report; each of the three is atomic, the callback as a whole is not.
\<close>

record ProgressInfo =
  pi_ChunkIndex :: nat
  pi_ChunksTotal :: nat
  pi_BytesDone :: int
  pi_BytesTotal :: int
  pi_Err :: "goerror option"

datatype callback_pc = AtAdd | AtStore int | AtLoad

record progress_state =
  pg_bytes :: int
  pg_calls :: "nat \<rightharpoonup> callback_pc \<times> goerror option"
  pg_reports :: "ProgressInfo list"

definition progress_init :: progress_state where
  "progress_init = \<lparr>pg_bytes = 0, pg_calls = Map.empty, pg_reports = []\<rparr>"

definition progress_begin :: "nat \<Rightarrow> goerror option \<Rightarrow> progress_state \<Rightarrow> progress_state" where
  "progress_begin i err s = s\<lparr>pg_calls := (pg_calls s)(i \<mapsto> (if err = None then AtAdd else AtLoad, err))\<rparr>"

definition progress_step :: "int \<Rightarrow> int \<Rightarrow> nat \<Rightarrow> nat \<Rightarrow> progress_state \<Rightarrow> progress_state" where
  "progress_step chunkSize totalBytes n i s =
     (case pg_calls s i of
        None \<Rightarrow> s
      | Some (AtAdd, err) \<Rightarrow>
          (let sum = pg_bytes s + chunkSize
           in s\<lparr>pg_bytes := sum, pg_calls := (pg_calls s)(i \<mapsto> (AtStore (if sum > totalBytes then totalBytes else sum), err))\<rparr>)
      | Some (AtStore v, err) \<Rightarrow> s\<lparr>pg_bytes := v, pg_calls := (pg_calls s)(i \<mapsto> (AtLoad, err))\<rparr>
      | Some (AtLoad, err) \<Rightarrow>
          s\<lparr>pg_calls := (pg_calls s)(i := None),
            pg_reports := pg_reports s @ [\<lparr>pi_ChunkIndex = i, pi_ChunksTotal = n, pi_BytesDone = pg_bytes s,
                                           pi_BytesTotal = totalBytes, pi_Err = err\<rparr>]\<rparr>)"

text \<open>A callback that is not interrupted.\<close>

definition progress_call :: "int \<Rightarrow> int \<Rightarrow> nat \<Rightarrow> nat \<times> goerror option \<Rightarrow> progress_state \<Rightarrow> progress_state" where
  "progress_call cs tb n c s = (progress_step cs tb n (fst c) ^^ (if snd c = None then 3 else 1)) (progress_begin (fst c) (snd c) s)"

definition succeeded_of :: "(nat \<times> goerror option) list \<Rightarrow> nat" where
  "succeeded_of cs = length (filter (\<lambda>c. snd c = None) cs)"

text \<open>Without overlap every report is exact, so it never falls and ends at the size of the file.\<close>

lemma progress_call_effect:
  assumes "pg_calls s = Map.empty"
  shows "progress_call cs tb n (i, err) s =
    (let b = (if err = None then min (pg_bytes s + cs) tb else pg_bytes s)
     in s\<lparr>pg_bytes := b, pg_reports := pg_reports s @ [\<lparr>pi_ChunkIndex = i, pi_ChunksTotal = n, pi_BytesDone = b, pi_BytesTotal = tb, pi_Err = err\<rparr>]\<rparr>)"
  using assms by (cases s) (simp add: progress_call_def progress_begin_def progress_step_def numeral_3_eq_3 min_def Let_def)

lemma progress_exact:
  assumes "0 \<le> cs" "0 \<le> tb"
  shows "pg_calls (fold (progress_call cs tb n) calls progress_init) = Map.empty
    \<and> pg_bytes (fold (progress_call cs tb n) calls progress_init) = min tb (cs * int (succeeded_of calls))
    \<and> map pi_BytesDone (pg_reports (fold (progress_call cs tb n) calls progress_init))
      = map (\<lambda>k. min tb (cs * int (succeeded_of (take (Suc k) calls)))) [0..<length calls]"
proof (induction calls rule: rev_induct)
  case (snoc c calls)
  obtain i err where c: "c = (i, err)" by (cases c)
  let ?s = "fold (progress_call cs tb n) calls progress_init"
  have "min (min tb (cs * int (succeeded_of calls)) + cs) tb = min tb (cs * int (Suc (succeeded_of calls)))"
    using assms(1) by (simp add: min_def algebra_simps)
  moreover have "map (\<lambda>k. min tb (cs * int (succeeded_of (take (Suc k) (calls @ [c]))))) [0..<length calls]
      = map (\<lambda>k. min tb (cs * int (succeeded_of (take (Suc k) calls)))) [0..<length calls]" by simp
  ultimately show ?case using snoc progress_call_effect [of ?s cs tb n i err]
    by (simp add: c Let_def succeeded_of_def add.commute)
qed (use assms in \<open>simp add: progress_init_def succeeded_of_def\<close>)

text \<open>
  With overlap an addition can be lost: both chunks of a file are done, and both reports,
  the last ones, show half of the file.
\<close>

lemma overlapping_progress_lost:
  "map pi_BytesDone (pg_reports (fold (progress_step 4 8 2) [0, 1, 1, 0, 0, 1] (progress_begin 1 None (progress_begin 0 None progress_init)))) = [4, 4]"
  by (simp add: progress_begin_def progress_step_def progress_init_def)

text \<open>A report can also show more than the file has: it is loaded between the addition of another chunk and its store.\<close>

lemma overlapping_progress_overshoots:
  "map pi_BytesDone (pg_reports (fold (progress_step 4 6 2) [0, 0, 1, 0, 1, 1] (progress_begin 1 None (progress_begin 0 None progress_init)))) = [8, 6]"
  by (simp add: progress_begin_def progress_step_def progress_init_def)

section \<open>Examples\<close>

definition demo_client :: Client where
  "demo_client = \<lparr>cl_cfg = demo_config, cl_metadata = \<lparr>mdc_lc = \<lparr>la_cache = NewLeaderCache [''m1:9000''], la_retryPolicy = RetryPolicy demo_config\<rparr>,
     mdc_rpcTimeout = 10 * Second\<rparr>, cl_storage = NewGRPCClient 32768, cl_manifests = NewManager ''m''\<rparr>"



end
