(* ===== verification/Spec2Isabelle.thy ===== *)
theory Spec2Isabelle
  imports Metadata_Cluster Peer_Dialer Metadata_App Storage_Service Dfs_Client
begin

text \<open>
  Verification of a distributed file system: a replicated metadata service, storage nodes that
  keep chunks on disk, and a client that cuts files into chunks and puts them together again
  (the Go sources under \<^verbatim>\<open>src/\<close>).

  \<^bold>\<open>The program.\<close> A client uploads a file by asking the metadata service for a placement of its
  chunks, streaming each chunk to a storage node, which stores it, forwards it to the replicas and commits it to the
  metadata service, and finally committing the file. A download asks for the chunks and their
  replicas and fetches each chunk from the first replica whose bytes have the recorded
  digest. The metadata service is a state machine replicated by Raft; its leader places chunks,
  watches heartbeats, schedules repairs and reconciles the inventories of returning nodes.
  Storage nodes register, send heartbeats, and carry out the repairs they are told of.

  \<^bold>\<open>Conventions.\<close> Go maps are partial functions on strings (\<open>gomap\<close>); where the code ranges over
  a map, the iteration order is an argument, and a lemma holds for every order. Errors are values
  of \<open>goerror\<close>, and a fallible operation returns \<open>'a result\<close>, that is \<open>goerror + 'a\<close>, or the
  optional error next to the new state. \<open>uint64\<close> is \<open>64 word\<close> where it wraps; durations
  and instants are integers in nanoseconds. Clocks, random identifiers and jitter are functions of a call
  counter. JSON documents are trees. A mutex makes its critical section one step; where
  the code releases it, the model has several steps.

  \<^bold>\<open>Foundations.\<close> \<^verbatim>\<open>Prelude\<close>: numbers, instants, errors, maps and their orders, sorting, lists.
  \<^verbatim>\<open>Json\<close>, \<^verbatim>\<open>Go_Parsing\<close>: the parts of encoding/json, strconv and time that are used.
  \<^verbatim>\<open>Sha256\<close>: crypto/sha256. \<^verbatim>\<open>File_Paths\<close>, \<^verbatim>\<open>Os_Files\<close>: path/filepath and a file system of
  inodes, open files and injected faults. \<^verbatim>\<open>Config_Steps\<close>: configuration as a list of steps.

  \<^bold>\<open>Metadata service.\<close>
  \<^item> \<^verbatim>\<open>Fsm_Types\<close>, \<^verbatim>\<open>Commands\<close>, \<^verbatim>\<open>Metadata_Fsm\<close> (\<^verbatim>\<open>metadata/fsm\<close>): the registries, the commands and
    their JSON form, the handlers, \<open>Apply\<close> and the read operations. \<^verbatim>\<open>Fsm_Invariant\<close>: the
    registry invariant, the locale \<open>fsm_handler\<close> and one interpretation for each handler.
    \<^verbatim>\<open>Fsm_Snapshot\<close>, \<^verbatim>\<open>Fsm_Replication\<close>: \<open>Snapshot\<close>, \<open>Persist\<close>, \<open>Restore\<close>; independence of map orders
    and of heartbeat times. \<^verbatim>\<open>Fsm_Properties\<close>, \<^verbatim>\<open>Fsm_Operations\<close>: reachable states,
    agreement of replicas, behaviour of the single commands.
  \<^item> \<^verbatim>\<open>Proposer\<close> (\<^verbatim>\<open>metadata/fsm/commands.go\<close>): \<open>Propose\<close> over a Raft log given by the locale \<open>raft_log\<close>.
    \<^verbatim>\<open>Placement\<close>: both strategies, contract \<open>placement\<close>. \<^verbatim>\<open>Repair_Scheduler\<close>, \<^verbatim>\<open>Node_Watcher\<close>,
    \<^verbatim>\<open>Reconcile\<close>: the background workers, each an interface of the next.
  \<^item> \<^verbatim>\<open>Metadata_Server\<close> (\<^verbatim>\<open>metadata/server\<close>): the twelve handlers and the redirect to the leader.
    \<^verbatim>\<open>Metadata_Cluster\<close>: several servers behind the leader-aware client.
    \<^verbatim>\<open>Metadata_Config\<close>, \<^verbatim>\<open>Metadata_App\<close> (\<^verbatim>\<open>config.go\<close>, \<^verbatim>\<open>app.go\<close>, \<^verbatim>\<open>raft.go\<close>): configuration and process.

  \<^bold>\<open>Storage nodes.\<close>
  \<^item> \<^verbatim>\<open>Checksum_Index\<close>, \<^verbatim>\<open>Disk_Store\<close>, \<^verbatim>\<open>Disk_Refinement\<close> (\<^verbatim>\<open>storage/store\<close>): the index over bbolt, which
    is a parameter with the laws of the locale \<open>bolt_db\<close>, interpreted by a store in memory; the sharded directory
    tree; and the refinement of a bounded map by it. \<open>reliable_index\<close> is the contract of the
    index that the store relies on.
  \<^item> \<^verbatim>\<open>Chunk_IO\<close> (\<^verbatim>\<open>storage/chunk\<close>), \<^verbatim>\<open>Storage_Server\<close> (\<^verbatim>\<open>storage/server\<close>), \<^verbatim>\<open>Replication\<close>,
    \<^verbatim>\<open>Peer_Dialer\<close> (\<^verbatim>\<open>storage/replication\<close>): writing and reading chunks, the streaming handlers, transfers between nodes, the
    repair queue and its workers, the connection pool.
  \<^item> \<^verbatim>\<open>Storage_Config\<close>, \<^verbatim>\<open>Storage_Service\<close> (\<^verbatim>\<open>storage/config.go\<close>, \<^verbatim>\<open>storage/node.go\<close>, \<^verbatim>\<open>storage/service\<close>):
    configuration, identity, registration and heartbeats, against the locale \<open>node_registry\<close>,
    which the metadata server provides.

  \<^bold>\<open>Client.\<close> \<^verbatim>\<open>Retry\<close>, \<^verbatim>\<open>Leader_Client\<close> (\<^verbatim>\<open>internal/retry\<close>, \<^verbatim>\<open>internal/leaderclient\<close>): bounded retries and
  redirects. \<^verbatim>\<open>Client_Chunks\<close>, \<^verbatim>\<open>Client_Manifest\<close>, \<^verbatim>\<open>Client_Config\<close>, \<^verbatim>\<open>Client_Metadata\<close>, \<^verbatim>\<open>Storage_Client\<close>,
  \<^verbatim>\<open>Client_Upload\<close>, \<^verbatim>\<open>Client_Download\<close> (\<^verbatim>\<open>client/internal\<close>): the chunker, the manifests, the two
  clients and the two services. \<open>chunk_service\<close> and \<open>dfs_service\<close> are what the services expect of
  the system. \<^verbatim>\<open>Dfs_Client\<close> (\<^verbatim>\<open>client/dfsclient\<close>): the public client.

  \<^bold>\<open>The whole system.\<close> \<^verbatim>\<open>Dfs_System\<close> puts the client, the storage nodes and the leading metadata server
  into one state and discharges \<open>chunk_service\<close> and \<open>dfs_service\<close> for it by \<open>sublocale\<close>.
  \<^verbatim>\<open>Dfs_Round_Trip\<close> follows what the metadata server records during an upload (\<open>led_system\<close>).
  \<^verbatim>\<open>Dfs_Completion\<close> shows that uploads complete and that a file comes back byte for byte.

  \<^bold>\<open>What is shown.\<close> For the whole system: a successful upload is readable, its replicas hold it, and
  an upload succeeds if connections, leader, nodes and room allow it. For a download against storage nodes that may return
  anything: success means the described bytes, as long as no replica returned different
  bytes with the recorded digest (a named hypothesis on the calls). For the state
  machine: the invariant, agreement of replicas, snapshots. For the workers: what a sweep,
  a repair and a reconciliation change. For storage nodes: refinement of a map, containment
  of faults, exact streams. For the clients: bounded retries, and calls that reach the leader once.
  Some theorems record behaviour that is not wanted, for example
  \<open>restored_leader_buries_all_nodes\<close>, \<open>restart_loses_accounting\<close>, \<open>backoff_never_grows\<close>,
  \<open>apply_depends_on_order\<close> and \<open>redirect_names_leader\<close>.

  \<^bold>\<open>Loops.\<close> Loops over data are structural or have a termination proof. The loops that wait for a
  peer (\<open>get_loop\<close>, \<open>send_loop\<close>, \<open>wait_loop\<close>) are partial functions in the option monad, where \<open>None\<close> is a
  loop that does not end, and are shown to return. Loops that run as long as the process (the watcher, the heartbeats,
  the repair workers) are functions of the sequence of their ticks or step relations. No
  definition uses fuel.

  \<^bold>\<open>Parameters.\<close> Raft (what applying a command to the log returns), bbolt, gRPC
  streams and connections (functions with faults), the operating system's faults, UUIDs, clocks,
  jitter, and the result of sorting with \<open>sort.Slice\<close> (any sorted permutation).

  \<^bold>\<open>Not modelled.\<close> The Raft protocol itself: it is a library. The code generated
  from the proto files; its messages are records. Logging. The command line programs apart from the choice of the
  node id; the wiring of gRPC servers; the thin client that carries a deletion from the reconciler to a node;
  the mock clients and the test helpers. \<open>NewStream\<close> of the leader-aware client, which has no callers. \<open>Percent\<close> and
  the progress callback of a download. The goroutines of one upload or one download run one
  after the other, in any order: interleavings within two chunk transfers are
  considered only for the progress counter and for two writers of one chunk. In
  the theories on the whole system the disks do not fail, and one metadata server leads throughout.
\<close>

end
